(* ===== verification/Prelude.thy ===== *)
theory Prelude
  imports Main "HOL-Library.AList" "HOL-Library.Sublist" "HOL-Library.List_Lexorder" "HOL-Library.Char_ord"
begin

text \<open>
  What the components share: the exceptions the modelled Python raises as a datatype, results
  and stateful computations that may raise, Python's text operations, Python's dictionaries as
  association lists, and the interface of a transition system with an invariant.

  Python text is represented by the list of its UTF-8 bytes (one \<open>char\<close> is one byte).
  The operations the program uses on text (equality, \<open>startswith\<close>, \<open>endswith\<close>,
  \<open>split\<close> at an ASCII separator, \<open>join\<close>, \<open>strip\<close>, \<open>format\<close>) act on the encoding as they
  act on the code points, because no character's encoding occurs inside another's.
\<close>

named_theorems py_simps \<open>evaluation of results and of Python's text operations\<close>
named_theorems inv_intros \<open>one-step preservation of the components' invariants\<close>

section \<open>Exceptions, results, stateful computations\<close>

datatype py_exc =
    KeyError string
  | IndexError
  | ValueError
  | TypeError
  | AttributeError string
  | UnboundLocalError string
  | UnicodeDecodeError
  | NotImplementedError
  | OSError int
  | UserError string  \<comment> \<open>an exception class the program declares itself, by its name\<close>

type_synonym 'a res = "py_exc + 'a"

fun bind_res :: "'a res \<Rightarrow> ('a \<Rightarrow> 'b res) \<Rightarrow> 'b res" where
  "bind_res (Inl e) k = Inl e"
| "bind_res (Inr a) k = k a"

lemma bind_res_Inr_iff [py_simps]:
  "bind_res r k = Inr b \<longleftrightarrow> (\<exists>a. r = Inr a \<and> k a = Inr b)"
  by (cases r) auto

lemma bind_res_Inl_iff [py_simps]:
  "bind_res r k = Inl e \<longleftrightarrow> r = Inl e \<or> (\<exists>a. r = Inr a \<and> k a = Inl e)"
  by (cases r) auto

lemma bind_res_assoc: "bind_res (bind_res r k) l = bind_res r (\<lambda>a. bind_res (k a) l)"
  by (cases r) auto

lemma bind_res_cong [fundef_cong]:
  "r = r' \<Longrightarrow> (\<And>a. r' = Inr a \<Longrightarrow> k a = k' a) \<Longrightarrow> bind_res r k = bind_res r' k'"
  by (cases r') auto

text \<open>
  A method that mutates shared state returns its result beside the state it leaves; the state
  is there after a raise too, since Python does not undo what was done before the exception.
\<close>

type_synonym ('s, 'a) py = "'s \<Rightarrow> 'a res \<times> 's"

definition py_return :: "'a \<Rightarrow> ('s, 'a) py" where
  "py_return a = (\<lambda>s. (Inr a, s))"

definition py_raise :: "py_exc \<Rightarrow> ('s, 'a) py" where
  "py_raise e = (\<lambda>s. (Inl e, s))"

definition py_lift :: "'a res \<Rightarrow> ('s, 'a) py" where
  "py_lift r = (\<lambda>s. (r, s))"

definition py_bind :: "('s, 'a) py \<Rightarrow> ('a \<Rightarrow> ('s, 'b) py) \<Rightarrow> ('s, 'b) py" where
  "py_bind m k = (\<lambda>s. case m s of (Inl e, s') \<Rightarrow> (Inl e, s') | (Inr a, s') \<Rightarrow> k a s')"

definition py_modify :: "('s \<Rightarrow> 's) \<Rightarrow> ('s, unit) py" where
  "py_modify f = (\<lambda>s. (Inr (), f s))"

definition py_get :: "('s, 's) py" where
  "py_get = (\<lambda>s. (Inr s, s))"

lemma py_get_apply [simp]: "py_get s = (Inr s, s)"
  by (simp add: py_get_def)

lemma py_return_apply [simp]: "py_return a s = (Inr a, s)"
  by (simp add: py_return_def)

lemma py_raise_apply [simp]: "py_raise e s = (Inl e, s)"
  by (simp add: py_raise_def)

lemma py_lift_apply [simp]: "py_lift r s = (r, s)"
  by (simp add: py_lift_def)

lemma py_modify_apply [simp]: "py_modify f s = (Inr (), f s)"
  by (simp add: py_modify_def)

lemma py_bind_apply [simp]:
  "py_bind m k s = (case m s of (Inl e, s') \<Rightarrow> (Inl e, s') | (Inr a, s') \<Rightarrow> k a s')"
  by (simp add: py_bind_def)

text \<open>
  A computation keeps a relation when the state before and the state after are always in it,
  however the computation ends. For a preorder the parts of a composed computation give the
  whole.
\<close>

definition keeps :: "('s \<Rightarrow> 's \<Rightarrow> bool) \<Rightarrow> ('s, 'a) py \<Rightarrow> bool" where
  "keeps R m \<longleftrightarrow> (\<forall>s. R s (snd (m s)))"

definition preorder_on_states :: "('s \<Rightarrow> 's \<Rightarrow> bool) \<Rightarrow> bool" where
  "preorder_on_states R \<longleftrightarrow> reflp R \<and> transp R"

named_theorems keeps_intros \<open>a relation kept by a composed computation, part by part\<close>

lemma keepsD: "keeps R m \<Longrightarrow> R s (snd (m s))"
  by (simp add: keeps_def)

lemma keeps_return [keeps_intros]: "preorder_on_states R \<Longrightarrow> keeps R (py_return a)"
  by (auto simp: keeps_def preorder_on_states_def reflp_def)

lemma keeps_raise [keeps_intros]: "preorder_on_states R \<Longrightarrow> keeps R (py_raise e)"
  by (auto simp: keeps_def preorder_on_states_def reflp_def)

lemma keeps_lift [keeps_intros]: "preorder_on_states R \<Longrightarrow> keeps R (py_lift r)"
  by (auto simp: keeps_def preorder_on_states_def reflp_def)

lemma keeps_get [keeps_intros]: "preorder_on_states R \<Longrightarrow> keeps R py_get"
  by (auto simp: keeps_def preorder_on_states_def reflp_def)

lemma keeps_modify: "(\<And>s. R s (f s)) \<Longrightarrow> keeps R (py_modify f)"
  by (auto simp: keeps_def)

lemma keeps_bind [keeps_intros]:
  assumes R: "preorder_on_states R" and m: "keeps R m" and k: "\<And>a. keeps R (k a)"
  shows "keeps R (py_bind m k)"
proof -
  have "R s (snd (py_bind m k s))" for s
  proof (cases "m s")
    case (Pair r t)
    with m have st: "R s t" by (metis keepsD snd_conv)
    show ?thesis
    proof (cases r)
      case (Inl e)
      with Pair st show ?thesis by simp
    next
      case (Inr a)
      have "R t (snd (k a t))" using k by (rule keepsD)
      with st R Inr Pair show ?thesis
        by (auto simp: preorder_on_states_def elim: transpE)
    qed
  qed
  then show ?thesis by (simp add: keeps_def)
qed

lemma keeps_if [keeps_intros]:
  "keeps R a \<Longrightarrow> keeps R b \<Longrightarrow> keeps R (if c then a else b)"
  by simp

lemma keeps_case_option [keeps_intros]:
  "keeps R a \<Longrightarrow> (\<And>x. keeps R (b x)) \<Longrightarrow> keeps R (case v of None \<Rightarrow> a | Some x \<Rightarrow> b x)"
  by (cases v) auto

lemma keeps_case_res [keeps_intros]:
  "(\<And>x. keeps R (a x)) \<Longrightarrow> (\<And>x. keeps R (b x)) \<Longrightarrow> keeps R (case v of Inl x \<Rightarrow> a x | Inr x \<Rightarrow> b x)"
  by (cases v) auto

lemma keeps_case_prod [keeps_intros]:
  "(\<And>x y. keeps R (b x y)) \<Longrightarrow> keeps R (case v of (x, y) \<Rightarrow> b x y)"
  by (cases v) auto

text \<open>The same where the choice depends on the state.\<close>

lemma keeps_if_state [keeps_intros]:
  "keeps R a \<Longrightarrow> keeps R b \<Longrightarrow> keeps R (\<lambda>s. if P s then a s else b s)"
  by (simp add: keeps_def)

lemma keeps_case_option_state [keeps_intros]:
  "keeps R a \<Longrightarrow> (\<And>x. keeps R (b x)) \<Longrightarrow>
     keeps R (\<lambda>s. case f s of None \<Rightarrow> a s | Some x \<Rightarrow> b x s)"
  by (auto simp: keeps_def split: option.split)

lemma keeps_case_prod_state [keeps_intros]:
  "(\<And>x y. keeps R (b x y)) \<Longrightarrow> keeps R (\<lambda>s. case v of (x, y) \<Rightarrow> b x y s)"
  by (cases v) auto

section \<open>Python text\<close>

definition starts_with :: "string \<Rightarrow> string \<Rightarrow> bool" where
  "starts_with s p = (take (length p) s = p)"

definition ends_with :: "string \<Rightarrow> string \<Rightarrow> bool" where
  "ends_with s p = (length p \<le> length s \<and> drop (length s - length p) s = p)"

lemma starts_with_append [simp]: "starts_with (p @ s) p"
  by (simp add: starts_with_def)

lemma starts_with_iff: "starts_with s p \<longleftrightarrow> (\<exists>t. s = p @ t)"
  by (metis append_take_drop_id starts_with_append starts_with_def)

lemma ends_with_append [simp]: "ends_with (s @ p) p"
  by (simp add: ends_with_def)

lemma ends_with_iff: "ends_with s p \<longleftrightarrow> (\<exists>t. s = t @ p)"
  by (metis append_take_drop_id ends_with_append ends_with_def)

text \<open>\<open>sep.join(parts)\<close>\<close>

fun join :: "string \<Rightarrow> string list \<Rightarrow> string" where
  "join sep [] = []"
| "join sep [x] = x"
| "join sep (x # y # xs) = x @ sep @ join sep (y # xs)"

text \<open>
  \<open>s.split(sep)\<close> for a separator that is not empty: leftmost, non-overlapping. The result is
  never the empty list.
\<close>

function split_str :: "string \<Rightarrow> string \<Rightarrow> string list" where
  "split_str sep [] = [[]]"
| "split_str sep (c # cs) =
     (if sep \<noteq> [] \<and> starts_with (c # cs) sep
      then [] # split_str sep (drop (length sep - 1) cs)
      else (case split_str sep cs of [] \<Rightarrow> [[c]] | w # ws \<Rightarrow> (c # w) # ws))"
  by pat_completeness auto
termination
  by (relation "measure (\<lambda>(sep, s). length s)") (auto simp: less_Suc_eq_le)

lemma split_str_not_Nil [simp]: "split_str sep s \<noteq> []"
  by (cases s) (auto split: list.split)

lemma join_Cons: "xs \<noteq> [] \<Longrightarrow> join sep (x # xs) = x @ sep @ join sep xs"
  by (cases xs) auto

lemma join_Cons_char: "join sep ((c # w) # ws) = c # join sep (w # ws)"
  by (cases ws) auto

text \<open>Splitting and joining again gives the text back.\<close>

lemma join_split_str: "join sep (split_str sep s) = s"
proof (induction sep s rule: split_str.induct)
  case (1 sep)
  then show ?case by simp
next
  case (2 sep c cs)
  show ?case
  proof (cases "sep \<noteq> [] \<and> starts_with (c # cs) sep")
    case True
    then have "sep @ drop (length sep - 1) cs = c # cs"
      by (cases sep) (auto simp: starts_with_iff)
    with True 2 show ?thesis by (simp add: join_Cons)
  next
    case False
    with 2 show ?thesis
      by (auto simp: join_Cons_char split: list.split)
  qed
qed

text \<open>A one-character separator occurs in no piece.\<close>

lemma split_str_no_sep: "w \<in> set (split_str [d] s) \<Longrightarrow> d \<notin> set w"
proof (induction s arbitrary: w)
  case (Cons c cs)
  then show ?case
    by (cases "split_str [d] cs") (auto simp: starts_with_def split: if_splits)
qed simp

lemma split_str_no_occurrence: "d \<notin> set s \<Longrightarrow> split_str [d] s = [s]"
  by (induction s) (auto simp: starts_with_def)

text \<open>
  Joining pieces that do not hold the first character of the separator, and splitting again,
  gives the pieces back.
\<close>

lemma split_str_append:
  "sep \<noteq> [] \<Longrightarrow> hd sep \<notin> set w \<Longrightarrow> split_str sep (w @ sep @ s) = w # split_str sep s"
proof (induction w)
  case Nil
  then obtain d ds where "sep = d # ds" by (cases sep) auto
  then show ?case by (simp add: starts_with_def)
next
  case (Cons c w)
  then have "\<not> starts_with (c # w @ sep @ s) sep"
    by (cases sep) (auto simp: starts_with_def)
  with Cons show ?case by simp
qed

lemma split_str_single: "sep \<noteq> [] \<Longrightarrow> hd sep \<notin> set w \<Longrightarrow> split_str sep w = [w]"
proof (induction w)
  case (Cons c w)
  then have "\<not> starts_with (c # w) sep"
    by (cases sep) (auto simp: starts_with_def)
  with Cons show ?case by simp
qed simp

lemma split_str_join:
  assumes "sep \<noteq> []" and "ws \<noteq> []" and "\<forall>w \<in> set ws. hd sep \<notin> set w"
  shows "split_str sep (join sep ws) = ws"
  using assms
proof (induction ws rule: induct_list012)
  case (3 x y zs)
  then show ?case by (simp add: split_str_append del: split_str.simps)
qed (auto simp: split_str_single)

text \<open>\<open>s.split(d, 1)\<close> where \<open>d\<close> occurs: the text before the first \<open>d\<close> and the text after it.\<close>

definition split_once :: "char \<Rightarrow> string \<Rightarrow> (string \<times> string) option" where
  "split_once d s = (if d \<in> set s
     then Some (takeWhile (\<lambda>c. c \<noteq> d) s, tl (dropWhile (\<lambda>c. c \<noteq> d) s)) else None)"

lemma split_once_Some: "split_once d s = Some (a, b) \<Longrightarrow> s = a @ d # b \<and> d \<notin> set a"
proof -
  assume "split_once d s = Some (a, b)"
  then have d: "d \<in> set s" and a: "a = takeWhile (\<lambda>c. c \<noteq> d) s"
    and b: "b = tl (dropWhile (\<lambda>c. c \<noteq> d) s)"
    by (auto simp: split_once_def split: if_splits)
  from d have "dropWhile (\<lambda>c. c \<noteq> d) s = d # b"
    by (metis (mono_tags) b dropWhile_eq_Nil_conv hd_dropWhile list.collapse)
  with a show ?thesis
    by (metis (mono_tags) set_takeWhileD takeWhile_dropWhile_id)
qed

lemma split_str_snoc: "split_str [d] (s @ [d]) = split_str [d] s @ [[]]"
  by (induction s) (auto simp: starts_with_def split: list.split)

lemma split_once_append: "d \<notin> set a \<Longrightarrow> split_once d (a @ d # b) = Some (a, b)"
  by (induction a) (auto simp: split_once_def)

text \<open>\<open>s.strip(chars)\<close>\<close>

definition lstrip_chars :: "string \<Rightarrow> string \<Rightarrow> string" where
  "lstrip_chars cs s = dropWhile (\<lambda>c. c \<in> set cs) s"

definition rstrip_chars :: "string \<Rightarrow> string \<Rightarrow> string" where
  "rstrip_chars cs s = rev (dropWhile (\<lambda>c. c \<in> set cs) (rev s))"

definition strip_chars :: "string \<Rightarrow> string \<Rightarrow> string" where
  "strip_chars cs s = rstrip_chars cs (lstrip_chars cs s)"

text \<open>
  \<open>s.strip()\<close> removes the characters that Python counts as white space, here by their
  UTF-8 encodings (no encoding is a prefix of another one).
\<close>

definition py_spaces :: "string list" where
  "py_spaces =
     [[CHR 0x20], [CHR 0x09], [CHR 0x0A], [CHR 0x0B], [CHR 0x0C], [CHR 0x0D],
      [CHR 0x1C], [CHR 0x1D], [CHR 0x1E], [CHR 0x1F],
      [CHR 0xC2, CHR 0x85], [CHR 0xC2, CHR 0xA0], [CHR 0xE1, CHR 0x9A, CHR 0x80],
      [CHR 0xE2, CHR 0x80, CHR 0x80], [CHR 0xE2, CHR 0x80, CHR 0x81],
      [CHR 0xE2, CHR 0x80, CHR 0x82], [CHR 0xE2, CHR 0x80, CHR 0x83],
      [CHR 0xE2, CHR 0x80, CHR 0x84], [CHR 0xE2, CHR 0x80, CHR 0x85],
      [CHR 0xE2, CHR 0x80, CHR 0x86], [CHR 0xE2, CHR 0x80, CHR 0x87],
      [CHR 0xE2, CHR 0x80, CHR 0x88], [CHR 0xE2, CHR 0x80, CHR 0x89],
      [CHR 0xE2, CHR 0x80, CHR 0x8A], [CHR 0xE2, CHR 0x80, CHR 0xA8],
      [CHR 0xE2, CHR 0x80, CHR 0xA9], [CHR 0xE2, CHR 0x80, CHR 0xAF],
      [CHR 0xE2, CHR 0x81, CHR 0x9F], [CHR 0xE3, CHR 0x80, CHR 0x80]]"

function lstrip_any :: "string list \<Rightarrow> string \<Rightarrow> string" where
  "lstrip_any ws s =
     (case find (\<lambda>w. w \<noteq> [] \<and> starts_with s w) ws of
        None \<Rightarrow> s
      | Some w \<Rightarrow> lstrip_any ws (drop (length w) s))"
  by pat_completeness auto
termination
proof (relation "measure (\<lambda>(ws, s). length s)")
  fix ws s w
  assume "find (\<lambda>w. w \<noteq> [] \<and> starts_with s w) ws = Some w"
  then have "w \<noteq> []" and "starts_with s w"
    by (auto simp: find_Some_iff)
  then show "((ws, drop (length w) s), (ws, s)) \<in> measure (\<lambda>(ws, s). length s)"
    by (cases w) (auto simp: starts_with_iff)
qed simp

declare lstrip_any.simps [simp del]

definition strip_space :: "string \<Rightarrow> string" where
  "strip_space s = rev (lstrip_any (map rev py_spaces) (rev (lstrip_any py_spaces s)))"

lemma lstrip_any_no_prefix:
  "w \<in> set ws \<Longrightarrow> w \<noteq> [] \<Longrightarrow> \<not> starts_with (lstrip_any ws s) w"
proof (induction ws s rule: lstrip_any.induct)
  case (1 ws s)
  show ?case
  proof (cases "find (\<lambda>w. w \<noteq> [] \<and> starts_with s w) ws")
    case None
    then have "\<not> starts_with s w" using "1.prems" by (auto simp: find_None_iff)
    with None show ?thesis by (simp add: lstrip_any.simps [of ws s])
  next
    case (Some a)
    with 1 show ?thesis by (simp add: lstrip_any.simps [of ws s])
  qed
qed

lemma lstrip_any_idem: "lstrip_any ws (lstrip_any ws s) = lstrip_any ws s"
proof -
  have "find (\<lambda>w. w \<noteq> [] \<and> starts_with (lstrip_any ws s) w) ws = None"
    by (auto simp: find_None_iff dest: lstrip_any_no_prefix)
  then show ?thesis by (subst lstrip_any.simps) simp
qed

lemma strip_space_blank: "strip_space (CHR 0x20 # s) = strip_space s"
proof -
  have "find (\<lambda>w. w \<noteq> [] \<and> starts_with (CHR 0x20 # s) w) py_spaces = Some [CHR 0x20]"
    by (simp add: py_spaces_def starts_with_def)
  then have "lstrip_any py_spaces (CHR 0x20 # s) = lstrip_any py_spaces s"
    by (subst lstrip_any.simps) simp
  then show ?thesis by (simp add: strip_space_def)
qed

lemma py_spaces_nonempty: "w \<in> set py_spaces \<Longrightarrow> w \<noteq> []"
  by (auto simp: py_spaces_def)

lemma lstrip_any_id:
  assumes "\<And>w. w \<in> set ws \<Longrightarrow> w \<noteq> [] \<Longrightarrow> \<not> starts_with s w"
  shows "lstrip_any ws s = s"
proof -
  have "find (\<lambda>w. w \<noteq> [] \<and> starts_with s w) ws = None"
    using assms by (auto simp: find_None_iff)
  then show ?thesis by (subst lstrip_any.simps) simp
qed

text \<open>Text that neither begins nor ends like white space is not changed by \<open>strip\<close>.\<close>

lemma strip_space_id:
  assumes "hd s \<notin> hd ` set py_spaces" and "last s \<notin> last ` set py_spaces"
  shows "strip_space s = s"
proof (cases "s = []")
  case True
  then show ?thesis
    by (simp add: strip_space_def lstrip_any_id starts_with_def py_spaces_nonempty)
next
  case False
  have "lstrip_any py_spaces s = s"
  proof (rule lstrip_any_id)
    fix w assume w: "w \<in> set py_spaces" "w \<noteq> []"
    show "\<not> starts_with s w"
    proof
      assume "starts_with s w"
      then have "hd s = hd w" using w by (auto simp: starts_with_iff hd_append)
      with assms(1) w show False by auto
    qed
  qed
  moreover have "lstrip_any (map rev py_spaces) (rev s) = rev s"
  proof (rule lstrip_any_id)
    fix w assume w: "w \<in> set (map rev py_spaces)" "w \<noteq> []"
    then obtain v where v: "v \<in> set py_spaces" "w = rev v" by auto
    show "\<not> starts_with (rev s) w"
    proof
      assume "starts_with (rev s) w"
      then have "hd (rev s) = hd (rev v)" using v w by (auto simp: starts_with_iff hd_append)
      then have "last s = last v" using False v w by (simp add: hd_rev)
      with assms(2) v show False by auto
    qed
  qed
  ultimately show ?thesis by (simp add: strip_space_def)
qed

lemma lstrip_chars_idem [simp]: "lstrip_chars cs (lstrip_chars cs s) = lstrip_chars cs s"
  by (simp add: lstrip_chars_def)

lemma rstrip_chars_idem [simp]: "rstrip_chars cs (rstrip_chars cs s) = rstrip_chars cs s"
  by (simp add: rstrip_chars_def)

section \<open>Decimal numbers\<close>

definition digit_char :: "nat \<Rightarrow> char" where
  "digit_char d = ''0123456789'' ! d"

fun str_nat :: "nat \<Rightarrow> string" where
  "str_nat n = (if n < 10 then [digit_char n] else str_nat (n div 10) @ [digit_char (n mod 10)])"

declare str_nat.simps [simp del]

definition str_int :: "int \<Rightarrow> string" where
  "str_int i = (if i < 0 then CHR ''-'' # str_nat (nat (- i)) else str_nat (nat i))"

definition digit_val :: "char \<Rightarrow> nat option" where
  "digit_val c = (let n = of_char c :: nat in if 48 \<le> n \<and> n \<le> 57 then Some (n - 48) else None)"

fun nat_of_digits :: "nat \<Rightarrow> string \<Rightarrow> nat option" where
  "nat_of_digits acc [] = Some acc"
| "nat_of_digits acc (c # cs) =
     (case digit_val c of None \<Rightarrow> None | Some d \<Rightarrow> nat_of_digits (10 * acc + d) cs)"

lemma less_10_cases:
  "(n::nat) < 10 \<Longrightarrow> n = 0 \<or> n = 1 \<or> n = 2 \<or> n = 3 \<or> n = 4 \<or> n = 5 \<or> n = 6 \<or> n = 7 \<or> n = 8 \<or> n = 9"
  by arith

lemma digit_val_char: "n < 10 \<Longrightarrow> digit_val (digit_char n) = Some n"
  by (drule less_10_cases) (elim disjE; simp add: digit_val_def digit_char_def)

lemma nat_of_digits_append:
  "nat_of_digits acc (s @ t) =
     (case nat_of_digits acc s of None \<Rightarrow> None | Some a \<Rightarrow> nat_of_digits a t)"
  by (induction s arbitrary: acc) (auto split: option.split)

lemma nat_of_digits_str_nat: "nat_of_digits 0 (str_nat n) = Some n"
proof (induction n rule: str_nat.induct)
  case (1 n)
  then show ?case
    by (cases "n < 10")
      (simp_all add: str_nat.simps [of n] nat_of_digits_append digit_val_char)
qed

lemma str_nat_inject: "str_nat m = str_nat n \<longleftrightarrow> m = n"
  by (metis nat_of_digits_str_nat option.inject)

lemma str_nat_digits: "set (str_nat n) \<subseteq> set ''0123456789''"
proof (induction n rule: str_nat.induct)
  case (1 n)
  have d: "k < 10 \<Longrightarrow> digit_char k \<in> set ''0123456789''" for k
    by (auto simp: digit_char_def intro!: nth_mem simp del: list.set)
  show ?case
  proof (cases "n < 10")
    case True
    then show ?thesis using d [of n] by (simp add: str_nat.simps [of n])
  next
    case False
    with 1 have "set (str_nat (n div 10)) \<subseteq> set ''0123456789''" by simp
    with False d [of "n mod 10"] show ?thesis by (simp add: str_nat.simps [of n])
  qed
qed

section \<open>Python dictionaries\<close>

text \<open>
  A dictionary whose insertion order or content is handed on (to the log) is an association
  list with \<open>AList.update\<close>, which keeps a key's place as Python's assignment does.
\<close>

datatype pyval =
    PNone
  | PBool bool
  | PInt int
  | PStr string
  | PDict "(string \<times> string) list"

type_synonym pydict = "(string \<times> pyval) list"

definition dict_set :: "string \<Rightarrow> 'v \<Rightarrow> (string \<times> 'v) list \<Rightarrow> (string \<times> 'v) list" where
  "dict_set k v d = AList.update k v d"

definition dict_has :: "string \<Rightarrow> (string \<times> 'v) list \<Rightarrow> bool" where
  "dict_has k d = (k \<in> set (map fst d))"

lemma dict_get_set [simp]: "map_of (dict_set k v d) = (map_of d)(k \<mapsto> v)"
  by (simp add: dict_set_def update_conv' fun_eq_iff)

lemma dict_has_iff: "dict_has k d \<longleftrightarrow> map_of d k \<noteq> None"
  by (simp add: dict_has_def map_of_eq_None_iff)

lemma dict_keys_distinct: "distinct (map fst d) \<Longrightarrow> distinct (map fst (dict_set k v d))"
  by (simp add: dict_set_def distinct_update)

text \<open>A lookup \<open>d[k]\<close> in a dictionary used for lookups only.\<close>

definition getitem :: "(string \<rightharpoonup> 'v) \<Rightarrow> string \<Rightarrow> 'v res" where
  "getitem m k = (case m k of None \<Rightarrow> Inl (KeyError k) | Some v \<Rightarrow> Inr v)"

lemma getitem_Inr [py_simps]: "getitem m k = Inr v \<longleftrightarrow> m k = Some v"
  by (auto simp: getitem_def split: option.split)

lemma getitem_Inl [py_simps]: "getitem m k = Inl e \<longleftrightarrow> m k = None \<and> e = KeyError k"
  by (auto simp: getitem_def split: option.split)

text \<open>\<open>xs[i]\<close> for a constant \<open>i\<close> that is not negative.\<close>

definition index :: "'a list \<Rightarrow> nat \<Rightarrow> 'a res" where
  "index xs i = (if i < length xs then Inr (xs ! i) else Inl IndexError)"

lemma index_Inr [py_simps]: "index xs i = Inr x \<longleftrightarrow> i < length xs \<and> xs ! i = x"
  by (auto simp: index_def)

text \<open>The line ending of SIP messages.\<close>

definition crlf :: string where
  "crlf = [CHR 0x0D, CHR 0x0A]"

section \<open>Transition systems with an invariant\<close>

text \<open>
  The interface of every component that keeps state between calls: a start state, the calls as
  labels, what a call leaves, and an invariant. A client of the interface learns that the
  invariant holds after every sequence of calls.
\<close>

locale transition_system =
  fixes start :: 's
    and step :: "'l \<Rightarrow> 's \<Rightarrow> 's"
    and inv :: "'s \<Rightarrow> bool"
  assumes inv_start: "inv start"
    and inv_step: "inv s \<Longrightarrow> inv (step l s)"
begin

lemma inv_run: "inv s \<Longrightarrow> inv (fold step ls s)"
  by (induction ls arbitrary: s) (auto simp: inv_step)

lemma inv_reachable: "inv (fold step ls start)"
  by (rule inv_run) (rule inv_start)

end

end
