(* ===== verification/SipSession.thy ===== *)
theory SipSession
  imports Prelude
begin

text \<open>
  The shipped configuration \<open>src/src/config.json\<close> and the call object of
  \<open>src/src/sipsession.py\<close>: its states, the constructor with the two answers it prepares, and
  its handlers for ACK and BYE.
\<close>

section \<open>Configuration\<close>

record sip_config =
  cfg_ip :: string
  cfg_port :: int
  cfg_user :: string
  cfg_useragent :: string
  cfg_secret :: string
  cfg_use_authentication :: bool
  cfg_bad_answers :: "(string \<times> string) list"

definition config_json :: sip_config where
  "config_json =
     \<lparr>cfg_ip = ''188.227.85.59'', cfg_port = 5060, cfg_user = ''100'',
      cfg_useragent = ''softphone'', cfg_secret = ''F2DS13G5'', cfg_use_authentication = True,
      cfg_bad_answers =
       [(''400'', ''400 Bad Request''),
        (''401'', ''401 Unauthorized''),
        (''402'', ''402 Payment Required''),
        (''403'', ''403 Forbidden''),
        (''404'', ''404 Not Found''),
        (''405'', ''405 Method Not Allowed''),
        (''406'', ''406 Not Acceptable''),
        (''407'', ''407 Proxy Authentication Required''),
        (''408'', ''408 Request Timeout''),
        (''410'', ''410 Gone''),
        (''413'', ''413 Request Entity Too Large''),
        (''414'', ''414 Request-URI Too Large''),
        (''415'', ''415 Unsupported Media Type''),
        (''416'', ''416 Unsupported URI Scheme''),
        (''420'', ''420 Bad Extension''),
        (''421'', ''421 Extension Required''),
        (''423'', ''423 Interval Too Brief''),
        (''480'', ''480 Temporarily Unavailable''),
        (''481'', ''481 Call/Transaction Does Not Exist''),
        (''482'', ''482 Loop Detected''),
        (''483'', ''483 Too Many Hops''),
        (''484'', ''484 Address Incomplete''),
        (''485'', ''485 Ambiguous''),
        (''486'', ''486 Busy Here''),
        (''487'', ''487 Request Terminated''),
        (''488'', ''488 Not Acceptable Here''),
        (''491'', ''491 Request Pending''),
        (''493'', ''493 Undecipherable'')]\<rparr>"

section \<open>The call object\<close>

text \<open>\<open>range(4)\<close> numbers the states in this order.\<close>

datatype sip_state = NO_SESSION | SESSION_SETUP | ACTIVE_SESSION | SESSION_TEARDOWN

fun sip_state_num :: "sip_state \<Rightarrow> nat" where
  "sip_state_num NO_SESSION = 0"
| "sip_state_num SESSION_SETUP = 1"
| "sip_state_num ACTIVE_SESSION = 2"
| "sip_state_num SESSION_TEARDOWN = 3"

lemma sip_state_num_inject: "sip_state_num a = sip_state_num b \<longleftrightarrow> a = b"
  by (cases a; cases b) auto

instantiation sip_state :: linorder
begin

definition less_eq_sip_state :: "sip_state \<Rightarrow> sip_state \<Rightarrow> bool" where
  "less_eq_sip_state a b \<longleftrightarrow> sip_state_num a \<le> sip_state_num b"

definition less_sip_state :: "sip_state \<Rightarrow> sip_state \<Rightarrow> bool" where
  "less_sip_state a b \<longleftrightarrow> sip_state_num a < sip_state_num b"

instance
  by standard (auto simp: less_eq_sip_state_def less_sip_state_def sip_state_num_inject)

end

type_synonym headers = "(string \<times> string) list"

text \<open>\<open>msg_bye\<close> is an attribute only after \<open>handle_BYE\<close>.\<close>

record sip_session =
  inviteHeaders :: headers
  sip_state :: sip_state
  remoteAddress :: string
  remoteSipPort :: int
  remoteRtpPort :: string
  sipTo :: string
  sipFrom :: string
  sipVia :: string
  msg_ringing :: string
  msg_ok :: string
  msg_bye :: "string option"

text \<open>
  The class variable \<open>sipConnection\<close> starts as \<open>None\<close> and no code of the repository assigns
  it. The constructor does all its work under \<open>if not SipSession.sipConnection\<close>; were it set,
  the object would have no attributes, and the first read of one (\<open>msg_ringing\<close>) would raise.
\<close>

definition sipConnection :: "string option" where
  "sipConnection = None"

text \<open>The To line: the user's name, then its SIP address at the client's IP in angle brackets.\<close>

definition sip_uri_line :: "string \<Rightarrow> string \<Rightarrow> string" where
  "sip_uri_line user ip = user @ '' <sip:'' @ user @ ''@'' @ ip @ ''>''"

definition session_answer_lines ::
  "sip_config \<Rightarrow> string \<Rightarrow> string \<Rightarrow> string \<Rightarrow> string \<Rightarrow> string \<Rightarrow> string \<Rightarrow> string list" where
  "session_answer_lines cfg status via to frm callid cseq =
     [''SIP/2.0 '' @ status,
      ''Via: '' @ via,
      ''Max-Forwards: 70'',
      ''To: '' @ to,
      ''From: '' @ frm,
      ''Call-ID: '' @ callid,
      ''CSeq: '' @ cseq,
      ''Contact: '' @ frm,
      ''User-Agent: '' @ cfg_useragent cfg]"

definition SipSession_init ::
  "sip_config \<Rightarrow> string \<times> int \<Rightarrow> string \<Rightarrow> headers \<Rightarrow> sip_session res" where
  "SipSession_init cfg conInfo rtpPort invite =
     (if sipConnection = None then
        bind_res (getitem (map_of invite) ''From'') (\<lambda>to.
        let frm = sip_uri_line (cfg_user cfg) (cfg_ip cfg);
            via = ''SIP/2.0/UDP '' @ cfg_ip cfg @ '':'' @ str_int (cfg_port cfg)
        in bind_res (getitem (map_of invite) ''Call-ID'') (\<lambda>callid.
        let ringing = session_answer_lines cfg ''180 Ringing'' via to frm callid ''1 INVITE'';
            ok = session_answer_lines cfg ''200 OK'' via to frm callid ''1 INVITE'' @
                 [''Content-Type: application/sdp'',
                  CHR 0x0A # ''v=0'',
                  ''o=... 0 0 IN IP4 localhost'',
                  ''t=0 0'',
                  ''m=audio '' @ str_int (cfg_port cfg) @ '' RTP/AVP 0'']
        in Inr \<lparr>inviteHeaders = invite, sip_state = SESSION_SETUP,
                remoteAddress = fst conInfo, remoteSipPort = snd conInfo,
                remoteRtpPort = rtpPort, sipTo = to, sipFrom = frm, sipVia = via,
                msg_ringing = join crlf ringing, msg_ok = join crlf ok, msg_bye = None\<rparr>))
      else Inl (AttributeError ''msg_ringing''))"

definition handle_ACK :: "sip_session \<Rightarrow> sip_session" where
  "handle_ACK s = (if sip_state s = SESSION_SETUP then s\<lparr>sip_state := ACTIVE_SESSION\<rparr> else s)"

text \<open>
  The Call-ID was read by the constructor, so the read here raises only for an object that
  the constructor did not make.
\<close>

definition handle_BYE :: "sip_config \<Rightarrow> sip_session \<Rightarrow> sip_session res" where
  "handle_BYE cfg s =
     bind_res (getitem (map_of (inviteHeaders s)) ''Call-ID'') (\<lambda>callid.
       Inr (s\<lparr>sip_state := NO_SESSION,
              msg_bye := Some (join crlf
                (session_answer_lines cfg ''200 OK'' (sipVia s) (sipTo s) (sipFrom s) callid
                   ''1 BYE''))\<rparr>))"

section \<open>What a call object keeps\<close>

text \<open>
  A call is set up, active, or ended; its BYE answer exists exactly when it has ended.
\<close>

definition session_ok :: "string \<Rightarrow> sip_session \<Rightarrow> bool" where
  "session_ok callid s \<longleftrightarrow>
     map_of (inviteHeaders s) ''Call-ID'' = Some callid \<and>
     map_of (inviteHeaders s) ''From'' = Some (sipTo s) \<and>
     sip_state s \<noteq> SESSION_TEARDOWN \<and>
     (sip_state s = NO_SESSION \<longleftrightarrow> msg_bye s \<noteq> None)"

lemma SipSession_init_Inr [py_simps]:
  "(\<exists>s. SipSession_init cfg con rtp h = Inr s) \<longleftrightarrow>
     map_of h ''From'' \<noteq> None \<and> map_of h ''Call-ID'' \<noteq> None"
  by (auto simp: SipSession_init_def sipConnection_def Let_def py_simps)

lemma SipSession_init_ok [inv_intros]:
  assumes "SipSession_init cfg con rtp h = Inr s" and "map_of h ''Call-ID'' = Some callid"
  shows "session_ok callid s" and "sip_state s = SESSION_SETUP"
  using assms
  by (auto simp: SipSession_init_def sipConnection_def Let_def py_simps session_ok_def)

lemma handle_ACK_ok [inv_intros]: "session_ok callid s \<Longrightarrow> session_ok callid (handle_ACK s)"
  by (auto simp: handle_ACK_def session_ok_def)

lemma handle_BYE_total:
  "session_ok callid s \<Longrightarrow> \<exists>s'. handle_BYE cfg s = Inr s'"
  by (auto simp: handle_BYE_def session_ok_def py_simps)

lemma handle_BYE_ok [inv_intros]:
  assumes "handle_BYE cfg s = Inr s'" and "session_ok callid s"
  shows "session_ok callid s'" and "sip_state s' = NO_SESSION" and "msg_bye s' \<noteq> None"
  using assms by (auto simp: handle_BYE_def py_simps session_ok_def)

end
