(* ===== verification/Md5.thy ===== *)
theory Md5
  imports Prelude "HOL-Library.Word"
begin

unbundle bit_operations_syntax

text \<open>
  The two library routines of Python whose values the answers of the honeypot depend on:
  \<open>hashlib.md5(..).hexdigest()\<close> on 32-bit words, and the strict UTF-8 check of
  \<open>bytes.decode()\<close>. Both compute, so a concrete digest authentication can be evaluated.
\<close>

section \<open>MD5\<close>

type_synonym u32 = "32 word"

definition md5_shifts :: "nat list" where
  "md5_shifts =
     concat (replicate 4 [7, 12, 17, 22]) @ concat (replicate 4 [5, 9, 14, 20]) @
     concat (replicate 4 [4, 11, 16, 23]) @ concat (replicate 4 [6, 10, 15, 21])"

definition md5_consts :: "u32 list" where
  "md5_consts =
     [0xd76aa478, 0xe8c7b756, 0x242070db, 0xc1bdceee, 0xf57c0faf, 0x4787c62a,
      0xa8304613, 0xfd469501, 0x698098d8, 0x8b44f7af, 0xffff5bb1, 0x895cd7be,
      0x6b901122, 0xfd987193, 0xa679438e, 0x49b40821, 0xf61e2562, 0xc040b340,
      0x265e5a51, 0xe9b6c7aa, 0xd62f105d, 0x02441453, 0xd8a1e681, 0xe7d3fbc8,
      0x21e1cde6, 0xc33707d6, 0xf4d50d87, 0x455a14ed, 0xa9e3e905, 0xfcefa3f8,
      0x676f02d9, 0x8d2a4c8a, 0xfffa3942, 0x8771f681, 0x6d9d6122, 0xfde5380c,
      0xa4beea44, 0x4bdecfa9, 0xf6bb4b60, 0xbebfbc70, 0x289b7ec6, 0xeaa127fa,
      0xd4ef3085, 0x04881d05, 0xd9d4d039, 0xe6db99e5, 0x1fa27cf8, 0xc4ac5665,
      0xf4292244, 0x432aff97, 0xab9423a7, 0xfc93a039, 0x655b59c3, 0x8f0ccc92,
      0xffeff47d, 0x85845dd1, 0x6fa87e4f, 0xfe2ce6e0, 0xa3014314, 0x4e0811a1,
      0xf7537e82, 0xbd3af235, 0x2ad7d2bb, 0xeb86d391]"

definition rotl32 :: "nat \<Rightarrow> u32 \<Rightarrow> u32" where
  "rotl32 n x = push_bit n x OR drop_bit (32 - n) x"

type_synonym md5_state = "u32 \<times> u32 \<times> u32 \<times> u32"

definition md5_round :: "u32 list \<Rightarrow> nat \<times> nat \<times> u32 \<Rightarrow> md5_state \<Rightarrow> md5_state" where
  "md5_round m = (\<lambda>(i, s, k) (a, b, c, d).
     let (f, g) =
       (if i < 16 then ((b AND c) OR (NOT b AND d), i)
        else if i < 32 then ((d AND b) OR (NOT d AND c), (5 * i + 1) mod 16)
        else if i < 48 then (b XOR c XOR d, (3 * i + 5) mod 16)
        else (c XOR (b OR NOT d), (7 * i) mod 16))
     in (d, b + rotl32 s (f + a + k + m ! g), b, c))"

definition md5_schedule :: "(nat \<times> nat \<times> u32) list" where
  "md5_schedule = zip [0..<64] (zip md5_shifts md5_consts)"

definition md5_block :: "u32 list \<Rightarrow> md5_state \<Rightarrow> md5_state" where
  "md5_block m = (\<lambda>(a0, b0, c0, d0).
     let (a, b, c, d) = fold (md5_round m) md5_schedule (a0, b0, c0, d0)
     in (a0 + a, b0 + b, c0 + c, d0 + d))"

fun words_le :: "nat list \<Rightarrow> u32 list" where
  "words_le (a # b # c # d # xs) =
     word_of_nat (a + 256 * (b + 256 * (c + 256 * d))) # words_le xs"
| "words_le _ = []"

fun chunks16 :: "'a list \<Rightarrow> 'a list list" where
  "chunks16 [] = []"
| "chunks16 (x # xs) = (x # take 15 xs) # chunks16 (drop 15 xs)"

fun bytes_le :: "nat \<Rightarrow> nat \<Rightarrow> nat list" where
  "bytes_le 0 v = []"
| "bytes_le (Suc n) v = (v mod 256) # bytes_le n (v div 256)"

definition md5_pad :: "nat list \<Rightarrow> nat list" where
  "md5_pad bs = bs @ [128] @ replicate ((119 - length bs mod 64) mod 64) 0 @ bytes_le 8 (8 * length bs)"

definition hex_digit :: "nat \<Rightarrow> char" where
  "hex_digit d = ''0123456789abcdef'' ! d"

definition hex_byte :: "nat \<Rightarrow> string" where
  "hex_byte b = [hex_digit (b div 16), hex_digit (b mod 16)]"

definition md5_hex :: "string \<Rightarrow> string" where
  "md5_hex s =
     (let (a, b, c, d) = fold md5_block (chunks16 (words_le (md5_pad (map of_char s))))
            (0x67452301, 0xefcdab89, 0x98badcfe, 0x10325476)
      in concat (map hex_byte (concat (map (\<lambda>w. bytes_le 4 (unat w)) [a, b, c, d]))))"

lemma bytes_le_bound: "b \<in> set (bytes_le n v) \<Longrightarrow> b < 256"
  by (induction n arbitrary: v) auto

lemma length_bytes_le [simp]: "length (bytes_le n v) = n"
  by (induction n arbitrary: v) auto

lemma length_concat_hex: "length (concat (map hex_byte bs)) = 2 * length bs"
  by (induction bs) (auto simp: hex_byte_def)

text \<open>A digest is 32 lower-case hexadecimal digits.\<close>

lemma length_md5_hex: "length (md5_hex s) = 32"
  by (simp add: md5_hex_def Let_def length_concat_hex split: prod.split)

lemma hex_digit_in: "d < 16 \<Longrightarrow> hex_digit d \<in> set ''0123456789abcdef''"
  unfolding hex_digit_def by (rule nth_mem) simp

lemma hex_byte_digits: "b < 256 \<Longrightarrow> c \<in> set (hex_byte b) \<Longrightarrow> c \<in> set ''0123456789abcdef''"
  using hex_digit_in [of "b div 16"] hex_digit_in [of "b mod 16"]
  by (auto simp only: hex_byte_def set_simps less_mult_imp_div_less insert_iff empty_iff) auto

lemma hex_words_digits:
  "c \<in> set (concat (map hex_byte (concat (map (\<lambda>w. bytes_le 4 (unat w)) ws)))) \<Longrightarrow>
     c \<in> set ''0123456789abcdef''"
  by (auto simp only: set_concat set_map UN_iff dest: hex_byte_digits bytes_le_bound)

lemma md5_hex_digits: "c \<in> set (md5_hex s) \<Longrightarrow> c \<in> set ''0123456789abcdef''"
  unfolding md5_hex_def Let_def by (auto simp only: split: prod.splits dest!: hex_words_digits)

section \<open>Strict UTF-8\<close>

definition cont_byte :: "nat \<Rightarrow> bool" where
  "cont_byte b = (128 \<le> b \<and> b \<le> 191)"

fun utf8_ok :: "nat list \<Rightarrow> bool" where
  "utf8_ok [] = True"
| "utf8_ok (a # bs) =
     (if a < 128 then utf8_ok bs
      else if 194 \<le> a \<and> a \<le> 223 then
        (case bs of b # r \<Rightarrow> cont_byte b \<and> utf8_ok r | _ \<Rightarrow> False)
      else if 224 \<le> a \<and> a \<le> 239 then
        (case bs of b # c # r \<Rightarrow>
             cont_byte b \<and> cont_byte c \<and> (a = 224 \<longrightarrow> 160 \<le> b) \<and> (a = 237 \<longrightarrow> b \<le> 159) \<and> utf8_ok r
         | _ \<Rightarrow> False)
      else if 240 \<le> a \<and> a \<le> 244 then
        (case bs of b # c # d # r \<Rightarrow>
             cont_byte b \<and> cont_byte c \<and> cont_byte d \<and>
             (a = 240 \<longrightarrow> 144 \<le> b) \<and> (a = 244 \<longrightarrow> b \<le> 143) \<and> utf8_ok r
         | _ \<Rightarrow> False)
      else False)"

text \<open>\<open>bytes.decode()\<close>: the text (kept as its UTF-8 bytes), or \<open>UnicodeDecodeError\<close>.\<close>

definition py_decode :: "string \<Rightarrow> string res" where
  "py_decode bs = (if utf8_ok (map of_char bs) then Inr bs else Inl UnicodeDecodeError)"

lemma py_decode_Inr [py_simps]:
  "py_decode bs = Inr s \<longleftrightarrow> utf8_ok (map of_char bs) \<and> s = bs"
  by (auto simp: py_decode_def)

lemma utf8_ok_ascii: "\<forall>b \<in> set bs. b < 128 \<Longrightarrow> utf8_ok bs"
  by (induction bs) auto

text \<open>
  \<open>str(b)\<close> of a bytes object, as Python prints it: single quotes unless the bytes hold one and
  no double quote, escapes for the quote, the backslash, tab, newline and return, and
  \<open>\xhh\<close> outside the printable ASCII range.
\<close>

definition repr_byte :: "char \<Rightarrow> char \<Rightarrow> string" where
  "repr_byte q c =
     (let n = of_char c :: nat in
      if c = q \<or> n = 92 then [CHR 0x5C, c]
      else if n = 9 then [CHR 0x5C, CHR ''t'']
      else if n = 10 then [CHR 0x5C, CHR ''n'']
      else if n = 13 then [CHR 0x5C, CHR ''r'']
      else if n < 32 \<or> 127 \<le> n then [CHR 0x5C, CHR ''x''] @ hex_byte n
      else [c])"

definition str_bytes :: "string \<Rightarrow> string" where
  "str_bytes bs =
     (let q = (if CHR 0x27 \<in> set bs \<and> CHR 0x22 \<notin> set bs then CHR 0x22 else CHR 0x27)
      in CHR ''b'' # q # concat (map (repr_byte q) bs) @ [q])"

end
