(* ===== verification/VoipClient.thy ===== *)
theory VoipClient
  imports SipSession Md5
begin

text \<open>
  The SIP user agent of \<open>src/src/voipclient.py\<close>: the header parser, one method per SIP request,
  the digest check of INVITE, and the dispatcher \<open>worker\<close>. The class attributes
  \<open>__sessions\<close> and \<open>json_list\<close> are shared by all instances and are the state; the attributes
  the server sets on each instance (\<open>proto\<close>, \<open>addr\<close>, \<open>local_address\<close>) and the loaded
  configuration are the context of a call.
\<close>

section \<open>State and context\<close>

record voip =
  sessions :: "string \<rightharpoonup> sip_session"
  json_list :: "pydict list"

definition voip_start :: voip where
  "voip_start = \<lparr>sessions = Map.empty, json_list = []\<rparr>"

record call_ctx =
  proto :: string
  addr :: "string \<times> int"
  local_ip :: string
  local_port :: int
  g_sipconfig :: sip_config

text \<open>What a handler returns: nothing, text, encoded bytes, or the pair of INVITE answers.\<close>

datatype payload =
    DNone
  | DStr string
  | DBytes string
  | DPair string string

text \<open>An argument that the callers pass as text or as the dictionary of headers.\<close>

datatype pyarg = ArgStr string | ArgDict headers

fun arg_item :: "pyarg \<Rightarrow> string \<Rightarrow> string res" where
  "arg_item (ArgDict h) k = getitem (map_of h) k"
| "arg_item (ArgStr s) k = Inl TypeError"

fun arg_val :: "pyarg \<Rightarrow> pyval" where
  "arg_val (ArgDict h) = PDict h"
| "arg_val (ArgStr s) = PStr s"

section \<open>The header parser\<close>

definition header_item :: "string \<Rightarrow> (string \<times> string) option" where
  "header_item item =
     (if CHR '':'' \<in> set item then
        (case split_once (CHR '':'') item of
           None \<Rightarrow> None
         | Some (k, v) \<Rightarrow> Some (strip_space k, strip_space v))
      else if CHR ''='' \<in> set item then
        (let spl = split_str ''='' item in Some (strip_space (spl ! 0), strip_space (spl ! 1)))
      else None)"

definition header_store :: "headers \<Rightarrow> string \<Rightarrow> headers" where
  "header_store my_dict item =
     (case header_item item of None \<Rightarrow> my_dict | Some (k, v) \<Rightarrow> dict_set k v my_dict)"

definition header_blocks :: "string \<Rightarrow> string list option" where
  "header_blocks message =
     (if ends_with message crlf \<or> ends_with message (crlf @ [CHR 0x0D])
      then Some (split_str crlf message)
      else if ends_with message [CHR 0x0A, CHR 0x0A]
      then Some (split_str [CHR 0x0A, CHR 0x0A] message)
      else None)"

definition get_headers :: "string \<Rightarrow> headers" where
  "get_headers message =
     (case header_blocks message of
        None \<Rightarrow> []
      | Some findall \<Rightarrow>
          fold (\<lambda>item d. header_store d item) (concat (map (split_str [CHR 0x0A]) findall)) [])"

section \<open>Reports and answers\<close>

definition voip_report :: "pydict \<Rightarrow> (voip, unit) py" where
  "voip_report j_dict = py_modify (\<lambda>s. s\<lparr>json_list := json_list s @ [j_dict]\<rparr>)"

definition command_accept :: "pyval \<Rightarrow> string \<Rightarrow> string \<Rightarrow> pydict" where
  "command_accept incom output codec =
     [(''eventid'', PStr ''command_accept''), (''command_input'', incom),
      (''command_output'', PStr output), (''command_input_codec'', PStr ''bytes''),
      (''command_output_codec'', PStr codec)]"

definition from_line :: "call_ctx \<Rightarrow> string" where
  "from_line c = sip_uri_line (cfg_user (g_sipconfig c)) (local_ip c)"

definition local_via :: "call_ctx \<Rightarrow> string" where
  "local_via c = ''SIP/2.0/'' @ proto c @ '' '' @ local_ip c @ '':'' @ str_int (local_port c)"

definition bad_answer_text :: "call_ctx \<Rightarrow> int \<Rightarrow> string res" where
  "bad_answer_text c code =
     (let bad = map_of (cfg_bad_answers (g_sipconfig c)) in
      case bad (str_int code) of Some a \<Rightarrow> Inr a | None \<Rightarrow> getitem bad ''400'')"

definition bad_answer :: "call_ctx \<Rightarrow> pyarg \<Rightarrow> pyarg \<Rightarrow> int \<Rightarrow> (voip, string) py" where
  "bad_answer c incom_msg hdrs code =
     py_bind (py_lift (bad_answer_text c code)) (\<lambda>answer.
     py_bind (py_lift (arg_item hdrs ''From'')) (\<lambda>frm.
     py_bind (py_lift (arg_item hdrs ''Call-ID'')) (\<lambda>callid.
     py_bind (py_lift (arg_item hdrs ''CSeq'')) (\<lambda>cseq.
     let ret_lines = join crlf
           [''SIP/2.0 '' @ answer,
            ''Via: '' @ local_via c,
            ''To: '' @ frm,
            ''From: '' @ from_line c,
            ''Call-ID: '' @ callid,
            ''CSeq: '' @ cseq,
            ''Contact: '' @ from_line c,
            crlf]
     in py_bind (voip_report (command_accept (arg_val incom_msg) ret_lines ''bytes'')) (\<lambda>_.
        py_return ret_lines)))))"

section \<open>OPTIONS\<close>

text \<open>
  The last \<open>;\<close>-piece that starts with the given name, without line ends around it. The local
  variable is bound only when there is one; reading it unbound raises \<open>UnboundLocalError\<close>.
\<close>

definition last_param :: "string \<Rightarrow> string \<Rightarrow> string option" where
  "last_param name line =
     (case filter (\<lambda>l. starts_with l name) (split_str '';'' line) of
        [] \<Rightarrow> None
      | ls \<Rightarrow> Some (strip_chars crlf (last ls)))"

definition local_var :: "string \<Rightarrow> 'a option \<Rightarrow> 'a res" where
  "local_var name v = (case v of None \<Rightarrow> Inl (UnboundLocalError name) | Some a \<Rightarrow> Inr a)"

definition options_text :: "call_ctx \<Rightarrow> headers \<Rightarrow> string res" where
  "options_text c hdrs =
     bind_res (getitem (map_of hdrs) ''Via'') (\<lambda>via.
     bind_res (getitem (map_of hdrs) ''From'') (\<lambda>frm.
     bind_res (local_var ''branch'' (last_param ''branch='' via)) (\<lambda>branch.
     let port = str_int (snd (addr c));
         via_line = ''Via: SIP/2.0/'' @ proto c @ '' '' @ fst (addr c) @ '':'' @ port @
           '';rport='' @ port @ (if branch \<noteq> [] then '';'' @ branch else [])
     in
     bind_res (local_var ''tag'' (last_param ''tag='' frm)) (\<lambda>tag.
     let from_text = ''From: '' @ from_line c @ (if tag \<noteq> [] then '' '' @ tag else [])
     in
     bind_res (getitem (map_of hdrs) ''Call-ID'') (\<lambda>callid.
     bind_res (getitem (map_of hdrs) ''CSeq'') (\<lambda>cseq.
     Inr (join crlf
       [''SIP/2.0 200 OK'',
        via_line,
        ''To: '' @ frm,
        from_text,
        ''Call-ID: '' @ callid,
        ''CSeq: '' @ cseq,
        ''Contact: '' @ from_line c,
        ''Supported: 100rel, replaces, timer'',
        ''Allow: INVITE, ACK, OPTIONS, BYE, CANCEL, REFER, NOTIFY, INFO, PRACK, UPDATE, MESSAGE'',
        ''Accept: application/sdp, message/sipfrag, application/dtmf-relay'',
        ''Accept-Language: en'',
        crlf])))))))"

definition sip_OPTIONS :: "call_ctx \<Rightarrow> headers \<Rightarrow> string \<Rightarrow> (voip, payload) py" where
  "sip_OPTIONS c hdrs incom_msg =
     py_bind (py_lift (options_text c hdrs)) (\<lambda>options_headers.
     py_bind (voip_report (command_accept (PStr incom_msg) options_headers ''bytes'')) (\<lambda>_.
     py_return (DBytes options_headers)))"

section \<open>ACK, BYE, CANCEL, REGISTER, RESPONSE\<close>

text \<open>
  \<open>self.__sessions[headers["Call-ID"]]\<close>; both lookups raise \<open>KeyError\<close>, which the callers
  catch without telling them apart.
\<close>

definition find_session :: "headers \<Rightarrow> voip \<Rightarrow> (string \<times> sip_session) option" where
  "find_session hdrs s =
     (case map_of hdrs ''Call-ID'' of
        None \<Rightarrow> None
      | Some callid \<Rightarrow> map_option (Pair callid) (sessions s callid))"

text \<open>
  The call of \<open>bad_answer\<close> in \<open>sip_ACK\<close> passes the headers where the message is expected and
  the message where the headers are expected.
\<close>

definition sip_ACK :: "call_ctx \<Rightarrow> headers \<Rightarrow> string \<Rightarrow> (voip, payload) py" where
  "sip_ACK c hdrs incom_msg = (\<lambda>s.
     case find_session hdrs s of
       None \<Rightarrow> py_bind (bad_answer c (ArgDict hdrs) (ArgStr incom_msg) 481)
                 (\<lambda>r. py_return (DStr r)) s
     | Some _ \<Rightarrow> py_bind (voip_report (command_accept (PStr incom_msg) [] ''plain''))
                 (\<lambda>_. py_return DNone) s)"

definition sip_BYE :: "call_ctx \<Rightarrow> headers \<Rightarrow> string \<Rightarrow> (voip, payload) py" where
  "sip_BYE c hdrs incom_msg = (\<lambda>s.
     case find_session hdrs s of
       None \<Rightarrow> py_bind (bad_answer c (ArgStr incom_msg) (ArgDict hdrs) 481)
                 (\<lambda>r. py_return (DStr r)) s
     | Some (callid, sess) \<Rightarrow>
         py_bind (py_lift (handle_BYE (g_sipconfig c) sess)) (\<lambda>sess'.
         py_bind (py_modify (\<lambda>t. t\<lparr>sessions := (sessions t)(callid \<mapsto> sess')\<rparr>)) (\<lambda>_.
         py_bind (py_lift (case msg_bye sess' of
             None \<Rightarrow> Inl (AttributeError ''msg_bye'') | Some m \<Rightarrow> Inr m)) (\<lambda>m.
         py_bind (voip_report (command_accept (PStr incom_msg) m ''plain'')) (\<lambda>_.
         py_return (DStr m))))) s)"

definition cancel_text :: "call_ctx \<Rightarrow> headers \<Rightarrow> string res" where
  "cancel_text c hdrs =
     bind_res (getitem (map_of hdrs) ''From'') (\<lambda>frm.
     bind_res (getitem (map_of hdrs) ''Call-ID'') (\<lambda>callid.
     bind_res (getitem (map_of hdrs) ''CSeq'') (\<lambda>cseq.
     Inr (join crlf
       [''SIP/2.0 200 OK'',
        ''Via: '' @ local_via c,
        ''To: '' @ frm,
        ''From: '' @ from_line c,
        ''Call-ID: '' @ callid,
        ''CSeq: '' @ cseq,
        ''Contact: '' @ from_line c]))))"

definition cancel_reply :: "call_ctx \<Rightarrow> headers \<Rightarrow> string \<Rightarrow> (voip, payload) py" where
  "cancel_reply c hdrs incom_msg =
     py_bind (py_lift (cancel_text c hdrs)) (\<lambda>ret_lines.
     py_bind (voip_report (command_accept (PStr incom_msg) ret_lines ''bytes'')) (\<lambda>_.
     py_return (DStr ret_lines)))"

definition sip_CANCEL :: "call_ctx \<Rightarrow> headers \<Rightarrow> string \<Rightarrow> (voip, payload) py" where
  "sip_CANCEL c hdrs incom_msg =
     py_bind (py_lift (getitem (map_of hdrs) ''Call-ID'')) (\<lambda>callId.
     py_bind (py_lift (getitem (map_of hdrs) ''CSeq'')) (\<lambda>cseq_line.
     let cseq = split_str '' '' cseq_line in
     py_bind (py_lift (index cseq 0)) (\<lambda>cseqNumber.
     py_bind (py_lift (index cseq 1)) (\<lambda>cseqMethod.
     if cseqMethod = ''INVITE'' \<or> cseqMethod = ''ACK'' then
       (\<lambda>s. if sessions s callId = None then
              py_bind (bad_answer c (ArgStr incom_msg) (ArgDict hdrs) 404)
                (\<lambda>r. py_return (DStr r)) s
            else
              py_bind (py_modify (\<lambda>t. t\<lparr>sessions := (sessions t)(callId := None)\<rparr>))
                (\<lambda>_. cancel_reply c hdrs incom_msg) s)
     else cancel_reply c hdrs incom_msg))))"

definition sip_REGISTER :: "headers \<Rightarrow> string \<Rightarrow> (voip, unit) py" where
  "sip_REGISTER hdrs incom_msg = voip_report (command_accept (PStr incom_msg) [] ''plain'')"

definition sip_RESPONSE :: "headers \<Rightarrow> string \<Rightarrow> (voip, unit) py" where
  "sip_RESPONSE hdrs incom_msg = voip_report (command_accept (PStr incom_msg) [] ''plain'')"

section \<open>INVITE\<close>

definition get_hash :: "string \<Rightarrow> string" where
  "get_hash s = md5_hex s"

definition unauthorized_text :: "call_ctx \<Rightarrow> headers \<Rightarrow> string \<Rightarrow> string \<Rightarrow> string res" where
  "unauthorized_text c hdrs nonce opaque =
     bind_res (getitem (map_of hdrs) ''From'') (\<lambda>frm.
     bind_res (getitem (map_of hdrs) ''Call-ID'') (\<lambda>callid.
     bind_res (getitem (map_of hdrs) ''CSeq'') (\<lambda>cseq.
     Inr (join crlf
       [''SIP/2.0 '' @ ''401 Unauthorized'',
        ''Via: '' @ local_via c,
        ''To: '' @ frm,
        ''From: '' @ from_line c,
        ''Call-ID: '' @ callid,
        ''CSeq: '' @ cseq,
        ''Contact: '' @ from_line c,
        ''WWW-Authenticate: Digest '' @
          ''realm='' @ [CHR 0x22] @ cfg_user (g_sipconfig c) @ ''@'' @ local_ip c @ [CHR 0x22] @ '','' @
          ''nonce='' @ [CHR 0x22] @ nonce @ [CHR 0x22] @ '','' @
          ''opaque='' @ [CHR 0x22] @ opaque @ [CHR 0x22],
        crlf]))))"

text \<open>One part \<open>name="value"\<close> of the Authorization header: \<open>parts[1]\<close> is read first.\<close>

definition auth_quotes :: string where
  "auth_quotes = [CHR 0x20, CHR 0x0A, CHR 0x0D, CHR 0x09, CHR 0x22, CHR 0x27]"

fun auth_params :: "string list \<Rightarrow> headers \<Rightarrow> headers res" where
  "auth_params [] d = Inr d"
| "auth_params (x # xs) d =
     (let parts = split_str ''='' x in
      bind_res (index parts 1) (\<lambda>v.
      bind_res (index parts 0) (\<lambda>k.
      auth_params xs (dict_set k (strip_chars auth_quotes v) d))))"

definition auth_line_dict :: "string \<Rightarrow> headers res" where
  "auth_line_dict authLine =
     auth_params
       (map (strip_chars [CHR 0x20, CHR 0x09, CHR 0x0D, CHR 0x0A]) (split_str '','' authLine)) []"

text \<open>What the server expects as the digest response.\<close>

definition auth_realm :: "call_ctx \<Rightarrow> string" where
  "auth_realm c = cfg_user (g_sipconfig c) @ ''@'' @ local_ip c"

definition expected_response :: "call_ctx \<Rightarrow> string" where
  "expected_response c =
     (let secret = cfg_secret (g_sipconfig c);
          nonce = get_hash secret;
          realm = auth_realm c;
          uri = ''sip:'' @ realm;
          a1 = get_hash (cfg_user (g_sipconfig c) @ '':'' @ realm @ '':'' @ secret);
          a2 = get_hash (''INVITE:'' @ uri)
      in get_hash (a1 @ '':'' @ nonce @ '':'' @ a2))"

definition auth_object :: "string option \<Rightarrow> bool \<Rightarrow> pydict" where
  "auth_object user status =
     (case user of
        None \<Rightarrow> [(''eventid'', PStr ''authorization''), (''auth_status'', PBool status)]
      | Some u \<Rightarrow>
          [(''eventid'', PStr ''authorization''), (''username'', PStr u),
           (''password'', PStr []), (''auth_status'', PBool status)])"

definition invite_refuse ::
  "call_ctx \<Rightarrow> headers \<Rightarrow> string \<Rightarrow> pydict \<Rightarrow> int \<Rightarrow> (voip, payload) py" where
  "invite_refuse c hdrs message auth_obj code =
     py_bind (voip_report auth_obj) (\<lambda>_.
     py_bind (bad_answer c (ArgStr message) (ArgDict hdrs) code) (\<lambda>r.
     py_return (DStr r)))"

definition invite_accept ::
  "call_ctx \<Rightarrow> headers \<Rightarrow> string \<Rightarrow> string \<Rightarrow> (voip, payload) py" where
  "invite_accept c hdrs message user =
     py_bind (py_lift (getitem (map_of hdrs) ''m'')) (\<lambda>m.
     py_bind (py_lift (index (split_str '' '' m) 1)) (\<lambda>rtpPort.
     py_bind (py_lift (getitem (map_of hdrs) ''Call-ID'')) (\<lambda>callId.
     (\<lambda>s. if sessions s callId \<noteq> None then
            invite_refuse c hdrs message (auth_object (Some user) False) 403 s
          else
            py_bind (py_lift (SipSession_init (g_sipconfig c) (addr c) rtpPort hdrs)) (\<lambda>new.
            py_bind (py_modify (\<lambda>t. t\<lparr>sessions := (sessions t)(callId \<mapsto> new)\<rparr>)) (\<lambda>_.
            py_bind (voip_report (auth_object (Some user) True)) (\<lambda>_.
            py_return (DPair (msg_ringing new) (msg_ok new))))) s))))"

definition check_invite :: "call_ctx \<Rightarrow> string \<Rightarrow> headers \<Rightarrow> string \<Rightarrow> (voip, payload) py" where
  "check_invite c uuid hdrs message =
     (let nonce = get_hash (cfg_secret (g_sipconfig c));
          opaque = get_hash uuid
      in case map_of hdrs ''Authorization'' of
           None \<Rightarrow> py_bind (py_lift (unauthorized_text c hdrs nonce opaque)) (\<lambda>r. py_return (DStr r))
         | Some authorization \<Rightarrow>
             (case split_once (CHR 0x20) authorization of
                None \<Rightarrow> py_raise ValueError
              | Some (authMethod, authLine) \<Rightarrow>
                  if authMethod \<noteq> ''Digest'' then
                    invite_refuse c hdrs message (auth_object None False) 400
                  else
                    py_bind (py_lift (auth_line_dict authLine)) (\<lambda>d.
                    py_bind (py_lift (getitem (map_of d) ''username'')) (\<lambda>user.
                    py_bind (py_lift (getitem (map_of d) ''response'')) (\<lambda>response.
                    if expected_response c \<noteq> response then
                      invite_refuse c hdrs message (auth_object (Some user) False) 400
                    else invite_accept c hdrs message user)))))"

definition invite_report :: "string \<Rightarrow> string \<Rightarrow> pydict" where
  "invite_report incom_msg answer =
     [(''eventid'', PStr ''command_accept''), (''command_input'', PStr incom_msg),
      (''command_input_codec'', PStr ''bytes''), (''command_output'', PStr answer),
      (''command_output_codec'', PStr ''bytes'')]"

definition sip_INVITE :: "call_ctx \<Rightarrow> string \<Rightarrow> headers \<Rightarrow> string \<Rightarrow> (voip, payload) py" where
  "sip_INVITE c uuid hdrs incom_msg =
     py_bind (check_invite c uuid hdrs incom_msg) (\<lambda>answer.
     case answer of
       DStr a \<Rightarrow> py_bind (voip_report (invite_report incom_msg a)) (\<lambda>_. py_return answer)
     | DPair a b \<Rightarrow>
         py_bind (voip_report (invite_report incom_msg a)) (\<lambda>_.
         py_bind (voip_report (invite_report incom_msg b)) (\<lambda>_. py_return answer))
     | _ \<Rightarrow> py_return answer)"

section \<open>The dispatcher\<close>

record worker_data =
  wd_data :: "payload list"
  wd_reports :: "pydict list"

definition dispatch :: "call_ctx \<Rightarrow> string \<Rightarrow> headers \<Rightarrow> string \<Rightarrow> (voip, payload) py" where
  "dispatch c uuid hdrs message =
     (if starts_with message ''OPTIONS'' then sip_OPTIONS c hdrs message
      else if starts_with message ''INVITE'' then sip_INVITE c uuid hdrs message
      else if starts_with message ''CANCEL'' then sip_CANCEL c hdrs message
      else if starts_with message ''BYE'' then sip_BYE c hdrs message
      else if starts_with message ''ACK'' then
        py_bind (sip_ACK c hdrs message) (\<lambda>_. py_return DNone)
      else if starts_with message ''REGISTER'' then
        py_bind (sip_REGISTER hdrs message) (\<lambda>_. py_return DNone)
      else if starts_with message ''RESPONSE'' then
        py_bind (sip_RESPONSE hdrs message) (\<lambda>_. py_return DNone)
      else if starts_with message ''GET'' then py_return (DStr [])
      else
        py_bind (voip_report (command_accept (PStr message) [] ''plain''))
          (\<lambda>_. py_return (DStr [])))"

definition flush_reports :: "payload \<Rightarrow> (voip, worker_data) py" where
  "flush_reports d = (\<lambda>s.
     (Inr \<lparr>wd_data = [d], wd_reports = json_list s\<rparr>, s\<lparr>json_list := []\<rparr>))"

definition worker :: "call_ctx \<Rightarrow> string \<Rightarrow> string \<Rightarrow> (voip, worker_data) py" where
  "worker c uuid message =
     py_bind (dispatch c uuid (get_headers message) message) flush_reports"

end
