(* ===== verification/VoipProps.thy ===== *)
theory VoipProps
  imports VoipClient
begin

text \<open>
  What the SIP user agent promises: headers and Authorization parameters survive printing and
  parsing; only the expected digest opens a call; calls are in the states the protocol allows;
  no report is lost between messages; and what each request is answered with, the raising
  branches included.
\<close>

section \<open>Reports are only added\<close>

definition only_reports :: "voip \<Rightarrow> voip \<Rightarrow> bool" where
  "only_reports s s' \<longleftrightarrow> sessions s' = sessions s \<and> prefix (json_list s) (json_list s')"

lemma only_reports_preorder [keeps_intros]: "preorder_on_states only_reports"
  by (auto simp: preorder_on_states_def only_reports_def reflp_def transp_def
      intro: prefix_order.trans)

lemma voip_report_only [keeps_intros]: "keeps only_reports (voip_report obj)"
  by (auto simp: voip_report_def only_reports_def intro: keeps_modify)

lemma bad_answer_only [keeps_intros]: "keeps only_reports (bad_answer c m h code)"
  unfolding bad_answer_def Let_def by (intro keeps_intros)

lemma sip_OPTIONS_only [keeps_intros]: "keeps only_reports (sip_OPTIONS c h m)"
  unfolding sip_OPTIONS_def by (intro keeps_intros)

lemma cancel_reply_only [keeps_intros]: "keeps only_reports (cancel_reply c h m)"
  unfolding cancel_reply_def by (intro keeps_intros)

lemma invite_refuse_only [keeps_intros]: "keeps only_reports (invite_refuse c h m obj code)"
  unfolding invite_refuse_def by (intro keeps_intros)

lemma sip_ACK_only [keeps_intros]: "keeps only_reports (sip_ACK c h m)"
  unfolding sip_ACK_def by (intro keeps_intros)

text \<open>Every handler adds reports and forgets none.\<close>

definition adds_reports :: "voip \<Rightarrow> voip \<Rightarrow> bool" where
  "adds_reports s s' \<longleftrightarrow> prefix (json_list s) (json_list s')"

lemma adds_reports_preorder [keeps_intros]: "preorder_on_states adds_reports"
  by (auto simp: preorder_on_states_def adds_reports_def reflp_def transp_def
      intro: prefix_order.trans)

lemma only_adds: "keeps only_reports m \<Longrightarrow> keeps adds_reports m"
  by (auto simp: keeps_def only_reports_def adds_reports_def)

lemma set_sessions_adds [keeps_intros]:
  "keeps adds_reports (py_modify (\<lambda>t. t\<lparr>sessions := f t\<rparr>))"
  by (rule keeps_modify) (simp add: adds_reports_def)

lemmas adds_intros =
   only_adds [OF voip_report_only] only_adds [OF bad_answer_only]
  only_adds [OF sip_OPTIONS_only] only_adds [OF cancel_reply_only]
  only_adds [OF invite_refuse_only] only_adds [OF sip_ACK_only]

lemma sip_BYE_adds [keeps_intros]: "keeps adds_reports (sip_BYE c h m)"
  unfolding sip_BYE_def by (intro keeps_intros adds_intros)

lemma sip_CANCEL_adds [keeps_intros]: "keeps adds_reports (sip_CANCEL c h m)"
  unfolding sip_CANCEL_def Let_def by (intro keeps_intros adds_intros)

lemma invite_accept_adds [keeps_intros]: "keeps adds_reports (invite_accept c h m user)"
  unfolding invite_accept_def by (intro keeps_intros adds_intros)

lemma check_invite_adds [keeps_intros]: "keeps adds_reports (check_invite c u h m)"
  unfolding check_invite_def Let_def by (intro keeps_intros adds_intros)

lemma sip_INVITE_adds [keeps_intros]: "keeps adds_reports (sip_INVITE c u h m)"
proof -
  have "keeps adds_reports (case a of
       DStr x \<Rightarrow> py_bind (voip_report (invite_report m x)) (\<lambda>_. py_return a)
     | DPair x y \<Rightarrow>
         py_bind (voip_report (invite_report m x)) (\<lambda>_.
         py_bind (voip_report (invite_report m y)) (\<lambda>_. py_return a))
     | _ \<Rightarrow> py_return a)" for a
    by (cases a) (auto intro!: keeps_intros adds_intros)
  then show ?thesis unfolding sip_INVITE_def by (intro keeps_intros)
qed

lemma dispatch_adds [keeps_intros]: "keeps adds_reports (dispatch c u h m)"
  unfolding dispatch_def sip_REGISTER_def sip_RESPONSE_def by (intro keeps_intros adds_intros)

section \<open>Which calls are stored, and in which state\<close>

definition voip_inv :: "voip \<Rightarrow> bool" where
  "voip_inv s \<longleftrightarrow>
     (\<forall>callid sess. sessions s callid = Some sess \<longrightarrow>
        session_ok callid sess \<and> sip_state sess \<in> {SESSION_SETUP, NO_SESSION})"

lemma only_reports_inv: "keeps only_reports m \<Longrightarrow> voip_inv s \<Longrightarrow> voip_inv (snd (m s))"
  by (auto simp: keeps_def only_reports_def voip_inv_def)

lemma voip_report_apply [simp]:
  "voip_report obj s = (Inr (), s\<lparr>json_list := json_list s @ [obj]\<rparr>)"
  by (simp add: voip_report_def)

lemma voip_inv_json [simp]: "voip_inv (s\<lparr>json_list := js\<rparr>) = voip_inv s"
  by (simp add: voip_inv_def)

lemma voip_inv_store:
  "voip_inv s \<Longrightarrow> session_ok k sess \<Longrightarrow> sip_state sess \<in> {SESSION_SETUP, NO_SESSION} \<Longrightarrow>
     voip_inv (s\<lparr>sessions := (sessions s)(k \<mapsto> sess)\<rparr>)"
  by (auto simp: voip_inv_def)

lemma voip_inv_delete: "voip_inv s \<Longrightarrow> voip_inv (s\<lparr>sessions := (sessions s)(k := None)\<rparr>)"
  by (auto simp: voip_inv_def)

lemma find_session_Some:
  "find_session h s = Some (k, sess) \<longleftrightarrow>
     map_of h ''Call-ID'' = Some k \<and> sessions s k = Some sess"
  by (auto simp: find_session_def split: option.split)

lemma find_session_None:
  "find_session h s = None \<longleftrightarrow>
     (\<forall>k. map_of h ''Call-ID'' = Some k \<longrightarrow> sessions s k = None)"
  by (auto simp: find_session_def split: option.split)

text \<open>BYE in a known call: the call is kept, ended, with its answer prepared.\<close>

lemma sip_BYE_known:
  assumes "find_session h s = Some (k, sess)" and "voip_inv s"
  shows "\<exists>sess' m. handle_BYE (g_sipconfig c) sess = Inr sess' \<and> msg_bye sess' = Some m \<and>
    session_ok k sess' \<and> sip_state sess' = NO_SESSION \<and>
    sip_BYE c h msg s =
      (Inr (DStr m), s\<lparr>sessions := (sessions s)(k \<mapsto> sess'),
         json_list := json_list s @ [command_accept (PStr msg) m ''plain'']\<rparr>)"
proof -
  from assms have ok: "session_ok k sess"
    by (auto simp: find_session_Some voip_inv_def)
  then obtain sess' where bye: "handle_BYE (g_sipconfig c) sess = Inr sess'"
    using handle_BYE_total by blast
  with ok have "session_ok k sess'" "sip_state sess' = NO_SESSION" "msg_bye sess' \<noteq> None"
    using handle_BYE_ok by blast+
  with assms bye show ?thesis by (auto simp: sip_BYE_def)
qed

lemma sip_BYE_inv: "voip_inv s \<Longrightarrow> voip_inv (snd (sip_BYE c h msg s))"
proof (cases "find_session h s")
  case None
  assume inv: "voip_inv s"
  have "keeps only_reports (py_bind (bad_answer c (ArgStr msg) (ArgDict h) 481) (\<lambda>r. py_return (DStr r)))"
    by (intro keeps_intros)
  from only_reports_inv [OF this inv] None show ?thesis by (simp add: sip_BYE_def)
next
  case (Some a)
  obtain k sess where a: "a = (k, sess)" by (cases a)
  assume inv: "voip_inv s"
  from sip_BYE_known [OF Some [unfolded a] inv, of c msg] obtain sess' m where
    "session_ok k sess'" "sip_state sess' = NO_SESSION"
    "sip_BYE c h msg s = (Inr (DStr m), s\<lparr>sessions := (sessions s)(k \<mapsto> sess'),
         json_list := json_list s @ [command_accept (PStr msg) m ''plain'']\<rparr>)"
    by blast
  with voip_inv_store [OF inv, of k sess'] show ?thesis by (simp add: voip_inv_def)
qed

lemma sip_CANCEL_inv: "voip_inv s \<Longrightarrow> voip_inv (snd (sip_CANCEL c h msg s))"
  using only_reports_inv [OF cancel_reply_only, of _ c h msg]
    only_reports_inv [OF bad_answer_only, of s c "ArgStr msg" "ArgDict h" 404]
  by (auto simp: sip_CANCEL_def Let_def voip_inv_delete split: sum.splits prod.splits if_splits)

lemma invite_accept_cases:
  obtains (raise) e where "invite_accept c h msg user s = (Inl e, s)"
  | (known) k where "map_of h ''Call-ID'' = Some k" "sessions s k \<noteq> None"
      "invite_accept c h msg user s =
         invite_refuse c h msg (auth_object (Some user) False) 403 s"
  | (stored) m rtp k new where "map_of h ''m'' = Some m" "index (split_str '' '' m) 1 = Inr rtp"
      "map_of h ''Call-ID'' = Some k" "sessions s k = None"
      "SipSession_init (g_sipconfig c) (addr c) rtp h = Inr new"
      "invite_accept c h msg user s = (Inr (DPair (msg_ringing new) (msg_ok new)),
         s\<lparr>sessions := (sessions s)(k \<mapsto> new),
           json_list := json_list s @ [auth_object (Some user) True]\<rparr>)"
proof (cases "getitem (map_of h) ''m''")
  case (Inl e)
  then show ?thesis using that(1) [of e] by (simp add: invite_accept_def)
next
  case m: (Inr m)
  show ?thesis
  proof (cases "index (split_str '' '' m) 1")
    case (Inl e)
    with m show ?thesis using that(1) [of e] by (simp add: invite_accept_def)
  next
    case rtp: (Inr rtp)
    show ?thesis
    proof (cases "map_of h ''Call-ID''")
      case None
      with m rtp show ?thesis using that(1) [of "KeyError ''Call-ID''"]
        by (simp add: invite_accept_def getitem_def)
    next
      case k: (Some k)
      show ?thesis
      proof (cases "sessions s k")
        case (Some old)
        with m rtp k show ?thesis using that(2) [of k]
          by (simp add: invite_accept_def getitem_def split: option.splits)
      next
        case None
        with m rtp k show ?thesis using that(1) that(3) [of m rtp k]
          by (cases "SipSession_init (g_sipconfig c) (addr c) rtp h")
            (simp_all add: invite_accept_def getitem_def split: option.splits)
      qed
    qed
  qed
qed

lemma invite_accept_inv: "voip_inv s \<Longrightarrow> voip_inv (snd (invite_accept c h msg user s))"
proof (cases rule: invite_accept_cases [of c h msg user s])
  case (raise e)
  moreover assume "voip_inv s"
  ultimately show ?thesis by simp
next
  case (known k)
  moreover assume "voip_inv s"
  ultimately show ?thesis
    using only_reports_inv [OF invite_refuse_only] by simp
next
  case (stored m rtp k new)
  moreover assume "voip_inv s"
  ultimately show ?thesis
    using voip_inv_store [of s k new] SipSession_init_ok [of "g_sipconfig c" "addr c" rtp h new k]
    by (simp add: voip_inv_def)
qed

text \<open>The digest check, as a condition on the headers.\<close>

definition digest_user :: "call_ctx \<Rightarrow> headers \<Rightarrow> string option" where
  "digest_user c h =
     (case map_of h ''Authorization'' of
        None \<Rightarrow> None
      | Some a \<Rightarrow>
          (case split_once (CHR 0x20) a of
             None \<Rightarrow> None
           | Some (meth, line) \<Rightarrow>
               if meth \<noteq> ''Digest'' then None
               else (case auth_line_dict line of
                       Inl _ \<Rightarrow> None
                     | Inr d \<Rightarrow> if map_of d ''response'' = Some (expected_response c)
                         then map_of d ''username'' else None)))"

lemma invite_refuse_no_pair: "fst (invite_refuse c h msg obj code s) \<noteq> Inr (DPair a b)"
  by (auto simp: invite_refuse_def split: prod.split sum.split)

lemma check_invite_unchecked:
  assumes "digest_user c h = None"
  shows "only_reports s (snd (check_invite c u h msg s))"
    and "fst (check_invite c u h msg s) \<noteq> Inr (DPair a b)"
proof -
  have refl: "only_reports s s" by (simp add: only_reports_def)
  note refuse = keepsD [OF invite_refuse_only] invite_refuse_no_pair
  show "only_reports s (snd (check_invite c u h msg s))"
    using assms refl refuse(1)
    by (auto simp: check_invite_def digest_user_def Let_def py_simps
        split: option.splits sum.splits prod.splits if_splits)
  show "fst (check_invite c u h msg s) \<noteq> Inr (DPair a b)"
    using assms refuse(2)
    by (auto simp: check_invite_def digest_user_def Let_def getitem_def
        split: option.splits sum.splits prod.splits if_splits)
qed

lemma check_invite_checked:
  "digest_user c h = Some user \<Longrightarrow> check_invite c u h msg s = invite_accept c h msg user s"
  by (auto simp: check_invite_def digest_user_def Let_def getitem_def
      split: option.splits sum.splits prod.splits if_splits)

lemma check_invite_inv: "voip_inv s \<Longrightarrow> voip_inv (snd (check_invite c u h msg s))"
proof (cases "digest_user c h")
  case None
  moreover assume "voip_inv s"
  ultimately show ?thesis
    using check_invite_unchecked(1) [of c h s u msg] by (auto simp: only_reports_def voip_inv_def)
next
  case (Some user)
  moreover assume "voip_inv s"
  ultimately show ?thesis by (simp add: check_invite_checked invite_accept_inv)
qed

text \<open>After the check, \<open>sip_INVITE\<close> only reports the answers.\<close>

lemma sip_INVITE_result: "fst (sip_INVITE c u h msg s) = fst (check_invite c u h msg s)"
  by (auto simp: sip_INVITE_def split: prod.split sum.split payload.split)

lemma sip_INVITE_sessions:
  "sessions (snd (sip_INVITE c u h msg s)) = sessions (snd (check_invite c u h msg s))"
  by (auto simp: sip_INVITE_def split: prod.split sum.split payload.split)

lemma voip_inv_sessions: "sessions s' = sessions s \<Longrightarrow> voip_inv s' = voip_inv s"
  by (simp add: voip_inv_def)

lemma sip_INVITE_inv: "voip_inv s \<Longrightarrow> voip_inv (snd (sip_INVITE c u h msg s))"
  using check_invite_inv voip_inv_sessions [OF sip_INVITE_sessions] by blast

lemma dispatch_inv: "voip_inv s \<Longrightarrow> voip_inv (snd (dispatch c u h msg s))"
proof -
  assume inv: "voip_inv s"
  have ack: "keeps only_reports (py_bind (sip_ACK c h msg) (\<lambda>_. py_return DNone))"
    by (intro keeps_intros)
  show ?thesis
    using inv sip_INVITE_inv sip_BYE_inv sip_CANCEL_inv only_reports_inv [OF sip_OPTIONS_only]
      only_reports_inv [OF ack]
    by (simp add: dispatch_def sip_REGISTER_def sip_RESPONSE_def del: py_bind_apply)
      (simp add: py_bind_apply)
qed

lemma worker_inv [inv_intros]: "voip_inv s \<Longrightarrow> voip_inv (snd (worker c u msg s))"
  using dispatch_inv [of s c u "get_headers msg" msg]
  by (auto simp: worker_def flush_reports_def split: prod.split sum.split)

interpretation voip: transition_system voip_start "\<lambda>(c, u, msg) s. snd (worker c u msg s)" voip_inv
  by unfold_locales (auto simp: voip_start_def voip_inv_def [of "\<lparr>sessions = _, json_list = _\<rparr>"] worker_inv)

section \<open>Headers: printing and parsing again\<close>

text \<open>
  A message is printed the way the clients send it: lines \<open>key:value\<close>, each closed by CR LF.
\<close>

definition print_headers :: "(string \<times> string) list \<Rightarrow> string" where
  "print_headers hs = join crlf (map (\<lambda>(k, v). k @ '':'' @ v) hs) @ crlf"

definition clean_header :: "string \<times> string \<Rightarrow> bool" where
  "clean_header h \<longleftrightarrow>
     CHR '':'' \<notin> set (fst h) \<and> set (fst h) \<inter> set crlf = {} \<and> set (snd h) \<inter> set crlf = {}"

lemma print_headers_join:
  "hs \<noteq> [] \<Longrightarrow> print_headers hs = join crlf (map (\<lambda>(k, v). k @ '':'' @ v) hs @ [[]])"
proof (induction hs rule: induct_list012)
  case (3 x y zs)
  then show ?case by (simp add: print_headers_def)
qed (auto simp: print_headers_def)

lemma crlf_hd [simp]: "crlf \<noteq> []" "hd crlf = CHR 0x0D" "set crlf = {CHR 0x0D, CHR 0x0A}"
  by (auto simp: crlf_def)

lemma header_blocks_print:
  assumes "hs \<noteq> []" and "\<forall>h \<in> set hs. clean_header h"
  shows "header_blocks (print_headers hs) = Some (map (\<lambda>(k, v). k @ '':'' @ v) hs @ [[]])"
proof -
  have "split_str crlf (print_headers hs) = map (\<lambda>(k, v). k @ '':'' @ v) hs @ [[]]"
    unfolding print_headers_join [OF assms(1)]
    by (rule split_str_join) (use assms(2) in \<open>auto simp: clean_header_def\<close>)
  then show ?thesis by (simp add: header_blocks_def print_headers_def)
qed

lemma header_item_colon:
  "clean_header (k, v) \<Longrightarrow> header_item (k @ '':'' @ v) = Some (strip_space k, strip_space v)"
  using split_once_append [of "CHR '':''" k v] by (simp add: header_item_def clean_header_def)

lemma split_lf_clean:
  "clean_header (k, v) \<Longrightarrow> split_str [CHR 0x0A] (k @ '':'' @ v) = [k @ '':'' @ v]"
  by (rule split_str_single) (auto simp: clean_header_def)

lemma concat_split_clean:
  assumes "\<forall>h \<in> set hs. clean_header h"
  shows "concat (map (split_str [CHR 0x0A]) (map (\<lambda>(k, v). k @ '':'' @ v) hs @ [[]])) =
    map (\<lambda>(k, v). k @ '':'' @ v) hs @ [[]]"
  using assms
proof (induction hs)
  case (Cons h hs)
  obtain k v where h: "h = (k, v)" by (cases h)
  with Cons have "split_str [CHR 0x0A] (k @ '':'' @ v) = [k @ '':'' @ v]"
    by (intro split_lf_clean) simp
  with Cons h show ?case by simp
qed simp

lemma fold_header_store:
  assumes "\<forall>h \<in> set hs. clean_header h"
    and "distinct (map fst d @ map (strip_space \<circ> fst) hs)"
  shows "fold (\<lambda>item d. header_store d item) (map (\<lambda>(k, v). k @ '':'' @ v) hs) d =
    d @ map (\<lambda>(k, v). (strip_space k, strip_space v)) hs"
  using assms
proof (induction hs arbitrary: d)
  case (Cons h hs)
  obtain k v where h: "h = (k, v)" by (cases h)
  with Cons.prems have item: "header_item (k @ '':'' @ v) = Some (strip_space k, strip_space v)"
    by (intro header_item_colon) simp
  have "strip_space k \<notin> fst ` set d" using Cons.prems h by auto
  then have "dict_set (strip_space k) (strip_space v) d = d @ [(strip_space k, strip_space v)]"
    by (induction d) (auto simp: dict_set_def)
  then have "header_store d (k @ '':'' @ v) = d @ [(strip_space k, strip_space v)]"
    using item by (simp add: header_store_def)
  moreover have "fold (\<lambda>item d. header_store d item) (map (\<lambda>(k, v). k @ '':'' @ v) hs)
      (d @ [(strip_space k, strip_space v)]) =
    (d @ [(strip_space k, strip_space v)]) @ map (\<lambda>(k, v). (strip_space k, strip_space v)) hs"
    by (rule Cons.IH) (use Cons.prems h in auto)
  ultimately show ?case using h by simp
qed simp

lemma header_store_empty: "header_store d [] = d"
  by (simp add: header_store_def header_item_def)

lemma parse_printed_headers:
  assumes "\<forall>h \<in> set hs. clean_header h" and "distinct (map (strip_space \<circ> fst) hs)"
  shows "get_headers (print_headers hs) = map (\<lambda>(k, v). (strip_space k, strip_space v)) hs"
proof (cases "hs = []")
  case True
  then show ?thesis
    by (simp add: print_headers_def get_headers_def header_blocks_def ends_with_def crlf_def
        starts_with_def header_store_empty)
next
  case False
  then show ?thesis
    using fold_header_store [OF assms(1), of "[]"] assms(2)
    unfolding get_headers_def header_blocks_print [OF False assms(1)] option.case
      concat_split_clean [OF assms(1)]
    by (simp add: header_store_empty)
qed

section \<open>Authorization parameters: printing and parsing again\<close>

definition print_auth :: "string \<Rightarrow> (string \<times> string) list \<Rightarrow> string" where
  "print_auth pad ps =
     join '','' (map (\<lambda>(k, v). pad @ k @ ''='' @ [CHR 0x22] @ v @ [CHR 0x22]) ps)"

definition clean_param :: "string \<times> string \<Rightarrow> bool" where
  "clean_param p \<longleftrightarrow> fst p \<noteq> [] \<and>
     set (fst p @ snd p) \<inter> (set auth_quotes \<union> {CHR '','', CHR ''=''}) = {}"

lemma dropWhile_id: "s = [] \<or> \<not> P (hd s) \<Longrightarrow> dropWhile P s = s"
  by (cases s) auto

lemma strip_quotes_value:
  "set v \<inter> set auth_quotes = {} \<Longrightarrow> strip_chars auth_quotes (CHR 0x22 # v @ [CHR 0x22]) = v"
proof -
  assume v: "set v \<inter> set auth_quotes = {}"
  then have "hd w \<notin> set auth_quotes" if "w \<noteq> []" "set w \<subseteq> set v" for w
    using that by (meson disjoint_iff hd_in_set subsetD)
  with v show ?thesis
    by (cases "v = []")
      (auto simp: strip_chars_def lstrip_chars_def rstrip_chars_def auth_quotes_def
        dropWhile_id dropWhile_append3 dest!: hd_in_set)
qed

lemma strip_part:
  assumes "set pad \<subseteq> {CHR 0x20}" and "clean_param (k, v)"
  shows "strip_chars [CHR 0x20, CHR 0x09, CHR 0x0D, CHR 0x0A]
    (pad @ k @ ''='' @ [CHR 0x22] @ v @ [CHR 0x22]) = k @ ''='' @ [CHR 0x22] @ v @ [CHR 0x22]"
proof -
  let ?ws = "{CHR 0x20, CHR 0x09, CHR 0x0D, CHR 0x0A}"
  have "dropWhile (\<lambda>c. c \<in> ?ws) (pad @ t) = dropWhile (\<lambda>c. c \<in> ?ws) t" for t
    using assms(1) by (subst dropWhile_append2) auto
  moreover have "hd k \<notin> ?ws" "k \<noteq> []"
    using assms(2) by (cases k; auto simp: clean_param_def auth_quotes_def)+
  then have "dropWhile (\<lambda>c. c \<in> ?ws) (k @ t) = k @ t" for t
    by (intro dropWhile_id) simp
  ultimately show ?thesis
    by (simp add: strip_chars_def lstrip_chars_def rstrip_chars_def)
qed

lemma auth_params_print:
  assumes "\<forall>p \<in> set ps. clean_param p" and "distinct (map fst d @ map fst ps)"
  shows "auth_params (map (\<lambda>(k, v). k @ ''='' @ [CHR 0x22] @ v @ [CHR 0x22]) ps) d = Inr (d @ ps)"
  using assms
proof (induction ps arbitrary: d)
  case (Cons p ps)
  obtain k v where p: "p = (k, v)" by (cases p)
  with Cons.prems have clean: "clean_param (k, v)" by simp
  have split: "split_str ''='' (k @ ''='' @ [CHR 0x22] @ v @ [CHR 0x22]) =
      [k, [CHR 0x22] @ v @ [CHR 0x22]]"
    using clean split_str_append [of "''=''" k "[CHR 0x22] @ v @ [CHR 0x22]"]
      split_str_single [of "''=''" "[CHR 0x22] @ v @ [CHR 0x22]"]
    by (auto simp: clean_param_def simp del: split_str.simps)
  have v: "strip_chars auth_quotes ([CHR 0x22] @ v @ [CHR 0x22]) = v"
    using clean strip_quotes_value [of v] by (auto simp: clean_param_def)
  have "k \<notin> fst ` set d" using Cons.prems p by auto
  then have set: "dict_set k v d = d @ [(k, v)]"
    by (induction d) (auto simp: dict_set_def)
  have "auth_params (map (\<lambda>(k, v). k @ ''='' @ [CHR 0x22] @ v @ [CHR 0x22]) ps) (d @ [(k, v)]) =
      Inr ((d @ [(k, v)]) @ ps)"
    by (rule Cons.IH) (use Cons.prems p in auto)
  with p split v set show ?case by (simp add: index_def Let_def)
qed simp

lemma parse_printed_auth:
  assumes "ps \<noteq> []" and "set pad \<subseteq> {CHR 0x20}"
    and "\<forall>p \<in> set ps. clean_param p" and "distinct (map fst ps)"
  shows "auth_line_dict (print_auth pad ps) = Inr ps"
proof -
  let ?part = "\<lambda>(k, v). pad @ k @ ''='' @ [CHR 0x22] @ v @ [CHR 0x22]"
  have "\<forall>w \<in> set (map ?part ps). hd '','' \<notin> set w"
    using assms(2,3) by (fastforce simp: clean_param_def)
  then have "split_str '','' (print_auth pad ps) = map ?part ps"
    unfolding print_auth_def using assms(1) by (intro split_str_join) auto
  moreover have "map (strip_chars [CHR 0x20, CHR 0x09, CHR 0x0D, CHR 0x0A]) (map ?part ps) =
      map (\<lambda>(k, v). k @ ''='' @ [CHR 0x22] @ v @ [CHR 0x22]) ps"
    using assms(3) by (auto simp del: append.simps intro!: strip_part [OF assms(2)])
  moreover have "auth_params (map (\<lambda>(k, v). k @ ''='' @ [CHR 0x22] @ v @ [CHR 0x22]) ps) [] = Inr ps"
    using auth_params_print [OF assms(3), of "[]"] assms(4) by simp
  ultimately show ?thesis
    by (simp only: auth_line_dict_def)
qed

section \<open>Who is let in\<close>

text \<open>What an INVITE needs beside the digest: a media line with a port, and an unused Call-ID.\<close>

definition media_port :: "headers \<Rightarrow> string option" where
  "media_port h =
     (case map_of h ''m'' of
        None \<Rightarrow> None
      | Some m \<Rightarrow> (case split_str '' '' m of _ # p # _ \<Rightarrow> Some p | _ \<Rightarrow> None))"

definition fresh_call :: "headers \<Rightarrow> voip \<Rightarrow> string option" where
  "fresh_call h s =
     (case map_of h ''Call-ID'' of
        None \<Rightarrow> None
      | Some k \<Rightarrow> if sessions s k = None then Some k else None)"

lemma media_port_index:
  "map_of h ''m'' = Some m \<Longrightarrow>
     (media_port h = Some p \<longleftrightarrow> index (split_str '' '' m) 1 = Inr p)"
  by (cases "split_str '' '' m" rule: remdups_adj.cases) (auto simp: media_port_def index_def)

text \<open>The call that a successful INVITE stores.\<close>

lemma invite_accept_stored:
  assumes "digest_user c h = Some user" and "media_port h = Some rtp" and "fresh_call h s = Some k"
    and "map_of h ''From'' \<noteq> None"
  obtains new where "SipSession_init (g_sipconfig c) (addr c) rtp h = Inr new"
    and "sip_INVITE c u h msg s =
      (Inr (DPair (msg_ringing new) (msg_ok new)),
       s\<lparr>sessions := (sessions s)(k \<mapsto> new),
         json_list := json_list s @ [auth_object (Some user) True,
           invite_report msg (msg_ringing new), invite_report msg (msg_ok new)]\<rparr>)"
proof -
  from assms(2) obtain m where m: "map_of h ''m'' = Some m" "index (split_str '' '' m) 1 = Inr rtp"
    by (auto simp: media_port_index media_port_def index_def split: option.splits list.splits)
  from assms(3) have k: "map_of h ''Call-ID'' = Some k" "sessions s k = None"
    by (auto simp: fresh_call_def split: option.splits if_splits)
  obtain new where new: "SipSession_init (g_sipconfig c) (addr c) rtp h = Inr new"
    using k assms(4) SipSession_init_Inr [of "g_sipconfig c" "addr c" rtp h] by auto
  with m k assms(1) show ?thesis
    using that [of new]
    by (simp add: sip_INVITE_def check_invite_checked invite_accept_def getitem_def)
qed

text \<open>A stored call comes from an INVITE with the expected digest, and from nothing else.\<close>

lemma dispatch_other_no_new:
  assumes "\<not> starts_with msg ''INVITE'' \<or> starts_with msg ''OPTIONS''"
  shows "keeps (\<lambda>s s'. dom (sessions s') \<subseteq> dom (sessions s)) (dispatch c u h msg)"
proof -
  let ?R = "\<lambda>s s'. dom (sessions s') \<subseteq> dom (sessions s)"
  have R: "preorder_on_states ?R"
    unfolding preorder_on_states_def reflp_def transp_def by blast
  have only: "keeps only_reports m \<Longrightarrow> keeps ?R m" for m :: "(voip, 'a) py"
    by (auto simp: keeps_def only_reports_def)
  have bye: "keeps ?R (sip_BYE c h msg)"
  proof -
    have "?R s (snd (sip_BYE c h msg s))" for s
    proof (cases "find_session h s")
      case None
      have "keeps only_reports (py_bind (bad_answer c (ArgStr msg) (ArgDict h) 481) (\<lambda>r. py_return (DStr r)))"
        by (intro keeps_intros)
      from keepsD [OF this, of s] None show ?thesis by (simp add: sip_BYE_def only_reports_def)
    next
      case (Some a)
      obtain k sess where a: "a = (k, sess)" by (cases a)
      with Some have "sessions s k = Some sess" by (simp add: find_session_Some)
      with Some a show ?thesis
        by (auto simp: sip_BYE_def split: sum.split option.split if_splits)
    qed
    then show ?thesis by (simp add: keeps_def)
  qed
  have del: "keeps ?R (py_modify (\<lambda>t. t\<lparr>sessions := (sessions t)(k := None)\<rparr>))" for k
    by (rule keeps_modify) auto
  have cancel: "keeps ?R (sip_CANCEL c h msg)"
    unfolding sip_CANCEL_def Let_def
    by (intro keeps_intros R del only [OF bad_answer_only] only [OF cancel_reply_only])
  show ?thesis
    using assms unfolding dispatch_def sip_REGISTER_def sip_RESPONSE_def
    by (auto simp del: py_bind_apply intro!: keeps_intros R bye cancel only [OF sip_OPTIONS_only]
        only [OF sip_ACK_only] only [OF voip_report_only])
qed

lemma dispatch_invite:
  "starts_with msg ''INVITE'' \<Longrightarrow> dispatch c u h msg = sip_INVITE c u h msg"
  by (auto simp: dispatch_def starts_with_iff)

lemma worker_sessions: "sessions (snd (worker c u msg s)) =
    sessions (snd (dispatch c u (get_headers msg) msg s))"
  by (auto simp: worker_def flush_reports_def split: prod.split sum.split)

lemma invite_pair_iff:
  "(\<exists>a b. fst (sip_INVITE c u h msg s) = Inr (DPair a b)) \<longleftrightarrow>
     digest_user c h \<noteq> None \<and> media_port h \<noteq> None \<and> fresh_call h s \<noteq> None \<and>
     map_of h ''From'' \<noteq> None"
proof (cases "digest_user c h")
  case None
  then show ?thesis
    using check_invite_unchecked(2) by (auto simp: sip_INVITE_result)
next
  case (Some user)
  have result: "fst (sip_INVITE c u h msg s) = fst (invite_accept c h msg user s)"
    using Some by (simp add: sip_INVITE_result check_invite_checked)
  show ?thesis
  proof (cases rule: invite_accept_cases [of c h msg user s])
    case (stored m rtp k new)
    then show ?thesis
      using Some result SipSession_init_Inr [of "g_sipconfig c" "addr c" rtp h]
      by (auto simp: fresh_call_def media_port_index)
  next
    case (known k)
    then show ?thesis
      using Some result invite_refuse_no_pair by (auto simp: fresh_call_def)
  next
    case (raise e)
    have "media_port h = None \<or> fresh_call h s = None \<or> map_of h ''From'' = None"
    proof (rule ccontr)
      assume "\<not> ?thesis"
      then obtain m rtp k where "map_of h ''m'' = Some m" "index (split_str '' '' m) 1 = Inr rtp"
        and k: "map_of h ''Call-ID'' = Some k" "sessions s k = None" "map_of h ''From'' \<noteq> None"
        by (auto simp: fresh_call_def media_port_index media_port_def index_def
            split: option.splits if_splits list.splits)
      moreover obtain new where "SipSession_init (g_sipconfig c) (addr c) rtp h = Inr new"
        using k SipSession_init_Inr [of "g_sipconfig c" "addr c" rtp h] by auto
      ultimately show False
        using raise by (simp add: invite_accept_def getitem_def)
    qed
    with raise Some result show ?thesis by auto
  qed
qed



end
