(* ===== verification/SipServer.thy ===== *)
theory SipServer
  imports VoipProps
begin

text \<open>
  The servers of \<open>src/src/sip_server.py\<close>: \<open>TCPServer\<close> (one instance per connection, class
  attribute \<open>server_settings\<close> shared by all) and \<open>UDPServer\<close> with its table of sessions by
  address and the pass that expires them. Both run the SIP user agent of the VoipClient theory
  and put its reports on the log.

  Objects given to \<open>logger.write\<close> are modelled (\<open>log_out\<close>); the diagnostic texts given to
  \<open>logger.info\<close> and \<open>logger.debug\<close> are not. The clock and the fresh identifiers
  (\<open>datetime.utcnow()\<close>, \<open>uuid.uuid1()\<close>) are functions from the number of the reading, fixed for
  a run. Each message reserves one identifier for the nonce of a challenge, used or not.
\<close>

section \<open>Time\<close>

record datetime =
  year :: nat
  month :: nat
  day :: nat
  hour :: nat
  minute :: nat
  second :: nat
  microsecond :: nat

definition pad_nat :: "nat \<Rightarrow> nat \<Rightarrow> string" where
  "pad_nat w n = (let s = str_nat n in replicate (w - length s) (CHR ''0'') @ s)"

definition isoformat :: "datetime \<Rightarrow> string" where
  "isoformat t =
     pad_nat 4 (year t) @ ''-'' @ pad_nat 2 (month t) @ ''-'' @ pad_nat 2 (day t) @ ''T'' @
     pad_nat 2 (hour t) @ '':'' @ pad_nat 2 (minute t) @ '':'' @ pad_nat 2 (second t) @
     (if microsecond t = 0 then [] else ''.'' @ pad_nat 6 (microsecond t))"

section \<open>State\<close>

record udp_session =
  us_session :: string
  us_datetime :: datetime
  us_port :: int

type_synonym endpoint = "string \<times> int"

text \<open>What was handed to \<open>transport.write\<close>, with the peer it was for.\<close>

record server =
  srv_voip :: voip
  log_out :: "pydict list"
  sent :: "(payload \<times> endpoint) list"
  clock :: "nat \<Rightarrow> datetime"
  readings :: nat
  uuids :: "nat \<Rightarrow> string"
  drawn :: nat
  tcp_settings :: endpoint
  udp_settings :: endpoint
  udp_sessions :: "(string \<times> udp_session) list"
  udp_addr :: endpoint

definition utcnow :: "(server, datetime) py" where
  "utcnow = (\<lambda>s. (Inr (clock s (readings s)), s\<lparr>readings := Suc (readings s)\<rparr>))"

definition uuid1 :: "(server, string) py" where
  "uuid1 = (\<lambda>s. (Inr (uuids s (drawn s)), s\<lparr>drawn := Suc (drawn s)\<rparr>))"

definition logger_write :: "pydict \<Rightarrow> (server, unit) py" where
  "logger_write obj = py_modify (\<lambda>s. s\<lparr>log_out := log_out s @ [obj]\<rparr>)"

definition on_voip :: "(voip, 'a) py \<Rightarrow> (server, 'a) py" where
  "on_voip m = (\<lambda>s. case m (srv_voip s) of (r, v) \<Rightarrow> (r, s\<lparr>srv_voip := v\<rparr>))"

text \<open>\<open>for x in xs: body(x)\<close>\<close>

fun for_each :: "('a \<Rightarrow> ('s, unit) py) \<Rightarrow> 'a list \<Rightarrow> ('s, unit) py" where
  "for_each f [] = py_return ()"
| "for_each f (x # xs) = py_bind (f x) (\<lambda>_. for_each f xs)"

lemma keeps_for_each [keeps_intros]:
  "preorder_on_states R \<Longrightarrow> (\<And>x. keeps R (f x)) \<Longrightarrow> keeps R (for_each f xs)"
  by (induction xs) (auto intro: keeps_intros simp del: py_bind_apply)

section \<open>Sending\<close>

text \<open>
  Both \<open>send\<close> methods skip falsy data and encode text; anything else is handed on as it is.
  The transport is Twisted's: \<open>tw\<close> is the outcome of its \<open>write\<close>.
\<close>

fun truthy :: "payload \<Rightarrow> bool" where
  "truthy DNone = False"
| "truthy (DStr t) = (t \<noteq> [])"
| "truthy (DBytes b) = (b \<noteq> [])"
| "truthy (DPair a b) = True"

fun encode_data :: "payload \<Rightarrow> payload" where
  "encode_data (DStr t) = DBytes t"
| "encode_data d = d"

definition send :: "(payload \<Rightarrow> unit res) \<Rightarrow> payload \<Rightarrow> endpoint \<Rightarrow> (server, unit) py" where
  "send tw data peer =
     (if truthy data then
        (let d = encode_data data in
         py_bind (py_lift (tw d)) (\<lambda>_. py_modify (\<lambda>s. s\<lparr>sent := sent s @ [(d, peer)]\<rparr>)))
      else py_return ())"

section \<open>TCP\<close>

text \<open>A connection: the peer, the local host, and the identifier drawn when it was made.\<close>

record tcp_conn =
  peer :: endpoint
  local_host :: endpoint
  tcp_session :: string

definition tcp_report :: "tcp_conn \<Rightarrow> pydict \<Rightarrow> (server, unit) py" where
  "tcp_report k obj =
     py_bind utcnow (\<lambda>now.
     py_bind py_get (\<lambda>s.
       logger_write
         (dict_set ''src_port'' (PInt (snd (peer k)))
         (dict_set ''src_ip'' (PStr (fst (peer k)))
         (dict_set ''dest_port'' (PInt (snd (tcp_settings s)))
         (dict_set ''dest_ip'' (PStr (fst (tcp_settings s)))
         (dict_set ''protocol'' (PStr ''tcp'')
         (dict_set ''type'' (PStr ''d_link_dph150s'')
         (dict_set ''session'' (PStr (tcp_session k))
         (dict_set ''timestamp'' (PStr (isoformat now)) obj))))))))))"

definition connectionMade :: "endpoint \<Rightarrow> endpoint \<Rightarrow> (server, tcp_conn) py" where
  "connectionMade p host =
     py_bind (py_modify (\<lambda>s. s\<lparr>tcp_settings := host\<rparr>)) (\<lambda>_.
     py_bind uuid1 (\<lambda>u.
     let k = \<lparr>peer = p, local_host = host, tcp_session = u\<rparr> in
     py_bind (tcp_report k [(''eventid'', PStr ''connection'')]) (\<lambda>_. py_return k)))"

definition connectionLost :: "tcp_conn \<Rightarrow> (server, unit) py" where
  "connectionLost k = tcp_report k [(''eventid'', PStr ''disconnection'')]"

definition undecodable :: "string \<Rightarrow> pydict" where
  "undecodable incom_data =
     [(''eventid'', PStr ''command_accept''), (''command_input'', PStr (str_bytes incom_data)),
      (''command_output'', PStr []), (''command_input_codec'', PStr ''bytes''),
      (''command_output_codec'', PStr ''plain'')]"

definition client_ctx :: "sip_config \<Rightarrow> string \<Rightarrow> endpoint \<Rightarrow> endpoint \<Rightarrow> call_ctx" where
  "client_ctx cfg prot p host =
     \<lparr>proto = prot, addr = p, local_ip = fst host, local_port = snd host, g_sipconfig = cfg\<rparr>"

definition tcp_dataReceived ::
  "sip_config \<Rightarrow> (payload \<Rightarrow> unit res) \<Rightarrow> tcp_conn \<Rightarrow> string \<Rightarrow> (server, unit) py" where
  "tcp_dataReceived cfg tw k incom_data =
     py_bind (py_modify (\<lambda>s. s\<lparr>tcp_settings := local_host k\<rparr>)) (\<lambda>_.
     case py_decode incom_data of
       Inr data_string \<Rightarrow>
         py_bind uuid1 (\<lambda>u.
         py_bind (on_voip (worker (client_ctx cfg ''TCP'' (peer k) (local_host k)) u data_string)) (\<lambda>wd.
         py_bind (for_each (tcp_report k) (wd_reports wd)) (\<lambda>_.
         for_each (\<lambda>d. send tw d (peer k)) (wd_data wd))))
     | Inl _ \<Rightarrow> tcp_report k (undecodable incom_data))"

section \<open>UDP\<close>

text \<open>
  \<open>report\<close> once the session identifier is known. The condition \<open>'src_ip' and 'src_port' not in
  obj\<close> is Python for \<open>'src_port' not in obj\<close>.
\<close>

definition udp_report_as :: "string \<Rightarrow> pydict \<Rightarrow> (server, unit) py" where
  "udp_report_as session obj =
     py_bind utcnow (\<lambda>now.
     py_bind py_get (\<lambda>s.
       let o1 = dict_set ''dest_port'' (PInt (snd (udp_settings s)))
               (dict_set ''dest_ip'' (PStr (fst (udp_settings s)))
               (dict_set ''protocol'' (PStr ''udp'')
               (dict_set ''type'' (PStr ''d_link_dph150s'')
               (dict_set ''session'' (PStr session)
               (dict_set ''timestamp'' (PStr (isoformat now)) obj)))));
           o2 = (if \<not> dict_has ''src_port'' o1
                 then dict_set ''src_port'' (PInt (snd (udp_addr s)))
                     (dict_set ''src_ip'' (PStr (fst (udp_addr s))) o1)
                 else o1)
       in logger_write o2))"

text \<open>
  A new address gets a fresh identifier, which is not the empty text, so the report of its
  connection does not look the session up again.
\<close>

definition get_session :: "(server, string) py" where
  "get_session =
     py_bind py_get (\<lambda>s.
     let ip_address = fst (udp_addr s) in
     case map_of (udp_sessions s) ip_address of
       None \<Rightarrow>
         py_bind uuid1 (\<lambda>session.
         py_bind utcnow (\<lambda>now.
         py_bind (py_modify (\<lambda>t. t\<lparr>udp_sessions := dict_set ip_address
               \<lparr>us_session = session, us_datetime = now, us_port = snd (udp_addr t)\<rparr>
               (udp_sessions t)\<rparr>)) (\<lambda>_.
         py_bind (udp_report_as session [(''eventid'', PStr ''connection'')]) (\<lambda>_.
         py_return session))))
     | Some us \<Rightarrow>
         py_bind utcnow (\<lambda>now.
         py_bind (py_modify (\<lambda>t. t\<lparr>udp_sessions :=
             dict_set ip_address (us\<lparr>us_datetime := now\<rparr>) (udp_sessions t)\<rparr>)) (\<lambda>_.
         py_return (us_session us))))"

definition udp_report :: "pydict \<Rightarrow> (server, unit) py" where
  "udp_report obj = py_bind get_session (\<lambda>session. udp_report_as session obj)"

definition datagramReceived ::
  "sip_config \<Rightarrow> (payload \<Rightarrow> unit res) \<Rightarrow> string \<Rightarrow> endpoint \<Rightarrow> (server, unit) py" where
  "datagramReceived cfg tw incom_data peer_addr =
     py_bind (py_modify (\<lambda>s. s\<lparr>udp_addr := peer_addr\<rparr>)) (\<lambda>_.
     py_bind py_get (\<lambda>s.
     case py_decode incom_data of
       Inr data_string \<Rightarrow>
         py_bind uuid1 (\<lambda>u.
         py_bind (on_voip (worker (client_ctx cfg ''UDP'' peer_addr (udp_settings s)) u data_string)) (\<lambda>wd.
         py_bind (for_each udp_report (wd_reports wd)) (\<lambda>_.
         for_each (\<lambda>d. send tw d peer_addr) (wd_data wd))))
     | Inl _ \<Rightarrow> udp_report (undecodable incom_data)))"

text \<open>
  One pass of \<open>check_conection\<close>. \<open>relativedelta(start, now).minutes\<close> is the function
  \<open>rel_minutes\<close> of the \<open>dateutil\<close> package: the minutes part of the difference, without its
  hours and days. The stored time is never text, so the conversion of a text is not needed.
\<close>

definition MINUTES_LEFT :: int where
  "MINUTES_LEFT = 10"

fun check_addresses ::
  "(datetime \<Rightarrow> datetime \<Rightarrow> int) \<Rightarrow> (string \<times> udp_session) list \<Rightarrow> string list \<Rightarrow>
     (server, string list) py" where
  "check_addresses rel_minutes [] list_to_delete = py_return list_to_delete"
| "check_addresses rel_minutes ((ip_address, us) # rest) list_to_delete =
     py_bind utcnow (\<lambda>now.
     if \<bar>rel_minutes (us_datetime us) now\<bar> > MINUTES_LEFT then
       py_bind (udp_report_as (us_session us)
           [(''eventid'', PStr ''disconnection''), (''src_ip'', PStr ip_address),
            (''src_port'', PInt (us_port us))]) (\<lambda>_.
       check_addresses rel_minutes rest (list_to_delete @ [ip_address]))
     else check_addresses rel_minutes rest list_to_delete)"

definition delete_from_dict :: "string list \<Rightarrow> (server, unit) py" where
  "delete_from_dict del_list =
     py_modify (\<lambda>s. s\<lparr>udp_sessions := fold AList.delete del_list (udp_sessions s)\<rparr>)"

definition check_pass :: "(datetime \<Rightarrow> datetime \<Rightarrow> int) \<Rightarrow> (server, unit) py" where
  "check_pass rel_minutes =
     py_bind py_get (\<lambda>s.
     py_bind (check_addresses rel_minutes (udp_sessions s) []) delete_from_dict)"

definition startProtocol :: "endpoint \<Rightarrow> (server, unit) py" where
  "startProtocol host = py_modify (\<lambda>s. s\<lparr>udp_settings := host\<rparr>)"

end
