(* ===== verification/VoipAnswers.thy ===== *)
theory VoipAnswers
  imports VoipProps
begin

text \<open>
  The properties of the SIP user agent, each with a concrete message at which its hypotheses
  hold. The messages are parsed by the modelled parser; the digest is the modelled MD5 of the
  shipped secret.
\<close>

section \<open>An INVITE with the right digest, written out\<close>

definition ex_ctx :: call_ctx where
  "ex_ctx = \<lparr>proto = ''UDP'', addr = (''10.0.0.9'', 5061), local_ip = ''10.0.0.1'',
     local_port = 5060, g_sipconfig = config_json\<rparr>"

definition ex_auth :: string where
  "ex_auth = print_auth [] [(''username'', ''100''), (''response'', expected_response ex_ctx)]"

definition ex_headers :: headers where
  "ex_headers =
     [(''INVITE sip'', ''100@10.0.0.1 SIP/2.0''), (''From'', ''alice''), (''Call-ID'', ''c1''),
      (''CSeq'', ''3 INVITE''), (''Authorization'', ''Digest '' @ ex_auth),
      (''m'', ''audio 30123 RTP/AVP 0'')]"

definition ex_invite :: string where
  "ex_invite = print_headers ex_headers"

lemma expected_response_digits: "set (expected_response c) \<subseteq> set ''0123456789abcdef''"
  by (auto simp only: expected_response_def get_hash_def Let_def dest!: md5_hex_digits)

lemma ex_auth_text:
  "ex_auth = ''username='' @ [CHR 0x22] @ ''100'' @ [CHR 0x22] @ '',response='' @ [CHR 0x22] @
     expected_response ex_ctx @ [CHR 0x22]"
  by (simp add: ex_auth_def print_auth_def)

lemma digits_not_special:
  "CHR 0x0D \<notin> set (expected_response c)" "CHR 0x0A \<notin> set (expected_response c)"
  "set (expected_response c) \<inter> (set auth_quotes \<union> {CHR '','', CHR ''=''}) = {}"
  using expected_response_digits [of c] by (auto simp: auth_quotes_def)

lemma ex_headers_clean: "\<forall>h \<in> set ex_headers. clean_header h"
  using digits_not_special [of ex_ctx]
  by (simp add: ex_headers_def clean_header_def ex_auth_text)

lemma ex_headers_strip:
  "map (\<lambda>(k, v). (strip_space k, strip_space v)) ex_headers = ex_headers"
  unfolding ex_headers_def ex_auth_text
  by (simp, intro conjI; rule strip_space_id; simp add: py_spaces_def)

lemma ex_get_headers: "get_headers ex_invite = ex_headers"
proof -
  have keys: "map (strip_space \<circ> fst) ex_headers = map fst ex_headers"
    using arg_cong [OF ex_headers_strip, of "map fst"] by (auto simp: comp_def split_beta)
  have "distinct (map (strip_space \<circ> fst) ex_headers)"
    unfolding keys by (simp add: ex_headers_def)
  then show ?thesis
    using parse_printed_headers [OF ex_headers_clean] by (simp only: ex_invite_def ex_headers_strip)
qed

lemma ex_digest: "digest_user ex_ctx ex_headers = Some ''100''"
proof -
  have "auth_line_dict ex_auth = Inr [(''username'', ''100''), (''response'', expected_response ex_ctx)]"
    unfolding ex_auth_def using digits_not_special(3) [of ex_ctx]
    by (intro parse_printed_auth) (auto simp: clean_param_def auth_quotes_def)
  moreover have "split_once (CHR 0x20) (''Digest'' @ CHR 0x20 # ex_auth) = Some (''Digest'', ex_auth)"
    by (rule split_once_append) simp
  ultimately show ?thesis
    by (simp add: digest_user_def ex_headers_def)
qed

lemma ex_media: "media_port ex_headers = Some ''30123''"
  by (simp add: media_port_def ex_headers_def starts_with_def)

lemma ex_fresh: "sessions s ''c1'' = None \<Longrightarrow> fresh_call ex_headers s = Some ''c1''"
  by (simp add: fresh_call_def ex_headers_def)

text \<open>A state with one call set up, and a CANCEL of it.\<close>

definition ex_call :: sip_session where
  "ex_call =
     \<lparr>inviteHeaders = [(''From'', ''alice''), (''Call-ID'', ''c1'')], sip_state = SESSION_SETUP,
      remoteAddress = ''10.0.0.9'', remoteSipPort = 5061, remoteRtpPort = ''30123'',
      sipTo = ''alice'', sipFrom = ''100'', sipVia = ''SIP/2.0/UDP a:5060'',
      msg_ringing = ''r'', msg_ok = ''o'', msg_bye = None\<rparr>"

definition ex_state :: voip where
  "ex_state = \<lparr>sessions = [''c1'' \<mapsto> ex_call], json_list = []\<rparr>"

lemma ex_state_inv: "voip_inv ex_state"
  by (auto simp: voip_inv_def ex_state_def session_ok_def ex_call_def)

definition ex_cancel :: string where
  "ex_cancel = join crlf [''CANCEL sip:100 SIP/2.0'', ''From: alice'', ''Call-ID: c1'', ''CSeq: 1 INVITE''] @ crlf"

section \<open>Properties\<close>

text \<open>C39: After any sequence of messages from any peers, raising ones included, every stored call
  carries its own Call-ID, its peer's From as To, and is set up or ended: a call never becomes
  active (the ACK handler of the call object is not called) and never is in teardown; the BYE
  answer exists exactly for ended calls.\<close>

theorem calls_well_formed:
  "voip_inv (fold (\<lambda>(c, u, msg) s. snd (worker c u msg s)) msgs voip_start)"
  by (rule voip.inv_reachable)

text \<open>C1: A message stores a call that was not there only if it is an INVITE whose Authorization
  holds the digest the server expects; the call is stored under the message's Call-ID with the
  port of its media line.\<close>

theorem call_needs_digest:
  assumes "sessions s k = None" and "sessions (snd (worker c u msg s)) k = Some new"
  shows "starts_with msg ''INVITE'' \<and> digest_user c (get_headers msg) \<noteq> None \<and>
    map_of (get_headers msg) ''Call-ID'' = Some k \<and>
    (\<exists>rtp. media_port (get_headers msg) = Some rtp \<and>
      SipSession_init (g_sipconfig c) (addr c) rtp (get_headers msg) = Inr new)"
proof -
  let ?h = "get_headers msg"
  from assms(2) have stored: "sessions (snd (dispatch c u ?h msg s)) k = Some new"
    by (simp add: worker_sessions)
  have invite: "starts_with msg ''INVITE''"
  proof (rule ccontr)
    assume "\<not> starts_with msg ''INVITE''"
    then have "dom (sessions (snd (dispatch c u ?h msg s))) \<subseteq> dom (sessions s)"
      using keepsD [OF dispatch_other_no_new] by blast
    with assms(1) stored show False by auto
  qed
  then have stored: "sessions (snd (check_invite c u ?h msg s)) k = Some new"
    using stored by (simp add: dispatch_invite sip_INVITE_sessions)
  with assms(1) obtain user where user: "digest_user c ?h = Some user"
    using check_invite_unchecked(1) [of c ?h s u msg] by (cases "digest_user c ?h") (auto simp: only_reports_def)
  with stored have "sessions (snd (invite_accept c ?h msg user s)) k = Some new"
    by (simp add: check_invite_checked)
  with assms(1) invite user show ?thesis
    using keepsD [OF invite_refuse_only, of s c ?h msg "auth_object (Some user) False" 403]
    by (cases rule: invite_accept_cases [of c ?h msg user s])
      (auto simp: only_reports_def media_port_index split: if_splits)
qed


theorem call_needs_digest_witness:
  "\<exists>new. sessions (snd (worker ex_ctx ''u'' ex_invite voip_start)) ''c1'' = Some new \<and>
     digest_user ex_ctx (get_headers ex_invite) \<noteq> None \<and>
     SipSession_init config_json (''10.0.0.9'', 5061) ''30123'' ex_headers = Inr new"
proof -
  obtain new where "sip_INVITE ex_ctx ''u'' ex_headers ex_invite voip_start =
      (Inr (DPair (msg_ringing new) (msg_ok new)),
       voip_start\<lparr>sessions := (sessions voip_start)(''c1'' \<mapsto> new),
         json_list := json_list voip_start @ [auth_object (Some ''100'') True,
           invite_report ex_invite (msg_ringing new), invite_report ex_invite (msg_ok new)]\<rparr>)"
    by (rule invite_accept_stored [OF ex_digest ex_media ex_fresh, of voip_start])
      (simp_all add: voip_start_def ex_headers_def)
  moreover have inv: "starts_with ex_invite ''INVITE''"
    by (simp add: ex_invite_def ex_headers_def print_headers_def starts_with_def)
  ultimately have new: "sessions (snd (worker ex_ctx ''u'' ex_invite voip_start)) ''c1'' = Some new"
    by (simp add: worker_sessions dispatch_invite ex_get_headers)
  have "sessions voip_start ''c1'' = None" by (simp add: voip_start_def)
  from call_needs_digest [OF this new] new show ?thesis
    by (auto simp: ex_get_headers ex_media) (simp add: ex_ctx_def)
qed

text \<open>C2: An INVITE is answered with the ringing and OK pair exactly when its digest is the
  expected one, its media line names a port, its Call-ID is not in use and it has a From header;
  then the call is stored under its Call-ID, and the authorization and both answers are
  reported, in this order.\<close>

theorem invite_accepted_iff:
  "sip_INVITE c u h msg s = (Inr (DPair a b), s') \<longleftrightarrow>
     (\<exists>user rtp k new.
        digest_user c h = Some user \<and> media_port h = Some rtp \<and> fresh_call h s = Some k \<and>
        SipSession_init (g_sipconfig c) (addr c) rtp h = Inr new \<and>
        a = msg_ringing new \<and> b = msg_ok new \<and>
        s' = s\<lparr>sessions := (sessions s)(k \<mapsto> new),
               json_list := json_list s @ [auth_object (Some user) True,
                 invite_report msg a, invite_report msg b]\<rparr>)" (is "?L = ?R")
proof
  assume L: ?L
  then have "\<exists>a b. fst (sip_INVITE c u h msg s) = Inr (DPair a b)" by simp
  then obtain user rtp k where *: "digest_user c h = Some user" "media_port h = Some rtp"
    "fresh_call h s = Some k" "map_of h ''From'' \<noteq> None"
    unfolding invite_pair_iff by auto
  then obtain new where "SipSession_init (g_sipconfig c) (addr c) rtp h = Inr new"
    and "sip_INVITE c u h msg s = (Inr (DPair (msg_ringing new) (msg_ok new)),
       s\<lparr>sessions := (sessions s)(k \<mapsto> new), json_list := json_list s @
         [auth_object (Some user) True, invite_report msg (msg_ringing new),
          invite_report msg (msg_ok new)]\<rparr>)"
    by (rule invite_accept_stored)
  with * L show ?R by auto
next
  assume ?R
  then obtain user rtp k new where *: "digest_user c h = Some user" "media_port h = Some rtp"
    "fresh_call h s = Some k" "SipSession_init (g_sipconfig c) (addr c) rtp h = Inr new"
    and r: "a = msg_ringing new" "b = msg_ok new"
      "s' = s\<lparr>sessions := (sessions s)(k \<mapsto> new), json_list := json_list s @
         [auth_object (Some user) True, invite_report msg a, invite_report msg b]\<rparr>"
    by blast
  moreover from *(4) have "map_of h ''From'' \<noteq> None"
    using SipSession_init_Inr [of "g_sipconfig c" "addr c" rtp h] by blast
  ultimately show ?L
    by (elim invite_accept_stored [of c h user rtp s k u msg]) auto
qed

text \<open>What the header parser reads from a message printed with CR LF line ends is every
  header, with the white space around key and value removed, in order.\<close>

theorem get_headers_print:
  assumes "\<forall>h \<in> set hs. clean_header h" and "distinct (map (strip_space \<circ> fst) hs)"
  shows "get_headers (print_headers hs) = map (\<lambda>(k, v). (strip_space k, strip_space v)) hs"
  using assms by (rule parse_printed_headers)

theorem get_headers_print_witness:
  "get_headers (print_headers [(''Via'', '' SIP/2.0/UDP a;branch=z''), (''To '', '' b'')]) =
     [(''Via'', ''SIP/2.0/UDP a;branch=z''), (''To'', ''b'')]"
proof -
  have s: "strip_space ''Via'' = ''Via''" "strip_space ''To '' = ''To''" "strip_space '' b'' = ''b''"
    "strip_space '' SIP/2.0/UDP a;branch=z'' = ''SIP/2.0/UDP a;branch=z''"
    by code_simp+
  show ?thesis
    by (subst get_headers_print) (simp_all add: clean_header_def s)
qed

text \<open>The parameters \<open>name="value"\<close> of a one-line Authorization header are read back, whatever
  blanks stand before them.\<close>

theorem auth_line_print:
  assumes "ps \<noteq> []" and "set pad \<subseteq> {CHR 0x20}"
    and "\<forall>p \<in> set ps. clean_param p" and "distinct (map fst ps)"
  shows "auth_line_dict (print_auth pad ps) = Inr ps"
  using assms by (rule parse_printed_auth)

theorem auth_line_print_witness:
  "auth_line_dict (print_auth '' '' [(''username'', ''100''), (''uri'', ''sip:100@a'')]) =
     Inr [(''username'', ''100''), (''uri'', ''sip:100@a'')]"
  by (rule auth_line_print) (simp_all add: clean_param_def auth_quotes_def)

lemma auth_params_empty_last: "auth_params (xs @ [[]]) d = Inl IndexError"
proof (induction xs arbitrary: d)
  case (Cons x xs)
  then show ?case by (simp add: index_def Let_def)
qed (simp add: index_def)

lemma auth_line_comma: "auth_line_dict (line @ '','') = Inl IndexError"
proof -
  have "strip_chars [CHR 0x20, CHR 0x09, CHR 0x0D, CHR 0x0A] [] = []"
    by (simp add: strip_chars_def lstrip_chars_def rstrip_chars_def)
  then show ?thesis
    by (simp add: auth_line_dict_def split_str_snoc auth_params_empty_last)
qed

text \<open>An Authorization line that ends in a comma, which is what a header folded over several
  lines (the form the README shows) leaves, is never checked: reading the empty last parameter
  raises \<open>IndexError\<close> before the digest is compared, the server answers nothing and nothing
  is stored or reported.\<close>

theorem folded_authorization_raises:
  assumes "map_of h ''Authorization'' = Some (''Digest '' @ line @ '','')"
  shows "sip_INVITE c u h msg s = (Inl IndexError, s)"
proof -
  have "split_once (CHR 0x20) (''Digest'' @ CHR 0x20 # line @ '','') = Some (''Digest'', line @ '','')"
    by (rule split_once_append) simp
  with assms show ?thesis
    by (simp add: sip_INVITE_def check_invite_def auth_line_comma)
qed

definition readme_invite :: string where
  "readme_invite = join [CHR 0x0A]
     [''INVITE sip:100@localhost SIP/2.0'',
      ''Via: SIP/2.0/UDP 127.0.0.1:5060;branch=z9hG4bK87asdks7'',
      ''From: socketHelper'', ''To: 100@localhost'', ''Call-ID: 4512'', ''CSeq: 3 INVITE'',
      ''Authorization: Digest username='' @ [CHR 0x22] @ ''100'' @ [CHR 0x22] @ '','',
      ''               realm='' @ [CHR 0x22] @ ''100@localhost'' @ [CHR 0x22] @ '','',
      ''m=audio 30123 RTP/AVP 0''] @ crlf"

theorem folded_authorization_raises_witness:
  "sip_INVITE ex_ctx ''u'' (get_headers readme_invite) readme_invite voip_start =
     (Inl IndexError, voip_start)"
proof (rule folded_authorization_raises [where line = "''username='' @ [CHR 0x22] @ ''100'' @ [CHR 0x22]"])
  show "map_of (get_headers readme_invite) ''Authorization'' =
    Some (''Digest '' @ (''username='' @ [CHR 0x22] @ ''100'' @ [CHR 0x22]) @ '','')"
    by code_simp
qed

text \<open>Nothing reported is lost: a message that is answered hands over all reports pending from
  earlier messages, first, and leaves none pending; a message whose handling raises leaves the
  pending ones, with its own after them, for the next message (of whatever peer).\<close>

theorem no_report_lost:
  "case worker c u msg s of
     (Inr d, s') \<Rightarrow> prefix (json_list s) (wd_reports d) \<and> json_list s' = []
   | (Inl e, s') \<Rightarrow> prefix (json_list s) (json_list s')"
  using keepsD [OF dispatch_adds, of s c u "get_headers msg" msg]
  by (auto simp: worker_def flush_reports_def adds_reports_def split: prod.split sum.split)

text \<open>An ACK in no known call is never answered: the call of \<open>bad_answer\<close> passes message and
  headers in the wrong order, so instead of sending 481 it raises \<open>TypeError\<close>.\<close>

theorem ack_unknown_raises:
  assumes "starts_with msg ''ACK''" and "find_session (get_headers msg) s = None"
    and "bad_answer_text c 481 = Inr answer"
  shows "worker c u msg s = (Inl TypeError, s)"
proof -
  from assms(1) have "dispatch c u h msg = py_bind (sip_ACK c h msg) (\<lambda>_. py_return DNone)" for h
    by (auto simp: dispatch_def starts_with_iff)
  with assms(2,3) show ?thesis
    by (simp add: worker_def sip_ACK_def bad_answer_def)
qed

theorem ack_unknown_raises_witness:
  "worker ex_ctx ''u'' (''ACK sip:100 SIP/2.0'' @ crlf) voip_start = (Inl TypeError, voip_start)"
  by (rule ack_unknown_raises [where answer = "''481 Call/Transaction Does Not Exist''"])
    (simp_all add: starts_with_def find_session_def voip_start_def ex_ctx_def bad_answer_text_def
      config_json_def str_int_def str_nat.simps digit_char_def split: option.split)

text \<open>OPTIONS is answered exactly when Via has a branch, From has a tag, and Call-ID and CSeq
  are there; otherwise a raise leaves the peer without an answer and the state as it was. The
  answer and its report are the 200 text, and nothing else changes.\<close>

theorem options_answered_iff:
  "(\<exists>t. sip_OPTIONS c h msg s =
          (Inr (DBytes t), s\<lparr>json_list := json_list s @ [command_accept (PStr msg) t ''bytes'']\<rparr>)) \<longleftrightarrow>
     (\<exists>via frm. map_of h ''Via'' = Some via \<and> map_of h ''From'' = Some frm \<and>
        last_param ''branch='' via \<noteq> None \<and> last_param ''tag='' frm \<noteq> None \<and>
        map_of h ''Call-ID'' \<noteq> None \<and> map_of h ''CSeq'' \<noteq> None)"
  by (cases "options_text c h")
    (auto simp: sip_OPTIONS_def options_text_def Let_def getitem_def local_var_def py_simps
      split: option.splits)

text \<open>BYE in a stored call is answered with the call's own OK, reported, and ends the call: the
  call stays stored, in state \<open>NO_SESSION\<close>, and no other call changes.\<close>

theorem bye_ends_call:
  assumes "voip_inv s" and "map_of h ''Call-ID'' = Some k" and "sessions s k = Some sess"
  shows "\<exists>sess' m. handle_BYE (g_sipconfig c) sess = Inr sess' \<and> sip_state sess' = NO_SESSION \<and>
    msg_bye sess' = Some m \<and>
    sip_BYE c h msg s = (Inr (DStr m), s\<lparr>sessions := (sessions s)(k \<mapsto> sess'),
       json_list := json_list s @ [command_accept (PStr msg) m ''plain'']\<rparr>)"
  using sip_BYE_known [of h s k sess c msg] assms by (auto simp: find_session_Some)

theorem bye_ends_call_witness:
  "\<exists>(sess' :: sip_session) m. sip_state sess' = NO_SESSION \<and> msg_bye sess' = Some m \<and>
     fst (sip_BYE ex_ctx [(''Call-ID'', ''c1'')] ''BYE'' ex_state) = Inr (DStr m)"
proof -
  have "map_of [(''Call-ID'', ''c1'')] ''Call-ID'' = Some ''c1''" "sessions ex_state ''c1'' = Some ex_call"
    by (simp_all add: ex_state_def)
  from bye_ends_call [OF ex_state_inv this, of ex_ctx "''BYE''"] show ?thesis by auto
qed

definition cancel_target :: "headers \<Rightarrow> string \<Rightarrow> bool" where
  "cancel_target h k \<longleftrightarrow> map_of h ''Call-ID'' = Some k \<and> map_of h ''From'' \<noteq> None \<and>
     (\<exists>n m r. map_option (split_str '' '') (map_of h ''CSeq'') = Some (n # m # r) \<and>
        m \<in> {''INVITE'', ''ACK''})"

lemma cancel_target_step:
  assumes "cancel_target h k"
  shows "sip_CANCEL c h msg s =
      (if sessions s k = None
       then py_bind (bad_answer c (ArgStr msg) (ArgDict h) 404) (\<lambda>r. py_return (DStr r)) s
       else cancel_reply c h msg (s\<lparr>sessions := (sessions s)(k := None)\<rparr>))"
  using assms by (auto simp: cancel_target_def sip_CANCEL_def getitem_def index_def)

lemma cancel_freed:
  assumes "cancel_target h k" and "sessions s k \<noteq> None"
  shows "sessions (snd (sip_CANCEL c h msg s)) = (sessions s)(k := None)"
  using keepsD [OF cancel_reply_only, of "s\<lparr>sessions := (sessions s)(k := None)\<rparr>" c h msg] assms(2)
  by (auto simp: cancel_target_step [OF assms(1)] only_reports_def)

text \<open>CANCEL of an INVITE or ACK removes exactly its call and is answered with OK; without
  such a call it is answered with 404 and changes no call.\<close>

theorem cancel_frees_call:
  assumes "cancel_target h k" and "bad_answer_text c 404 = Inr answer"
  shows "case sip_CANCEL c h msg s of
      (Inr (DStr t), s') \<Rightarrow>
         (if sessions s k = None then sessions s' = sessions s \<and> starts_with t (''SIP/2.0 '' @ answer)
          else sessions s' = (sessions s)(k := None) \<and> starts_with t ''SIP/2.0 200 OK'')
    | _ \<Rightarrow> False"
proof -
  from assms(1) obtain frm z where "map_of h ''Call-ID'' = Some k"
    "map_of h ''From'' = Some frm" "map_of h ''CSeq'' = Some z"
    by (auto simp: cancel_target_def)
  then show ?thesis
    using assms(2) unfolding cancel_target_step [OF assms(1)]
    by (cases "sessions s k") (simp_all add: cancel_reply_def cancel_text_def bad_answer_def
      getitem_def starts_with_def Let_def)
qed

theorem cancel_frees_call_witness:
  "case sip_CANCEL ex_ctx [(''Call-ID'', ''c1''), (''From'', ''alice''), (''CSeq'', ''1 INVITE'')] ''m'' voip_start of
      (Inr (DStr t), s') \<Rightarrow> sessions s' = Map.empty \<and> starts_with t ''SIP/2.0 404 Not Found''
    | _ \<Rightarrow> False"
proof -
  let ?h = "[(''Call-ID'', ''c1''), (''From'', ''alice''), (''CSeq'', ''1 INVITE'')]"
  have t: "cancel_target ?h ''c1''" by (simp add: cancel_target_def starts_with_def)
  have a: "bad_answer_text ex_ctx 404 = Inr ''404 Not Found''" by code_simp
  show ?thesis
    using cancel_frees_call [OF t a, where msg = "''m''" and s = voip_start]
    by (simp add: voip_start_def split: prod.splits sum.splits payload.splits)
qed

lemma keeps_calls_preorder: "preorder_on_states (\<lambda>s s'. dom (sessions s) \<subseteq> dom (sessions s'))"
  unfolding preorder_on_states_def reflp_def transp_def by blast

lemma only_reports_calls:
  "keeps only_reports m \<Longrightarrow> keeps (\<lambda>s s'. dom (sessions s) \<subseteq> dom (sessions s')) m"
  by (auto simp: keeps_def only_reports_def)

lemma store_keeps_calls:
  "keeps (\<lambda>s s'. dom (sessions s) \<subseteq> dom (sessions s'))
     (py_modify (\<lambda>t. t\<lparr>sessions := (sessions t)(k \<mapsto> v)\<rparr>))"
  by (rule keeps_modify) auto

lemmas calls_intros = keeps_calls_preorder store_keeps_calls only_reports_calls [OF voip_report_only]
  only_reports_calls [OF bad_answer_only] only_reports_calls [OF sip_OPTIONS_only]
  only_reports_calls [OF invite_refuse_only] only_reports_calls [OF sip_ACK_only]

lemma sip_BYE_keeps_calls:
  "keeps (\<lambda>s s'. dom (sessions s) \<subseteq> dom (sessions s')) (sip_BYE c h msg)"
  unfolding sip_BYE_def by (intro keeps_intros calls_intros)

lemma sip_INVITE_keeps_calls:
  "keeps (\<lambda>s s'. dom (sessions s) \<subseteq> dom (sessions s')) (sip_INVITE c u h msg)"
proof -
  have "keeps (\<lambda>s s'. dom (sessions s) \<subseteq> dom (sessions s')) (invite_accept c h msg user)" for user
    unfolding invite_accept_def by (intro keeps_intros calls_intros)
  then have "keeps (\<lambda>s s'. dom (sessions s) \<subseteq> dom (sessions s')) (check_invite c u h msg)"
    unfolding check_invite_def Let_def by (intro keeps_intros calls_intros)
  then show ?thesis by (simp add: keeps_def sip_INVITE_sessions)
qed

lemma sip_CANCEL_calls:
  "sessions s k \<noteq> None \<Longrightarrow> sessions (snd (sip_CANCEL c h msg s)) k = None \<Longrightarrow>
     map_of h ''Call-ID'' = Some k"
proof (cases "map_of h ''Call-ID''")
  case (Some k')
  assume k: "sessions s k \<noteq> None" "sessions (snd (sip_CANCEL c h msg s)) k = None"
  have r: "sessions (snd (cancel_reply c h msg t)) = sessions t" for t
    using keepsD [OF cancel_reply_only, of t c h msg] by (simp add: only_reports_def)
  have b: "sessions (snd (bad_answer c (ArgStr msg) (ArgDict h) 404 s)) = sessions s"
    using keepsD [OF bad_answer_only, of s c "ArgStr msg" "ArgDict h" 404] by (simp add: only_reports_def)
  show ?thesis
    using k r b Some
    by (auto simp: sip_CANCEL_def Let_def py_simps split: sum.splits prod.splits if_splits)
next
  case None
  moreover assume "sessions s k \<noteq> None" "sessions (snd (sip_CANCEL c h msg s)) k = None"
  ultimately show ?thesis by (simp add: sip_CANCEL_def getitem_def)
qed

text \<open>A Call-ID stays in use until a CANCEL names it: no other message, BYE included, frees
  it, so after a BYE an INVITE with the same Call-ID is still refused.\<close>

theorem call_id_reserved:
  assumes "sessions s k \<noteq> None" and "sessions (snd (worker c u msg s)) k = None"
  shows "starts_with msg ''CANCEL'' \<and> map_of (get_headers msg) ''Call-ID'' = Some k"
proof -
  let ?h = "get_headers msg" and ?R = "\<lambda>s s'. dom (sessions s) \<subseteq> dom (sessions s')"
  from assms(2) have gone: "sessions (snd (dispatch c u ?h msg s)) k = None"
    by (simp add: worker_sessions)
  have "starts_with msg ''CANCEL''"
  proof (rule ccontr)
    assume no: "\<not> starts_with msg ''CANCEL''"
    have "keeps ?R (dispatch c u ?h msg)"
      unfolding dispatch_def sip_REGISTER_def sip_RESPONSE_def if_not_P [OF no]
      by (intro keeps_intros calls_intros sip_BYE_keeps_calls sip_INVITE_keeps_calls)
    from keepsD [OF this, of s] gone assms(1) show False by auto
  qed
  moreover from this gone assms(1) have "map_of ?h ''Call-ID'' = Some k"
    by (intro sip_CANCEL_calls [of s k c ?h msg]) (auto simp: dispatch_def starts_with_iff)
  ultimately show ?thesis ..
qed

theorem call_id_reserved_witness:
  "sessions (snd (worker ex_ctx ''u'' ex_cancel ex_state)) ''c1'' = None \<and>
     starts_with ex_cancel ''CANCEL''"
proof -
  have h: "get_headers ex_cancel = [(''CANCEL sip'', ''100 SIP/2.0''), (''From'', ''alice''), (''Call-ID'', ''c1''), (''CSeq'', ''1 INVITE'')]"
    by code_simp
  have t: "starts_with ex_cancel ''CANCEL''" "\<not> starts_with ex_cancel ''OPTIONS''"
    "\<not> starts_with ex_cancel ''INVITE''"
    by (simp_all add: ex_cancel_def starts_with_def)
  have "cancel_target (get_headers ex_cancel) ''c1''"
    by (simp add: h cancel_target_def starts_with_def)
  from cancel_freed [OF this] have "sessions (snd (worker ex_ctx ''u'' ex_cancel ex_state)) ''c1'' = None"
    by (simp add: worker_sessions dispatch_def t ex_state_def)
  with call_id_reserved [of ex_state "''c1''" ex_ctx "''u''" ex_cancel] show ?thesis
    by (simp add: ex_state_def)
qed

end
