(* ===== verification/SipServerProps.thy ===== *)
theory SipServerProps
  imports SipServer VoipAnswers
begin

text \<open>
  What the servers promise: complete log entries, one stable session per address, expiry of
  silent addresses, the invariant over every interleaving of events, and what becomes of
  answers the transport does not take and of data that is not text.
\<close>

section \<open>What the log receives\<close>

definition entry_ok :: "string \<Rightarrow> pydict \<Rightarrow> bool" where
  "entry_ok prot obj \<longleftrightarrow>
     map_of obj ''type'' = Some (PStr ''d_link_dph150s'') \<and>
     map_of obj ''protocol'' = Some (PStr prot) \<and>
     list_all (\<lambda>k. map_of obj k \<noteq> None)
       [''timestamp'', ''session'', ''dest_ip'', ''dest_port'', ''src_port'']"

definition logs_entries :: "string \<Rightarrow> server \<Rightarrow> server \<Rightarrow> bool" where
  "logs_entries prot s s' \<longleftrightarrow>
     (\<exists>new. log_out s' = log_out s @ new \<and> list_all (entry_ok prot) new)"

lemma logs_entries_preorder [keeps_intros]: "preorder_on_states (logs_entries prot)"
proof -
  have "logs_entries prot s s" for s by (simp add: logs_entries_def)
  moreover have "logs_entries prot s u" if "logs_entries prot s t" "logs_entries prot t u" for s t u
    using that unfolding logs_entries_def by (metis append_assoc list_all_append)
  ultimately show ?thesis
    unfolding preorder_on_states_def reflp_def transp_def by blast
qed

definition same_log :: "server \<Rightarrow> server \<Rightarrow> bool" where
  "same_log s s' \<longleftrightarrow> log_out s' = log_out s"

lemma same_log_keeps: "keeps same_log m \<Longrightarrow> keeps (logs_entries prot) m"
  by (auto simp: keeps_def same_log_def logs_entries_def)

lemma same_log_preorder [keeps_intros]: "preorder_on_states same_log"
  by (auto simp: preorder_on_states_def reflp_def transp_def same_log_def)

lemma same_log_intros [keeps_intros]:
  "keeps same_log utcnow" "keeps same_log uuid1" "keeps same_log (on_voip m)"
  "keeps same_log (py_modify (\<lambda>s. s\<lparr>udp_sessions := f s\<rparr>))"
  "keeps same_log (py_modify (\<lambda>s. s\<lparr>udp_addr := p\<rparr>))"
  "keeps same_log (py_modify (\<lambda>s. s\<lparr>tcp_settings := p\<rparr>))"
  "keeps same_log (py_modify (\<lambda>s. s\<lparr>sent := g s\<rparr>))"
  by (auto simp: keeps_def same_log_def utcnow_def uuid1_def on_voip_def split: prod.split)

lemma send_same_log [keeps_intros]: "keeps same_log (send tw d p)"
  unfolding send_def Let_def by (intro keeps_intros)

lemma logger_write_apply [simp]:
  "logger_write obj s = (Inr (), s\<lparr>log_out := log_out s @ [obj]\<rparr>)"
  by (simp add: logger_write_def)

lemma utcnow_apply [simp]:
  "utcnow s = (Inr (clock s (readings s)), s\<lparr>readings := Suc (readings s)\<rparr>)"
  by (simp add: utcnow_def)

lemma uuid1_apply [simp]:
  "uuid1 s = (Inr (uuids s (drawn s)), s\<lparr>drawn := Suc (drawn s)\<rparr>)"
  by (simp add: uuid1_def)

text \<open>The two \<open>report\<close> methods, evaluated.\<close>

definition udp_entry :: "datetime \<Rightarrow> string \<Rightarrow> endpoint \<Rightarrow> endpoint \<Rightarrow> pydict \<Rightarrow> pydict" where
  "udp_entry now session host src obj =
     (let o1 = dict_set ''dest_port'' (PInt (snd host))
              (dict_set ''dest_ip'' (PStr (fst host))
              (dict_set ''protocol'' (PStr ''udp'')
              (dict_set ''type'' (PStr ''d_link_dph150s'')
              (dict_set ''session'' (PStr session)
              (dict_set ''timestamp'' (PStr (isoformat now)) obj)))))
      in if \<not> dict_has ''src_port'' o1
         then dict_set ''src_port'' (PInt (snd src)) (dict_set ''src_ip'' (PStr (fst src)) o1)
         else o1)"

lemma udp_report_as_apply [simp]:
  "udp_report_as session obj s =
     (Inr (), s\<lparr>readings := Suc (readings s), log_out := log_out s @
        [udp_entry (clock s (readings s)) session (udp_settings s) (udp_addr s) obj]\<rparr>)"
  by (simp add: udp_report_as_def udp_entry_def Let_def)

lemma udp_entry_ok: "entry_ok ''udp'' (udp_entry now session host src obj)"
  by (auto simp: udp_entry_def entry_ok_def Let_def dict_has_iff)

lemma udp_report_as_logs [keeps_intros]: "keeps (logs_entries ''udp'') (udp_report_as session obj)"
  by (auto simp: keeps_def logs_entries_def udp_entry_ok)

lemma server_prim_logs [keeps_intros]:
  "keeps (logs_entries p) utcnow" "keeps (logs_entries p) uuid1" "keeps (logs_entries p) (on_voip m)"
  "keeps (logs_entries p) (py_modify (\<lambda>s. s\<lparr>udp_sessions := f s\<rparr>))"
  "keeps (logs_entries p) (py_modify (\<lambda>s. s\<lparr>udp_addr := a\<rparr>))"
  "keeps (logs_entries p) (send tw d a)"
  by (intro same_log_keeps same_log_intros send_same_log)+

lemma get_session_logs [keeps_intros]: "keeps (logs_entries ''udp'') get_session"
  unfolding get_session_def Let_def by (intro keeps_intros)

lemma udp_report_logs [keeps_intros]: "keeps (logs_entries ''udp'') (udp_report obj)"
  unfolding udp_report_def by (intro keeps_intros)

lemma datagramReceived_logs: "keeps (logs_entries ''udp'') (datagramReceived cfg tw d p)"
  unfolding datagramReceived_def by (intro keeps_intros)

lemma check_addresses_logs [keeps_intros]:
  "keeps (logs_entries ''udp'') (check_addresses rm xs ys)"
proof (induction xs arbitrary: ys)
  case Nil
  show ?case unfolding check_addresses.simps by (intro keeps_intros)
next
  case (Cons x xs)
  obtain ip us where x: "x = (ip, us)" by (cases x)
  show ?case unfolding x check_addresses.simps by (intro keeps_intros Cons)
qed

section \<open>Sessions by address\<close>

text \<open>A session identifier, once given to an address, is the one its later reports carry.\<close>

definition same_ids :: "server \<Rightarrow> server \<Rightarrow> bool" where
  "same_ids s s' \<longleftrightarrow>
     (\<forall>ip us. map_of (udp_sessions s) ip = Some us \<longrightarrow>
        (\<exists>us'. map_of (udp_sessions s') ip = Some us' \<and> us_session us' = us_session us))"

lemma same_ids_preorder [keeps_intros]: "preorder_on_states same_ids"
  unfolding preorder_on_states_def reflp_def transp_def same_ids_def by fastforce

lemma same_ids_prim [keeps_intros]:
  "keeps same_ids utcnow" "keeps same_ids uuid1" "keeps same_ids (on_voip m)"
  "keeps same_ids (udp_report_as session obj)"
  "keeps same_ids (py_modify (\<lambda>s. s\<lparr>udp_addr := a\<rparr>))"
  "keeps same_ids (py_modify (\<lambda>s. s\<lparr>sent := g s\<rparr>))"
  by (auto simp: keeps_def same_ids_def on_voip_def split: prod.split)

lemma get_session_apply:
  "get_session s =
     (case map_of (udp_sessions s) (fst (udp_addr s)) of
        None \<Rightarrow>
          (Inr (uuids s (drawn s)),
           s\<lparr>drawn := Suc (drawn s), readings := Suc (Suc (readings s)),
             udp_sessions := dict_set (fst (udp_addr s))
               \<lparr>us_session = uuids s (drawn s), us_datetime = clock s (readings s),
                us_port = snd (udp_addr s)\<rparr> (udp_sessions s),
             log_out := log_out s @ [udp_entry (clock s (Suc (readings s))) (uuids s (drawn s))
               (udp_settings s) (udp_addr s) [(''eventid'', PStr ''connection'')]]\<rparr>)
      | Some us \<Rightarrow>
          (Inr (us_session us),
           s\<lparr>readings := Suc (readings s), udp_sessions := dict_set (fst (udp_addr s))
               (us\<lparr>us_datetime := clock s (readings s)\<rparr>) (udp_sessions s)\<rparr>))"
  by (simp add: get_session_def Let_def split: option.split)

lemma get_session_ids [keeps_intros]: "keeps same_ids get_session"
  by (auto simp: keeps_def same_ids_def get_session_apply split: option.split)

lemma send_ids [keeps_intros]: "keeps same_ids (send tw d p)"
  unfolding send_def Let_def by (intro keeps_intros)

lemma datagramReceived_ids: "keeps same_ids (datagramReceived cfg tw d p)"
  unfolding datagramReceived_def udp_report_def by (intro keeps_intros)

text \<open>Invariant of the servers: one table entry per address, and well-formed calls.\<close>

definition server_inv :: "server \<Rightarrow> bool" where
  "server_inv s \<longleftrightarrow> distinct (map fst (udp_sessions s)) \<and> voip_inv (srv_voip s)"

definition keeps_inv :: "server \<Rightarrow> server \<Rightarrow> bool" where
  "keeps_inv s s' \<longleftrightarrow> (server_inv s \<longrightarrow> server_inv s')"

lemma keeps_inv_preorder [keeps_intros]: "preorder_on_states keeps_inv"
  unfolding preorder_on_states_def reflp_def transp_def keeps_inv_def by blast

lemma keeps_inv_prim [keeps_intros]:
  "keeps keeps_inv utcnow" "keeps keeps_inv uuid1"
  "keeps keeps_inv (on_voip (worker c u msg))"
  "keeps keeps_inv (logger_write obj)"
  "keeps keeps_inv (udp_report_as session obj)"
  "keeps keeps_inv (py_modify (\<lambda>s. s\<lparr>udp_sessions := dict_set ip us (udp_sessions s)\<rparr>))"
  "keeps keeps_inv (py_modify (\<lambda>s. s\<lparr>udp_addr := a\<rparr>))"
  "keeps keeps_inv (py_modify (\<lambda>s. s\<lparr>tcp_settings := a\<rparr>))"
  "keeps keeps_inv (py_modify (\<lambda>s. s\<lparr>sent := g s\<rparr>))"
  using worker_inv
  by (auto simp: keeps_def keeps_inv_def server_inv_def on_voip_def dict_keys_distinct split: prod.split)
    (metis snd_conv)

lemma send_inv [keeps_intros]: "keeps keeps_inv (send tw d p)"
  unfolding send_def Let_def by (intro keeps_intros)

lemma get_session_inv [keeps_intros]: "keeps keeps_inv get_session"
  by (auto simp: keeps_def keeps_inv_def server_inv_def get_session_apply dict_keys_distinct
      split: option.split)

lemma delete_from_dict_inv [keeps_intros]: "keeps keeps_inv (delete_from_dict ips)"
proof -
  have "distinct (map fst (fold AList.delete ips al))" if "distinct (map fst al)" for al :: "(string \<times> udp_session) list"
    using that by (induction ips arbitrary: al) (auto simp: distinct_delete)
  then show ?thesis
    by (auto simp: keeps_def keeps_inv_def server_inv_def delete_from_dict_def)
qed

lemma check_addresses_inv [keeps_intros]: "keeps keeps_inv (check_addresses rm xs ys)"
proof (induction xs arbitrary: ys)
  case Nil
  show ?case unfolding check_addresses.simps by (intro keeps_intros)
next
  case (Cons x xs)
  obtain ip us where x: "x = (ip, us)" by (cases x)
  show ?case unfolding x check_addresses.simps by (intro keeps_intros Cons)
qed

datatype srv_event =
    Datagram string endpoint
  | CheckPass
  | TcpMade endpoint endpoint
  | TcpData tcp_conn string
  | TcpLost tcp_conn

fun srv_step ::
  "sip_config \<Rightarrow> (payload \<Rightarrow> unit res) \<Rightarrow> (datetime \<Rightarrow> datetime \<Rightarrow> int) \<Rightarrow> srv_event \<Rightarrow> server \<Rightarrow> server" where
  "srv_step cfg tw rm (Datagram d p) s = snd (datagramReceived cfg tw d p s)"
| "srv_step cfg tw rm CheckPass s = snd (check_pass rm s)"
| "srv_step cfg tw rm (TcpMade p host) s = snd (connectionMade p host s)"
| "srv_step cfg tw rm (TcpData k d) s = snd (tcp_dataReceived cfg tw k d s)"
| "srv_step cfg tw rm (TcpLost k) s = snd (connectionLost k s)"

lemma srv_step_inv: "server_inv s \<Longrightarrow> server_inv (srv_step cfg tw rm e s)"
proof -
  have "keeps keeps_inv (datagramReceived cfg tw d p)" "keeps keeps_inv (check_pass rm)"
    "keeps keeps_inv (connectionMade p h)" "keeps keeps_inv (tcp_dataReceived cfg tw k d)"
    "keeps keeps_inv (connectionLost k)" for d p h k
    unfolding datagramReceived_def udp_report_def check_pass_def connectionMade_def
      tcp_dataReceived_def connectionLost_def tcp_report_def Let_def
    by (intro keeps_intros)+
  then show "server_inv s \<Longrightarrow> server_inv (srv_step cfg tw rm e s)"
    by (cases e) (auto simp: keeps_def keeps_inv_def)
qed

definition server_start :: "(nat \<Rightarrow> datetime) \<Rightarrow> (nat \<Rightarrow> string) \<Rightarrow> endpoint \<Rightarrow> server" where
  "server_start clk ids host =
     \<lparr>srv_voip = voip_start, log_out = [], sent = [], clock = clk, readings = 0, uuids = ids,
      drawn = 0, tcp_settings = host, udp_settings = host, udp_sessions = [], udp_addr = host\<rparr>"

lemma server_start_inv: "server_inv (server_start clk ids host)"
  by (auto simp: server_start_def server_inv_def voip_start_def voip_inv_def)

interpretation sip_servers: transition_system "server_start clk ids host" "srv_step cfg tw rm" server_inv
  by unfold_locales (auto simp: server_start_inv intro: srv_step_inv)

text \<open>Every object a UDP datagram puts on the log carries the time, a session identifier, the
  device type, the protocol, and both endpoints' ports; nothing already logged is touched.\<close>

theorem udp_log_complete:
  "\<exists>new. log_out (snd (datagramReceived cfg tw d p s)) = log_out s @ new \<and>
     list_all (entry_ok ''udp'') new"
  using datagramReceived_logs
  by (auto simp: keeps_def logs_entries_def)


text \<open>A datagram, from whatever peer, does not change the session identifier of an address that
  has one.\<close>

theorem udp_session_stable:
  assumes "map_of (udp_sessions s) ip = Some us"
  shows "map_option us_session (map_of (udp_sessions (snd (datagramReceived cfg tw d p s))) ip) =
    Some (us_session us)"
  using keepsD [OF datagramReceived_ids, of s cfg tw d p] assms by (auto simp: same_ids_def)

definition ex_time :: datetime where
  "ex_time = \<lparr>year = 2021, month = 10, day = 13, hour = 23, minute = 27, second = 0, microsecond = 0\<rparr>"

definition ex_server :: server where
  "ex_server = (server_start (\<lambda>_. ex_time) (\<lambda>n. ''id'' @ str_nat n) (''10.0.0.1'', 5060))
     \<lparr>udp_sessions := [(''10.0.0.9'', \<lparr>us_session = ''a'', us_datetime = ex_time, us_port = 5061\<rparr>)]\<rparr>"

theorem udp_session_stable_witness:
  "map_option us_session (map_of (udp_sessions (snd (datagramReceived config_json (\<lambda>_. Inr ())
      ''BYE'' (''10.0.0.8'', 5061) ex_server))) ''10.0.0.9'') = Some ''a''"
proof -
  have "map_of (udp_sessions ex_server) ''10.0.0.9'' =
      Some \<lparr>us_session = ''a'', us_datetime = ex_time, us_port = 5061\<rparr>"
    by (simp add: ex_server_def)
  from udp_session_stable [OF this] show ?thesis by simp
qed

section \<open>Expiry\<close>

definition expired :: "(datetime \<Rightarrow> datetime \<Rightarrow> int) \<Rightarrow> datetime \<Rightarrow> string \<times> udp_session \<Rightarrow> bool" where
  "expired rm now e \<longleftrightarrow> \<bar>rm (us_datetime (snd e)) now\<bar> > MINUTES_LEFT"

definition disconnection :: "string \<times> udp_session \<Rightarrow> pydict" where
  "disconnection e =
     [(''eventid'', PStr ''disconnection''), (''src_ip'', PStr (fst e)),
      (''src_port'', PInt (us_port (snd e)))]"

lemma check_addresses_run:
  assumes "\<forall>k. clock s k = now"
  shows "\<exists>n. check_addresses rm xs ys s =
    (Inr (ys @ map fst (filter (expired rm now) xs)),
     s\<lparr>readings := n, log_out := log_out s @
         map (\<lambda>e. udp_entry now (us_session (snd e)) (udp_settings s) (udp_addr s) (disconnection e))
           (filter (expired rm now) xs)\<rparr>)"
  using assms
proof (induction xs arbitrary: ys s)
  case Nil
  then show ?case by (auto intro: exI [of _ "readings s"])
next
  case (Cons x xs)
  obtain ip us where x: "x = (ip, us)" by (cases x)
  show ?case
  proof (cases "expired rm now x")
    case True
    let ?s = "s\<lparr>readings := Suc (Suc (readings s)), log_out := log_out s @
       [udp_entry now (us_session us) (udp_settings s) (udp_addr s) (disconnection x)]\<rparr>"
    from Cons.IH [of ?s "ys @ [ip]"] Cons.prems obtain n where
      "check_addresses rm xs (ys @ [ip]) ?s =
        (Inr ((ys @ [ip]) @ map fst (filter (expired rm now) xs)), ?s\<lparr>readings := n, log_out := log_out ?s @
         map (\<lambda>e. udp_entry now (us_session (snd e)) (udp_settings s) (udp_addr s) (disconnection e))
           (filter (expired rm now) xs)\<rparr>)"
      by auto
    moreover have "MINUTES_LEFT < \<bar>rm (us_datetime us) now\<bar>"
      using True x by (simp add: expired_def)
    ultimately have "check_addresses rm (x # xs) ys s =
      (Inr (ys @ map fst (filter (expired rm now) (x # xs))),
       s\<lparr>readings := n, log_out := log_out s @
         map (\<lambda>e. udp_entry now (us_session (snd e)) (udp_settings s) (udp_addr s) (disconnection e))
           (filter (expired rm now) (x # xs))\<rparr>)"
      using True x Cons.prems by (simp add: disconnection_def)
    then show ?thesis by blast
  next
    case False
    from Cons.IH [of "s\<lparr>readings := Suc (readings s)\<rparr>" ys] Cons.prems False x show ?thesis
      by (auto simp: expired_def)
  qed
qed

lemma fold_delete_filter:
  "fold AList.delete ks al = filter (\<lambda>e. fst e \<notin> set ks) al"
proof (induction ks arbitrary: al)
  case (Cons k ks)
  then show ?case
    by (auto simp: AList.delete_eq intro!: filter_cong)
qed simp

text \<open>A pass that runs at one instant logs one disconnection for each expired address, in the
  table's order and with its session identifier and port, and removes exactly those addresses.\<close>

theorem check_pass_expires:
  assumes "\<forall>k. clock s k = now" and "distinct (map fst (udp_sessions s))"
  shows "let s' = snd (check_pass rm s) in
    udp_sessions s' = filter (\<lambda>e. \<not> expired rm now e) (udp_sessions s) \<and>
    log_out s' = log_out s @
      map (\<lambda>e. udp_entry now (us_session (snd e)) (udp_settings s) (udp_addr s) (disconnection e))
        (filter (expired rm now) (udp_sessions s))"
proof -
  obtain n where run: "check_addresses rm (udp_sessions s) [] s =
    (Inr (map fst (filter (expired rm now) (udp_sessions s))),
     s\<lparr>readings := n, log_out := log_out s @
         map (\<lambda>e. udp_entry now (us_session (snd e)) (udp_settings s) (udp_addr s) (disconnection e))
           (filter (expired rm now) (udp_sessions s))\<rparr>)"
    using check_addresses_run [OF assms(1), of rm "udp_sessions s" "[]"] by auto
  have "fst e \<notin> fst ` {x \<in> set (udp_sessions s). expired rm now x} \<longleftrightarrow> \<not> expired rm now e"
    if "e \<in> set (udp_sessions s)" for e
    using that assms(2) by (auto simp: distinct_map inj_on_def)
  then have "filter (\<lambda>e. fst e \<notin> fst ` {x \<in> set (udp_sessions s). expired rm now x}) (udp_sessions s) =
      filter (\<lambda>e. \<not> expired rm now e) (udp_sessions s)"
    by (intro filter_cong) auto
  with run show ?thesis
    by (simp add: check_pass_def delete_from_dict_def fold_delete_filter Let_def)
qed

theorem check_pass_expires_witness:
  "udp_sessions (snd (check_pass (\<lambda>_ _. 11) ex_server)) = []"
proof -
  have "\<forall>k. clock ex_server k = ex_time" "distinct (map fst (udp_sessions ex_server))"
    by (simp_all add: ex_server_def server_start_def)
  from check_pass_expires [OF this, of "\<lambda>_ _. 11"] show ?thesis
    by (simp add: Let_def ex_server_def expired_def MINUTES_LEFT_def)
qed

section \<open>Answers that cannot be sent, and data that is not text\<close>

lemma udp_report_total: "fst (udp_report obj s) = Inr ()"
  by (simp add: udp_report_def get_session_apply split: option.split)

definition same_sent :: "server \<Rightarrow> server \<Rightarrow> bool" where
  "same_sent s s' \<longleftrightarrow> sent s' = sent s"

lemma same_sent_preorder [keeps_intros]: "preorder_on_states same_sent"
  by (auto simp: preorder_on_states_def reflp_def transp_def same_sent_def)

lemma udp_report_sent [keeps_intros]: "keeps same_sent (udp_report obj)"
  by (auto simp: keeps_def same_sent_def udp_report_def get_session_apply split: option.split)

lemma udp_reports:
  "\<exists>s'. for_each udp_report objs s = (Inr (), s') \<and> sent s' = sent s \<and> srv_voip s' = srv_voip s"
proof (induction objs arbitrary: s)
  case (Cons obj objs)
  have "\<exists>t. udp_report obj s = (Inr (), t) \<and> sent t = sent s \<and> srv_voip t = srv_voip s"
    by (auto simp: udp_report_def get_session_apply split: option.split)
  then obtain t where t: "udp_report obj s = (Inr (), t)" "sent t = sent s" "srv_voip t = srv_voip s"
    by blast
  with Cons [of t] show ?case by auto
qed simp

text \<open>An INVITE that is accepted is never answered over UDP. The pair of answers is handed to
  the transport unencoded; with a transport that takes only bytes (as a datagram socket does) the
  write raises \<open>TypeError\<close>, after the call has been stored and reported, and nothing is sent.\<close>

theorem accepted_invite_unsent:
  assumes "utf8_ok (map of_char d)" and "starts_with d ''INVITE''"
    and "fst (sip_INVITE (client_ctx cfg ''UDP'' p (udp_settings s)) (uuids s (drawn s))
           (get_headers d) d (srv_voip s)) = Inr (DPair a b)"
    and transport_takes_bytes: "\<forall>a b. tw (DPair a b) = Inl TypeError"
  shows "fst (datagramReceived cfg tw d p s) = Inl TypeError \<and>
    sent (snd (datagramReceived cfg tw d p s)) = sent s"
proof -
  let ?c = "client_ctx cfg ''UDP'' p (udp_settings s)"
  obtain v where "sip_INVITE ?c (uuids s (drawn s)) (get_headers d) d (srv_voip s) = (Inr (DPair a b), v)"
    using assms(3) by (metis prod.collapse)
  then have w: "worker ?c (uuids s (drawn s)) d (srv_voip s) =
      (Inr \<lparr>wd_data = [DPair a b], wd_reports = json_list v\<rparr>, v\<lparr>json_list := []\<rparr>)"
    by (simp add: worker_def dispatch_invite [OF assms(2)] flush_reports_def)
  let ?t = "s\<lparr>udp_addr := p, drawn := Suc (drawn s), srv_voip := v\<lparr>json_list := []\<rparr>\<rparr>"
  obtain s' where s': "for_each udp_report (json_list v) ?t = (Inr (), s')" "sent s' = sent ?t"
    using udp_reports by blast
  from assms(1) have "py_decode d = Inr d" by (simp add: py_decode_def)
  with w s' transport_takes_bytes show ?thesis
    by (simp add: datagramReceived_def on_voip_def send_def)
qed

lemma ex_invite_utf8: "utf8_ok (map of_char ex_invite)"
proof (rule utf8_ok_ascii)
  have hex: "\<forall>c \<in> set (expected_response ex_ctx). (of_char c :: nat) < 128"
    using expected_response_digits [of ex_ctx] by auto
  show "\<forall>b \<in> set (map of_char ex_invite). (b :: nat) < 128"
    using hex by (simp add: ex_invite_def print_headers_def ex_headers_def ex_auth_text ball_Un)
qed

theorem accepted_invite_unsent_witness:
  "fst (datagramReceived config_json (\<lambda>d. case d of DBytes _ \<Rightarrow> Inr () | _ \<Rightarrow> Inl TypeError)
     ex_invite (''10.0.0.9'', 5061) ex_server) = Inl TypeError"
proof -
  have ctx: "client_ctx config_json ''UDP'' (''10.0.0.9'', 5061) (udp_settings ex_server) = ex_ctx"
    by (simp add: client_ctx_def ex_ctx_def ex_server_def server_start_def)
  have inv: "starts_with ex_invite ''INVITE''"
    by (simp add: ex_invite_def ex_headers_def print_headers_def starts_with_def)
  have "fresh_call ex_headers (srv_voip ex_server) \<noteq> None"
    using ex_fresh [of "srv_voip ex_server"] by (simp add: ex_server_def server_start_def voip_start_def)
  moreover have "map_of ex_headers ''From'' \<noteq> None" by (simp add: ex_headers_def)
  ultimately have "\<exists>a b. fst (sip_INVITE ex_ctx (uuids ex_server (drawn ex_server))
      ex_headers ex_invite (srv_voip ex_server)) = Inr (DPair a b)"
    using ex_digest ex_media unfolding invite_pair_iff by simp
  then obtain a b where "fst (sip_INVITE ex_ctx (uuids ex_server (drawn ex_server))
      ex_headers ex_invite (srv_voip ex_server)) = Inr (DPair a b)"
    by blast
  then show ?thesis
    using accepted_invite_unsent [OF ex_invite_utf8 inv, of config_json "(''10.0.0.9'', 5061)" ex_server a b
        "\<lambda>d. case d of DBytes _ \<Rightarrow> Inr () | _ \<Rightarrow> Inl TypeError"]
    by (simp add: ctx ex_get_headers)
qed

text \<open>A datagram that is not UTF-8 touches no call and is not answered; what it leaves on the
  log, after the report of a new address if it is one, is its bytes as Python prints them.\<close>

theorem undecodable_logged:
  assumes "\<not> utf8_ok (map of_char d)"
  shows "\<exists>pre obj s'. datagramReceived cfg tw d p s = (Inr (), s') \<and>
    srv_voip s' = srv_voip s \<and> sent s' = sent s \<and> length pre \<le> 1 \<and>
    log_out s' = log_out s @ pre @ [obj] \<and>
    map_of obj ''command_input'' = Some (PStr (str_bytes d))"
proof -
  have u: "map_of (udp_entry now i h src (undecodable d)) ''command_input'' = Some (PStr (str_bytes d))"
    for now i h src
    by (simp add: udp_entry_def undecodable_def Let_def)
  from assms have "py_decode d = Inl UnicodeDecodeError" by (simp add: py_decode_def)
  then show ?thesis
    by (auto simp: datagramReceived_def udp_report_def get_session_apply u split: option.split)
qed

theorem undecodable_logged_witness:
  "srv_voip (snd (datagramReceived config_json (\<lambda>_. Inr ()) [CHR 0xFF] (''10.0.0.9'', 5061) ex_server)) =
     voip_start"
proof -
  have "\<not> utf8_ok (map of_char [CHR 0xFF])" by simp
  from undecodable_logged [OF this, of config_json "\<lambda>_. Inr ()" "(''10.0.0.9'', 5061)" ex_server]
  show ?thesis by (auto simp: ex_server_def server_start_def)
qed

end
