(* ===== verification/LogWriter.thy ===== *)
theory LogWriter
  imports Prelude
begin

text \<open>
  The logging back end (\<open>src/src/logger\<close>): the queue between the servers and the writer thread
  (\<open>logwrite.py\<close>), and the two output plugins, the text log (\<open>outputs/output_log.py\<close>) and the
  JSON log (\<open>outputs/output_json.py\<close>). File contents are lists of the records appended.
\<close>

section \<open>The queue\<close>

datatype level = DEBUG | INFO | WARNING | ERROR

text \<open>A queued tuple \<open>(message, level)\<close>, or an object to be written by every plugin.\<close>

datatype item = Text string level | Obj pydict

definition put :: "item \<Rightarrow> item list \<Rightarrow> item list" where
  "put x q = q @ [x]"

definition log_debug :: "string \<Rightarrow> item list \<Rightarrow> item list" where
  "log_debug m = put (Text m DEBUG)"

definition log_info :: "string \<Rightarrow> item list \<Rightarrow> item list" where
  "log_info m = put (Text m INFO)"

definition log_error :: "string \<Rightarrow> item list \<Rightarrow> item list" where
  "log_error m = put (Text m ERROR)"

definition log_warning :: "string \<Rightarrow> item list \<Rightarrow> item list" where
  "log_warning m = put (Text m WARNING)"

definition log_write :: "pydict \<Rightarrow> item list \<Rightarrow> item list" where
  "log_write m = put (Obj m)"

section \<open>The plugins\<close>

text \<open>What a plugin promises: a write appends what it renders, and only that.\<close>

locale output_plugin =
  fixes write_to :: "'m \<Rightarrow> 's \<Rightarrow> 's"
    and emitted :: "'s \<Rightarrow> 'e list"
    and render :: "'m \<Rightarrow> 'e list"
  assumes emitted_write: "emitted (write_to m s) = emitted s @ render m"
begin

lemma emitted_writes: "emitted (fold write_to ms s) = emitted s @ concat (map render ms)"
  by (induction ms arbitrary: s) (auto simp: emitted_write)

end

text \<open>The text log writes messages and objects (an object at level INFO, the default argument).\<close>

datatype log_line = Line item level

text \<open>Numeric levels of the \<open>logging\<close> module; the logger and its file handler are set to INFO.\<close>

fun level_num :: "level \<Rightarrow> nat" where
  "level_num DEBUG = 10"
| "level_num INFO = 20"
| "level_num WARNING = 30"
| "level_num ERROR = 40"

instantiation level :: linorder
begin

definition less_eq_level :: "level \<Rightarrow> level \<Rightarrow> bool" where
  "less_eq_level a b \<longleftrightarrow> level_num a \<le> level_num b"

definition less_level :: "level \<Rightarrow> level \<Rightarrow> bool" where
  "less_level a b \<longleftrightarrow> level_num a < level_num b"

instance
proof
  fix a b :: level
  show "a \<le> b \<Longrightarrow> b \<le> a \<Longrightarrow> a = b"
    by (cases a; cases b) (auto simp: less_eq_level_def)
qed (auto simp: less_eq_level_def less_level_def)

end

definition LOG_LEVEL :: level where
  "LOG_LEVEL = INFO"

definition emit :: "item \<Rightarrow> level \<Rightarrow> log_line list \<Rightarrow> log_line list" where
  "emit m lv f = (if LOG_LEVEL \<le> lv then f @ [Line m lv] else f)"

definition output_log_write :: "item \<times> level \<Rightarrow> log_line list \<Rightarrow> log_line list" where
  "output_log_write = (\<lambda>(message, lv) f.
     if lv = DEBUG then emit message DEBUG f
     else if lv = INFO then emit message INFO f
     else if lv = ERROR then emit message ERROR f
     else f)"

definition log_rendered :: "item \<times> level \<Rightarrow> log_line list" where
  "log_rendered = (\<lambda>(message, lv). if lv \<in> {INFO, ERROR} then [Line message lv] else [])"

interpretation text_log: output_plugin output_log_write "\<lambda>f. f" log_rendered
  by unfold_locales
    (auto simp: output_log_write_def log_rendered_def emit_def LOG_LEVEL_def less_eq_level_def)

definition output_json_write :: "pydict \<Rightarrow> pydict list \<Rightarrow> pydict list" where
  "output_json_write jsonlog f = f @ [jsonlog]"

interpretation json_log: output_plugin output_json_write "\<lambda>f. f" "\<lambda>d. [d]"
  by unfold_locales (simp add: output_json_write_def)

section \<open>The writer thread\<close>

datatype plugin = OutputLog | OutputJson

definition OUTPUT_PLUGINS :: "plugin list" where
  "OUTPUT_PLUGINS = [OutputLog, OutputJson]"

record writer =
  log_q :: "item list"
  process :: bool
  thread_done :: bool
  log_file :: "log_line list"
  json_file :: "pydict list"

definition writer_start :: writer where
  "writer_start = \<lparr>log_q = [], process = True, thread_done = False, log_file = [], json_file = []\<rparr>"

fun plugin_write :: "pydict \<Rightarrow> plugin \<Rightarrow> writer \<Rightarrow> writer" where
  "plugin_write d OutputLog w = w\<lparr>log_file := output_log_write (Obj d, INFO) (log_file w)\<rparr>"
| "plugin_write d OutputJson w = w\<lparr>json_file := output_json_write d (json_file w)\<rparr>"

definition writer_write :: "pydict \<Rightarrow> writer \<Rightarrow> writer" where
  "writer_write d w = fold (plugin_write d) OUTPUT_PLUGINS w"

text \<open>\<open>log\<close> hands a text to the first plugin, if that is the text log.\<close>

definition writer_log :: "string \<Rightarrow> level \<Rightarrow> writer \<Rightarrow> writer" where
  "writer_log m lv w =
     (case OUTPUT_PLUGINS of
        OutputLog # _ \<Rightarrow> w\<lparr>log_file := output_log_write (Text m lv, lv) (log_file w)\<rparr>
      | _ \<Rightarrow> w)"

fun deliver :: "item \<Rightarrow> writer \<Rightarrow> writer" where
  "deliver (Text m lv) w = writer_log m lv w"
| "deliver (Obj d) w = writer_write d w"

text \<open>
  One turn of the thread's loop: the guard, the \<open>get\<close> (which times out on an empty queue) and
  the delivery. Between turns other threads put items or call \<open>stop\<close>.
\<close>

definition run_turn :: "writer \<Rightarrow> writer" where
  "run_turn w =
     (if thread_done w then w
      else if log_q w = [] \<and> \<not> process w then w\<lparr>thread_done := True\<rparr>
      else (case log_q w of
              [] \<Rightarrow> w
            | x # q \<Rightarrow> deliver x (w\<lparr>log_q := q\<rparr>)))"

definition writer_stop :: "writer \<Rightarrow> writer" where
  "writer_stop w = w\<lparr>process := False\<rparr>"

datatype log_event = Put item | Stop | Turn

fun log_step :: "log_event \<Rightarrow> writer \<Rightarrow> writer" where
  "log_step (Put x) w = w\<lparr>log_q := put x (log_q w)\<rparr>"
| "log_step Stop w = writer_stop w"
| "log_step Turn w = run_turn w"

section \<open>Order and completeness\<close>

definition objs :: "item list \<Rightarrow> pydict list" where
  "objs xs = concat (map (\<lambda>x. case x of Obj d \<Rightarrow> [d] | _ \<Rightarrow> []) xs)"

definition texts :: "item list \<Rightarrow> log_line list" where
  "texts xs = concat (map (\<lambda>x. case x of Obj d \<Rightarrow> [Line x INFO] | Text m lv \<Rightarrow> log_rendered (x, lv)) xs)"

definition puts :: "log_event list \<Rightarrow> item list" where
  "puts es = concat (map (\<lambda>e. case e of Put x \<Rightarrow> [x] | _ \<Rightarrow> []) es)"

lemma collect_append [simp]:
  "objs (xs @ ys) = objs xs @ objs ys" "texts (xs @ ys) = texts xs @ texts ys"
  "puts (es @ fs) = puts es @ puts fs"
  by (simp_all add: objs_def texts_def puts_def)

lemma deliver_fields [simp]:
  "log_q (deliver x w) = log_q w" "process (deliver x w) = process w"
  "thread_done (deliver x w) = thread_done w"
  by (cases x; simp add: writer_write_def writer_log_def OUTPUT_PLUGINS_def)+

lemma deliver_files:
  "json_file (deliver x w) = json_file w @ objs [x]"
  "log_file (deliver x w) = log_file w @ texts [x]"
  by (cases x; simp add: writer_write_def writer_log_def OUTPUT_PLUGINS_def objs_def texts_def
      json_log.emitted_write text_log.emitted_write log_rendered_def)+

lemma objs_Cons: "objs (x # xs) = objs [x] @ objs xs"
  by (simp add: objs_def)

lemma texts_Cons: "texts (x # xs) = texts [x] @ texts xs"
  by (simp add: texts_def)

lemma log_step_conserves:
  "json_file (log_step e w) @ objs (log_q (log_step e w)) = json_file w @ objs (log_q w) @ objs (puts [e])"
  "log_file (log_step e w) @ texts (log_q (log_step e w)) = log_file w @ texts (log_q w) @ texts (puts [e])"
  by (cases e; auto simp: run_turn_def writer_stop_def put_def puts_def deliver_files
      objs_Cons [of _ "_ # _"] split: list.split simp: objs_def texts_def)+

lemma log_run_conserves:
  "json_file (fold log_step es w) @ objs (log_q (fold log_step es w)) =
     json_file w @ objs (log_q w) @ objs (puts es)"
  "log_file (fold log_step es w) @ texts (log_q (fold log_step es w)) =
     log_file w @ texts (log_q w) @ texts (puts es)"
proof (induction es arbitrary: w)
  case (Cons e es)
  {
    case 1
    then show ?case
      using Cons(1) [of "log_step e w"] log_step_conserves(1) [of e w] by (simp add: puts_def)
  next
    case 2
    then show ?case
      using Cons(2) [of "log_step e w"] log_step_conserves(2) [of e w] by (simp add: puts_def)
  }
qed (simp_all add: puts_def objs_def texts_def)

text \<open>C37: Whatever the interleaving of producers, writer turns and a stop: the JSON file followed by
  the objects still queued is exactly the sequence of objects put, in that order, and the same
  holds for the lines of the text log, debug texts and warnings left out.\<close>

theorem log_is_fifo:
  "json_file (fold log_step es writer_start) @ objs (log_q (fold log_step es writer_start)) = objs (puts es) \<and>
   log_file (fold log_step es writer_start) @ texts (log_q (fold log_step es writer_start)) = texts (puts es)"
  using log_run_conserves [of es writer_start]
  by (simp add: writer_start_def objs_def texts_def)

lemma turns_drain:
  assumes "\<not> process w" and "\<not> thread_done w"
  shows "(run_turn ^^ Suc (length (log_q w))) w = fold deliver (log_q w) (w\<lparr>log_q := []\<rparr>)\<lparr>thread_done := True\<rparr>"
  using assms
proof (induction "log_q w" arbitrary: w)
  case Nil
  then show ?case by (simp add: run_turn_def)
next
  case (Cons x q)
  from Cons.hyps(2) have q: "log_q w = x # q" ..
  let ?w = "deliver x (w\<lparr>log_q := q\<rparr>)"
  have turn: "run_turn w = ?w"
    using Cons.prems q by (simp add: run_turn_def)
  have "(run_turn ^^ Suc (length (log_q ?w))) ?w =
      fold deliver (log_q ?w) (?w\<lparr>log_q := []\<rparr>)\<lparr>thread_done := True\<rparr>"
    by (rule Cons.hyps(1)) (use Cons.prems in simp_all)
  moreover have "?w\<lparr>log_q := []\<rparr> = deliver x (w\<lparr>log_q := []\<rparr>)"
    by (cases x) (simp_all add: writer_write_def writer_log_def OUTPUT_PLUGINS_def)
  ultimately show ?case
    using q turn by (simp add: funpow_swap1)
qed

lemma deliver_all:
  "log_q (fold deliver xs v) = log_q v \<and> json_file (fold deliver xs v) = json_file v @ objs xs \<and>
     log_file (fold deliver xs v) = log_file v @ texts xs"
proof (induction xs arbitrary: v)
  case Nil
  show ?case by (simp add: objs_def texts_def)
next
  case (Cons x xs)
  show ?case
    using Cons [of "deliver x v"]
    by (simp add: deliver_files objs_Cons [of x xs] texts_Cons [of x xs])
qed

text \<open>C38: After \<open>stop\<close> the writer thread ends, and not before it has written everything queued: with
  no further puts, one turn more than the queue is long ends it with an empty queue, and the
  files hold all that was queued.\<close>

theorem stop_drains_queue:
  assumes "\<not> thread_done w"
  shows "let w' = (run_turn ^^ Suc (length (log_q w))) (writer_stop w)
    in thread_done w' \<and> log_q w' = [] \<and> json_file w' = json_file w @ objs (log_q w) \<and>
       log_file w' = log_file w @ texts (log_q w)"
proof -
  have fields: "log_q (fold deliver xs v) = log_q v" "json_file (fold deliver xs v) = json_file v @ objs xs"
    "log_file (fold deliver xs v) = log_file v @ texts xs" for xs v
    using deliver_all by blast+
  have "(run_turn ^^ Suc (length (log_q (writer_stop w)))) (writer_stop w) =
     fold deliver (log_q (writer_stop w)) ((writer_stop w)\<lparr>log_q := []\<rparr>)\<lparr>thread_done := True\<rparr>"
    by (rule turns_drain) (use assms in \<open>simp_all add: writer_stop_def\<close>)
  then show ?thesis by (simp add: Let_def writer_stop_def fields)
qed

theorem stop_drains_queue_witness:
  "json_file ((run_turn ^^ 2) (writer_stop (writer_start\<lparr>log_q := [Obj []]\<rparr>))) = [[]]"
  using stop_drains_queue [of "writer_start\<lparr>log_q := [Obj []]\<rparr>"]
  by (simp add: writer_start_def Let_def objs_def numeral_2_eq_2)

end
