(* ===== verification/HttpServer.thy ===== *)
theory HttpServer
  imports Prelude
begin

text \<open>
  The decoy web server of \<open>src/src/http_server.py\<close>: the dispatch from a path segment to a
  resource, and what each resource answers. Twisted's request object is a record of its response
  code and headers; the templates are the files of \<open>webserver/templates\<close>, a parameter
  \<open>template\<close> from the page name to the file's text (\<open>None\<close> when the file cannot be opened).
\<close>

section \<open>Requests and headers\<close>

record request =
  response_code :: nat
  response_headers :: "(string \<times> string) list"

text \<open>Twisted answers 200 with its own Server header unless told otherwise.\<close>

definition new_request :: "(string \<times> string) list \<Rightarrow> request" where
  "new_request hs = \<lparr>response_code = 200, response_headers = hs\<rparr>"

definition http_headers :: "(string \<times> string) list" where
  "http_headers =
     [(''Server'', ''Rapid Logic/1.1''),
      (''MIME-version'', ''1.0''),
      (''Content-Type'', ''text/html; charset=UTF-8''),
      (''Set-Cookie'', ''auth=c0a80a4f0002984d; path=/''),
      (''Connection'', ''Keep-Alive'')]"

definition set_code :: "nat \<Rightarrow> request \<Rightarrow> request" where
  "set_code n r = r\<lparr>response_code := n\<rparr>"

definition remove_header :: "string \<Rightarrow> request \<Rightarrow> request" where
  "remove_header k r = r\<lparr>response_headers := AList.delete k (response_headers r)\<rparr>"

definition set_header :: "string \<times> string \<Rightarrow> request \<Rightarrow> request" where
  "set_header = (\<lambda>(k, v) r. r\<lparr>response_headers := dict_set k v (response_headers r)\<rparr>)"

definition decoy_headers :: "request \<Rightarrow> request" where
  "decoy_headers r = fold set_header http_headers (remove_header ''Server'' r)"

section \<open>Resources\<close>

text \<open>A template that cannot be opened raises \<open>FileNotFoundError\<close>, errno 2.\<close>

definition get_template :: "(string \<Rightarrow> string option) \<Rightarrow> string \<Rightarrow> string res" where
  "get_template template page =
     (case template (page @ ''.html'') of None \<Rightarrow> Inl (OSError 2) | Some t \<Rightarrow> Inr t)"

datatype resource = RobotsTxt | FaviconIco | RootURL | OtherURLs

datatype http_method = GET | HEAD | OPTIONS | POST

definition getChild :: "string \<Rightarrow> resource" where
  "getChild name =
     (if name = [] then RootURL
      else if name = ''robots.txt'' then RobotsTxt
      else if name = ''favicon.ico'' then FaviconIco
      else OtherURLs)"

text \<open>
  The \<open>render_\<close> methods the resources define, each with the request it leaves and the body; a
  method a resource does not define is Twisted's (\<open>None\<close>).
\<close>

definition robots_GET :: "(string \<Rightarrow> string option) \<Rightarrow> (request, string) py" where
  "robots_GET template =
     py_bind (py_modify (\<lambda>r. set_code 404 (decoy_headers r))) (\<lambda>_. py_lift (get_template template ''404''))"

definition favicon_GET :: "(string \<Rightarrow> string option) \<Rightarrow> (request, string) py" where
  "favicon_GET template =
     py_bind (py_modify (\<lambda>r. set_code 404 (decoy_headers r))) (\<lambda>_. py_lift (get_template template ''404''))"

definition root_GET :: "(string \<Rightarrow> string option) \<Rightarrow> (request, string) py" where
  "root_GET template =
     py_bind (py_modify (\<lambda>r. decoy_headers (set_code 200 r))) (\<lambda>_. py_lift (get_template template ''200''))"

definition root_HEAD :: "(request, string) py" where
  "root_HEAD = py_bind (py_modify (\<lambda>r. decoy_headers (set_code 200 r))) (\<lambda>_. py_return [])"

definition root_OPTIONS :: "(string \<Rightarrow> string option) \<Rightarrow> (request, string) py" where
  "root_OPTIONS template =
     py_bind (py_modify (\<lambda>r. decoy_headers (set_code 501 r))) (\<lambda>_. py_lift (get_template template ''501''))"

definition root_POST :: "(string \<Rightarrow> string option) \<Rightarrow> (request, string) py" where
  "root_POST template =
     py_bind (py_modify (\<lambda>r. decoy_headers (set_code 500 r))) (\<lambda>_. py_lift (get_template template ''500''))"

definition other_GET :: "(string \<Rightarrow> string option) \<Rightarrow> (request, string) py" where
  "other_GET template =
     py_bind (py_modify (\<lambda>r. set_code 404 (decoy_headers r))) (\<lambda>_. py_lift (get_template template ''404''))"

fun render :: "(string \<Rightarrow> string option) \<Rightarrow> resource \<Rightarrow> http_method \<Rightarrow> (request, string) py option" where
  "render template RobotsTxt GET = Some (robots_GET template)"
| "render template FaviconIco GET = Some (favicon_GET template)"
| "render template RootURL GET = Some (root_GET template)"
| "render template RootURL HEAD = Some root_HEAD"
| "render template RootURL OPTIONS = Some (root_OPTIONS template)"
| "render template RootURL POST = Some (root_POST template)"
| "render template OtherURLs GET = Some (other_GET template)"
| "render template _ _ = None"

section \<open>What the peer sees\<close>

lemma set_headers_lookup:
  "map_of (response_headers (fold set_header hs r)) k =
     (case map_of (rev hs) k of None \<Rightarrow> map_of (response_headers r) k | Some v \<Rightarrow> Some v)"
  by (induction hs arbitrary: r)
    (auto simp: set_header_def map_add_def split: option.split if_splits)

lemma decoy_headers_lookup:
  "map_of (response_headers (decoy_headers r)) k =
     (case map_of http_headers k of None \<Rightarrow> map_of (response_headers r) k | Some v \<Rightarrow> Some v)"
proof -
  have "map_of (rev http_headers) k = map_of http_headers k"
    by (simp add: http_headers_def)
  moreover have "k \<noteq> ''Server'' \<Longrightarrow>
      map_of (response_headers (remove_header ''Server'' r)) k = map_of (response_headers r) k"
    by (simp add: remove_header_def delete_conv')
  ultimately show ?thesis
    unfolding decoy_headers_def set_headers_lookup
    by (cases "k = ''Server''") (auto simp: http_headers_def split: option.split)
qed

lemma set_code_fields [simp]:
  "response_code (set_code n r) = n" "response_headers (set_code n r) = response_headers r"
  by (simp_all add: set_code_def)

lemma decoy_set_code: "decoy_headers (set_code n r) = set_code n (decoy_headers r)"
proof -
  have "fold set_header hs (set_code n t) = set_code n (fold set_header hs t)" for hs t
  proof (induction hs arbitrary: t)
    case (Cons h hs)
    have "set_header h (set_code n t) = set_code n (set_header h t)"
      by (cases h) (simp add: set_header_def set_code_def)
    with Cons show ?case by simp
  qed simp
  moreover have "remove_header k (set_code n r) = set_code n (remove_header k r)" for k
    by (simp add: remove_header_def set_code_def)
  ultimately show ?thesis by (simp add: decoy_headers_def)
qed

fun page_code :: "resource \<Rightarrow> http_method \<Rightarrow> nat" where
  "page_code RootURL GET = 200"
| "page_code RootURL HEAD = 200"
| "page_code RootURL OPTIONS = 501"
| "page_code RootURL POST = 500"
| "page_code _ _ = 404"

text \<open>Every page the decoy defines is served with the phone's own headers (the framework's Server
  header is gone, other headers are kept) and with the code of that page: 200 for the root, 501
  and 500 for OPTIONS and POST on it, 404 for anything else, \<open>robots.txt\<close> and \<open>favicon.ico\<close>
  included; this holds also when the template cannot be read.\<close>

theorem pages_look_like_phone:
  "case render template (getChild name) meth of
     None \<Rightarrow> meth \<noteq> GET \<and> name \<noteq> []
   | Some handler \<Rightarrow>
       response_code (snd (handler r)) =
         (if name = [] then page_code RootURL meth else 404) \<and>
       (\<lambda>k. map_of (response_headers (snd (handler r))) k) =
         (\<lambda>k. case map_of http_headers k of
                None \<Rightarrow> map_of (response_headers r) k | Some v \<Rightarrow> Some v)"
  by (cases meth)
    (auto simp: getChild_def robots_GET_def favicon_GET_def root_GET_def root_HEAD_def
      root_OPTIONS_def root_POST_def other_GET_def decoy_set_code fun_eq_iff decoy_headers_lookup)

end
