(* ===== verification/VmPool.thy ===== *)
theory VmPool
  imports Prelude
begin

text \<open>
  The pool of virtual machines (\<open>backend_pool/pool_service.py\<close>) and the part of its libvirt back
  end that the pool drives (\<open>backend_pool/libvirt/backend_service.py\<close>, \<open>guest_handler.py\<close>).

  A guest is a Python dictionary that the producer and the consumers share by reference, so a
  guest carries its identity \<open>gref\<close> (the number of its creation) and a mutation goes to the guest
  of that identity wherever it is then. Times are integers in the clock's own unit. libvirt, nmap,
  the clock, the random choices and the UUIDs are the parameter \<open>env\<close>; Twisted's delayed calls are
  modelled by what Twisted documents for \<open>cancel\<close>.
\<close>

section \<open>The state of the pool\<close>

datatype vm_state = Created | Available | Using | Used | Unavailable | Destroyed

text \<open>The life cycle's order, as the class documents it.\<close>

fun vm_rank :: "vm_state \<Rightarrow> nat" where
  "vm_rank Created = 0"
| "vm_rank Available = 1"
| "vm_rank Using = 2"
| "vm_rank Used = 3"
| "vm_rank Unavailable = 4"
| "vm_rank Destroyed = 5"

lemma vm_rank_inject: "vm_rank a = vm_rank b \<longleftrightarrow> a = b"
  by (cases a; cases b) simp_all

instantiation vm_state :: linorder
begin

definition less_eq_vm_state :: "vm_state \<Rightarrow> vm_state \<Rightarrow> bool" where
  "less_eq_vm_state a b = (vm_rank a \<le> vm_rank b)"

definition less_vm_state :: "vm_state \<Rightarrow> vm_state \<Rightarrow> bool" where
  "less_vm_state a b = (vm_rank a < vm_rank b)"

instance
  by standard (auto simp: less_eq_vm_state_def less_vm_state_def vm_rank_inject)

end

record guest =
  gref :: nat
  gid :: nat
  gstate :: "vm_state option"
  prev_state :: "vm_state option"
  start_timestamp :: int
  guest_ip :: string
  connected :: int
  client_ips :: "string set"
  freed_timestamp :: int
  domain :: string
  snapshot :: string

text \<open>A Twisted \<open>DelayedCall\<close>, and what \<open>cancel\<close> does with it.\<close>

datatype delayed = Pending | Called | Cancelled

text \<open>
  \<open>PoolService\<close>'s attributes; \<open>ready\<close>, \<open>network_table\<close> and \<open>running\<close> are those of its back end
  (\<open>running\<close>: the domains that run under qemu). \<open>next_ref\<close> numbers the dictionaries.
  \<open>deferred\<close> counts the producer loops handed to a thread, \<open>recycle_timer\<close> says whether a
  restart is scheduled.
\<close>

record pool =
  guests :: "guest list"
  guest_id :: nat
  next_ref :: nat
  loop_next_call :: "delayed option"
  max_vm :: int
  vm_unused_timeout :: int
  share_guests :: bool
  ssh_port :: int
  telnet_port :: int
  any_vm_up :: bool
  ready :: bool
  network_table :: "(string \<times> string) list"
  running :: "string list"
  deferred :: nat
  recycle_timer :: bool

text \<open>
  What the outside answers during one call: \<open>nmap\<close> the port scans, \<open>clock\<close> the time read for the
  guest of that identity, \<open>choice\<close> the random index (guest being created, attempt), \<open>uuid4\<close>;
  whether the base image exists, a disk snapshot can be made, libvirt creates or destroys a domain,
  and whether the connection to libvirt works at all; and the configuration's snapshot directory,
  guest tag and recycle period.
\<close>

record env =
  nmap :: "string \<Rightarrow> int \<Rightarrow> bool"
  clock :: "nat \<Rightarrow> int"
  choice :: "nat \<Rightarrow> nat \<Rightarrow> nat"
  uuid4 :: "nat \<Rightarrow> string"
  base_image_exists :: bool
  snapshot_made :: "string \<Rightarrow> bool"
  createXML_fails :: "string \<Rightarrow> bool"
  destroy_fails :: "string \<Rightarrow> bool"
  libvirt_down :: bool
  snapshot_path :: string
  guest_tag :: string
  recycle_period :: int

type_synonym 'a pool_py = "(pool, 'a) py"

abbreviation libvirtError :: py_exc where
  "libvirtError \<equiv> UserError ''libvirtError''"

text \<open>\<open>PoolService.__init__\<close>: with neither port configured the process exits.\<close>

definition default_pool :: "(string \<times> string) list \<Rightarrow> int \<Rightarrow> int \<Rightarrow> pool" where
  "default_pool table ssh telnet = \<lparr>guests = [], guest_id = 0, next_ref = 0, loop_next_call = None,
     max_vm = 2, vm_unused_timeout = 600, share_guests = True, ssh_port = ssh, telnet_port = telnet,
     any_vm_up = False, ready = False, network_table = table, running = [], deferred = 0,
     recycle_timer = False\<rparr>"

definition PoolService_init :: "(string \<times> string) list \<Rightarrow> int \<Rightarrow> int \<Rightarrow> pool option" where
  "PoolService_init table ssh telnet =
     (if \<not> ssh > 0 \<and> \<not> telnet > 0 then None else Some (default_pool table ssh telnet))"

section \<open>The libvirt back end\<close>

text \<open>\<open>get_mac_ip\<close>: at most 500 random picks, the first whose address is free.\<close>

fun get_mac_ip_loop ::
  "(string \<times> string) list \<Rightarrow> (nat \<Rightarrow> nat) \<Rightarrow> (string \<Rightarrow> bool) \<Rightarrow> nat \<Rightarrow> (string \<times> string) res" where
  "get_mac_ip_loop table pick tester 0 = Inl (UserError ''LibvirtError'')"
| "get_mac_ip_loop table pick tester (Suc left) =
     (if table = [] then Inl IndexError
      else let (mac, ip) = table ! (pick (500 - Suc left) mod length table)
       in if tester ip then Inr (mac, ip) else get_mac_ip_loop table pick tester left)"

definition get_mac_ip ::
  "(string \<times> string) list \<Rightarrow> (nat \<Rightarrow> nat) \<Rightarrow> (string \<Rightarrow> bool) \<Rightarrow> (string \<times> string) res" where
  "get_mac_ip table pick tester = get_mac_ip_loop table pick tester 500"

lemma get_mac_ip_loop_free:
  "get_mac_ip_loop table pick tester n = Inr (mac, ip) \<Longrightarrow> tester ip \<and> (mac, ip) \<in> set table"
proof (induction n)
  case (Suc n)
  then show ?case
    by (auto simp: Let_def split: if_splits prod.splits)
      (metis length_greater_0_conv mod_less_divisor nth_mem)+
qed simp

lemma get_mac_ip_free: "get_mac_ip table pick tester = Inr (mac, ip) \<Longrightarrow> tester ip"
  by (metis get_mac_ip_def get_mac_ip_loop_free)

text \<open>
  \<open>guest_handler.create_guest\<close>: the disk snapshot's path and the domain's name from the UUID
  (\<open>snapshot_path\<close> is a directory's absolute path without a trailing slash). \<open>os._exit\<close> ends the
  process and is shown as an error of that name.
\<close>

definition disk_img :: "env \<Rightarrow> string \<Rightarrow> string" where
  "disk_img e uuid =
     snapshot_path e @ ''/snapshot-'' @ guest_tag e @ ''-'' @ uuid @ ''.qcow2''"

definition domain_name :: "env \<Rightarrow> string \<Rightarrow> string" where
  "domain_name e uuid = ''cowrie-'' @ guest_tag e @ ''_'' @ uuid"

definition boot_guest :: "env \<Rightarrow> string \<Rightarrow> (string \<times> string) pool_py" where
  "boot_guest e uuid =
     (if \<not> base_image_exists e then py_raise (UserError ''os._exit'')
      else if \<not> snapshot_made e (disk_img e uuid) then py_raise (UserError ''QemuGuestError'')
      else if createXML_fails e (domain_name e uuid) then py_raise libvirtError
      else py_bind (py_modify (\<lambda>p. p\<lparr>running := domain_name e uuid # running p\<rparr>))
             (\<lambda>_. py_return (domain_name e uuid, disk_img e uuid)))"

text \<open>
  \<open>LibvirtBackendService.create_guest\<close>; it returns \<open>None\<close> while the back end is not ready, which
  its caller cannot unpack.
\<close>

definition backend_create_guest ::
  "env \<Rightarrow> (string \<Rightarrow> bool) \<Rightarrow> (string \<times> string \<times> string) option pool_py" where
  "backend_create_guest e ip_tester =
     py_bind py_get (\<lambda>p.
       if \<not> ready p then py_return None
       else py_bind (py_lift (get_mac_ip (network_table p) (choice e (next_ref p)) ip_tester))
         (\<lambda>(mac, ip). py_bind (boot_guest e (uuid4 e (next_ref p)))
           (\<lambda>(d, snap). py_return (Some (d, snap, ip)))))"

text \<open>
  \<open>destroy_guest\<close> logs what libvirt raises and returns either way. What happens to the disk
  snapshot's file is outside the model.
\<close>

definition backend_destroy_guest :: "env \<Rightarrow> string \<Rightarrow> pool \<Rightarrow> pool" where
  "backend_destroy_guest e d p =
     (if \<not> ready p \<or> destroy_fails e d then p
      else p\<lparr>running := filter (\<lambda>r. r \<noteq> d) (running p)\<rparr>)"

definition destroy_all_cowrie :: "env \<Rightarrow> unit pool_py" where
  "destroy_all_cowrie e =
     (if libvirt_down e then py_raise libvirtError
      else py_modify (\<lambda>p. p\<lparr>running := filter (\<lambda>d. \<not> starts_with d ''cowrie'') (running p)\<rparr>))"

definition start_backend :: "env \<Rightarrow> unit pool_py" where
  "start_backend e =
     (if libvirt_down e then py_raise libvirtError else py_modify (\<lambda>p. p\<lparr>ready := True\<rparr>))"

definition stop_backend :: "env \<Rightarrow> unit pool_py" where
  "stop_backend e = py_bind (py_modify (\<lambda>p. p\<lparr>ready := False\<rparr>)) (\<lambda>_. destroy_all_cowrie e)"

section \<open>Starting and stopping\<close>

definition start_pool :: "env \<Rightarrow> unit pool_py" where
  "start_pool e =
     py_bind (destroy_all_cowrie e) (\<lambda>_.
     py_bind (start_backend e) (\<lambda>_.
     py_modify (\<lambda>p. p\<lparr>guests := [], guest_id := 0, any_vm_up := False, deferred := deferred p + 1,
       recycle_timer := (recycle_period e > 0 \<or> recycle_timer p)\<rparr>)))"

definition cancel_loop :: "unit pool_py" where
  "cancel_loop = py_bind py_get (\<lambda>p. case loop_next_call p of
       None \<Rightarrow> py_return ()
     | Some c \<Rightarrow> (case c of
           Pending \<Rightarrow> py_modify (\<lambda>p. p\<lparr>loop_next_call := Some Cancelled\<rparr>)
         | Called \<Rightarrow> py_raise (UserError ''AlreadyCalled'')
         | Cancelled \<Rightarrow> py_raise (UserError ''AlreadyCancelled'')))"

text \<open>\<open>try: stop_backend() except libvirtError: print(...)\<close>\<close>

definition catch_libvirt :: "unit pool_py \<Rightarrow> unit pool_py" where
  "catch_libvirt m = (\<lambda>p. case m p of
       (Inl e, p') \<Rightarrow> (if e = libvirtError then Inr () else Inl e, p')
     | (Inr a, p') \<Rightarrow> (Inr a, p'))"

definition stop_pool :: "env \<Rightarrow> unit pool_py" where
  "stop_pool e =
     py_bind cancel_loop (\<lambda>_.
     py_bind (py_modify (\<lambda>p. fold (\<lambda>g. backend_destroy_guest e (domain g)) (guests p) p)) (\<lambda>_.
     py_bind (destroy_all_cowrie e) (\<lambda>_.
     catch_libvirt (stop_backend e))))"

text \<open>
  \<open>shutdown_pool\<close> also closes the connection to libvirt, which changes nothing of the pool's state;
  its \<open>libvirtError\<close> is caught.
\<close>

definition shutdown_pool :: "env \<Rightarrow> unit pool_py" where
  "shutdown_pool e = py_bind (stop_pool e)
     (\<lambda>_. catch_libvirt (if libvirt_down e then py_raise libvirtError else py_return ()))"

definition restart_pool :: "env \<Rightarrow> unit pool_py" where
  "restart_pool e = py_bind (stop_pool e) (\<lambda>_. start_pool e)"

definition set_configs :: "int \<Rightarrow> int \<Rightarrow> bool \<Rightarrow> pool \<Rightarrow> pool" where
  "set_configs m t s p = p\<lparr>max_vm := m, vm_unused_timeout := t, share_guests := s\<rparr>"

section \<open>Looking at the guests\<close>

definition get_guest_states :: "vm_state list \<Rightarrow> pool \<Rightarrow> guest list" where
  "get_guest_states ss p = filter (\<lambda>g. gstate g \<in> Some ` set ss) (guests p)"

definition existing_pool_size :: "pool \<Rightarrow> nat" where
  "existing_pool_size p = length (filter (\<lambda>g. gstate g \<noteq> Some Destroyed) (guests p))"

definition is_ip_free :: "pool \<Rightarrow> string \<Rightarrow> bool" where
  "is_ip_free p ip = list_all (\<lambda>g. guest_ip g \<noteq> ip) (guests p)"

text \<open>
  \<open>A if C else B\<close> in \<open>has_telnet\<close> covers the whole conjunction \<open>C\<close>: with telnet disabled the value is
  \<open>True\<close> whatever SSH answered.
\<close>

definition has_connectivity :: "env \<Rightarrow> pool \<Rightarrow> string \<Rightarrow> bool" where
  "has_connectivity e p ip =
     (let has_ssh = (if ssh_port p > 0 then nmap e ip (ssh_port p) else False);
          has_telnet = (if telnet_port p > 0 \<and> \<not> has_ssh then nmap e ip (telnet_port p) else True)
      in has_ssh \<or> has_telnet)"

section \<open>The producer\<close>

text \<open>\<open>guest[...] = ...\<close> through a reference: it changes the guest of that identity.\<close>

definition update_guest :: "nat \<Rightarrow> (guest \<Rightarrow> guest) \<Rightarrow> pool \<Rightarrow> pool" where
  "update_guest r f p = p\<lparr>guests := map (\<lambda>g. if gref g = r then f g else g) (guests p)\<rparr>"

definition mark_timed_out :: "env \<Rightarrow> int \<Rightarrow> pool \<Rightarrow> pool" where
  "mark_timed_out e guest_timeout p =
     fold (\<lambda>g. if freed_timestamp g + guest_timeout < clock e (gref g)
               then update_guest (gref g) (\<lambda>g. g\<lparr>gstate := Some Unavailable\<rparr>) else id)
       (get_guest_states [Used] p) p"

definition check_health :: "env \<Rightarrow> pool \<Rightarrow> pool" where
  "check_health e p =
     fold (\<lambda>g. if \<not> has_connectivity e p (guest_ip g)
               then update_guest (gref g) (\<lambda>g. g\<lparr>gstate := Some Unavailable\<rparr>) else id)
       (get_guest_states [Available, Using, Used] p) p"

definition destroy_one :: "env \<Rightarrow> guest \<Rightarrow> pool \<Rightarrow> pool" where
  "destroy_one e g p =
     update_guest (gref g) (\<lambda>g. g\<lparr>gstate := Some Destroyed\<rparr>) (backend_destroy_guest e (domain g) p)"

definition destroy_timed_out :: "env \<Rightarrow> pool \<Rightarrow> pool" where
  "destroy_timed_out e p = fold (destroy_one e) (get_guest_states [Unavailable] p) p"

definition remove_destroyed :: "pool \<Rightarrow> pool" where
  "remove_destroyed p =
     p\<lparr>guests := fold remove1 (get_guest_states [Destroyed] p) (guests p)\<rparr>"

definition available_one :: "env \<Rightarrow> guest \<Rightarrow> pool \<Rightarrow> pool" where
  "available_one e g p =
     (if has_connectivity e p (guest_ip g)
      then update_guest (gref g) (\<lambda>g. g\<lparr>gstate := Some Available\<rparr>) (p\<lparr>any_vm_up := True\<rparr>)
      else p)"

definition mark_available :: "env \<Rightarrow> pool \<Rightarrow> pool" where
  "mark_available e p = fold (available_one e) (get_guest_states [Created] p) p"

definition new_guest :: "env \<Rightarrow> pool \<Rightarrow> string \<Rightarrow> string \<Rightarrow> string \<Rightarrow> guest" where
  "new_guest e p d snap ip =
     \<lparr>gref = next_ref p, gid = guest_id p, gstate = Some Created, prev_state = None,
      start_timestamp = clock e (next_ref p), guest_ip = ip, connected = 0, client_ips = {},
      freed_timestamp = -1, domain = d, snapshot = snap\<rparr>"

definition append_guest :: "env \<Rightarrow> string \<Rightarrow> string \<Rightarrow> string \<Rightarrow> pool \<Rightarrow> pool" where
  "append_guest e d snap ip p =
     p\<lparr>guests := guests p @ [new_guest e p d snap ip],
       guest_id := (if guest_id p + 1 = 252 then 0 else guest_id p + 1),
       next_ref := next_ref p + 1\<rparr>"

definition create_one :: "env \<Rightarrow> unit pool_py" where
  "create_one e =
     py_bind py_get (\<lambda>p.
     py_bind (backend_create_guest e (is_ip_free p)) (\<lambda>r. case r of
         None \<Rightarrow> py_raise TypeError
       | Some (d, snap, ip) \<Rightarrow> py_modify (append_guest e d snap ip)))"

fun create_n :: "env \<Rightarrow> nat \<Rightarrow> unit pool_py" where
  "create_n e 0 = py_return ()"
| "create_n e (Suc n) = py_bind (create_one e) (\<lambda>_. create_n e n)"

definition create_guests :: "env \<Rightarrow> unit pool_py" where
  "create_guests e = py_bind py_get (\<lambda>p. create_n e (nat (max_vm p - int (existing_pool_size p))))"

text \<open>
  One turn of \<open>producer_loop\<close>. It runs because the delayed call was called, and schedules the next
  one at its end; an exception on the way leaves it unscheduled. The port scans of the health check
  (\<open>e\<close>) and those of the new guests (\<open>e'\<close>) are made at different times.
\<close>

definition fire_loop :: "pool \<Rightarrow> pool" where
  "fire_loop p = p\<lparr>loop_next_call := map_option (\<lambda>_. Called) (loop_next_call p)\<rparr>"

definition producer_front :: "env \<Rightarrow> pool \<Rightarrow> pool" where
  "producer_front e p =
     (let p1 = (if existing_pool_size p > 1
                then destroy_timed_out e (mark_timed_out e (vm_unused_timeout p) p) else p)
      in remove_destroyed (check_health e p1))"

definition producer_loop :: "env \<Rightarrow> env \<Rightarrow> unit pool_py" where
  "producer_loop e e' =
     py_bind (py_modify (producer_front e)) (\<lambda>_.
     py_bind (create_guests e) (\<lambda>_.
     py_modify (\<lambda>p. (mark_available e' p)\<lparr>loop_next_call := Some Pending\<rparr>)))"

section \<open>The consumers\<close>

definition consumers_get_guest_ip :: "string \<Rightarrow> pool \<Rightarrow> guest option" where
  "consumers_get_guest_ip src_ip p =
     find (\<lambda>g. src_ip \<in> client_ips g) (get_guest_states [Used, Using] p)"

definition consumers_get_available_guest :: "pool \<Rightarrow> guest option" where
  "consumers_get_available_guest p =
     (case get_guest_states [Available] p of [] \<Rightarrow> None | g # gs \<Rightarrow> Some g)"

fun least_connected :: "guest option \<Rightarrow> guest list \<Rightarrow> guest option" where
  "least_connected least [] = least"
| "least_connected least (g # gs) =
     least_connected (case least of None \<Rightarrow> Some g
        | Some l \<Rightarrow> if connected g < connected l then Some g else Some l) gs"

definition consumers_get_any_guest :: "pool \<Rightarrow> guest option" where
  "consumers_get_any_guest p = least_connected None (get_guest_states [Using, Used] p)"

definition pick_guest :: "string \<Rightarrow> pool \<Rightarrow> guest option" where
  "pick_guest src_ip p =
     (case consumers_get_guest_ip src_ip p of
        Some g \<Rightarrow> Some g
      | None \<Rightarrow> (case consumers_get_available_guest p of
            Some g \<Rightarrow> Some g
          | None \<Rightarrow> if share_guests p then consumers_get_any_guest p else None))"

definition claim_guest :: "string \<Rightarrow> guest \<Rightarrow> guest" where
  "claim_guest src_ip g =
     g\<lparr>prev_state := gstate g, gstate := Some Using, connected := connected g + 1,
       client_ips := insert src_ip (client_ips g)\<rparr>"

definition request_vm :: "env \<Rightarrow> string \<Rightarrow> (nat \<times> string \<times> string) pool_py" where
  "request_vm e src_ip =
     py_bind py_get (\<lambda>p. case pick_guest src_ip p of
         None \<Rightarrow> py_bind (if any_vm_up p then stop_pool e else py_return ())
                   (\<lambda>_. py_raise (UserError ''NoAvailableVMs''))
       | Some g \<Rightarrow> py_bind (py_modify (update_guest (gref g) (claim_guest src_ip)))
                   (\<lambda>_. py_return (gid g, guest_ip g, snapshot g)))"

text \<open>\<open>free_vm\<close> and \<open>reuse_vm\<close> work on the first guest that has the id, and on none if none has.\<close>

definition update_first :: "nat \<Rightarrow> (guest \<Rightarrow> guest) \<Rightarrow> pool \<Rightarrow> pool" where
  "update_first i f p = (case find (\<lambda>g. gid g = i) (guests p) of
       None \<Rightarrow> p | Some g \<Rightarrow> update_guest (gref g) f p)"

definition release_guest :: "int \<Rightarrow> guest \<Rightarrow> guest" where
  "release_guest now g =
     (let g = g\<lparr>freed_timestamp := now, connected := connected g - 1\<rparr>
      in if connected g = 0 then g\<lparr>gstate := Some Used\<rparr> else g)"

definition free_vm :: "int \<Rightarrow> nat \<Rightarrow> pool \<Rightarrow> pool" where
  "free_vm now i = update_first i (release_guest now)"

definition revert_guest :: "guest \<Rightarrow> guest" where
  "revert_guest g =
     (let g = g\<lparr>connected := connected g - 1\<rparr>
      in if connected g = 0 then g\<lparr>gstate := prev_state g, prev_state := None\<rparr> else g)"

definition reuse_vm :: "nat \<Rightarrow> pool \<Rightarrow> pool" where
  "reuse_vm i = update_first i revert_guest"

end
