(* ===== verification/VmPoolProps.thy ===== *)
theory VmPoolProps
  imports VmPool
begin

text \<open>
  The pool as a transition system of whole calls: the invariant of its guests, the life cycle, the
  order in which a request looks for a guest, the separation of attackers, and what is left of a
  pool that a request has stopped.
\<close>

section \<open>What one step does to the guests\<close>

named_theorems pool_defs \<open>the operations of the pool that only touch their own fields\<close>

lemma fold_keeps:
  assumes "P s" and "\<And>x s. x \<in> set xs \<Longrightarrow> P s \<Longrightarrow> P (f x s)"
  shows "P (fold f xs s)"
  using assms by (induction xs arbitrary: s) auto

lemma guests_update_guest [simp]:
  "guests (update_guest r f p) = map (\<lambda>g. if gref g = r then f g else g) (guests p)"
  by (simp add: update_guest_def)

lemma update_guest_fields [simp]:
  "guest_id (update_guest r f p) = guest_id p" "next_ref (update_guest r f p) = next_ref p"
  "loop_next_call (update_guest r f p) = loop_next_call p" "max_vm (update_guest r f p) = max_vm p"
  "share_guests (update_guest r f p) = share_guests p" "ready (update_guest r f p) = ready p"
  "running (update_guest r f p) = running p" "any_vm_up (update_guest r f p) = any_vm_up p"
  "ssh_port (update_guest r f p) = ssh_port p" "telnet_port (update_guest r f p) = telnet_port p"
  "vm_unused_timeout (update_guest r f p) = vm_unused_timeout p"
  by (simp_all add: update_guest_def)

lemma backend_destroy_guest_fields [simp]:
  "guests (backend_destroy_guest e d p) = guests p"
  "guest_id (backend_destroy_guest e d p) = guest_id p"
  "next_ref (backend_destroy_guest e d p) = next_ref p"
  "loop_next_call (backend_destroy_guest e d p) = loop_next_call p"
  "max_vm (backend_destroy_guest e d p) = max_vm p"
  "share_guests (backend_destroy_guest e d p) = share_guests p"
  "any_vm_up (backend_destroy_guest e d p) = any_vm_up p"
  "ready (backend_destroy_guest e d p) = ready p"
  by (simp_all add: backend_destroy_guest_def)

text \<open>
  A guest changed in its state, its counters or its clients is the same guest: its dictionary, its
  id, its address and its domain stay.
\<close>

definition same_guest :: "guest \<Rightarrow> guest \<Rightarrow> bool" where
  "same_guest g h \<longleftrightarrow> gref h = gref g \<and> gid h = gid g \<and> guest_ip h = guest_ip g \<and>
     domain h = domain g \<and> snapshot h = snapshot g"

text \<open>What holds of every guest of the list.\<close>

definition guest_ok :: "guest \<Rightarrow> bool" where
  "guest_ok g \<longleftrightarrow> gstate g \<noteq> None \<and> (prev_state g = None \<longrightarrow> connected g \<le> 0) \<and> gid g < 252"

lemma guest_ok_state [intro]: "guest_ok g \<Longrightarrow> guest_ok (g\<lparr>gstate := Some s\<rparr>)"
  by (simp add: guest_ok_def)

lemma guest_ok_claim [intro]: "guest_ok g \<Longrightarrow> guest_ok (claim_guest ip g)"
  by (auto simp: guest_ok_def claim_guest_def)

lemma guest_ok_release [intro]: "guest_ok g \<Longrightarrow> guest_ok (release_guest now g)"
  by (auto simp: guest_ok_def release_guest_def Let_def)

lemma guest_ok_revert [intro]: "guest_ok g \<Longrightarrow> guest_ok (revert_guest g)"
  by (auto simp: guest_ok_def revert_guest_def Let_def)

lemma same_guest_ops [simp]:
  "same_guest g (g\<lparr>gstate := s\<rparr>)" "same_guest g (claim_guest ip g)"
  "same_guest g (release_guest now g)" "same_guest g (revert_guest g)"
  by (simp_all add: same_guest_def claim_guest_def release_guest_def revert_guest_def Let_def)

definition pool_inv :: "pool \<Rightarrow> bool" where
  "pool_inv p \<longleftrightarrow> list_all guest_ok (guests p) \<and> guest_id p < 252 \<and>
     distinct (map gref (guests p)) \<and> list_all (\<lambda>g. gref g < next_ref p) (guests p) \<and>
     distinct (map guest_ip (guests p))"

lemma map_update_same:
  "(\<And>g. same_guest g (f g)) \<Longrightarrow>
     map gref (map (\<lambda>g. if gref g = r then f g else g) gs) = map gref gs \<and>
     map guest_ip (map (\<lambda>g. if gref g = r then f g else g) gs) = map guest_ip gs"
  by (auto simp: same_guest_def)

lemma pool_inv_update [inv_intros]:
  assumes "pool_inv p" and "\<And>g. guest_ok g \<Longrightarrow> guest_ok (f g)" and "\<And>g. same_guest g (f g)"
  shows "pool_inv (update_guest r f p)"
proof -
  have "list_all guest_ok (guests (update_guest r f p))"
    using assms(1,2) by (auto simp: pool_inv_def list_all_iff)
  moreover have "list_all (\<lambda>g. gref g < next_ref p) (guests (update_guest r f p))"
    using assms(1,3) by (auto simp: pool_inv_def list_all_iff same_guest_def)
  ultimately show ?thesis
    using assms(1) map_update_same [of f r "guests p", OF assms(3)]
    by (simp add: pool_inv_def del: map_map)
qed

lemma pool_inv_cong:
  "pool_inv p \<Longrightarrow> guests q = guests p \<Longrightarrow> guest_id q = guest_id p \<Longrightarrow> next_ref q = next_ref p \<Longrightarrow>
     pool_inv q"
  by (simp add: pool_inv_def)

lemma pool_inv_sub:
  assumes "pool_inv p" and "guests q = filter P (guests p)" and "guest_id q = guest_id p"
    and "next_ref q = next_ref p"
  shows "pool_inv q"
  using assms by (auto simp: pool_inv_def list_all_iff distinct_map_filter)

section \<open>The producer's stages\<close>

lemma fold_remove1_filter:
  "distinct xs \<Longrightarrow> fold remove1 (filter P xs) xs = filter (\<lambda>x. \<not> P x) xs"
proof -
  have "fold remove1 ys xs = filter (\<lambda>x. x \<notin> set ys) xs" if "distinct xs" for ys :: "'a list" and xs
    using that
    by (induction ys arbitrary: xs) (auto simp: distinct_remove1_removeAll removeAll_filter_not_eq
        intro!: filter_cong)
  then show "distinct xs \<Longrightarrow> ?thesis" by (auto intro: filter_cong)
qed

lemma pool_inv_distinct: "pool_inv p \<Longrightarrow> distinct (guests p)"
  by (simp add: pool_inv_def distinct_map)

lemma guests_remove_destroyed:
  "pool_inv p \<Longrightarrow> guests (remove_destroyed p) = filter (\<lambda>g. gstate g \<noteq> Some Destroyed) (guests p)"
  by (simp add: remove_destroyed_def get_guest_states_def fold_remove1_filter pool_inv_distinct)

lemma pool_inv_mark_timed_out [inv_intros]: "pool_inv p \<Longrightarrow> pool_inv (mark_timed_out e t p)"
  unfolding mark_timed_out_def by (rule fold_keeps) (auto intro: inv_intros)

lemma pool_inv_check_health [inv_intros]: "pool_inv p \<Longrightarrow> pool_inv (check_health e p)"
  unfolding check_health_def by (rule fold_keeps) (auto intro: inv_intros)

lemma pool_inv_backend_destroy [inv_intros]: "pool_inv p \<Longrightarrow> pool_inv (backend_destroy_guest e d p)"
  by (rule pool_inv_cong) auto

lemma pool_inv_destroy_one [inv_intros]: "pool_inv p \<Longrightarrow> pool_inv (destroy_one e g p)"
  unfolding destroy_one_def by (auto intro: inv_intros)

lemma pool_inv_destroy_timed_out [inv_intros]: "pool_inv p \<Longrightarrow> pool_inv (destroy_timed_out e p)"
  unfolding destroy_timed_out_def by (rule fold_keeps) (auto intro: inv_intros)

lemma remove_destroyed_fields [simp]:
  "guest_id (remove_destroyed p) = guest_id p" "next_ref (remove_destroyed p) = next_ref p"
  by (simp_all add: remove_destroyed_def)

lemma pool_inv_remove_destroyed [inv_intros]: "pool_inv p \<Longrightarrow> pool_inv (remove_destroyed p)"
  by (rule pool_inv_sub [where p = p, OF _ guests_remove_destroyed]) auto

lemma pool_inv_producer_front [inv_intros]: "pool_inv p \<Longrightarrow> pool_inv (producer_front e p)"
  unfolding producer_front_def Let_def by (auto intro: inv_intros)

lemma pool_inv_available_one [inv_intros]: "pool_inv p \<Longrightarrow> pool_inv (available_one e g p)"
  unfolding available_one_def
  by (auto intro!: inv_intros elim: pool_inv_cong)

lemma pool_inv_mark_available [inv_intros]: "pool_inv p \<Longrightarrow> pool_inv (mark_available e p)"
  unfolding mark_available_def by (rule fold_keeps) (auto intro: inv_intros)

lemma pool_inv_append [inv_intros]:
  "pool_inv p \<Longrightarrow> is_ip_free p ip \<Longrightarrow> pool_inv (append_guest e d snap ip p)"
  by (auto simp: pool_inv_def append_guest_def new_guest_def is_ip_free_def list_all_iff guest_ok_def)

text \<open>
  A stage marks guests one by one, through their references. Since no two guests share one, the
  stage as a whole is a map over the list.
\<close>

lemma fold_marks:
  assumes Q: "Q p" and f: "\<And>h. f (f h) = f h" "\<And>h. gref (f h) = gref h"
    and step: "\<And>x s. Q s \<Longrightarrow> Q (F x s) \<and>
        guests (F x s) = map (\<lambda>h. if gref h = gref x \<and> c x then f h else h) (guests s)"
  shows "Q (fold F xs p) \<and> guests (fold F xs p) =
     map (\<lambda>h. if list_ex (\<lambda>x. gref x = gref h \<and> c x) xs then f h else h) (guests p)"
  using Q
proof (induction xs arbitrary: p)
  case (Cons x xs)
  with step [of p x] have "Q (F x p)"
    and g: "guests (F x p) = map (\<lambda>h. if gref h = gref x \<and> c x then f h else h) (guests p)" by auto
  with Cons.IH [of "F x p"] show ?case by (auto simp: f)
qed simp

lemma marks_filter:
  assumes "distinct (map gref gs)" and "h \<in> set gs"
  shows "list_ex (\<lambda>x. gref x = gref h \<and> c x) (filter P gs) \<longleftrightarrow> P h \<and> c h"
  using assms by (auto simp: list_ex_iff distinct_map inj_on_def)

lemma stage_map:
  assumes "pool_inv p" and "Q p" and "\<And>h. f (f h) = f h" "\<And>h. gref (f h) = gref h"
    and "\<And>x s. Q s \<Longrightarrow> Q (F x s) \<and>
        guests (F x s) = map (\<lambda>h. if gref h = gref x \<and> c x then f h else h) (guests s)"
  shows "guests (fold F (get_guest_states ss p) p) =
     map (\<lambda>h. if gstate h \<in> Some ` set ss \<and> c h then f h else h) (guests p)"
proof -
  have "distinct (map gref (guests p))" using assms(1) by (simp add: pool_inv_def)
  then show ?thesis
    using fold_marks [where Q = Q and F = F, OF assms(2-5)]
    by (auto simp: get_guest_states_def marks_filter)
qed

lemma guests_mark_timed_out:
  "pool_inv p \<Longrightarrow> guests (mark_timed_out e t p) =
     map (\<lambda>g. if gstate g = Some Used \<and> freed_timestamp g + t < clock e (gref g)
              then g\<lparr>gstate := Some Unavailable\<rparr> else g) (guests p)"
  unfolding mark_timed_out_def
  by (subst stage_map [where Q = "\<lambda>_. True" and f = "\<lambda>g. g\<lparr>gstate := Some Unavailable\<rparr>"
      and c = "\<lambda>g. freed_timestamp g + t < clock e (gref g)"]) auto

lemma guests_check_health:
  "pool_inv p \<Longrightarrow> guests (check_health e p) =
     map (\<lambda>g. if gstate g \<in> {Some Available, Some Using, Some Used} \<and>
                \<not> has_connectivity e p (guest_ip g)
              then g\<lparr>gstate := Some Unavailable\<rparr> else g) (guests p)"
  unfolding check_health_def
  by (subst stage_map [where Q = "\<lambda>_. True" and f = "\<lambda>g. g\<lparr>gstate := Some Unavailable\<rparr>"
      and c = "\<lambda>g. \<not> has_connectivity e p (guest_ip g)"]) auto

lemma guests_destroy_timed_out:
  "pool_inv p \<Longrightarrow> guests (destroy_timed_out e p) =
     map (\<lambda>g. if gstate g = Some Unavailable then g\<lparr>gstate := Some Destroyed\<rparr> else g) (guests p)"
  unfolding destroy_timed_out_def
  by (subst stage_map [where Q = "\<lambda>_. True" and f = "\<lambda>g. g\<lparr>gstate := Some Destroyed\<rparr>"
      and c = "\<lambda>g. True"]) (auto simp: destroy_one_def)

lemma has_connectivity_cong:
  "ssh_port p = ssh_port q \<Longrightarrow> telnet_port p = telnet_port q \<Longrightarrow>
     has_connectivity e p = has_connectivity e q"
  by (simp add: has_connectivity_def fun_eq_iff)

lemma guests_mark_available:
  assumes "pool_inv p"
  shows "guests (mark_available e p) =
     map (\<lambda>g. if gstate g = Some Created \<and> has_connectivity e p (guest_ip g)
              then g\<lparr>gstate := Some Available\<rparr> else g) (guests p)"
proof -
  have step: "ssh_port s = ssh_port p \<and> telnet_port s = telnet_port p \<Longrightarrow>
      (ssh_port (available_one e x s) = ssh_port p \<and> telnet_port (available_one e x s) = telnet_port p) \<and>
      guests (available_one e x s) =
        map (\<lambda>h. if gref h = gref x \<and> has_connectivity e p (guest_ip x)
                 then h\<lparr>gstate := Some Available\<rparr> else h) (guests s)" for x s
    using has_connectivity_cong [of s p e] by (auto simp: available_one_def)
  show ?thesis
    unfolding mark_available_def
    by (subst stage_map [where Q = "\<lambda>s. ssh_port s = ssh_port p \<and> telnet_port s = telnet_port p"
        and f = "\<lambda>g. g\<lparr>gstate := Some Available\<rparr>"
        and c = "\<lambda>g. has_connectivity e p (guest_ip g)", OF assms]) (use step in auto)
qed

lemma mark_available_fields [simp]:
  "share_guests (mark_available e p) = share_guests p" "max_vm (mark_available e p) = max_vm p"
  "next_ref (mark_available e p) = next_ref p" "guest_id (mark_available e p) = guest_id p"
  "running (mark_available e p) = running p"
proof -
  have "share_guests (mark_available e p) = share_guests p \<and> max_vm (mark_available e p) = max_vm p
      \<and> next_ref (mark_available e p) = next_ref p \<and> guest_id (mark_available e p) = guest_id p
      \<and> running (mark_available e p) = running p"
    unfolding mark_available_def by (rule fold_keeps) (auto simp: available_one_def)
  then show "share_guests (mark_available e p) = share_guests p" "max_vm (mark_available e p) = max_vm p"
    "next_ref (mark_available e p) = next_ref p" "guest_id (mark_available e p) = guest_id p"
    "running (mark_available e p) = running p"
    by blast+
qed

lemma producer_front_fields [simp]:
  "share_guests (producer_front e p) = share_guests p" "max_vm (producer_front e p) = max_vm p"
proof -
  have t: "share_guests (mark_timed_out e t s) = share_guests s \<and> max_vm (mark_timed_out e t s) = max_vm s" for t s
    unfolding mark_timed_out_def by (rule fold_keeps) auto
  have h: "share_guests (check_health e s) = share_guests s \<and> max_vm (check_health e s) = max_vm s" for s
    unfolding check_health_def by (rule fold_keeps) auto
  have d: "share_guests (destroy_timed_out e s) = share_guests s \<and> max_vm (destroy_timed_out e s) = max_vm s" for s
    unfolding destroy_timed_out_def destroy_one_def by (rule fold_keeps) auto
  show "share_guests (producer_front e p) = share_guests p" "max_vm (producer_front e p) = max_vm p"
    by (simp_all add: producer_front_def Let_def remove_destroyed_def t h d)
qed

text \<open>Creating guests.\<close>

lemma boot_guest_effect:
  "boot_guest e u p = (r, q) \<Longrightarrow>
     guests q = guests p \<and> guest_id q = guest_id p \<and> next_ref q = next_ref p \<and> max_vm q = max_vm p"
  by (auto simp: boot_guest_def split: if_splits)

lemma backend_create_guest_effect:
  assumes "backend_create_guest e t p = (r, q)"
  shows "guests q = guests p \<and> guest_id q = guest_id p \<and> next_ref q = next_ref p \<and>
    max_vm q = max_vm p \<and> (case r of Inr (Some (d, snap, ip)) \<Rightarrow> t ip | _ \<Rightarrow> True)"
  using assms
  by (auto simp: backend_create_guest_def split: if_splits sum.splits prod.splits
      dest: boot_guest_effect get_mac_ip_free)

lemma is_ip_free_cong: "guests p = guests q \<Longrightarrow> is_ip_free p = is_ip_free q"
  by (simp add: is_ip_free_def fun_eq_iff)

lemma create_one_cases:
  assumes "create_one e p = (r, q)"
  obtains (raised) x where "r = Inl x" "guests q = guests p" "guest_id q = guest_id p"
      "next_ref q = next_ref p" "max_vm q = max_vm p"
  | (created) d snap ip p' where "r = Inr ()" "q = append_guest e d snap ip p'" "is_ip_free p' ip"
      "guests p' = guests p" "guest_id p' = guest_id p" "next_ref p' = next_ref p" "max_vm p' = max_vm p"
proof (cases "backend_create_guest e (is_ip_free p) p")
  case (Pair b p')
  note eff = backend_create_guest_effect [OF Pair]
  with assms Pair that is_ip_free_cong [of p p'] show ?thesis
    by (auto simp: create_one_def split: sum.splits option.splits prod.splits)
qed

lemma pool_inv_create_one [inv_intros]: "pool_inv p \<Longrightarrow> pool_inv (snd (create_one e p))"
proof -
  assume inv: "pool_inv p"
  obtain r q where rq: "create_one e p = (r, q)" by force
  then show ?thesis
  proof (cases rule: create_one_cases)
    case raised
    with rq inv show ?thesis by (auto elim: pool_inv_cong)
  next
    case (created d snap ip p')
    with inv have "pool_inv p'" by (auto elim: pool_inv_cong)
    with created rq show ?thesis by (simp add: pool_inv_append)
  qed
qed

abbreviation keeps_pool :: "'a pool_py \<Rightarrow> bool" where
  "keeps_pool \<equiv> keeps (\<lambda>p q. pool_inv p \<longrightarrow> pool_inv q)"

lemma pool_inv_preorder [simp]: "preorder_on_states (\<lambda>p q. pool_inv p \<longrightarrow> pool_inv q)"
  by (auto simp: preorder_on_states_def reflp_def transp_def)

lemma keeps_pool_modify: "(\<And>p. pool_inv p \<Longrightarrow> pool_inv (f p)) \<Longrightarrow> keeps_pool (py_modify f)"
  by (rule keeps_modify) simp

lemma keeps_pool_create_one: "keeps_pool (create_one e)"
  by (simp add: keeps_def pool_inv_create_one)

lemma keeps_pool_create_n: "keeps_pool (create_n e n)"
proof (induction n)
  case 0
  show ?case unfolding create_n.simps by (intro keeps_intros pool_inv_preorder)
next
  case (Suc n)
  show ?case
    unfolding create_n.simps by (intro keeps_intros keeps_pool_create_one pool_inv_preorder Suc)
qed

lemma keeps_pool_producer_loop: "keeps_pool (producer_loop e e')"
  unfolding producer_loop_def create_guests_def
  by (intro keeps_intros keeps_pool_modify keeps_pool_create_n inv_intros pool_inv_preorder)
    (auto elim: pool_inv_cong [OF pool_inv_mark_available])

section \<open>Starting, stopping and the consumers\<close>

lemma keeps_pool_fields:
  "(\<And>p. guests (f p) = guests p \<and> guest_id (f p) = guest_id p \<and> next_ref (f p) = next_ref p) \<Longrightarrow>
     keeps_pool (py_modify f)"
  by (rule keeps_pool_modify) (rule pool_inv_cong, auto)

lemma keeps_pool_cancel_loop: "keeps_pool cancel_loop"
  by (auto simp: keeps_def cancel_loop_def elim: pool_inv_cong split: option.splits delayed.splits)

lemma keeps_pool_destroy_all: "keeps_pool (destroy_all_cowrie e)"
  unfolding destroy_all_cowrie_def by (auto intro!: keeps_intros keeps_pool_fields)

lemma keeps_pool_catch: "keeps_pool m \<Longrightarrow> keeps_pool (catch_libvirt m)"
  by (auto simp: keeps_def catch_libvirt_def split: prod.splits sum.splits)

lemma pool_inv_destroy_all_guests:
  "pool_inv p \<Longrightarrow> pool_inv (fold (\<lambda>g. backend_destroy_guest e (domain g)) gs p)"
  by (rule fold_keeps) (auto intro: inv_intros)

lemma keeps_pool_stop_pool: "keeps_pool (stop_pool e)"
  unfolding stop_pool_def stop_backend_def
  by (intro keeps_intros keeps_pool_cancel_loop keeps_pool_destroy_all keeps_pool_catch
      keeps_pool_modify pool_inv_preorder pool_inv_destroy_all_guests keeps_pool_fields) auto

lemma pool_inv_empty: "guests p = [] \<Longrightarrow> guest_id p < 252 \<Longrightarrow> pool_inv p"
  by (simp add: pool_inv_def)

lemma keeps_pool_start_pool: "keeps_pool (start_pool e)"
  unfolding start_pool_def start_backend_def
  by (intro keeps_intros keeps_pool_destroy_all keeps_pool_fields pool_inv_preorder
      keeps_pool_modify pool_inv_empty) auto

lemma keeps_pool_restart_pool: "keeps_pool (restart_pool e)"
  unfolding restart_pool_def
  by (intro keeps_intros keeps_pool_stop_pool keeps_pool_start_pool pool_inv_preorder)

lemma keeps_pool_request_vm: "keeps_pool (request_vm e ip)"
  unfolding request_vm_def
  by (intro keeps_intros keeps_pool_stop_pool keeps_pool_modify pool_inv_update pool_inv_preorder) auto

lemma pool_inv_free_vm [inv_intros]: "pool_inv p \<Longrightarrow> pool_inv (free_vm now i p)"
  unfolding free_vm_def update_first_def by (auto split: option.split intro: inv_intros)

lemma pool_inv_reuse_vm [inv_intros]: "pool_inv p \<Longrightarrow> pool_inv (reuse_vm i p)"
  unfolding reuse_vm_def update_first_def by (auto split: option.split intro: inv_intros)

lemma pool_inv_set_configs [inv_intros]: "pool_inv p \<Longrightarrow> pool_inv (set_configs m t s p)"
  by (rule pool_inv_cong) (simp_all add: set_configs_def)

section \<open>The pool as a transition system of whole calls\<close>

datatype pool_call =
    StartPool env
  | RestartPool env
  | StopPool env
  | ProducerLoop env env
  | SetConfigs int int bool
  | RequestVM env string
  | FreeVM int nat
  | ReuseVM nat

fun pool_step :: "pool_call \<Rightarrow> pool \<Rightarrow> pool" where
  "pool_step (StartPool e) p = snd (start_pool e p)"
| "pool_step (RestartPool e) p = snd (restart_pool e p)"
| "pool_step (StopPool e) p = snd (stop_pool e p)"
| "pool_step (ProducerLoop e e') p = snd (producer_loop e e' (fire_loop p))"
| "pool_step (SetConfigs m t s) p = set_configs m t s p"
| "pool_step (RequestVM e ip) p = snd (request_vm e ip p)"
| "pool_step (FreeVM now i) p = free_vm now i p"
| "pool_step (ReuseVM i) p = reuse_vm i p"

lemma pool_inv_step: "pool_inv p \<Longrightarrow> pool_inv (pool_step c p)"
proof (cases c)
  case (ProducerLoop e e')
  moreover assume "pool_inv p"
  then have "pool_inv (fire_loop p)" by (rule pool_inv_cong) (simp_all add: fire_loop_def)
  ultimately show ?thesis using keepsD [OF keeps_pool_producer_loop] by simp
qed (auto intro: inv_intros
    simp: keeps_pool_start_pool [THEN keepsD, rule_format]
      keeps_pool_restart_pool [THEN keepsD, rule_format]
      keeps_pool_stop_pool [THEN keepsD, rule_format]
      keeps_pool_request_vm [THEN keepsD, rule_format])

interpretation vp: transition_system "default_pool table ssh telnet" pool_step pool_inv
  for table ssh telnet
  by unfold_locales (auto simp: default_pool_def pool_inv_empty pool_inv_step)

end
