(* ===== verification/VmPoolSafety.thy ===== *)
theory VmPoolSafety
  imports VmPoolProps
begin

text \<open>
  The pool's promises to its clients and where they end: which guest a request gets, the separation
  of attackers when guests are not shared, the producer's life cycle, the state a refused request
  leaves behind, and the interleaving of producer and consumers in which a destroyed machine is
  handed out.
\<close>

section \<open>Which guest a request gets\<close>

definition in_use :: "guest \<Rightarrow> bool" where
  "in_use g \<longleftrightarrow> gstate g = Some Using \<or> gstate g = Some Used"

text \<open>
  The policy: a guest that already serves the address; else an available one; else, if guests are
  shared, one in use with the fewest clients.
\<close>

definition serves :: "pool \<Rightarrow> string \<Rightarrow> guest \<Rightarrow> bool" where
  "serves p ip g \<longleftrightarrow>
     (if list_ex (\<lambda>h. in_use h \<and> ip \<in> client_ips h) (guests p) then in_use g \<and> ip \<in> client_ips g
      else if list_ex (\<lambda>h. gstate h = Some Available) (guests p) then gstate g = Some Available
      else share_guests p \<and> in_use g \<and>
        list_all (\<lambda>h. in_use h \<longrightarrow> connected g \<le> connected h) (guests p))"

lemma least_connected_Some:
  "\<exists>g. least_connected (Some l) gs = Some g \<and> g \<in> insert l (set gs) \<and>
     (\<forall>h \<in> insert l (set gs). connected g \<le> connected h)"
proof (induction gs arbitrary: l)
  case (Cons x gs)
  show ?case
    using Cons.IH [of "if connected x < connected l then x else l"]
    by (auto split: if_splits)
qed simp

lemma least_connected_None:
  "least_connected None gs = None \<longleftrightarrow> gs = []"
  "least_connected None gs = Some g \<Longrightarrow> g \<in> set gs \<and> (\<forall>h \<in> set gs. connected g \<le> connected h)"
  using least_connected_Some [of "hd gs" "tl gs"] by (cases gs; auto)+

lemma set_guest_states:
  "set (get_guest_states ss p) = {g \<in> set (guests p). gstate g \<in> Some ` set ss}"
  by (auto simp: get_guest_states_def)

lemma in_use_states:
  "g \<in> set (get_guest_states [Used, Using] p) \<longleftrightarrow> g \<in> set (guests p) \<and> in_use g"
  "g \<in> set (get_guest_states [Using, Used] p) \<longleftrightarrow> g \<in> set (guests p) \<and> in_use g"
  by (auto simp: set_guest_states in_use_def)

lemma get_guest_ip_cases:
  fixes p :: pool
  shows "(case consumers_get_guest_ip ip p of
      None \<Rightarrow> \<not> list_ex (\<lambda>h. in_use h \<and> ip \<in> client_ips h) (guests p)
    | Some g \<Rightarrow> g \<in> set (guests p) \<and> in_use g \<and> ip \<in> client_ips g)"
proof (cases "consumers_get_guest_ip ip p")
  case None
  then have "\<forall>h \<in> set (get_guest_states [Used, Using] p). ip \<notin> client_ips h"
    by (simp add: consumers_get_guest_ip_def find_None_iff)
  with None show ?thesis by (auto simp: in_use_states list_ex_iff)
next
  case (Some g)
  then have "g \<in> set (get_guest_states [Used, Using] p) \<and> ip \<in> client_ips g"
    by (auto simp: consumers_get_guest_ip_def find_Some_iff)
  with Some show ?thesis by (simp add: in_use_states)
qed

lemma get_available_cases:
  "(case consumers_get_available_guest p of
      None \<Rightarrow> \<not> list_ex (\<lambda>h. gstate h = Some Available) (guests p)
    | Some g \<Rightarrow> g \<in> set (guests p) \<and> gstate g = Some Available)"
proof -
  have "set (get_guest_states [Available] p) = {g \<in> set (guests p). gstate g = Some Available}"
    by (auto simp: set_guest_states)
  then show ?thesis
    by (cases "get_guest_states [Available] p")
      (auto simp: consumers_get_available_guest_def list_ex_iff)
qed

lemma get_any_cases:
  "(case consumers_get_any_guest p of
      None \<Rightarrow> \<not> list_ex in_use (guests p)
    | Some g \<Rightarrow> g \<in> set (guests p) \<and> in_use g \<and>
        list_all (\<lambda>h. in_use h \<longrightarrow> connected g \<le> connected h) (guests p))"
proof (cases "consumers_get_any_guest p")
  case None
  then have "get_guest_states [Using, Used] p = []"
    by (simp add: consumers_get_any_guest_def least_connected_None)
  with None show ?thesis
    using in_use_states(2) [of _ p] by (auto simp: list_ex_iff)
next
  case (Some g)
  then show ?thesis
    using least_connected_None(2) [of "get_guest_states [Using, Used] p" g]
    by (auto simp: consumers_get_any_guest_def in_use_states list_all_iff)
qed

lemma pick_guest_serves:
  "(case pick_guest ip p of
      None \<Rightarrow> \<not> list_ex (serves p ip) (guests p)
    | Some g \<Rightarrow> g \<in> set (guests p) \<and> serves p ip g)"
  using get_guest_ip_cases [of ip p] get_available_cases [of p] get_any_cases [of p]
  unfolding pick_guest_def
  by (simp split: option.splits)
    (auto simp: serves_def list_ex_iff list_all_iff split: if_splits)

lemma update_only:
  assumes "distinct (map gref gs)" and "g \<in> set gs"
  shows "map (\<lambda>h. if gref h = gref g then f h else h) gs = map (\<lambda>h. if h = g then f g else h) gs"
  using assms by (auto simp: distinct_map inj_on_def)

lemma request_vm_policy:
  assumes "pool_inv p"
  shows "(case request_vm e ip p of
      (Inl x, q) \<Rightarrow> \<not> list_ex (serves p ip) (guests p)
    | (Inr v, q) \<Rightarrow> list_ex (\<lambda>g. serves p ip g \<and> v = (gid g, guest_ip g, snapshot g) \<and>
        guests q = map (\<lambda>h. if h = g then claim_guest ip g else h) (guests p)) (guests p))"
proof (cases "pick_guest ip p")
  case None
  then show ?thesis
    using pick_guest_serves [of p ip]
    by (auto simp: request_vm_def split: sum.splits prod.splits)
next
  case (Some g)
  have g: "g \<in> set (guests p)" "serves p ip g"
    using pick_guest_serves [of p ip] Some by simp_all
  with assms have "map (\<lambda>h. if gref h = gref g then claim_guest ip h else h) (guests p) =
      map (\<lambda>h. if h = g then claim_guest ip g else h) (guests p)"
    by (intro update_only) (simp_all add: pool_inv_def)
  with Some g show ?thesis
    by (auto simp: request_vm_def list_ex_iff)
qed

section \<open>One attacker per guest\<close>

text \<open>
  With \<open>share_guests\<close> off a guest's clients are one address, and a guest that can be given to anybody
  has none.
\<close>

definition guest_exclusive :: "guest \<Rightarrow> bool" where
  "guest_exclusive g \<longleftrightarrow> (client_ips g = {} \<or>
     (\<exists>ip. client_ips g = {ip}) \<and> gstate g \<noteq> Some Created \<and> gstate g \<noteq> Some Available)"

definition exclusive :: "pool \<Rightarrow> bool" where
  "exclusive p \<longleftrightarrow> pool_inv p \<and> \<not> share_guests p \<and> list_all guest_exclusive (guests p)"

fun private_call :: "pool_call \<Rightarrow> bool" where
  "private_call (SetConfigs m t s) = (\<not> s)"
| "private_call (ReuseVM i) = False"
| "private_call c = True"

text \<open>A change of the guests that keeps each one exclusive, in a call that leaves the policy alone.\<close>

definition keeps_exclusive :: "pool \<Rightarrow> pool \<Rightarrow> bool" where
  "keeps_exclusive p q \<longleftrightarrow> share_guests q = share_guests p \<and>
     (list_all guest_exclusive (guests p) \<longrightarrow> list_all guest_exclusive (guests q))"

lemma keeps_exclusive_same:
  "guests q = guests p \<Longrightarrow> share_guests q = share_guests p \<Longrightarrow> keeps_exclusive p q"
  by (simp add: keeps_exclusive_def)

lemma keeps_exclusive_trans: "keeps_exclusive p q \<Longrightarrow> keeps_exclusive q r \<Longrightarrow> keeps_exclusive p r"
  by (simp add: keeps_exclusive_def)

lemma keeps_exclusive_preorder: "preorder_on_states keeps_exclusive"
  by (auto simp: preorder_on_states_def reflp_def transp_def keeps_exclusive_def)

lemma keeps_exclusive_update:
  "(\<And>g. guest_exclusive g \<Longrightarrow> guest_exclusive (f g)) \<Longrightarrow> keeps_exclusive p (update_guest r f p)"
  by (auto simp: keeps_exclusive_def list_all_iff)

lemma guest_exclusive_unavailable:
  "guest_exclusive g \<Longrightarrow> guest_exclusive (g\<lparr>gstate := Some Unavailable\<rparr>)"
  by (auto simp: guest_exclusive_def)

lemma guest_exclusive_release: "guest_exclusive g \<Longrightarrow> guest_exclusive (release_guest now g)"
  by (auto simp: guest_exclusive_def release_guest_def Let_def)

text \<open>Before it creates guests the producer keeps a guest, marks it unavailable or drops it.\<close>

lemma producer_front_guests:
  assumes inv: "pool_inv p" and g: "g \<in> set (guests (producer_front e p))"
  shows "\<exists>h \<in> set (guests p). (g = h \<or> g = h\<lparr>gstate := Some Unavailable\<rparr>) \<and> gstate g \<noteq> Some Destroyed"
proof -
  have a: "\<exists>h \<in> set (guests p). (g = h \<or> g = h\<lparr>gstate := Some Unavailable\<rparr>) \<and> gstate g \<noteq> Some Destroyed"
    if "pool_inv q" and "g \<in> set (guests (remove_destroyed (check_health e q)))"
      and "\<And>x. x \<in> set (guests q) \<Longrightarrow> gstate x \<noteq> Some Destroyed \<Longrightarrow>
        \<exists>h \<in> set (guests p). x = h \<or> x = h\<lparr>gstate := Some Unavailable\<rparr>" for q
  proof -
    from that(1,2) have d: "gstate g \<noteq> Some Destroyed" and "g \<in> set (guests (check_health e q))"
      by (auto simp: guests_remove_destroyed pool_inv_check_health)
    with that(1) obtain x where "x \<in> set (guests q)" "g = x \<or> g = x\<lparr>gstate := Some Unavailable\<rparr>"
        "gstate x \<noteq> Some Destroyed"
      by (auto simp: guests_check_health split: if_splits)
    with that(3) [of x] d show ?thesis by fastforce
  qed
  show ?thesis
  proof (cases "existing_pool_size p > 1")
    case False
    then show ?thesis using g inv by (intro a [of p]) (auto simp: producer_front_def)
  next
    case True
    have "\<exists>h \<in> set (guests p). x = h \<or> x = h\<lparr>gstate := Some Unavailable\<rparr>"
      if "x \<in> set (guests (destroy_timed_out e (mark_timed_out e t p)))" "gstate x \<noteq> Some Destroyed"
      for x t
      using that inv
      by (fastforce simp: guests_destroy_timed_out guests_mark_timed_out pool_inv_mark_timed_out
          split: if_splits)
    with True show ?thesis using g inv
      by (intro a [of "destroy_timed_out e (mark_timed_out e (vm_unused_timeout p) p)"])
        (auto simp: producer_front_def intro: inv_intros)
  qed
qed

lemma keeps_exclusive_front: "pool_inv p \<Longrightarrow> keeps_exclusive p (producer_front e p)"
  by (auto simp: keeps_exclusive_def list_all_iff dest!: producer_front_guests
      intro: guest_exclusive_unavailable)

lemma guest_exclusive_new [simp]: "guest_exclusive (new_guest e p d s ip)"
  by (simp add: guest_exclusive_def new_guest_def)

lemma boot_guest_share: "boot_guest e u p = (r, q) \<Longrightarrow> share_guests q = share_guests p"
  by (auto simp: boot_guest_def split: if_splits)

lemma keeps_exclusive_create_one: "keeps keeps_exclusive (create_one e)"
proof -
  have "keeps_exclusive p (snd (create_one e p))" for p
  proof -
    obtain r q where b: "backend_create_guest e (is_ip_free p) p = (r, q)" by force
    then have "share_guests q = share_guests p"
      by (auto simp: backend_create_guest_def split: if_splits sum.splits prod.splits dest: boot_guest_share)
    moreover have "guests q = guests p" using backend_create_guest_effect [OF b] by simp
    ultimately show ?thesis using b
      by (auto simp: create_one_def append_guest_def keeps_exclusive_def list_all_iff
          split: sum.splits option.splits prod.splits)
  qed
  then show ?thesis by (simp add: keeps_def)
qed

lemma keeps_exclusive_create_n: "keeps keeps_exclusive (create_n e n)"
proof (induction n)
  case 0
  show ?case unfolding create_n.simps by (intro keeps_intros keeps_exclusive_preorder)
next
  case (Suc n)
  show ?case
    unfolding create_n.simps
    by (intro keeps_intros keeps_exclusive_create_one keeps_exclusive_preorder Suc)
qed

lemma keeps_exclusive_available: "pool_inv p \<Longrightarrow> keeps_exclusive p (mark_available e p)"
  by (auto simp: keeps_exclusive_def list_all_iff guests_mark_available guest_exclusive_def)

lemma keeps_exclusive_loop:
  assumes "pool_inv p"
  shows "keeps_exclusive p (snd (producer_loop e e' p))"
proof -
  define q where "q = producer_front e p"
  obtain r q' where c: "create_guests e q = (r, q')" by force
  have "keeps keeps_exclusive (create_guests e)"
    unfolding create_guests_def
    by (intro keeps_intros keeps_exclusive_create_n keeps_exclusive_preorder)
  with c have k: "keeps_exclusive q q'" by (metis keepsD snd_conv)
  have "keeps_pool (create_guests e)"
    unfolding create_guests_def by (intro keeps_intros keeps_pool_create_n pool_inv_preorder)
  with c assms have "pool_inv q'"
    unfolding q_def by (metis keepsD snd_conv pool_inv_producer_front)
  then have "keeps_exclusive q' (mark_available e' q')" by (rule keeps_exclusive_available)
  then have "keeps_exclusive q' ((mark_available e' q')\<lparr>loop_next_call := Some Pending\<rparr>)"
    by (simp add: keeps_exclusive_def)
  with k assms c keeps_exclusive_front [of p e] show ?thesis
    by (auto simp: producer_loop_def q_def [symmetric] split: sum.splits intro: keeps_exclusive_trans)
qed

lemma keeps_exclusive_request:
  assumes inv: "pool_inv p" and "\<not> share_guests p" and ex: "list_all guest_exclusive (guests p)"
    and g: "g \<in> set (guests p)" and s: "serves p ip g"
  shows "keeps_exclusive p (update_guest (gref g) (claim_guest ip) p)"
proof -
  have "client_ips g = {} \<or> client_ips g = {ip}"
    using s ex g assms(2)
    by (auto simp: serves_def list_all_iff guest_exclusive_def split: if_splits)
  then have "guest_exclusive (claim_guest ip g)"
    by (auto simp: guest_exclusive_def claim_guest_def)
  moreover have "guests (update_guest (gref g) (claim_guest ip) p) =
      map (\<lambda>h. if h = g then claim_guest ip g else h) (guests p)"
    using inv g by (simp add: update_only pool_inv_def)
  ultimately show ?thesis
    using ex by (auto simp: keeps_exclusive_def list_all_iff)
qed

lemma fold_destroy_guests:
  "guests (fold (\<lambda>g. backend_destroy_guest e (domain g)) gs p) = guests p"
  "share_guests (fold (\<lambda>g. backend_destroy_guest e (domain g)) gs p) = share_guests p"
  "any_vm_up (fold (\<lambda>g. backend_destroy_guest e (domain g)) gs p) = any_vm_up p"
  "loop_next_call (fold (\<lambda>g. backend_destroy_guest e (domain g)) gs p) = loop_next_call p"
  by (induction gs arbitrary: p) auto

lemma keeps_exclusive_modify:
  "(\<And>p. guests (f p) = guests p \<and> share_guests (f p) = share_guests p) \<Longrightarrow>
     keeps keeps_exclusive (py_modify f)"
  by (rule keeps_modify) (simp add: keeps_exclusive_same)

lemma keeps_exclusive_stop: "keeps keeps_exclusive (stop_pool e)"
proof -
  have "keeps keeps_exclusive cancel_loop"
    by (auto simp: keeps_def cancel_loop_def intro: keeps_exclusive_same split: option.splits delayed.splits)
  moreover have d: "keeps keeps_exclusive (destroy_all_cowrie e)"
    unfolding destroy_all_cowrie_def
    by (intro keeps_intros keeps_exclusive_modify keeps_exclusive_preorder) simp
  moreover have "keeps keeps_exclusive (stop_backend e)"
    unfolding stop_backend_def
    by (intro keeps_intros keeps_exclusive_modify keeps_exclusive_preorder d) simp
  then have "keeps keeps_exclusive (catch_libvirt (stop_backend e))"
    by (auto simp: keeps_def catch_libvirt_def split: prod.splits sum.splits) (metis snd_conv)+
  ultimately show ?thesis
    unfolding stop_pool_def
    by (intro keeps_intros keeps_exclusive_modify keeps_exclusive_preorder)
      (auto simp: fold_destroy_guests)
qed

lemma keeps_exclusive_start: "keeps keeps_exclusive (start_pool e)"
proof -
  have "keeps_exclusive p (p\<lparr>guests := [], guest_id := 0, any_vm_up := a, deferred := d,
      recycle_timer := r\<rparr>)" for p a d r
    by (simp add: keeps_exclusive_def)
  then show ?thesis
    unfolding start_pool_def start_backend_def destroy_all_cowrie_def
    by (intro keeps_intros keeps_exclusive_modify keeps_exclusive_preorder keeps_modify) auto
qed

lemma keeps_exclusive_restart: "keeps keeps_exclusive (restart_pool e)"
  unfolding restart_pool_def
  by (intro keeps_intros keeps_exclusive_stop keeps_exclusive_start keeps_exclusive_preorder)

lemma exclusive_request:
  assumes "exclusive p"
  shows "keeps_exclusive p (snd (request_vm e ip p))"
proof (cases "pick_guest ip p")
  case None
  then show ?thesis
    using keepsD [OF keeps_exclusive_stop, of p e]
    by (auto simp: request_vm_def keeps_exclusive_same split: sum.splits prod.splits)
next
  case (Some g)
  then have "g \<in> set (guests p)" "serves p ip g"
    using pick_guest_serves [of p ip] by simp_all
  with assms Some show ?thesis
    using keeps_exclusive_request [of p g ip] by (simp add: request_vm_def exclusive_def)
qed

lemma exclusive_step:
  assumes "exclusive p" and "private_call c"
  shows "exclusive (pool_step c p)"
proof -
  have inv: "pool_inv p" "pool_inv (pool_step c p)"
    using assms(1) pool_inv_step by (auto simp: exclusive_def)
  have "keeps_exclusive p (pool_step c p) \<or> (\<exists>m t. c = SetConfigs m t False)"
  proof (cases c)
    case (ProducerLoop e e')
    have "keeps_exclusive p (fire_loop p)" by (simp add: keeps_exclusive_def fire_loop_def)
    moreover have "pool_inv (fire_loop p)"
      using inv(1) by (rule pool_inv_cong) (simp_all add: fire_loop_def)
    ultimately show ?thesis
      using ProducerLoop keeps_exclusive_loop keeps_exclusive_trans by fastforce
  next
    case (FreeVM now i)
    then show ?thesis
      by (auto simp: free_vm_def update_first_def keeps_exclusive_same guest_exclusive_release
          intro: keeps_exclusive_update split: option.split)
  qed (use assms in \<open>auto simp: keepsD [OF keeps_exclusive_stop] keepsD [OF keeps_exclusive_start]
      keepsD [OF keeps_exclusive_restart] exclusive_request\<close>)
  with inv assms(1) show ?thesis
    by (auto simp: exclusive_def keeps_exclusive_def set_configs_def)
qed

interpretation vx: transition_system
  "set_configs m t False (default_pool table ssh telnet)"
  "\<lambda>c p. if private_call c then pool_step c p else p" exclusive
  for m t table ssh telnet
proof unfold_locales
  show "exclusive (set_configs m t False (default_pool table ssh telnet))"
    using vp.inv_start [of table ssh telnet]
    by (simp add: exclusive_def set_configs_def default_pool_def pool_inv_empty)
qed (simp add: exclusive_step)

lemma fold_private:
  "list_all P cs \<Longrightarrow> fold (\<lambda>c p. if P c then f c p else p) cs p = fold f cs p"
  by (induction cs arbitrary: p) auto

lemma private_pool_exclusive:
  assumes "list_all private_call cs"
  shows "exclusive (fold pool_step cs (set_configs m t False (default_pool table ssh telnet)))"
  using vx.inv_reachable [of cs m t table ssh telnet] assms by (simp add: fold_private)

end
