(* ===== verification/VmPoolRace.thy ===== *)
theory VmPoolRace
  imports VmPoolSafety
begin

text \<open>
  The producer's thread and the consumers interleaved at the grain of the lock, and the properties
  of the pool.

  The producer runs one stage at a time; the stages that hold \<open>guest_lock\<close> throughout are one step,
  the others one step per guest. A request is two steps: it finds a guest under the lock (its three
  look-ups are taken as one step) and changes it afterwards without the lock, so a found guest
  waits in \<open>claims\<close>.
\<close>

datatype producer_pc =
    Sleeping
  | Marking
  | Listing
  | Destroying "guest list"
  | CheckingHealth
  | Removing
  | Creating nat
  | Booting "guest list"
  | Crashed

record pool_world =
  the_pool :: pool
  producer :: producer_pc
  claims :: "(string \<times> nat) list"

datatype pool_label =
    Producer env
  | FindGuest env string
  | ClaimGuest string nat
  | Whole pool_call

fun producer_step :: "env \<Rightarrow> producer_pc \<Rightarrow> pool \<Rightarrow> producer_pc \<times> pool" where
  "producer_step e Sleeping p =
     (if existing_pool_size p > 1 then Marking else CheckingHealth, fire_loop p)"
| "producer_step e Marking p = (Listing, mark_timed_out e (vm_unused_timeout p) p)"
| "producer_step e Listing p = (Destroying (get_guest_states [Unavailable] p), p)"
| "producer_step e (Destroying []) p = (CheckingHealth, p)"
| "producer_step e (Destroying (g # gs)) p = (Destroying gs, destroy_one e g p)"
| "producer_step e CheckingHealth p = (Removing, check_health e p)"
| "producer_step e Removing p =
     (let q = remove_destroyed p in (Creating (nat (max_vm q - int (existing_pool_size q))), q))"
| "producer_step e (Creating 0) p = (Booting (get_guest_states [Created] p), p)"
| "producer_step e (Creating (Suc n)) p = (case create_one e p of
      (Inl x, q) \<Rightarrow> (Crashed, q) | (Inr _, q) \<Rightarrow> (Creating n, q))"
| "producer_step e (Booting []) p = (Sleeping, p\<lparr>loop_next_call := Some Pending\<rparr>)"
| "producer_step e (Booting (g # gs)) p = (Booting gs, available_one e g p)"
| "producer_step e Crashed p = (Crashed, p)"

fun world_step :: "pool_label \<Rightarrow> pool_world \<Rightarrow> pool_world" where
  "world_step (Producer e) w = (case producer_step e (producer w) (the_pool w) of
      (c, p) \<Rightarrow> w\<lparr>producer := c, the_pool := p\<rparr>)"
| "world_step (FindGuest e ip) w = (case pick_guest ip (the_pool w) of
      None \<Rightarrow> w\<lparr>the_pool := snd (request_vm e ip (the_pool w))\<rparr>
    | Some g \<Rightarrow> w\<lparr>claims := (ip, gref g) # claims w\<rparr>)"
| "world_step (ClaimGuest ip r) w =
     (if (ip, r) \<in> set (claims w)
      then w\<lparr>claims := remove1 (ip, r) (claims w),
             the_pool := update_guest r (claim_guest ip) (the_pool w)\<rparr>
      else w)"
| "world_step (Whole c) w = w\<lparr>the_pool := pool_step c (the_pool w)\<rparr>"

definition world_start :: "(string \<times> string) list \<Rightarrow> int \<Rightarrow> int \<Rightarrow> pool_world" where
  "world_start table ssh telnet =
     \<lparr>the_pool = default_pool table ssh telnet, producer = Sleeping, claims = []\<rparr>"

lemma pool_inv_producer_step: "pool_inv p \<Longrightarrow> pool_inv (snd (producer_step e c p))"
proof (induction e c p rule: producer_step.induct)
  case (9 e n p)
  then show ?case
    using pool_inv_create_one [of p e] by (auto split: prod.splits sum.splits)
qed (auto simp: Let_def fire_loop_def intro: inv_intros elim: pool_inv_cong)

interpretation vw: transition_system "world_start table ssh telnet" world_step
    "\<lambda>w. pool_inv (the_pool w)" for table ssh telnet
proof unfold_locales
  show "pool_inv (the_pool (world_start table ssh telnet))"
    using vp.inv_start by (simp add: world_start_def)
next
  fix w :: pool_world and l
  assume "pool_inv (the_pool w)"
  moreover have "producer_step e c p = (d, q) \<Longrightarrow> pool_inv p \<Longrightarrow> pool_inv q" for e c p d q
    using pool_inv_producer_step [of p e c] by simp
  ultimately show "pool_inv (the_pool (world_step l w))"
    using keeps_pool_request_vm [THEN keepsD, rule_format]
    by (cases l) (auto simp: pool_inv_step pool_inv_update guest_ok_claim split: prod.split option.split)
qed

section \<open>A concrete pool\<close>

definition ex_table :: "(string \<times> string) list" where
  "ex_table = [(''48:d2:24:bf:00:01'', ''192.168.150.2''), (''48:d2:24:bf:00:02'', ''192.168.150.3'')]"

definition ex_env :: "int \<Rightarrow> env" where
  "ex_env now = \<lparr>nmap = \<lambda>ip port. True, clock = \<lambda>r. now, choice = \<lambda>r k. r,
     uuid4 = \<lambda>r. if r = 0 then ''aa'' else ''bb'', base_image_exists = True,
     snapshot_made = \<lambda>d. True, createXML_fails = \<lambda>d. False, destroy_fails = \<lambda>d. False,
     libvirt_down = False, snapshot_path = ''/tmp'', guest_tag = ''guest'', recycle_period = -1\<rparr>"

text \<open>
  Two machines boot, an attacker uses the first and leaves; long after, the producer finds the
  machine's time over and the attacker comes back while it is being destroyed.
\<close>

definition race_run :: "pool_label list" where
  "race_run = Whole (StartPool (ex_env 0)) # replicate 9 (Producer (ex_env 0)) @
     [FindGuest (ex_env 1) ''10.0.0.1'', ClaimGuest ''10.0.0.1'' 0, Whole (FreeVM 2 0)] @
     [Producer (ex_env 1000), FindGuest (ex_env 1000) ''10.0.0.1''] @
     replicate 3 (Producer (ex_env 1000)) @ [ClaimGuest ''10.0.0.1'' 0]"

text \<open>
  The class provides for consumers that run beside the producer (its comment on the lock). There
  the lock is not enough: the request changes the guest it found after it has released the lock, so
  a machine that the producer destroys in between is handed out, and listed as in use although its
  domain does not run. (As the pool server calls it, only the first turn of the producer runs
  in a thread of its own; the later ones run in the reactor's.)
\<close>

lemma destroyed_machine_in_use:
  "\<exists>ls. let p = the_pool (fold world_step ls (world_start ex_table 22 23)) in
     list_ex (\<lambda>g. gstate g = Some Using \<and> domain g \<notin> set (running p)) (guests p)"
proof -
  have "let p = the_pool (fold world_step race_run (world_start ex_table 22 23)) in
     list_ex (\<lambda>g. gstate g = Some Using \<and> domain g \<notin> set (running p)) (guests p)"
    by code_simp
  then show ?thesis by blast
qed

section \<open>Lemmas for the properties\<close>

lemma producer_front_size:
  assumes "pool_inv p"
  shows "list_all (\<lambda>g. gstate g \<noteq> Some Destroyed) (guests (producer_front e p))"
  using producer_front_guests [OF assms] by (auto simp: list_all_iff)

lemma existing_all: "list_all (\<lambda>g. gstate g \<noteq> Some Destroyed) (guests p) \<Longrightarrow>
    existing_pool_size p = length (guests p)"
  by (auto simp: existing_pool_size_def list_all_iff intro: arg_cong [where f = length] filter_True)

lemma create_one_ok:
  "create_one e p = (Inr u, q) \<Longrightarrow> list_all (\<lambda>g. gstate g \<noteq> Some Destroyed) (guests p) \<Longrightarrow>
     list_all (\<lambda>g. gstate g \<noteq> Some Destroyed) (guests q) \<and> length (guests q) = length (guests p) + 1"
  by (cases rule: create_one_cases) (auto simp: append_guest_def new_guest_def)

lemma create_n_ok:
  "create_n e n p = (Inr u, q) \<Longrightarrow> list_all (\<lambda>g. gstate g \<noteq> Some Destroyed) (guests p) \<Longrightarrow>
     list_all (\<lambda>g. gstate g \<noteq> Some Destroyed) (guests q) \<and> length (guests q) = length (guests p) + n"
proof (induction n arbitrary: p)
  case (Suc n)
  then obtain v s where c: "create_one e p = (Inr v, s)" and "create_n e n s = (Inr u, q)"
    by (auto split: prod.splits sum.splits)
  with Suc create_one_ok [OF c] show ?case by fastforce
qed simp

lemma loop_next_call_create_one:
  "create_one e p = (r, q) \<Longrightarrow> loop_next_call q = loop_next_call p"
  by (auto simp: create_one_def backend_create_guest_def boot_guest_def append_guest_def
      split: if_splits sum.splits prod.splits option.splits)

lemma loop_next_call_create_n: "create_n e n p = (r, q) \<Longrightarrow> loop_next_call q = loop_next_call p"
  by (induction n arbitrary: p)
    (auto split: prod.splits sum.splits dest: loop_next_call_create_one)

lemma producer_front_timer: "loop_next_call (producer_front e p) = loop_next_call p"
proof -
  have t: "loop_next_call (mark_timed_out e t s) = loop_next_call s" for t s
    unfolding mark_timed_out_def by (rule fold_keeps) auto
  have h: "loop_next_call (check_health e s) = loop_next_call s" for s
    unfolding check_health_def by (rule fold_keeps) auto
  have d: "loop_next_call (destroy_timed_out e s) = loop_next_call s" for s
    unfolding destroy_timed_out_def destroy_one_def by (rule fold_keeps) auto
  show ?thesis by (simp add: producer_front_def Let_def remove_destroyed_def t h d)
qed

text \<open>What a completed turn of the producer, and a failed one, leave.\<close>

lemma producer_loop_result:
  assumes inv: "pool_inv p"
  shows "case producer_loop e e' p of
      (Inr u, q) \<Rightarrow> int (existing_pool_size q) = max (max_vm p) (int (existing_pool_size (producer_front e p))) \<and>
        list_all (\<lambda>g. gstate g \<noteq> Some Destroyed) (guests q) \<and> loop_next_call q = Some Pending
    | (Inl x, q) \<Rightarrow> loop_next_call q = loop_next_call p"
proof -
  define f where "f = producer_front e p"
  have f: "pool_inv f" "list_all (\<lambda>g. gstate g \<noteq> Some Destroyed) (guests f)" "max_vm f = max_vm p"
      "loop_next_call f = loop_next_call p"
    using inv producer_front_size [OF inv] by (simp_all add: f_def pool_inv_producer_front producer_front_timer)
  define n where "n = nat (max_vm f - int (existing_pool_size f))"
  obtain r q where c: "create_n e n f = (r, q)" by force
  have inv_q: "pool_inv q"
    using keeps_pool_create_n [THEN keepsD, of f e n] f(1) c by simp
  show ?thesis
  proof (cases r)
    case (Inl x)
    with c f(4) loop_next_call_create_n [OF c] show ?thesis
      by (simp add: producer_loop_def create_guests_def f_def [symmetric] n_def [symmetric])
  next
    case (Inr u)
    with c f create_n_ok have q: "list_all (\<lambda>g. gstate g \<noteq> Some Destroyed) (guests q)"
        "length (guests q) = length (guests f) + n"
      by blast+
    have "list_all (\<lambda>g. gstate g \<noteq> Some Destroyed) (guests (mark_available e' q))"
      using q(1) by (auto simp: guests_mark_available [OF inv_q] list_all_iff)
    moreover have "length (guests (mark_available e' q)) = length (guests q)"
      by (simp add: guests_mark_available [OF inv_q])
    ultimately have "existing_pool_size ((mark_available e' q)\<lparr>loop_next_call := Some Pending\<rparr>) =
        length (guests f) + n"
      using q(2) by (simp add: existing_all)
    moreover have "int (length (guests f) + n) = max (max_vm p) (int (existing_pool_size f))"
      using existing_all [OF f(2)] f(3) by (simp add: n_def)
    ultimately show ?thesis
      using Inr c \<open>list_all _ (guests (mark_available e' q))\<close>
      by (simp add: producer_loop_def create_guests_def f_def [symmetric] n_def [symmetric])
  qed
qed

lemma no_cowrie_filter [simp]:
  "list_all (\<lambda>d. \<not> starts_with d ''cowrie'') (filter (\<lambda>d. \<not> starts_with d ''cowrie'') ds)"
  by (simp add: list_all_iff)

lemma stop_pool_pending:
  assumes "loop_next_call p = Some Pending" and "\<not> libvirt_down e"
  shows "\<exists>q. stop_pool e p = (Inr (), q) \<and> guests q = guests p \<and> ready q = False \<and>
     list_all (\<lambda>d. \<not> starts_with d ''cowrie'') (running q) \<and> loop_next_call q = Some Cancelled"
  using assms
  by (simp add: stop_pool_def cancel_loop_def destroy_all_cowrie_def stop_backend_def
      catch_libvirt_def fold_destroy_guests)

section \<open>Properties\<close>

text \<open>C31: However the producer's stages, the two halves of requests and all other calls are
  interleaved from the start of the service, no two guests of the pool have the same address or the
  same dictionary, every guest's state is one of the life cycle's (reverting a request never writes
  \<open>None\<close>), and every id is below 252.\<close>

theorem guests_well_formed:
  "case PoolService_init table ssh telnet of
     None \<Rightarrow> ssh \<le> 0 \<and> telnet \<le> 0
   | Some p \<Rightarrow> (let q = the_pool (fold world_step ls \<lparr>the_pool = p, producer = Sleeping, claims = []\<rparr>)
       in distinct (map guest_ip (guests q)) \<and> distinct (map gref (guests q)) \<and>
          list_all (\<lambda>g. gstate g \<noteq> None \<and> gid g < 252) (guests q))"
  using vw.inv_reachable [where table = table and ssh = ssh and telnet = telnet and ls = ls]
  by (auto simp: PoolService_init_def world_start_def Let_def pool_inv_def guest_ok_def list_all_iff)




text \<open>A request that finds no guest in a pool that ever had one up does not restart the pool,
  as the log says, but stops it for good: every machine is destroyed while its guest stays listed
  as it was, the producer's timer is cancelled, and a later \<open>restart_pool\<close> raises before it does
  anything.\<close>

theorem refused_request_stops_pool:
  assumes "\<not> list_ex (serves p ip) (guests p)" and "any_vm_up p"
    and "loop_next_call p = Some Pending" and "\<not> libvirt_down e"
  shows "let (r, q) = request_vm e ip p in
     r = Inl (UserError ''NoAvailableVMs'') \<and> guests q = guests p \<and>
     list_all (\<lambda>d. \<not> starts_with d ''cowrie'') (running q) \<and>
     restart_pool e' q = (Inl (UserError ''AlreadyCancelled''), q)"
proof -
  have "pick_guest ip p = None"
    using assms(1) pick_guest_serves [of p ip] by (auto simp: list_ex_iff split: option.splits)
  then show ?thesis
    using stop_pool_pending [OF assms(3,4)] assms(2)
    by (auto simp: request_vm_def restart_pool_def stop_pool_def [of e'] cancel_loop_def)
qed

theorem refused_request_stops_pool_witness:
  "let p = fold pool_step [SetConfigs 1 600 False, StartPool (ex_env 0),
       ProducerLoop (ex_env 0) (ex_env 0), RequestVM (ex_env 1) ''10.0.0.1'']
       (default_pool ex_table 22 23);
     (r, q) = request_vm (ex_env 2) ''10.0.0.2'' p in
   r = Inl (UserError ''NoAvailableVMs'') \<and> guests q = guests p \<and>
     list_all (\<lambda>d. \<not> starts_with d ''cowrie'') (running q) \<and>
     restart_pool (ex_env 3) q = (Inl (UserError ''AlreadyCancelled''), q)"
proof -
  let ?p = "fold pool_step [SetConfigs 1 600 False, StartPool (ex_env 0),
       ProducerLoop (ex_env 0) (ex_env 0), RequestVM (ex_env 1) ''10.0.0.1'']
       (default_pool ex_table 22 23)"
  have "\<not> list_ex (serves ?p ''10.0.0.2'') (guests ?p)" by code_simp
  moreover have "any_vm_up ?p" by code_simp
  moreover have "loop_next_call ?p = Some Pending" by code_simp
  moreover have "\<not> libvirt_down (ex_env 2)" by (simp add: ex_env_def)
  ultimately show ?thesis
    unfolding Let_def by (rule refused_request_stops_pool [unfolded Let_def])
qed


text \<open>A guest counts as healthy exactly if SSH is configured and answers, or telnet is not
  configured, or telnet answers: with SSH alone every machine is healthy, reachable or not.\<close>

theorem has_connectivity_iff:
  "has_connectivity e p ip \<longleftrightarrow>
     0 < ssh_port p \<and> nmap e ip (ssh_port p) \<or> telnet_port p \<le> 0 \<or> nmap e ip (telnet_port p)"
  by (auto simp: has_connectivity_def Let_def)

text \<open>With sharing off, a machine handed back as unused keeps the address it was given to, and
  the next attacker gets the same machine: from then on two addresses are served by one guest.\<close>

theorem reuse_mixes_attackers:
  "\<exists>cs. let p = fold pool_step cs (set_configs 1 600 False (default_pool ex_table 22 23)) in
     \<not> share_guests p \<and>
     list_ex (\<lambda>g. gstate g = Some Using \<and> client_ips g = {''10.0.0.1'', ''10.0.0.2''}) (guests p)"
proof -
  have "let p = fold pool_step [StartPool (ex_env 0), ProducerLoop (ex_env 0) (ex_env 0),
       RequestVM (ex_env 1) ''10.0.0.1'', ReuseVM 0, RequestVM (ex_env 1) ''10.0.0.2'']
       (set_configs 1 600 False (default_pool ex_table 22 23)) in
     \<not> share_guests p \<and>
     list_ex (\<lambda>g. gstate g = Some Using \<and> client_ips g = {''10.0.0.1'', ''10.0.0.2''}) (guests p)"
    by code_simp
  then show ?thesis by blast
qed

end
