(* ===== verification/Bytes.thy ===== *)
theory Bytes
  imports Md5
begin

text \<open>
  Byte strings as several protocols of the program use them: big-endian numbers and counted strings
  as packed and unpacked by Python's \<open>struct\<close>, the length of a text in characters, replacing,
  encoding a byte, and slices with negative bounds.
\<close>

section \<open>Packing\<close>

text \<open>What Python's \<open>struct\<close> packs in network byte order.\<close>

abbreviation struct_error :: py_exc where
  "struct_error \<equiv> UserError ''struct.error''"

fun be_bytes :: "nat \<Rightarrow> nat \<Rightarrow> string" where
  "be_bytes 0 n = []"
| "be_bytes (Suc w) n = be_bytes w (n div 256) @ [char_of (n mod 256)]"

definition be_value :: "string \<Rightarrow> nat" where
  "be_value bs = foldl (\<lambda>n c. 256 * n + of_char c) 0 bs"

text \<open>\<open>I\<close> and \<open>H\<close> of a format: \<open>w\<close> bytes, and an error for a number that does not fit.\<close>

definition pack_uint :: "nat \<Rightarrow> int \<Rightarrow> string res" where
  "pack_uint w i = (if 0 \<le> i \<and> i < 256 ^ w then Inr (be_bytes w (nat i)) else Inl struct_error)"

definition unpack_uint :: "nat \<Rightarrow> string \<Rightarrow> nat res" where
  "unpack_uint w bs = (if length bs = w then Inr (be_value bs) else Inl struct_error)"

text \<open>\<open>{n}s\<close>: cut or filled with zero bytes to \<open>n\<close>.\<close>

definition pack_s :: "nat \<Rightarrow> string \<Rightarrow> string" where
  "pack_s n bs = take n (bs @ replicate n (CHR 0x00))"

definition unpack_s :: "nat \<Rightarrow> string \<Rightarrow> string res" where
  "unpack_s n bs = (if length bs = n then Inr bs else Inl struct_error)"

text \<open>\<open>len\<close> of a text: its characters, not the bytes of their encoding.\<close>

definition py_len :: "string \<Rightarrow> nat" where
  "py_len s = length (filter (\<lambda>c. \<not> (128 \<le> (of_char c :: nat) \<and> (of_char c :: nat) < 192)) s)"

definition ascii :: "string \<Rightarrow> bool" where
  "ascii s = list_all (\<lambda>c. (of_char c :: nat) < 128) s"

lemma py_len_ascii: "ascii s \<Longrightarrow> py_len s = length s"
  unfolding ascii_def py_len_def
  by (rule arg_cong [where f = length]) (rule filter_True, auto simp: list_all_iff)

lemma py_decode_ascii: "ascii s \<Longrightarrow> py_decode s = Inr s"
  by (simp add: py_decode_def ascii_def utf8_ok_ascii list_all_iff)

lemma length_be_bytes [simp]: "length (be_bytes w n) = w"
  by (induction w arbitrary: n) auto

lemma be_value_snoc: "be_value (bs @ [c]) = 256 * be_value bs + of_char c"
  by (simp add: be_value_def)

lemma be_value_be_bytes: "n < 256 ^ w \<Longrightarrow> be_value (be_bytes w n) = n"
proof (induction w arbitrary: n)
  case (Suc w)
  then have "n div 256 < 256 ^ w" by (simp add: less_mult_imp_div_less mult.commute)
  with Suc show ?case by (simp add: be_value_snoc)
qed (simp add: be_value_def)

text \<open>What is packed is unpacked.\<close>

lemma unpack_pack_uint: "pack_uint w i = Inr bs \<Longrightarrow> unpack_uint w bs = Inr (nat i) \<and> length bs = w"
  by (auto simp: pack_uint_def unpack_uint_def be_value_be_bytes nat_less_iff split: if_splits)

lemma length_pack_s [simp]: "length (pack_s n bs) = n"
  by (simp add: pack_s_def)

lemma pack_s_length [simp]: "pack_s (length bs) bs = bs"
  by (simp add: pack_s_def)

section \<open>Bytes and text\<close>

text \<open>A Python value that is either bytes or text; equality tells them apart.\<close>

datatype pyobj = PyBytes string | PyText string

definition py_str :: "pyobj \<Rightarrow> string" where
  "py_str v = (case v of PyBytes b \<Rightarrow> str_bytes b | PyText t \<Rightarrow> t)"

section \<open>Replacing and slicing\<close>

text \<open>\<open>s.replace(old, new)\<close> for an \<open>old\<close> that is not empty.\<close>

definition replace_all :: "string \<Rightarrow> string \<Rightarrow> string \<Rightarrow> string" where
  "replace_all old new s = join new (split_str old s)"

lemma join_parts: "w \<in> set ws \<Longrightarrow> set w \<subseteq> set (join sep ws)"
  by (induction sep ws rule: join.induct) auto

text \<open>\<open>chr(b).encode()\<close>: a byte above 127 becomes two.\<close>

definition encode_byte :: "char \<Rightarrow> string" where
  "encode_byte c = (let n = of_char c :: nat
     in if n < 128 then [c] else [char_of (192 + n div 64), char_of (128 + n mod 64)])"

text \<open>\<open>s[:i]\<close> and \<open>s[i:]\<close> for any integer \<open>i\<close>: a negative one counts from the end.\<close>

definition slice_index :: "'a list \<Rightarrow> int \<Rightarrow> nat" where
  "slice_index s i = (if i < 0 then nat (int (length s) + i) else nat i)"

definition slice_to :: "'a list \<Rightarrow> int \<Rightarrow> 'a list" where
  "slice_to s i = take (slice_index s i) s"

definition slice_from :: "'a list \<Rightarrow> int \<Rightarrow> 'a list" where
  "slice_from s i = drop (slice_index s i) s"

lemma slices_append [simp]: "slice_to s i @ slice_from s i = s"
  by (simp add: slice_to_def slice_from_def)

lemma slice_nonneg: "0 \<le> i \<Longrightarrow> slice_to s i = take (nat i) s \<and> slice_from s i = drop (nat i) s"
  by (simp add: slice_to_def slice_from_def slice_index_def)

section \<open>Characters\<close>

text \<open>
  Python reads characters; texts here are UTF-8, so a character is a byte with the continuation
  bytes that follow a lead byte.
\<close>

definition continuation :: "char \<Rightarrow> bool" where
  "continuation c = (128 \<le> (of_char c :: nat) \<and> (of_char c :: nat) < 192)"

definition lead :: "char \<Rightarrow> bool" where
  "lead c = (192 \<le> (of_char c :: nat))"

fun read1 :: "string \<Rightarrow> string \<times> string" where
  "read1 [] = ([], [])"
| "read1 (c # cs) = (if lead c then (c # takeWhile continuation cs, dropWhile continuation cs) else ([c], cs))"

lemma read1_append: "fst (read1 s) @ snd (read1 s) = s"
  by (cases s) auto

lemma read1_shorter: "s \<noteq> [] \<Longrightarrow> length (snd (read1 s)) < length s"
  by (cases s) (auto simp: less_Suc_eq_le length_dropWhile_le)

section \<open>Base 64\<close>

definition B64_CHARS :: string where
  "B64_CHARS = ''ABCDEFGHIJKLMNOPQRSTUVWXYZabcdefghijklmnopqrstuvwxyz0123456789+/''"

definition b64_char :: "int \<Rightarrow> char" where
  "b64_char n = B64_CHARS ! nat (n mod 64)"

fun b64encode :: "string \<Rightarrow> string" where
  "b64encode [] = []"
| "b64encode [a] = (let n = of_char a :: int in [b64_char (n div 4), b64_char (n * 16)] @ ''=='')"
| "b64encode [a, b] = (let n = 256 * of_char a + of_char b :: int in
     [b64_char (n div 1024), b64_char (n div 16), b64_char (n * 4)] @ ''='')"
| "b64encode (a # b # c # cs) = (let n = 65536 * of_char a + 256 * of_char b + of_char c :: int in
     [b64_char (n div 262144), b64_char (n div 4096), b64_char (n div 64), b64_char n] @ b64encode cs)"

section \<open>Numbers in text\<close>

text \<open>\<open>int(s)\<close>, with space around, a sign, and single underscores between digits; digits are those of ASCII.\<close>

definition py_int :: "string \<Rightarrow> int res" where
  "py_int s = (let t = strip_space s;
       (neg, d) = (case t of [] \<Rightarrow> (False, []) | c # cs \<Rightarrow> if c = CHR ''-'' then (True, cs) else if c = CHR ''+'' then (False, cs) else (False, t));
       groups = split_str ''_'' d in
     if [] \<in> set groups then Inl ValueError else (case nat_of_digits 0 (concat groups) of
         None \<Rightarrow> Inl ValueError | Some n \<Rightarrow> Inr (if neg then - int n else int n)))"

lemma py_int_str_nat: "py_int (str_nat n) = Inr (int n)"
proof -
  have d: "set (str_nat n) \<subseteq> set ''0123456789''" using str_nat_digits [of n] by auto
  have ne: "str_nat n \<noteq> []" by (subst str_nat.simps) simp
  have sp: "hd ` set py_spaces \<inter> set ''0123456789'' = {}" "last ` set py_spaces \<inter> set ''0123456789'' = {}" by code_simp+
  have "hd (str_nat n) \<notin> hd ` set py_spaces" "last (str_nat n) \<notin> last ` set py_spaces"
    using d sp ne hd_in_set [OF ne] last_in_set [OF ne] by blast+
  then have "strip_space (str_nat n) = str_nat n" by (rule strip_space_id)
  moreover have "CHR ''_'' \<notin> set (str_nat n)" "hd (str_nat n) \<noteq> CHR ''-''" "hd (str_nat n) \<noteq> CHR ''+''"
    using d hd_in_set [OF ne] by auto
  moreover note ne split_str_no_occurrence [where s = "str_nat n" and d = "CHR ''_''"] nat_of_digits_str_nat [of n]
  ultimately show ?thesis
    by (cases "str_nat n") (simp_all add: py_int_def del: split_str.simps nat_of_digits.simps)
qed

end
