(* ===== verification/PoolProtocol.thy ===== *)
theory PoolProtocol
  imports VmPoolRace Bytes
begin

text \<open>
  The pool's wire protocol: the server (\<open>backend_pool/pool_server.py\<close>) with its NAT service
  (\<open>backend_pool/nat.py\<close>), and the client in the proxy (\<open>cowrie/pool_interface/client.py\<close>).
  Messages are packed with Python's \<open>struct\<close> in network byte order. As the code does, one call of
  \<open>dataReceived\<close> takes one message. The operating system's choice of ports for \<open>listenTCP(0, ...)\<close>
  is a parameter.
\<close>

section \<open>The NAT service\<close>

text \<open>
  \<open>bindings\<close> is keyed by the guest's id, but looked up by the guest's address. A binding is the
  count and the two listening ports; \<open>listening\<close> are the ports that listen.
\<close>

datatype nat_key = KeyId nat | KeyIp string

record nat_service =
  bindings :: "nat_key \<rightharpoonup> int \<times> int \<times> int"
  listening :: "int list"

definition NATService_init :: nat_service where
  "NATService_init = \<lparr>bindings = Map.empty, listening = []\<rparr>"

definition request_binding :: "nat \<Rightarrow> string \<Rightarrow> int \<Rightarrow> int \<Rightarrow> (nat_service, int \<times> int) py" where
  "request_binding vmid dst_ip nat_ssh nat_telnet =
     py_bind py_get (\<lambda>s.
       if KeyIp dst_ip \<in> dom (bindings s) then
         (case bindings s (KeyId vmid) of
            None \<Rightarrow> py_raise (KeyError (str_nat vmid))
          | Some (n, ssh, telnet) \<Rightarrow>
              py_bind (py_modify (\<lambda>s. s\<lparr>bindings := (bindings s)(KeyId vmid \<mapsto> (n + 1, ssh, telnet))\<rparr>))
                (\<lambda>_. py_return (ssh, telnet)))
       else
         py_bind (py_modify (\<lambda>s. s\<lparr>bindings := (bindings s)(KeyId vmid \<mapsto> (0, nat_ssh, nat_telnet)),
               listening := listening s @ [nat_ssh, nat_telnet]\<rparr>))
           (\<lambda>_. py_return (nat_ssh, nat_telnet)))"

definition free_binding :: "nat \<Rightarrow> (nat_service, unit) py" where
  "free_binding vmid =
     py_bind py_get (\<lambda>s. case bindings s (KeyId vmid) of
         None \<Rightarrow> py_raise (KeyError (str_nat vmid))
       | Some (n, ssh, telnet) \<Rightarrow>
           py_bind (py_modify (\<lambda>s. s\<lparr>bindings := (bindings s)(KeyId vmid \<mapsto> (n - 1, ssh, telnet))\<rparr>))
             (\<lambda>_. if n - 1 = 0
                  then py_modify (\<lambda>s. s\<lparr>listening := filter (\<lambda>p. p \<noteq> ssh \<and> p \<noteq> telnet) (listening s)\<rparr>)
                  else py_return ()))"

section \<open>The server\<close>

record server_config =
  local_pool :: bool
  pool_only :: bool
  use_nat :: bool
  nat_public_ip :: string
  cfg_ssh_port :: int
  cfg_telnet_port :: int

record pool_server =
  pool_service :: pool
  nat_of :: nat_service
  initialised :: bool
  written :: "string list"

type_synonym 'a server_py = "(pool_server, 'a) py"

definition on_pool :: "'a pool_py \<Rightarrow> 'a server_py" where
  "on_pool m = (\<lambda>s. case m (pool_service s) of (r, p) \<Rightarrow> (r, s\<lparr>pool_service := p\<rparr>))"

definition on_nat :: "(nat_service, 'a) py \<Rightarrow> 'a server_py" where
  "on_nat m = (\<lambda>s. case m (nat_of s) of (r, n) \<Rightarrow> (r, s\<lparr>nat_of := n\<rparr>))"

definition send_response :: "string \<Rightarrow> unit server_py" where
  "send_response bs = py_modify (\<lambda>s. s\<lparr>written := written s @ [bs]\<rparr>)"

definition behind_nat :: "server_config \<Rightarrow> bool" where
  "behind_nat c = ((\<not> local_pool c \<and> use_nat c) \<or> pool_only c)"

text \<open>\<open>struct.pack('!cIIH{}sHHH{}s', b'r', 0, ...)\<close>\<close>

definition guest_response :: "nat \<Rightarrow> string \<Rightarrow> int \<Rightarrow> int \<Rightarrow> string \<Rightarrow> string res" where
  "guest_response vmid ip ssh telnet snap =
     bind_res (pack_uint 4 (int vmid)) (\<lambda>b_id.
     bind_res (pack_uint 2 (int (py_len ip))) (\<lambda>b_ip.
     bind_res (pack_uint 2 ssh) (\<lambda>b_ssh.
     bind_res (pack_uint 2 telnet) (\<lambda>b_telnet.
     bind_res (pack_uint 2 (int (py_len snap))) (\<lambda>b_snap.
       Inr (''r'' @ be_bytes 4 0 @ b_id @ b_ip @ pack_s (py_len ip) ip @ b_ssh @ b_telnet @ b_snap @
            pack_s (py_len snap) snap))))))"

text \<open>The message \<open>i\<close>: \<open>struct.unpack('!II?', data[1:])\<close>.\<close>

definition receive_init :: "string \<Rightarrow> unit server_py" where
  "receive_init body =
     (if length body \<noteq> 9 then py_raise struct_error
      else py_bind (on_pool (py_modify (set_configs (int (be_value (take 4 body)))
               (int (be_value (take 4 (drop 4 body)))) (body ! 8 \<noteq> CHR 0x00))))
             (\<lambda>_. py_bind (py_modify (\<lambda>s. s\<lparr>initialised := True\<rparr>))
               (\<lambda>_. send_response (''i'' @ be_bytes 4 0))))"

text \<open>The message \<open>r\<close>; \<open>except NoAvailableVMs\<close> covers the request and the packing of its answer.\<close>

definition catch_no_vms :: "unit server_py \<Rightarrow> unit server_py \<Rightarrow> unit server_py" where
  "catch_no_vms m h = (\<lambda>s. case m s of
       (Inl x, s') \<Rightarrow> if x = UserError ''NoAvailableVMs'' then h s' else (Inl x, s')
     | (Inr a, s') \<Rightarrow> (Inr a, s'))"

definition serve_request ::
  "server_config \<Rightarrow> env \<Rightarrow> int \<times> int \<Rightarrow> string \<Rightarrow> unit server_py" where
  "serve_request c e ports attacker_ip =
     py_bind (on_pool (request_vm e attacker_ip)) (\<lambda>(vmid, ip, snap).
       if behind_nat c then
         py_bind (on_nat (request_binding vmid ip (fst ports) (snd ports)))
           (\<lambda>(nat_ssh, nat_telnet).
             py_bind (py_lift (guest_response vmid (nat_public_ip c) nat_ssh nat_telnet snap))
               send_response)
       else
         py_bind (py_lift (guest_response vmid ip (cfg_ssh_port c) (cfg_telnet_port c)
                    snap)) send_response)"

definition receive_request :: "server_config \<Rightarrow> env \<Rightarrow> int \<times> int \<Rightarrow> string \<Rightarrow> unit server_py" where
  "receive_request c e ports data =
     py_bind (py_lift (unpack_uint 2 (take 2 (drop 1 data)))) (\<lambda>ip_len.
     py_bind (py_lift (unpack_s ip_len (drop 3 data))) (\<lambda>recv.
     py_bind (py_lift (py_decode recv)) (\<lambda>attacker_ip.
       catch_no_vms (serve_request c e ports attacker_ip) (send_response (''r'' @ be_bytes 4 1)))))"

text \<open>The messages \<open>f\<close> and \<open>u\<close>.\<close>

definition receive_release :: "server_config \<Rightarrow> (nat \<Rightarrow> pool \<Rightarrow> pool) \<Rightarrow> string \<Rightarrow> unit server_py" where
  "receive_release c release body =
     py_bind (py_lift (unpack_uint 4 body)) (\<lambda>vmid.
     py_bind (if behind_nat c then on_nat (free_binding vmid) else py_return ())
       (\<lambda>_. on_pool (py_modify (release vmid))))"

definition server_dataReceived ::
  "server_config \<Rightarrow> env \<Rightarrow> int \<Rightarrow> int \<times> int \<Rightarrow> string \<Rightarrow> unit server_py" where
  "server_dataReceived c e now ports data =
     (case data of [] \<Rightarrow> py_raise IndexError
      | op # body \<Rightarrow>
          if op = CHR ''i'' then receive_init body
          else if op = CHR ''r'' then receive_request c e ports data
          else if op = CHR ''f'' then receive_release c (free_vm now) body
          else if op = CHR ''u'' then receive_release c reuse_vm body
          else py_return ())"

section \<open>The client\<close>

text \<open>
  What the client calls on its parent: the handler's \<open>initialisation_response\<close>, \<open>loseConnection\<close>,
  and the proxy's \<open>received_pool_data\<close> with the guest.
\<close>

datatype parent_call =
    InitialisationResponse nat
  | LoseConnection
  | ReceivedPoolData nat string string nat nat

record pool_client =
  has_parent :: bool
  client_vm_id :: "nat option"
  parent_calls :: "parent_call list"
  sent :: "string list"

type_synonym 'a client_py = "(pool_client, 'a) py"

definition client_send :: "string \<Rightarrow> unit client_py" where
  "client_send bs = py_modify (\<lambda>s. s\<lparr>sent := sent s @ [bs]\<rparr>)"

definition send_initialisation :: "int \<Rightarrow> int \<Rightarrow> bool \<Rightarrow> unit client_py" where
  "send_initialisation max_vms vm_timeout share =
     py_bind (py_lift (pack_uint 4 max_vms)) (\<lambda>a.
     py_bind (py_lift (pack_uint 4 vm_timeout)) (\<lambda>b.
       client_send (''i'' @ a @ b @ [if share then CHR 0x01 else CHR 0x00])))"

definition vm_request :: "string \<Rightarrow> string res" where
  "vm_request src_ip = bind_res (pack_uint 2 (int (py_len src_ip)))
     (\<lambda>n. Inr (''r'' @ n @ pack_s (py_len src_ip) src_ip))"

definition send_vm_request :: "string \<Rightarrow> unit client_py" where
  "send_vm_request src_ip = py_bind (py_lift (vm_request src_ip)) client_send"

definition send_vm_free :: "bool \<Rightarrow> unit client_py" where
  "send_vm_free backend_dirty = py_bind py_get (\<lambda>s. case client_vm_id s of
       None \<Rightarrow> py_return ()
     | Some i \<Rightarrow> py_bind (py_lift (pack_uint 4 (int i)))
         (\<lambda>b. client_send ((if backend_dirty then ''f'' else ''u'') @ b)))"

definition call_parent :: "parent_call \<Rightarrow> unit client_py" where
  "call_parent c = py_modify (\<lambda>s. s\<lparr>parent_calls := parent_calls s @ [c]\<rparr>)"

definition receive_guest :: "nat \<Rightarrow> string \<Rightarrow> unit client_py" where
  "receive_guest res_code data =
     py_bind (py_lift (unpack_uint 4 (take 4 data))) (\<lambda>vm_id.
     py_bind (py_modify (\<lambda>s. s\<lparr>client_vm_id := Some vm_id\<rparr>)) (\<lambda>_. let data = drop 4 data in
     py_bind (py_lift (unpack_uint 2 (take 2 data))) (\<lambda>ip_len. let data = drop 2 data in
     py_bind (py_lift (unpack_s ip_len (take ip_len data))) (\<lambda>honey_ip. let data = drop ip_len data in
     py_bind (py_lift (if length (take 4 data) = 4
         then Inr (be_value (take 2 data), be_value (take 2 (drop 2 data))) else Inl struct_error))
       (\<lambda>(ssh, telnet). let data = drop 4 data in
     py_bind (py_lift (unpack_uint 2 (take 2 data))) (\<lambda>snapshot_len. let data = drop 2 data in
     py_bind (py_lift (unpack_s snapshot_len (take snapshot_len data))) (\<lambda>snap.
       call_parent (ReceivedPoolData res_code honey_ip snap ssh telnet))))))))"

definition client_dataReceived :: "string \<Rightarrow> unit client_py" where
  "client_dataReceived data = py_bind py_get (\<lambda>s.
     if \<not> has_parent s then py_return ()
     else if length (take 5 data) \<noteq> 5 then py_raise struct_error
     else let res_op = data ! 0; res_code = be_value (take 4 (drop 1 data)); rest = drop 5 data in
       if res_op = CHR ''i'' then call_parent (InitialisationResponse res_code)
       else if res_op = CHR ''r'' then
         (if res_code \<noteq> 0 then call_parent LoseConnection else receive_guest res_code rest)
       else py_return ())"

end
