(* ===== verification/PoolProtocolProps.thy ===== *)
theory PoolProtocolProps
  imports PoolProtocol
begin

text \<open>
  The two ends of the pool's protocol understand each other, and what becomes of the NAT service's
  listening ports.
\<close>

section \<open>The NAT service as a transition system\<close>

datatype nat_call =
    Bind nat string int int
  | Unbind nat

fun nat_step :: "nat_call \<Rightarrow> nat_service \<Rightarrow> nat_service" where
  "nat_step (Bind i ip a b) s = snd (request_binding i ip a b s)"
| "nat_step (Unbind i) s = snd (free_binding i s)"

fun opened :: "nat_call \<Rightarrow> int list" where
  "opened (Bind i ip a b) = [a, b]"
| "opened (Unbind i) = []"

text \<open>No key is an address, and no count is above zero.\<close>

definition nat_inv :: "nat_service \<Rightarrow> bool" where
  "nat_inv s \<longleftrightarrow> (\<forall>k n a b. bindings s k = Some (n, a, b) \<longrightarrow> n \<le> 0 \<and> (\<exists>i. k = KeyId i))"

lemma nat_inv_step: "nat_inv s \<Longrightarrow> nat_inv (nat_step c s)"
  by (cases c; force simp: nat_inv_def request_binding_def free_binding_def split: option.split)

interpretation vn: transition_system NATService_init nat_step nat_inv
  by unfold_locales (auto simp: nat_inv_step, simp add: nat_inv_def NATService_init_def)

lemma nat_inv_listening: "nat_inv s \<Longrightarrow> listening (nat_step c s) = listening s @ opened c"
proof (cases c)
  case (Bind i ip a b)
  moreover assume "nat_inv s"
  then have "KeyIp ip \<notin> dom (bindings s)" by (auto simp: nat_inv_def)
  ultimately show ?thesis by (simp add: request_binding_def)
next
  case (Unbind i)
  moreover assume "nat_inv s"
  then have "n \<le> 0" if "bindings s (KeyId i) = Some (n, a, b)" for n a b
    using that by (auto simp: nat_inv_def)
  ultimately show ?thesis by (fastforce simp: free_binding_def split: option.split)
qed

lemma nat_listening_run:
  "nat_inv s \<Longrightarrow> listening (fold nat_step cs s) = listening s @ concat (map opened cs)"
  by (induction cs arbitrary: s) (simp_all add: nat_inv_listening nat_inv_step)

lemma nat_binding_fresh:
  "nat_inv s \<Longrightarrow> request_binding i ip a b s = (Inr (a, b),
     s\<lparr>bindings := (bindings s)(KeyId i \<mapsto> (0, a, b)), listening := listening s @ [a, b]\<rparr>)"
  by (auto simp: request_binding_def nat_inv_def)

section \<open>Messages\<close>

lemma unpack_pack [simp]:
  "pack_uint w i = Inr bs \<Longrightarrow> unpack_uint w bs = Inr (nat i)"
  "pack_uint w i = Inr bs \<Longrightarrow> length bs = w"
  "pack_uint w i = Inr bs \<Longrightarrow> be_value bs = nat i"
  using unpack_pack_uint [of w i bs] by (auto simp: unpack_uint_def)

text \<open>A guest's answer, read by the client.\<close>

lemma client_reads_guest:
  assumes g: "guest_response i ip ssh telnet snap = Inr resp"
    and "ascii ip" and "ascii snap" and "has_parent k"
  shows "client_dataReceived resp k = (Inr (), k\<lparr>client_vm_id := Some i,
    parent_calls := parent_calls k @ [ReceivedPoolData 0 ip snap (nat ssh) (nat telnet)]\<rparr>)"
proof -
  obtain b_id b_ip b_ssh b_telnet b_snap where
    b: "pack_uint 4 (int i) = Inr b_id" "pack_uint 2 (int (length ip)) = Inr b_ip"
      "pack_uint 2 ssh = Inr b_ssh" "pack_uint 2 telnet = Inr b_telnet"
      "pack_uint 2 (int (length snap)) = Inr b_snap"
    and resp: "resp = ''r'' @ be_bytes 4 0 @ b_id @ b_ip @ ip @ b_ssh @ b_telnet @ b_snap @ snap"
    using g assms(2,3) by (auto simp: guest_response_def py_len_ascii bind_res_Inr_iff)
  note l = b [THEN unpack_pack(2)] and v = b [THEN unpack_pack(1)] b [THEN unpack_pack(3)]
  have z: "be_value (be_bytes 4 0) = 0" by (rule be_value_be_bytes) simp
  have "receive_guest 0 (b_id @ b_ip @ ip @ b_ssh @ b_telnet @ b_snap @ snap) k =
      (Inr (), k\<lparr>client_vm_id := Some i,
        parent_calls := parent_calls k @ [ReceivedPoolData 0 ip snap (nat ssh) (nat telnet)]\<rparr>)"
    using l v by (simp add: receive_guest_def Let_def unpack_s_def call_parent_def)
  with assms(4) l z show ?thesis
    by (simp add: client_dataReceived_def resp)
qed

lemma guest_response_fits:
  assumes "i < 4294967296" "ascii ip" "length ip < 65536" "ascii snap" "length snap < 65536"
    and "0 \<le> ssh" "ssh < 65536" "0 \<le> telnet" "telnet < 65536"
  shows "\<exists>resp. guest_response i ip ssh telnet snap = Inr resp"
  using assms by (simp add: guest_response_def pack_uint_def py_len_ascii)

lemma server_reads_request:
  assumes "vm_request ip = Inr msg" and "ascii ip"
  shows "server_dataReceived c e now ports msg =
    catch_no_vms (serve_request c e ports ip) (send_response (''r'' @ be_bytes 4 1))"
proof
  fix s
  obtain n where n: "pack_uint 2 (int (length ip)) = Inr n" and msg: "msg = ''r'' @ n @ ip"
    using assms by (auto simp: vm_request_def py_len_ascii bind_res_Inr_iff)
  note l = n [THEN unpack_pack(2)] and v = n [THEN unpack_pack(1)]
  from l v show "server_dataReceived c e now ports msg s =
      catch_no_vms (serve_request c e ports ip) (send_response (''r'' @ be_bytes 4 1)) s"
    by (simp add: msg server_dataReceived_def receive_request_def unpack_s_def
        py_decode_ascii [OF assms(2)])
qed

lemma vm_request_fits: "ascii ip \<Longrightarrow> length ip < 65536 \<Longrightarrow> \<exists>msg. vm_request ip = Inr msg"
  by (simp add: vm_request_def pack_uint_def py_len_ascii)

text \<open>The request's answer from a pool that is reached directly.\<close>

lemma server_serves:
  assumes "\<not> behind_nat c" and "request_vm e ip (pool_service s) = (Inr (i, a, snap), q)"
    and "guest_response i a (cfg_ssh_port c) (cfg_telnet_port c) snap = Inr resp"
  shows "catch_no_vms (serve_request c e ports ip) h s =
    (Inr (), s\<lparr>pool_service := q, written := written s @ [resp]\<rparr>)"
  using assms by (simp add: catch_no_vms_def serve_request_def on_pool_def send_response_def)

text \<open>The client's release, read by the server.\<close>

lemma server_reads_release:
  assumes "pack_uint 4 (int i) = Inr b" and "\<not> behind_nat c"
  shows "server_dataReceived c e now ports ((if dirty then ''f'' else ''u'') @ b) s =
    (Inr (), s\<lparr>pool_service := (if dirty then free_vm now i else reuse_vm i) (pool_service s)\<rparr>)"
  using assms by (simp add: server_dataReceived_def receive_release_def on_pool_def)

section \<open>Properties\<close>

text \<open>C34: The two ends agree: an attacker's request reaches the pool with his address, the guest
  that the pool gives him (identifier, address, snapshot, the two configured ports) reaches the
  proxy unchanged, and the release that the client then sends frees, or hands back, that guest.\<close>

theorem pool_conversation:
  assumes "has_parent k" and "\<not> behind_nat c" and "ascii ip" and "length ip < 65536"
    and "request_vm e ip (pool_service s) = (Inr (i, a, snap), q)" and "i < 4294967296"
    and "ascii a" and "length a < 65536" and "ascii snap" and "length snap < 65536"
    and "0 \<le> cfg_ssh_port c" "cfg_ssh_port c < 65536" "0 \<le> cfg_telnet_port c" "cfg_telnet_port c < 65536"
  shows "\<exists>msg resp freed.
    send_vm_request ip k = (Inr (), k\<lparr>sent := sent k @ [msg]\<rparr>) \<and>
    server_dataReceived c e now ports msg s =
      (Inr (), s\<lparr>pool_service := q, written := written s @ [resp]\<rparr>) \<and>
    client_dataReceived resp k = (Inr (), k\<lparr>client_vm_id := Some i, parent_calls := parent_calls k @
      [ReceivedPoolData 0 a snap (nat (cfg_ssh_port c)) (nat (cfg_telnet_port c))]\<rparr>) \<and>
    send_vm_free dirty (k\<lparr>client_vm_id := Some i\<rparr>) =
      (Inr (), k\<lparr>client_vm_id := Some i, sent := sent k @ [freed]\<rparr>) \<and>
    server_dataReceived c e now ports freed (s\<lparr>pool_service := q\<rparr>) =
      (Inr (), s\<lparr>pool_service := (if dirty then free_vm now i else reuse_vm i) q\<rparr>)"
proof -
  obtain msg where m: "vm_request ip = Inr msg" using vm_request_fits assms(3,4) by blast
  obtain resp where r: "guest_response i a (cfg_ssh_port c) (cfg_telnet_port c) snap = Inr resp"
    using guest_response_fits assms(6-14) by blast
  obtain b where b: "pack_uint 4 (int i) = Inr b" using assms(6) by (simp add: pack_uint_def)
  have "send_vm_request ip k = (Inr (), k\<lparr>sent := sent k @ [msg]\<rparr>)"
    using m by (simp add: send_vm_request_def client_send_def)
  moreover have "server_dataReceived c e now ports msg s =
      (Inr (), s\<lparr>pool_service := q, written := written s @ [resp]\<rparr>)"
    using server_reads_request [OF m assms(3)] server_serves [OF assms(2,5) r] by simp
  moreover note client_reads_guest [OF r assms(7,9,1)]
  moreover have "send_vm_free dirty (k\<lparr>client_vm_id := Some i\<rparr>) =
      (Inr (), k\<lparr>client_vm_id := Some i, sent := sent k @ [(if dirty then ''f'' else ''u'') @ b]\<rparr>)"
    using b by (simp add: send_vm_free_def client_send_def)
  moreover have "server_dataReceived c e now ports ((if dirty then ''f'' else ''u'') @ b)
      (s\<lparr>pool_service := q\<rparr>) =
      (Inr (), s\<lparr>pool_service := (if dirty then free_vm now i else reuse_vm i) q\<rparr>)"
    using server_reads_release [OF b assms(2), of e now ports dirty "s\<lparr>pool_service := q\<rparr>"] by simp
  ultimately show ?thesis by blast
qed

definition ex_server :: pool_server where
  "ex_server = \<lparr>pool_service = fold pool_step [StartPool (ex_env 0), ProducerLoop (ex_env 0) (ex_env 0)]
       (default_pool ex_table 22 23), nat_of = NATService_init, initialised = True, written = []\<rparr>"

definition ex_server_config :: server_config where
  "ex_server_config = \<lparr>local_pool = True, pool_only = False, use_nat = True,
     nat_public_ip = ''192.168.1.40'', cfg_ssh_port = 22, cfg_telnet_port = 23\<rparr>"

definition ex_client :: pool_client where
  "ex_client = \<lparr>has_parent = True, client_vm_id = None, parent_calls = [], sent = []\<rparr>"

theorem pool_conversation_witness:
  "\<exists>msg resp freed q.
    send_vm_request ''10.0.0.1'' ex_client = (Inr (), ex_client\<lparr>sent := [msg]\<rparr>) \<and>
    server_dataReceived ex_server_config (ex_env 1) 2 (0, 0) msg ex_server =
      (Inr (), ex_server\<lparr>pool_service := q, written := [resp]\<rparr>) \<and>
    client_dataReceived resp ex_client = (Inr (), ex_client\<lparr>client_vm_id := Some 0, parent_calls :=
      [ReceivedPoolData 0 ''192.168.150.2'' ''/tmp/snapshot-guest-aa.qcow2'' 22 23]\<rparr>) \<and>
    send_vm_free True (ex_client\<lparr>client_vm_id := Some 0\<rparr>) =
      (Inr (), ex_client\<lparr>client_vm_id := Some 0, sent := [freed]\<rparr>) \<and>
    server_dataReceived ex_server_config (ex_env 1) 2 (0, 0) freed (ex_server\<lparr>pool_service := q\<rparr>) =
      (Inr (), ex_server\<lparr>pool_service := free_vm 2 0 q\<rparr>)"
proof -
  define q where "q = snd (request_vm (ex_env 1) ''10.0.0.1'' (pool_service ex_server))"
  have "fst (request_vm (ex_env 1) ''10.0.0.1'' (pool_service ex_server)) =
      Inr (0, ''192.168.150.2'', ''/tmp/snapshot-guest-aa.qcow2'')"
    by code_simp
  then have r: "request_vm (ex_env 1) ''10.0.0.1'' (pool_service ex_server) =
      (Inr (0, ''192.168.150.2'', ''/tmp/snapshot-guest-aa.qcow2''), q)"
    by (simp add: q_def prod_eq_iff)
  have k: "has_parent ex_client" "sent ex_client = []" "parent_calls ex_client = []"
    and s: "written ex_server = []" and c: "\<not> behind_nat ex_server_config"
      "cfg_ssh_port ex_server_config = 22" "cfg_telnet_port ex_server_config = 23"
    by (simp_all add: ex_client_def ex_server_def ex_server_config_def behind_nat_def)
  have a: "ascii ''10.0.0.1''" "ascii ''192.168.150.2''" "ascii ''/tmp/snapshot-guest-aa.qcow2''"
    by (simp_all add: ascii_def)
  show ?thesis
    using pool_conversation [OF k(1) c(1) a(1) _ r, of 2 "(0, 0)" True] a k s c
    by (simp only: k s c) auto
qed

text \<open>The NAT service looks a guest's binding up under the guest's address but files it under
  its number: whatever is requested and freed, every request opens two new ports, the count of
  users never rises above zero, and no port is ever closed again.\<close>

theorem nat_ports_never_close:
  "let s = fold nat_step cs NATService_init in
     listening s = concat (map opened cs) \<and>
     (\<forall>i n a b. bindings s (KeyId i) = Some (n, a, b) \<longrightarrow> n \<le> 0)"
  using nat_listening_run [OF vn.inv_start, of cs] vn.inv_reachable [of cs]
  by (auto simp: Let_def NATService_init_def nat_inv_def)

definition ex_nat_calls :: "nat_call list" where
  "ex_nat_calls = [Bind 3 ''10.0.0.9'' 40001 40002, Bind 3 ''10.0.0.9'' 40003 40004, Unbind 3, Unbind 3]"

theorem nat_ports_never_close_witness:
  "bindings (fold nat_step ex_nat_calls NATService_init) (KeyId 3) = Some (-2, 40003, 40004) \<and> (-2 :: int) \<le> 0 \<and>
     listening (fold nat_step ex_nat_calls NATService_init) = [40001, 40002, 40003, 40004]"
proof -
  have stored: "bindings (fold nat_step ex_nat_calls NATService_init) (KeyId 3) = Some (-2, 40003, 40004)"
    by (simp add: ex_nat_calls_def NATService_init_def request_binding_def free_binding_def)
  show ?thesis
    using nat_ports_never_close [of ex_nat_calls] stored by (simp add: Let_def) (simp add: ex_nat_calls_def)
qed

end
