(* ===== verification/HoneyFS.thy ===== *)
theory HoneyFS
  imports Prelude "HOL-Library.Word"
begin

text \<open>
  The fake file system that attackers see (\<open>cowrie/shell/fs.py\<close>).

  The Python object is a graph of mutable lists (\<open>[name, type, uid, gid, size, mode, ctime,
  contents, target, realfile]\<close>) that are handed around by reference. The model keeps them in a
  store: a node is its position in the list \<open>nodes\<close>, position 0 is \<open>self.fs\<close>, and a directory's
  contents are positions. A directory returned by \<open>get_path\<close> is the node whose contents list it is;
  \<open>False\<close> as returned by \<open>getfile\<close> is \<open>None\<close>. Python bounds the recursion of \<open>getfile\<close> along
  symbolic links by its stack: \<open>frames\<close> is the number of nested calls it allows before it raises
  \<open>RecursionError\<close>.
\<close>

unbundle bit_operations_syntax

section \<open>Paths\<close>

definition slash :: char where
  "slash = CHR 0x2F"

text \<open>\<open>os.path.dirname\<close> and \<open>os.path.basename\<close>\<close>

definition basename :: "string \<Rightarrow> string" where
  "basename p = rev (takeWhile (\<lambda>c. c \<noteq> slash) (rev p))"

definition dirname :: "string \<Rightarrow> string" where
  "dirname p = (let head = rev (dropWhile (\<lambda>c. c \<noteq> slash) (rev p))
     in if list_all (\<lambda>c. c = slash) head then head else rstrip_chars [slash] head)"

definition path_pieces :: "string \<Rightarrow> string list" where
  "path_pieces p = filter (\<lambda>x. x \<noteq> []) (split_str [slash] p)"

text \<open>The loop of \<open>resolve_path\<close>; \<open>cwd\<close> is the list it appends to and pops from.\<close>

fun resolve_pieces :: "string list \<Rightarrow> string list \<Rightarrow> string list" where
  "resolve_pieces cwd [] = cwd"
| "resolve_pieces cwd (piece # pieces) =
     (if piece = ''..'' then resolve_pieces (butlast cwd) pieces
      else if piece = ''.'' \<or> piece = [] then resolve_pieces cwd pieces
      else resolve_pieces (cwd @ [piece]) pieces)"

definition resolve_path :: "string \<Rightarrow> string \<Rightarrow> string res" where
  "resolve_path path cwd =
     (let pieces = split_str [slash] (rstrip_chars [slash] path) in
      case path of
        [] \<Rightarrow> Inl IndexError
      | c # cs \<Rightarrow>
          Inr (slash # join [slash] (resolve_pieces (if c = slash then [] else path_pieces cwd) pieces)))"

section \<open>The store\<close>

datatype ftype = T_LINK | T_DIR | T_FILE | T_BLK | T_CHR | T_SOCK | T_FIFO

record fsnode =
  A_NAME :: string
  A_TYPE :: ftype
  A_UID :: int
  A_GID :: int
  A_SIZE :: int
  A_MODE :: int
  A_CTIME :: int
  A_CONTENTS :: "nat list"
  A_TARGET :: "string option"
  A_REALFILE :: "string option"

record honeyfs =
  nodes :: "fsnode list"
  newcount :: int
  frames :: nat

type_synonym 'a fs_py = "(honeyfs, 'a) py"

abbreviation FileNotFound :: py_exc where
  "FileNotFound \<equiv> UserError ''FileNotFound''"

abbreviation PermissionDenied :: py_exc where
  "PermissionDenied \<equiv> UserError ''PermissionDenied''"

abbreviation RecursionError :: py_exc where
  "RecursionError \<equiv> UserError ''RecursionError''"

abbreviation ENOENT :: int where "ENOENT \<equiv> 2"
abbreviation EEXIST :: int where "EEXIST \<equiv> 17"
abbreviation ENOTDIR :: int where "ENOTDIR \<equiv> 20"
abbreviation ENOTEMPTY :: int where "ENOTEMPTY \<equiv> 39"
abbreviation EDQUOT :: int where "EDQUOT \<equiv> 122"

section \<open>Looking up\<close>

text \<open>
  The path a symbolic link stands for. \<open>cwd\<close> of \<open>getfile\<close> is never assigned, so a relative target is
  joined to the empty path.
\<close>

definition link_path :: "fsnode \<Rightarrow> string res" where
  "link_path n = (case A_TARGET n of
       None \<Rightarrow> Inl TypeError
     | Some [] \<Rightarrow> Inl IndexError
     | Some (c # cs) \<Rightarrow> Inr (if c = slash then c # cs else slash # c # cs))"

text \<open>
  The inner loop of \<open>getfile\<close> over the entries of one directory: it goes on after a match, so of
  several entries with the name the last one counts. \<open>go\<close> is the recursive call.
\<close>

fun match_entries ::
  "(string \<Rightarrow> nat option res) \<Rightarrow> fsnode list \<Rightarrow> bool \<Rightarrow> string \<Rightarrow> string \<Rightarrow> nat list \<Rightarrow> nat \<Rightarrow>
     nat option res" where
  "match_entries go ns follow final piece [] p = Inr (Some p)"
| "match_entries go ns follow final piece (x # xs) p =
     (if A_NAME (ns ! x) \<noteq> piece then match_entries go ns follow final piece xs p
      else if piece = final \<and> \<not> follow then match_entries go ns follow final piece xs x
      else if A_TYPE (ns ! x) = T_LINK then
        bind_res (link_path (ns ! x)) (\<lambda>t. bind_res (go t) (\<lambda>r. case r of
            None \<Rightarrow> Inr None
          | Some q \<Rightarrow> match_entries go ns follow final piece xs q))
      else match_entries go ns follow final piece xs x)"

fun walk_pieces ::
  "(string \<Rightarrow> nat option res) \<Rightarrow> fsnode list \<Rightarrow> bool \<Rightarrow> string \<Rightarrow> string list \<Rightarrow> nat \<Rightarrow>
     nat option res" where
  "walk_pieces go ns follow final [] p = Inr (Some p)"
| "walk_pieces go ns follow final (piece # pieces) p =
     (if piece \<notin> set (map (\<lambda>x. A_NAME (ns ! x)) (A_CONTENTS (ns ! p))) then Inr None
      else bind_res (match_entries go ns follow final piece (A_CONTENTS (ns ! p)) p) (\<lambda>r. case r of
          None \<Rightarrow> Inr None
        | Some q \<Rightarrow> walk_pieces go ns follow final pieces q))"

fun getfile :: "nat \<Rightarrow> fsnode list \<Rightarrow> bool \<Rightarrow> string \<Rightarrow> nat option res" where
  "getfile 0 ns follow path = Inl RecursionError"
| "getfile (Suc k) ns follow path =
     (if path = [slash] then Inr (Some 0)
      else let pieces = split_str [slash] (strip_chars [slash] path)
        in walk_pieces (getfile k ns follow) ns follow (last pieces) pieces 0)"

text \<open>\<open>get_path\<close>: here the first entry with the name counts.\<close>

fun get_path_from ::
  "(string \<Rightarrow> nat option res) \<Rightarrow> fsnode list \<Rightarrow> string list \<Rightarrow> nat option \<Rightarrow> nat res" where
  "get_path_from go ns [] None = Inl TypeError"
| "get_path_from go ns [] (Some d) = Inr d"
| "get_path_from go ns (part # parts) cwd =
     (if part = [] then get_path_from go ns parts cwd
      else case cwd of
        None \<Rightarrow> Inl TypeError
      | Some d \<Rightarrow> (case find (\<lambda>c. A_NAME (ns ! c) = part) (A_CONTENTS (ns ! d)) of
            None \<Rightarrow> Inl FileNotFound
          | Some c \<Rightarrow>
              if A_TYPE (ns ! c) = T_LINK then (case A_TARGET (ns ! c) of
                  None \<Rightarrow> Inl (AttributeError ''strip'')
                | Some t \<Rightarrow> bind_res (go t) (get_path_from go ns parts))
              else get_path_from go ns parts (Some c)))"

definition get_path :: "nat \<Rightarrow> fsnode list \<Rightarrow> bool \<Rightarrow> string \<Rightarrow> nat res" where
  "get_path k ns follow path =
     get_path_from (getfile k ns follow) ns (split_str [slash] path) (Some 0)"

text \<open>The same on the state, as the methods call them.\<close>

definition fs_getfile :: "bool \<Rightarrow> string \<Rightarrow> (nat option) fs_py" where
  "fs_getfile follow path = py_bind py_get (\<lambda>s. py_lift (getfile (frames s) (nodes s) follow path))"

definition fs_get_path :: "string \<Rightarrow> nat fs_py" where
  "fs_get_path path = py_bind py_get (\<lambda>s. py_lift (get_path (frames s) (nodes s) True path))"

definition fs_node :: "nat \<Rightarrow> fsnode fs_py" where
  "fs_node r = py_bind py_get (\<lambda>s. py_return (nodes s ! r))"

definition set_node :: "nat \<Rightarrow> (fsnode \<Rightarrow> fsnode) \<Rightarrow> unit fs_py" where
  "set_node r f = py_modify (\<lambda>s. s\<lparr>nodes := (nodes s)[r := f (nodes s ! r)]\<rparr>)"

text \<open>\<open>exists\<close> and \<open>lexists\<close> (\<open>None\<close> counts as false where they are used).\<close>

definition exists_path :: "string \<Rightarrow> bool fs_py" where
  "exists_path path = py_bind (fs_getfile True path) (\<lambda>f. py_return (f \<noteq> None))"

definition lexists :: "string \<Rightarrow> bool fs_py" where
  "lexists path = py_bind (fs_getfile False path) (\<lambda>f. py_return (f \<noteq> None))"

text \<open>\<open>isfile\<close> and \<open>islink\<close> guard only the lookup: indexing \<open>False\<close> raises \<open>TypeError\<close>.\<close>

definition has_type :: "ftype \<Rightarrow> string \<Rightarrow> bool fs_py" where
  "has_type t path = py_bind py_get (\<lambda>s. case getfile (frames s) (nodes s) True path of
       Inl e \<Rightarrow> py_return False
     | Inr None \<Rightarrow> py_raise TypeError
     | Inr (Some r) \<Rightarrow> py_return (A_TYPE (nodes s ! r) = t))"

definition isfile :: "string \<Rightarrow> bool fs_py" where
  "isfile = has_type T_FILE"

definition islink :: "string \<Rightarrow> bool fs_py" where
  "islink = has_type T_LINK"

definition isdir :: "string \<Rightarrow> bool fs_py" where
  "isdir path = (if path = [slash] then py_return True
     else py_bind py_get (\<lambda>s. case getfile (frames s) (nodes s) True path of
         Inl e \<Rightarrow> py_return False
       | Inr None \<Rightarrow> py_return False
       | Inr (Some r) \<Rightarrow> py_return (A_TYPE (nodes s ! r) = T_DIR)))"

definition listdir :: "string \<Rightarrow> string list fs_py" where
  "listdir path = py_bind (fs_get_path path) (\<lambda>d. py_bind py_get (\<lambda>s.
     py_return (map (\<lambda>x. A_NAME (nodes s ! x)) (A_CONTENTS (nodes s ! d)))))"

text \<open>\<open>stat\<close> and \<open>lstat\<close>: mode, uid, gid, size and time; the root's are constants.\<close>

record fs_stat =
  st_mode :: int
  st_uid :: int
  st_gid :: int
  st_size :: int
  st_mtime :: int

definition stat_of :: "bool \<Rightarrow> int \<Rightarrow> string \<Rightarrow> fs_stat fs_py" where
  "stat_of follow now path =
     (if path = [slash] then py_return \<lparr>st_mode = 16877, st_uid = 0, st_gid = 0, st_size = 4096, st_mtime = now\<rparr>
      else py_bind (fs_getfile follow path) (\<lambda>p. case p of
          None \<Rightarrow> py_raise (OSError ENOENT)
        | Some r \<Rightarrow> py_bind (fs_node r) (\<lambda>n. py_return \<lparr>st_mode = A_MODE n, st_uid = A_UID n,
            st_gid = A_GID n, st_size = A_SIZE n, st_mtime = A_CTIME n\<rparr>)))"

definition stat_path :: "int \<Rightarrow> string \<Rightarrow> fs_stat fs_py" where
  "stat_path = stat_of True"

definition lstat :: "int \<Rightarrow> string \<Rightarrow> fs_stat fs_py" where
  "lstat = stat_of False"

definition readlink :: "string \<Rightarrow> string option fs_py" where
  "readlink path = py_bind (fs_getfile False path) (\<lambda>p. case p of
       None \<Rightarrow> py_raise (OSError ENOENT)
     | Some r \<Rightarrow> py_bind (fs_node r) (\<lambda>n.
         if A_MODE n AND 0xA000 = 0 then py_raise (OSError 0) else py_return (A_TARGET n)))"

section \<open>Real files behind the nodes\<close>

text \<open>
  \<open>real\<close> says which paths of the host are existing regular files and no links (\<open>os.path\<close>'s three
  tests), \<open>read_real\<close> what reading one gives.
\<close>

definition update_realfile :: "(string \<Rightarrow> bool) \<Rightarrow> nat \<Rightarrow> string \<Rightarrow> unit fs_py" where
  "update_realfile real r realfile = set_node r (\<lambda>n.
     if (A_REALFILE n = None \<or> A_REALFILE n = Some []) \<and> real realfile \<and> A_SIZE n < 25000000
     then n\<lparr>A_REALFILE := Some realfile\<rparr> else n)"

text \<open>\<open>init_honeyfs\<close>, given what \<open>os.walk\<close> finds: the pairs of a virtual path and a real one.\<close>

fun init_honeyfs :: "(string \<Rightarrow> bool) \<Rightarrow> (string \<times> string) list \<Rightarrow> unit fs_py" where
  "init_honeyfs real [] = py_return ()"
| "init_honeyfs real ((virtual, realfile) # rest) =
     py_bind (fs_getfile False virtual) (\<lambda>f.
     py_bind (case f of
         None \<Rightarrow> py_return ()
       | Some r \<Rightarrow> py_bind (fs_node r) (\<lambda>n.
           if A_TYPE n = T_FILE then update_realfile real r realfile else py_return ()))
       (\<lambda>_. init_honeyfs real rest))"

text \<open>\<open>file_contents\<close>; a file that is none of the three kinds gives Python's \<open>None\<close>.\<close>

definition file_contents ::
  "(string \<Rightarrow> string res) \<Rightarrow> string \<Rightarrow> string \<Rightarrow> string option fs_py" where
  "file_contents read_real arch_file target =
     py_bind (py_lift (resolve_path target (dirname target))) (\<lambda>path.
     py_bind (exists_path path) (\<lambda>ex. if \<not> ex then py_raise FileNotFound else
     py_bind (fs_getfile True path) (\<lambda>f. case f of
         None \<Rightarrow> py_raise TypeError
       | Some r \<Rightarrow> py_bind (fs_node r) (\<lambda>n.
           if A_TYPE n = T_DIR then py_raise (UserError ''IsADirectoryError'')
           else if A_TYPE n = T_FILE \<and> A_REALFILE n \<noteq> None \<and> A_REALFILE n \<noteq> Some [] then
             py_bind (py_lift (read_real (the (A_REALFILE n)))) (\<lambda>c. py_return (Some c))
           else if A_TYPE n = T_FILE \<and> A_SIZE n = 0 then py_return (Some [])
           else if A_TYPE n = T_FILE \<and> A_MODE n AND 0x40 \<noteq> 0 then
             py_bind (py_lift (read_real arch_file)) (\<lambda>c. py_return (Some c))
           else py_return None))))"

section \<open>Changing\<close>

definition SPECIAL_PATHS :: "string list" where
  "SPECIAL_PATHS = [''/sys'', ''/proc'', ''/dev/pts'']"

definition alloc :: "fsnode \<Rightarrow> nat fs_py" where
  "alloc n = py_bind py_get (\<lambda>s. py_bind (py_modify (\<lambda>s. s\<lparr>nodes := nodes s @ [n]\<rparr>))
     (\<lambda>_. py_return (length (nodes s))))"

definition plain_node :: "string \<Rightarrow> ftype \<Rightarrow> int \<Rightarrow> int \<Rightarrow> int \<Rightarrow> int \<Rightarrow> int \<Rightarrow> fsnode" where
  "plain_node name t uid gid sz mode ctime =
     \<lparr>A_NAME = name, A_TYPE = t, A_UID = uid, A_GID = gid, A_SIZE = sz, A_MODE = mode,
      A_CTIME = ctime, A_CONTENTS = [], A_TARGET = None, A_REALFILE = None\<rparr>"

definition append_entry :: "nat \<Rightarrow> nat \<Rightarrow> unit fs_py" where
  "append_entry d r = set_node d (\<lambda>n. n\<lparr>A_CONTENTS := A_CONTENTS n @ [r]\<rparr>)"

text \<open>Of the entries named \<open>outfile\<close> the first is removed.\<close>

definition drop_named :: "fsnode list \<Rightarrow> string \<Rightarrow> nat list \<Rightarrow> nat list" where
  "drop_named ns name xs =
     (case find (\<lambda>x. A_NAME (ns ! x) = name) xs of None \<Rightarrow> xs | Some x \<Rightarrow> remove1 x xs)"

definition mkfile :: "string \<Rightarrow> int \<Rightarrow> int \<Rightarrow> int \<Rightarrow> int \<Rightarrow> int \<Rightarrow> bool fs_py" where
  "mkfile path uid gid sz mode ctime =
     py_bind py_get (\<lambda>s. if newcount s > 10000 then py_return False
      else if list_ex (starts_with (dirname path)) SPECIAL_PATHS then py_raise PermissionDenied
      else py_bind (fs_get_path (dirname path)) (\<lambda>d.
        py_bind (set_node d (\<lambda>n. n\<lparr>A_CONTENTS := drop_named (nodes s) (basename path) (A_CONTENTS n)\<rparr>)) (\<lambda>_.
        py_bind (alloc (plain_node (basename path) T_FILE uid gid sz mode ctime)) (\<lambda>r.
        py_bind (append_entry d r) (\<lambda>_.
        py_bind (py_modify (\<lambda>s. s\<lparr>newcount := newcount s + 1\<rparr>)) (\<lambda>_. py_return True))))))"

text \<open>\<open>except IndexError: raise OSError(ENOENT)\<close>\<close>

definition index_as_enoent :: "'a res \<Rightarrow> 'a res" where
  "index_as_enoent r = (case r of Inl IndexError \<Rightarrow> Inl (OSError ENOENT) | _ \<Rightarrow> r)"

definition mkdir :: "string \<Rightarrow> int \<Rightarrow> int \<Rightarrow> int \<Rightarrow> int \<Rightarrow> int \<Rightarrow> unit fs_py" where
  "mkdir path uid gid sz mode ctime =
     py_bind py_get (\<lambda>s. if newcount s > 10000 then py_raise (OSError EDQUOT)
      else if strip_chars [slash] path = [] then py_raise (OSError ENOENT)
      else py_bind (py_lift (index_as_enoent
               (get_path (frames s) (nodes s) True (dirname (strip_chars [slash] path))))) (\<lambda>d.
        py_bind (alloc (plain_node (basename path) T_DIR uid gid sz mode ctime)) (\<lambda>r.
        py_bind (append_entry d r) (\<lambda>_.
        py_modify (\<lambda>s. s\<lparr>newcount := newcount s + 1\<rparr>)))))"

definition mkdir2 :: "string \<Rightarrow> int \<Rightarrow> unit fs_py" where
  "mkdir2 path now = py_bind (fs_getfile True path) (\<lambda>d. case d of
       Some r \<Rightarrow> py_raise (OSError EEXIST)
     | None \<Rightarrow> mkdir path 0 0 4096 16877 now)"

text \<open>\<open>for i in pdir[:]: if i[A_NAME] == name: pdir.remove(i); return True\<close>\<close>

definition rmdir :: "string \<Rightarrow> bool fs_py" where
  "rmdir path0 = (let path = rstrip_chars [slash] path0; name = basename path; parent = dirname path in
     py_bind (fs_getfile False path) (\<lambda>f. case f of
         None \<Rightarrow> py_raise (OSError EEXIST)
       | Some r \<Rightarrow> py_bind (fs_node r) (\<lambda>n. if A_TYPE n \<noteq> T_DIR then py_raise (OSError ENOTDIR) else
           py_bind (fs_get_path path) (\<lambda>d. py_bind (fs_node d) (\<lambda>dn.
             if A_CONTENTS dn \<noteq> [] then py_raise (OSError ENOTEMPTY) else
           py_bind (fs_get_path parent) (\<lambda>pd. py_bind py_get (\<lambda>s.
             case find (\<lambda>x. A_NAME (nodes s ! x) = name) (A_CONTENTS (nodes s ! pd)) of
               None \<Rightarrow> py_return False
             | Some x \<Rightarrow> py_bind (set_node pd (\<lambda>n. n\<lparr>A_CONTENTS := remove1 x (A_CONTENTS n)\<rparr>))
                 (\<lambda>_. py_return True))))))))"

text \<open>
  \<open>list.remove\<close> compares lists by value: it takes the first entry that is the node or equals it in
  every field, contents included. The comparison of a tree is no deeper than the store is long.
\<close>

fun node_eq :: "nat \<Rightarrow> fsnode list \<Rightarrow> nat \<Rightarrow> nat \<Rightarrow> bool" where
  "node_eq 0 ns a b = (a = b)"
| "node_eq (Suc k) ns a b = (a = b \<or>
     (ns ! a)\<lparr>A_CONTENTS := []\<rparr> = (ns ! b)\<lparr>A_CONTENTS := []\<rparr> \<and>
     list_all2 (node_eq k ns) (A_CONTENTS (ns ! a)) (A_CONTENTS (ns ! b)))"

definition remove_entry :: "nat \<Rightarrow> nat \<Rightarrow> unit fs_py" where
  "remove_entry d r = py_bind py_get (\<lambda>s.
     case find (\<lambda>x. node_eq (length (nodes s)) (nodes s) x r) (A_CONTENTS (nodes s ! d)) of
       None \<Rightarrow> py_raise ValueError
     | Some x \<Rightarrow> set_node d (\<lambda>n. n\<lparr>A_CONTENTS := remove1 x (A_CONTENTS n)\<rparr>))"

definition remove_file :: "string \<Rightarrow> unit fs_py" where
  "remove_file path = py_bind (fs_getfile False path) (\<lambda>p. case p of
       None \<Rightarrow> py_raise (OSError ENOENT)
     | Some r \<Rightarrow> py_bind (fs_get_path (dirname path)) (\<lambda>d. remove_entry d r))"

definition rename :: "string \<Rightarrow> string \<Rightarrow> unit fs_py" where
  "rename oldpath newpath = py_bind (fs_getfile True oldpath) (\<lambda>old. case old of
       None \<Rightarrow> py_raise (OSError ENOENT)
     | Some r \<Rightarrow> py_bind (fs_getfile True newpath) (\<lambda>new. case new of
           Some n \<Rightarrow> py_raise (OSError EEXIST)
         | None \<Rightarrow>
             py_bind (fs_get_path (dirname oldpath)) (\<lambda>d.
             py_bind (remove_entry d r) (\<lambda>_.
             py_bind (set_node r (\<lambda>n. n\<lparr>A_NAME := basename newpath\<rparr>)) (\<lambda>_.
             py_bind (fs_get_path (dirname newpath)) (\<lambda>d'.
               append_entry d' r))))))"

text \<open>The setters work on the node that the path leads to through symbolic links.\<close>

definition with_file :: "string \<Rightarrow> (fsnode \<Rightarrow> fsnode) \<Rightarrow> unit fs_py" where
  "with_file path f = py_bind (fs_getfile True path) (\<lambda>p. case p of
       None \<Rightarrow> py_raise (OSError ENOENT)
     | Some r \<Rightarrow> set_node r f)"

definition utime :: "string \<Rightarrow> int \<Rightarrow> unit fs_py" where
  "utime path mtime = with_file path (\<lambda>n. n\<lparr>A_CTIME := mtime\<rparr>)"

definition S_IFMT :: "int \<Rightarrow> int" where
  "S_IFMT mode = mode AND 0xF000"

definition chmod :: "string \<Rightarrow> int \<Rightarrow> unit fs_py" where
  "chmod path perm = with_file path (\<lambda>n. n\<lparr>A_MODE := S_IFMT (A_MODE n) OR perm\<rparr>)"

definition chown :: "string \<Rightarrow> int \<Rightarrow> int \<Rightarrow> unit fs_py" where
  "chown path uid gid = with_file path (\<lambda>n.
     n\<lparr>A_UID := (if uid \<noteq> -1 then uid else A_UID n), A_GID := (if gid \<noteq> -1 then gid else A_GID n)\<rparr>)"

definition update_size :: "string \<Rightarrow> int \<Rightarrow> unit fs_py" where
  "update_size path sz = py_bind (fs_getfile True path) (\<lambda>f. case f of
       None \<Rightarrow> py_return ()
     | Some r \<Rightarrow> py_bind (fs_node r) (\<lambda>n.
         if A_TYPE n \<noteq> T_FILE then py_return () else set_node r (\<lambda>n. n\<lparr>A_SIZE := sz\<rparr>)))"

end
