(* ===== verification/HoneyFSProps.thy ===== *)
theory HoneyFSProps
  imports HoneyFS
begin

text \<open>
  Lemmas on the fake file system: paths in normal form, what a lookup can return, the store's
  well-formedness under every operation, and lookups along plain directories.
\<close>

section \<open>Paths\<close>

text \<open>A name that can stand between two slashes, and one that resolving keeps.\<close>

definition file_name :: "string \<Rightarrow> bool" where
  "file_name x \<longleftrightarrow> x \<noteq> [] \<and> slash \<notin> set x"

definition normal_name :: "string \<Rightarrow> bool" where
  "normal_name x \<longleftrightarrow> file_name x \<and> x \<noteq> ''.'' \<and> x \<noteq> ''..''"

definition abs_path :: "string list \<Rightarrow> string" where
  "abs_path ps = slash # join [slash] ps"

lemma split_str_at: "split_str [d] (a @ d # b) = split_str [d] a @ split_str [d] b"
  by (induction a) (auto simp: starts_with_def split: list.split)

lemma path_pieces_at [simp]: "path_pieces (a @ slash # b) = path_pieces a @ path_pieces b"
  by (simp add: path_pieces_def split_str_at)

lemma path_pieces_Nil [simp]: "path_pieces [] = []"
  by (simp add: path_pieces_def)

lemma path_pieces_slash [simp]: "path_pieces (slash # b) = path_pieces b"
  using path_pieces_at [of "[]" b] by simp

lemma path_pieces_names: "list_all file_name (path_pieces p)"
  by (auto simp: path_pieces_def file_name_def list_all_iff dest: split_str_no_sep)

lemma path_pieces_snoc [simp]: "path_pieces (a @ [slash]) = path_pieces a"
  using path_pieces_at [of a "[]"] by simp

lemma rstrip_slash_cases: "rstrip_chars [slash] p = p \<or> (\<exists>q. p = q @ [slash])"
  by (cases p rule: rev_cases) (auto simp: rstrip_chars_def)

lemma rstrip_snoc [simp]: "rstrip_chars cs (p @ [c]) = (if c \<in> set cs then rstrip_chars cs p else p @ [c])"
  by (simp add: rstrip_chars_def)

lemma rstrip_Nil [simp]: "rstrip_chars cs [] = []"
  by (simp add: rstrip_chars_def)

lemma path_pieces_rstrip [simp]: "path_pieces (rstrip_chars [slash] p) = path_pieces p"
  by (induction p rule: rev_induct) auto

lemma path_pieces_abs_path: "list_all file_name ps \<Longrightarrow> path_pieces (abs_path ps) = ps"
proof (induction ps)
  case Nil
  then show ?case by (simp add: abs_path_def)
next
  case (Cons x xs)
  then have "path_pieces x = [x]"
    by (simp add: path_pieces_def split_str_no_occurrence file_name_def)
  with Cons show ?case by (cases xs) (simp_all add: abs_path_def)
qed

lemma resolve_pieces_skip: "resolve_pieces cwd (filter (\<lambda>x. x \<noteq> []) xs) = resolve_pieces cwd xs"
  by (induction cwd xs rule: resolve_pieces.induct) auto

lemma resolve_pieces_append:
  "resolve_pieces cwd (xs @ ys) = resolve_pieces (resolve_pieces cwd xs) ys"
  by (induction cwd xs rule: resolve_pieces.induct) auto

lemma list_all_butlast: "list_all P xs \<Longrightarrow> list_all P (butlast xs)"
  by (auto simp: list_all_iff dest: in_set_butlastD)

lemma resolve_pieces_normal:
  "list_all file_name xs \<Longrightarrow> list_all normal_name cwd \<Longrightarrow> list_all normal_name (resolve_pieces cwd xs)"
proof (induction cwd xs rule: resolve_pieces.induct)
  case (2 cwd piece pieces)
  then show ?case
    by (cases "piece = ''..''"; cases "piece = ''.''")
      (simp_all add: list_all_butlast normal_name_def [of piece] file_name_def [of piece])
qed simp

lemma resolve_pieces_id: "list_all normal_name xs \<Longrightarrow> resolve_pieces cwd xs = cwd @ xs"
  by (induction cwd xs rule: resolve_pieces.induct) (auto simp: normal_name_def file_name_def)

definition is_abs :: "string \<Rightarrow> bool" where
  "is_abs p \<longleftrightarrow> p \<noteq> [] \<and> hd p = slash"

lemma resolve_path_alt:
  "resolve_path p cwd = (if p = [] then Inl IndexError
     else Inr (abs_path (resolve_pieces (if is_abs p then [] else path_pieces cwd) (path_pieces p))))"
proof (cases p)
  case (Cons c cs)
  have "resolve_pieces q (split_str [slash] (rstrip_chars [slash] p)) = resolve_pieces q (path_pieces p)" for q
    using resolve_pieces_skip [of q "split_str [slash] (rstrip_chars [slash] p)"]
    by (simp add: path_pieces_def [symmetric])
  with Cons show ?thesis by (simp add: resolve_path_def abs_path_def is_abs_def Let_def)
qed (simp add: resolve_path_def)

text \<open>
  The result is in normal form if the working directory is; and a relative path is resolved against
  what the part before it resolves to.
\<close>

lemma resolve_path_normal_form:
  assumes "list_all normal_name (path_pieces cwd)" and "resolve_path p cwd = Inr q"
  shows "list_all normal_name (path_pieces q) \<and> q = abs_path (path_pieces q) \<and> resolve_path q cwd' = Inr q"
proof -
  define ps where "ps = resolve_pieces (if is_abs p then [] else path_pieces cwd) (path_pieces p)"
  have n: "list_all normal_name ps"
    unfolding ps_def using assms(1) path_pieces_names [of p] by (intro resolve_pieces_normal) auto
  then have "list_all file_name ps" by (auto simp: list_all_iff normal_name_def)
  then have q: "path_pieces q = ps" "q = abs_path ps"
    using assms(2) by (auto simp: resolve_path_alt ps_def path_pieces_abs_path split: if_splits)
  then have "is_abs q" "q \<noteq> []" by (simp_all add: abs_path_def is_abs_def)
  with q n show ?thesis by (simp add: resolve_path_alt resolve_pieces_id)
qed

lemma resolve_path_compose:
  assumes "p \<noteq> []" and "q \<noteq> []" and "\<not> is_abs q" and "list_all normal_name (path_pieces cwd)"
  shows "resolve_path (p @ slash # q) cwd = bind_res (resolve_path p cwd) (resolve_path q)"
proof -
  obtain d where d: "resolve_path p cwd = Inr d" using assms(1) by (simp add: resolve_path_alt)
  have "path_pieces d = resolve_pieces (if is_abs p then [] else path_pieces cwd) (path_pieces p)"
  proof -
    have "list_all normal_name (path_pieces d)" and "d = abs_path (path_pieces d)"
      using resolve_path_normal_form [OF assms(4) d] by simp_all
    moreover have "d = abs_path (resolve_pieces (if is_abs p then [] else path_pieces cwd) (path_pieces p))"
      using d assms(1) by (simp add: resolve_path_alt)
    moreover have "list_all file_name (resolve_pieces (if is_abs p then [] else path_pieces cwd) (path_pieces p))"
    proof -
      have "list_all normal_name (resolve_pieces (if is_abs p then [] else path_pieces cwd) (path_pieces p))"
        using assms(4) path_pieces_names [of p] by (intro resolve_pieces_normal) auto
      then show ?thesis by (auto simp: list_all_iff normal_name_def)
    qed
    ultimately show ?thesis by (metis path_pieces_abs_path)
  qed
  moreover have "is_abs (p @ slash # q) = is_abs p"
    using assms(1) by (cases p) (auto simp: is_abs_def)
  ultimately show ?thesis
    using assms d by (simp add: resolve_path_alt resolve_pieces_append)
qed

section \<open>What a lookup can return\<close>

lemma find_mem: "find P xs = Some x \<Longrightarrow> x \<in> set xs \<and> P x"
  by (auto simp: find_Some_iff)

definition store_ok :: "fsnode list \<Rightarrow> bool" where
  "store_ok ns \<longleftrightarrow> ns \<noteq> [] \<and> A_TYPE (ns ! 0) = T_DIR \<and>
     list_all (\<lambda>n. list_all (\<lambda>r. r < length ns) (A_CONTENTS n)) ns"

lemma store_ok_entry: "store_ok ns \<Longrightarrow> p < length ns \<Longrightarrow> x \<in> set (A_CONTENTS (ns ! p)) \<Longrightarrow> x < length ns"
  by (auto simp: store_ok_def list_all_iff)

lemma store_ok_root: "store_ok ns \<Longrightarrow> 0 < length ns"
  by (simp add: store_ok_def)

text \<open>A property that all nodes have to which an entry can lead, a lookup's result has.\<close>

lemma match_entries_inv:
  assumes "match_entries go ns follow final piece xs p = Inr (Some r)" and "I p"
    and "\<And>t q. go t = Inr (Some q) \<Longrightarrow> I q"
    and "\<And>x. x \<in> set xs \<Longrightarrow> A_TYPE (ns ! x) \<noteq> T_LINK \<or> \<not> follow \<Longrightarrow> I x"
  shows "I r"
  using assms(1,2,4)
proof (induction xs arbitrary: p)
  case (Cons x xs)
  have IH: "I r" if "match_entries go ns follow final piece xs q = Inr (Some r)" "I q" for q
    using that by (rule Cons.IH) (simp add: Cons.prems(3))
  have x: "I x" if "A_TYPE (ns ! x) \<noteq> T_LINK \<or> \<not> follow" using Cons.prems(3) that by simp
  show ?case
    using Cons.prems(1,2) IH x assms(3)
    by (auto simp: bind_res_Inr_iff split: if_splits option.splits)
qed simp

lemma walk_pieces_inv:
  assumes "walk_pieces go ns follow final pieces p = Inr (Some r)" and "I p"
    and "\<And>t q. go t = Inr (Some q) \<Longrightarrow> I q"
    and "\<And>p x. I p \<Longrightarrow> x \<in> set (A_CONTENTS (ns ! p)) \<Longrightarrow> A_TYPE (ns ! x) \<noteq> T_LINK \<or> \<not> follow \<Longrightarrow> I x"
  shows "I r"
  using assms(1,2)
proof (induction pieces arbitrary: p)
  case (Cons piece pieces)
  then obtain q where m: "match_entries go ns follow final piece (A_CONTENTS (ns ! p)) p = Inr (Some q)"
    and w: "walk_pieces go ns follow final pieces q = Inr (Some r)"
    by (auto simp: bind_res_Inr_iff split: if_splits option.splits)
  have "I q"
    by (rule match_entries_inv [where I = I, OF m Cons.prems(2)])
      (use assms(3) assms(4) [OF Cons.prems(2)] in blast)+
  with w show ?case by (rule Cons.IH)
qed simp

lemma getfile_inv:
  assumes "getfile k ns follow path = Inr (Some r)" and "I 0"
    and "\<And>p x. I p \<Longrightarrow> x \<in> set (A_CONTENTS (ns ! p)) \<Longrightarrow> A_TYPE (ns ! x) \<noteq> T_LINK \<or> \<not> follow \<Longrightarrow> I x"
  shows "I r"
  using assms(1)
proof (induction k arbitrary: path r)
  case (Suc k)
  show ?case
  proof (cases "path = [slash]")
    case True
    with Suc assms(2) show ?thesis by simp
  next
    case False
    with Suc.prems obtain final pieces
      where w: "walk_pieces (getfile k ns follow) ns follow final pieces 0 = Inr (Some r)"
      by (auto simp: Let_def)
    show ?thesis
      by (rule walk_pieces_inv [where I = I, OF w assms(2)]) (use Suc.IH assms(3) in blast)+
  qed
qed simp

lemma getfile_in_range:
  "store_ok ns \<Longrightarrow> getfile k ns follow path = Inr (Some r) \<Longrightarrow> r < length ns"
  by (rule getfile_inv [where I = "\<lambda>r. r < length ns"])
    (auto simp: store_ok_root simp del: length_greater_0_conv intro: store_ok_entry)

lemma getfile_no_link:
  "store_ok ns \<Longrightarrow> getfile k ns True path = Inr (Some r) \<Longrightarrow> A_TYPE (ns ! r) \<noteq> T_LINK"
  by (rule getfile_inv [where I = "\<lambda>r. A_TYPE (ns ! r) \<noteq> T_LINK" and follow = True])
    (auto simp: store_ok_def)

lemma get_path_from_in_range:
  assumes "store_ok ns" and "\<And>t q. go t = Inr (Some q) \<Longrightarrow> q < length ns"
  shows "get_path_from go ns parts cwd = Inr d \<Longrightarrow> (\<And>p. cwd = Some p \<Longrightarrow> p < length ns) \<Longrightarrow> d < length ns"
proof (induction parts arbitrary: cwd)
  case Nil
  then show ?case by (cases cwd) auto
next
  case (Cons part parts)
  have IH: "get_path_from go ns parts (Some q) = Inr d \<Longrightarrow> q < length ns \<Longrightarrow> d < length ns"
    and IH0: "get_path_from go ns parts None = Inr d \<Longrightarrow> d < length ns" for q
    using Cons.IH by auto
  show ?case
  proof (cases cwd)
    case None
    with Cons.prems(1) IH0 show ?thesis by (auto split: if_splits)
  next
    case (Some p)
    then have "x < length ns" if "x \<in> set (A_CONTENTS (ns ! p))" for x
      using Cons.prems(2) assms(1) store_ok_entry that by blast
    with Some Cons.prems IH IH0 assms(2) show ?thesis
      by (auto simp: bind_res_Inr_iff dest!: find_mem split: if_splits option.splits)
        (metis option.exhaust)+
  qed
qed

lemma get_path_in_range: "store_ok ns \<Longrightarrow> get_path k ns follow path = Inr d \<Longrightarrow> d < length ns"
  unfolding get_path_def
  by (erule get_path_from_in_range [rotated 2])
    (auto dest: store_ok_root getfile_in_range)

section \<open>The store under the operations\<close>

definition fs_inv :: "honeyfs \<Rightarrow> bool" where
  "fs_inv s \<longleftrightarrow> store_ok (nodes s) \<and> newcount s \<le> 10001"

lemma store_ok_update:
  assumes "store_ok ns" and "A_TYPE (f (ns ! r)) = A_TYPE (ns ! r)"
    and "list_all (\<lambda>x. x < length ns) (A_CONTENTS (f (ns ! r)))"
  shows "store_ok (ns[r := f (ns ! r)])"
  using assms
  by (cases "r = 0") (auto simp: store_ok_def list_all_iff
      dest!: set_update_subset_insert [THEN subsetD])

lemma store_ok_alloc: "store_ok ns \<Longrightarrow> A_CONTENTS n = [] \<Longrightarrow> store_ok (ns @ [n])"
  by (auto simp: store_ok_def list_all_iff nth_append intro: less_SucI)

text \<open>A change of a node that keeps its type and gives it no new entry.\<close>

definition harmless :: "(fsnode \<Rightarrow> fsnode) \<Rightarrow> bool" where
  "harmless f \<longleftrightarrow> (\<forall>n. A_TYPE (f n) = A_TYPE n \<and> set (A_CONTENTS (f n)) \<subseteq> set (A_CONTENTS n))"

lemma store_ok_harmless:
  assumes "store_ok ns" and "harmless f"
  shows "store_ok (ns[r := f (ns ! r)])"
proof (cases "r < length ns")
  case True
  with assms show ?thesis
    by (intro store_ok_update) (auto simp: harmless_def list_all_iff intro: store_ok_entry)
next
  case False
  with assms show ?thesis by (simp add: list_update_beyond)
qed

lemma set_node_apply [simp]:
  "set_node r f s = (Inr (), s\<lparr>nodes := (nodes s)[r := f (nodes s ! r)]\<rparr>)"
  by (simp add: set_node_def)

lemma fs_node_apply [simp]: "fs_node r s = (Inr (nodes s ! r), s)"
  by (simp add: fs_node_def)

lemma fs_getfile_apply [simp]:
  "fs_getfile follow path s = (getfile (frames s) (nodes s) follow path, s)"
  by (simp add: fs_getfile_def)

lemma fs_get_path_apply [simp]: "fs_get_path path s = (get_path (frames s) (nodes s) True path, s)"
  by (simp add: fs_get_path_def)

lemma alloc_apply [simp]: "alloc n s = (Inr (length (nodes s)), s\<lparr>nodes := nodes s @ [n]\<rparr>)"
  by (simp add: alloc_def)

abbreviation keeps_fs :: "'a fs_py \<Rightarrow> bool" where
  "keeps_fs \<equiv> keeps (\<lambda>s t. fs_inv s \<longrightarrow> fs_inv t)"

lemma fs_inv_preorder: "preorder_on_states (\<lambda>s t. fs_inv s \<longrightarrow> fs_inv t)"
  by (auto simp: preorder_on_states_def reflp_def transp_def)

lemma keeps_fs_set_node: "harmless f \<Longrightarrow> keeps_fs (set_node r f)"
  by (simp add: keeps_def fs_inv_def store_ok_harmless)

lemma keeps_fs_getfile: "keeps_fs (fs_getfile follow path)"
  by (simp add: keeps_def)

lemma keeps_fs_get_path: "keeps_fs (fs_get_path path)"
  by (simp add: keeps_def)

lemma keeps_fs_node: "keeps_fs (fs_node r)"
  by (simp add: keeps_def)

lemmas keeps_fs = keeps_intros fs_inv_preorder keeps_fs_set_node keeps_fs_getfile keeps_fs_get_path
  keeps_fs_node

lemma harmless_intros [simp]:
  "harmless (\<lambda>n. n\<lparr>A_CTIME := t\<rparr>)" "harmless (\<lambda>n. n\<lparr>A_SIZE := z\<rparr>)" "harmless (\<lambda>n. n\<lparr>A_NAME := x\<rparr>)"
  "harmless (\<lambda>n. n\<lparr>A_MODE := m n\<rparr>)" "harmless (\<lambda>n. n\<lparr>A_UID := u n, A_GID := g n\<rparr>)"
  "harmless (\<lambda>n. n\<lparr>A_CONTENTS := remove1 c (A_CONTENTS n)\<rparr>)"
  "harmless (\<lambda>n. if P n then n\<lparr>A_REALFILE := rf\<rparr> else n)"
  by (auto simp: harmless_def dest: set_remove1_subset [THEN subsetD])

lemma keeps_fs_with_file: "harmless f \<Longrightarrow> keeps_fs (with_file path f)"
  unfolding with_file_def by (intro keeps_fs)

lemma keeps_fs_setters:
  "keeps_fs (utime path t)" "keeps_fs (chmod path perm)" "keeps_fs (chown path u g)"
  "keeps_fs (update_size path z)"
  unfolding utime_def chmod_def chown_def update_size_def
  by (intro keeps_fs keeps_fs_with_file harmless_intros)+

lemma keeps_fs_remove_entry: "keeps_fs (remove_entry d r)"
  unfolding remove_entry_def by (intro keeps_fs harmless_intros)

lemma keeps_fs_remove_file: "keeps_fs (remove_file path)"
  unfolding remove_file_def by (intro keeps_fs keeps_fs_remove_entry)

lemma keeps_fs_rmdir: "keeps_fs (rmdir path)"
  unfolding rmdir_def Let_def by (intro keeps_fs harmless_intros)

lemma keeps_fs_init: "keeps_fs (init_honeyfs real files)"
proof (induction files)
  case Nil
  show ?case unfolding init_honeyfs.simps by (intro keeps_fs)
next
  case (Cons f fs)
  then show ?case
    unfolding update_realfile_def
    by (cases f) (simp only: init_honeyfs.simps update_realfile_def, intro keeps_fs harmless_intros)
qed

text \<open>The operations that add an entry.\<close>

lemma store_ok_append:
  assumes "store_ok ns" and "A_CONTENTS n = []"
  shows "store_ok ((ns @ [n])[d := ((ns @ [n]) ! d)\<lparr>A_CONTENTS := A_CONTENTS ((ns @ [n]) ! d) @ [length ns]\<rparr>])"
proof -
  have ok: "store_ok (ns @ [n])" using assms by (rule store_ok_alloc)
  show ?thesis
  proof (cases "d < length (ns @ [n])")
    case True
    with ok show ?thesis
      by (intro store_ok_update [where f = "\<lambda>x. x\<lparr>A_CONTENTS := A_CONTENTS x @ [length ns]\<rparr>"])
        (auto simp: list_all_iff dest: store_ok_entry)
  next
    case False
    with ok show ?thesis by (simp add: list_update_beyond)
  qed
qed

lemma set_drop_named: "set (drop_named ns name xs) \<subseteq> set xs"
  by (auto simp: drop_named_def split: option.splits dest: set_remove1_subset [THEN subsetD])

lemma fs_inv_mkfile: "fs_inv s \<Longrightarrow> fs_inv (snd (mkfile path uid gid z mode t s))"
proof -
  assume inv: "fs_inv s"
  have "store_ok ((nodes s)[d := (nodes s ! d)\<lparr>A_CONTENTS := drop_named (nodes s) nm (A_CONTENTS (nodes s ! d))\<rparr>])"
    for d nm
    using inv store_ok_harmless [of "nodes s" "\<lambda>n. n\<lparr>A_CONTENTS := drop_named (nodes s) nm (A_CONTENTS n)\<rparr>" d]
    by (simp add: fs_inv_def harmless_def set_drop_named)
  note ok = this [THEN store_ok_append, of "plain_node nm T_FILE uid gid z mode t" for nm]
  show ?thesis
    using inv ok by (auto simp: mkfile_def append_entry_def fs_inv_def plain_node_def split: sum.split)
qed

lemma fs_inv_mkdir: "fs_inv s \<Longrightarrow> fs_inv (snd (mkdir path uid gid z mode t s))"
  using store_ok_append [of "nodes s" "plain_node (basename path) T_DIR uid gid z mode t"]
  by (auto simp: mkdir_def append_entry_def fs_inv_def plain_node_def split: sum.split)

lemma fs_inv_mkdir2: "fs_inv s \<Longrightarrow> fs_inv (snd (mkdir2 path now s))"
  by (auto simp: mkdir2_def fs_inv_mkdir split: sum.split option.split)

text \<open>Moving a node: the invariant together with the node being in the store.\<close>

abbreviation keeps_fs_with :: "nat \<Rightarrow> 'a fs_py \<Rightarrow> bool" where
  "keeps_fs_with r \<equiv> keeps (\<lambda>s t. fs_inv s \<and> r < length (nodes s) \<longrightarrow> fs_inv t \<and> r < length (nodes t))"

lemma keeps_fs_with_preorder:
  "preorder_on_states (\<lambda>s t. fs_inv s \<and> r < length (nodes s) \<longrightarrow> fs_inv t \<and> r < length (nodes t))"
  by (auto simp: preorder_on_states_def reflp_def transp_def)

lemma keeps_fs_with_set_node: "harmless f \<Longrightarrow> keeps_fs_with r (set_node q f)"
  by (simp add: keeps_def fs_inv_def store_ok_harmless)

lemma keeps_fs_with_get_path: "keeps_fs_with r (fs_get_path path)"
  by (simp add: keeps_def)

lemma keeps_fs_with_append: "keeps_fs_with r (append_entry d r)"
proof -
  have "fs_inv (snd (append_entry d r t))" if "fs_inv t" "r < length (nodes t)" for t
  proof (cases "d < length (nodes t)")
    case True
    have "store_ok ((nodes t)[d := (\<lambda>n. n\<lparr>A_CONTENTS := A_CONTENTS n @ [r]\<rparr>) (nodes t ! d)])"
      using that True store_ok_entry [of "nodes t" d]
      by (intro store_ok_update) (auto simp: fs_inv_def list_all_iff)
    with that show ?thesis by (simp add: append_entry_def fs_inv_def)
  next
    case False
    with that show ?thesis by (simp add: append_entry_def list_update_beyond)
  qed
  then show ?thesis by (simp add: keeps_def append_entry_def)
qed

lemma keeps_fs_move:
  "keeps_fs_with r (py_bind (fs_get_path p) (\<lambda>d. py_bind (remove_entry d r) (\<lambda>_.
     py_bind (set_node r (\<lambda>n. n\<lparr>A_NAME := x\<rparr>)) (\<lambda>_. py_bind (fs_get_path q) (\<lambda>d'. append_entry d' r)))))"
  unfolding remove_entry_def
  by (intro keeps_intros keeps_fs_with_preorder keeps_fs_with_set_node keeps_fs_with_get_path
      keeps_fs_with_append harmless_intros)

lemma fs_inv_rename: "fs_inv s \<Longrightarrow> fs_inv (snd (rename oldpath newpath s))"
proof (cases "getfile (frames s) (nodes s) True oldpath")
  case (Inr old)
  assume inv: "fs_inv s"
  show ?thesis
  proof (cases old)
    case (Some r)
    with Inr inv have r: "r < length (nodes s)" by (auto simp: fs_inv_def dest: getfile_in_range)
    have "rename oldpath newpath s = (case getfile (frames s) (nodes s) True newpath of
        Inl e \<Rightarrow> (Inl e, s)
      | Inr (Some n) \<Rightarrow> (Inl (OSError EEXIST), s)
      | Inr None \<Rightarrow> py_bind (fs_get_path (dirname oldpath)) (\<lambda>d. py_bind (remove_entry d r) (\<lambda>_.
          py_bind (set_node r (\<lambda>n. n\<lparr>A_NAME := basename newpath\<rparr>)) (\<lambda>_.
          py_bind (fs_get_path (dirname newpath)) (\<lambda>d'. append_entry d' r)))) s)"
      unfolding rename_def using Inr Some
      by (simp del: fs_get_path_apply set_node_apply split: sum.split option.split)
    then show ?thesis
      using keepsD [OF keeps_fs_move, of s r] inv r by (auto split: sum.split option.split)
  qed (use Inr inv in \<open>simp add: rename_def\<close>)
qed (simp add: rename_def)

section \<open>The file system as a transition system\<close>

datatype fs_call =
    InitHoneyfs "string \<Rightarrow> bool" "(string \<times> string) list"
  | Mkfile string int int int int int
  | Mkdir string int int int int int
  | Mkdir2 string int
  | Rmdir string
  | Utime string int
  | Chmod string int
  | Chown string int int
  | RemoveFile string
  | Rename string string
  | UpdateSize string int

fun fs_step :: "fs_call \<Rightarrow> honeyfs \<Rightarrow> honeyfs" where
  "fs_step (InitHoneyfs real files) s = snd (init_honeyfs real files s)"
| "fs_step (Mkfile path u g z m t) s = snd (mkfile path u g z m t s)"
| "fs_step (Mkdir path u g z m t) s = snd (mkdir path u g z m t s)"
| "fs_step (Mkdir2 path t) s = snd (mkdir2 path t s)"
| "fs_step (Rmdir path) s = snd (rmdir path s)"
| "fs_step (Utime path t) s = snd (utime path t s)"
| "fs_step (Chmod path m) s = snd (chmod path m s)"
| "fs_step (Chown path u g) s = snd (chown path u g s)"
| "fs_step (RemoveFile path) s = snd (remove_file path s)"
| "fs_step (Rename old new) s = snd (rename old new s)"
| "fs_step (UpdateSize path z) s = snd (update_size path z s)"

lemma fs_inv_step: "fs_inv s \<Longrightarrow> fs_inv (fs_step c s)"
  by (cases c)
    (auto simp: fs_inv_mkfile fs_inv_mkdir fs_inv_mkdir2 fs_inv_rename
      keeps_fs_setters [THEN keepsD, rule_format] keeps_fs_init [THEN keepsD, rule_format]
      keeps_fs_rmdir [THEN keepsD, rule_format] keeps_fs_remove_file [THEN keepsD, rule_format])

text \<open>A pickled tree as it is loaded: a root directory, references inside the store.\<close>

definition loaded :: "fsnode list \<Rightarrow> nat \<Rightarrow> honeyfs" where
  "loaded ns k = \<lparr>nodes = (if store_ok ns then ns else [plain_node ''/'' T_DIR 0 0 4096 16877 0]),
     newcount = 0, frames = k\<rparr>"

interpretation vf: transition_system "loaded ns k" fs_step fs_inv for ns k
  by unfold_locales (simp_all add: fs_inv_step, simp add: loaded_def fs_inv_def store_ok_def plain_node_def)

text \<open>How many nodes there can be: only a counted creation adds one.\<close>

definition bounded_by :: "honeyfs \<Rightarrow> honeyfs \<Rightarrow> bool" where
  "bounded_by s t \<longleftrightarrow> int (length (nodes t)) - newcount t \<le> int (length (nodes s)) - newcount s"

lemma bounded_preorder: "preorder_on_states bounded_by"
  by (auto simp: preorder_on_states_def reflp_def transp_def bounded_by_def)

lemma bounded_set_node: "keeps bounded_by (set_node r f)"
  by (simp add: keeps_def bounded_by_def)

lemma bounded_lookups:
  "keeps bounded_by (fs_getfile follow path)" "keeps bounded_by (fs_get_path path)"
  "keeps bounded_by (fs_node r)"
  by (simp_all add: keeps_def bounded_by_def)

lemmas keeps_bounded = keeps_intros bounded_preorder bounded_set_node bounded_lookups

lemma bounded_step: "bounded_by s (fs_step c s)"
proof (cases c)
  case (InitHoneyfs real files)
  have "keeps bounded_by (init_honeyfs real files)"
  proof (induction files)
    case Nil
    show ?case unfolding init_honeyfs.simps by (intro keeps_bounded)
  next
    case (Cons f fs)
    then show ?case
      by (cases f) (simp only: init_honeyfs.simps update_realfile_def, intro keeps_bounded)
  qed
  with InitHoneyfs show ?thesis by (simp add: keepsD)
next
  case (Rename old new)
  have "keeps bounded_by (rename old new)"
    unfolding rename_def remove_entry_def append_entry_def by (intro keeps_bounded)
  with Rename show ?thesis by (simp add: keepsD)
next
  case (RemoveFile path)
  have "keeps bounded_by (remove_file path)"
    unfolding remove_file_def remove_entry_def by (intro keeps_bounded)
  with RemoveFile show ?thesis by (simp add: keepsD)
next
  case (Rmdir path)
  have "keeps bounded_by (rmdir path)"
    unfolding rmdir_def Let_def by (intro keeps_bounded)
  with Rmdir show ?thesis by (simp add: keepsD)
qed (auto simp: bounded_by_def mkfile_def mkdir_def mkdir2_def append_entry_def utime_def chmod_def
    chown_def update_size_def with_file_def split: sum.split option.split)

lemma bounded_run: "bounded_by s (fold fs_step cs s)"
proof (induction cs arbitrary: s)
  case Nil
  show ?case by (simp add: bounded_by_def)
next
  case (Cons c cs)
  from bounded_step [of s c] Cons [of "fs_step c s"] show ?case by (simp add: bounded_by_def)
qed

section \<open>Plain directories\<close>

text \<open>
  A path that leads through directories with distinct names, and through no link: \<open>vs\<close> are the nodes
  that are left on the way.
\<close>

definition distinct_names :: "fsnode list \<Rightarrow> nat \<Rightarrow> bool" where
  "distinct_names ns d \<longleftrightarrow> distinct (map (\<lambda>x. A_NAME (ns ! x)) (A_CONTENTS (ns ! d)))"

inductive chain :: "fsnode list \<Rightarrow> nat \<Rightarrow> string list \<Rightarrow> nat list \<Rightarrow> nat \<Rightarrow> bool" for ns where
  here: "chain ns p [] [] p"
| down: "distinct_names ns p \<Longrightarrow> c \<in> set (A_CONTENTS (ns ! p)) \<Longrightarrow> file_name (A_NAME (ns ! c)) \<Longrightarrow>
    A_TYPE (ns ! c) \<noteq> T_LINK \<Longrightarrow> chain ns c ps vs q \<Longrightarrow> chain ns p (A_NAME (ns ! c) # ps) (p # vs) q"

inductive_cases chain_NilE: "chain ns p [] vs q"
inductive_cases chain_ConsE: "chain ns p (x # ps) vs q"

lemma match_entries_other:
  "piece \<notin> set (map (\<lambda>x. A_NAME (ns ! x)) xs) \<Longrightarrow> match_entries go ns follow final piece xs p = Inr (Some p)"
  by (induction xs) auto

lemma match_entries_unique:
  "distinct (map (\<lambda>x. A_NAME (ns ! x)) xs) \<Longrightarrow> c \<in> set xs \<Longrightarrow> A_TYPE (ns ! c) \<noteq> T_LINK \<Longrightarrow>
     match_entries go ns follow final (A_NAME (ns ! c)) xs p = Inr (Some c)"
  by (induction xs) (auto simp: match_entries_other)

lemma walk_chain:
  "chain ns p ps vs q \<Longrightarrow>
     walk_pieces go ns follow final (ps @ rest) p = walk_pieces go ns follow final rest q"
  by (induction rule: chain.induct) (simp_all add: match_entries_unique distinct_names_def)

lemma find_unique:
  "distinct (map f xs) \<Longrightarrow> c \<in> set xs \<Longrightarrow> find (\<lambda>x. f x = f c) xs = Some c"
  by (induction xs) auto

lemma get_path_chain:
  "chain ns p ps vs q \<Longrightarrow> get_path_from go ns (ps @ rest) (Some p) = get_path_from go ns rest (Some q)"
proof (induction rule: chain.induct)
  case (down p c ps vs q)
  then have "find (\<lambda>x. A_NAME (ns ! x) = A_NAME (ns ! c)) (A_CONTENTS (ns ! p)) = Some c"
    by (intro find_unique) (simp_all add: distinct_names_def)
  with down show ?case by (simp add: file_name_def)
qed simp

lemma chain_names: "chain ns p ps vs q \<Longrightarrow> list_all file_name ps"
  by (induction rule: chain.induct) auto

lemma split_abs_path:
  "list_all file_name ps \<Longrightarrow> split_str [slash] (abs_path ps) = [] # (if ps = [] then [[]] else ps)"
proof (cases "ps = []")
  case False
  moreover assume "list_all file_name ps"
  ultimately have "split_str [slash] (join [slash] ([] # ps)) = [] # ps"
    by (intro split_str_join) (auto simp: list_all_iff file_name_def)
  with False show ?thesis by (simp add: abs_path_def join_Cons)
qed (simp add: abs_path_def starts_with_def)

lemma abs_path_ends: "list_all file_name ps \<Longrightarrow> ps \<noteq> [] \<Longrightarrow>
    strip_chars [slash] (abs_path ps) = join [slash] ps"
proof -
  assume ps: "list_all file_name ps" "ps \<noteq> []"
  have "hd (join [slash] ps) \<noteq> slash \<and> last (join [slash] ps) \<noteq> slash \<and> join [slash] ps \<noteq> []"
    using ps
  proof (induction ps)
    case (Cons x xs)
    then have "x \<noteq> []" "slash \<notin> set x" by (simp_all add: file_name_def)
    then have "hd x \<noteq> slash" "last x \<noteq> slash" by (metis hd_in_set, metis last_in_set)
    with \<open>x \<noteq> []\<close> Cons show ?case by (cases xs) (auto simp: hd_append)
  qed simp
  moreover have "strip_chars [slash] (slash # j) = j" if "hd j \<noteq> slash" "last j \<noteq> slash" "j \<noteq> []" for j
  proof -
    have "dropWhile (\<lambda>c. c = slash) j = j" using that by (cases j) auto
    moreover have "dropWhile (\<lambda>c. c = slash) (rev j) = rev j"
      using that by (cases j rule: rev_cases) auto
    ultimately show ?thesis by (simp add: strip_chars_def lstrip_chars_def rstrip_chars_def)
  qed
  ultimately show ?thesis by (simp add: abs_path_def)
qed

lemma getfile_chain:
  assumes c: "chain ns 0 ps vs q" and k: "0 < k"
  shows "getfile k ns follow (abs_path ps) = Inr (Some q)"
proof (cases "ps = []")
  case True
  with c k show ?thesis by (cases k) (auto simp: abs_path_def elim: chain_NilE)
next
  case False
  note n = chain_names [OF c]
  have "abs_path ps \<noteq> [slash]"
    using split_abs_path [OF n] False n by (auto simp: file_name_def starts_with_def)
  moreover have "split_str [slash] (join [slash] ps) = ps"
    using n False by (intro split_str_join) (auto simp: list_all_iff file_name_def)
  ultimately show ?thesis
    using k n False walk_chain [OF c, of _ _ _ "[]"]
    by (cases k) (simp_all add: abs_path_ends)
qed

lemma get_path_abs:
  assumes c: "chain ns 0 ps vs q"
  shows "get_path k ns follow (abs_path ps) = Inr q"
  using get_path_chain [OF c, of _ "[]"] c
  by (auto simp: get_path_def split_abs_path [OF chain_names [OF c]] elim: chain_NilE)

end
