(* ===== verification/HoneyFSFacts.thy ===== *)
theory HoneyFSFacts
  imports HoneyFSProps
begin

text \<open>
  Properties of the fake file system: paths, the file an attacker creates and finds again, the limit on
  creations, and the queries that do not answer what their comments say.
\<close>

section \<open>A created file is found again\<close>

lemma abs_path_snoc: "abs_path (ps @ [x]) = (if ps = [] then [slash] else abs_path ps @ [slash]) @ x"
proof (induction ps)
  case (Cons p ps)
  then show ?case by (cases ps) (auto simp: abs_path_def join_Cons)
qed (simp add: abs_path_def)

lemma abs_path_last:
  "list_all file_name ps \<Longrightarrow> ps \<noteq> [] \<Longrightarrow> \<exists>p c. abs_path ps = p @ [c] \<and> c \<noteq> slash"
proof (cases ps rule: rev_cases)
  case (snoc qs x)
  moreover assume "list_all file_name ps"
  ultimately have "x \<noteq> []" "slash \<notin> set x" by (simp_all add: file_name_def)
  then obtain y c where "x = y @ [c]" "c \<noteq> slash" by (cases x rule: rev_cases) auto
  with snoc show ?thesis by (auto simp: abs_path_snoc)
qed simp

lemma takeWhile_name: "slash \<notin> set x \<Longrightarrow> takeWhile (\<lambda>c. c \<noteq> slash) (x @ slash # y) = x"
  by (induction x) auto

lemma dropWhile_name: "slash \<notin> set x \<Longrightarrow> dropWhile (\<lambda>c. c \<noteq> slash) (x @ slash # y) = slash # y"
  by (induction x) auto

lemma basename_at: "slash \<notin> set x \<Longrightarrow> basename (p @ slash # x) = x"
  by (simp add: basename_def takeWhile_name)

lemma dirname_at:
  "slash \<notin> set x \<Longrightarrow> dirname (p @ slash # x) =
     (if list_all (\<lambda>c. c = slash) p then p @ [slash] else rstrip_chars [slash] p)"
  by (simp add: dirname_def dropWhile_name)

lemma path_of_entry:
  assumes "list_all file_name ps" and "file_name x"
  shows "basename (abs_path (ps @ [x])) = x" and "dirname (abs_path (ps @ [x])) = abs_path ps"
proof -
  have x: "slash \<notin> set x" using assms(2) by (simp add: file_name_def)
  show "basename (abs_path (ps @ [x])) = x"
    using basename_at [OF x, of "[]"] basename_at [OF x, of "abs_path ps"] by (simp add: abs_path_snoc)
  show "dirname (abs_path (ps @ [x])) = abs_path ps"
  proof (cases "ps = []")
    case True
    with dirname_at [OF x, of "[]"] show ?thesis by (simp add: abs_path_def)
  next
    case False
    with abs_path_last [OF assms(1)] obtain p c where "abs_path ps = p @ [c]" "c \<noteq> slash" by auto
    with False dirname_at [OF x, of "abs_path ps"] show ?thesis by (simp add: abs_path_snoc)
  qed
qed

lemma chain_cong:
  assumes "chain ns p ps vs q"
    and "\<And>v. v \<in> set vs \<Longrightarrow> A_CONTENTS (ns' ! v) = A_CONTENTS (ns ! v)"
    and "\<And>v x. v \<in> set vs \<Longrightarrow> x \<in> set (A_CONTENTS (ns ! v)) \<Longrightarrow>
      A_NAME (ns' ! x) = A_NAME (ns ! x) \<and> A_TYPE (ns' ! x) = A_TYPE (ns ! x)"
  shows "chain ns' p ps vs q"
  using assms
proof (induction rule: chain.induct)
  case (here p)
  show ?case by (rule chain.here)
next
  case (down p c ps vs q)
  have names: "A_NAME (ns' ! x) = A_NAME (ns ! x)" "A_TYPE (ns' ! x) = A_TYPE (ns ! x)"
    if "x \<in> set (A_CONTENTS (ns ! p))" for x
    using down.prems(2) [of p x] that by simp_all
  have contents: "A_CONTENTS (ns' ! p) = A_CONTENTS (ns ! p)" using down.prems(1) by simp
  have "map (\<lambda>x. A_NAME (ns' ! x)) (A_CONTENTS (ns ! p)) = map (\<lambda>x. A_NAME (ns ! x)) (A_CONTENTS (ns ! p))"
    using names by auto
  with down.hyps(1) contents have "distinct_names ns' p" unfolding distinct_names_def by metis
  moreover have "chain ns' c ps vs q" using down.prems by (intro down.IH) auto
  ultimately have "chain ns' p (A_NAME (ns' ! c) # ps) (p # vs) q"
    using down.hyps names contents by (intro chain.down) auto
  with down.hyps(2) names show ?case by simp
qed

lemma chain_snoc:
  "chain ns p ps vs d \<Longrightarrow> distinct_names ns d \<Longrightarrow> c \<in> set (A_CONTENTS (ns ! d)) \<Longrightarrow>
     file_name (A_NAME (ns ! c)) \<Longrightarrow> A_TYPE (ns ! c) \<noteq> T_LINK \<Longrightarrow>
     chain ns p (ps @ [A_NAME (ns ! c)]) (vs @ [d]) c"
  by (induction rule: chain.induct) (auto intro: chain.intros)

lemma chain_in_range:
  "chain ns p ps vs q \<Longrightarrow> store_ok ns \<Longrightarrow> p < length ns \<Longrightarrow> q < length ns \<and> list_all (\<lambda>v. v < length ns) vs"
  by (induction rule: chain.induct) (auto dest: store_ok_entry)

lemma drop_named_distinct:
  "distinct (map (\<lambda>x. A_NAME (ns ! x)) xs) \<Longrightarrow>
     drop_named ns name xs = filter (\<lambda>x. A_NAME (ns ! x) \<noteq> name) xs"
proof (induction xs)
  case (Cons a xs)
  show ?case
  proof (cases "A_NAME (ns ! a) = name")
    case True
    then have "filter (\<lambda>x. A_NAME (ns ! x) \<noteq> name) xs = xs"
      using Cons.prems by (intro filter_True) (force simp: image_iff)
    with True show ?thesis by (simp add: drop_named_def)
  next
    case False
    then have "drop_named ns name (a # xs) = a # drop_named ns name xs"
      using find_mem [of _ xs] by (auto simp: drop_named_def split: option.split)
    with False Cons show ?thesis by simp
  qed
qed (simp add: drop_named_def)

text \<open>The node a creation adds, and the path to it.\<close>

lemma mkfile_chain:
  assumes s: "fs_inv s" and c: "chain (nodes s) 0 ps vs d" and d: "d \<notin> set vs"
    and names: "distinct_names (nodes s) d" and x: "file_name x" and room: "newcount s \<le> 10000"
    and sp: "\<not> list_ex (starts_with (abs_path ps)) SPECIAL_PATHS"
  obtains t where "mkfile (abs_path (ps @ [x])) uid gid z mode now s = (Inr True, t)"
    and "chain (nodes t) 0 (ps @ [x]) (vs @ [d]) (length (nodes s))"
    and "nodes t ! length (nodes s) = plain_node x T_FILE uid gid z mode now"
    and "newcount t = newcount s + 1" and "frames t = frames s"
proof -
  define ns where "ns = nodes s"
  define new where "new = plain_node x T_FILE uid gid z mode now"
  define ds where "ds = filter (\<lambda>e. A_NAME (ns ! e) \<noteq> x) (A_CONTENTS (ns ! d))"
  define ns' where "ns' = (ns[d := (ns ! d)\<lparr>A_CONTENTS := ds @ [length ns]\<rparr>]) @ [new]"
  note p = path_of_entry [OF chain_names [OF c] x]
  have ok: "store_ok ns" using s by (simp add: ns_def fs_inv_def)
  then have r: "d < length ns" "list_all (\<lambda>v. v < length ns) vs"
    using chain_in_range [OF c [folded ns_def]] by (simp_all add: store_ok_def)
  have "drop_named ns x (A_CONTENTS (ns ! d)) = ds"
    using names by (simp add: ds_def drop_named_distinct distinct_names_def ns_def)
  then have m: "mkfile (abs_path (ps @ [x])) uid gid z mode now s =
      (Inr True, s\<lparr>nodes := ns', newcount := newcount s + 1\<rparr>)"
    using room sp p r get_path_abs [OF c]
    by (simp add: mkfile_def append_entry_def ns_def [symmetric] ns'_def new_def list_update_append
        nth_append nth_list_update)
  have same: "A_NAME (ns' ! e) = A_NAME (ns ! e) \<and> A_TYPE (ns' ! e) = A_TYPE (ns ! e)" if "e < length ns" for e
    using that by (cases "e = d") (simp_all add: ns'_def nth_append)
  have entries: "e < length ns" if "e \<in> set (A_CONTENTS (ns ! v))" "v < length ns" for e v
    using ok that store_ok_entry by blast
  have "chain ns' 0 ps vs d"
  proof (rule chain_cong [OF c [folded ns_def]])
    fix v assume v: "v \<in> set vs"
    with d r(2) show "A_CONTENTS (ns' ! v) = A_CONTENTS (ns ! v)"
      by (cases "v = d") (auto simp: ns'_def nth_append list_all_iff)
    fix e assume "e \<in> set (A_CONTENTS (ns ! v))"
    with v r(2) entries same show "A_NAME (ns' ! e) = A_NAME (ns ! e) \<and> A_TYPE (ns' ! e) = A_TYPE (ns ! e)"
      by (auto simp: list_all_iff)
  qed
  moreover have at: "A_CONTENTS (ns' ! d) = ds @ [length ns]" "ns' ! length ns = new"
    using r by (simp_all add: ns'_def nth_append)
  moreover have "distinct_names ns' d"
  proof -
    have "map (\<lambda>e. A_NAME (ns' ! e)) (A_CONTENTS (ns' ! d)) = map (\<lambda>e. A_NAME (ns ! e)) ds @ [x]"
      using same entries [OF _ r(1)] by (auto simp: ds_def at new_def plain_node_def)
    moreover have "distinct (map (\<lambda>e. A_NAME (ns ! e)) ds)"
      using names by (simp add: ds_def distinct_names_def ns_def distinct_map_filter)
    moreover have "x \<notin> set (map (\<lambda>e. A_NAME (ns ! e)) ds)" by (auto simp: ds_def)
    ultimately show ?thesis by (simp add: distinct_names_def del: set_map map_map)
  qed
  ultimately have "chain ns' 0 (ps @ [A_NAME (ns' ! length ns)]) (vs @ [d]) (length ns)"
    using x by (intro chain_snoc) (simp_all add: new_def plain_node_def)
  with at(2) have "chain ns' 0 (ps @ [x]) (vs @ [d]) (length ns)"
    by (simp add: new_def plain_node_def)
  with m at(2) that show ?thesis by (simp add: ns_def new_def)
qed

section \<open>A small file system\<close>

definition ex_node :: "string \<Rightarrow> ftype \<Rightarrow> int \<Rightarrow> nat list \<Rightarrow> string option \<Rightarrow> fsnode" where
  "ex_node name t mode xs target =
     (plain_node name t 0 0 4096 mode 0)\<lparr>A_CONTENTS := xs, A_TARGET := target\<rparr>"

text \<open>\<open>/tmp\<close>, \<open>/tmp/a\<close>, \<open>/etc\<close>, \<open>/etc/passwd\<close> and a relative link \<open>/etc/alias\<close> to \<open>passwd\<close>.\<close>

definition ex_nodes :: "fsnode list" where
  "ex_nodes =
     [ex_node ''/'' T_DIR 16877 [1, 2] None, ex_node ''tmp'' T_DIR 16877 [3] None,
      ex_node ''etc'' T_DIR 16877 [4, 5] None, ex_node ''a'' T_DIR 16877 [] None,
      ex_node ''passwd'' T_FILE 33188 [] None, ex_node ''alias'' T_LINK 41471 [] (Some ''passwd'')]"

definition ex_fs :: honeyfs where
  "ex_fs = \<lparr>nodes = ex_nodes, newcount = 0, frames = 100\<rparr>"

lemmas ex_fs_simps = ex_fs_def ex_nodes_def ex_node_def plain_node_def

lemma ex_fs_inv: "fs_inv ex_fs"
  by code_simp

lemma ex_chain: "chain ex_nodes 0 [''tmp''] [0] 1"
proof -
  have "chain ex_nodes 0 (A_NAME (ex_nodes ! 1) # []) (0 # []) 1"
    by (rule chain.down [OF _ _ _ _ chain.here]; code_simp)
  moreover have "A_NAME (ex_nodes ! 1) = ''tmp''" by code_simp
  ultimately show ?thesis by simp
qed

text \<open>A relative link is resolved from the root: \<open>/etc/alias\<close> is broken, though \<open>/etc/passwd\<close> is there.\<close>

lemma relative_link_from_root:
  "getfile 100 ex_nodes True ''/etc/alias'' = Inr None \<and> getfile 100 ex_nodes True ''/etc/passwd'' = Inr (Some 4)"
  by code_simp

text \<open>Renaming a directory into itself raises after the directory has been taken out of its parent.\<close>

lemma rename_into_itself_loses:
  "(case rename ''/tmp'' ''/tmp/b'' ex_fs of (r, s) \<Rightarrow>
     r = Inl FileNotFound \<and> getfile 100 (nodes s) True ''/tmp'' = Inr None \<and>
     getfile 100 (nodes s) True ''/tmp/b'' = Inr None)"
  by code_simp

section \<open>Properties\<close>

text \<open>C23: Below a directory that a plain path leads to, outside the special paths and within the limit,
  creating a file succeeds, and looking the path up then gives exactly the node that was created,
  with or without following links; a file of that name that was there before is replaced.\<close>

theorem created_file_is_found:
  assumes "fs_inv s" and "chain (nodes s) 0 ps vs d" and "d \<notin> set vs"
    and "distinct_names (nodes s) d" and "file_name x" and "newcount s \<le> 10000" and "0 < frames s"
    and "\<not> list_ex (starts_with (abs_path ps)) SPECIAL_PATHS"
  shows "case mkfile (abs_path (ps @ [x])) uid gid z mode now s of
     (Inl e, t) \<Rightarrow> False
   | (Inr b, t) \<Rightarrow> b \<and> newcount t = newcount s + 1 \<and> fs_inv t \<and>
       (case getfile (frames t) (nodes t) follow (abs_path (ps @ [x])) of
          Inr (Some r) \<Rightarrow> nodes t ! r = plain_node x T_FILE uid gid z mode now
        | _ \<Rightarrow> False)"
proof -
  obtain t where t: "mkfile (abs_path (ps @ [x])) uid gid z mode now s = (Inr True, t)"
    "chain (nodes t) 0 (ps @ [x]) (vs @ [d]) (length (nodes s))"
    "nodes t ! length (nodes s) = plain_node x T_FILE uid gid z mode now"
    "newcount t = newcount s + 1" "frames t = frames s"
    using mkfile_chain assms(1-6,8) by blast
  moreover have "fs_inv t" using fs_inv_mkfile [OF assms(1)] t(1) by (metis snd_conv)
  ultimately show ?thesis using getfile_chain [OF t(2)] assms(7) by simp
qed

theorem created_file_is_found_witness:
  "case mkfile ''/tmp/x.sh'' 0 0 5 33188 7 ex_fs of
     (Inl e, t) \<Rightarrow> False
   | (Inr b, t) \<Rightarrow> b \<and> newcount t = 1 \<and> fs_inv t \<and>
       (case getfile (frames t) (nodes t) True ''/tmp/x.sh'' of
          Inr (Some r) \<Rightarrow> nodes t ! r = plain_node ''x.sh'' T_FILE 0 0 5 33188 7
        | _ \<Rightarrow> False)"
proof -
  have p: "abs_path ([''tmp''] @ [''x.sh'']) = ''/tmp/x.sh''" by code_simp
  have c: "chain (nodes ex_fs) 0 [''tmp''] [0] 1" using ex_chain by (simp_all add: ex_fs_def)
  have d: "distinct_names (nodes ex_fs) 1" by code_simp
  have x: "file_name ''x.sh''" by code_simp
  have n: "newcount ex_fs = 0" "0 < frames ex_fs" by (simp_all add: ex_fs_def)
  have sp: "\<not> list_ex (starts_with (abs_path [''tmp''])) SPECIAL_PATHS" by code_simp
  have m: "1 \<notin> set [0::nat]" "newcount ex_fs \<le> 10000" by (simp_all add: ex_fs_def)
  show ?thesis
    using created_file_is_found [OF ex_fs_inv c m(1) d x m(2) n(2) sp, of 0 0 5 33188 7 True]
    unfolding p n(1) add_0 by assumption
qed

text \<open>A path is resolved to normal form: absolute, no empty, \<open>.\<close> or \<open>..\<close> component, never above
  the root; resolving the result again, from anywhere, changes nothing. Only the empty path raises.\<close>

theorem resolve_path_normalises:
  "list_all normal_name (path_pieces cwd) \<Longrightarrow>
     (case resolve_path p cwd of
        Inl e \<Rightarrow> p = [] \<and> e = IndexError
      | Inr q \<Rightarrow> list_all normal_name (path_pieces q) \<and> q = abs_path (path_pieces q) \<and>
          resolve_path q cwd' = Inr q)"
  using resolve_path_normal_form [of cwd p _ cwd']
  by (auto simp: resolve_path_alt split: sum.split if_splits)

theorem resolve_path_normalises_witness:
  "list_all normal_name (path_pieces ''/root'') \<and>
   resolve_path ''../..//etc/./passwd/'' ''/root'' = Inr ''/etc/passwd'' \<and>
   resolve_path ''/etc/passwd'' ''/tmp'' = Inr ''/etc/passwd''"
proof -
  have n: "list_all normal_name (path_pieces ''/root'')" by code_simp
  moreover have r: "resolve_path ''../..//etc/./passwd/'' ''/root'' = Inr ''/etc/passwd''" by code_simp
  ultimately show ?thesis
    using resolve_path_normalises [OF n, of "''../..//etc/./passwd/''" "''/tmp''"] by simp
qed

text \<open>A path with a relative tail is resolved step by step: changing to its first part and then
  following the tail leads to the same place.\<close>

theorem resolve_path_stepwise:
  assumes "p \<noteq> []" and "q \<noteq> []" and "\<not> is_abs q" and "list_all normal_name (path_pieces cwd)"
  shows "resolve_path (p @ slash # q) cwd = bind_res (resolve_path p cwd) (resolve_path q)"
  using assms by (rule resolve_path_compose)

theorem resolve_path_stepwise_witness:
  "resolve_path (''../etc'' @ slash # ''../bin/sh'') ''/root'' = Inr ''/bin/sh''"
proof -
  have "list_all normal_name (path_pieces ''/root'')" by code_simp
  then have "resolve_path (''../etc'' @ slash # ''../bin/sh'') ''/root'' =
      bind_res (resolve_path ''../etc'' ''/root'') (resolve_path ''../bin/sh'')"
    by (intro resolve_path_stepwise) (simp_all add: is_abs_def slash_def)
  also have "\<dots> = Inr ''/bin/sh''" by code_simp
  finally show ?thesis .
qed

text \<open>Whatever an attacker does, at most 10001 entries are ever created, and the store grows by no
  more than that.\<close>

theorem creations_are_limited:
  "let t = fold fs_step cs (loaded ns k) in
     newcount t \<le> 10001 \<and> int (length (nodes t)) \<le> int (length (nodes (loaded ns k))) + 10001"
  using vf.inv_reachable [of cs ns k] bounded_run [of "loaded ns k" cs]
  by (simp add: Let_def fs_inv_def bounded_by_def loaded_def)

text \<open>\<open>islink\<close> looks its path up following links, so in no reachable file system does it find a
  link; and on a path that leads nowhere, \<open>isfile\<close> and \<open>islink\<close> raise \<open>TypeError\<close> where
  \<open>isdir\<close> says no.\<close>

theorem type_queries:
  "let t = fold fs_step cs (loaded ns k) in
     fst (islink path t) \<noteq> Inr True \<and>
     (fst (isfile path t) = Inl TypeError \<longleftrightarrow> getfile (frames t) (nodes t) True path = Inr None) \<and>
     (fst (isdir path t) = Inr False \<or> fst (isdir path t) = Inr True)"
proof -
  have "store_ok (nodes (fold fs_step cs (loaded ns k)))"
    using vf.inv_reachable [of cs ns k] by (simp add: fs_inv_def)
  then show ?thesis
    using getfile_no_link
    by (auto simp: Let_def islink_def isfile_def isdir_def has_type_def split: sum.split option.split)
qed

end
