(* ===== verification/UserAuth.thy ===== *)
theory UserAuth
  imports Bytes
begin

text \<open>
  Logging in (\<open>cowrie/core/auth.py\<close>, and the password checker of \<open>cowrie/core/checkers.py\<close>): the
  user database with its rules, and the class that lets an address in after a number of attempts.

  Byte strings and texts are both lists of bytes here; where the code compares one with the other
  the model keeps Python's kinds apart (\<open>pyobj\<close>). Regular expressions are Python's \<open>re\<close>: what a
  pattern finds is the parameter \<open>search\<close>, pattern, case flag and subject.
\<close>

section \<open>The user database\<close>

datatype rule = Literal string | Regex string bool

type_synonym userdb = "((rule \<times> rule) \<times> bool) list"

definition USERDB_DEFAULTS :: "string list" where
  "USERDB_DEFAULTS =
     [''root:x:!root'', ''root:x:!123456'', ''root:x:!/honeypot/i'', ''root:x:*'',
      ''richard:x:*'', ''richard:x:fout'']"

text \<open>
  \<open>re.match(br'/(.+)/(i)?$', rule)\<close>: a slash, something on one line, a slash and perhaps an \<open>i\<close>
  up to the end or a last newline. The middle is as long as it can be.
\<close>

definition newline :: char where
  "newline = CHR 0x0A"

definition one_line :: "string \<Rightarrow> bool" where
  "one_line s = (s \<noteq> [] \<and> newline \<notin> set s)"

definition chop_newline :: "string \<Rightarrow> string" where
  "chop_newline s = (if s \<noteq> [] \<and> last s = newline then butlast s else s)"

text \<open>The middle and the flag, if the text is of the form, read from its end.\<close>

definition regex_parts :: "string \<Rightarrow> (string \<times> bool) option" where
  "regex_parts s =
     (case s of [] \<Rightarrow> None
      | c # body \<Rightarrow>
          if c \<noteq> CHR 0x2F then None
          else if ends_with body ''/'' \<and> one_line (butlast body) then Some (butlast body, False)
          else if ends_with body ''/i'' \<and> one_line (butlast (butlast body)) then
            Some (butlast (butlast body), True)
          else None)"

definition re_or_str :: "string \<Rightarrow> rule" where
  "re_or_str rule = (case regex_parts (chop_newline rule) of
       Some (pattern, i) \<Rightarrow> Regex pattern i
     | None \<Rightarrow> Literal rule)"

definition match_rule :: "(string \<Rightarrow> bool \<Rightarrow> string \<Rightarrow> bool) \<Rightarrow> rule \<Rightarrow> string \<Rightarrow> bool" where
  "match_rule search rule input = (case rule of
       Literal r \<Rightarrow> r = ''*'' \<or> r = input
     | Regex pattern i \<Rightarrow> search pattern i input)"

text \<open>\<open>passwd[0]\<close> of an empty password raises.\<close>

definition adduser :: "string \<Rightarrow> string \<Rightarrow> userdb \<Rightarrow> userdb res" where
  "adduser login passwd db =
     (case passwd of [] \<Rightarrow> Inl IndexError
      | c # cs \<Rightarrow>
          let (policy, pw) = (if c = CHR ''!'' then (False, cs) else (True, passwd))
          in Inr (AList.update (re_or_str login, re_or_str pw) policy db))"

text \<open>\<open>except IndexError: continue\<close> covers the two fields of the line, not \<open>adduser\<close>.\<close>

definition load_line :: "string \<Rightarrow> userdb \<Rightarrow> userdb res" where
  "load_line user db =
     (if starts_with user ''#'' then Inr db
      else case split_str '':'' user of
          login # x # pw # rest \<Rightarrow> adduser login (strip_space pw) db
        | _ \<Rightarrow> Inr db)"

fun load_lines :: "string list \<Rightarrow> userdb \<Rightarrow> userdb res" where
  "load_lines [] db = Inr db"
| "load_lines (user # users) db = bind_res (load_line user db) (load_lines users)"

text \<open>\<open>UserDB()\<close>; \<open>None\<close>: the file could not be read.\<close>

definition UserDB_load :: "string list option \<Rightarrow> userdb res" where
  "UserDB_load file = load_lines (case file of None \<Rightarrow> USERDB_DEFAULTS | Some lines \<Rightarrow> lines) []"

fun UserDB_checklogin ::
  "(string \<Rightarrow> bool \<Rightarrow> string \<Rightarrow> bool) \<Rightarrow> userdb \<Rightarrow> string \<Rightarrow> string \<Rightarrow> bool" where
  "UserDB_checklogin search [] thelogin thepasswd = False"
| "UserDB_checklogin search (((login, passwd), policy) # db) thelogin thepasswd =
     (if match_rule search login thelogin \<and> match_rule search passwd thepasswd then policy
      else UserDB_checklogin search db thelogin thepasswd)"

section \<open>Random admission\<close>

record ipinfo =
  tries :: "int option"
  max_try :: "int option"
  tried :: "string list option"
  info_user :: "string option"
  info_pw :: "string option"

text \<open>
  \<open>AuthRandom\<close> with its \<open>uservar\<close>: the list under \<open>'cache'\<close> and one dictionary per address.
  \<open>saved\<close> is the content of the JSON file, \<open>None\<close> while there is none.
\<close>

record uservar =
  cache :: "string list option"
  ipinfos :: "(string \<times> ipinfo) list"

record auth_random =
  mintry :: int
  maxtry :: int
  maxcache :: int
  user_var :: uservar
  saved :: "uservar option"

definition empty_ipinfo :: ipinfo where
  "empty_ipinfo = \<lparr>tries = None, max_try = None, tried = None, info_user = None, info_pw = None\<rparr>"

definition empty_uservar :: uservar where
  "empty_uservar = \<lparr>cache = None, ipinfos = []\<rparr>"

text \<open>
  \<open>AuthRandom.__init__\<close> with the three parameters of the configuration, if there are three; the
  state of the last instance is read back from its file.
\<close>

definition AuthRandom_init :: "(int \<times> int \<times> int) option \<Rightarrow> uservar option \<Rightarrow> auth_random" where
  "AuthRandom_init pars file =
     (let (lo, hi, cap) = (case pars of None \<Rightarrow> (2, 5, 10) | Some p \<Rightarrow> p);
          hi = (if hi < lo then lo + 1 else hi)
      in \<lparr>mintry = lo, maxtry = hi, maxcache = cap,
          user_var = (case file of None \<Rightarrow> empty_uservar | Some u \<Rightarrow> u), saved = file\<rparr>)"

type_synonym 'a auth_py = "(auth_random, 'a) py"

definition savevars :: "unit auth_py" where
  "savevars = py_modify (\<lambda>s. s\<lparr>saved := Some (user_var s)\<rparr>)"

definition the_cache :: "auth_random \<Rightarrow> string list" where
  "the_cache s = (case cache (user_var s) of None \<Rightarrow> [] | Some c \<Rightarrow> c)"

definition set_cache :: "string list \<Rightarrow> auth_random \<Rightarrow> auth_random" where
  "set_cache c s = s\<lparr>user_var := (user_var s)\<lparr>cache := Some c\<rparr>\<rparr>"

definition the_info :: "string \<Rightarrow> auth_random \<Rightarrow> ipinfo" where
  "the_info ip s = (case map_of (ipinfos (user_var s)) ip of None \<Rightarrow> empty_ipinfo | Some i \<Rightarrow> i)"

definition set_info :: "string \<Rightarrow> ipinfo \<Rightarrow> auth_random \<Rightarrow> auth_random" where
  "set_info ip i s = s\<lparr>user_var := (user_var s)\<lparr>ipinfos := dict_set ip i (ipinfos (user_var s))\<rparr>\<rparr>"

text \<open>A combination found in the cache: the address is let in and remembered with it.\<close>

definition admit_cached :: "string \<Rightarrow> pyobj \<Rightarrow> pyobj \<Rightarrow> bool auth_py" where
  "admit_cached src_ip thelogin thepasswd =
     py_bind (py_modify (\<lambda>s. set_info src_ip ((the_info src_ip s)
         \<lparr>max_try := Some 1, info_user := Some (py_str thelogin), info_pw := Some (py_str thepasswd)\<rparr>) s))
       (\<lambda>_. py_bind savevars (\<lambda>_. py_return True))"

text \<open>\<open>Fill in missing variables\<close>; \<open>drawn\<close> is what \<open>randint\<close> gives.\<close>

definition fill_info :: "int \<Rightarrow> ipinfo \<Rightarrow> ipinfo" where
  "fill_info drawn i =
     i\<lparr>max_try := Some (case max_try i of None \<Rightarrow> drawn | Some m \<Rightarrow> m),
       tries := Some (case tries i of None \<Rightarrow> 0 | Some n \<Rightarrow> n),
       tried := Some (case tried i of None \<Rightarrow> [] | Some t \<Rightarrow> t)\<rparr>"

text \<open>\<open>cache.append(userpass); if len(cache) > maxcache: cache.pop(0)\<close>\<close>

definition push_cache :: "int \<Rightarrow> string \<Rightarrow> string list \<Rightarrow> string list" where
  "push_cache cap userpass c = (if int (length (c @ [userpass])) > cap then tl (c @ [userpass]) else c @ [userpass])"

text \<open>The attempt itself, on the filled dictionary of the address.\<close>

definition count_attempt :: "string \<Rightarrow> pyobj \<Rightarrow> pyobj \<Rightarrow> bool auth_py" where
  "count_attempt src_ip thelogin thepasswd =
     (let userpass = py_str thelogin @ '':'' @ py_str thepasswd in
      py_bind py_get (\<lambda>s.
      let i = the_info src_ip s; attempts = the (tries i) + 1; need = the (max_try i);
          i = i\<lparr>tries := Some attempts\<rparr> in
      if attempts < need then
        py_bind (py_modify (set_info src_ip (i\<lparr>tried := Some (the (tried i) @ [userpass])\<rparr>)))
          (\<lambda>_. py_bind savevars (\<lambda>_. py_return False))
      else if attempts = need then
        py_bind (py_modify (set_info src_ip
            (i\<lparr>info_user := Some (py_str thelogin), info_pw := Some (py_str thepasswd)\<rparr>)))
          (\<lambda>_. py_bind (py_modify (\<lambda>s. set_cache (push_cache (maxcache s) userpass (the_cache s)) s))
            (\<lambda>_. py_bind savevars (\<lambda>_. py_return True)))
      else if info_user i = None \<or> info_pw i = None then
        py_bind (py_modify (set_info src_ip (i\<lparr>tried := Some (the (tried i) @ [userpass]), tries := Some 1\<rparr>)))
          (\<lambda>_. py_bind savevars (\<lambda>_. py_return False))
      else
        py_bind (py_modify (set_info src_ip i))
          (\<lambda>_. py_bind savevars
            (\<lambda>_. py_return (thelogin = PyText (the (info_user i)) \<and> py_str thepasswd = the (info_pw i))))))"

definition AuthRandom_checklogin :: "int \<Rightarrow> pyobj \<Rightarrow> pyobj \<Rightarrow> string \<Rightarrow> bool auth_py" where
  "AuthRandom_checklogin drawn thelogin thepasswd src_ip =
     (let userpass = py_str thelogin @ '':'' @ py_str thepasswd in
      py_bind (py_modify (\<lambda>s. set_cache (the_cache s) s)) (\<lambda>_.
      py_bind py_get (\<lambda>s.
      py_bind (if map_of (ipinfos (user_var s)) src_ip = None
               then py_modify (set_info src_ip (empty_ipinfo\<lparr>tries := Some 0\<rparr>)) else py_return ()) (\<lambda>_.
      if userpass \<in> set (the_cache s) then admit_cached src_ip thelogin thepasswd
      else py_bind (py_modify (\<lambda>s. set_info src_ip (fill_info drawn (the_info src_ip s)) s)) (\<lambda>_.
        py_bind py_get (\<lambda>s.
        if userpass \<in> set (the (tried (the_info src_ip s)))
        then py_bind savevars (\<lambda>_. py_return False)
        else count_attempt src_ip thelogin thepasswd))))))"

section \<open>The password checker\<close>

text \<open>
  \<open>checkUserPass\<close> makes an instance of the configured class for every attempt: a class named in the
  configuration that \<open>auth.py\<close> does not have falls back to \<open>UserDB\<close> (names of that module that are
  no checker classes are left out). \<open>userdb_file\<close> is the user database's
  text, \<open>random_file\<close> the saved variables of \<open>AuthRandom\<close>.
\<close>

datatype auth_class = UseUserDB | UseAuthRandom

definition auth_class_of :: "string option \<Rightarrow> auth_class" where
  "auth_class_of name = (if name = Some ''AuthRandom'' then UseAuthRandom else UseUserDB)"

record auth_world =
  auth_class_option :: "string option"
  random_parameters :: "(int \<times> int \<times> int) option"
  userdb_file :: "string list option"
  random_file :: "uservar option"

definition checkUserPass ::
  "(string \<Rightarrow> bool \<Rightarrow> string \<Rightarrow> bool) \<Rightarrow> int \<Rightarrow> string \<Rightarrow> string \<Rightarrow> string \<Rightarrow> (auth_world, bool) py" where
  "checkUserPass search drawn theusername thepassword ip =
     py_bind py_get (\<lambda>w. case auth_class_of (auth_class_option w) of
         UseUserDB \<Rightarrow> py_lift (bind_res (UserDB_load (userdb_file w))
             (\<lambda>db. Inr (UserDB_checklogin search db theusername thepassword)))
       | UseAuthRandom \<Rightarrow>
           (case AuthRandom_checklogin drawn (PyBytes theusername) (PyBytes thepassword) ip
                   (AuthRandom_init (random_parameters w) (random_file w)) of
              (r, s) \<Rightarrow> py_bind (py_modify (\<lambda>w. w\<lparr>random_file := saved s\<rparr>)) (\<lambda>_. py_lift r)))"

text \<open>\<open>cbCheckPamUser\<close>: the first response that logs in decides.\<close>

fun cbCheckPamUser ::
  "(string \<Rightarrow> bool \<Rightarrow> string \<Rightarrow> bool) \<Rightarrow> int \<Rightarrow> string list \<Rightarrow> string \<Rightarrow> string \<Rightarrow> (auth_world, bool) py" where
  "cbCheckPamUser search drawn [] username ip = py_return False"
| "cbCheckPamUser search drawn (response # responses) username ip =
     py_bind (checkUserPass search drawn username response ip)
       (\<lambda>ok. if ok then py_return True else cbCheckPamUser search drawn responses username ip)"

end
