(* ===== verification/TelnetProxy.thy ===== *)
theory TelnetProxy
  imports UserAuth Bytes
begin

text \<open>
  The telnet proxy's handler between an attacker (the frontend) and a machine (the backend):
  \<open>cowrie/telnet_proxy/handler.py\<close>. It watches the backend for prompts, keeps back what the attacker
  types as name and password, checks it, and logs in to the backend with its own credentials.

  The configured regular expressions are parameters by what they find (\<open>prompts\<close>); writing to
  the two transports and to the tty log is shown as lists of what was written. Closing the tty log,
  which only moves files, is left out.
\<close>

section \<open>Bytes\<close>

text \<open>The loop of \<open>process_backspaces\<close>, with the string built so far.\<close>

fun backspaces_from :: "string \<Rightarrow> string \<Rightarrow> string" where
  "backspaces_from n [] = n"
| "backspaces_from n (c # cs) =
     (if c = CHR 0x7F then backspaces_from (butlast n) cs else backspaces_from (n @ encode_byte c) cs)"

definition process_backspaces :: "string \<Rightarrow> string" where
  "process_backspaces s = backspaces_from [] s"

definition remove_all :: "string \<Rightarrow> string list \<Rightarrow> string" where
  "remove_all s subs = fold (\<lambda>sub n. replace_all sub [] n) subs s"

definition cr :: char where
  "cr = CHR 0x0D"

text \<open>
  \<open>chr(data[data.index(b'\r') + 1]).encode()\<close>: the byte after the first return; it is an error if the
  return is the last byte.
\<close>

definition terminating_char :: "string \<Rightarrow> string res" where
  "terminating_char d = bind_res (index (dropWhile (\<lambda>c. c \<noteq> cr) d) 1) (\<lambda>c. Inr (encode_byte c))"

section \<open>The handler\<close>

text \<open>What the configured expressions find in a packet; \<open>negotiated\<close> is the name (group 2) and the packet
  with the name replaced by the backend's.\<close>

record prompts =
  password_prompt :: "string \<Rightarrow> bool"
  username_prompt :: "string \<Rightarrow> bool"
  negotiated :: "string \<Rightarrow> (string \<times> string) option"

datatype parent = Frontend | Backend

datatype tty_entry = TypeInput string | TypeOutput string

record telnet =
  currentData :: string
  sendData :: bool
  has_client :: bool
  spoofAuthenticationData :: bool
  backendLogin :: string
  backendPassword :: string
  currentCommand :: string
  authStarted :: bool
  authDone :: bool
  usernameState :: string
  inputingLogin :: bool
  passwordState :: string
  inputingPassword :: bool
  waitingLoginEcho :: bool
  prePasswordData :: bool
  backend_buffer :: "string list"
  ttylogEnabled :: bool
  ttylog :: "tty_entry list"
  ttylogSize :: nat
  to_backend :: "string list"
  to_frontend :: "string list"
  commands :: "string list"
  auth_state :: auth_world

type_synonym 'a telnet_py = "(telnet, 'a) py"

definition TelnetHandler_init :: "bool \<Rightarrow> string \<Rightarrow> string \<Rightarrow> bool \<Rightarrow> auth_world \<Rightarrow> telnet" where
  "TelnetHandler_init spoof login pw logging w =
     \<lparr>currentData = [], sendData = True, has_client = False, spoofAuthenticationData = spoof,
      backendLogin = login, backendPassword = pw, currentCommand = [], authStarted = False,
      authDone = False, usernameState = [], inputingLogin = False, passwordState = [],
      inputingPassword = False, waitingLoginEcho = False, prePasswordData = False,
      backend_buffer = [], ttylogEnabled = logging, ttylog = [], ttylogSize = 0, to_backend = [],
      to_frontend = [], commands = [], auth_state = w\<rparr>"

definition setClient :: "telnet \<Rightarrow> telnet" where
  "setClient s = s\<lparr>has_client := True\<rparr>"

text \<open>
  \<open>sendBackend\<close>: without a client the packet waits; otherwise all that wait are written, and the
  log gets the present packet once for each of them.
\<close>

definition log_input :: "string \<Rightarrow> telnet \<Rightarrow> telnet" where
  "log_input data s = (if ttylogEnabled s \<and> authStarted s
     then let clean = replace_all [CHR 0x00] [CHR 0x0A] data
       in s\<lparr>ttylog := ttylog s @ [TypeInput clean], ttylogSize := ttylogSize s + length clean\<rparr>
     else s)"

definition write_backend :: "string \<Rightarrow> string \<Rightarrow> telnet \<Rightarrow> telnet" where
  "write_backend data packet s =
     (let s = log_input data (s\<lparr>to_backend := to_backend s @ [packet]\<rparr>)
      in s\<lparr>backend_buffer := tl (backend_buffer s)\<rparr>)"

definition sendBackend :: "string \<Rightarrow> telnet \<Rightarrow> telnet" where
  "sendBackend data s =
     (let s = s\<lparr>backend_buffer := backend_buffer s @ [data]\<rparr>
      in if \<not> has_client s then s else fold (write_backend data) (backend_buffer s) s)"

definition sendFrontend :: "string \<Rightarrow> telnet \<Rightarrow> telnet" where
  "sendFrontend data s =
     (let s = s\<lparr>to_frontend := to_frontend s @ [data]\<rparr>
      in if ttylogEnabled s \<and> authStarted s then s\<lparr>ttylog := ttylog s @ [TypeOutput data]\<rparr> else s)"

text \<open>\<open>setProcessingStateBackend\<close>\<close>

definition set_state_backend :: "prompts \<Rightarrow> telnet \<Rightarrow> telnet" where
  "set_state_backend re s =
     (let s = (if password_prompt re (currentData s)
               then s\<lparr>authStarted := True, inputingPassword := True, passwordState := []\<rparr> else s);
          s = (if username_prompt re (currentData s)
               then s\<lparr>authStarted := True, inputingLogin := True, usernameState := []\<rparr> else s)
      in s\<lparr>prePasswordData := (length (split_str [CHR 0xFF, CHR 0xFB, CHR 0x01] (currentData s)) > 1)\<rparr>)"

text \<open>\<open>setProcessingStateFrontend\<close>; the name is decoded for the log.\<close>

definition set_state_frontend :: "prompts \<Rightarrow> unit telnet_py" where
  "set_state_frontend re = py_bind py_get (\<lambda>s. case negotiated re (currentData s) of
       None \<Rightarrow> py_return ()
     | Some (name, spoofed) \<Rightarrow>
         py_bind (py_modify (\<lambda>s. s\<lparr>usernameState := name\<rparr>)) (\<lambda>_.
         py_bind (py_lift (py_decode name)) (\<lambda>_.
         py_modify (\<lambda>s. s\<lparr>currentData := spoofed\<rparr>))))"

definition processUsernameInput :: "unit telnet_py" where
  "processUsernameInput =
     py_bind (py_modify (\<lambda>s. s\<lparr>sendData := False,
       usernameState := usernameState s @ remove_all (currentData s) [[cr], [CHR 0x00], [CHR 0x0A]]\<rparr>)) (\<lambda>_.
     py_bind (py_modify (\<lambda>s. sendFrontend (replace_all [CHR 0x00] [CHR 0x0A]
       (replace_all [CHR 0x7F] [CHR 0x08, CHR 0x20, CHR 0x08] (currentData s))) s)) (\<lambda>_.
     py_bind py_get (\<lambda>s. if cr \<notin> set (currentData s) then py_return () else
       py_bind (py_lift (terminating_char (currentData s))) (\<lambda>term.
       py_modify (\<lambda>s. s\<lparr>usernameState := process_backspaces (usernameState s), inputingLogin := False,
         currentData := backendLogin s @ [cr] @ term, sendData := True, waitingLoginEcho := True\<rparr>)))))"

text \<open>
  \<open>processPasswordInput\<close>; \<open>check\<close> is \<open>HoneypotPasswordChecker().checkUserPass\<close> with the attacker's
  address. Both name and password state are byte strings.
\<close>

definition check_login ::
  "(string \<Rightarrow> string \<Rightarrow> (auth_world, bool) py) \<Rightarrow> bool telnet_py" where
  "check_login check = (\<lambda>s. case check (usernameState s) (passwordState s) (auth_state s) of
       (r, w) \<Rightarrow> (r, s\<lparr>auth_state := w\<rparr>))"

definition start_password_input :: "telnet \<Rightarrow> telnet" where
  "start_password_input s =
     (let s = s\<lparr>sendData := False\<rparr> in
      if prePasswordData s then (sendBackend (take 3 (currentData s)) s)\<lparr>prePasswordData := False\<rparr> else s)"

definition processPasswordInput ::
  "(string \<Rightarrow> string \<Rightarrow> (auth_world, bool) py) \<Rightarrow> unit telnet_py" where
  "processPasswordInput check =
     py_bind (py_modify start_password_input) (\<lambda>_.
     py_bind (py_modify (\<lambda>s. s\<lparr>passwordState := passwordState s @ remove_all (currentData s)
         [[CHR 0xFF], [CHR 0xFD], [CHR 0x01], [cr], [CHR 0x00], [CHR 0x0A]]\<rparr>)) (\<lambda>_.
     py_bind py_get (\<lambda>s. if cr \<notin> set (currentData s) then py_return () else
       py_bind (py_lift (terminating_char (currentData s))) (\<lambda>term.
       py_bind (py_modify (\<lambda>s. s\<lparr>passwordState := process_backspaces (passwordState s),
           inputingPassword := False\<rparr>)) (\<lambda>_.
       py_bind (check_login check) (\<lambda>ok.
       py_modify (\<lambda>s. s\<lparr>authDone := (ok \<or> authDone s),
         currentData := (if ok then backendPassword s else backendPassword s @ ''fake'') @ [cr] @ term,
         sendData := True\<rparr>)))))))"

text \<open>The commands an attacker types once he is in.\<close>

definition log_command :: "string \<Rightarrow> telnet \<Rightarrow> telnet" where
  "log_command data s =
     (let s = s\<lparr>currentCommand := currentCommand s @
         replace_all [cr, CHR 0x0A] [] (replace_all [cr, CHR 0x00] [] data)\<rparr>
      in if cr \<in> set data
         then (if currentCommand s \<noteq> [] then s\<lparr>commands := commands s @ [currentCommand s]\<rparr> else s)
           \<lparr>currentCommand := []\<rparr>
         else s)"

definition when_state :: "(telnet \<Rightarrow> bool) \<Rightarrow> unit telnet_py \<Rightarrow> unit telnet_py" where
  "when_state P m = py_bind py_get (\<lambda>s. if P s then m else py_return ())"

definition addPacket ::
  "prompts \<Rightarrow> (string \<Rightarrow> string \<Rightarrow> (auth_world, bool) py) \<Rightarrow> parent \<Rightarrow> string \<Rightarrow> unit telnet_py" where
  "addPacket re check parent data =
     py_bind (py_modify (\<lambda>s. s\<lparr>currentData := data, sendData := True\<rparr>)) (\<lambda>_.
     py_bind (when_state (\<lambda>s. spoofAuthenticationData s \<and> \<not> authDone s)
       (case parent of
          Backend \<Rightarrow> py_bind (py_modify (set_state_backend re)) (\<lambda>_.
            when_state waitingLoginEcho (py_modify (\<lambda>s. s\<lparr>currentData :=
                replace_all (backendLogin s @ [cr, CHR 0x0A]) [] (currentData s),
              waitingLoginEcho := False\<rparr>)))
        | Frontend \<Rightarrow> py_bind (set_state_frontend re) (\<lambda>_.
            py_bind (when_state inputingPassword (processPasswordInput check)) (\<lambda>_.
            when_state inputingLogin processUsernameInput)))) (\<lambda>_.
     py_bind (when_state (\<lambda>s. parent = Frontend \<and> authDone s) (py_modify (log_command data))) (\<lambda>_.
     when_state (\<lambda>s. sendData s \<and> currentData s \<noteq> [])
       (py_modify (\<lambda>s. (case parent of Frontend \<Rightarrow> sendBackend | Backend \<Rightarrow> sendFrontend) (currentData s) s)))))"

end
