(* ===== verification/UserAuthProps.thy ===== *)
theory UserAuthProps
  imports UserAuth
begin

text \<open>
  Properties of the login decisions: the shipped rules, and after which attempts the random class
  lets an address in.
\<close>

section \<open>The user database\<close>

lemma checklogin_first_match:
  "UserDB_checklogin search db u p =
     (case find (\<lambda>((l, w), policy). match_rule search l u \<and> match_rule search w p) db of
        None \<Rightarrow> False | Some (_, policy) \<Rightarrow> policy)"
  by (induction search db u p rule: UserDB_checklogin.induct) auto

lemma default_rules:
  "UserDB_load None = Inr
     [((Literal ''root'', Literal ''root''), False), ((Literal ''root'', Literal ''123456''), False),
      ((Literal ''root'', Regex ''honeypot'' True), False), ((Literal ''root'', Literal ''*''), True),
      ((Literal ''richard'', Literal ''*''), True), ((Literal ''richard'', Literal ''fout''), True)]"
  by code_simp

text \<open>A line whose password field is empty stops the whole load, and with it every login.\<close>

lemma empty_password_line: "UserDB_load (Some [''root:x:'', ''root:x:*'']) = Inl IndexError"
  by code_simp

section \<open>Random admission\<close>

definition combination :: "string \<times> string \<Rightarrow> string" where
  "combination c = py_str (PyBytes (fst c)) @ '':'' @ py_str (PyBytes (snd c))"

text \<open>What the class knows of an address when it decides about an attempt.\<close>

definition known_info :: "int \<Rightarrow> string \<Rightarrow> auth_random \<Rightarrow> ipinfo" where
  "known_info drawn ip s =
     fill_info drawn (case map_of (ipinfos (user_var s)) ip of
       None \<Rightarrow> empty_ipinfo\<lparr>tries := Some 0\<rparr> | Some i \<Rightarrow> i)"

lemma the_cache_set_cache [simp]: "the_cache (set_cache c s) = c"
  by (simp add: the_cache_def set_cache_def)

lemma the_cache_set_info [simp]: "the_cache (set_info ip i s) = the_cache s"
  by (simp add: the_cache_def set_info_def)

lemma the_info_set_info [simp]: "the_info ip (set_info ip' i s) = (if ip = ip' then i else the_info ip s)"
  by (simp add: the_info_def set_info_def)

lemma the_info_set_cache [simp]: "the_info ip (set_cache c s) = the_info ip s"
  by (simp add: the_info_def set_cache_def)

lemma ipinfos_set_cache [simp]: "ipinfos (user_var (set_cache c s)) = ipinfos (user_var s)"
  by (simp add: set_cache_def)

lemma ipinfos_set_info [simp]:
  "map_of (ipinfos (user_var (set_info ip i s))) = (map_of (ipinfos (user_var s)))(ip \<mapsto> i)"
  by (simp add: set_info_def)

lemma maxcache_set [simp]: "maxcache (set_cache c s) = maxcache s" "maxcache (set_info ip i s) = maxcache s"
  by (simp_all add: set_cache_def set_info_def)

lemma savevars_apply [simp]: "savevars s = (Inr (), s\<lparr>saved := Some (user_var s)\<rparr>)"
  by (simp add: savevars_def)

lemma saved_views [simp]:
  "the_cache (s\<lparr>saved := x\<rparr>) = the_cache s" "the_info ip (s\<lparr>saved := x\<rparr>) = the_info ip s"
  by (simp_all add: the_cache_def the_info_def)

text \<open>The class is asked with byte strings, but remembers texts, so nobody is recognised.\<close>

lemma count_attempt_result:
  "fst (count_attempt ip (PyBytes u) pw s) = Inr (the (tries (the_info ip s)) + 1 = the (max_try (the_info ip s)))"
  unfolding count_attempt_def Let_def by simp

lemma admit_cached_result: "fst (admit_cached ip u p s) = Inr True"
  by (simp add: admit_cached_def)

text \<open>The state after the two preparations: the cache exists, and the address is known.\<close>

definition prepared :: "string \<Rightarrow> auth_random \<Rightarrow> auth_random" where
  "prepared ip s = (let s = set_cache (the_cache s) s
     in if map_of (ipinfos (user_var s)) ip = None then set_info ip (empty_ipinfo\<lparr>tries := Some 0\<rparr>) s else s)"

lemma the_cache_prepared [simp]: "the_cache (prepared ip s) = the_cache s"
  by (simp add: prepared_def Let_def)

lemma known_info_prepared: "fill_info drawn (the_info ip (prepared ip s)) = known_info drawn ip s"
  by (auto simp: prepared_def known_info_def Let_def the_info_def split: option.splits)

lemma checklogin_prepared:
  "AuthRandom_checklogin drawn (PyBytes u) (PyBytes p) ip s =
     (if combination (u, p) \<in> set (the_cache s) then admit_cached ip (PyBytes u) (PyBytes p) (prepared ip s)
      else let t = set_info ip (known_info drawn ip s) (prepared ip s) in
        if combination (u, p) \<in> set (the (tried (known_info drawn ip s)))
        then (Inr False, t\<lparr>saved := Some (user_var t)\<rparr>)
        else count_attempt ip (PyBytes u) (PyBytes p) t)"
proof -
  have "(if map_of (ipinfos (user_var t)) ip = None
         then py_modify (set_info ip (empty_ipinfo\<lparr>tries := Some 0\<rparr>)) else py_return ()) t =
      (Inr (), prepared ip s)" if "t = set_cache (the_cache s) s" for t
    by (simp add: prepared_def Let_def that)
  then show ?thesis
    by (simp add: AuthRandom_checklogin_def Let_def combination_def known_info_prepared)
qed

lemma checklogin_result:
  "fst (AuthRandom_checklogin drawn (PyBytes u) (PyBytes p) ip s) =
     Inr (combination (u, p) \<in> set (the_cache s) \<or>
       combination (u, p) \<notin> set (the (tried (known_info drawn ip s))) \<and>
       the (tries (known_info drawn ip s)) + 1 = the (max_try (known_info drawn ip s)))"
  by (simp add: checklogin_prepared count_attempt_result admit_cached_result Let_def)

text \<open>Attempts of one address, one after the other.\<close>

fun attempts :: "int \<Rightarrow> string \<Rightarrow> (string \<times> string) list \<Rightarrow> auth_random \<Rightarrow> bool list" where
  "attempts drawn ip [] s = []"
| "attempts drawn ip ((u, p) # cs) s =
     (case AuthRandom_checklogin drawn (PyBytes u) (PyBytes p) ip s of
        (Inl e, t) \<Rightarrow> []
      | (Inr ok, t) \<Rightarrow> ok # attempts drawn ip cs t)"

text \<open>An address that has tried the combinations \<open>done\<close>, out of \<open>need\<close>.\<close>

definition trying :: "string \<Rightarrow> int \<Rightarrow> string list \<Rightarrow> auth_random \<Rightarrow> bool" where
  "trying ip need xs s \<longleftrightarrow>
     (case map_of (ipinfos (user_var s)) ip of
        None \<Rightarrow> xs = []
      | Some i \<Rightarrow> tries i = Some (int (length xs)) \<and> max_try i = Some need \<and> tried i = Some xs)"

lemma trying_step:
  assumes "trying ip need xs s" and "combination (u, p) \<notin> set (the_cache s)"
    and "combination (u, p) \<notin> set xs" and "int (length xs) + 1 < need"
  shows "\<exists>t. AuthRandom_checklogin need (PyBytes u) (PyBytes p) ip s = (Inr False, t) \<and>
     trying ip need (xs @ [combination (u, p)]) t \<and> the_cache t = the_cache s"
proof -
  define i where "i = known_info need ip s"
  have i: "tries i = Some (int (length xs))" "max_try i = Some need" "tried i = Some xs"
    using assms(1) by (auto simp: i_def known_info_def trying_def fill_info_def empty_ipinfo_def split: option.splits)
  define t where "t = set_info ip (i\<lparr>tries := Some (int (length xs) + 1),
      tried := Some (xs @ [combination (u, p)])\<rparr>) (set_info ip i (prepared ip s))"
  have "AuthRandom_checklogin need (PyBytes u) (PyBytes p) ip s = (Inr False, t\<lparr>saved := Some (user_var t)\<rparr>)"
    using assms(2-4) i
    by (simp add: checklogin_prepared i_def [symmetric] count_attempt_def Let_def t_def combination_def)
  moreover have "trying ip need (xs @ [combination (u, p)]) (t\<lparr>saved := Some (user_var t)\<rparr>)"
    using i by (simp add: trying_def t_def)
  ultimately show ?thesis by (simp add: t_def)
qed

lemma trying_last:
  assumes "trying ip need xs s" and "combination (u, p) \<notin> set (the_cache s)"
    and "combination (u, p) \<notin> set xs" and "int (length xs) + 1 = need"
  shows "fst (AuthRandom_checklogin need (PyBytes u) (PyBytes p) ip s) = Inr True"
  using assms
  by (cases "map_of (ipinfos (user_var s)) ip")
    (auto simp: checklogin_result known_info_def trying_def fill_info_def empty_ipinfo_def)

lemma trying_run:
  assumes "trying ip need xs s" and "cs \<noteq> []" and "int (length xs) + int (length cs) = need"
    and "distinct (xs @ map combination cs)" and "list_all (\<lambda>c. combination c \<notin> set (the_cache s)) cs"
  shows "attempts need ip cs s = replicate (length cs - 1) False @ [True]"
  using assms
proof (induction cs arbitrary: xs s)
  case (Cons c cs)
  obtain u p where c: "c = (u, p)" by (cases c)
  show ?case
  proof (cases "cs = []")
    case True
    with Cons.prems c trying_last [of ip need xs s u p] show ?thesis
      by (auto split: prod.split sum.split)
  next
    case False
    with Cons.prems c obtain t where t: "AuthRandom_checklogin need (PyBytes u) (PyBytes p) ip s = (Inr False, t)"
        "trying ip need (xs @ [combination c]) t" "the_cache t = the_cache s"
      using trying_step [of ip need xs s u p] by (cases cs) auto
    have "attempts need ip cs t = replicate (length cs - 1) False @ [True]"
      using Cons.prems t False by (intro Cons.IH [OF t(2)]) auto
    with t c False show ?thesis by (cases cs) simp_all
  qed
qed simp

section \<open>The cache\<close>

fun auth_step :: "int \<times> string \<times> string \<times> string \<Rightarrow> auth_random \<Rightarrow> auth_random" where
  "auth_step (drawn, u, p, ip) s = snd (AuthRandom_checklogin drawn (PyBytes u) (PyBytes p) ip s)"

definition cache_inv :: "auth_random \<Rightarrow> bool" where
  "cache_inv s \<longleftrightarrow> int (length (the_cache s)) \<le> max 0 (maxcache s)"

lemma push_cache_length: "int (length c) \<le> max 0 cap \<Longrightarrow> int (length (push_cache cap x c)) \<le> max 0 cap"
  by (auto simp: push_cache_def)

lemma cache_inv_step: "cache_inv s \<Longrightarrow> cache_inv (auth_step a s)"
proof -
  assume inv: "cache_inv s"
  obtain drawn u p ip where a: "a = (drawn, u, p, ip)" by (cases a) auto
  have c: "the_cache (snd (count_attempt ip x y t)) = the_cache t \<or>
      (\<exists>z. the_cache (snd (count_attempt ip x y t)) = push_cache (maxcache t) z (the_cache t))"
    "maxcache (snd (count_attempt ip x y t)) = maxcache t" for x y t
    by (auto simp: count_attempt_def Let_def)
  have m: "maxcache (prepared ip s) = maxcache s" by (simp add: prepared_def Let_def)
  show ?thesis
    using inv c [of "PyBytes u" "PyBytes p" "set_info ip (known_info drawn ip s) (prepared ip s)"] m
    by (auto simp: a checklogin_prepared cache_inv_def Let_def admit_cached_def push_cache_length)
qed

interpretation va: transition_system "AuthRandom_init pars None" auth_step cache_inv for pars
  by unfold_locales
    (simp_all add: cache_inv_step, simp add: cache_inv_def AuthRandom_init_def the_cache_def
      empty_uservar_def split: prod.split option.split)

section \<open>Properties\<close>

text \<open>With no user database of its own the honeypot admits exactly \<open>root\<close> with any password but
  \<open>root\<close>, \<open>123456\<close> and those the pattern \<open>honeypot\<close> finds whatever their case, and \<open>richard\<close>.\<close>

theorem default_logins:
  "case UserDB_load None of
     Inl e \<Rightarrow> False
   | Inr db \<Rightarrow> UserDB_checklogin search db u p \<longleftrightarrow>
       u = ''richard'' \<or>
       (u = ''root'' \<and> p \<noteq> ''root'' \<and> p \<noteq> ''123456'' \<and> \<not> search ''honeypot'' True p)"
  by (auto simp: default_rules match_rule_def)

text \<open>C29: Whatever was tried before, an attempt under random admission is let in exactly if its
  combination is cached, or it is new and completes the number the address needs. Having logged in
  before never counts: the remembered name is compared with bytes.\<close>

theorem random_login_iff:
  "fst (AuthRandom_checklogin drawn (PyBytes u) (PyBytes p) ip s) = Inr True \<longleftrightarrow>
     combination (u, p) \<in> set (the_cache s) \<or>
     (combination (u, p) \<notin> set (the (tried (known_info drawn ip s))) \<and>
      the (tries (known_info drawn ip s)) + 1 = the (max_try (known_info drawn ip s)))"
  by (simp add: checklogin_result)

text \<open>A new address for which \<open>randint\<close> draws \<open>n\<close> is refused for its first \<open>n - 1\<close> different
  combinations that are not cached and admitted with the \<open>n\<close>th.\<close>

theorem admitted_at_last:
  assumes "map_of (ipinfos (user_var s)) ip = None" and "cs \<noteq> []" and "drawn = int (length cs)"
    and "distinct (map combination cs)" and "list_all (\<lambda>c. combination c \<notin> set (the_cache s)) cs"
  shows "attempts drawn ip cs s = replicate (length cs - 1) False @ [True]"
  using assms by (intro trying_run [where xs = "[]"]) (simp_all add: trying_def)

theorem admitted_at_last_witness:
  "attempts 3 ''10.0.0.1'' [(''root'', ''a''), (''root'', ''b''), (''admin'', ''a'')]
     (AuthRandom_init None None) = [False, False, True]"
proof -
  let ?cs = "[(''root'', ''a''), (''root'', ''b''), (''admin'', ''a'')]"
  have "distinct (map combination ?cs)" by code_simp
  moreover have "map_of (ipinfos (user_var (AuthRandom_init None None))) ''10.0.0.1'' = None" by code_simp
  moreover have "list_all (\<lambda>c. combination c \<notin> set (the_cache (AuthRandom_init None None))) ?cs" by code_simp
  ultimately show ?thesis
    using admitted_at_last [of "AuthRandom_init None None" "''10.0.0.1''" ?cs 3] by simp
qed

end
