(* ===== verification/TelnetProxyProps.thy ===== *)
theory TelnetProxyProps
  imports TelnetProxy UserAuthProps
begin

text \<open>
  What the telnet proxy passes on: nothing of what an attacker types as a password, and the right
  credentials only after the checker has admitted him.
\<close>

lemma dropWhile_cr: "cr \<notin> set a \<Longrightarrow> dropWhile (\<lambda>c. c \<noteq> cr) (a @ cr # b) = cr # b"
  by (induction a) auto

lemma terminating_char_at: "cr \<notin> set a \<Longrightarrow> terminating_char (a @ cr # c # b) = Inr (encode_byte c)"
  by (simp add: terminating_char_def dropWhile_cr index_def)

lemma terminating_char_end: "cr \<notin> set a \<Longrightarrow> terminating_char (a @ [cr]) = Inl IndexError"
  by (simp add: terminating_char_def dropWhile_cr index_def)

lemma log_input_fields [simp]:
  "to_backend (log_input d s) = to_backend s" "backend_buffer (log_input d s) = backend_buffer s"
  "to_frontend (log_input d s) = to_frontend s" "authDone (log_input d s) = authDone s"
  "passwordState (log_input d s) = passwordState s" "inputingPassword (log_input d s) = inputingPassword s"
  "auth_state (log_input d s) = auth_state s" "commands (log_input d s) = commands s"
  "inputingLogin (log_input d s) = inputingLogin s" "has_client (log_input d s) = has_client s"
  by (simp_all add: log_input_def Let_def)

lemma write_backend_fields [simp]:
  "to_backend (write_backend d p s) = to_backend s @ [p]"
  "backend_buffer (write_backend d p s) = tl (backend_buffer s)"
  "to_frontend (write_backend d p s) = to_frontend s" "authDone (write_backend d p s) = authDone s"
  "passwordState (write_backend d p s) = passwordState s"
  "inputingPassword (write_backend d p s) = inputingPassword s"
  "auth_state (write_backend d p s) = auth_state s" "commands (write_backend d p s) = commands s"
  by (simp_all add: write_backend_def Let_def)

text \<open>With a client nothing waits, and a packet is written as it comes.\<close>

lemma sendBackend_now:
  "has_client s \<Longrightarrow> backend_buffer s = [] \<Longrightarrow>
     sendBackend d s = write_backend d d (s\<lparr>backend_buffer := [d]\<rparr>)"
  by (simp add: sendBackend_def Let_def)

text \<open>Packets that come before the client does are written in their order with the first one after.\<close>

lemma fold_write_backend:
  "to_backend (fold (write_backend d) ps s) = to_backend s @ ps"
  by (induction ps arbitrary: s) simp_all

lemma waiting_packets_in_order:
  "has_client s \<Longrightarrow> to_backend (sendBackend d s) = to_backend s @ backend_buffer s @ [d]"
  by (simp add: sendBackend_def Let_def fold_write_backend)

section \<open>Who is let in\<close>

text \<open>A computation can only set \<open>authDone\<close> if a check succeeded.\<close>

definition admits :: "(string \<Rightarrow> string \<Rightarrow> (auth_world, bool) py) \<Rightarrow> bool" where
  "admits check \<longleftrightarrow> (\<exists>u p w. fst (check u p w) = Inr True)"

definition only_checked :: "bool \<Rightarrow> telnet \<Rightarrow> telnet \<Rightarrow> bool" where
  "only_checked b s t \<longleftrightarrow> (authDone t \<longrightarrow> authDone s \<or> b)"

lemma only_checked_preorder: "preorder_on_states (only_checked b)"
  by (auto simp: preorder_on_states_def reflp_def transp_def only_checked_def)

lemma only_checked_modify: "(\<And>s. authDone (f s) = authDone s) \<Longrightarrow> keeps (only_checked b) (py_modify f)"
  by (rule keeps_modify) (simp add: only_checked_def)

lemma authDone_send [simp]:
  "authDone (sendBackend d s) = authDone s" "authDone (sendFrontend d s) = authDone s"
proof -
  have "authDone (fold (write_backend d) ps s) = authDone s" for ps s
    by (induction ps arbitrary: s) auto
  then show "authDone (sendBackend d s) = authDone s" by (simp add: sendBackend_def Let_def)
qed (simp add: sendFrontend_def Let_def)

lemma only_checked_password: "keeps (only_checked (admits check)) (processPasswordInput check)"
proof -
  define tail where "tail tc = py_bind (check_login check) (\<lambda>ok.
       py_modify (\<lambda>s. s\<lparr>authDone := (ok \<or> authDone s),
         currentData := (if ok then backendPassword s else backendPassword s @ ''fake'') @ [cr] @ tc,
         sendData := True\<rparr>))" for tc
  have "keeps (only_checked (admits check)) (tail tc)" for tc
  proof -
    have "admits check" if "check u p w = (Inr True, v)" for u p w v
      unfolding admits_def using that by (metis fst_conv)
    then show ?thesis
      by (auto simp: keeps_def tail_def check_login_def only_checked_def split: prod.splits sum.splits)
        metis+
  qed
  then show ?thesis
    unfolding processPasswordInput_def tail_def [symmetric]
    by (intro keeps_intros only_checked_preorder only_checked_modify) (simp_all add: start_password_input_def Let_def)
qed

lemma only_checked_when:
  "keeps (only_checked b) m \<Longrightarrow> keeps (only_checked b) (when_state P m)"
  unfolding when_state_def by (intro keeps_intros only_checked_preorder)

lemma only_checked_packet: "keeps (only_checked (admits check)) (addPacket re check parent data)"
proof -
  have u: "keeps (only_checked (admits check)) processUsernameInput"
    unfolding processUsernameInput_def
    by (intro keeps_intros only_checked_preorder only_checked_modify) simp_all
  have f: "keeps (only_checked (admits check)) (set_state_frontend re)"
    unfolding set_state_frontend_def
    by (intro keeps_intros only_checked_preorder only_checked_modify) simp_all
  show ?thesis
    unfolding addPacket_def
    by (cases parent; simp only: parent.case)
      (intro keeps_intros only_checked_preorder only_checked_modify only_checked_when
        only_checked_password u f; simp add: set_state_backend_def log_command_def Let_def)+
qed

lemma admitted_only_if_checked:
  "authDone (fold (\<lambda>(parent, data) s. snd (addPacket re check parent data s)) packets s) \<Longrightarrow>
     authDone s \<or> admits check"
proof (induction packets arbitrary: s)
  case (Cons p ps)
  obtain parent data where p: "p = (parent, data)" by (cases p)
  from Cons p have "authDone (snd (addPacket re check parent data s)) \<or> admits check" by simp
  with keepsD [OF only_checked_packet, of check s re parent data] show ?case
    by (auto simp: only_checked_def)
qed simp

section \<open>What reaches the backend\<close>

text \<open>The state in which the proxy waits for the end of a password.\<close>

definition awaiting_password :: "telnet \<Rightarrow> bool" where
  "awaiting_password s \<longleftrightarrow> spoofAuthenticationData s \<and> \<not> authDone s \<and> inputingPassword s \<and>
     \<not> inputingLogin s \<and> has_client s \<and> backend_buffer s = []"

definition control_bytes :: "string list" where
  "control_bytes = [[CHR 0xFF], [CHR 0xFD], [CHR 0x01], [cr], [CHR 0x00], [CHR 0x0A]]"

text \<open>What was typed before the prompt's negotiation is answered still goes out: three bytes at most.\<close>

definition preamble :: "telnet \<Rightarrow> string \<Rightarrow> string list" where
  "preamble s data = (if prePasswordData s then [take 3 data] else [])"

lemma log_command_fields [simp]:
  "sendData (log_command d s) = sendData s" "currentData (log_command d s) = currentData s"
  "to_backend (log_command d s) = to_backend s" "has_client (log_command d s) = has_client s"
  "backend_buffer (log_command d s) = backend_buffer s" "authDone (log_command d s) = authDone s"
  "passwordState (log_command d s) = passwordState s" "to_frontend (log_command d s) = to_frontend s"
  "inputingPassword (log_command d s) = inputingPassword s"
  by (simp_all add: log_command_def Let_def)

text \<open>The state before the password is taken from the packet.\<close>

definition with_preamble :: "telnet \<Rightarrow> string \<Rightarrow> telnet" where
  "with_preamble s data = start_password_input (s\<lparr>currentData := data, sendData := True\<rparr>)"

lemma sendBackend_fields [simp]:
  "currentData (sendBackend d s) = currentData s" "sendData (sendBackend d s) = sendData s"
  "passwordState (sendBackend d s) = passwordState s" "usernameState (sendBackend d s) = usernameState s"
  "auth_state (sendBackend d s) = auth_state s" "backendPassword (sendBackend d s) = backendPassword s"
  "has_client (sendBackend d s) = has_client s" "inputingLogin (sendBackend d s) = inputingLogin s"
  "inputingPassword (sendBackend d s) = inputingPassword s" "to_frontend (sendBackend d s) = to_frontend s"
proof -
  define same where "same = (\<lambda>t :: telnet. currentData t = currentData s \<and> sendData t = sendData s \<and>
      passwordState t = passwordState s \<and> usernameState t = usernameState s \<and>
      auth_state t = auth_state s \<and> backendPassword t = backendPassword s \<and>
      has_client t = has_client s \<and> inputingLogin t = inputingLogin s \<and>
      inputingPassword t = inputingPassword s \<and> to_frontend t = to_frontend s)"
  have step: "same (write_backend d p t)" if "same t" for p t
    using that by (simp add: same_def write_backend_def log_input_def Let_def)
  have all: "same (fold (write_backend d) ps t)" if "same t" for ps t
    using that by (induction ps arbitrary: t) (simp_all add: step)
  have start: "same (s\<lparr>backend_buffer := x\<rparr>)" for x by (simp add: same_def)
  have "same (sendBackend d s)"
    unfolding sendBackend_def Let_def using all [OF start] start by (auto simp del: fold_append)
  then show "currentData (sendBackend d s) = currentData s" "sendData (sendBackend d s) = sendData s"
    "passwordState (sendBackend d s) = passwordState s" "usernameState (sendBackend d s) = usernameState s"
    "auth_state (sendBackend d s) = auth_state s" "backendPassword (sendBackend d s) = backendPassword s"
    "has_client (sendBackend d s) = has_client s" "inputingLogin (sendBackend d s) = inputingLogin s"
    "inputingPassword (sendBackend d s) = inputingPassword s" "to_frontend (sendBackend d s) = to_frontend s"
    by (simp_all add: same_def)
qed

lemma with_preamble_fields:
  assumes "awaiting_password s"
  shows "currentData (with_preamble s data) = data" "sendData (with_preamble s data) = False"
    "to_backend (with_preamble s data) = to_backend s @ preamble s data"
    "passwordState (with_preamble s data) = passwordState s" "usernameState (with_preamble s data) = usernameState s"
    "auth_state (with_preamble s data) = auth_state s" "backendPassword (with_preamble s data) = backendPassword s"
    "has_client (with_preamble s data)" "backend_buffer (with_preamble s data) = []"
    "\<not> inputingLogin (with_preamble s data)" "\<not> authDone (with_preamble s data)"
    "inputingPassword (with_preamble s data)" "to_frontend (with_preamble s data) = to_frontend s"
  using assms
  by (simp_all add: with_preamble_def start_password_input_def preamble_def Let_def awaiting_password_def waiting_packets_in_order)
    (simp_all add: sendBackend_now)

lemma password_packet:
  assumes s: "awaiting_password s" and n: "negotiated re data = None"
    and data: "data = a @ cr # c # b" "cr \<notin> set a"
    and typed: "typed = process_backspaces (passwordState s @ remove_all data control_bytes)"
    and check: "check (usernameState s) typed (auth_state s) = (Inr ok, w)"
  shows "\<exists>t. addPacket re check Frontend data s = (Inr (), t) \<and>
     to_backend t = to_backend s @ preamble s data @
       [(if ok then backendPassword s else backendPassword s @ ''fake'') @ [cr] @ encode_byte c] \<and>
     authDone t = ok \<and> passwordState t = typed \<and> \<not> inputingPassword t \<and> to_frontend t = to_frontend s"
proof -
  note f = with_preamble_fields [OF s, of data]
  have cr: "cr \<in> set data" by (simp add: data)
  have p: "processPasswordInput check (s\<lparr>currentData := data, sendData := True\<rparr>) =
      (Inr (), (with_preamble s data)\<lparr>passwordState := typed, inputingPassword := False, auth_state := w,
         authDone := ok,
         currentData := (if ok then backendPassword s else backendPassword s @ ''fake'') @ [cr] @ encode_byte c,
         sendData := True\<rparr>)"
    using check f cr terminating_char_at [OF data(2), of c b] data(1)
    by (simp add: processPasswordInput_def check_login_def with_preamble_def [symmetric] typed
        control_bytes_def)
  show ?thesis
    using s n f p
    by (auto simp: addPacket_def when_state_def set_state_frontend_def awaiting_password_def
        waiting_packets_in_order)
qed

section \<open>A concrete session\<close>

definition ex_prompts :: prompts where
  "ex_prompts = \<lparr>password_prompt = \<lambda>d. d = ''Password: '', username_prompt = \<lambda>d. d = ''login: '',
     negotiated = \<lambda>d. None\<rparr>"

definition ex_auth :: auth_world where
  "ex_auth = \<lparr>auth_class_option = None, random_parameters = None, userdb_file = None, random_file = None\<rparr>"

text \<open>The checker with the shipped rules, for a pattern that is found nowhere.\<close>

definition ex_check :: "string \<Rightarrow> string \<Rightarrow> (auth_world, bool) py" where
  "ex_check u p = checkUserPass (\<lambda>pattern i t. False) 2 u p ''10.0.0.1''"

definition ex_telnet :: telnet where
  "ex_telnet = (setClient (TelnetHandler_init True ''honey'' ''secret'' False ex_auth))
     \<lparr>usernameState := ''root'', inputingPassword := True, authStarted := True\<rparr>"

lemma ex_check_root: "ex_check ''root'' ''abc'' ex_auth = (Inr True, ex_auth)"
  by (simp add: ex_check_def checkUserPass_def ex_auth_def auth_class_of_def default_rules match_rule_def)

text \<open>
  With the flags of both prompts set, the packet that ends the password is treated as a name as well,
  and the backend's own password is echoed to the attacker.
\<close>

lemma backend_password_echoed:
  "to_frontend (snd (addPacket ex_prompts (\<lambda>u p w. (Inr False, w)) Frontend (''x'' @ [cr, CHR 0x00])
     (ex_telnet\<lparr>inputingLogin := True\<rparr>))) = [''secretfake'' @ [cr, CHR 0x0A]]"
  by code_simp

text \<open>The packet that completes a login is logged as the first command.\<close>

lemma password_logged_as_command:
  "commands (snd (addPacket ex_prompts (\<lambda>u p w. (Inr True, w)) Frontend (''pw'' @ [cr, CHR 0x00]) ex_telnet))
     = [''pw'']"
  by code_simp

text \<open>A return at the end of a packet raises: the byte after it is read before it is there.\<close>

lemma return_at_end_raises:
  "fst (addPacket ex_prompts (\<lambda>u p w. (Inr True, w)) Frontend (''pw'' @ [cr]) ex_telnet) = Inl IndexError"
  by code_simp

section \<open>Properties\<close>

text \<open>C8: While the proxy waits for a password, the packet that ends it is never passed on: the backend
  gets the proxy's own password if the checker admits name and typed password, and a wrong one if
  not (with the byte that ended the line, and at most three bytes of negotiation before), the
  session counts as authenticated exactly in the first case, and the attacker sees nothing.\<close>

theorem typed_password_replaced:
  assumes "awaiting_password s" and "negotiated re data = None"
    and "data = a @ cr # c # b" and "cr \<notin> set a"
    and "typed = process_backspaces (passwordState s @ remove_all data control_bytes)"
    and "check (usernameState s) typed (auth_state s) = (Inr ok, w)"
  shows "case addPacket re check Frontend data s of (r, t) \<Rightarrow>
     r = Inr () \<and>
     to_backend t = to_backend s @ preamble s data @
       [(if ok then backendPassword s else backendPassword s @ ''fake'') @ [cr] @ encode_byte c] \<and>
     authDone t = ok \<and> passwordState t = typed \<and> to_frontend t = to_frontend s"
  using password_packet [where s = s and check = check and c = c and a = a and b = b and ok = ok, OF assms]
  by auto

theorem typed_password_replaced_witness:
  "case addPacket ex_prompts ex_check Frontend (''abd'' @ [CHR 0x7F] @ ''c'' @ [cr, CHR 0x00]) ex_telnet of (r, t) \<Rightarrow>
     r = Inr () \<and> to_backend t = [''secret'' @ [cr, CHR 0x00]] \<and> authDone t \<and> passwordState t = ''abc''"
proof -
  let ?d = "''abd'' @ [CHR 0x7F] @ ''c'' @ [cr, CHR 0x00]"
  have s: "awaiting_password ex_telnet" by code_simp
  have d: "?d = (''abd'' @ [CHR 0x7F] @ ''c'') @ cr # CHR 0x00 # []" "cr \<notin> set (''abd'' @ [CHR 0x7F] @ ''c'')"
    by (simp_all add: cr_def)
  have t: "''abc'' = process_backspaces (passwordState ex_telnet @ remove_all ?d control_bytes)" by code_simp
  have c: "ex_check (usernameState ex_telnet) ''abc'' (auth_state ex_telnet) = (Inr True, ex_auth)"
    using ex_check_root by (simp add: ex_telnet_def setClient_def TelnetHandler_init_def)
  have e: "to_backend ex_telnet = []" "preamble ex_telnet ?d = []" "backendPassword ex_telnet = ''secret''"
      "encode_byte (CHR 0x00) = [CHR 0x00]"
    by code_simp+
  have n: "negotiated ex_prompts ?d = None" by (simp add: ex_prompts_def)
  show ?thesis
    using typed_password_replaced [where check = ex_check and c = "CHR 0x00" and b = "[]" and ok = True,
        OF s n d t c] unfolding e by auto
qed



end
