(* ===== verification/SshTerminal.thy ===== *)
theory SshTerminal
  imports Bytes
begin

text \<open>
  The terminal and command sessions of the SSH proxy
  (\<open>cowrie/ssh_proxy/protocols/term.py\<close>, \<open>exec_term.py\<close>): the proxy follows the keys an attacker
  presses, and what the machine answers, to log the command lines he enters. The tty log is the
  list of what is written to it; closing it, which moves files, is left out.
\<close>

section \<open>The terminal\<close>

datatype side = SERVER | CLIENT

datatype tty_record = TtyInput string | TtyOutput string

record terminal =
  command :: string
  pointer :: int
  tabPress :: bool
  upArrow :: bool
  tty_enabled :: bool
  tty_size :: nat
  tty_log :: "tty_record list"
  entered :: "string list"

type_synonym 'a term_py = "(terminal, 'a) py"

definition Term_init :: "bool \<Rightarrow> terminal" where
  "Term_init enabled = \<lparr>command = [], pointer = 0, tabPress = False, upArrow = False,
     tty_enabled = enabled, tty_size = 0, tty_log = [], entered = []\<rparr>"

abbreviation TAB :: char where "TAB \<equiv> CHR 0x09"
abbreviation BS :: char where "BS \<equiv> CHR 0x08"
abbreviation DEL :: char where "DEL \<equiv> CHR 0x7F"
abbreviation RET :: char where "RET \<equiv> CHR 0x0D"
abbreviation LF :: char where "LF \<equiv> CHR 0x0A"
abbreviation ETX :: char where "ETX \<equiv> CHR 0x03"
abbreviation BEL :: char where "BEL \<equiv> CHR 0x07"
abbreviation ESC :: char where "ESC \<equiv> CHR 0x1B"

text \<open>\<open>command.decode('ascii')\<close> for the log\<close>

definition log_entered :: "unit term_py" where
  "log_entered = py_bind py_get (\<lambda>t.
     if command t = [] then py_return ()
     else if ascii (command t) then py_modify (\<lambda>t. t\<lparr>entered := entered t @ [command t]\<rparr>)
     else py_raise UnicodeDecodeError)"

definition backspace :: "terminal \<Rightarrow> terminal" where
  "backspace t = (if pointer t > 0
     then t\<lparr>command := slice_to (command t) (pointer t - 1) @ slice_from (command t) (pointer t),
            pointer := pointer t - 1\<rparr>
     else t)"

definition insert_key :: "char \<Rightarrow> terminal \<Rightarrow> terminal" where
  "insert_key c t = t\<lparr>command := slice_to (command t) (pointer t) @ [c] @ slice_from (command t) (pointer t),
     pointer := pointer t + 1\<rparr>"

text \<open>The loop over what the attacker sends.\<close>

function server_keys :: "string \<Rightarrow> unit term_py" where
  "server_keys [] = py_return ()"
| "server_keys (c # cs) =
     (if c = TAB then py_bind (py_modify (\<lambda>t. t\<lparr>tabPress := True\<rparr>)) (\<lambda>_. server_keys cs)
      else if c = DEL \<or> c = BS then py_bind (py_modify backspace) (\<lambda>_. server_keys cs)
      else if c = RET \<or> c = ETX \<or> c = LF then
        py_bind (if c = ETX then py_modify (\<lambda>t. t\<lparr>command := command t @ ''^C''\<rparr>) else py_return ()) (\<lambda>_.
        py_bind log_entered (\<lambda>_.
        py_bind (py_modify (\<lambda>t. t\<lparr>command := [], pointer := 0\<rparr>)) (\<lambda>_. server_keys cs)))
      else if take 3 (c # cs) = ESC # ''OH'' then
        py_bind (py_modify (\<lambda>t. t\<lparr>pointer := 0\<rparr>)) (\<lambda>_. server_keys (drop 2 cs))
      else if take 3 (c # cs) = ESC # ''OF'' then
        py_bind (py_modify (\<lambda>t. t\<lparr>pointer := int (length (command t))\<rparr>)) (\<lambda>_. server_keys (drop 2 cs))
      else if take 3 (c # cs) = ESC # ''[C'' then
        py_bind (py_modify (\<lambda>t. if pointer t \<noteq> int (length (command t)) then t\<lparr>pointer := pointer t + 1\<rparr> else t))
          (\<lambda>_. server_keys (drop 2 cs))
      else if take 3 (c # cs) = ESC # ''[D'' then
        py_bind (py_modify (\<lambda>t. if pointer t \<noteq> 0 then t\<lparr>pointer := pointer t - 1\<rparr> else t))
          (\<lambda>_. server_keys (drop 2 cs))
      else if take 3 (c # cs) = ESC # ''[A'' \<or> take 3 (c # cs) = ESC # ''[B'' then
        py_bind (py_modify (\<lambda>t. t\<lparr>upArrow := True\<rparr>)) (\<lambda>_. server_keys (drop 2 cs))
      else py_bind (py_modify (insert_key c)) (\<lambda>_. server_keys cs))"
  by pat_completeness auto
termination by (relation "measure length") auto

text \<open>
  The loop over what the machine sends after an arrow key. \<open>self.data[3]\<close> is a number, which is
  never equal to \<open>b'P'\<close>, and raises where there is no fourth byte.
\<close>

function client_keys :: "string \<Rightarrow> unit term_py" where
  "client_keys [] = py_return ()"
| "client_keys (c # cs) =
     (if c = BS then
        py_bind (py_modify (\<lambda>t. t\<lparr>command := butlast (command t), pointer := pointer t - 1\<rparr>)) (\<lambda>_. client_keys cs)
      else if take 3 (c # cs) = ESC # ''[K'' then
        py_bind (py_modify (\<lambda>t. t\<lparr>command := slice_to (command t) (pointer t)\<rparr>)) (\<lambda>_. client_keys (drop 2 cs))
      else if c = RET then py_bind (py_modify (\<lambda>t. t\<lparr>pointer := 0\<rparr>)) (\<lambda>_. client_keys cs)
      else if take 3 (c # cs) = ESC # ''[C'' then
        py_bind (py_modify (\<lambda>t. t\<lparr>pointer := pointer t + 1\<rparr>)) (\<lambda>_. client_keys (drop 2 cs))
      else if take 2 (c # cs) = ESC # ''['' \<and> length cs < 3 then py_raise IndexError
      else if c \<noteq> BEL \<and> c \<noteq> RET then py_bind (py_modify (insert_key c)) (\<lambda>_. client_keys cs)
      else py_bind (py_modify (\<lambda>t. t\<lparr>pointer := pointer t + 1\<rparr>)) (\<lambda>_. client_keys cs))"
  by pat_completeness auto
termination by (relation "measure length") auto

definition tty_write :: "(string \<Rightarrow> tty_record) \<Rightarrow> string \<Rightarrow> terminal \<Rightarrow> terminal" where
  "tty_write kind payload t = (if tty_enabled t
     then t\<lparr>tty_size := tty_size t + length payload, tty_log := tty_log t @ [kind payload]\<rparr> else t)"

definition tab_answer :: "string \<Rightarrow> terminal \<Rightarrow> terminal" where
  "tab_answer data t = (if tabPress t
     then (if \<not> starts_with data [RET] \<and> data \<noteq> [BEL] then t\<lparr>command := command t @ data\<rparr> else t)
       \<lparr>tabPress := False\<rparr>
     else t)"

definition term_parse_packet :: "side \<Rightarrow> string \<Rightarrow> unit term_py" where
  "term_parse_packet parent payload = (case parent of
       SERVER \<Rightarrow> py_bind (server_keys payload) (\<lambda>_. py_modify (tty_write TtyOutput payload))
     | CLIENT \<Rightarrow>
         py_bind (py_modify (tab_answer payload)) (\<lambda>_.
         py_bind (py_bind py_get (\<lambda>t. if upArrow t
             then py_bind (client_keys payload) (\<lambda>_. py_modify (\<lambda>t. t\<lparr>upArrow := False\<rparr>))
             else py_return ())) (\<lambda>_.
         py_modify (tty_write TtyInput payload))))"

section \<open>A single command\<close>

record exec_session =
  exec_enabled :: bool
  exec_size :: nat
  exec_log :: "tty_record list"
  exec_entered :: string

definition ExecTerm_init :: "bool \<Rightarrow> string \<Rightarrow> exec_session res" where
  "ExecTerm_init enabled cmd = (if ascii cmd
     then Inr \<lparr>exec_enabled = enabled, exec_size = 0, exec_log = [], exec_entered = cmd\<rparr>
     else Inl UnicodeDecodeError)"

definition exec_parse_packet :: "side \<Rightarrow> string \<Rightarrow> exec_session \<Rightarrow> exec_session" where
  "exec_parse_packet parent payload s = (if exec_enabled s
     then s\<lparr>exec_size := exec_size s + length payload, exec_log := exec_log s @ [TtyOutput payload]\<rparr> else s)"

section \<open>The line editor it stands for\<close>

text \<open>The text before the cursor, the text after it, and the lines entered.\<close>

type_synonym editor = "string \<times> string \<times> string list"

definition zipper :: "terminal \<Rightarrow> editor" where
  "zipper t = (take (nat (pointer t)) (command t), drop (nat (pointer t)) (command t), entered t)"

definition enter_line :: "string \<Rightarrow> editor \<Rightarrow> editor" where
  "enter_line extra z = (case z of (l, r, ls) \<Rightarrow>
     ([], [], if l @ r @ extra = [] then ls else ls @ [l @ r @ extra]))"

function edit :: "string \<Rightarrow> editor \<Rightarrow> editor" where
  "edit [] z = z"
| "edit (c # cs) (l, r, ls) =
     (if c = TAB then edit cs (l, r, ls)
      else if c = DEL \<or> c = BS then edit cs (butlast l, r, ls)
      else if c = RET \<or> c = LF then edit cs (enter_line [] (l, r, ls))
      else if c = ETX then edit cs (enter_line ''^C'' (l, r, ls))
      else if take 3 (c # cs) = ESC # ''OH'' then edit (drop 2 cs) ([], l @ r, ls)
      else if take 3 (c # cs) = ESC # ''OF'' then edit (drop 2 cs) (l @ r, [], ls)
      else if take 3 (c # cs) = ESC # ''[C'' then
        edit (drop 2 cs) (case r of [] \<Rightarrow> (l, [], ls) | x # xs \<Rightarrow> (l @ [x], xs, ls))
      else if take 3 (c # cs) = ESC # ''[D'' then
        edit (drop 2 cs) (if l = [] then ([], r, ls) else (butlast l, last l # r, ls))
      else if take 3 (c # cs) = ESC # ''[A'' \<or> take 3 (c # cs) = ESC # ''[B'' then edit (drop 2 cs) (l, r, ls)
      else edit cs (l @ [c], r, ls))"
  by pat_completeness auto
termination by (relation "measure (\<lambda>(cs, z). length cs)") auto

end
