(* ===== verification/SshTerminalProps.thy ===== *)
theory SshTerminalProps
  imports SshTerminal
begin

text \<open>
  The key loop refines a line editor on the text before and after the cursor; where the proxy's
  picture of the line leaves what the machine runs.
\<close>

definition term_ok :: "terminal \<Rightarrow> bool" where
  "term_ok t \<longleftrightarrow> 0 \<le> pointer t \<and> pointer t \<le> int (length (command t)) \<and> ascii (command t)"

lemma ascii_append [simp]: "ascii (a @ b) \<longleftrightarrow> ascii a \<and> ascii b"
  by (simp add: ascii_def)

lemma ascii_Cons: "ascii (c # cs) \<longleftrightarrow> (of_char c :: nat) < 128 \<and> ascii cs"
  by (simp add: ascii_def)

lemma ascii_Nil [simp]: "ascii []"
  by (simp add: ascii_def)

lemma ascii_take_drop: "ascii s \<Longrightarrow> ascii (take n s) \<and> ascii (drop n s)"
  by (auto simp: ascii_def list_all_iff dest: in_set_takeD in_set_dropD)

lemma zipper_of: "command t = l @ r \<Longrightarrow> pointer t = int (length l) \<Longrightarrow> zipper t = (l, r, entered t)"
  by (simp add: zipper_def)

text \<open>A state and its picture.\<close>

lemma term_cases:
  assumes "term_ok t"
  obtains l r where "command t = l @ r" "pointer t = int (length l)" "ascii l" "ascii r"
    "zipper t = (l, r, entered t)"
proof -
  define l where "l = take (nat (pointer t)) (command t)"
  define r where "r = drop (nat (pointer t)) (command t)"
  have "command t = l @ r" by (simp add: l_def r_def)
  moreover have "pointer t = int (length l)"
    using assms by (auto simp: l_def term_ok_def min_def nat_le_iff)
  moreover have "ascii l" "ascii r"
    using assms ascii_take_drop [of "command t"] by (simp_all add: l_def r_def term_ok_def)
  ultimately show ?thesis using that zipper_of by blast
qed

lemma backspace_zipper:
  assumes "term_ok t"
  shows "term_ok (backspace t) \<and> zipper (backspace t) = (case zipper t of (l, r, ls) \<Rightarrow> (butlast l, r, ls))"
proof -
  obtain l r where t: "command t = l @ r" "pointer t = int (length l)" "ascii l" "ascii r"
      "zipper t = (l, r, entered t)"
    using assms by (rule term_cases)
  show ?thesis
  proof (cases l rule: rev_cases)
    case Nil
    with t assms show ?thesis by (simp add: backspace_def)
  next
    case (snoc xs x)
    then have "slice_to (command t) (pointer t - 1) = xs" "slice_from (command t) (pointer t) = r"
      using t by (simp_all add: slice_nonneg nat_add_distrib)
    with snoc t show ?thesis by (simp add: backspace_def term_ok_def zipper_def)
  qed
qed

lemma insert_key_zipper:
  assumes "term_ok t" and "(of_char c :: nat) < 128"
  shows "term_ok (insert_key c t) \<and> zipper (insert_key c t) = (case zipper t of (l, r, ls) \<Rightarrow> (l @ [c], r, ls))"
proof -
  obtain l r where t: "command t = l @ r" "pointer t = int (length l)" "ascii l" "ascii r"
      "zipper t = (l, r, entered t)"
    using assms(1) by (rule term_cases)
  then have "slice_to (command t) (pointer t) = l" "slice_from (command t) (pointer t) = r"
    by (simp_all add: slice_nonneg)
  with t assms(2) show ?thesis
    by (simp add: insert_key_def term_ok_def ascii_Cons zipper_def nat_add_distrib)
qed

lemma home_zipper:
  "term_ok t \<Longrightarrow> term_ok (t\<lparr>pointer := 0\<rparr>) \<and>
     zipper (t\<lparr>pointer := 0\<rparr>) = (case zipper t of (l, r, ls) \<Rightarrow> ([], l @ r, ls))"
  by (simp add: term_ok_def zipper_def)

lemma end_zipper:
  "term_ok t \<Longrightarrow> term_ok (t\<lparr>pointer := int (length (command t))\<rparr>) \<and>
     zipper (t\<lparr>pointer := int (length (command t))\<rparr>) = (case zipper t of (l, r, ls) \<Rightarrow> (l @ r, [], ls))"
  by (simp add: term_ok_def zipper_def)

lemma right_zipper:
  assumes "term_ok t" and "t' = (if pointer t \<noteq> int (length (command t)) then t\<lparr>pointer := pointer t + 1\<rparr> else t)"
  shows "term_ok t' \<and> zipper t' =
    (case zipper t of (l, r, ls) \<Rightarrow> case r of [] \<Rightarrow> (l, [], ls) | x # xs \<Rightarrow> (l @ [x], xs, ls))"
proof -
  obtain l r where t: "command t = l @ r" "pointer t = int (length l)" "zipper t = (l, r, entered t)"
    using assms(1) by (rule term_cases)
  with assms show ?thesis
    by (cases r) (auto simp: term_ok_def zipper_def nat_add_distrib)
qed

lemma left_zipper:
  assumes "term_ok t" and "t' = (if pointer t \<noteq> 0 then t\<lparr>pointer := pointer t - 1\<rparr> else t)"
  shows "term_ok t' \<and> zipper t' =
    (case zipper t of (l, r, ls) \<Rightarrow> if l = [] then ([], r, ls) else (butlast l, last l # r, ls))"
proof -
  obtain l r where t: "command t = l @ r" "pointer t = int (length l)" "zipper t = (l, r, entered t)"
    using assms(1) by (rule term_cases)
  with assms show ?thesis
    by (cases l rule: rev_cases) (auto simp: term_ok_def zipper_def)
qed

text \<open>Entering a line.\<close>

definition take_line :: "string \<Rightarrow> terminal \<Rightarrow> terminal" where
  "take_line extra t =
     t\<lparr>entered := (if command t @ extra = [] then entered t else entered t @ [command t @ extra]),
       command := [], pointer := 0\<rparr>"

lemma take_line_zipper:
  "term_ok t \<Longrightarrow> term_ok (take_line extra t) \<and> zipper (take_line extra t) = enter_line extra (zipper t)"
  by (auto simp: take_line_def term_ok_def zipper_def enter_line_def)

lemma log_entered_ascii:
  "ascii (command t) \<Longrightarrow> log_entered t =
     (Inr (), t\<lparr>entered := (if command t = [] then entered t else entered t @ [command t])\<rparr>)"
  by (simp add: log_entered_def)

text \<open>The whole loop.\<close>

lemma server_keys_edit:
  "term_ok t \<Longrightarrow> ascii data \<Longrightarrow>
     \<exists>t'. server_keys data t = (Inr (), t') \<and> term_ok t' \<and> zipper t' = edit data (zipper t)"
proof (induction data arbitrary: t rule: length_induct)
  case (1 data)
  show ?case
  proof (cases data)
    case Nil
    with 1(2) show ?thesis by (cases "zipper t") auto
  next
    case (Cons c cs)
    obtain l r ls where z: "zipper t = (l, r, ls)" by (cases "zipper t")
    have cs: "ascii cs" "(of_char c :: nat) < 128" using 1(3) Cons by (simp_all add: ascii_Cons)
    have IH: "\<exists>t'. server_keys ds s = (Inr (), t') \<and> term_ok t' \<and> zipper t' = edit ds (zipper s)"
      if "term_ok s" "ds = cs \<or> ds = drop 2 cs" for s ds
      using 1(1) that cs(1) ascii_take_drop [of cs 2] Cons by auto
    have same: "term_ok (t\<lparr>tabPress := True\<rparr>)" "zipper (t\<lparr>tabPress := True\<rparr>) = zipper t"
      "term_ok (t\<lparr>upArrow := True\<rparr>)" "zipper (t\<lparr>upArrow := True\<rparr>) = zipper t"
      using 1(2) by (simp_all add: term_ok_def zipper_def)
    have line: "\<exists>t'. py_bind log_entered (\<lambda>_. py_bind (py_modify (\<lambda>t. t\<lparr>command := [], pointer := 0\<rparr>))
          (\<lambda>_. server_keys cs)) (t\<lparr>command := command t @ extra\<rparr>) = (Inr (), t') \<and> term_ok t' \<and>
        zipper t' = edit cs (enter_line extra (zipper t))"
      if "ascii extra" for extra
    proof -
      have "ascii (command t @ extra)" using that 1(2) by (simp add: term_ok_def)
      then have "py_bind log_entered (\<lambda>_. py_bind (py_modify (\<lambda>t. t\<lparr>command := [], pointer := 0\<rparr>))
          (\<lambda>_. server_keys cs)) (t\<lparr>command := command t @ extra\<rparr>) = server_keys cs (take_line extra t)"
        by (simp add: log_entered_ascii take_line_def)
      with IH [of "take_line extra t" cs] take_line_zipper [OF 1(2), of extra] show ?thesis by simp
    qed
    have line0: "t\<lparr>command := command t @ []\<rparr> = t" by simp
    note steps = same backspace_zipper [OF 1(2)] home_zipper [OF 1(2)] end_zipper [OF 1(2)]
      right_zipper [OF 1(2) refl] left_zipper [OF 1(2) refl] insert_key_zipper [OF 1(2) cs(2)]
    note ihs = IH [of "t\<lparr>tabPress := True\<rparr>" cs] IH [of "t\<lparr>upArrow := True\<rparr>" "drop 2 cs"]
      IH [of "backspace t" cs] IH [of "insert_key c t" cs] IH [of "t\<lparr>pointer := 0\<rparr>" "drop 2 cs"]
      IH [of "t\<lparr>pointer := int (length (command t))\<rparr>" "drop 2 cs"]
      IH [of "if pointer t \<noteq> int (length (command t)) then t\<lparr>pointer := pointer t + 1\<rparr> else t" "drop 2 cs"]
      IH [of "if pointer t \<noteq> 0 then t\<lparr>pointer := pointer t - 1\<rparr> else t" "drop 2 cs"]
    show ?thesis
      using steps ihs line [of "[]", unfolded line0] line [of "''^C''"] z
      by (simp add: Cons ascii_def del: take_Suc_Cons)
  qed
qed

section \<open>Where the picture is wrong\<close>

text \<open>
  What the machine completes after a tab goes to the end of the command but leaves the cursor: what
  is typed then is logged in front of the completion. And a backspace that the machine sends moves
  the cursor below the start of an empty line.
\<close>

lemma tab_completion_misplaces:
  "entered (snd (py_bind (term_parse_packet SERVER (''ca'' @ [TAB])) (\<lambda>_.
     py_bind (term_parse_packet CLIENT ''t '') (\<lambda>_.
     term_parse_packet SERVER (''x'' @ [RET]))) (Term_init False))) = [''caxt '']"
  by code_simp

lemma cursor_below_zero:
  "pointer (snd (py_bind (term_parse_packet SERVER (ESC # ''[A'')) (\<lambda>_.
     term_parse_packet CLIENT [BS]) (Term_init False))) = -1"
  by code_simp

section \<open>Properties\<close>

text \<open>C19: For every ASCII input from the attacker the proxy's buffer and cursor do what a line editor
  does to the text before and after its cursor (typing, deleting, moving, entering lines), never
  raise, and keep the cursor inside the line; the lines logged are the lines entered.\<close>

theorem terminal_refines_editor:
  assumes "term_ok t" and "ascii data"
  shows "case server_keys data t of (r, t') \<Rightarrow>
     r = Inr () \<and> term_ok t' \<and> zipper t' = edit data (zipper t)"
  using server_keys_edit [OF assms] by auto

theorem terminal_refines_editor_witness:
  "case server_keys (''sl'' @ [BS, BS] @ ''s'' @ ESC # ''[D'' @ ''l'' @ ESC # ''OF'' @ '' -a'' @ [RET]) (Term_init True) of (r, t') \<Rightarrow>
     r = Inr () \<and> term_ok t' \<and> zipper t' = ([], [], [''ls -a''])"
proof -
  let ?d = "''sl'' @ [BS, BS] @ ''s'' @ ESC # ''[D'' @ ''l'' @ ESC # ''OF'' @ '' -a'' @ [RET]"
  have "term_ok (Term_init True)" "ascii ?d" by code_simp+
  moreover have "edit ?d (zipper (Term_init True)) = ([], [], [''ls -a''])" by code_simp
  ultimately show ?thesis using terminal_refines_editor [of "Term_init True" ?d] by simp
qed

end
