(* ===== verification/SftpSession.thy ===== *)
theory SftpSession
  imports Bytes
begin

text \<open>
  The fields of SSH packets (\<open>cowrie/ssh_proxy/protocols/base_protocol.py\<close>) and the SFTP session
  that the SSH proxy listens to (\<open>sftp.py\<close>): how it puts packets together from what arrives and
  what it logs of them. The packet data are bytes, until \<open>extract_data\<close> replaces them by the empty
  text; several fields start as texts and become bytes, and Python tells the two apart (\<open>pyobj\<close>).
\<close>

section \<open>Packet fields\<close>

record packet =
  pdata :: pyobj
  packetSize :: int

definition py_take :: "nat \<Rightarrow> pyobj \<Rightarrow> pyobj" where
  "py_take n v = (case v of PyBytes b \<Rightarrow> PyBytes (take n b) | PyText t \<Rightarrow> PyText (take n t))"

definition py_drop :: "nat \<Rightarrow> pyobj \<Rightarrow> pyobj" where
  "py_drop n v = (case v of PyBytes b \<Rightarrow> PyBytes (drop n b) | PyText t \<Rightarrow> PyText (drop n t))"

text \<open>\<open>int.from_bytes\<close> takes bytes only.\<close>

definition from_bytes :: "pyobj \<Rightarrow> nat res" where
  "from_bytes v = (case v of PyBytes b \<Rightarrow> Inr (be_value b) | PyText t \<Rightarrow> Inl TypeError)"

type_synonym 'a packet_py = "(packet, 'a) py"

definition extract_int :: "nat \<Rightarrow> nat packet_py" where
  "extract_int n = py_bind py_get (\<lambda>p.
     py_bind (py_lift (from_bytes (py_take n (pdata p)))) (\<lambda>v.
     py_bind (py_modify (\<lambda>p. p\<lparr>packetSize := packetSize p - int n, pdata := py_drop n (pdata p)\<rparr>))
       (\<lambda>_. py_return v)))"

definition extract_string :: "pyobj packet_py" where
  "extract_string = py_bind (extract_int 4) (\<lambda>n. py_bind py_get (\<lambda>p.
     py_bind (py_modify (\<lambda>p. p\<lparr>packetSize := packetSize p - int n, pdata := py_drop n (pdata p)\<rparr>))
       (\<lambda>_. py_return (py_take n (pdata p)))))"

definition extract_bool :: "bool packet_py" where
  "extract_bool = py_bind (extract_int 1) (\<lambda>v. py_return (v \<noteq> 0))"

definition py_length :: "pyobj \<Rightarrow> nat" where
  "py_length v = (case v of PyBytes b \<Rightarrow> length b | PyText t \<Rightarrow> py_len t)"

definition extract_data :: "pyobj packet_py" where
  "extract_data = py_bind (extract_int 4) (\<lambda>n. py_bind py_get (\<lambda>p.
     py_bind (py_modify (\<lambda>p. p\<lparr>packetSize := int n - int (py_length (pdata p)), pdata := PyText []\<rparr>))
       (\<lambda>_. py_return (pdata p))))"

section \<open>The SFTP session\<close>

datatype sftp_op =
    FXP_INIT | FXP_VERSION | FXP_OPEN | FXP_CLOSE | FXP_READ | FXP_WRITE | FXP_LSTAT | FXP_FSTAT
  | FXP_SETSTAT | FXP_FSETSTAT | FXP_OPENDIR | FXP_READDIR | FXP_REMOVE | FXP_MKDIR | FXP_RMDIR
  | FXP_REALPATH | FXP_STAT | FXP_RENAME | FXP_READLINK | FXP_SYMLINK | FXP_STATUS | FXP_HANDLE
  | FXP_DATA | FXP_NAME | FXP_ATTRS | FXP_EXTENDED | FXP_EXTENDED_REPLY

definition sftp_layout :: "(nat \<times> sftp_op) list" where
  "sftp_layout = zip [1..<21] [FXP_INIT, FXP_VERSION, FXP_OPEN, FXP_CLOSE, FXP_READ, FXP_WRITE,
       FXP_LSTAT, FXP_FSTAT, FXP_SETSTAT, FXP_FSETSTAT, FXP_OPENDIR, FXP_READDIR, FXP_REMOVE,
       FXP_MKDIR, FXP_RMDIR, FXP_REALPATH, FXP_STAT, FXP_RENAME, FXP_READLINK, FXP_SYMLINK] @
     [(101, FXP_STATUS), (102, FXP_HANDLE), (103, FXP_DATA), (104, FXP_NAME), (105, FXP_ATTRS),
      (200, FXP_EXTENDED), (201, FXP_EXTENDED_REPLY)]"

text \<open>What is logged: a command entered, a command failed, a finished download or upload.\<close>

datatype sftp_log =
    EnteredCommand string
  | FinishedDownload string
  | FinishedUpload string

text \<open>\<open>ID\<close> and \<open>prevID\<close> are the empty text before the first packet, here \<open>None\<close>.\<close>

record sftp =
  sftp_fields :: packet
  client_packet :: packet
  server_packet :: packet
  prevID :: "nat option"
  sftp_ID :: "nat option"
  sftp_handle :: pyobj
  sftp_path :: pyobj
  sftp_command :: pyobj
  theFile :: pyobj
  sftp_offset :: nat
  sftp_logged :: "sftp_log list"

type_synonym 'a sftp_py = "(sftp, 'a) py"

definition empty_packet :: packet where
  "empty_packet = \<lparr>pdata = PyText [], packetSize = 0\<rparr>"

definition SFTP_init :: sftp where
  "SFTP_init = \<lparr>sftp_fields = empty_packet, client_packet = empty_packet, server_packet = empty_packet,
     prevID = None, sftp_ID = None, sftp_handle = PyText [], sftp_path = PyText [],
     sftp_command = PyText [], theFile = PyText [], sftp_offset = 0, sftp_logged = []\<rparr>"

definition on_fields :: "'a packet_py \<Rightarrow> 'a sftp_py" where
  "on_fields m = (\<lambda>s. case m (sftp_fields s) of (r, p) \<Rightarrow> (r, s\<lparr>sftp_fields := p\<rparr>))"

abbreviation int_field :: "nat \<Rightarrow> nat sftp_py" where
  "int_field n \<equiv> on_fields (extract_int n)"

abbreviation string_field :: "pyobj sftp_py" where
  "string_field \<equiv> on_fields extract_string"

text \<open>\<open>a + b\<close>, \<open>v.decode()\<close>, \<open>v.encode()\<close> and \<open>b in v\<close>: bytes and texts do not mix.\<close>

definition py_add :: "pyobj \<Rightarrow> pyobj \<Rightarrow> pyobj res" where
  "py_add a b = (case (a, b) of
       (PyBytes x, PyBytes y) \<Rightarrow> Inr (PyBytes (x @ y))
     | (PyText x, PyText y) \<Rightarrow> Inr (PyText (x @ y))
     | _ \<Rightarrow> Inl TypeError)"

definition obj_decode :: "pyobj \<Rightarrow> string res" where
  "obj_decode v = (case v of PyBytes b \<Rightarrow> py_decode b | PyText t \<Rightarrow> Inl (AttributeError ''decode''))"

definition obj_encode :: "pyobj \<Rightarrow> pyobj res" where
  "obj_encode v = (case v of PyBytes b \<Rightarrow> Inl (AttributeError ''encode'') | PyText t \<Rightarrow> Inr (PyBytes t))"

definition bytes_in :: "string \<Rightarrow> pyobj \<Rightarrow> bool res" where
  "bytes_in sub v = (case v of PyBytes b \<Rightarrow> Inr (length (split_str sub b) > 1) | PyText t \<Rightarrow> Inl TypeError)"

text \<open>\<open>'{0:0wb}'.format(n)\<close>, and \<open>int(s, 2)\<close>\<close>

fun bits_of :: "nat \<Rightarrow> string" where
  "bits_of n = (if n < 2 then [digit_char n] else bits_of (n div 2) @ [digit_char (n mod 2)])"

declare bits_of.simps [simp del]

definition binary :: "nat \<Rightarrow> nat \<Rightarrow> string" where
  "binary w n = replicate (w - length (bits_of n)) (CHR ''0'') @ bits_of n"

definition of_bits :: "string \<Rightarrow> nat" where
  "of_bits s = foldl (\<lambda>n c. 2 * n + (if c = CHR ''1'' then 1 else 0)) 0 s"

definition extract_attrs :: "string sftp_py" where
  "extract_attrs = py_bind (int_field 4) (\<lambda>n. let flags = binary 8 n in
     if flags ! 5 = CHR ''1'' then py_bind (int_field 4) (\<lambda>m. let perms = binary 9 m in
       py_return (''chmod '' @ str_nat (of_bits (take 3 perms)) @ str_nat (of_bits (take 3 (drop 3 perms))) @
         str_nat (of_bits (drop 6 perms))))
     else if flags ! 6 = CHR ''1'' then py_bind (int_field 4) (\<lambda>user. py_bind (int_field 4) (\<lambda>group.
       py_return (''chown '' @ str_nat user @ '':'' @ str_nat group)))
     else py_return [])"

definition set_path :: "pyobj \<Rightarrow> unit sftp_py" where
  "set_path v = py_modify (\<lambda>s. s\<lparr>sftp_path := v\<rparr>)"

definition set_command :: "pyobj res \<Rightarrow> unit sftp_py" where
  "set_command r = py_bind (py_lift r) (\<lambda>v. py_modify (\<lambda>s. s\<lparr>sftp_command := v\<rparr>))"

definition add_log :: "sftp_log \<Rightarrow> unit sftp_py" where
  "add_log e = py_modify (\<lambda>s. s\<lparr>sftp_logged := sftp_logged s @ [e]\<rparr>)"

definition log_command_entered :: "unit sftp_py" where
  "log_command_entered = py_bind py_get (\<lambda>s. py_bind (py_lift (obj_decode (sftp_command s)))
     (\<lambda>c. add_log (EnteredCommand c)))"

text \<open>\<open>b'word ' + self.extract_string()\<close>\<close>

definition command_with :: "string \<Rightarrow> unit sftp_py" where
  "command_with w = py_bind string_field (\<lambda>v. set_command (py_add (PyBytes w) v))"

definition handle_open :: "unit sftp_py" where
  "handle_open =
     py_bind string_field (\<lambda>path. py_bind (set_path path) (\<lambda>_.
     py_bind (int_field 4) (\<lambda>n. let pflags = binary 8 n in
     py_bind (if pflags ! 6 = CHR ''1'' then
         py_bind (set_command (py_add (PyBytes ''put '') path)) (\<lambda>_. py_modify (\<lambda>s. s\<lparr>theFile := PyText []\<rparr>))
       else if pflags ! 7 = CHR ''1'' then set_command (py_add (PyBytes ''get '') path)
       else py_return ()) (\<lambda>_. log_command_entered))))"

definition handle_write :: "unit sftp_py" where
  "handle_write = py_bind string_field (\<lambda>h. py_bind py_get (\<lambda>s. if sftp_handle s \<noteq> h then py_return () else
     py_bind (int_field 8) (\<lambda>off.
     py_bind (py_modify (\<lambda>s. s\<lparr>sftp_offset := off\<rparr>)) (\<lambda>_.
     py_bind (py_lift (obj_encode (py_take off (theFile s)))) (\<lambda>old.
     py_bind (on_fields extract_data) (\<lambda>new.
     py_bind (py_lift (py_add old new)) (\<lambda>f. py_modify (\<lambda>s. s\<lparr>theFile := f\<rparr>))))))))"

definition handle_close :: "unit sftp_py" where
  "handle_close = py_bind string_field (\<lambda>h. py_bind py_get (\<lambda>s. if sftp_handle s \<noteq> h then py_return () else
     py_bind (py_lift (bytes_in ''get'' (sftp_command s))) (\<lambda>get.
     if get then py_bind (py_lift (obj_decode (sftp_path s))) (\<lambda>p. add_log (FinishedDownload p))
     else py_bind (py_lift (bytes_in ''put'' (sftp_command s))) (\<lambda>put.
       if put then py_bind (py_lift (obj_decode (sftp_path s))) (\<lambda>p. add_log (FinishedUpload p))
       else py_return ()))))"

text \<open>A failed status is to be logged with a message that is bytes, which raises.\<close>

definition handle_status :: "unit sftp_py" where
  "handle_status = py_bind py_get (\<lambda>s. if sftp_ID s \<noteq> prevID s then py_return () else
     py_bind (int_field 4) (\<lambda>code.
     if code = 0 \<or> code = 1 then
       py_bind (py_lift (bytes_in ''get'' (sftp_command s))) (\<lambda>get.
       if get then py_return () else
       py_bind (py_lift (bytes_in ''put'' (sftp_command s))) (\<lambda>put.
       if put then py_return () else log_command_entered))
     else py_bind string_field (\<lambda>message.
       py_bind (py_lift (obj_decode (sftp_command s))) (\<lambda>c.
       py_bind (py_lift (py_add (PyText c) message)) (\<lambda>_. py_return ())))))"

definition handle_extended :: "unit sftp_py" where
  "handle_extended = py_bind string_field (\<lambda>cmd. py_bind string_field (\<lambda>path. py_bind (set_path path) (\<lambda>_.
     if cmd = PyText ''statvfs@openssh.com'' then set_command (py_add (PyBytes ''df '') path)
     else if cmd = PyText ''hardlink@openssh.com'' then
       py_bind (py_lift (py_add (PyBytes ''ln '') path)) (\<lambda>a. py_bind (py_lift (py_add a (PyBytes '' ''))) (\<lambda>a.
       py_bind string_field (\<lambda>v. set_command (py_add a v))))
     else if cmd = PyText ''posix-rename@openssh.com'' then
       py_bind (py_lift (py_add (PyBytes ''mv '') path)) (\<lambda>a. py_bind (py_lift (py_add a (PyBytes '' ''))) (\<lambda>a.
       py_bind string_field (\<lambda>v. set_command (py_add a v))))
     else py_return ())))"

definition handle_operation :: "sftp_op \<Rightarrow> unit sftp_py" where
  "handle_operation op = (case op of
       FXP_OPENDIR \<Rightarrow> py_bind string_field set_path
     | FXP_REALPATH \<Rightarrow> py_bind string_field (\<lambda>path. py_bind (set_path path)
         (\<lambda>_. py_bind (set_command (py_add (PyBytes ''cd '') path)) (\<lambda>_. log_command_entered)))
     | FXP_OPEN \<Rightarrow> handle_open
     | FXP_WRITE \<Rightarrow> handle_write
     | FXP_HANDLE \<Rightarrow> py_bind py_get (\<lambda>s. if sftp_ID s = prevID s
         then py_bind string_field (\<lambda>h. py_modify (\<lambda>s. s\<lparr>sftp_handle := h\<rparr>)) else py_return ())
     | FXP_READDIR \<Rightarrow> py_bind string_field (\<lambda>h. py_bind py_get (\<lambda>s. if sftp_handle s = h
         then set_command (py_add (PyBytes ''ls '') (sftp_path s)) else py_return ()))
     | FXP_SETSTAT \<Rightarrow> py_bind string_field (\<lambda>path. py_bind (set_path path) (\<lambda>_.
         py_bind extract_attrs (\<lambda>attrs. set_command (py_add (PyText (attrs @ '' '')) path))))
     | FXP_EXTENDED \<Rightarrow> handle_extended
     | FXP_EXTENDED_REPLY \<Rightarrow> log_command_entered
     | FXP_CLOSE \<Rightarrow> handle_close
     | FXP_SYMLINK \<Rightarrow> py_bind string_field (\<lambda>a. py_bind (py_lift (py_add (PyBytes ''ln -s '') a)) (\<lambda>c.
         py_bind (py_lift (py_add c (PyBytes '' ''))) (\<lambda>c. py_bind string_field (\<lambda>b. set_command (py_add c b)))))
     | FXP_MKDIR \<Rightarrow> command_with ''mkdir ''
     | FXP_REMOVE \<Rightarrow> command_with ''rm ''
     | FXP_RMDIR \<Rightarrow> command_with ''rmdir ''
     | FXP_STATUS \<Rightarrow> handle_status
     | _ \<Rightarrow> py_return ())"

definition handle_packet :: "packet \<Rightarrow> unit sftp_py" where
  "handle_packet pk =
     py_bind (py_modify (\<lambda>s. s\<lparr>sftp_fields := pk\<rparr>)) (\<lambda>_.
     py_bind (int_field 1) (\<lambda>n. case map_of sftp_layout n of
         None \<Rightarrow> py_raise (KeyError (str_nat n))
       | Some op \<Rightarrow>
           py_bind (py_modify (\<lambda>s. s\<lparr>prevID := sftp_ID s\<rparr>)) (\<lambda>_.
           py_bind (int_field 4) (\<lambda>i.
           py_bind (py_modify (\<lambda>s. s\<lparr>sftp_ID := Some i\<rparr>)) (\<lambda>_. handle_operation op)))))"

section \<open>Putting packets together\<close>

datatype direction = FromServer | FromClient

definition packet_of :: "direction \<Rightarrow> sftp \<Rightarrow> packet" where
  "packet_of d s = (case d of FromServer \<Rightarrow> server_packet s | FromClient \<Rightarrow> client_packet s)"

definition set_packet :: "direction \<Rightarrow> packet \<Rightarrow> sftp \<Rightarrow> sftp" where
  "set_packet d p s = (case d of FromServer \<Rightarrow> s\<lparr>server_packet := p\<rparr> | FromClient \<Rightarrow> s\<lparr>client_packet := p\<rparr>)"

definition handle_if_whole :: "direction \<Rightarrow> unit sftp_py" where
  "handle_if_whole d = py_bind py_get (\<lambda>s. if packetSize (packet_of d s) = 0
     then handle_packet (packet_of d s) else py_return ())"

text \<open>
  A chunk that starts a packet is taken whole; \<open>int('', 16)\<close> raises. A chunk that goes on with one is
  cut at what is missing, and what is left starts the next packet (\<open>parse_packet\<close> calls itself, but
  by then nothing is missing, so it does so once).
\<close>

definition start_chunk :: "direction \<Rightarrow> string \<Rightarrow> unit sftp_py" where
  "start_chunk d payload =
     (if payload = [] then py_raise ValueError
      else py_bind (py_modify (set_packet d \<lparr>pdata = PyBytes (drop 4 payload),
             packetSize = int (be_value (take 4 payload)) - int (length (drop 4 payload))\<rparr>))
        (\<lambda>_. handle_if_whole d))"

definition sftp_parse_packet :: "direction \<Rightarrow> string \<Rightarrow> unit sftp_py" where
  "sftp_parse_packet d payload = py_bind py_get (\<lambda>s. let p = packet_of d s in
     if packetSize p = 0 then start_chunk d payload
     else if int (length payload) > packetSize p then
       py_bind (py_lift (py_add (pdata p) (PyBytes (slice_to payload (packetSize p))))) (\<lambda>v.
       py_bind (py_modify (set_packet d \<lparr>pdata = v, packetSize = 0\<rparr>)) (\<lambda>_.
       py_bind (handle_if_whole d) (\<lambda>_.
         let rest = slice_from payload (packetSize p) in
         if rest \<noteq> [] then start_chunk d rest else py_return ())))
     else
       py_bind (py_modify (set_packet d (p\<lparr>packetSize := packetSize p - int (length payload)\<rparr>))) (\<lambda>_.
       py_bind (py_lift (py_add (pdata p) (PyBytes payload))) (\<lambda>v.
       py_bind (py_modify (\<lambda>s. set_packet d ((packet_of d s)\<lparr>pdata := v\<rparr>) s)) (\<lambda>_. handle_if_whole d))))"

end
