(* ===== verification/SshProxy.thy ===== *)
theory SshProxy
  imports SshTerminal SftpSession
begin

text \<open>
  The SSH proxy between attacker and machine (\<open>cowrie/ssh_proxy/protocols/ssh.py\<close>, \<open>util.py\<close>): each
  packet either side sends, once decrypted, is looked at and, unless it is intercepted, passed to the
  other side. The transports are the list of packets handed to them; what is only logged is left
  out. An option of the configuration that is not set is \<open>None\<close>, and reading it raises.
\<close>

section \<open>Messages\<close>

datatype ssh_msg =
    MSG_DISCONNECT | MSG_IGNORE | MSG_UNIMPLEMENTED | MSG_DEBUG | MSG_SERVICE_REQUEST
  | MSG_SERVICE_ACCEPT | MSG_KEXINIT | MSG_NEWKEYS | MSG_USERAUTH_REQUEST | MSG_USERAUTH_FAILURE
  | MSG_USERAUTH_SUCCESS | MSG_USERAUTH_BANNER | MSG_USERAUTH_INFO_REQUEST
  | MSG_USERAUTH_INFO_RESPONSE | MSG_GLOBAL_REQUEST | MSG_REQUEST_SUCCESS | MSG_REQUEST_FAILURE
  | MSG_CHANNEL_OPEN | MSG_CHANNEL_OPEN_CONFIRMATION | MSG_CHANNEL_OPEN_FAILURE
  | MSG_CHANNEL_WINDOW_ADJUST | MSG_CHANNEL_DATA | MSG_CHANNEL_EXTENDED_DATA | MSG_CHANNEL_EOF
  | MSG_CHANNEL_CLOSE | MSG_CHANNEL_REQUEST | MSG_CHANNEL_SUCCESS | MSG_CHANNEL_FAILURE
  | MSG_UNKNOWN nat

definition ssh_layout :: "(nat \<times> ssh_msg) list" where
  "ssh_layout = [(1, MSG_DISCONNECT), (2, MSG_IGNORE), (3, MSG_UNIMPLEMENTED), (4, MSG_DEBUG),
     (5, MSG_SERVICE_REQUEST), (6, MSG_SERVICE_ACCEPT), (20, MSG_KEXINIT), (21, MSG_NEWKEYS),
     (50, MSG_USERAUTH_REQUEST), (51, MSG_USERAUTH_FAILURE), (52, MSG_USERAUTH_SUCCESS),
     (53, MSG_USERAUTH_BANNER), (60, MSG_USERAUTH_INFO_REQUEST), (61, MSG_USERAUTH_INFO_RESPONSE),
     (80, MSG_GLOBAL_REQUEST), (81, MSG_REQUEST_SUCCESS), (82, MSG_REQUEST_FAILURE),
     (90, MSG_CHANNEL_OPEN), (91, MSG_CHANNEL_OPEN_CONFIRMATION), (92, MSG_CHANNEL_OPEN_FAILURE),
     (93, MSG_CHANNEL_WINDOW_ADJUST), (94, MSG_CHANNEL_DATA), (95, MSG_CHANNEL_EXTENDED_DATA),
     (96, MSG_CHANNEL_EOF), (97, MSG_CHANNEL_CLOSE), (98, MSG_CHANNEL_REQUEST),
     (99, MSG_CHANNEL_SUCCESS), (100, MSG_CHANNEL_FAILURE)]"

definition message_of :: "nat \<Rightarrow> ssh_msg" where
  "message_of num = (case map_of ssh_layout num of None \<Rightarrow> MSG_UNKNOWN num | Some m \<Rightarrow> m)"

text \<open>\<open>struct.pack('>L', ...)\<close>: four bytes, an error for a number that does not fit.\<close>

definition int_to_hex :: "nat \<Rightarrow> string res" where
  "int_to_hex v = pack_uint 4 (int v)"

definition string_to_hex :: "string \<Rightarrow> string res" where
  "string_to_hex m = bind_res (pack_uint 4 (int (length m))) (\<lambda>n. Inr (n @ m))"

section \<open>The state\<close>

datatype session =
    Terminal terminal
  | Execution exec_session
  | FileTransfer sftp
  | PortForward

text \<open>A channel is a dict: a key that was never set is \<open>None\<close>, and reading it raises.\<close>

record channel =
  serverID :: "nat option"
  clientID :: "nat option"
  channel_type :: pyobj
  channel_session :: "session option"
  channel_name :: "string option"
  closed_by_server :: bool
  closed_by_client :: bool

datatype transport = ToServer | ToClient

record ssh_config =
  cfg_forwarding :: "bool option"
  cfg_sftp_enabled :: "bool option"
  cfg_interactive_timeout :: int
  cfg_ttylog :: bool

record ssh =
  ssh_fields :: packet
  channels :: "channel list"
  ssh_username :: pyobj
  ssh_password :: pyobj
  auth_type :: pyobj
  sendOn :: bool
  expect_password :: nat
  client_set :: bool
  ssh_timeouts :: "int list"
  sessions_closed :: "session list"
  ssh_sent :: "(transport \<times> nat \<times> string) list"

type_synonym 'a ssh_py = "(ssh, 'a) py"

definition SSH_init :: ssh where
  "SSH_init = \<lparr>ssh_fields = empty_packet, channels = [], ssh_username = PyText [],
     ssh_password = PyText [], auth_type = PyText [], sendOn = False, expect_password = 0,
     client_set = False, ssh_timeouts = [], sessions_closed = [], ssh_sent = []\<rparr>"

definition set_client :: "unit ssh_py" where
  "set_client = py_modify (\<lambda>s. s\<lparr>client_set := True\<rparr>)"

definition on_ssh_fields :: "'a packet_py \<Rightarrow> 'a ssh_py" where
  "on_ssh_fields m = (\<lambda>s. case m (ssh_fields s) of (r, p) \<Rightarrow> (r, s\<lparr>ssh_fields := p\<rparr>))"

abbreviation ssh_int :: "nat \<Rightarrow> nat ssh_py" where
  "ssh_int n \<equiv> on_ssh_fields (extract_int n)"

abbreviation ssh_string :: "pyobj ssh_py" where
  "ssh_string \<equiv> on_ssh_fields extract_string"

abbreviation ssh_bool :: "bool ssh_py" where
  "ssh_bool \<equiv> on_ssh_fields extract_bool"

definition read_option :: "'a option \<Rightarrow> 'a ssh_py" where
  "read_option v = (case v of None \<Rightarrow> py_raise (UserError ''NoOptionError'') | Some x \<Rightarrow> py_return x)"

definition send_off :: "unit ssh_py" where
  "send_off = py_modify (\<lambda>s. s\<lparr>sendOn := False\<rparr>)"

text \<open>\<open>self.client.sendPacket\<close> raises while there is no client.\<close>

definition sendPacket :: "transport \<Rightarrow> nat \<Rightarrow> string \<Rightarrow> unit ssh_py" where
  "sendPacket t num payload = py_bind py_get (\<lambda>s.
     if t = ToClient \<and> \<not> client_set s then py_raise (AttributeError ''sendPacket'')
     else py_modify (\<lambda>s. s\<lparr>ssh_sent := ssh_sent s @ [(t, num, payload)]\<rparr>))"

text \<open>\<open>send_back\<close> answers the side a packet came from.\<close>

definition send_back :: "side \<Rightarrow> nat \<Rightarrow> string \<Rightarrow> unit ssh_py" where
  "send_back parent num payload =
     (case map_of ssh_layout num of None \<Rightarrow> py_raise (KeyError (str_nat num))
      | Some _ \<Rightarrow> sendPacket (case parent of SERVER \<Rightarrow> ToServer | CLIENT \<Rightarrow> ToClient) num payload)"

section \<open>Channels\<close>

definition new_channel :: "side \<Rightarrow> nat \<Rightarrow> pyobj \<Rightarrow> channel" where
  "new_channel parent i ty = \<lparr>serverID = (if parent = SERVER then Some i else None),
     clientID = (if parent = CLIENT then Some i else None), channel_type = ty,
     channel_session = None, channel_name = None, closed_by_server = False, closed_by_client = False\<rparr>"

definition create_channel :: "side \<Rightarrow> nat \<Rightarrow> pyobj \<Rightarrow> unit ssh_py" where
  "create_channel parent i ty = py_modify (\<lambda>s. s\<lparr>channels := channels s @ [new_channel parent i ty]\<rparr>)"

definition id_key :: "side \<Rightarrow> string" where
  "id_key parent = (case parent of CLIENT \<Rightarrow> ''serverID'' | SERVER \<Rightarrow> ''clientID'')"

definition channel_id :: "side \<Rightarrow> channel \<Rightarrow> nat option" where
  "channel_id parent ch = (case parent of CLIENT \<Rightarrow> serverID ch | SERVER \<Rightarrow> clientID ch)"

text \<open>The channel found is its place in the list; a channel without the key stops the search.\<close>

fun find_channel :: "side \<Rightarrow> nat \<Rightarrow> channel list \<Rightarrow> nat option res" where
  "find_channel parent num [] = Inr None"
| "find_channel parent num (ch # chs) = (case channel_id parent ch of
       None \<Rightarrow> Inl (KeyError (id_key parent))
     | Some i \<Rightarrow> if i = num then Inr (Some 0)
         else bind_res (find_channel parent num chs) (\<lambda>r. Inr (map_option Suc r)))"

definition get_channel :: "nat \<Rightarrow> side \<Rightarrow> nat option ssh_py" where
  "get_channel num parent = py_bind py_get (\<lambda>s. py_lift (find_channel parent num (channels s)))"

text \<open>Subscripting \<open>None\<close>, the channel that was not found, raises.\<close>

definition the_channel :: "nat option \<Rightarrow> nat ssh_py" where
  "the_channel c = (case c of None \<Rightarrow> py_raise TypeError | Some i \<Rightarrow> py_return i)"

definition set_channel :: "nat option \<Rightarrow> (channel \<Rightarrow> channel) \<Rightarrow> unit ssh_py" where
  "set_channel c f = py_bind (the_channel c) (\<lambda>i.
     py_modify (\<lambda>s. s\<lparr>channels := (channels s)[i := f (channels s ! i)]\<rparr>))"

definition channel_field :: "string \<Rightarrow> (channel \<Rightarrow> 'a option) \<Rightarrow> nat option \<Rightarrow> 'a ssh_py" where
  "channel_field key f c = py_bind (the_channel c) (\<lambda>i. py_bind py_get (\<lambda>s.
     case f (channels s ! i) of None \<Rightarrow> py_raise (KeyError key) | Some v \<Rightarrow> py_return v))"

text \<open>\<open>list.remove\<close> of the channel found: no channel before it is equal to it.\<close>

definition remove_channel :: "nat option \<Rightarrow> unit ssh_py" where
  "remove_channel c = (case c of None \<Rightarrow> py_raise ValueError
     | Some i \<Rightarrow> py_modify (\<lambda>s. s\<lparr>channels := take i (channels s) @ drop (Suc i) (channels s)\<rparr>))"

definition name_channel :: "string \<Rightarrow> nat option \<Rightarrow> unit ssh_py" where
  "name_channel tag c = py_bind (channel_field ''serverID'' serverID c) (\<lambda>i.
     set_channel c (\<lambda>ch. ch\<lparr>channel_name := Some (tag @ str_nat i @ '']'')\<rparr>))"

definition start_session :: "nat option \<Rightarrow> session \<Rightarrow> unit ssh_py" where
  "start_session c v = set_channel c (\<lambda>ch. ch\<lparr>channel_session := Some v\<rparr>)"

section \<open>Authentication\<close>

definition bytes_of :: "pyobj \<Rightarrow> string" where
  "bytes_of v = (case v of PyBytes b \<Rightarrow> b | PyText t \<Rightarrow> t)"

text \<open>\<open>string_to_hex('password') + chr(0).encode()\<close>\<close>

definition password_only :: "string ssh_py" where
  "password_only = py_bind (py_lift (string_to_hex ''password'')) (\<lambda>v. py_return (v @ [CHR 0x00]))"

definition on_userauth_request :: "unit ssh_py" where
  "on_userauth_request = py_bind send_off (\<lambda>_.
     py_bind ssh_string (\<lambda>user. py_bind (py_modify (\<lambda>s. s\<lparr>ssh_username := user\<rparr>)) (\<lambda>_.
     py_bind ssh_string (\<lambda>_.
     py_bind ssh_string (\<lambda>ty. py_bind (py_modify (\<lambda>s. s\<lparr>auth_type := ty\<rparr>)) (\<lambda>_.
     if ty = PyBytes ''password'' then
       py_bind ssh_bool (\<lambda>_. py_bind ssh_string (\<lambda>pw. py_modify (\<lambda>s. s\<lparr>ssh_password := pw\<rparr>)))
     else if ty = PyBytes ''publickey'' then
       py_bind send_off (\<lambda>_. py_bind password_only (\<lambda>v. sendPacket ToServer 51 v))
     else py_return ()))))))"

definition on_userauth_failure :: "unit ssh_py" where
  "on_userauth_failure = py_bind send_off (\<lambda>_. py_bind ssh_string (\<lambda>auths.
     py_bind (py_lift (bytes_in ''publickey'' auths)) (\<lambda>found.
     if found then py_bind password_only (\<lambda>_. py_return ()) else py_return ())))"

definition ascii_lower :: "char \<Rightarrow> char" where
  "ascii_lower c = (if 65 \<le> (of_char c :: nat) \<and> (of_char c :: nat) \<le> 90 then char_of (of_char c + 32 :: nat) else c)"

text \<open>
  A text is looked for in each prompt, which raises at the first one, as a prompt is bytes.
\<close>

fun read_prompts :: "nat \<Rightarrow> nat \<Rightarrow> unit ssh_py" where
  "read_prompts i 0 = py_return ()"
| "read_prompts i (Suc n) = py_bind ssh_string (\<lambda>request. py_bind ssh_bool (\<lambda>_.
     case request of PyBytes b \<Rightarrow> py_raise TypeError
     | PyText t \<Rightarrow> py_bind
         (if length (split_str ''password'' (map ascii_lower t)) > 1
          then py_modify (\<lambda>s. s\<lparr>expect_password := i\<rparr>) else py_return ())
         (\<lambda>_. read_prompts (Suc i) n)))"

definition on_info_request :: "unit ssh_py" where
  "on_info_request = py_bind send_off (\<lambda>_.
     py_bind (py_modify (\<lambda>s. s\<lparr>auth_type := PyBytes ''keyboard-interactive''\<rparr>)) (\<lambda>_.
     py_bind ssh_string (\<lambda>_. py_bind ssh_string (\<lambda>_. py_bind ssh_string (\<lambda>_.
     py_bind (ssh_int 4) (\<lambda>n. read_prompts 0 n))))))"

fun read_responses :: "nat \<Rightarrow> nat \<Rightarrow> unit ssh_py" where
  "read_responses i 0 = py_return ()"
| "read_responses i (Suc n) = py_bind ssh_string (\<lambda>response. py_bind
     (py_modify (\<lambda>s. if i = expect_password s then s\<lparr>ssh_password := response\<rparr> else s))
     (\<lambda>_. read_responses (Suc i) n))"

definition on_info_response :: "unit ssh_py" where
  "on_info_response = py_bind send_off (\<lambda>_. py_bind (ssh_int 4) (\<lambda>n. read_responses 0 n))"

section \<open>Opening channels\<close>

definition other_side :: "side \<Rightarrow> side" where
  "other_side d = (case d of SERVER \<Rightarrow> CLIENT | CLIENT \<Rightarrow> SERVER)"

definition forward_name :: "side \<Rightarrow> nat \<Rightarrow> string" where
  "forward_name parent i = (case parent of SERVER \<Rightarrow> ''[LPRTF'' | CLIENT \<Rightarrow> ''[RPRTF'') @ str_nat i @ '']''"

text \<open>The answer to a forward that is not allowed: channel, reason, text and language.\<close>

definition open_failed :: "nat \<Rightarrow> string res" where
  "open_failed i = bind_res (int_to_hex i) (\<lambda>a. bind_res (int_to_hex 1) (\<lambda>b.
     bind_res (string_to_hex ''open failed'') (\<lambda>c. bind_res (int_to_hex 0) (\<lambda>d. Inr (a @ b @ c @ d)))))"

definition open_forward :: "ssh_config \<Rightarrow> side \<Rightarrow> nat \<Rightarrow> pyobj \<Rightarrow> unit ssh_py" where
  "open_forward cfg parent i ty =
     py_bind (ssh_int 4) (\<lambda>_. py_bind (ssh_int 4) (\<lambda>_.
     py_bind ssh_string (\<lambda>dst_ip. py_bind (ssh_int 4) (\<lambda>dst_port.
     py_bind ssh_string (\<lambda>src_ip. py_bind (ssh_int 4) (\<lambda>src_port.
     py_bind (read_option (cfg_forwarding cfg)) (\<lambda>forwarding.
     if forwarding then
       py_bind (create_channel parent i ty) (\<lambda>_.
       py_bind (get_channel i (other_side parent)) (\<lambda>c.
       py_bind (set_channel c (\<lambda>ch. ch\<lparr>channel_name := Some (forward_name parent i)\<rparr>)) (\<lambda>_.
       start_session c PortForward)))
     else
       py_bind send_off (\<lambda>_. py_bind (py_lift (open_failed i)) (\<lambda>v. send_back parent 92 v)))))))))"

definition on_channel_open :: "ssh_config \<Rightarrow> side \<Rightarrow> unit ssh_py" where
  "on_channel_open cfg parent =
     py_bind ssh_string (\<lambda>ty. py_bind (ssh_int 4) (\<lambda>i.
     if ty = PyBytes ''session'' then
       py_bind (py_modify (\<lambda>s. s\<lparr>ssh_timeouts := ssh_timeouts s @ [cfg_interactive_timeout cfg]\<rparr>))
         (\<lambda>_. create_channel parent i ty)
     else if ty = PyBytes ''direct-tcpip'' \<or> ty = PyBytes ''forwarded-tcpip'' then open_forward cfg parent i ty
     else py_return ()))"

definition own_id :: "side \<Rightarrow> nat \<Rightarrow> channel \<Rightarrow> channel" where
  "own_id parent i ch = (case parent of SERVER \<Rightarrow> ch\<lparr>serverID := Some i\<rparr> | CLIENT \<Rightarrow> ch\<lparr>clientID := Some i\<rparr>)"

definition on_open_confirmation :: "side \<Rightarrow> unit ssh_py" where
  "on_open_confirmation parent = py_bind (ssh_int 4) (\<lambda>n. py_bind (get_channel n parent) (\<lambda>c.
     py_bind (ssh_int 4) (\<lambda>sender. set_channel c (own_id parent sender))))"

definition on_open_failure :: "side \<Rightarrow> unit ssh_py" where
  "on_open_failure parent =
     py_bind (ssh_int 4) (\<lambda>n. py_bind (get_channel n parent) (\<lambda>c. remove_channel c))"

section \<open>Requests and data of a channel\<close>

definition request_shell :: "ssh_config \<Rightarrow> nat option \<Rightarrow> unit ssh_py" where
  "request_shell cfg c =
     py_bind (name_channel ''[TERM'' c) (\<lambda>_.
     py_bind (channel_field ''name'' channel_name c) (\<lambda>_.
     py_bind (channel_field ''clientID'' clientID c) (\<lambda>_.
     start_session c (Terminal (Term_init (cfg_ttylog cfg))))))"

definition request_exec :: "ssh_config \<Rightarrow> nat option \<Rightarrow> unit ssh_py" where
  "request_exec cfg c =
     py_bind (name_channel ''[EXEC'' c) (\<lambda>_.
     py_bind ssh_bool (\<lambda>_. py_bind ssh_string (\<lambda>cmd.
     py_bind (channel_field ''serverID'' serverID c) (\<lambda>_.
     py_bind (py_lift (ExecTerm_init (cfg_ttylog cfg) (bytes_of cmd))) (\<lambda>v.
     start_session c (Execution v))))))"

definition request_subsystem :: "ssh_config \<Rightarrow> side \<Rightarrow> nat option \<Rightarrow> unit ssh_py" where
  "request_subsystem cfg parent c =
     py_bind ssh_bool (\<lambda>_. py_bind ssh_string (\<lambda>subsystem.
     if subsystem = PyBytes ''sftp'' then
       py_bind (read_option (cfg_sftp_enabled cfg)) (\<lambda>enabled.
       if enabled then py_bind (name_channel ''[SFTP'' c) (\<lambda>_. start_session c (FileTransfer SFTP_init))
       else py_bind send_off (\<lambda>_. py_bind (channel_field ''serverID'' serverID c) (\<lambda>i.
         py_bind (py_lift (int_to_hex i)) (\<lambda>v. send_back parent 100 v))))
     else py_bind (py_lift (obj_decode subsystem)) (\<lambda>_. py_return ())))"

definition QUIET_REQUESTS :: "string list" where
  "QUIET_REQUESTS = [''window-change'', ''env'', ''pty-req'', ''exit-status'', ''exit-signal'']"

definition on_channel_request :: "ssh_config \<Rightarrow> side \<Rightarrow> unit ssh_py" where
  "on_channel_request cfg parent =
     py_bind (ssh_int 4) (\<lambda>n. py_bind (get_channel n parent) (\<lambda>c. py_bind ssh_string (\<lambda>ty.
     if ty = PyBytes ''shell'' then request_shell cfg c
     else if ty = PyBytes ''exec'' then request_exec cfg c
     else if ty = PyBytes ''subsystem'' then request_subsystem cfg parent c
     else if ty \<notin> set (map PyBytes QUIET_REQUESTS) then
       py_bind (py_lift (obj_decode ty)) (\<lambda>_. py_return ())
     else py_return ())))"

definition mark_closed :: "side \<Rightarrow> channel \<Rightarrow> channel" where
  "mark_closed parent ch = (case parent of SERVER \<Rightarrow> ch\<lparr>closed_by_server := True\<rparr> | CLIENT \<Rightarrow> ch\<lparr>closed_by_client := True\<rparr>)"

definition on_channel_close :: "side \<Rightarrow> unit ssh_py" where
  "on_channel_close parent =
     py_bind (ssh_int 4) (\<lambda>n. py_bind (get_channel n parent) (\<lambda>c.
     py_bind (set_channel c (mark_closed parent)) (\<lambda>_.
     py_bind (the_channel c) (\<lambda>i. py_bind py_get (\<lambda>s. let ch = channels s ! i in
     if closed_by_server ch \<and> closed_by_client ch then
       py_bind (case channel_session ch of None \<Rightarrow> py_return ()
         | Some v \<Rightarrow> py_modify (\<lambda>s. s\<lparr>sessions_closed := sessions_closed s @ [v]\<rparr>))
         (\<lambda>_. remove_channel c)
     else py_return ())))))"

text \<open>What a session does with data, as its own theory has it.\<close>

definition sftp_direction :: "side \<Rightarrow> direction" where
  "sftp_direction parent = (case parent of SERVER \<Rightarrow> FromServer | CLIENT \<Rightarrow> FromClient)"

definition session_parse :: "side \<Rightarrow> string \<Rightarrow> session \<Rightarrow> unit res \<times> session" where
  "session_parse parent payload v = (case v of
       Terminal t \<Rightarrow> (case term_parse_packet parent payload t of (r, t') \<Rightarrow> (r, Terminal t'))
     | Execution e \<Rightarrow> (Inr (), Execution (exec_parse_packet parent payload e))
     | FileTransfer f \<Rightarrow> (case sftp_parse_packet (sftp_direction parent) payload f of (r, f') \<Rightarrow> (r, FileTransfer f'))
     | PortForward \<Rightarrow> (Inr (), PortForward))"

definition session_at :: "nat option \<Rightarrow> session ssh_py" where
  "session_at c = py_bind (the_channel c) (\<lambda>i. py_bind py_get (\<lambda>s.
     case channel_session (channels s ! i) of
       None \<Rightarrow> py_raise (AttributeError ''parse_packet'') | Some v \<Rightarrow> py_return v))"

text \<open>The session is changed also where it raises.\<close>

definition session_data :: "side \<Rightarrow> nat option \<Rightarrow> unit ssh_py" where
  "session_data parent c = py_bind (session_at c) (\<lambda>v. py_bind ssh_string (\<lambda>payload.
     case session_parse parent (bytes_of payload) v of (r, v') \<Rightarrow>
       py_bind (start_session c v') (\<lambda>_. py_lift r)))"

definition on_channel_data :: "side \<Rightarrow> unit ssh_py" where
  "on_channel_data parent =
     py_bind (ssh_int 4) (\<lambda>n. py_bind (get_channel n parent) (\<lambda>c. session_data parent c))"

text \<open>\<open>channel['session'].parse_packet\<close> is looked up after the type of the data is read.\<close>

definition on_extended_data :: "side \<Rightarrow> unit ssh_py" where
  "on_extended_data parent =
     py_bind (ssh_int 4) (\<lambda>n. py_bind (get_channel n parent) (\<lambda>c.
     py_bind (ssh_int 4) (\<lambda>_. session_data parent c)))"

text \<open>\<open>getboolean\<close> is given one argument instead of two, and raises.\<close>

definition on_global_request :: "side \<Rightarrow> unit ssh_py" where
  "on_global_request parent = py_bind ssh_string (\<lambda>ty.
     if ty = PyBytes ''tcpip-forward'' then py_raise TypeError else py_return ())"

section \<open>A packet\<close>

definition on_service_request :: "unit ssh_py" where
  "on_service_request = py_bind ssh_string (\<lambda>service.
     if service = PyBytes ''ssh-userauth'' then send_off else py_return ())"

definition inspect :: "ssh_config \<Rightarrow> side \<Rightarrow> ssh_msg \<Rightarrow> unit ssh_py" where
  "inspect cfg parent m = (case m of
       MSG_SERVICE_REQUEST \<Rightarrow> on_service_request
     | MSG_USERAUTH_REQUEST \<Rightarrow> on_userauth_request
     | MSG_USERAUTH_FAILURE \<Rightarrow> on_userauth_failure
     | MSG_USERAUTH_SUCCESS \<Rightarrow> send_off
     | MSG_USERAUTH_INFO_REQUEST \<Rightarrow> on_info_request
     | MSG_USERAUTH_INFO_RESPONSE \<Rightarrow> on_info_response
     | MSG_CHANNEL_OPEN \<Rightarrow> on_channel_open cfg parent
     | MSG_CHANNEL_OPEN_CONFIRMATION \<Rightarrow> on_open_confirmation parent
     | MSG_CHANNEL_OPEN_FAILURE \<Rightarrow> on_open_failure parent
     | MSG_CHANNEL_REQUEST \<Rightarrow> on_channel_request cfg parent
     | MSG_CHANNEL_CLOSE \<Rightarrow> on_channel_close parent
     | MSG_CHANNEL_DATA \<Rightarrow> on_channel_data parent
     | MSG_CHANNEL_EXTENDED_DATA \<Rightarrow> on_extended_data parent
     | MSG_GLOBAL_REQUEST \<Rightarrow> on_global_request parent
     | _ \<Rightarrow> py_return ())"

definition pass_on :: "side \<Rightarrow> nat \<Rightarrow> string \<Rightarrow> unit ssh_py" where
  "pass_on parent num payload = py_bind py_get (\<lambda>s. if sendOn s
     then sendPacket (case parent of SERVER \<Rightarrow> ToClient | CLIENT \<Rightarrow> ToServer) num payload
     else py_return ())"

definition ssh_parse_packet :: "ssh_config \<Rightarrow> side \<Rightarrow> nat \<Rightarrow> string \<Rightarrow> unit ssh_py" where
  "ssh_parse_packet cfg parent num payload =
     py_bind (py_modify (\<lambda>s. s\<lparr>ssh_fields := \<lparr>pdata = PyBytes payload, packetSize = int (length payload)\<rparr>,
       sendOn := True\<rparr>)) (\<lambda>_.
     py_bind (inspect cfg parent (message_of num)) (\<lambda>_. pass_on parent num payload))"

end
