(* ===== verification/SshProxyProps.thy ===== *)
theory SshProxyProps
  imports SshProxy
begin

text \<open>
  What the SSH proxy lets through: packets are passed on unchanged and in order, authentication stays
  with the proxy, and the few packets of its own it sends are refusals.
\<close>

section \<open>Answers\<close>

definition back_to :: "side \<Rightarrow> transport" where
  "back_to d = (case d of SERVER \<Rightarrow> ToServer | CLIENT \<Rightarrow> ToClient)"

definition onward :: "side \<Rightarrow> transport" where
  "onward d = (case d of SERVER \<Rightarrow> ToClient | CLIENT \<Rightarrow> ToServer)"

text \<open>The one method the proxy offers instead of a public key.\<close>

definition refusal :: string where
  "refusal = be_bytes 4 8 @ ''password'' @ [CHR 0x00]"

definition answers :: "side \<Rightarrow> (transport \<times> nat \<times> string) set" where
  "answers d = {(t, n, v). t = ToServer \<and> n = 51 \<and> v = refusal \<or> t = back_to d \<and> n \<in> {92, 100}}"

named_theorems answering_intros \<open>parts of the proxy that send answers at most\<close>

text \<open>
  Looking at a packet sends answers only, and after one the packet is not passed on; nothing turns
  passing on again. The second relation asks this only where passing on is off already.
\<close>

definition answering :: "side \<Rightarrow> ssh \<Rightarrow> ssh \<Rightarrow> bool" where
  "answering d s s' \<longleftrightarrow> (\<exists>xs. ssh_sent s' = ssh_sent s @ xs \<and> set xs \<subseteq> answers d \<and> (sendOn s' \<longrightarrow> sendOn s \<and> xs = []))"

definition answering_off :: "side \<Rightarrow> ssh \<Rightarrow> ssh \<Rightarrow> bool" where
  "answering_off d s s' \<longleftrightarrow> (\<not> sendOn s \<longrightarrow> answering d s s')"

lemma answering_preorder: "preorder_on_states (answering d)"
proof -
  have "answering d s u" if "answering d s t" "answering d t u" for s t u
  proof -
    from that obtain xs ys where "ssh_sent t = ssh_sent s @ xs" "set xs \<subseteq> answers d" "sendOn t \<longrightarrow> sendOn s \<and> xs = []"
      "ssh_sent u = ssh_sent t @ ys" "set ys \<subseteq> answers d" "sendOn u \<longrightarrow> sendOn t \<and> ys = []"
      unfolding answering_def by auto
    then have "ssh_sent u = ssh_sent s @ xs @ ys \<and> set (xs @ ys) \<subseteq> answers d \<and> (sendOn u \<longrightarrow> sendOn s \<and> xs @ ys = [])"
      by auto
    then show ?thesis unfolding answering_def by blast
  qed
  moreover have "answering d s s" for s by (simp add: answering_def)
  ultimately show ?thesis unfolding preorder_on_states_def reflp_def transp_def by blast
qed

lemma answering_off_preorder: "preorder_on_states (answering_off d)"
proof -
  note r = answering_preorder [of d, unfolded preorder_on_states_def reflp_def transp_def]
  have "answering_off d s u" if "answering_off d s t" "answering_off d t u" for s t u
    using that r unfolding answering_off_def by (metis answering_def)
  moreover have "answering_off d s s" for s using r by (simp add: answering_off_def)
  ultimately show ?thesis unfolding preorder_on_states_def reflp_def transp_def by blast
qed

lemma answering_weaken: "keeps (answering d) m \<Longrightarrow> keeps (answering_off d) m"
  by (simp add: keeps_def answering_off_def)

text \<open>Parts that send nothing and leave passing on alone.\<close>

definition quiet :: "ssh \<Rightarrow> ssh \<Rightarrow> bool" where
  "quiet s s' \<longleftrightarrow> ssh_sent s' = ssh_sent s \<and> sendOn s' = sendOn s"

named_theorems quiet_intros \<open>parts of the proxy that send nothing and leave passing on alone\<close>

lemma quiet_preorder: "preorder_on_states quiet"
  by (auto simp: preorder_on_states_def quiet_def reflp_def transp_def)

lemma quiet_modify: "(\<And>s. ssh_sent (f s) = ssh_sent s \<and> sendOn (f s) = sendOn s) \<Longrightarrow> keeps quiet (py_modify f)"
  by (rule keeps_modify) (simp add: quiet_def)

lemma quiet_answering: "keeps quiet m \<Longrightarrow> keeps (answering d) m"
  by (simp add: keeps_def quiet_def answering_def)

lemma answering_modify:
  "(\<And>s. ssh_sent (f s) = ssh_sent s \<and> sendOn (f s) = sendOn s) \<Longrightarrow> keeps (answering d) (py_modify f)"
  by (rule keeps_modify) (simp add: answering_def)

lemma quiet_fields [quiet_intros]: "keeps quiet (on_ssh_fields m)"
  by (simp add: keeps_def quiet_def on_ssh_fields_def split: prod.split)

lemma answering_off_fields: "keeps (answering_off d) (on_ssh_fields m)"
  by (rule answering_weaken [OF quiet_answering [OF quiet_fields]])

lemma answering_send_off: "keeps (answering d) send_off"
  unfolding send_off_def by (rule keeps_modify) (simp add: answering_def)

lemma answering_off_sendPacket: "(t, n, v) \<in> answers d \<Longrightarrow> keeps (answering_off d) (sendPacket t n v)"
  by (auto simp: keeps_def answering_off_def answering_def sendPacket_def py_raise_def py_bind_def py_get_def
      py_modify_def)

text \<open>What starts by turning passing on off may send answers after that, and does not pass on.\<close>

definition withheld :: "side \<Rightarrow> unit ssh_py \<Rightarrow> bool" where
  "withheld d m \<longleftrightarrow> keeps (answering d) m \<and> (\<forall>s. \<not> sendOn (snd (m s)))"

lemma send_off_run: "py_bind send_off k = (\<lambda>s. k () (s\<lparr>sendOn := False\<rparr>))"
  by (simp add: send_off_def py_bind_def py_modify_def)

lemma withheld_send_off:
  assumes "keeps (answering_off d) (k ())"
  shows "withheld d (py_bind send_off k)"
proof -
  have "answering d (s\<lparr>sendOn := False\<rparr>) (snd (k () (s\<lparr>sendOn := False\<rparr>)))" for s
    using keepsD [OF assms, of "s\<lparr>sendOn := False\<rparr>"] by (simp add: answering_off_def)
  then show ?thesis unfolding withheld_def send_off_run by (auto simp: keeps_def answering_def)
qed

lemma answering_send_off_then:
  fixes k :: "unit \<Rightarrow> unit ssh_py"
  assumes "keeps (answering_off d) (k ())"
  shows "keeps (answering d) (py_bind send_off k)"
  using withheld_send_off [where k = k, OF assms] by (simp add: withheld_def)

lemma answering_off_modify:
  "(\<And>s. ssh_sent (f s) = ssh_sent s \<and> sendOn (f s) = sendOn s) \<Longrightarrow> keeps (answering_off d) (py_modify f)"
  by (rule answering_weaken [OF answering_modify])

lemmas [answering_intros] = answering_off_fields answering_send_off

section \<open>The handlers\<close>

lemma quiet_read_option [quiet_intros]: "keeps quiet (read_option v)"
  by (cases v) (simp_all add: read_option_def keeps_return keeps_raise quiet_preorder)

lemma quiet_get_channel [quiet_intros]: "keeps quiet (get_channel n p)"
  unfolding get_channel_def by (intro keeps_intros quiet_preorder)

lemma quiet_the_channel [quiet_intros]: "keeps quiet (the_channel c)"
  unfolding the_channel_def by (intro keeps_intros quiet_preorder)

lemma quiet_set_channel [quiet_intros]: "keeps quiet (set_channel c f)"
  unfolding set_channel_def
  by (intro keeps_intros quiet_preorder quiet_intros quiet_modify) simp

lemma quiet_channel_field [quiet_intros]: "keeps quiet (channel_field k f c)"
  unfolding channel_field_def by (intro keeps_intros quiet_preorder quiet_intros)

lemma quiet_remove_channel [quiet_intros]: "keeps quiet (remove_channel c)"
  unfolding remove_channel_def by (intro keeps_intros quiet_preorder quiet_modify) simp

lemma quiet_create_channel [quiet_intros]: "keeps quiet (create_channel p i ty)"
  unfolding create_channel_def by (intro quiet_modify) simp

lemma quiet_name_channel [quiet_intros]: "keeps quiet (name_channel tag c)"
  unfolding name_channel_def by (intro keeps_intros quiet_preorder quiet_intros)

lemma quiet_start_session [quiet_intros]: "keeps quiet (start_session c v)"
  unfolding start_session_def by (intro quiet_intros)

lemma quiet_session_data [quiet_intros]: "keeps quiet (session_data p c)"
  unfolding session_data_def session_at_def
  by (intro keeps_intros quiet_preorder quiet_intros)

lemmas [answering_intros] = quiet_intros [THEN quiet_answering]

lemma password_only_bind: "py_bind password_only k = k refusal"
  by (simp add: password_only_def string_to_hex_def pack_uint_def refusal_def py_bind_def py_lift_def
      py_return_def fun_eq_iff)

lemma answering_off_send_back [answering_intros]:
  "n \<in> {92, 100} \<Longrightarrow> keeps (answering_off d) (send_back d n v)"
  unfolding send_back_def
  by (intro keeps_intros answering_off_preorder answering_off_sendPacket)
    (auto simp: answers_def back_to_def split: side.splits)

lemma answering_off_read_prompts: "keeps (answering_off d) (read_prompts i n)"
proof (induction n arbitrary: i)
  case (Suc n)
  have request: "keeps (answering_off d) (case v of PyBytes b \<Rightarrow> py_raise TypeError
      | PyText t \<Rightarrow> py_bind (if P t then py_modify (\<lambda>s. s\<lparr>expect_password := i\<rparr>) else py_return ())
         (\<lambda>_. read_prompts (Suc i) n))" for v P
    by (cases v) (auto intro!: keeps_intros answering_off_preorder Suc answering_off_modify)
  show ?case unfolding read_prompts.simps
    by (intro keeps_bind answering_off_preorder answering_intros request)
qed (simp add: keeps_return answering_off_preorder)

lemma answering_off_read_responses: "keeps (answering_off d) (read_responses i n)"
proof (induction n arbitrary: i)
  case (Suc n)
  show ?case unfolding read_responses.simps
    by (intro keeps_bind answering_off_preorder answering_intros answering_off_modify Suc) simp
qed (simp add: keeps_return answering_off_preorder)

text \<open>Authentication is withheld from the other side.\<close>

lemma withheld_userauth_request: "withheld d on_userauth_request"
  unfolding on_userauth_request_def password_only_bind
  by (rule withheld_send_off)
    (intro keeps_bind keeps_if keeps_return answering_off_preorder answering_intros answering_off_modify
      answering_off_sendPacket answering_weaken [OF answering_send_off]; simp add: answers_def)

lemma withheld_userauth_failure: "withheld d on_userauth_failure"
  unfolding on_userauth_failure_def password_only_bind
  by (rule withheld_send_off) (intro keeps_intros answering_off_preorder answering_intros)

lemma withheld_info_request: "withheld d on_info_request"
  unfolding on_info_request_def
  by (rule withheld_send_off)
    (intro keeps_bind answering_off_preorder answering_intros answering_off_modify answering_off_read_prompts; simp)

lemma withheld_info_response: "withheld d on_info_response"
  unfolding on_info_response_def
  by (rule withheld_send_off)
    (intro keeps_bind answering_off_preorder answering_intros answering_off_read_responses)

lemma withheld_userauth_success: "withheld d send_off"
  by (simp add: withheld_def answering_send_off) (simp add: send_off_def py_modify_def)

text \<open>The other handlers\<close>

lemma answering_open_forward: "keeps (answering d) (open_forward cfg d i ty)"
  unfolding open_forward_def
  by (intro keeps_intros answering_preorder answering_intros answering_send_off_then answering_off_preorder) simp

lemma answering_channel_open: "keeps (answering d) (on_channel_open cfg d)"
  unfolding on_channel_open_def
  by (intro keeps_intros answering_preorder answering_intros answering_open_forward answering_modify) simp

lemma answering_request_subsystem: "keeps (answering d) (request_subsystem cfg d c)"
  unfolding request_subsystem_def
  by (intro keeps_intros answering_preorder answering_intros answering_send_off_then answering_off_preorder
      answering_weaken [OF quiet_answering [OF quiet_channel_field]]) simp

lemma answering_channel_request: "keeps (answering d) (on_channel_request cfg d)"
  unfolding on_channel_request_def request_shell_def request_exec_def
  by (intro keeps_intros answering_preorder answering_intros answering_request_subsystem)

lemma quiet_open_confirmation: "keeps quiet (on_open_confirmation p)"
  unfolding on_open_confirmation_def by (intro keeps_intros quiet_preorder quiet_intros)

lemma quiet_open_failure: "keeps quiet (on_open_failure p)"
  unfolding on_open_failure_def by (intro keeps_intros quiet_preorder quiet_intros)

lemma quiet_channel_close: "keeps quiet (on_channel_close p)"
  unfolding on_channel_close_def Let_def
  by (intro keeps_intros quiet_preorder quiet_intros quiet_modify) simp

lemma quiet_channel_data: "keeps quiet (on_channel_data p)"
  unfolding on_channel_data_def by (intro keeps_intros quiet_preorder quiet_intros)

lemma quiet_extended_data: "keeps quiet (on_extended_data p)"
  unfolding on_extended_data_def by (intro keeps_intros quiet_preorder quiet_intros)

lemma quiet_global_request: "keeps quiet (on_global_request p)"
  unfolding on_global_request_def by (intro keeps_intros quiet_preorder quiet_intros)

lemmas quiet_handlers = quiet_open_confirmation quiet_open_failure quiet_channel_close quiet_channel_data
  quiet_extended_data quiet_global_request

lemma answering_service_request: "keeps (answering d) on_service_request"
  unfolding on_service_request_def by (intro keeps_intros answering_preorder answering_intros)

lemma answering_inspect: "keeps (answering d) (inspect cfg d m)"
  using withheld_userauth_request [of d] withheld_userauth_failure [of d] withheld_info_request [of d]
    withheld_info_response [of d] withheld_userauth_success [of d]
  by (cases m) (auto simp: inspect_def withheld_def keeps_return answering_preorder answering_channel_open
      answering_channel_request answering_service_request quiet_handlers [THEN quiet_answering])

section \<open>Nothing is swallowed\<close>

text \<open>What sends one packet when it returns, and what either leaves passing on alone or answers.\<close>

definition sends :: "'a ssh_py \<Rightarrow> bool" where
  "sends m \<longleftrightarrow> (\<forall>s r s'. m s = (Inr r, s') \<longrightarrow> (\<exists>x. ssh_sent s' = ssh_sent s @ [x]))"

definition settles :: "'a ssh_py \<Rightarrow> bool" where
  "settles m \<longleftrightarrow> (\<forall>s r s'. m s = (Inr r, s') \<and> sendOn s \<longrightarrow> sendOn s' \<or> ssh_sent s' \<noteq> ssh_sent s)"

lemma quiet_run: "keeps quiet m \<Longrightarrow> m s = (r, t) \<Longrightarrow> ssh_sent t = ssh_sent s \<and> sendOn t = sendOn s"
  using keepsD [of quiet m s] by (simp add: quiet_def)

lemma bind_returns: "py_bind m k s = (Inr r, u) \<Longrightarrow> \<exists>a t. m s = (Inr a, t) \<and> k a t = (Inr r, u)"
  by (auto split: prod.splits sum.splits)

lemma bind_returnsE:
  assumes "py_bind m k s = (Inr r, u)" and "keeps quiet m"
  obtains a t where "k a t = (Inr r, u)" "ssh_sent t = ssh_sent s" "sendOn t = sendOn s"
  using bind_returns [OF assms(1)] quiet_run [OF assms(2)] that by blast

lemma sends_bind:
  assumes m: "keeps quiet m" and k: "\<And>a. sends (k a)"
  shows "sends (py_bind m k)"
  unfolding sends_def
proof (intro allI impI)
  fix s r s'
  assume "py_bind m k s = (Inr r, s')"
  then obtain a t where "k a t = (Inr r, s')" "ssh_sent t = ssh_sent s" by (rule bind_returnsE [OF _ m])
  with k [of a, unfolded sends_def, rule_format, of t r s'] show "\<exists>x. ssh_sent s' = ssh_sent s @ [x]" by simp
qed

lemma sends_sendPacket: "sends (sendPacket t n v)"
  by (auto simp: sends_def sendPacket_def split: if_splits)

lemma sends_send_back: "sends (send_back d n v)"
proof (cases "map_of ssh_layout n")
  case None
  then show ?thesis by (simp add: send_back_def sends_def)
next
  case (Some a)
  then show ?thesis by (simp add: send_back_def sends_sendPacket)
qed

lemma settles_quiet: "keeps quiet m \<Longrightarrow> settles m"
  unfolding settles_def using quiet_run by blast

lemma settles_bind:
  assumes m: "keeps quiet m" and k: "\<And>a. settles (k a)"
  shows "settles (py_bind m k)"
  unfolding settles_def
proof (intro allI impI)
  fix s r s'
  assume run: "py_bind m k s = (Inr r, s') \<and> sendOn s"
  then have "py_bind m k s = (Inr r, s')" ..
  then obtain a t where "k a t = (Inr r, s')" "ssh_sent t = ssh_sent s" "sendOn t = sendOn s"
    by (rule bind_returnsE [OF _ m])
  with run k [of a, unfolded settles_def, rule_format, of t r s']
  show "sendOn s' \<or> ssh_sent s' \<noteq> ssh_sent s" by simp
qed

lemma settles_if: "settles a \<Longrightarrow> settles b \<Longrightarrow> settles (if c then a else b)"
  by simp

lemma settles_answer:
  assumes "sends (k ())"
  shows "settles (py_bind send_off k)"
proof -
  have "ssh_sent s' \<noteq> ssh_sent s" if "py_bind send_off k s = (Inr r, s')" for s r s'
  proof -
    from that have "k () (s\<lparr>sendOn := False\<rparr>) = (Inr r, s')" by (simp only: send_off_run)
    with assms [unfolded sends_def, rule_format] obtain x where "ssh_sent s' = ssh_sent (s\<lparr>sendOn := False\<rparr>) @ [x]"
      by blast
    then show ?thesis by simp
  qed
  then show ?thesis unfolding settles_def by blast
qed

lemma settles_open_forward: "settles (open_forward cfg d i ty)"
  unfolding open_forward_def
  by (intro settles_bind settles_if settles_answer sends_bind sends_send_back settles_quiet [OF quiet_start_session]
      quiet_intros keeps_lift quiet_preorder)

lemma settles_channel_open: "settles (on_channel_open cfg d)"
  unfolding on_channel_open_def
  by (intro settles_bind settles_if settles_open_forward settles_quiet [OF quiet_create_channel]
      settles_quiet [OF keeps_return [OF quiet_preorder]] quiet_intros quiet_modify) simp

lemma settles_request_subsystem: "settles (request_subsystem cfg d c)"
  unfolding request_subsystem_def
  by (intro settles_bind settles_if settles_answer sends_bind sends_send_back settles_quiet [OF quiet_start_session]
      settles_quiet [OF keeps_return [OF quiet_preorder]] quiet_intros keeps_lift quiet_preorder)

lemma quiet_request_shell: "keeps quiet (request_shell cfg c)"
  unfolding request_shell_def by (intro keeps_intros quiet_preorder quiet_intros)

lemma quiet_request_exec: "keeps quiet (request_exec cfg c)"
  unfolding request_exec_def by (intro keeps_intros quiet_preorder quiet_intros)

lemma settles_channel_request: "settles (on_channel_request cfg d)"
  unfolding on_channel_request_def
  by (intro settles_bind settles_if settles_request_subsystem settles_quiet [OF quiet_request_shell]
      settles_quiet [OF quiet_request_exec] settles_quiet [OF keeps_return [OF quiet_preorder]]
      quiet_intros keeps_lift quiet_preorder)

section \<open>Packets\<close>

text \<open>The service that a service request names.\<close>

definition requested_service :: "string \<Rightarrow> string" where
  "requested_service v = take (be_value (take 4 v)) (drop 4 v)"

definition may_pass :: "nat \<Rightarrow> string \<Rightarrow> bool" where
  "may_pass n v \<longleftrightarrow> n \<notin> {50, 51, 52, 60, 61} \<and> \<not> (n = 5 \<and> requested_service v = ''ssh-userauth'')"

text \<open>
  A packet is answered (or dropped), or passed on as it is.
\<close>

definition relayed :: "(side \<times> nat \<times> string) \<Rightarrow> (transport \<times> nat \<times> string) list \<Rightarrow> bool" where
  "relayed p xs = (case p of (d, n, v) \<Rightarrow>
     set xs \<subseteq> answers d \<or> xs = [(onward d, n, v)] \<and> may_pass n v)"

definition ssh_run :: "ssh_config \<Rightarrow> (side \<times> nat \<times> string) list \<Rightarrow> ssh \<Rightarrow> ssh" where
  "ssh_run cfg ps = fold (\<lambda>(d, n, v) s. snd (ssh_parse_packet cfg d n v s)) ps"

definition start_packet :: "string \<Rightarrow> ssh \<Rightarrow> ssh" where
  "start_packet v s = s\<lparr>ssh_fields := \<lparr>pdata = PyBytes v, packetSize = int (length v)\<rparr>, sendOn := True\<rparr>"

lemma message_of_auth:
  "message_of 50 = MSG_USERAUTH_REQUEST" "message_of 51 = MSG_USERAUTH_FAILURE"
  "message_of 52 = MSG_USERAUTH_SUCCESS" "message_of 60 = MSG_USERAUTH_INFO_REQUEST"
  "message_of 61 = MSG_USERAUTH_INFO_RESPONSE" "message_of 5 = MSG_SERVICE_REQUEST"
  by (simp_all add: message_of_def ssh_layout_def)

lemma withheld_off: "withheld d m \<Longrightarrow> \<not> sendOn (snd (m s))"
  by (simp add: withheld_def)

lemma service_request_off:
  "requested_service v = ''ssh-userauth'' \<Longrightarrow> \<not> sendOn (snd (on_service_request (start_packet v s)))"
  by (simp add: on_service_request_def on_ssh_fields_def extract_string_def extract_int_def from_bytes_def
      py_take_def py_drop_def start_packet_def requested_service_def send_off_def)

lemma inspect_withholds:
  assumes "\<not> may_pass n v"
  shows "\<not> sendOn (snd (inspect cfg d (message_of n) (start_packet v s)))"
proof -
  from assms consider "n = 50" | "n = 51" | "n = 52" | "n = 60" | "n = 61"
    | "n = 5" "requested_service v = ''ssh-userauth''"
    unfolding may_pass_def by auto
  then show ?thesis
    by cases (simp_all add: message_of_auth inspect_def service_request_off
        withheld_off [OF withheld_userauth_request [of d]] withheld_off [OF withheld_userauth_failure [of d]]
        withheld_off [OF withheld_userauth_success [of d]] withheld_off [OF withheld_info_request [of d]]
        withheld_off [OF withheld_info_response [of d]])
qed

lemma pass_on_sent:
  "ssh_sent (snd (pass_on d n v s)) = ssh_sent s @ (if sendOn s \<and> (onward d = ToClient \<longrightarrow> client_set s) then [(onward d, n, v)] else [])"
  by (cases d) (simp_all add: pass_on_def sendPacket_def onward_def)

lemma ssh_parse_packet_snd: "snd (ssh_parse_packet cfg d n v s) = (case inspect cfg d (message_of n) (start_packet v s) of
     (Inl e, t) \<Rightarrow> t | (Inr u, t) \<Rightarrow> snd (pass_on d n v t))"
  unfolding ssh_parse_packet_def py_bind_apply py_modify_apply
  by (cases "inspect cfg d (message_of n) (start_packet v s)" rule: prod.exhaust)
    (simp add: start_packet_def split: sum.split)

lemma packet_relayed:
  "\<exists>xs. ssh_sent (snd (ssh_parse_packet cfg d n v s)) = ssh_sent s @ xs \<and> relayed (d, n, v) xs"
proof -
  obtain r t where rt: "inspect cfg d (message_of n) (start_packet v s) = (r, t)" by fastforce
  have sent: "ssh_sent (start_packet v s) = ssh_sent s" by (simp add: start_packet_def)
  obtain xs where xs: "ssh_sent t = ssh_sent s @ xs" "set xs \<subseteq> answers d" "sendOn t \<longrightarrow> xs = []"
    using keepsD [OF answering_inspect [of d cfg "message_of n"], of "start_packet v s"]
    by (auto simp: answering_def rt sent)
  have off: "sendOn t \<longrightarrow> may_pass n v"
    using inspect_withholds [of n v cfg d s] by (auto simp: rt)
  show ?thesis
  proof (cases "r = Inr () \<and> sendOn t \<and> (onward d = ToClient \<longrightarrow> client_set t)")
    case True
    with xs off show ?thesis
      by (intro exI [of _ "[(onward d, n, v)]"]) (simp add: ssh_parse_packet_snd rt pass_on_sent relayed_def)
  next
    case False
    with xs show ?thesis
      by (intro exI [of _ xs]) (auto simp: ssh_parse_packet_snd rt pass_on_sent relayed_def split: sum.split)
  qed
qed

text \<open>C7: whatever packets the two sides send, each is passed on to the other side unchanged, in its
  turn and at most once, or is not passed on and answered with a refusal at most: public keys by
  the offer of a password, a channel by a failure. The packets of authentication, in either
  direction, and the request for the authentication service are never passed on.
\<close>

theorem ssh_relays:
  "\<exists>xss. ssh_sent (ssh_run cfg ps s) = ssh_sent s @ concat xss \<and> list_all2 relayed ps xss"
proof (induction ps arbitrary: s)
  case (Cons p ps)
  obtain d n v where p: "p = (d, n, v)" by (cases p)
  obtain xs where xs: "ssh_sent (snd (ssh_parse_packet cfg d n v s)) = ssh_sent s @ xs" "relayed p xs"
    using packet_relayed [of cfg d n v s] p by blast
  obtain xss where "ssh_sent (ssh_run cfg ps (snd (ssh_parse_packet cfg d n v s))) =
      ssh_sent (snd (ssh_parse_packet cfg d n v s)) @ concat xss" "list_all2 relayed ps xss"
    using Cons by blast
  with xs p show ?case by (intro exI [of _ "xs # xss"]) (simp add: ssh_run_def)
qed (auto simp: ssh_run_def)


text \<open>Looking at a packet that may pass leaves it to be passed on, or answers, where it returns.\<close>

lemma service_request_on:
  "requested_service v \<noteq> ''ssh-userauth'' \<Longrightarrow> sendOn (snd (on_service_request (start_packet v s)))"
  by (simp add: on_service_request_def on_ssh_fields_def extract_string_def extract_int_def from_bytes_def
      py_take_def py_drop_def start_packet_def requested_service_def)

lemma settles_inspect:
  assumes "m \<notin> {MSG_SERVICE_REQUEST, MSG_USERAUTH_REQUEST, MSG_USERAUTH_FAILURE, MSG_USERAUTH_SUCCESS,
     MSG_USERAUTH_INFO_REQUEST, MSG_USERAUTH_INFO_RESPONSE}"
  shows "settles (inspect cfg d m)"
  using assms by (cases m) (auto simp: inspect_def settles_channel_open settles_channel_request
      quiet_handlers [THEN settles_quiet] settles_quiet [OF keeps_return [OF quiet_preorder]])

lemma map_of_in: "map_of xs k = Some v \<Longrightarrow> k \<in> set (map fst (filter (\<lambda>x. snd x = v) xs))"
  by (induction xs) (auto split: if_splits)

lemma message_of_eq:
  "message_of n = m \<Longrightarrow> m \<noteq> MSG_UNKNOWN n \<Longrightarrow> n \<in> set (map fst (filter (\<lambda>x. snd x = m) ssh_layout))"
  by (auto simp: message_of_def split: option.splits dest!: map_of_in)

lemma inspect_settles:
  assumes pass: "may_pass n v" and run: "inspect cfg d (message_of n) (start_packet v s) = (Inr r, t)"
  shows "sendOn t \<or> ssh_sent t \<noteq> ssh_sent s"
proof (cases "message_of n = MSG_SERVICE_REQUEST")
  case True
  with message_of_eq [OF this] have "n = 5" by (auto simp: ssh_layout_def)
  with pass have "sendOn (snd (on_service_request (start_packet v s)))"
    by (intro service_request_on) (simp add: may_pass_def)
  with run True show ?thesis by (simp add: inspect_def)
next
  case False
  have "message_of n \<notin> {MSG_USERAUTH_REQUEST, MSG_USERAUTH_FAILURE, MSG_USERAUTH_SUCCESS,
     MSG_USERAUTH_INFO_REQUEST, MSG_USERAUTH_INFO_RESPONSE}"
    using pass message_of_eq [of n, OF refl] by (auto simp: may_pass_def ssh_layout_def)
  with False have "settles (inspect cfg d (message_of n))" by (intro settles_inspect) simp
  from this [unfolded settles_def, rule_format, of "start_packet v s" r t] run
  show ?thesis by (simp add: start_packet_def)
qed

text \<open>C36: a packet that does not belong to authentication is never swallowed: where it is handled
  without an exception, it is the one packet sent, unchanged, to the other side, or an answer is
  sent back.
\<close>

theorem ssh_forwards:
  assumes "fst (ssh_parse_packet cfg d n v s) = Inr ()" and "may_pass n v"
  shows "ssh_sent (snd (ssh_parse_packet cfg d n v s)) = ssh_sent s @ [(onward d, n, v)] \<or>
    (\<exists>x xs. ssh_sent (snd (ssh_parse_packet cfg d n v s)) = ssh_sent s @ x # xs \<and> set (x # xs) \<subseteq> answers d)"
proof -
  obtain t where t: "inspect cfg d (message_of n) (start_packet v s) = (Inr (), t)"
    and on: "fst (pass_on d n v t) = Inr ()"
    using assms(1) by (auto simp: ssh_parse_packet_def start_packet_def split: prod.splits sum.splits)
  have sent: "ssh_sent (start_packet v s) = ssh_sent s" by (simp add: start_packet_def)
  obtain xs where xs: "ssh_sent t = ssh_sent s @ xs" "set xs \<subseteq> answers d" "sendOn t \<longrightarrow> xs = []"
    using keepsD [OF answering_inspect [of d cfg "message_of n"], of "start_packet v s"]
    by (auto simp: answering_def t sent)
  have "sendOn t \<or> xs \<noteq> []" using inspect_settles [OF assms(2) t] xs by auto
  then show ?thesis
  proof
    assume "sendOn t"
    with on have "onward d = ToClient \<longrightarrow> client_set t"
      by (cases d) (auto simp: pass_on_def sendPacket_def onward_def split: if_splits)
    with \<open>sendOn t\<close> xs show ?thesis by (simp add: ssh_parse_packet_snd t pass_on_sent)
  next
    assume "xs \<noteq> []"
    with xs have "\<not> sendOn t" by auto
    with xs \<open>xs \<noteq> []\<close> show ?thesis
      by (cases xs) (auto simp: ssh_parse_packet_snd t pass_on_sent)
  qed
qed

definition ex_ssh_config :: ssh_config where
  "ex_ssh_config = \<lparr>cfg_forwarding = Some True, cfg_sftp_enabled = Some True, cfg_interactive_timeout = 300, cfg_ttylog = True\<rparr>"

definition ex_session_open :: string where
  "ex_session_open = [CHR 0x00, CHR 0x00, CHR 0x00, CHR 0x07] @ ''session'' @
     [CHR 0x00, CHR 0x00, CHR 0x00, CHR 0x00, CHR 0x00, CHR 0x01, CHR 0x00, CHR 0x00,
      CHR 0x00, CHR 0x00, CHR 0x80, CHR 0x00]"

definition ex_ssh :: ssh where
  "ex_ssh = SSH_init\<lparr>client_set := True\<rparr>"

lemma ex_session_opened: "fst (ssh_parse_packet ex_ssh_config SERVER 90 ex_session_open ex_ssh) = Inr ()"
  by (simp add: ssh_parse_packet_def message_of_def ssh_layout_def inspect_def on_channel_open_def
      on_ssh_fields_def extract_string_def extract_int_def from_bytes_def py_take_def py_drop_def be_value_def
      create_channel_def pass_on_def sendPacket_def ex_ssh_def ex_session_open_def)

theorem ssh_forwards_witness:
  "ssh_sent (snd (ssh_parse_packet ex_ssh_config SERVER 90 ex_session_open ex_ssh)) = ssh_sent ex_ssh @ [(onward SERVER, 90, ex_session_open)] \<or>
    (\<exists>x xs. ssh_sent (snd (ssh_parse_packet ex_ssh_config SERVER 90 ex_session_open ex_ssh)) = ssh_sent ex_ssh @ x # xs \<and> set (x # xs) \<subseteq> answers SERVER)"
  by (rule ssh_forwards) (simp_all add: ex_session_opened may_pass_def)

section \<open>What the code raises\<close>

text \<open>A prompt of keyboard-interactive authentication is never handled: a text is looked for in bytes.\<close>

lemma ssh_string_bytes:
  "pdata (ssh_fields s) = PyBytes b \<Longrightarrow> \<exists>c t p. ssh_string s = (Inr (PyBytes c), t) \<and> pdata (ssh_fields t) = PyBytes p"
  by (simp add: on_ssh_fields_def extract_string_def extract_int_def from_bytes_def py_take_def py_drop_def)

lemma prompts_raise:
  assumes "pdata (ssh_fields s) = PyBytes b"
  shows "fst (read_prompts i (Suc n) s) = Inl TypeError"
proof -
  obtain c t p where t: "ssh_string s = (Inr (PyBytes c), t)" "pdata (ssh_fields t) = PyBytes p"
    using ssh_string_bytes [OF assms] by blast
  then have "\<exists>u w. ssh_bool t = (Inr u, w)"
    by (simp add: on_ssh_fields_def extract_bool_def extract_int_def from_bytes_def py_take_def)
  then obtain u w where "ssh_bool t = (Inr u, w)" by blast
  with t show ?thesis by simp
qed

text \<open>A remote port forward is refused by an exception: the option is read with one argument.\<close>

lemma tcpip_forward_raises:
  assumes "take (be_value (take 4 v)) (drop 4 v) = ''tcpip-forward''"
  shows "fst (ssh_parse_packet cfg d 80 v s) = Inl TypeError"
  using assms by (simp add: ssh_parse_packet_def message_of_def ssh_layout_def inspect_def on_global_request_def
      on_ssh_fields_def extract_string_def extract_int_def from_bytes_def py_take_def py_drop_def)

end
