(* ===== verification/SftpSessionProps.thy ===== *)
theory SftpSessionProps
  imports SftpSession
begin

text \<open>
  The SFTP session puts a packet together from whatever pieces it arrives in, and where its handling
  of bytes and texts makes it raise.
\<close>

section \<open>Pieces of a packet\<close>

fun feed :: "direction \<Rightarrow> string list \<Rightarrow> unit sftp_py" where
  "feed d [] = py_return ()"
| "feed d (c # cs) = py_bind (sftp_parse_packet d c) (\<lambda>_. feed d cs)"

lemma packet_of_set_packet [simp]: "packet_of d (set_packet d p s) = p"
  by (cases d) (simp_all add: packet_of_def set_packet_def)

lemma set_packet_twice [simp]: "set_packet d p (set_packet d q s) = set_packet d p s"
  by (cases d) (simp_all add: set_packet_def)

abbreviation whole :: "string \<Rightarrow> packet" where
  "whole b \<equiv> \<lparr>pdata = PyBytes b, packetSize = 0\<rparr>"

lemma start_chunk_run:
  assumes "payload \<noteq> []"
  shows "start_chunk d payload s = (let p = \<lparr>pdata = PyBytes (drop 4 payload),
      packetSize = int (be_value (take 4 payload)) - int (length (drop 4 payload))\<rparr>; t = set_packet d p s
    in if packetSize p = 0 then handle_packet p t else (Inr (), t))"
  using assms by (simp add: start_chunk_def handle_if_whole_def Let_def)

lemma more_chunk_run:
  assumes p: "packet_of d s = \<lparr>pdata = PyBytes b, packetSize = n\<rparr>" and n: "n \<noteq> 0" "int (length payload) \<le> n"
  shows "sftp_parse_packet d payload s = (let p = \<lparr>pdata = PyBytes (b @ payload), packetSize = n - int (length payload)\<rparr>;
      t = set_packet d p s in if packetSize p = 0 then handle_packet p t else (Inr (), t))"
  using assms by (simp add: sftp_parse_packet_def handle_if_whole_def py_add_def Let_def)

lemma feed_waits: "sftp_parse_packet d c s = (Inr (), t) \<Longrightarrow> feed d (c # cs) s = feed d cs t"
  by simp

lemma feed_rest:
  assumes "packet_of d s = \<lparr>pdata = PyBytes b, packetSize = int (length (concat cs))\<rparr>"
    and "concat cs \<noteq> []" and "[] \<notin> set cs"
  shows "feed d cs s = handle_packet (whole (b @ concat cs)) (set_packet d (whole (b @ concat cs)) s)"
  using assms
proof (induction cs arbitrary: b s)
  case (Cons c cs)
  have run: "sftp_parse_packet d c s = (let p = \<lparr>pdata = PyBytes (b @ c), packetSize = int (length (concat cs))\<rparr>;
      t = set_packet d p s in if packetSize p = 0 then handle_packet p t else (Inr (), t))"
  proof -
    have "length c > 0" using Cons.prems(3) by auto
    moreover have "length (concat (c # cs)) = length c + length (concat cs)" by simp
    ultimately have "int (length (concat (c # cs))) \<noteq> 0" "int (length c) \<le> int (length (concat (c # cs)))" by linarith+
    from more_chunk_run [OF Cons.prems(1) this] show ?thesis by simp
  qed
  show ?case
  proof (cases "cs = []")
    case True
    with run show ?thesis by (auto simp: Let_def split: prod.split sum.split)
  next
    case False
    with Cons.prems have "concat cs \<noteq> []" by (cases cs) auto
    then have "sftp_parse_packet d c s =
        (Inr (), set_packet d \<lparr>pdata = PyBytes (b @ c), packetSize = int (length (concat cs))\<rparr> s)"
      unfolding run by (auto simp: Let_def)
    from feed_waits [OF this] Cons.IH [of "set_packet d \<lparr>pdata = PyBytes (b @ c), packetSize = int (length (concat cs))\<rparr> s" "b @ c"]
      \<open>concat cs \<noteq> []\<close> Cons.prems(3)
    show ?thesis by (simp del: feed.simps)
  qed
qed simp


lemma be_bytes_four: "be_bytes 4 n = [char_of (n div 256 div 256 div 256 mod 256), char_of (n div 256 div 256 mod 256),
   char_of (n div 256 mod 256), char_of (n mod 256)]"
proof -
  have four: "(4 :: nat) = Suc (Suc (Suc (Suc 0)))" by simp
  show ?thesis unfolding four be_bytes.simps by simp
qed

lemma ex_length_chars: "char_of (0 :: nat) = CHR 0x00" "char_of (11 :: nat) = CHR 0x0B"
  by code_simp+

definition ex_rmdir :: string where
  "ex_rmdir = [CHR 0x0F, CHR 0x00, CHR 0x00, CHR 0x00, CHR 0x09, CHR 0x00, CHR 0x00, CHR 0x00, CHR 0x02] @ ''/x''"


section \<open>What raises\<close>

lemma string_field_bytes:
  "pdata (sftp_fields s) = PyBytes b \<Longrightarrow>
     \<exists>v r t. string_field s = (Inr (PyBytes v), t) \<and> pdata (sftp_fields t) = PyBytes r \<and>
       sftp_ID t = sftp_ID s \<and> prevID t = prevID s \<and> sftp_command t = sftp_command s"
  by (simp add: on_fields_def extract_string_def extract_int_def from_bytes_def py_take_def py_drop_def)

lemma int_field_bytes:
  "pdata (sftp_fields s) = PyBytes b \<Longrightarrow>
     \<exists>r t. int_field n s = (Inr (be_value (take n b)), t) \<and> pdata (sftp_fields t) = PyBytes r \<and>
       sftp_ID t = sftp_ID s \<and> prevID t = prevID s \<and> sftp_command t = sftp_command s"
  by (simp add: on_fields_def extract_int_def from_bytes_def py_take_def py_drop_def)

text \<open>A command that failed is never reported: its message is bytes.\<close>

lemma failed_status_raises:
  assumes b: "pdata (sftp_fields s) = PyBytes b" and id: "sftp_ID s = prevID s"
    and code: "be_value (take 4 b) \<notin> {0, 1}"
  shows "\<exists>e. fst (handle_status s) = Inl e"
proof -
  obtain r t where t: "int_field 4 s = (Inr (be_value (take 4 b)), t)" "pdata (sftp_fields t) = PyBytes r"
    using int_field_bytes [OF b, of 4] by blast
  obtain v u where u: "string_field t = (Inr (PyBytes v), u)"
    using string_field_bytes [OF t(2)] by blast
  show ?thesis
    using id code by (cases "obj_decode (sftp_command s)") (auto simp: handle_status_def t u py_add_def)
qed

text \<open>An extended command is never recognised, as its name is bytes and the names looked for are texts.\<close>

lemma extended_unrecognised:
  assumes b: "pdata (sftp_fields s) = PyBytes b"
  shows "\<exists>t. handle_extended s = (Inr (), t) \<and> sftp_command t = sftp_command s"
proof -
  obtain v r t where t: "string_field s = (Inr (PyBytes v), t)" "pdata (sftp_fields t) = PyBytes r"
    "sftp_command t = sftp_command s"
    using string_field_bytes [OF b] by blast
  obtain w u where u: "string_field t = (Inr (PyBytes w), u)" "sftp_command u = sftp_command t"
    using string_field_bytes [OF t(2)] by blast
  with t show ?thesis by (simp add: handle_extended_def set_path_def)
qed

text \<open>
  After one write the file is bytes, and the next write to the same handle raises.
\<close>

lemma second_write_raises:
  assumes b: "pdata (sftp_fields s) = PyBytes b" and stored: "theFile s = PyBytes f"
    and handle: "sftp_handle s = PyBytes (take (be_value (take 4 b)) (drop 4 b))"
  shows "fst (handle_write s) = Inl (AttributeError ''encode'')"
  using assms by (simp add: handle_write_def on_fields_def extract_string_def extract_int_def from_bytes_def
      py_take_def py_drop_def obj_encode_def)

text \<open>Two packets in one piece leave a negative number of bytes missing, and neither is handled.\<close>

lemma coalesced_unhandled:
  assumes "packetSize (packet_of d s) = 0" and "length b < 256 ^ 4" and "extra \<noteq> []"
  shows "sftp_parse_packet d (be_bytes 4 (length b) @ b @ extra) s =
    (Inr (), set_packet d \<lparr>pdata = PyBytes (b @ extra), packetSize = - int (length extra)\<rparr> s)"
proof -
  have ne: "be_bytes 4 (length b) @ b @ extra \<noteq> []" using assms(3) by simp
  have head: "take 4 (be_bytes 4 (length b) @ b @ extra) = be_bytes 4 (length b)"
    "drop 4 (be_bytes 4 (length b) @ b @ extra) = b @ extra" by simp_all
  have "sftp_parse_packet d (be_bytes 4 (length b) @ b @ extra) s = start_chunk d (be_bytes 4 (length b) @ b @ extra) s"
    using assms(1) by (simp add: sftp_parse_packet_def)
  then show ?thesis
    unfolding start_chunk_run [OF ne] head be_value_be_bytes [OF assms(2)] using assms(3) by (simp add: Let_def)
qed

end
