(* ===== verification/Shlex.thy ===== *)
theory Shlex
  imports Bytes
begin

text \<open>
  The lexer of the emulated shell (\<open>cowrie/shell/shlex.py\<close>): the class with its character loop, the
  iteration over tokens, \<open>split\<close> and \<open>quote\<close>. Debug output and inclusion of other sources, which the
  program never uses (\<open>source\<close> stays \<open>None\<close>), are left out.
\<close>

section \<open>Characters\<close>

text \<open>\<open>ch in s\<close> for a character\<close>

definition in_chars :: "string \<Rightarrow> string \<Rightarrow> bool" where
  "in_chars ch s = (case ch of [c] \<Rightarrow> c \<in> set s | _ \<Rightarrow> False)"

section \<open>The lexer\<close>

text \<open>\<open>lex_state\<close> is \<open>None\<close> past the end, a blank between words, \<open>a\<close> in a word, \<open>c\<close> in
  punctuation, and the quote or escape character after one.\<close>

record shlex =
  posix :: bool
  commenters :: string
  wordchars :: string
  whitespace :: string
  whitespace_split :: bool
  quotes :: string
  escape_chars :: string
  escapedquotes :: string
  punctuation_chars :: string
  instream :: string
  pushback :: "string list"
  pushback_chars :: "string list"
  lex_state :: "string option"
  lineno :: nat
  lex_token :: string

definition LETTERS_DIGITS :: string where
  "LETTERS_DIGITS = ''abcdfeghijklmnopqrstuvwxyz'' @ ''ABCDEFGHIJKLMNOPQRSTUVWXYZ0123456789_''"

definition shlex_init :: "string \<Rightarrow> bool \<Rightarrow> string \<Rightarrow> shlex" where
  "shlex_init s px punctuation = \<lparr>posix = px, commenters = ''#'',
     wordchars = (if punctuation \<noteq> [] then filter (\<lambda>c. c \<notin> set punctuation) (LETTERS_DIGITS @ ''~-./*?='')
                  else LETTERS_DIGITS),
     whitespace = [CHR 0x20, CHR 0x09, CHR 0x0D, CHR 0x0A], whitespace_split = False,
     quotes = [CHR 0x27, CHR 0x22], escape_chars = [CHR 0x5C], escapedquotes = [CHR 0x22],
     punctuation_chars = punctuation, instream = s, pushback = [], pushback_chars = [],
     lex_state = Some '' '', lineno = 1, lex_token = []\<rparr>"

definition PUNCTUATION :: string where
  "PUNCTUATION = ''();<>|&''"

definition push_token :: "string \<Rightarrow> shlex \<Rightarrow> shlex" where
  "push_token tok lx = lx\<lparr>pushback := tok # pushback lx\<rparr>"

text \<open>The next character: the one pushed back last, or the next of the stream.\<close>

definition next_char :: "shlex \<Rightarrow> string \<times> shlex" where
  "next_char lx =
     (if punctuation_chars lx \<noteq> [] \<and> pushback_chars lx \<noteq> []
      then (last (pushback_chars lx), lx\<lparr>pushback_chars := butlast (pushback_chars lx)\<rparr>)
      else (fst (read1 (instream lx)), lx\<lparr>instream := snd (read1 (instream lx))\<rparr>))"

definition readline :: "string \<Rightarrow> string" where
  "readline s = drop 1 (dropWhile (\<lambda>c. c \<noteq> CHR 0x0A) s)"

definition skip_comment :: "shlex \<Rightarrow> shlex" where
  "skip_comment lx = lx\<lparr>instream := readline (instream lx), lineno := lineno lx + 1\<rparr>"

text \<open>One turn of the loop goes on, ends the loop, or raises; \<open>quoted\<close> and \<open>escapedstate\<close> are the
  loop's own variables.\<close>

datatype turn =
    Again shlex bool string
  | Done shlex bool
  | Failed shlex py_exc

definition emit_or_go_on :: "shlex \<Rightarrow> bool \<Rightarrow> string \<Rightarrow> turn" where
  "emit_or_go_on lx quoted esc =
     (if lex_token lx \<noteq> [] \<or> posix lx \<and> quoted then Done lx quoted else Again lx quoted esc)"

definition blank_turn :: "shlex \<Rightarrow> bool \<Rightarrow> string \<Rightarrow> string \<Rightarrow> turn" where
  "blank_turn lx quoted esc ch =
     (if ch = [] then Done (lx\<lparr>lex_state := None\<rparr>) quoted
      else if in_chars ch (whitespace lx) then emit_or_go_on lx quoted esc
      else if in_chars ch (commenters lx) then Again (skip_comment lx) quoted esc
      else if posix lx \<and> in_chars ch (escape_chars lx) then Again (lx\<lparr>lex_state := Some ch\<rparr>) quoted ''a''
      else if in_chars ch (wordchars lx) then Again (lx\<lparr>lex_token := ch, lex_state := Some ''a''\<rparr>) quoted esc
      else if in_chars ch (punctuation_chars lx) then Again (lx\<lparr>lex_token := ch, lex_state := Some ''c''\<rparr>) quoted esc
      else if in_chars ch (quotes lx) then
        Again ((if posix lx then lx else lx\<lparr>lex_token := ch\<rparr>)\<lparr>lex_state := Some ch\<rparr>) quoted esc
      else if whitespace_split lx then Again (lx\<lparr>lex_token := ch, lex_state := Some ''a''\<rparr>) quoted esc
      else emit_or_go_on (lx\<lparr>lex_token := ch\<rparr>) quoted esc)"

definition quote_turn :: "shlex \<Rightarrow> string \<Rightarrow> string \<Rightarrow> string \<Rightarrow> turn" where
  "quote_turn lx st esc ch =
     (if ch = [] then Failed lx ValueError
      else if ch = st then
        (if posix lx then Again (lx\<lparr>lex_state := Some ''a''\<rparr>) True esc
         else Done (lx\<lparr>lex_token := lex_token lx @ ch, lex_state := Some '' ''\<rparr>) True)
      else if posix lx \<and> in_chars ch (escape_chars lx) \<and> in_chars st (escapedquotes lx) then
        Again (lx\<lparr>lex_state := Some ch\<rparr>) True st
      else Again (lx\<lparr>lex_token := lex_token lx @ ch\<rparr>) True esc)"

definition escape_turn :: "shlex \<Rightarrow> bool \<Rightarrow> string \<Rightarrow> string \<Rightarrow> string \<Rightarrow> turn" where
  "escape_turn lx quoted st esc ch =
     (if ch = [] then Failed lx ValueError
      else Again (lx\<lparr>lex_token := lex_token lx @
          (if in_chars esc (quotes lx) \<and> ch \<noteq> st \<and> ch \<noteq> esc then st else []) @ ch,
        lex_state := Some esc\<rparr>) quoted esc)"

definition word_turn :: "shlex \<Rightarrow> bool \<Rightarrow> string \<Rightarrow> string \<Rightarrow> string \<Rightarrow> turn" where
  "word_turn lx quoted st esc ch =
     (if ch = [] then Done (lx\<lparr>lex_state := None\<rparr>) quoted
      else if in_chars ch (whitespace lx) then emit_or_go_on (lx\<lparr>lex_state := Some '' ''\<rparr>) quoted esc
      else if in_chars ch (commenters lx) then
        (if posix lx then emit_or_go_on ((skip_comment lx)\<lparr>lex_state := Some '' ''\<rparr>) quoted esc
         else Again (skip_comment lx) quoted esc)
      else if posix lx \<and> in_chars ch (quotes lx) then Again (lx\<lparr>lex_state := Some ch\<rparr>) quoted esc
      else if posix lx \<and> in_chars ch (escape_chars lx) then Again (lx\<lparr>lex_state := Some ch\<rparr>) quoted ''a''
      else if st = ''c'' then
        (if in_chars ch (punctuation_chars lx) then Again (lx\<lparr>lex_token := lex_token lx @ ch\<rparr>) quoted esc
         else Done (lx\<lparr>pushback_chars := pushback_chars lx @ [ch], lex_state := Some '' ''\<rparr>) quoted)
      else if in_chars ch (wordchars lx) \<or> in_chars ch (quotes lx) \<or> whitespace_split lx then
        Again (lx\<lparr>lex_token := lex_token lx @ ch\<rparr>) quoted esc
      else emit_or_go_on ((if punctuation_chars lx \<noteq> []
            then lx\<lparr>pushback_chars := pushback_chars lx @ [ch]\<rparr> else push_token ch lx)
          \<lparr>lex_state := Some '' ''\<rparr>) quoted esc)"

text \<open>
  A state that is neither of these would make the loop read on without end; the states that occur
  are those of the lexer.
\<close>

definition loop_turn :: "shlex \<Rightarrow> bool \<Rightarrow> string \<Rightarrow> turn" where
  "loop_turn lx quoted esc =
     (case next_char lx of (ch, lx) \<Rightarrow>
      let lx = (if ch = [CHR 0x0A] then lx\<lparr>lineno := lineno lx + 1\<rparr> else lx) in
      case lex_state lx of
        None \<Rightarrow> Done (lx\<lparr>lex_token := []\<rparr>) quoted
      | Some st \<Rightarrow>
          if st = '' '' then blank_turn lx quoted esc ch
          else if in_chars st (quotes lx) then quote_turn lx st esc ch
          else if in_chars st (escape_chars lx) then escape_turn lx quoted st esc ch
          else word_turn lx quoted st esc ch)"

text \<open>Every turn that goes on uses up characters, or leaves a word.\<close>

definition lex_measure :: "shlex \<Rightarrow> nat" where
  "lex_measure lx = 2 * (length (pushback lx) + length (pushback_chars lx) + length (instream lx)) +
     (case lex_state lx of None \<Rightarrow> 0 | Some st \<Rightarrow> if st = '' '' then 1 else 2)"

lemma readline_shorter: "length (readline s) \<le> length s"
  unfolding readline_def using length_dropWhile_le [of "\<lambda>c. c \<noteq> CHR 0x0A" s] by simp

lemma next_char_measure:
  assumes "next_char lx = (ch, lx')"
  shows "lex_measure lx' \<le> lex_measure lx" and "ch \<noteq> [] \<Longrightarrow> lex_measure lx' + 2 \<le> lex_measure lx"
    and "lex_state lx' = lex_state lx"
proof -
  have "lex_measure lx' \<le> lex_measure lx \<and> (ch \<noteq> [] \<longrightarrow> lex_measure lx' + 2 \<le> lex_measure lx) \<and> lex_state lx' = lex_state lx"
  proof (cases "punctuation_chars lx \<noteq> [] \<and> pushback_chars lx \<noteq> []")
    case True
    with assms show ?thesis
      by (cases "pushback_chars lx" rule: rev_cases) (auto simp: next_char_def lex_measure_def)
  next
    case False
    with assms have lx': "ch = fst (read1 (instream lx))" "lx' = lx\<lparr>instream := snd (read1 (instream lx))\<rparr>"
      by (auto simp: next_char_def split: if_splits)
    show ?thesis
    proof (cases "instream lx = []")
      case True
      with lx' show ?thesis by (simp add: lex_measure_def)
    next
      case nonempty: False
      from read1_shorter [OF this] lx' show ?thesis by (simp add: lex_measure_def)
    qed
  qed
  then show "lex_measure lx' \<le> lex_measure lx" and "ch \<noteq> [] \<Longrightarrow> lex_measure lx' + 2 \<le> lex_measure lx"
    and "lex_state lx' = lex_state lx" by auto
qed

definition turn_state :: "turn \<Rightarrow> shlex" where
  "turn_state t = (case t of Again lx q e \<Rightarrow> lx | Done lx q \<Rightarrow> lx | Failed lx e \<Rightarrow> lx)"

lemma turn_state_simps [simp]:
  "turn_state (Again lx q e) = lx" "turn_state (Done lx q) = lx" "turn_state (Failed lx x) = lx"
  by (simp_all add: turn_state_def)

lemma turn_state_emit [simp]: "turn_state (emit_or_go_on lx q e) = lx"
  by (simp add: emit_or_go_on_def)

definition lex_weight :: "shlex \<Rightarrow> nat" where
  "lex_weight lx = 2 * (length (pushback lx) + length (pushback_chars lx) + length (instream lx))"

definition lex_rank :: "shlex \<Rightarrow> nat" where
  "lex_rank lx = (case lex_state lx of None \<Rightarrow> 0 | Some st \<Rightarrow> if st = '' '' then 1 else 2)"

lemma lex_measure_parts: "lex_measure lx = lex_weight lx + lex_rank lx"
  by (simp add: lex_measure_def lex_weight_def lex_rank_def)

lemma lex_rank_le: "lex_rank lx \<le> 2"
  by (simp add: lex_rank_def split: option.split)

lemma skip_comment_weight: "lex_weight (skip_comment lx) \<le> lex_weight lx"
  using readline_shorter [of "instream lx"] by (simp add: skip_comment_def lex_weight_def)

lemma lex_weight_simps [simp]:
  "lex_weight (lx\<lparr>lex_state := st\<rparr>) = lex_weight lx" "lex_weight (lx\<lparr>lex_token := t\<rparr>) = lex_weight lx"
  "lex_weight (lx\<lparr>lineno := n\<rparr>) = lex_weight lx"
  "lex_weight (lx\<lparr>pushback_chars := cs @ [ch]\<rparr>) = lex_weight (lx\<lparr>pushback_chars := cs\<rparr>) + 2"
  "lex_weight (push_token ch lx) = lex_weight lx + 2"
  by (simp_all add: lex_weight_def push_token_def)

lemma blank_turn_weight: "lex_weight (turn_state (blank_turn lx q e ch)) \<le> lex_weight lx"
  using skip_comment_weight [of lx] by (simp add: blank_turn_def)

lemma quote_turn_weight: "lex_weight (turn_state (quote_turn lx st e ch)) \<le> lex_weight lx"
  by (simp add: quote_turn_def)

lemma escape_turn_weight: "lex_weight (turn_state (escape_turn lx q st e ch)) \<le> lex_weight lx"
  by (simp add: escape_turn_def)

lemma word_turn_weight:
  "lex_weight (turn_state (word_turn lx q st e ch)) + lex_rank (turn_state (word_turn lx q st e ch)) \<le> lex_weight lx + 3"
proof -
  note s = skip_comment_weight [of lx]
  consider "ch = []" | "ch \<noteq> []" "in_chars ch (whitespace lx)" | "ch \<noteq> []" "\<not> in_chars ch (whitespace lx)" "in_chars ch (commenters lx)"
    | "ch \<noteq> []" "\<not> in_chars ch (whitespace lx)" "\<not> in_chars ch (commenters lx)" by blast
  then show ?thesis
  proof cases
    case 3
    then show ?thesis
      using s lex_rank_le [of "skip_comment lx"] by (simp add: word_turn_def lex_rank_def)
  next
    case 4
    then show ?thesis
      using lex_rank_le [of lx] by (simp add: word_turn_def) (simp add: lex_rank_def)
  qed (simp_all add: word_turn_def lex_rank_def)
qed

lemma loop_turn_None:
  assumes "lex_state lx = None"
  shows "\<exists>lx'. loop_turn lx q e = Done lx' q \<and> lex_token lx' = [] \<and> lex_state lx' = None \<and> lex_measure lx' \<le> lex_measure lx"
proof -
  obtain ch lx1 where n: "next_char lx = (ch, lx1)" by fastforce
  have "lex_state lx1 = None" using next_char_measure(3) [OF n] assms by simp
  moreover from this next_char_measure(1) [OF n] have "lex_weight lx1 \<le> lex_measure lx"
    by (simp add: lex_measure_parts)
  ultimately show ?thesis by (simp add: loop_turn_def n Let_def lex_measure_parts lex_rank_def)
qed

lemma loop_turn_measure:
  assumes st: "lex_state lx = Some st" and t: "loop_turn lx q e = t" "\<And>lx' x. t \<noteq> Failed lx' x"
  shows "lex_measure (turn_state t) < lex_measure lx"
proof -
  obtain ch lx1 where n: "next_char lx = (ch, lx1)" by fastforce
  define lx2 where "lx2 = (if ch = [CHR 0x0A] then lx1\<lparr>lineno := lineno lx1 + 1\<rparr> else lx1)"
  have st2: "lex_state lx2 = Some st" and w2: "lex_weight lx2 = lex_weight lx1"
    using next_char_measure(3) [OF n] st by (auto simp: lx2_def)
  have rank: "lex_rank lx = (if st = '' '' then 1 else 2)" "lex_rank lx1 = lex_rank lx"
    using st next_char_measure(3) [OF n] by (simp_all add: lex_rank_def)
  note m = next_char_measure(1,2) [OF n, unfolded lex_measure_parts rank(2)]
  have turn: "t = (if st = '' '' then blank_turn lx2 q e ch
      else if in_chars st (quotes lx2) then quote_turn lx2 st e ch
      else if in_chars st (escape_chars lx2) then escape_turn lx2 q st e ch
      else word_turn lx2 q st e ch)"
    using t(1) st2 unfolding loop_turn_def n prod.case lx2_def [symmetric] by (simp add: Let_def)
  show ?thesis
  proof (cases "ch = []")
    case True
    with turn have "t = Done (lx2\<lparr>lex_state := None\<rparr>) q \<or> t = Failed lx2 ValueError"
      by (simp add: blank_turn_def quote_turn_def escape_turn_def word_turn_def)
    with t(2) have "turn_state t = lx2\<lparr>lex_state := None\<rparr>" by auto
    with rank m w2 show ?thesis by (simp add: lex_measure_parts) (simp add: lex_rank_def split: if_splits)
  next
    case False
    with m w2 have w: "lex_weight lx2 + 2 \<le> lex_weight lx" by simp
    have "lex_weight (turn_state t) + lex_rank (turn_state t) \<le> lex_weight lx2 + (if st = '' '' then 2 else 3)"
      using lex_rank_le [of "turn_state t"] blank_turn_weight [of lx2 q e ch] quote_turn_weight [of lx2 st e ch]
        escape_turn_weight [of lx2 q st e ch] word_turn_weight [of lx2 q st e ch]
      unfolding turn by (auto split: if_splits)
    with w rank show ?thesis by (auto simp: lex_measure_parts split: if_splits)
  qed
qed

function read_loop :: "shlex \<Rightarrow> bool \<Rightarrow> string \<Rightarrow> bool res \<times> shlex" where
  "read_loop lx quoted esc = (case loop_turn lx quoted esc of
       Again lx' q e \<Rightarrow> read_loop lx' q e
     | Done lx' q \<Rightarrow> (Inr q, lx')
     | Failed lx' x \<Rightarrow> (Inl x, lx'))"
  by pat_completeness auto
termination
proof (relation "measure (\<lambda>(lx, q, e). lex_measure lx)")
  fix lx quoted esc lx' q e
  assume t: "loop_turn lx quoted esc = Again lx' q e"
  then obtain st where "lex_state lx = Some st" using loop_turn_None [of lx quoted esc] by (cases "lex_state lx") auto
  from loop_turn_measure [OF this t] show "((lx', q, e), (lx, quoted, esc)) \<in> measure (\<lambda>(lx, q, e). lex_measure lx)"
    by simp
qed simp

declare read_loop.simps [simp del]

text \<open>\<open>read_token\<close>, and \<open>get_token\<close> while nothing is included; \<open>None\<close> is Python's \<open>None\<close>.\<close>

definition read_token :: "(shlex, string option) py" where
  "read_token lx = (case read_loop lx False '' '' of
       (Inl x, lx') \<Rightarrow> (Inl x, lx')
     | (Inr quoted, lx') \<Rightarrow>
         (Inr (if posix lx' \<and> \<not> quoted \<and> lex_token lx' = [] then None else Some (lex_token lx')),
          lx'\<lparr>lex_token := []\<rparr>))"

definition get_token :: "(shlex, string option) py" where
  "get_token lx = (case pushback lx of
       tok # toks \<Rightarrow> (Inr (Some tok), lx\<lparr>pushback := toks\<rparr>)
     | [] \<Rightarrow> read_token lx)"

definition lex_eof :: "shlex \<Rightarrow> string option" where
  "lex_eof lx = (if posix lx then None else Some [])"

lemma read_loop_measure:
  "read_loop lx q e = (Inr q', lx') \<Longrightarrow> lex_state lx \<noteq> None \<Longrightarrow> lex_measure lx' < lex_measure lx"
proof (induction lx q e rule: read_loop.induct)
  case (1 lx q e)
  then obtain st where st: "lex_state lx = Some st" by auto
  show ?case
  proof (cases "loop_turn lx q e")
    case (Again lx1 q1 e1)
    from loop_turn_measure [OF st this] have less: "lex_measure lx1 < lex_measure lx" by simp
    from Again "1.prems"(1) have run: "read_loop lx1 q1 e1 = (Inr q', lx')" by (simp add: read_loop.simps [of lx])
    show ?thesis
    proof (cases "lex_state lx1")
      case None
      from loop_turn_None [OF this, of q1 e1] run have "lex_measure lx' \<le> lex_measure lx1"
        by (auto simp: read_loop.simps [of lx1])
      with less show ?thesis by simp
    next
      case (Some st1)
      with "1.IH" [OF Again run] less show ?thesis by simp
    qed
  next
    case (Done lx1 q1)
    from loop_turn_measure [OF st this] Done "1.prems"(1) show ?thesis by (simp add: read_loop.simps [of lx])
  next
    case (Failed lx1 x)
    with "1.prems"(1) show ?thesis by (simp add: read_loop.simps [of lx])
  qed
qed

lemma read_loop_None:
  "lex_state lx = None \<Longrightarrow> \<exists>lx'. read_loop lx q e = (Inr q, lx') \<and> lex_token lx' = [] \<and> lex_state lx' = None"
  using loop_turn_None [of lx q e] by (auto simp: read_loop.simps [of lx])

lemma get_token_measure:
  assumes "get_token lx = (Inr t, lx')" and "t \<noteq> lex_eof lx'"
  shows "lex_measure lx' < lex_measure lx"
proof (cases "pushback lx")
  case (Cons tok toks)
  with assms show ?thesis by (auto simp: get_token_def lex_measure_def)
next
  case Nil
  with assms obtain q lx1 where run: "read_loop lx False '' '' = (Inr q, lx1)" and lx': "lx' = lx1\<lparr>lex_token := []\<rparr>"
    "t = (if posix lx1 \<and> \<not> q \<and> lex_token lx1 = [] then None else Some (lex_token lx1))"
    by (auto simp: get_token_def read_token_def split: prod.splits sum.splits)
  show ?thesis
  proof (cases "lex_state lx")
    case None
    with read_loop_None [of lx False "'' ''"] run lx' assms(2) show ?thesis
      by (auto simp: lex_eof_def split: if_splits)
  next
    case (Some st)
    with read_loop_measure [OF run] lx' show ?thesis by (simp add: lex_measure_def)
  qed
qed

text \<open>Iterating over the lexer ends with the first end-of-input token.\<close>

function lex_all :: "shlex \<Rightarrow> string list res \<times> shlex" where
  "lex_all lx = (case get_token lx of
       (Inl x, lx') \<Rightarrow> (Inl x, lx')
     | (Inr t, lx') \<Rightarrow> if t = lex_eof lx' then (Inr [], lx')
         else (case lex_all lx' of (Inl x, lx'') \<Rightarrow> (Inl x, lx'') | (Inr ts, lx'') \<Rightarrow> (Inr (the t # ts), lx'')))"
  by pat_completeness auto
termination by (relation "measure lex_measure") (auto dest: get_token_measure [OF sym])

declare lex_all.simps [simp del]

section \<open>\<open>split\<close> and \<open>quote\<close>\<close>

definition shlex_split :: "string \<Rightarrow> bool \<Rightarrow> bool \<Rightarrow> string list res" where
  "shlex_split s comments px = fst (lex_all
     (let lx = (shlex_init s px [])\<lparr>whitespace_split := True\<rparr> in if comments then lx else lx\<lparr>commenters := []\<rparr>))"

text \<open>The characters \<open>[\w@%+=:,./-]\<close>; which characters beyond ASCII are word characters is a parameter.\<close>

definition safe_char :: "(string \<Rightarrow> bool) \<Rightarrow> string \<Rightarrow> bool" where
  "safe_char word ch = (case ch of
       [c] \<Rightarrow> if (of_char c :: nat) < 128 then c \<in> set (LETTERS_DIGITS @ ''@%+=:,./-'') else word ch
     | _ \<Rightarrow> word ch)"

function all_safe :: "(string \<Rightarrow> bool) \<Rightarrow> string \<Rightarrow> bool" where
  "all_safe word [] = True"
| "all_safe word (c # cs) = (safe_char word (fst (read1 (c # cs))) \<and> all_safe word (snd (read1 (c # cs))))"
  by pat_completeness auto
termination by (relation "measure (\<lambda>(w, s). length s)") (auto simp: less_Suc_eq_le length_dropWhile_le)

definition shlex_quote :: "(string \<Rightarrow> bool) \<Rightarrow> string \<Rightarrow> string" where
  "shlex_quote word s =
     (if s = [] then [CHR 0x27, CHR 0x27]
      else if all_safe word s then s
      else [CHR 0x27] @ replace_all [CHR 0x27] [CHR 0x27, CHR 0x22, CHR 0x27, CHR 0x22, CHR 0x27] s @ [CHR 0x27])"

end
