(* ===== verification/ShlexProps.thy ===== *)
theory ShlexProps
  imports Shlex
begin

text \<open>
  What \<open>quote\<close> protects, \<open>split\<close> gives back: the words of a command line, of any characters at all.
\<close>

section \<open>The lexer of \<open>split\<close>\<close>

definition split_lexer :: "string \<Rightarrow> string \<Rightarrow> string \<Rightarrow> nat \<Rightarrow> shlex" where
  "split_lexer s st t n = (shlex_init s True [])\<lparr>whitespace_split := True, commenters := [],
     lex_state := Some st, lex_token := t, lineno := n\<rparr>"

abbreviation sq :: char where "sq \<equiv> CHR 0x27"
abbreviation dq :: char where "dq \<equiv> CHR 0x22"

definition plain :: "string \<Rightarrow> bool" where
  "plain ch \<longleftrightarrow> ch \<noteq> [] \<and> \<not> in_chars ch [CHR 0x20, CHR 0x09, CHR 0x0D, CHR 0x0A] \<and>
     \<not> in_chars ch [sq, dq] \<and> \<not> in_chars ch [CHR 0x5C]"

lemma split_lexer_fields [simp]:
  "posix (split_lexer s st t n)" "commenters (split_lexer s st t n) = []"
  "whitespace (split_lexer s st t n) = [CHR 0x20, CHR 0x09, CHR 0x0D, CHR 0x0A]"
  "whitespace_split (split_lexer s st t n)" "quotes (split_lexer s st t n) = [sq, dq]"
  "escape_chars (split_lexer s st t n) = [CHR 0x5C]" "escapedquotes (split_lexer s st t n) = [dq]"
  "punctuation_chars (split_lexer s st t n) = []" "lex_state (split_lexer s st t n) = Some st"
  "lex_token (split_lexer s st t n) = t" "pushback (split_lexer s st t n) = []"
  "wordchars (split_lexer s st t n) = LETTERS_DIGITS"
  "instream (split_lexer s st t n) = s" "lineno (split_lexer s st t n) = n"
  by (simp_all add: split_lexer_def shlex_init_def)

lemma quotes_no_wordchars [simp]: "sq \<notin> set LETTERS_DIGITS" "dq \<notin> set LETTERS_DIGITS"
  by (simp_all add: LETTERS_DIGITS_def)

lemma split_lexer_update [simp]:
  "(split_lexer s st t n)\<lparr>lex_state := Some st'\<rparr> = split_lexer s st' t n"
  "(split_lexer s st t n)\<lparr>lex_token := t'\<rparr> = split_lexer s st t' n"
  "(split_lexer s st t n)\<lparr>lineno := n'\<rparr> = split_lexer s st t n'"
  "(split_lexer s st t n)\<lparr>instream := s'\<rparr> = split_lexer s' st t n"
  by (simp_all add: split_lexer_def shlex_init_def)

lemma in_chars_Nil [simp]: "\<not> in_chars [] cs" "\<not> in_chars ch []"
  by (auto simp: in_chars_def split: list.split)

lemma in_chars_single [simp]: "in_chars [c] cs \<longleftrightarrow> c \<in> set cs"
  by (simp add: in_chars_def)

lemma loop_turn_split:
  assumes "read1 s = (ch, r)"
  shows "\<exists>m. loop_turn (split_lexer s st t n) q e = (let lx = split_lexer r st t m in
     if st = '' '' then blank_turn lx q e ch
     else if in_chars st [sq, dq] then quote_turn lx st e ch
     else if in_chars st [CHR 0x5C] then escape_turn lx q st e ch
     else word_turn lx q st e ch)"
proof -
  have "next_char (split_lexer s st t n) = (ch, split_lexer r st t n)"
    using assms by (simp add: next_char_def)
  then show ?thesis
    by (intro exI [of _ "if ch = [CHR 0x0A] then n + 1 else n"]) (simp add: loop_turn_def Let_def)
qed

text \<open>Which turns there are, character by character\<close>

lemma turn_in_word:
  "read1 s = (ch, r) \<Longrightarrow> plain ch \<Longrightarrow>
     \<exists>m. loop_turn (split_lexer s ''a'' t n) q e = Again (split_lexer r ''a'' (t @ ch) m) q e"
  using loop_turn_split [of s ch r "''a''" t n q e]
  by (auto simp: Let_def word_turn_def plain_def)

lemma turn_first:
  "read1 s = (ch, r) \<Longrightarrow> plain ch \<Longrightarrow>
     \<exists>m. loop_turn (split_lexer s '' '' [] n) q e = Again (split_lexer r ''a'' ch m) q e"
  using loop_turn_split [of s ch r "'' ''" "[]" n q e] by (auto simp: Let_def blank_turn_def plain_def)

lemma turn_open:
  assumes "st \<in> {'' '', ''a''}" and "d \<in> {sq, dq}"
  shows "\<exists>m. loop_turn (split_lexer (d # s) st t n) q e = Again (split_lexer s [d] t m) q e"
proof -
  have "read1 (d # s) = ([d], s)" using assms(2) by (auto simp: lead_def)
  from loop_turn_split [OF this, of st t n q e] assms show ?thesis
    by (auto simp: Let_def blank_turn_def word_turn_def)
qed

lemma turn_close:
  assumes "d \<in> {sq, dq}"
  shows "\<exists>m. loop_turn (split_lexer (d # s) [d] t n) q e = Again (split_lexer s ''a'' t m) True e"
proof -
  have "read1 (d # s) = ([d], s)" using assms by (auto simp: lead_def)
  from loop_turn_split [OF this, of "[d]" t n q e] assms show ?thesis
    by (auto simp: Let_def quote_turn_def)
qed

lemma turn_quoted:
  assumes "read1 s = (ch, r)" and "ch \<noteq> []" and "ch \<noteq> [sq]"
  shows "\<exists>m. loop_turn (split_lexer s [sq] t n) q e = Again (split_lexer r [sq] (t @ ch) m) True e"
  using loop_turn_split [OF assms(1), of "[sq]" t n q e] assms(2,3)
  by (auto simp: Let_def quote_turn_def)

lemma turn_quoted_quote: "\<exists>m. loop_turn (split_lexer (sq # s) [dq] t n) q e = Again (split_lexer s [dq] (t @ [sq]) m) True e"
proof -
  have "read1 (sq # s) = ([sq], s)" by (simp add: lead_def)
  from loop_turn_split [OF this, of "[dq]" t n q e] show ?thesis
    by (auto simp: Let_def quote_turn_def)
qed

lemma turn_end: "st \<in> {'' '', ''a''} \<Longrightarrow>
   \<exists>m. loop_turn (split_lexer [] st t n) q e = Done ((split_lexer [] st t m)\<lparr>lex_state := None\<rparr>) q"
  using loop_turn_split [of "[]" "[]" "[]" st t n q e] by (auto simp: Let_def blank_turn_def word_turn_def)

lemma turn_blank: "t \<noteq> [] \<or> q \<Longrightarrow>
   \<exists>m. loop_turn (split_lexer (CHR 0x20 # s) ''a'' t n) q e = Done (split_lexer s '' '' t m) q"
  using loop_turn_split [of "CHR 0x20 # s" "[CHR 0x20]" s "''a''" t n q e]
  by (auto simp: Let_def word_turn_def lead_def emit_or_go_on_def)

section \<open>Reading a word\<close>

text \<open>What follows does not continue the last character.\<close>

definition cut :: "string \<Rightarrow> bool" where
  "cut s \<longleftrightarrow> s = [] \<or> \<not> continuation (hd s)"

lemma read1_append_cut: "s \<noteq> [] \<Longrightarrow> cut r \<Longrightarrow> read1 (s @ r) = (fst (read1 s), snd (read1 s) @ r)"
  by (cases s; cases r)
    (auto simp: cut_def takeWhile_append dropWhile_append
      intro!: sym [OF iffD2 [OF takeWhile_eq_all_conv]])

lemma read1_nonempty: "s \<noteq> [] \<Longrightarrow> fst (read1 s) \<noteq> []"
  by (cases s) auto

lemma read_loop_again: "loop_turn lx q e = Again lx' q' e' \<Longrightarrow> read_loop lx q e = read_loop lx' q' e'"
  by (subst read_loop.simps) simp

lemma read_loop_done: "loop_turn lx q e = Done lx' q' \<Longrightarrow> read_loop lx q e = (Inr q', lx')"
  by (subst read_loop.simps) simp

text \<open>A word whose characters are all safe\<close>

lemma safe_plain: "safe_char word ch \<Longrightarrow> ch \<noteq> [] \<Longrightarrow> plain ch"
  by (auto simp: safe_char_def plain_def in_chars_def LETTERS_DIGITS_def split: list.splits if_splits)

lemma read_safe:
  "all_safe word w \<Longrightarrow> cut r \<Longrightarrow>
     \<exists>m. read_loop (split_lexer (w @ r) ''a'' t n) q e = read_loop (split_lexer r ''a'' (t @ w) m) q e"
proof (induction word w arbitrary: t n rule: all_safe.induct)
  case (1 word)
  then show ?case by auto
next
  case (2 word c cs)
  let ?ch = "fst (read1 (c # cs))" and ?w = "snd (read1 (c # cs))"
  have split: "?ch @ ?w = c # cs" by (rule read1_append)
  have "plain ?ch" using 2 by (intro safe_plain read1_nonempty) auto
  with read1_append_cut [of "c # cs" r] 2 obtain m where
    "loop_turn (split_lexer ((c # cs) @ r) ''a'' t n) q e = Again (split_lexer (?w @ r) ''a'' (t @ ?ch) m) q e"
    using turn_in_word by fastforce
  note again = read_loop_again [OF this]
  obtain m' where "read_loop (split_lexer (?w @ r) ''a'' (t @ ?ch) m) q e = read_loop (split_lexer r ''a'' ((t @ ?ch) @ ?w) m') q e"
    using 2 by (metis all_safe.simps(2))
  with again show ?case unfolding append_assoc split by auto
qed

lemma read_safe_word:
  assumes "all_safe word w" and "w \<noteq> []" and "cut r"
  shows "\<exists>m. read_loop (split_lexer (w @ r) '' '' [] n) q e = read_loop (split_lexer r ''a'' w m) q e"
proof -
  let ?ch = "fst (read1 w)" and ?w = "snd (read1 w)"
  have split: "?ch @ ?w = w" by (rule read1_append)
  have safe: "safe_char word ?ch" "all_safe word ?w" using assms(1,2) by (cases w; simp)+
  then have "plain ?ch" using assms(2) by (intro safe_plain read1_nonempty)
  then obtain m where "loop_turn (split_lexer (w @ r) '' '' [] n) q e = Again (split_lexer (?w @ r) ''a'' ?ch m) q e"
    using turn_first [OF read1_append_cut [OF assms(2,3)]] by blast
  note again = read_loop_again [OF this]
  from read_safe [OF safe(2) assms(3), of ?ch m q e] show ?thesis
    unfolding again split by blast
qed

text \<open>A word between single quotes\<close>

definition protect :: "string \<Rightarrow> string" where
  "protect s = concat (map (\<lambda>c. if c = sq then [sq, dq, sq, dq, sq] else [c]) s)"

lemma replace_all_protect: "replace_all [sq] [sq, dq, sq, dq, sq] s = protect s"
proof (induction s)
  case (Cons c s)
  have "join new (split_str [sq] (c # s)) = (if c = sq then new else [c]) @ join new (split_str [sq] s)" for new
    by (cases "split_str [sq] s") (auto simp: starts_with_def join_Cons join_Cons_char)
  with Cons show ?case by (simp add: replace_all_def protect_def)
qed (simp add: replace_all_def protect_def)

lemma protect_append: "protect (s @ t) = protect s @ protect t"
  by (simp add: protect_def)

lemma protect_same: "sq \<notin> set s \<Longrightarrow> protect s = s"
  by (induction s) (auto simp: protect_def)

text \<open>The first character of a text that does not start with a quote is left alone.\<close>

lemma read1_protect:
  assumes "c \<noteq> sq"
  shows "read1 (protect (c # cs) @ sq # r) = (fst (read1 (c # cs)), protect (snd (read1 (c # cs))) @ sq # r)"
proof (cases "lead c")
  case True
  let ?w = "takeWhile continuation cs" and ?rest = "dropWhile continuation cs"
  have w: "sq \<notin> set ?w" by (auto dest: set_takeWhileD simp: continuation_def)
  have "protect (c # cs) = c # protect ?w @ protect ?rest"
    using assms unfolding protect_append [symmetric] by (simp add: protect_def)
  then have p: "protect (c # cs) = c # ?w @ protect ?rest" by (simp add: protect_same [OF w])
  have "\<not> continuation (hd (protect ?rest @ sq # r))"
  proof (cases ?rest)
    case Nil
    then have "protect ?rest = []" by (simp only: protect_def list.map concat.simps)
    then show ?thesis by (simp add: continuation_def)
  next
    case (Cons d ds)
    then have "\<not> continuation d" by (metis hd_dropWhile list.sel(1) list.distinct(1))
    then have "\<not> continuation (hd (protect (d # ds) @ sq # r))" by (simp add: protect_def continuation_def)
    then show ?thesis unfolding Cons .
  qed
  moreover have "protect ?rest @ sq # r \<noteq> []" by simp
  ultimately have "takeWhile continuation (?w @ protect ?rest @ sq # r) = ?w"
    "dropWhile continuation (?w @ protect ?rest @ sq # r) = protect ?rest @ sq # r"
    by (cases "protect ?rest @ sq # r"; auto simp: takeWhile_append dropWhile_append dest: set_takeWhileD)+
  with True p show ?thesis by simp
next
  case False
  with assms show ?thesis by (simp add: protect_def)
qed

lemma read_quoted:
  "\<exists>m. read_loop (split_lexer (protect s @ sq # r) [sq] t n) q e = read_loop (split_lexer r ''a'' (t @ s) m) True e"
proof (induction "length s" arbitrary: s t n q rule: less_induct)
  case less
  show ?case
  proof (cases s)
    case Nil
    from turn_close [of sq r t n q e] Nil show ?thesis
      by (auto simp: protect_def dest!: read_loop_again)
  next
    case (Cons c cs)
    show ?thesis
    proof (cases "c = sq")
      case True
      let ?rest = "protect cs @ sq # r"
      have s: "protect s @ sq # r = sq # dq # sq # dq # sq # ?rest" using Cons True by (simp add: protect_def)
      obtain a where a: "loop_turn (split_lexer (sq # dq # sq # dq # sq # ?rest) [sq] t n) q e =
          Again (split_lexer (dq # sq # dq # sq # ?rest) ''a'' t a) True e"
        using turn_close [of sq] by blast
      obtain b where b: "loop_turn (split_lexer (dq # sq # dq # sq # ?rest) ''a'' t a) True e =
          Again (split_lexer (sq # dq # sq # ?rest) [dq] t b) True e"
        using turn_open [of "''a''" dq] by blast
      obtain c1 where c1: "loop_turn (split_lexer (sq # dq # sq # ?rest) [dq] t b) True e =
          Again (split_lexer (dq # sq # ?rest) [dq] (t @ [sq]) c1) True e"
        using turn_quoted_quote by blast
      obtain d where d: "loop_turn (split_lexer (dq # sq # ?rest) [dq] (t @ [sq]) c1) True e =
          Again (split_lexer (sq # ?rest) ''a'' (t @ [sq]) d) True e"
        using turn_close [of dq] by blast
      obtain f where f: "loop_turn (split_lexer (sq # ?rest) ''a'' (t @ [sq]) d) True e =
          Again (split_lexer ?rest [sq] (t @ [sq]) f) True e"
        using turn_open [of "''a''" sq] by blast
      have "read_loop (split_lexer (protect s @ sq # r) [sq] t n) q e = read_loop (split_lexer ?rest [sq] (t @ [sq]) f) True e"
        unfolding s read_loop_again [OF a] read_loop_again [OF b] read_loop_again [OF c1] read_loop_again [OF d]
          read_loop_again [OF f] ..
      moreover obtain m where "read_loop (split_lexer ?rest [sq] (t @ [sq]) f) True e = read_loop (split_lexer r ''a'' ((t @ [sq]) @ cs) m) True e"
        using less [of cs] Cons by fastforce
      ultimately show ?thesis using Cons True by auto
    next
      case False
      let ?ch = "fst (read1 s)" and ?rest = "snd (read1 s)"
      have split: "?ch @ ?rest = s" by (rule read1_append)
      have "?ch \<noteq> []" "?ch \<noteq> [sq]" using Cons False by (auto simp: lead_def)
      with turn_quoted read1_protect [OF False, of cs r] Cons
      obtain m where "loop_turn (split_lexer (protect s @ sq # r) [sq] t n) q e =
          Again (split_lexer (protect ?rest @ sq # r) [sq] (t @ ?ch) m) True e"
        by blast
      note again = read_loop_again [OF this]
      have "length ?rest < length s" using read1_shorter Cons by blast
      then obtain m' where "read_loop (split_lexer (protect ?rest @ sq # r) [sq] (t @ ?ch) m) True e =
          read_loop (split_lexer r ''a'' ((t @ ?ch) @ ?rest) m') True e"
        using less by blast
      with again show ?thesis unfolding append_assoc split by auto
    qed
  qed
qed

lemma read_quoted_word:
  "\<exists>m. read_loop (split_lexer (sq # protect s @ sq # r) '' '' [] n) q e = read_loop (split_lexer r ''a'' s m) True e"
proof -
  obtain m where "loop_turn (split_lexer (sq # protect s @ sq # r) '' '' [] n) q e =
      Again (split_lexer (protect s @ sq # r) [sq] [] m) q e"
    using turn_open [of "'' ''" sq] by blast
  from read_loop_again [OF this] read_quoted [of s r "[]" m q e] show ?thesis by auto
qed

section \<open>All the words\<close>

text \<open>The text of a quoted word, read up to its end; whether it was quoted only matters if it is empty.\<close>

lemma read_word:
  assumes "cut r"
  shows "\<exists>m q. read_loop (split_lexer (shlex_quote word w @ r) '' '' [] n) False '' '' = read_loop (split_lexer r ''a'' w m) q '' '' \<and>
    (w \<noteq> [] \<or> q)"
proof (cases "w \<noteq> [] \<and> all_safe word w")
  case True
  with read_safe_word [of word w r n False "'' ''"] assms show ?thesis by (auto simp: shlex_quote_def)
next
  case False
  have "shlex_quote word w @ r = sq # protect w @ sq # r"
    using False by (auto simp: shlex_quote_def replace_all_protect protect_def)
  then show ?thesis using read_quoted_word [of w r n False "'' ''"] by auto
qed

lemma word_at_end:
  assumes "w \<noteq> [] \<or> q"
  shows "\<exists>m. read_loop (split_lexer [] ''a'' w n) q e = (Inr q, (split_lexer [] ''a'' w m)\<lparr>lex_state := None\<rparr>)"
  using turn_end [of "''a''" w n q e] by (auto dest!: read_loop_done)

lemma word_at_blank:
  assumes "w \<noteq> [] \<or> q"
  shows "\<exists>m. read_loop (split_lexer (CHR 0x20 # r) ''a'' w n) q e = (Inr q, split_lexer r '' '' w m)"
  using turn_blank [OF assms, of r n e] by (auto dest!: read_loop_done)

lemma get_token_split: "get_token (split_lexer s st t n) = read_token (split_lexer s st t n)"
  by (simp add: get_token_def)

lemma ended_lexer:
  "(split_lexer [] ''a'' w m)\<lparr>lex_state := None, lex_token := t\<rparr> = (split_lexer [] ''a'' t m)\<lparr>lex_state := None\<rparr>"
  by (simp add: split_lexer_def)

lemma last_token:
  "\<exists>m. get_token (split_lexer (shlex_quote word w) '' '' [] n) =
     (Inr (Some w), (split_lexer [] ''a'' [] m)\<lparr>lex_state := None\<rparr>)"
proof -
  obtain a q where "read_loop (split_lexer (shlex_quote word w @ []) '' '' [] n) False '' '' = read_loop (split_lexer [] ''a'' w a) q '' ''"
    and q: "w \<noteq> [] \<or> q"
    using read_word [of "[]" word w n] by (auto simp: cut_def)
  moreover obtain m where "read_loop (split_lexer [] ''a'' w a) q '' '' = (Inr q, (split_lexer [] ''a'' w m)\<lparr>lex_state := None\<rparr>)"
    using word_at_end [OF q] by blast
  ultimately have run: "read_loop (split_lexer (shlex_quote word w) '' '' [] n) False '' '' =
      (Inr q, (split_lexer [] ''a'' w m)\<lparr>lex_state := None\<rparr>)" by simp
  show ?thesis unfolding get_token_split read_token_def run using q by (auto simp: ended_lexer)
qed

lemma inner_token:
  "\<exists>m. get_token (split_lexer (shlex_quote word w @ CHR 0x20 # r) '' '' [] n) = (Inr (Some w), split_lexer r '' '' [] m)"
proof -
  obtain a q where "read_loop (split_lexer (shlex_quote word w @ CHR 0x20 # r) '' '' [] n) False '' '' =
      read_loop (split_lexer (CHR 0x20 # r) ''a'' w a) q '' ''" and q: "w \<noteq> [] \<or> q"
    using read_word [of "CHR 0x20 # r" word w n] by (auto simp: cut_def continuation_def)
  moreover obtain m where "read_loop (split_lexer (CHR 0x20 # r) ''a'' w a) q '' '' = (Inr q, split_lexer r '' '' w m)"
    using word_at_blank [OF q] by blast
  ultimately have run: "read_loop (split_lexer (shlex_quote word w @ CHR 0x20 # r) '' '' [] n) False '' '' =
      (Inr q, split_lexer r '' '' w m)" by simp
  show ?thesis unfolding get_token_split read_token_def run using q by auto
qed

lemma end_token:
  assumes "lex_state lx = None" and "pushback lx = []" and "posix lx" and "punctuation_chars lx = []"
  shows "\<exists>lx'. get_token lx = (Inr None, lx') \<and> lex_eof lx' = None"
proof -
  have "next_char lx = (fst (read1 (instream lx)), lx\<lparr>instream := snd (read1 (instream lx))\<rparr>)"
    using assms(4) by (simp add: next_char_def)
  then show ?thesis
    using assms by (simp add: get_token_def read_token_def read_loop.simps [of lx] loop_turn_def Let_def lex_eof_def)
qed

lemma lex_all_words:
  "ws \<noteq> [] \<Longrightarrow> fst (lex_all (split_lexer (join '' '' (map (shlex_quote word) ws)) '' '' [] n)) = Inr ws"
proof (induction ws arbitrary: n rule: induct_list012)
  case (2 w)
  obtain m where t: "get_token (split_lexer (shlex_quote word w) '' '' [] n) =
      (Inr (Some w), (split_lexer [] ''a'' [] m)\<lparr>lex_state := None\<rparr>)"
    using last_token by blast
  define lx where "lx = (split_lexer [] ''a'' [] m)\<lparr>lex_state := None\<rparr>"
  have "lex_state lx = None" "pushback lx = []" "posix lx" "punctuation_chars lx = []"
    by (simp_all add: lx_def split_lexer_def shlex_init_def)
  with end_token obtain lx' where "get_token lx = (Inr None, lx')" "lex_eof lx' = None" "lex_eof lx = None"
    by (auto simp: lex_eof_def)
  with t show ?case by (simp add: lex_all.simps [of "split_lexer a b c d" for a b c d] lx_def [symmetric] lex_all.simps [of lx])
next
  case (3 w v ws)
  obtain m where t: "get_token (split_lexer (shlex_quote word w @ CHR 0x20 # join '' '' (map (shlex_quote word) (v # ws))) '' '' [] n) =
      (Inr (Some w), split_lexer (join '' '' (map (shlex_quote word) (v # ws))) '' '' [] m)"
    using inner_token by blast
  have "fst (lex_all (split_lexer (join '' '' (map (shlex_quote word) (v # ws))) '' '' [] m)) = Inr (v # ws)"
    using 3 by simp
  then obtain lx where "lex_all (split_lexer (join '' '' (map (shlex_quote word) (v # ws))) '' '' [] m) = (Inr (v # ws), lx)"
    by (metis prod.collapse)
  with t show ?case
    by (simp add: lex_all.simps [of "split_lexer (shlex_quote word w @ x) b c d" for x b c d] lex_eof_def)
qed simp

lemma lex_all_blank: "fst (lex_all (split_lexer [] '' '' [] n)) = Inr []"
proof -
  obtain m where "loop_turn (split_lexer [] '' '' [] n) False '' '' = Done ((split_lexer [] '' '' [] m)\<lparr>lex_state := None\<rparr>) False"
    using turn_end [of "'' ''"] by blast
  from read_loop_done [OF this] show ?thesis
    by (simp add: lex_all.simps [of "split_lexer [] '' '' [] n"] get_token_split read_token_def)
      (simp add: lex_eof_def split_lexer_def shlex_init_def)
qed

text \<open>C22: splitting the quoted words of a command line, joined by blanks, gives the words back, whatever
  characters they hold (blanks, quotes, escapes, comments and empty words included).\<close>

theorem split_quoted_words:
  "shlex_split (join '' '' (map (shlex_quote word) ws)) False True = Inr ws"
proof -
  have lexer: "(shlex_init s True [])\<lparr>whitespace_split := True, commenters := []\<rparr> = split_lexer s '' '' [] 1" for s
    by (simp add: split_lexer_def shlex_init_def)
  show ?thesis
  proof (cases "ws = []")
    case True
    then have "fst (lex_all (split_lexer (join '' '' (map (shlex_quote word) ws)) '' '' [] 1)) = Inr ws"
      using lex_all_blank by simp
    with lexer show ?thesis by (simp add: shlex_split_def Let_def)
  next
    case False
    from lex_all_words [OF this, of word 1] lexer show ?thesis by (simp add: shlex_split_def Let_def)
  qed
qed

end
