(* ===== verification/ShellCommand.thy ===== *)
theory ShellCommand
  imports HoneyFS Bytes
begin

text \<open>
  The commands of the emulated shell share a class (\<open>cowrie/shell/command.py\<close>): where their output
  goes, what of it is logged, and how they end. The state is what a command sees of its session: the
  fake file system, the directory, its arguments and input, and the lists of what it sent on. The
  host's files are a map from their names to their contents.
\<close>

datatype sink = ToPipe | ToFile | ToNowhere
datatype piece = OutPiece string | ErrPiece string

record cmd =
  c_fs :: honeyfs
  c_cwd :: string
  c_home :: string
  host_files :: "string \<rightharpoonup> string"
  redir_files :: "(string \<times> string) set"
  c_args :: "string list"
  input_data :: "string option"
  sink :: sink
  out_file :: "string option"
  safe_outfile :: "string option"
  written_bytes :: nat
  temp_buff :: "pyobj list"
  codec_base64 :: bool
  sent :: "piece list"
  cmd_logged :: "(string \<times> string \<times> string \<times> string) list"
  exits :: nat

text \<open>
  What is outside the session: the clock, the name of the host's file for a redirection, which host
  files are plain files, how one is read, the file served for the architecture's executables, and
  whether a regular expression matches.
\<close>

record cmd_env =
  clock :: int
  tmp_fname :: "string \<Rightarrow> string"
  is_real :: "string \<Rightarrow> bool"
  read_real :: "string \<Rightarrow> string res"
  arch_file :: string
  re_match :: "string \<Rightarrow> string \<Rightarrow> bool res"

type_synonym 'a cmd_py = "(cmd, 'a) py"

text \<open>What went to \<open>outReceived\<close> and to \<open>errReceived\<close>.\<close>

fun outs :: "piece list \<Rightarrow> string list" where
  "outs [] = []"
| "outs (OutPiece x # ps) = x # outs ps"
| "outs (ErrPiece x # ps) = outs ps"

fun errs :: "piece list \<Rightarrow> string list" where
  "errs [] = []"
| "errs (OutPiece x # ps) = errs ps"
| "errs (ErrPiece x # ps) = x # errs ps"

lemma outs_append [simp]: "outs (ps @ qs) = outs ps @ outs qs" "errs (ps @ qs) = errs ps @ errs qs"
  by (induction ps rule: outs.induct) auto

lemma outs_map [simp]: "outs (map OutPiece xs) = xs" "errs (map OutPiece xs) = []"
  by (induction xs) auto

definition sent_out :: "cmd \<Rightarrow> string list" where
  "sent_out c = outs (sent c)"

definition sent_err :: "cmd \<Rightarrow> string list" where
  "sent_err c = errs (sent c)"

definition on_fs :: "'a fs_py \<Rightarrow> 'a cmd_py" where
  "on_fs m = (\<lambda>c. case m (c_fs c) of (r, s) \<Rightarrow> (r, c\<lparr>c_fs := s\<rparr>))"

text \<open>\<open>try: m except ...\<close>: the handler is given for the exceptions that are caught.\<close>

definition py_except :: "('s, 'a) py \<Rightarrow> (py_exc \<Rightarrow> ('s, 'a) py option) \<Rightarrow> ('s, 'a) py" where
  "py_except m h = (\<lambda>s. case m s of
       (Inl e, t) \<Rightarrow> (case h e of None \<Rightarrow> (Inl e, t) | Some k \<Rightarrow> k t)
     | (Inr a, t) \<Rightarrow> (Inr a, t))"

section \<open>Output\<close>

definition append_host :: "string \<Rightarrow> string \<Rightarrow> cmd \<Rightarrow> cmd" where
  "append_host f data c = c\<lparr>host_files := (host_files c)(f \<mapsto> (case host_files c f of None \<Rightarrow> [] | Some old \<Rightarrow> old) @ data)\<rparr>"

definition write_to_file :: "string \<Rightarrow> unit cmd_py" where
  "write_to_file data = py_bind py_get (\<lambda>c. case (safe_outfile c, out_file c) of
       (Some f, Some out) \<Rightarrow>
         py_bind (py_modify (append_host f data)) (\<lambda>_.
         py_bind (py_modify (\<lambda>c. c\<lparr>written_bytes := written_bytes c + length data\<rparr>)) (\<lambda>_.
         py_bind py_get (\<lambda>c. on_fs (update_size out (int (written_bytes c))))))
     | _ \<Rightarrow> py_raise TypeError)"

definition writefn :: "string \<Rightarrow> unit cmd_py" where
  "writefn data = py_bind py_get (\<lambda>c. case sink c of
       ToPipe \<Rightarrow> py_modify (\<lambda>c. c\<lparr>sent := sent c @ [OutPiece data]\<rparr>)
     | ToFile \<Rightarrow> write_to_file data
     | ToNowhere \<Rightarrow> py_return ())"

definition buffer :: "pyobj \<Rightarrow> unit cmd_py" where
  "buffer v = py_modify (\<lambda>c. c\<lparr>temp_buff := temp_buff c @ [v]\<rparr>)"

definition cmd_write :: "string \<Rightarrow> unit cmd_py" where
  "cmd_write data = py_bind (buffer (PyText data)) (\<lambda>_. writefn data)"

definition writeBytes :: "string \<Rightarrow> unit cmd_py" where
  "writeBytes data = py_bind (py_modify (\<lambda>c. c\<lparr>codec_base64 := True\<rparr>)) (\<lambda>_.
     py_bind (buffer (PyBytes data)) (\<lambda>_. writefn data))"

definition errorWrite :: "string \<Rightarrow> unit cmd_py" where
  "errorWrite data = py_bind (buffer (PyText data)) (\<lambda>_. py_modify (\<lambda>c. c\<lparr>sent := sent c @ [ErrPiece data]\<rparr>))"

text \<open>
  \<open>get_output\<close>: the output as it is logged, and its codec. \<open>isinstance(out, "str")\<close> raises, so bytes
  are encoded only if there is one piece.
\<close>

definition texts :: "pyobj list \<Rightarrow> string list option" where
  "texts vs = (if list_all (\<lambda>v. case v of PyText t \<Rightarrow> True | PyBytes b \<Rightarrow> False) vs
     then Some (map (\<lambda>v. case v of PyText t \<Rightarrow> t | PyBytes b \<Rightarrow> b) vs) else None)"

definition get_output :: "(string \<times> string) cmd_py" where
  "get_output = py_bind py_get (\<lambda>c.
     if \<not> codec_base64 c then
       py_return (case texts (temp_buff c) of
           Some ts \<Rightarrow> join [CHR 0x0A] ts
         | None \<Rightarrow> ''[Router]: Error in concatination'', ''plain'')
     else (case temp_buff c of
         [PyBytes b] \<Rightarrow> py_return (b64encode b, ''base64'')
       | _ \<Rightarrow> py_bind (py_modify (\<lambda>c. c\<lparr>codec_base64 := False\<rparr>))
           (\<lambda>_. py_return (''[Router]: Error in encoding!'', ''plain''))))"

section \<open>Starting and ending\<close>

definition file_perm :: int where
  "file_perm = 33188"

definition nl :: string where
  "nl = [CHR 0x0A]"

text \<open>The file a redirection writes to, if the fake file already has one and is appended to.\<close>

definition appendable :: "bool \<Rightarrow> nat option \<Rightarrow> string option cmd_py" where
  "appendable b_append p = (case p of
       None \<Rightarrow> py_return None
     | Some r \<Rightarrow> py_bind (on_fs (fs_node r)) (\<lambda>n. py_return (case A_REALFILE n of
           None \<Rightarrow> None
         | Some f \<Rightarrow> if f = [] \<or> starts_with f ''honeyfs'' \<or> \<not> b_append then None else Some f)))"

definition redirect_failed :: "string \<Rightarrow> unit cmd_py" where
  "redirect_failed message = py_bind (errorWrite message) (\<lambda>_.
     py_modify (\<lambda>c. c\<lparr>sink := ToNowhere, out_file := None, safe_outfile := None\<rparr>))"

definition create_target :: "cmd_env \<Rightarrow> string \<Rightarrow> unit cmd_py" where
  "create_target e out =
     py_bind (py_modify (\<lambda>c. c\<lparr>safe_outfile := Some (tmp_fname e out)\<rparr>)) (\<lambda>_.
     py_bind (py_except (py_bind (on_fs (mkfile out 0 0 0 file_perm (clock e))) (\<lambda>_. py_return True))
       (\<lambda>x. if x = FileNotFound then
              Some (py_bind (redirect_failed (''-bash: '' @ out @ '': No such file or directory'' @ nl)) (\<lambda>_. py_return False))
            else if x = PermissionDenied then
              Some (py_bind (redirect_failed (''-bash: '' @ out @ '': Permission denied'' @ nl)) (\<lambda>_. py_return False))
            else None)) (\<lambda>created.
     if \<not> created then py_return () else
     py_bind (py_modify (append_host (tmp_fname e out) [])) (\<lambda>_.
     py_bind (on_fs (fs_getfile True out)) (\<lambda>p. case p of
         None \<Rightarrow> py_raise TypeError
       | Some r \<Rightarrow> py_bind py_get (\<lambda>c.
           on_fs (update_realfile (\<lambda>f. is_real e f \<or> f \<in> dom (host_files c)) r (tmp_fname e out)))))))"

fun index_of :: "'a \<Rightarrow> 'a list \<Rightarrow> nat" where
  "index_of x [] = 0"
| "index_of x (y # ys) = (if x = y then 0 else Suc (index_of x ys))"

text \<open>
  The constructor. With the operator as the last argument it only reports an error, and the command
  runs with the operator among its arguments.
\<close>

definition redirect :: "cmd_env \<Rightarrow> unit cmd_py" where
  "redirect e = py_bind py_get (\<lambda>c.
     let args = c_args c; b_append = ''>>'' \<in> set args;
         i = index_of (if b_append then ''>>'' else ''>'') args in
     py_bind (py_modify (\<lambda>c. c\<lparr>written_bytes := 0, sink := ToFile\<rparr>)) (\<lambda>_.
     py_bind (py_lift (resolve_path (args ! (i + 1)) (c_cwd c))) (\<lambda>out.
     py_bind (py_modify (\<lambda>c. c\<lparr>out_file := Some out, c_args := take i args\<rparr>)) (\<lambda>_.
     py_bind (on_fs (fs_getfile True out)) (\<lambda>p.
     py_bind (appendable b_append p) (\<lambda>f. case f of
         Some f \<Rightarrow> py_modify (\<lambda>c. c\<lparr>safe_outfile := Some f\<rparr>)
       | None \<Rightarrow> create_target e out))))))"

definition HoneyPotCommand_init :: "cmd_env \<Rightarrow> unit cmd_py" where
  "HoneyPotCommand_init e = py_bind py_get (\<lambda>c.
     if ''>'' \<notin> set (c_args c) \<and> ''>>'' \<notin> set (c_args c) then py_return ()
     else if last (c_args c) \<in> {''>'', ''>>''} then
       errorWrite (''-bash: parse error near '' @ [CHR 0x27, CHR 0x5C, CHR ''n'', CHR 0x27, CHR 0x20] @ nl)
     else redirect e)"

definition check_arguments :: "string \<Rightarrow> string list \<Rightarrow> string list cmd_py" where
  "check_arguments application args =
     foldr (\<lambda>arg rest. py_bind py_get (\<lambda>c. py_bind (py_lift (resolve_path arg (c_cwd c))) (\<lambda>path.
       py_bind (on_fs (isdir path)) (\<lambda>d.
       if d then py_bind (errorWrite (application @ '': error reading `'' @ arg @ [CHR 0x27] @ '': Is a directory'' @ nl)) (\<lambda>_. rest)
       else py_bind rest (\<lambda>files. py_return (path # files))))))
     args (py_return [])"

text \<open>\<open>self.fs.file_contents\<close>: a file the session has redirected to is read as it is now.\<close>

definition read_host :: "cmd_env \<Rightarrow> cmd \<Rightarrow> string \<Rightarrow> string res" where
  "read_host e c f = (case host_files c f of Some data \<Rightarrow> Inr data | None \<Rightarrow> read_real e f)"

definition cmd_file_contents :: "cmd_env \<Rightarrow> string \<Rightarrow> string option cmd_py" where
  "cmd_file_contents e filename =
     py_bind py_get (\<lambda>c. on_fs (file_contents (read_host e c) (arch_file e) filename))"

text \<open>\<open>exit\<close>; taking the command off the stack and resuming the one below are counted only.\<close>

definition cmd_exit :: "unit cmd_py" where
  "cmd_exit = py_modify (\<lambda>c.
     (case safe_outfile c of
        None \<Rightarrow> c
      | Some f \<Rightarrow> if f = [] then c
          else c\<lparr>redir_files := insert (f, case out_file c of None \<Rightarrow> [] | Some out \<Rightarrow> out) (redir_files c)\<rparr>)
     \<lparr>exits := exits c + 1\<rparr>)"

text \<open>What many commands do first in their \<open>exit\<close>.\<close>

definition logged_exit :: "string \<Rightarrow> unit cmd_py" where
  "logged_exit realm = py_bind get_output (\<lambda>(output, codec). py_bind (py_modify (\<lambda>c.
     c\<lparr>cmd_logged := cmd_logged c @ [(realm, if c_args c = [] then realm else realm @ '' '' @ join '' '' (c_args c), output, codec)]\<rparr>))
     (\<lambda>_. cmd_exit))"

text \<open>\<open>start\<close>: the test compares two methods that always differ.\<close>

definition cmd_start :: "unit cmd_py \<Rightarrow> unit cmd_py \<Rightarrow> unit cmd_py" where
  "cmd_start call exit = py_bind call (\<lambda>_. exit)"

definition handle_CTRL_C :: "unit cmd_py \<Rightarrow> unit cmd_py" where
  "handle_CTRL_C exit = py_bind (cmd_write (''^C'' @ nl)) (\<lambda>_. exit)"

end
