(* ===== verification/HoneyShell.thy ===== *)
theory HoneyShell
  imports ShellCommand Shlex
begin

text \<open>
  The emulated shell (\<open>cowrie/shell/honeypot.py\<close>) and the protocol it belongs to
  (\<open>cowrie/shell/protocol.py\<close>): how a line becomes commands, how commands are found and run one after
  the other, and how pipes hand output on.

  The shells of a session are kept in a list and named by their places in it; \<open>cmdstack\<close> has its top
  at the end. Python runs the next command inside the end of the one before it, and a command
  substitution inside the parsing of a line: the number given to \<open>run_task\<close> and \<open>line_received\<close> is how
  many such calls Python's stack holds before it raises \<open>RecursionError\<close>.
\<close>

section \<open>The session\<close>

datatype cmd_class = Registered string | Txtcmd string

record stage =
  st_class :: cmd_class
  st_args :: "string list"
  st_input :: "string option"

text \<open>A chain of \<open>StdOutStdErrEmulationProtocol\<close>s: the running command's first, then each \<open>next_command\<close>.\<close>

record pipe =
  pp_stages :: "stage list"
  redirects :: bool
  redirected_data :: string
  err_data :: string

record shell =
  cmdpending :: "string list list"
  sh_environ :: "string \<rightharpoonup> string"
  interactive :: bool
  sh_redirect :: bool

datatype frame = ShellFrame nat | CommandFrame cmd_class

datatype sh_event =
    CommandInput string
  | CommandFound string
  | CommandFailed string
  | ShellException py_exc
  | QueuedInput string
  | Discarded string

record proto =
  world :: cmd
  shells :: "shell list"
  cmdstack :: "frame list"
  pp :: "pipe option"
  terminal :: "string list"
  last_prompt :: "(string \<times> string) option"
  sh_log :: "sh_event list"
  process_ended :: bool

type_synonym 'a shell_py = "(proto, 'a) py"

text \<open>
  The configured prompt, the user and the host, the environment, which commands there are, the host's
  file with the output of a command by its path, and what a command does: its constructor with the
  arguments and the input from a pipe, its \<open>start\<close> and its \<open>exit\<close>. A command writes before it ends.
\<close>

record shell_env =
  prompt_option :: "string option"
  user_name :: string
  host_name :: string
  user_uid :: int
  base_environ :: "string \<rightharpoonup> string"
  windowSize :: "(int \<times> int) option"
  is_command :: "string \<Rightarrow> bool"
  txt_file :: "string option \<Rightarrow> string option"
  construct :: "cmd_class \<Rightarrow> string list \<Rightarrow> string option \<Rightarrow> unit cmd_py"
  start_command :: "cmd_class \<Rightarrow> unit cmd_py"
  command_exit :: "cmd_class \<Rightarrow> unit cmd_py"
  queues_input :: "cmd_class \<Rightarrow> bool"

definition on_world :: "'a cmd_py \<Rightarrow> 'a shell_py" where
  "on_world m = (\<lambda>p. case m (world p) of (r, w) \<Rightarrow> (r, p\<lparr>world := w\<rparr>))"

definition terminal_write :: "string \<Rightarrow> unit shell_py" where
  "terminal_write data = py_modify (\<lambda>p. p\<lparr>terminal := terminal p @ [data]\<rparr>)"

definition shell_log :: "sh_event \<Rightarrow> unit shell_py" where
  "shell_log ev = py_modify (\<lambda>p. p\<lparr>sh_log := sh_log p @ [ev]\<rparr>)"

definition set_shell :: "nat \<Rightarrow> (shell \<Rightarrow> shell) \<Rightarrow> unit shell_py" where
  "set_shell i f = py_modify (\<lambda>p. p\<lparr>shells := (shells p)[i := f (shells p ! i)]\<rparr>)"

definition push_pending :: "nat \<Rightarrow> string list \<Rightarrow> unit shell_py" where
  "push_pending i ts = set_shell i (\<lambda>sh. sh\<lparr>cmdpending := cmdpending sh @ [ts]\<rparr>)"

section \<open>The prompt\<close>

definition prompt_dir :: "string \<Rightarrow> string \<Rightarrow> string" where
  "prompt_dir home cwd =
     (if cwd = home then ''~''
      else if length cwd > length home + 1 \<and> starts_with cwd (home @ [slash]) then CHR ''~'' # drop (length home) cwd
      else cwd)"

definition prompt_text :: "shell_env \<Rightarrow> cmd \<Rightarrow> string" where
  "prompt_text e w = (case prompt_option e of
       Some p \<Rightarrow> p @ '' ''
     | None \<Rightarrow> user_name e @ ''@'' @ host_name e @ '':'' @ prompt_dir (c_home w) (c_cwd w) @
         (if user_uid e = 0 then ''# '' else ''$ ''))"

definition encode_ascii :: "string \<Rightarrow> string res" where
  "encode_ascii s = (if list_all (\<lambda>c. (of_char c :: nat) < 128) s then Inr s else Inl (UserError ''UnicodeEncodeError''))"

definition showPrompt :: "shell_env \<Rightarrow> nat \<Rightarrow> unit shell_py" where
  "showPrompt e i = py_bind py_get (\<lambda>p. if \<not> interactive (shells p ! i) then py_return () else
     py_bind (py_lift (encode_ascii (prompt_text e (world p)))) (\<lambda>prompt.
     py_bind (terminal_write prompt) (\<lambda>_. py_modify (\<lambda>p. p\<lparr>last_prompt := Some (prompt, ''> '')\<rparr>))))"

text \<open>The constructor of a shell; its place is returned.\<close>

definition new_environ :: "shell_env \<Rightarrow> string \<rightharpoonup> string" where
  "new_environ e = (case windowSize e of
       None \<Rightarrow> base_environ e
     | Some (rows, cols) \<Rightarrow> (base_environ e)(''COLUMNS'' \<mapsto> str_int cols, ''LINES'' \<mapsto> str_int rows))"

definition new_shell :: "shell_env \<Rightarrow> bool \<Rightarrow> bool \<Rightarrow> nat shell_py" where
  "new_shell e tty redir = py_bind py_get (\<lambda>p. let i = length (shells p) in
     py_bind (py_modify (\<lambda>p. p\<lparr>shells := shells p @ [\<lparr>cmdpending = [], sh_environ = new_environ e,
         interactive = tty, sh_redirect = redir\<rparr>]\<rparr>)) (\<lambda>_.
     py_bind (showPrompt e i) (\<lambda>_. py_return i)))"

section \<open>Finding a command\<close>

fun resolve_all :: "string \<Rightarrow> string list \<Rightarrow> string \<Rightarrow> string list res" where
  "resolve_all cmd [] cwd = Inr []"
| "resolve_all cmd (x # xs) cwd = bind_res (resolve_path x cwd) (\<lambda>r.
     bind_res (resolve_all cmd xs cwd) (\<lambda>rs. Inr ((r @ [slash] @ cmd) # rs)))"

fun first_existing :: "string list \<Rightarrow> string option cmd_py" where
  "first_existing [] = py_return None"
| "first_existing (p # ps) = py_bind (on_fs (exists_path p)) (\<lambda>ex. if ex then py_return (Some p) else first_existing ps)"

text \<open>\<open>None\<close> where \<open>getCommand\<close> returns early; else the path it found, if any.\<close>

definition command_path :: "string \<Rightarrow> string list \<Rightarrow> string option option cmd_py" where
  "command_path cmd paths = py_bind py_get (\<lambda>w.
     if hd cmd = CHR ''.'' \<or> hd cmd = slash then
       py_bind (py_lift (resolve_path cmd (c_cwd w))) (\<lambda>path. py_bind (on_fs (exists_path path)) (\<lambda>ex.
         py_return (if ex then Some (Some path) else None)))
     else py_bind (py_lift (resolve_all cmd paths (c_cwd w))) (\<lambda>candidates.
       py_bind (first_existing candidates) (\<lambda>path. py_return (Some path))))"

definition getCommand :: "shell_env \<Rightarrow> string \<Rightarrow> string list \<Rightarrow> cmd_class option shell_py" where
  "getCommand e cmd paths =
     (if strip_space cmd = [] then py_return None
      else if is_command e cmd then py_return (Some (Registered cmd))
      else py_bind (on_world (command_path cmd paths)) (\<lambda>found. py_return (case found of
          None \<Rightarrow> None
        | Some path \<Rightarrow> (case txt_file e path of
              Some f \<Rightarrow> Some (Txtcmd f)
            | None \<Rightarrow> (case path of None \<Rightarrow> None | Some p \<Rightarrow> if is_command e p then Some (Registered p) else None)))))"

section \<open>Output of a command\<close>

definition outReceived :: "string \<Rightarrow> proto \<Rightarrow> proto" where
  "outReceived data p = (case pp p of
       None \<Rightarrow> p
     | Some q \<Rightarrow> (case pp_stages q of
           s # n # rest \<Rightarrow> p\<lparr>pp := Some (q\<lparr>pp_stages := s # n\<lparr>st_input :=
               Some (case st_input n of None \<Rightarrow> data | Some old \<Rightarrow> old @ data)\<rparr> # rest\<rparr>)\<rparr>
         | _ \<Rightarrow> if redirects q then p\<lparr>pp := Some (q\<lparr>redirected_data := redirected_data q @ data\<rparr>)\<rparr>
             else p\<lparr>terminal := terminal p @ [data]\<rparr>))"

definition errReceived :: "string \<Rightarrow> proto \<Rightarrow> proto" where
  "errReceived data p = (p\<lparr>terminal := terminal p @ [data],
     pp := (case pp p of None \<Rightarrow> None | Some q \<Rightarrow> Some (q\<lparr>err_data := err_data q @ data\<rparr>))\<rparr>)"

definition receive :: "piece \<Rightarrow> proto \<Rightarrow> proto" where
  "receive x p = (case x of OutPiece data \<Rightarrow> outReceived data p | ErrPiece data \<Rightarrow> errReceived data p)"

text \<open>A part of a command with the pieces it sends on; how often it ended is left in \<open>exits\<close>.\<close>

definition perform :: "unit cmd_py \<Rightarrow> unit shell_py" where
  "perform m = (\<lambda>p. case m ((world p)\<lparr>sent := [], exits := 0\<rparr>) of (r, w) \<Rightarrow> (r, fold receive (sent w) (p\<lparr>world := w\<rparr>)))"

section \<open>Running commands\<close>

text \<open>\<open>runCommand\<close> of a shell, \<open>exit\<close> of a command, \<open>call_command\<close> with a chain of pipes.\<close>

datatype task = RunCommand nat | ExitCommand | CallCommand pipe

text \<open>The assignments before the command, and the command with its arguments.\<close>

fun split_command :: "(string \<rightharpoonup> string) \<Rightarrow> string list \<Rightarrow> (string \<rightharpoonup> string) \<times> (string \<times> string list) option" where
  "split_command env [] = (env, None)"
| "split_command env (piece # pieces) = (case split_once (CHR ''='') piece of
       Some (key, v) \<Rightarrow> split_command (env(key \<mapsto> v)) pieces
     | None \<Rightarrow> (env, Some (piece, pieces)))"

fun pipe_segments :: "string list \<Rightarrow> string list list" where
  "pipe_segments [] = [[]]"
| "pipe_segments (x # xs) = (if x = ''|'' then [] # pipe_segments xs
     else (case pipe_segments xs of [] \<Rightarrow> [[x]] | seg # segs \<Rightarrow> (x # seg) # segs))"

fun pop_commands :: "string list list \<Rightarrow> (string \<times> string list) list res" where
  "pop_commands [] = Inr []"
| "pop_commands ([] # segs) = Inl IndexError"
| "pop_commands ((c # args) # segs) = bind_res (pop_commands segs) (\<lambda>cs. Inr ((c, args) # cs))"

text \<open>The stages are looked up from the last; \<open>Inl\<close> is the name that is not found.\<close>

fun find_stages :: "shell_env \<Rightarrow> (string \<rightharpoonup> string) \<Rightarrow> (string \<times> string list) list \<Rightarrow> stage list \<Rightarrow> (string + stage list) shell_py" where
  "find_stages e env [] acc = py_return (Inr acc)"
| "find_stages e env ((c, args) # cs) acc =
     py_bind (py_lift (getitem env ''PATH'')) (\<lambda>path.
     py_bind (getCommand e c (split_str '':'' path)) (\<lambda>found. case found of
         None \<Rightarrow> py_return (Inl c)
       | Some cl \<Rightarrow> py_bind (shell_log (CommandFound (c @ '' '' @ join '' '' args))) (\<lambda>_.
           find_stages e env cs (\<lparr>st_class = cl, st_args = args, st_input = None\<rparr> # acc))))"

definition runOrPrompt :: "(task \<Rightarrow> unit shell_py) \<Rightarrow> shell_env \<Rightarrow> nat \<Rightarrow> unit shell_py" where
  "runOrPrompt go e i = py_bind py_get (\<lambda>p. if cmdpending (shells p ! i) \<noteq> [] then go (RunCommand i) else showPrompt e i)"

definition start_pipeline :: "(task \<Rightarrow> unit shell_py) \<Rightarrow> shell_env \<Rightarrow> nat \<Rightarrow> string list \<Rightarrow> unit shell_py" where
  "start_pipeline go e i cmdAndArgs = py_bind py_get (\<lambda>p.
     case split_command (sh_environ (shells p ! i)) cmdAndArgs of
       (env, None) \<Rightarrow> runOrPrompt go e i
     | (env, Some ([], args)) \<Rightarrow> runOrPrompt go e i
     | (env, Some (c # cs, args)) \<Rightarrow>
         (case pipe_segments args of
            [] \<Rightarrow> py_return ()
          | rargs # segs \<Rightarrow> py_bind (py_lift (pop_commands segs)) (\<lambda>cmds.
              py_bind (find_stages e env (rev ((c # cs, rargs) # cmds)) []) (\<lambda>found. case found of
                  Inr stages \<Rightarrow> go (CallCommand \<lparr>pp_stages = stages, redirects = sh_redirect (shells p ! i),
                      redirected_data = [], err_data = []\<rparr>)
                | Inl name \<Rightarrow>
                    py_bind (shell_log (CommandFailed (join '' '' cmdAndArgs))) (\<lambda>_.
                    py_bind (terminal_write (''-bash: '' @ name @ '': command not found'' @ nl)) (\<lambda>_.
                    runOrPrompt go e i))))))"

definition no_more_commands :: "shell_env \<Rightarrow> nat \<Rightarrow> unit shell_py" where
  "no_more_commands e i = py_bind py_get (\<lambda>p. case pp p of
       None \<Rightarrow> py_raise (AttributeError ''next_command'')
     | Some q \<Rightarrow>
         if length (pp_stages q) > 1 then py_return ()
         else if interactive (shells p ! i) then showPrompt e i
         else if length (cmdstack p) = 1 then py_modify (\<lambda>p. p\<lparr>process_ended := True\<rparr>)
         else py_return ())"

definition runCommand :: "(task \<Rightarrow> unit shell_py) \<Rightarrow> shell_env \<Rightarrow> nat \<Rightarrow> unit shell_py" where
  "runCommand go e i = py_bind py_get (\<lambda>p. case cmdpending (shells p ! i) of
       [] \<Rightarrow> no_more_commands e i
     | c # cs \<Rightarrow> py_bind (set_shell i (\<lambda>sh. sh\<lparr>cmdpending := cs\<rparr>)) (\<lambda>_. start_pipeline go e i c))"

definition exit_command :: "(task \<Rightarrow> unit shell_py) \<Rightarrow> unit shell_py" where
  "exit_command go = py_bind py_get (\<lambda>p. if cmdstack p = [] then py_modify (\<lambda>p. p\<lparr>process_ended := True\<rparr>) else
     py_bind (py_modify (\<lambda>p. p\<lparr>cmdstack := butlast (cmdstack p)\<rparr>)) (\<lambda>_.
     case butlast (cmdstack p) of
       [] \<Rightarrow> py_return ()
     | f # fs \<Rightarrow> (case last (f # fs) of ShellFrame j \<Rightarrow> go (RunCommand j) | CommandFrame cl \<Rightarrow> py_return ())))"

fun exit_times :: "nat \<Rightarrow> (task \<Rightarrow> unit shell_py) \<Rightarrow> unit shell_py" where
  "exit_times 0 go = py_return ()"
| "exit_times (Suc n) go = py_bind (go ExitCommand) (\<lambda>_. exit_times n go)"

text \<open>\<open>start\<close>: what is raised is raised after the ends that came before it.\<close>

definition run_start :: "(task \<Rightarrow> unit shell_py) \<Rightarrow> unit cmd_py \<Rightarrow> unit shell_py" where
  "run_start go m = (\<lambda>p. case perform m p of (r, p') \<Rightarrow>
     py_bind (exit_times (exits (world p')) go) (\<lambda>_. py_lift r) p')"

definition outConnectionLost :: "(task \<Rightarrow> unit shell_py) \<Rightarrow> unit shell_py" where
  "outConnectionLost go = py_bind py_get (\<lambda>p. case pp p of
       Some q \<Rightarrow> (case pp_stages q of
           s # n # rest \<Rightarrow> go (CallCommand (q\<lparr>pp_stages := n # rest, redirected_data := [], err_data := []\<rparr>))
         | _ \<Rightarrow> py_return ())
     | None \<Rightarrow> py_return ())"

definition call_command :: "(task \<Rightarrow> unit shell_py) \<Rightarrow> shell_env \<Rightarrow> pipe \<Rightarrow> unit shell_py" where
  "call_command go e q = (case pp_stages q of
       [] \<Rightarrow> py_return ()
     | s # rest \<Rightarrow>
         py_bind (py_modify (\<lambda>p. p\<lparr>pp := Some q\<rparr>)) (\<lambda>_.
         py_bind py_get (\<lambda>p. if cmdstack p = [] then py_raise IndexError else
         py_bind (perform (construct e (st_class s) (st_args s) (st_input s))) (\<lambda>_.
         py_bind (py_modify (\<lambda>p. p\<lparr>cmdstack := cmdstack p @ [CommandFrame (st_class s)]\<rparr>)) (\<lambda>_.
         py_bind (run_start go (start_command e (st_class s))) (\<lambda>_.
         outConnectionLost go))))))"

fun run_task :: "nat \<Rightarrow> shell_env \<Rightarrow> task \<Rightarrow> unit shell_py" where
  "run_task 0 e t = py_raise RecursionError"
| "run_task (Suc k) e (RunCommand i) = runCommand (run_task k e) e i"
| "run_task (Suc k) e ExitCommand = exit_command (run_task k e)"
| "run_task (Suc k) e (CallCommand q) = call_command (run_task k e) e q"

section \<open>Parsing a line\<close>

text \<open>
  The variables of the loop in \<open>lineReceived\<close>. The code sets \<open>last_parc_token\<close> for the next turn only
  together with \<open>tok = None\<close>: that is \<open>held\<close>. A name that the pattern did not find is \<open>None\<close>.
\<close>

record pstate =
  ps_lexer :: shlex
  ps_tokens :: "string list"
  ps_parc :: "string option list"
  ps_sub :: "string list"
  held :: bool

datatype loop_step = GoOn pstate | Finished

definition word_prefix :: "string \<Rightarrow> string" where
  "word_prefix s = takeWhile (\<lambda>c. c \<in> set LETTERS_DIGITS) s"

text \<open>\<open>$\<close> of a pattern also matches before a newline at the end.\<close>

definition chop_newline :: "string \<Rightarrow> string" where
  "chop_newline s = (if s \<noteq> [] \<and> last s = CHR 0x0A then butlast s else s)"

definition var_name :: "string \<Rightarrow> string option" where
  "var_name tok = (if starts_with tok ''$'' then
       (let w = chop_newline (drop 1 tok) in if w \<noteq> [] \<and> list_all (\<lambda>c. c \<in> set LETTERS_DIGITS) w then Some w else None)
     else None)"

definition brace_name :: "string \<Rightarrow> string option" where
  "brace_name tok = (let b = chop_newline tok in
     if starts_with b ''${'' \<and> ends_with b ''}'' \<and> length b > 3 \<and>
        list_all (\<lambda>c. c \<in> set LETTERS_DIGITS) (butlast (drop 2 b))
     then Some (butlast (drop 2 b)) else None)"

text \<open>The two lookups, one after the other; \<open>None\<close> where the token is dropped.\<close>

definition lookup_name :: "(string \<rightharpoonup> string) \<Rightarrow> string option \<Rightarrow> string \<Rightarrow> string option" where
  "lookup_name env name tok = (case name of None \<Rightarrow> Some tok | Some v \<Rightarrow> env v)"

definition expand_variable :: "(string \<rightharpoonup> string) \<Rightarrow> string \<Rightarrow> string option" where
  "expand_variable env tok = (case lookup_name env (var_name tok) tok of
       None \<Rightarrow> None
     | Some tok' \<Rightarrow> lookup_name env (brace_name tok') tok')"

fun the_names :: "string option list \<Rightarrow> string list res" where
  "the_names [] = Inr []"
| "the_names (None # xs) = Inl TypeError"
| "the_names (Some x # xs) = bind_res (the_names xs) (\<lambda>ys. Inr (x # ys))"

text \<open>A token inside parentheses: the part before a closing one, and whether it is the last.\<close>

definition closing :: "string \<Rightarrow> string \<times> bool" where
  "closing tok = (if ends_with tok '')'' then (butlast tok, True) else (tok, False))"

definition inside_subshell :: "nat \<Rightarrow> string option \<Rightarrow> pstate \<Rightarrow> loop_step shell_py" where
  "inside_subshell i tok st =
     (case tok of
        Some (c # cs) \<Rightarrow> (case closing (c # cs) of (t, is_last) \<Rightarrow>
          if is_last then py_bind (push_pending i (ps_sub st @ [t])) (\<lambda>_. py_return (GoOn (st\<lparr>ps_sub := []\<rparr>)))
          else py_return (GoOn (st\<lparr>ps_sub := ps_sub st @ [t]\<rparr>)))
      | _ \<Rightarrow> py_bind (push_pending i (ps_sub st)) (\<lambda>_. py_return (GoOn (st\<lparr>ps_sub := []\<rparr>))))"

definition substitute :: "(string \<Rightarrow> string shell_py) \<Rightarrow> string option list \<Rightarrow> pstate \<Rightarrow> loop_step shell_py" where
  "substitute subst parc st =
     py_bind (py_lift (the_names parc)) (\<lambda>names. py_bind (subst (join '' '' names)) (\<lambda>result.
       py_return (GoOn (st\<lparr>ps_tokens := ps_tokens st @ [result], ps_parc := [], held := False\<rparr>))))"

definition inside_substitution :: "(string \<Rightarrow> string shell_py) \<Rightarrow> string option \<Rightarrow> pstate \<Rightarrow> loop_step shell_py" where
  "inside_substitution subst tok st =
     (case tok of
        Some (c # cs) \<Rightarrow> (case closing (c # cs) of (t, is_last) \<Rightarrow>
          if is_last then substitute subst (ps_parc st @ [Some t]) st
          else py_return (GoOn (st\<lparr>ps_parc := ps_parc st @ [Some t]\<rparr>)))
      | _ \<Rightarrow> substitute subst (ps_parc st) st)"

definition separator :: "nat \<Rightarrow> string \<Rightarrow> pstate \<Rightarrow> loop_step shell_py" where
  "separator i tok st =
     (if ps_tokens st \<noteq> [] then py_bind (push_pending i (ps_tokens st)) (\<lambda>_. py_return (GoOn (st\<lparr>ps_tokens := []\<rparr>)))
      else py_bind (terminal_write (''-bash: syntax error near unexpected token `'' @ tok @ [CHR 0x27] @ nl))
        (\<lambda>_. py_return Finished))"

definition plain_token :: "nat \<Rightarrow> string \<Rightarrow> pstate \<Rightarrow> loop_step shell_py" where
  "plain_token i tok st =
     (if tok = ''$?'' then py_return (GoOn (st\<lparr>ps_tokens := ps_tokens st @ [''0'']\<rparr>))
      else case tok of
        [] \<Rightarrow> py_raise IndexError
      | c # cs \<Rightarrow>
          if c = CHR ''('' then py_return (GoOn (st\<lparr>ps_sub := [cs], held := ends_with tok '')''\<rparr>))
          else if starts_with tok ''$('' then
            py_return (GoOn (st\<lparr>ps_parc := [case word_prefix (drop 2 tok) of [] \<Rightarrow> None | w # ws \<Rightarrow> Some (w # ws)],
              held := ends_with tok '')''\<rparr>))
          else if c = CHR ''$'' then py_bind py_get (\<lambda>p. py_return (GoOn (
            case expand_variable (sh_environ (shells p ! i)) tok of
              None \<Rightarrow> st
            | Some v \<Rightarrow> st\<lparr>ps_tokens := ps_tokens st @ [v]\<rparr>)))
          else py_return (GoOn (st\<lparr>ps_tokens := ps_tokens st @ [tok]\<rparr>)))"

definition loop_body :: "(string \<Rightarrow> string shell_py) \<Rightarrow> nat \<Rightarrow> string option \<Rightarrow> pstate \<Rightarrow> loop_step shell_py" where
  "loop_body subst i tok st =
     (if ps_sub st \<noteq> [] then inside_subshell i tok st
      else if ps_parc st \<noteq> [] then inside_substitution subst tok st
      else if tok = None then
        (if ps_tokens st \<noteq> [] then py_bind (push_pending i (ps_tokens st)) (\<lambda>_. py_return Finished) else py_return Finished)
      else if the tok \<in> {''&&'', ''||'', '';''} then separator i (the tok) st
      else plain_token i (the tok) st)"

definition read_tok :: "pstate \<Rightarrow> string option res \<times> shlex" where
  "read_tok st = (if held st then (Inr None, ps_lexer st) else get_token (ps_lexer st))"

definition parse_turn :: "(string \<Rightarrow> string shell_py) \<Rightarrow> nat \<Rightarrow> pstate \<Rightarrow> loop_step shell_py" where
  "parse_turn subst i st =
     py_bind (py_lift (fst (read_tok st))) (\<lambda>tok. loop_body subst i tok (st\<lparr>ps_lexer := snd (read_tok st)\<rparr>))"

text \<open>Every turn that goes on reads a token, or leaves the parentheses it is in.\<close>

definition inside :: "pstate \<Rightarrow> nat" where
  "inside st = (if ps_sub st = [] then 0 else 1) + (if ps_parc st = [] then 0 else 1)"

definition parse_measure :: "pstate \<Rightarrow> nat" where
  "parse_measure st = 3 * lex_measure (ps_lexer st) + inside st"

lemma get_token_measure_le:
  assumes "get_token lx = (Inr t, lx')"
  shows "lex_measure lx' \<le> lex_measure lx"
proof (cases "pushback lx")
  case (Cons tok toks)
  with assms show ?thesis by (auto simp: get_token_def lex_measure_def)
next
  case Nil
  with assms obtain q lx1 where run: "read_loop lx False '' '' = (Inr q, lx1)" and lx': "lx' = lx1\<lparr>lex_token := []\<rparr>"
    by (auto simp: get_token_def read_token_def split: prod.splits sum.splits)
  have "lex_measure lx1 \<le> lex_measure lx"
  proof (cases "lex_state lx")
    case None
    from loop_turn_None [OF this, of False "'' ''"] run show ?thesis by (auto simp: read_loop.simps [of lx])
  next
    case (Some st)
    with read_loop_measure [OF run] show ?thesis by simp
  qed
  with lx' show ?thesis by (simp add: lex_measure_def)
qed

lemma py_bind_Inr:
  "py_bind m k s = (Inr b, t) \<longleftrightarrow> (\<exists>a s'. m s = (Inr a, s') \<and> k a s' = (Inr b, t))"
  by (auto split: prod.splits sum.splits)

lemma substitute_goes_on:
  "substitute subst parc st p = (Inr (GoOn st'), p') \<Longrightarrow> ps_lexer st' = ps_lexer st \<and> ps_parc st' = [] \<and> ps_sub st' = ps_sub st"
  unfolding substitute_def py_bind_Inr by auto

lemma separator_goes_on: "separator i t st p = (Inr (GoOn st'), p') \<Longrightarrow> ps_lexer st' = ps_lexer st"
  unfolding separator_def py_bind_Inr push_pending_def set_shell_def terminal_write_def by (auto simp: py_bind_Inr split: if_splits)

text \<open>What a turn leaves: the lexer it was given, and fewer open parentheses if there was no token.\<close>

lemma loop_body_goes_on:
  assumes "loop_body subst i tok st p = (Inr (GoOn st'), p')"
  shows "ps_lexer st' = ps_lexer st \<and> inside st' \<le> 2 \<and> (tok = None \<or> tok = Some [] \<longrightarrow> inside st' < inside st)"
proof -
  have two: "inside x \<le> 2" for x by (simp add: inside_def)
  consider "ps_sub st \<noteq> []" | "ps_sub st = []" "ps_parc st \<noteq> []" | "ps_sub st = []" "ps_parc st = []" by blast
  then show ?thesis
  proof cases
    case 1
    with assms two show ?thesis
      by (auto simp: loop_body_def inside_subshell_def py_bind_Inr push_pending_def set_shell_def inside_def
          split: option.splits list.splits prod.splits if_splits)
  next
    case 2
    show ?thesis
    proof (cases tok)
      case None
      with assms 2 substitute_goes_on [of subst "ps_parc st" st p st' p'] two show ?thesis
        by (auto simp: loop_body_def inside_substitution_def inside_def)
    next
      case (Some t)
      show ?thesis
      proof (cases t)
        case Nil
        with assms 2 Some substitute_goes_on [of subst "ps_parc st" st p st' p'] two show ?thesis
          by (auto simp: loop_body_def inside_substitution_def inside_def)
      next
        case (Cons c cs)
        with assms 2 Some two show ?thesis
          by (auto simp: loop_body_def inside_substitution_def dest: substitute_goes_on split: prod.splits if_splits)
      qed
    qed
  next
    case 3
    then obtain t where t: "tok = Some t" using assms
      by (cases tok) (auto simp: loop_body_def py_bind_Inr push_pending_def set_shell_def split: if_splits)
    show ?thesis
    proof (cases "t \<in> {''&&'', ''||'', '';''}")
      case True
      then have "separator i t st p = (Inr (GoOn st'), p')" using assms 3 t by (simp add: loop_body_def)
      with True t two separator_goes_on show ?thesis by auto
    next
      case False
      then have body: "plain_token i t st p = (Inr (GoOn st'), p')" using assms 3 t by (simp add: loop_body_def)
      then have "t \<noteq> []" "ps_lexer st' = ps_lexer st"
        by (auto simp: plain_token_def py_bind_Inr split: if_splits list.splits option.splits)
      with t two show ?thesis by simp
    qed
  qed
qed

lemma parse_turn_measure:
  assumes "parse_turn subst i st p = (Inr (GoOn st'), p')"
  shows "parse_measure st' < parse_measure st"
proof -
  define lx where "lx = snd (read_tok st)"
  obtain tok where tok: "read_tok st = (Inr tok, lx)"
    and body: "loop_body subst i tok (st\<lparr>ps_lexer := lx\<rparr>) p = (Inr (GoOn st'), p')"
    using assms unfolding parse_turn_def py_bind_Inr lx_def by (cases "read_tok st") auto
  note b = loop_body_goes_on [OF body]
  show ?thesis
  proof (cases "tok = None \<or> tok = Some []")
    case True
    have "lex_measure lx \<le> lex_measure (ps_lexer st)"
      using tok by (auto simp: read_tok_def dest: get_token_measure_le split: if_splits)
    with True b show ?thesis by (simp add: parse_measure_def inside_def)
  next
    case False
    then have "\<not> held st" "tok \<noteq> lex_eof lx" using tok by (auto simp: read_tok_def lex_eof_def split: if_splits)
    then have "lex_measure lx < lex_measure (ps_lexer st)" using tok get_token_measure by (simp add: read_tok_def)
    with b show ?thesis by (simp add: parse_measure_def)
  qed
qed

function parse_loop :: "(string \<Rightarrow> string shell_py) \<Rightarrow> nat \<Rightarrow> pstate \<Rightarrow> unit shell_py" where
  "parse_loop subst i st p = (case parse_turn subst i st p of
       (Inl x, p') \<Rightarrow> (Inl x, p')
     | (Inr Finished, p') \<Rightarrow> (Inr (), p')
     | (Inr (GoOn st'), p') \<Rightarrow> parse_loop subst i st' p')"
  by pat_completeness auto
termination
  by (relation "measure (\<lambda>(subst, i, st, p). parse_measure st)") (auto dest: parse_turn_measure [OF sym])

declare parse_loop.simps [simp del]

text \<open>\<open>wordchars\<close> of the shell's lexer\<close>

definition line_lexer :: "string \<Rightarrow> shlex" where
  "line_lexer line = (let lx = shlex_init line True PUNCTUATION in lx\<lparr>wordchars := wordchars lx @ ''@%{}=$:+^,()''\<rparr>)"

definition parse_start :: "string \<Rightarrow> pstate" where
  "parse_start line = \<lparr>ps_lexer = line_lexer line, ps_tokens = [], ps_parc = [], ps_sub = [], held = False\<rparr>"

text \<open>\<open>s[:-1]\<close> drops a character.\<close>

definition drop_last_char :: "string \<Rightarrow> string" where
  "drop_last_char s = rev (drop 1 (dropWhile continuation (rev s)))"

text \<open>A command substitution: a shell of its own on the stack, its last command's output the result.\<close>

definition run_substitution :: "(nat \<Rightarrow> string \<Rightarrow> unit shell_py) \<Rightarrow> shell_env \<Rightarrow> string \<Rightarrow> string shell_py" where
  "run_substitution receive_line e cmds =
     py_bind (new_shell e False True) (\<lambda>j.
     py_bind (py_modify (\<lambda>p. p\<lparr>cmdstack := cmdstack p @ [ShellFrame j]\<rparr>)) (\<lambda>_.
     py_bind (receive_line j cmds) (\<lambda>_.
     py_bind py_get (\<lambda>p. if cmdstack p = [] then py_raise IndexError else
     py_bind (py_modify (\<lambda>p. p\<lparr>cmdstack := butlast (cmdstack p)\<rparr>)) (\<lambda>_.
     case pp p of
       None \<Rightarrow> py_raise (AttributeError ''redirected_data'')
     | Some q \<Rightarrow> py_bind (py_lift (py_decode (redirected_data q))) (\<lambda>text. py_return (drop_last_char text)))))))"

definition syntax_error :: "shell_env \<Rightarrow> nat \<Rightarrow> py_exc \<Rightarrow> unit shell_py" where
  "syntax_error e i x =
     py_bind (terminal_write (''-bash: syntax error: unexpected end of file'' @ nl)) (\<lambda>_.
     py_bind (shell_log (ShellException x)) (\<lambda>_.
     py_bind (set_shell i (\<lambda>sh. sh\<lparr>cmdpending := []\<rparr>)) (\<lambda>_. showPrompt e i)))"

fun line_received :: "nat \<Rightarrow> shell_env \<Rightarrow> nat \<Rightarrow> string \<Rightarrow> unit shell_py" where
  "line_received 0 e i line = py_raise RecursionError"
| "line_received (Suc k) e i line = py_bind (shell_log (CommandInput line)) (\<lambda>_.
     py_bind (py_except (py_bind (parse_loop (run_substitution (line_received k e) e) i (parse_start line)) (\<lambda>_. py_return True))
       (\<lambda>x. Some (py_bind (syntax_error e i x) (\<lambda>_. py_return False)))) (\<lambda>parsed.
     if parsed then runOrPrompt (run_task k e) e i else py_return ()))"

section \<open>The protocol\<close>

text \<open>A line from the client: the top of the stack takes it.\<close>

definition queue_line :: "string \<Rightarrow> unit shell_py" where
  "queue_line line = py_bind (shell_log (QueuedInput line)) (\<lambda>_. py_bind py_get (\<lambda>p. case cmdstack p of
       ShellFrame i # fs \<Rightarrow> py_bind (py_lift (shlex_split line False True)) (\<lambda>ts. push_pending i ts)
     | _ \<Rightarrow> py_raise (AttributeError ''cmdpending'')))"

definition lineReceived :: "nat \<Rightarrow> shell_env \<Rightarrow> string \<Rightarrow> unit shell_py" where
  "lineReceived k e line = py_bind (py_lift (py_decode line)) (\<lambda>line. py_bind py_get (\<lambda>p. case cmdstack p of
       [] \<Rightarrow> shell_log (Discarded line)
     | f # fs \<Rightarrow> (case last (f # fs) of
           ShellFrame i \<Rightarrow> line_received k e i line
         | CommandFrame cl \<Rightarrow> if queues_input e cl then queue_line line else shell_log (QueuedInput line))))"

text \<open>The interactive protocol starts with one shell; a command sent with the connection runs in one
  that is not interactive, its lines joined by semicolons.\<close>

definition start_session :: "cmd \<Rightarrow> proto" where
  "start_session w = \<lparr>world = w, shells = [], cmdstack = [], pp = None, terminal = [], last_prompt = None, sh_log = [],
     process_ended = False\<rparr>"

definition interactive_session :: "shell_env \<Rightarrow> unit shell_py" where
  "interactive_session e = py_bind (new_shell e True False) (\<lambda>i. py_modify (\<lambda>p. p\<lparr>cmdstack := [ShellFrame i]\<rparr>))"

definition exec_session_line :: "nat \<Rightarrow> shell_env \<Rightarrow> string \<Rightarrow> unit shell_py" where
  "exec_session_line k e execcmd =
     py_bind (new_shell e False False) (\<lambda>i. py_bind (py_modify (\<lambda>p. p\<lparr>cmdstack := [ShellFrame i]\<rparr>)) (\<lambda>_.
     case py_decode execcmd of
       Inl x \<Rightarrow> py_raise (AttributeError ''execcmd'')
     | Inr line \<Rightarrow> line_received k e i (join ''; '' (split_str nl line))))"

text \<open>\<open>handle_CTRL_C\<close>: the shell's, and a command's (which writes and ends).\<close>

definition proto_CTRL_C :: "nat \<Rightarrow> shell_env \<Rightarrow> unit shell_py" where
  "proto_CTRL_C k e = py_bind py_get (\<lambda>p. case cmdstack p of
       [] \<Rightarrow> py_return ()
     | f # fs \<Rightarrow> (case last (f # fs) of
           ShellFrame i \<Rightarrow> py_bind (terminal_write nl) (\<lambda>_. showPrompt e i)
         | CommandFrame cl \<Rightarrow> run_start (run_task k e) (handle_CTRL_C (command_exit e cl))))"

end
