(* ===== verification/Getopt.thy ===== *)
theory Getopt
  imports Bytes
begin

text \<open>
  Option parsing of the standard library (\<open>getopt.getopt\<close>, \<open>getopt.gnu_getopt\<close>) as the emulated
  commands use it. \<open>GetoptError\<close> is the left side, with the option it names.
\<close>

type_synonym 'a getopt_res = "string + 'a"
type_synonym options = "(string \<times> string) list"

text \<open>\<open>short_has_arg\<close>: the first occurrence of the option that is not a colon.\<close>

fun short_has_arg :: "string \<Rightarrow> string \<Rightarrow> bool getopt_res" where
  "short_has_arg opt [] = Inl opt"
| "short_has_arg opt (c # cs) =
     (if opt = [c] \<and> c \<noteq> CHR '':'' then Inr (starts_with cs '':'') else short_has_arg opt cs)"

function do_shorts :: "options \<Rightarrow> string \<Rightarrow> string \<Rightarrow> string list \<Rightarrow> (options \<times> string list) getopt_res" where
  "do_shorts opts optstring shortopts args =
     (if optstring = [] then Inr (opts, args)
      else let opt = fst (read1 optstring); rest = snd (read1 optstring) in
        case short_has_arg opt shortopts of
          Inl e \<Rightarrow> Inl e
        | Inr False \<Rightarrow> do_shorts (opts @ [(''-'' @ opt, [])]) rest shortopts args
        | Inr True \<Rightarrow>
            if rest = [] then (case args of [] \<Rightarrow> Inl opt | a # as \<Rightarrow> Inr (opts @ [(''-'' @ opt, a)], as))
            else Inr (opts @ [(''-'' @ opt, rest)], args))"
  by pat_completeness auto
termination by (relation "measure (\<lambda>(opts, s, so, args). length s)") (auto simp: read1_shorter)

declare do_shorts.simps [simp del]

definition long_has_args :: "string \<Rightarrow> string list \<Rightarrow> (bool \<times> string) getopt_res" where
  "long_has_args opt longopts =
     (let possibilities = filter (\<lambda>l. starts_with l opt) longopts in
      case possibilities of
        [] \<Rightarrow> Inl opt
      | u # us \<Rightarrow>
          if opt \<in> set possibilities then Inr (False, opt)
          else if opt @ ''='' \<in> set possibilities then Inr (True, opt)
          else if us \<noteq> [] then Inl opt
          else if ends_with u ''='' then Inr (True, butlast u) else Inr (False, u))"

definition do_longs :: "options \<Rightarrow> string \<Rightarrow> string list \<Rightarrow> string list \<Rightarrow> (options \<times> string list) getopt_res" where
  "do_longs opts opt longopts args =
     (let (name, optarg) = (case split_once (CHR ''='') opt of None \<Rightarrow> (opt, None) | Some (n, v) \<Rightarrow> (n, Some v)) in
      case long_has_args name longopts of
        Inl e \<Rightarrow> Inl e
      | Inr (True, full) \<Rightarrow> (case optarg of
            Some v \<Rightarrow> Inr (opts @ [(''--'' @ full, v)], args)
          | None \<Rightarrow> (case args of [] \<Rightarrow> Inl full | a # as \<Rightarrow> Inr (opts @ [(''--'' @ full, a)], as)))
      | Inr (False, full) \<Rightarrow> (case optarg of
            Some v \<Rightarrow> Inl full
          | None \<Rightarrow> Inr (opts @ [(''--'' @ full, [])], args)))"

lemma do_shorts_args: "do_shorts opts s so args = Inr (o', args') \<Longrightarrow> length args' \<le> length args"
proof (induction opts s so args rule: do_shorts.induct)
  case (1 opts s so args)
  then show ?case
    by (auto simp: do_shorts.simps [of opts s so args] Let_def split: if_splits sum.splits bool.splits list.splits)
qed

lemma do_longs_args: "do_longs opts s lo args = Inr (o', args') \<Longrightarrow> length args' \<le> length args"
  by (auto simp: do_longs_def Let_def split: sum.splits prod.splits bool.splits option.splits list.splits)

text \<open>\<open>getopt\<close> stops at the first argument that is no option, \<open>gnu_getopt\<close> goes on.\<close>

function getopt_loop :: "options \<Rightarrow> string list \<Rightarrow> string \<Rightarrow> string list \<Rightarrow> (options \<times> string list) getopt_res" where
  "getopt_loop opts [] shortopts longopts = Inr (opts, [])"
| "getopt_loop opts (a # as) shortopts longopts =
     (if \<not> starts_with a ''-'' \<or> a = ''-'' then Inr (opts, a # as)
      else if a = ''--'' then Inr (opts, as)
      else case (if starts_with a ''--'' then do_longs opts (drop 2 a) longopts as
                 else do_shorts opts (drop 1 a) shortopts as) of
          Inl e \<Rightarrow> Inl e
        | Inr (opts', as') \<Rightarrow> getopt_loop opts' as' shortopts longopts)"
  by pat_completeness auto
termination
  by (relation "measure (\<lambda>(opts, args, so, lo). length args)")
    (auto split: if_splits simp: less_Suc_eq_le dest: sym [THEN do_longs_args] sym [THEN do_shorts_args] do_longs_args do_shorts_args)

definition getopt :: "string list \<Rightarrow> string \<Rightarrow> (options \<times> string list) getopt_res" where
  "getopt args shortopts = getopt_loop [] args shortopts []"

text \<open>Neither environment variable nor \<open>+\<close> makes options come first.\<close>

function gnu_loop :: "options \<Rightarrow> string list \<Rightarrow> string list \<Rightarrow> string \<Rightarrow> string list \<Rightarrow> (options \<times> string list) getopt_res" where
  "gnu_loop opts prog_args [] shortopts longopts = Inr (opts, prog_args)"
| "gnu_loop opts prog_args (a # as) shortopts longopts =
     (if a = ''--'' then Inr (opts, prog_args @ as)
      else if \<not> starts_with a ''-'' \<or> a = ''-'' then gnu_loop opts (prog_args @ [a]) as shortopts longopts
      else case (if starts_with a ''--'' then do_longs opts (drop 2 a) longopts as
                 else do_shorts opts (drop 1 a) shortopts as) of
          Inl e \<Rightarrow> Inl e
        | Inr (opts', as') \<Rightarrow> gnu_loop opts' prog_args as' shortopts longopts)"
  by pat_completeness auto
termination
  by (relation "measure (\<lambda>(opts, pa, args, so, lo). length args)")
    (auto split: if_splits simp: less_Suc_eq_le dest: do_longs_args do_shorts_args)

definition gnu_getopt :: "string list \<Rightarrow> string \<Rightarrow> string list \<Rightarrow> (options \<times> string list) getopt_res" where
  "gnu_getopt args shortopts longopts = gnu_loop [] [] args shortopts longopts"

text \<open>Arguments that do not look like options are all operands.\<close>

lemma gnu_getopt_operands:
  assumes "\<forall>a \<in> set args. \<not> starts_with a ''-'' \<or> a = ''-''"
  shows "gnu_getopt args shortopts longopts = Inr ([], args)"
proof -
  have "gnu_loop opts pa args shortopts longopts = Inr (opts, pa @ args)" for opts pa
    using assms by (induction args arbitrary: pa) (auto simp: starts_with_def)
  then show ?thesis by (simp add: gnu_getopt_def)
qed

end
