(* ===== verification/FsCommands.thy ===== *)
theory FsCommands
  imports ShellCommand Getopt
begin

text \<open>
  The commands of the emulated shell that work on the fake file system
  (\<open>cowrie/commands/fs.py\<close>): \<open>grep\<close>, \<open>tail\<close>, \<open>head\<close>, \<open>cd\<close>, \<open>rm\<close>, \<open>cp\<close>, \<open>mv\<close>, \<open>mkdir\<close>, \<open>rmdir\<close>,
  \<open>pwd\<close> and \<open>touch\<close>. Each is its \<open>call\<close> (or its own \<open>start\<close>); all but \<open>grep\<close> and \<open>tail\<close> end with
  \<open>logged_exit\<close>.
\<close>

definition quoted :: "string \<Rightarrow> string" where
  "quoted s = ''`'' @ s @ [CHR 0x27]"

definition resolv :: "string \<Rightarrow> string cmd_py" where
  "resolv p = py_bind py_get (\<lambda>c. py_lift (resolve_path p (c_cwd c)))"

fun each :: "('a \<Rightarrow> unit cmd_py) \<Rightarrow> 'a list \<Rightarrow> unit cmd_py" where
  "each f [] = py_return ()"
| "each f (x # xs) = py_bind (f x) (\<lambda>_. each f xs)"

section \<open>Reading\<close>

definition GREP_HELP :: "string list" where
  "GREP_HELP = [''usage: grep [-abcDEFGHhIiJLlmnOoPqRSsUVvwxZ] [-A num] [-B num] [-C[num]]'' @ nl,
     CHR 0x09 # ''[-e pattern] [-f file] [--binary-files=value] [--color=when]'' @ nl,
     CHR 0x09 # ''[--context[=num]] [--directories=action] [--label] [--line-buffered]'' @ nl,
     CHR 0x09 # ''[--null] [pattern] [file ...]'' @ nl]"

definition grep_help :: "unit cmd_py" where
  "grep_help = each writeBytes GREP_HELP"

text \<open>The pattern matched is \<open>'.*' + match + '.*'\<close>.\<close>

definition grep_application :: "cmd_env \<Rightarrow> string \<Rightarrow> string \<Rightarrow> unit cmd_py" where
  "grep_application e contents match =
     (let pattern = filter (\<lambda>c. c \<noteq> CHR 0x22) (basename match) in
      each (\<lambda>line. py_bind (py_lift (py_decode line)) (\<lambda>text.
          py_bind (py_lift (re_match e (''.*'' @ pattern @ ''.*'') text)) (\<lambda>found.
          if found then writeBytes (line @ nl) else py_return ())))
        (split_str nl contents))"

text \<open>\<open>None\<close> for the contents has no \<open>split\<close>, which the \<open>except\<close> catches too.\<close>

definition with_contents :: "cmd_env \<Rightarrow> string \<Rightarrow> string \<Rightarrow> (string \<Rightarrow> unit cmd_py) \<Rightarrow> unit cmd_py" where
  "with_contents e filename message f =
     py_except (py_bind (cmd_file_contents e filename) (\<lambda>contents. case contents of
         None \<Rightarrow> py_raise (AttributeError ''split'')
       | Some text \<Rightarrow> f text)) (\<lambda>x. Some (errorWrite message))"

definition grep_get_contents :: "cmd_env \<Rightarrow> string \<Rightarrow> string \<Rightarrow> unit cmd_py" where
  "grep_get_contents e filename match =
     with_contents e filename (''grep: '' @ filename @ '': No such file or directory'' @ nl)
       (\<lambda>contents. grep_application e contents match)"

definition GREP_OPTIONS :: string where
  "GREP_OPTIONS = ''abcDEFGHhIiJLlmnOoPqRSsUVvwxZA:B:C:e:f:''"

text \<open>\<open>args\<close> is not set if the first argument is the redirection.\<close>

definition grep_files :: "cmd_env \<Rightarrow> string list \<Rightarrow> string list option \<Rightarrow> unit cmd_py" where
  "grep_files e all_args args = py_bind py_get (\<lambda>c. case input_data c of
       Some (x # xs) \<Rightarrow> (case args of
           None \<Rightarrow> py_raise (UnboundLocalError ''args'')
         | Some [] \<Rightarrow> py_raise IndexError
         | Some (a # as) \<Rightarrow> grep_application e (x # xs) a)
     | _ \<Rightarrow> (case args of
           None \<Rightarrow> py_raise (UnboundLocalError ''args'')
         | Some as \<Rightarrow> py_bind (check_arguments ''grep'' (drop 1 as)) (\<lambda>files.
             each (\<lambda>pname. case as of [] \<Rightarrow> py_raise IndexError | a # _ \<Rightarrow> grep_get_contents e pname a) files)))"

definition grep_start :: "cmd_env \<Rightarrow> unit cmd_py" where
  "grep_start e = py_bind py_get (\<lambda>c. case c_args c of
       [] \<Rightarrow> py_bind grep_help (\<lambda>_. cmd_exit)
     | a # as \<Rightarrow>
         if a = ''>'' then py_bind (grep_files e (a # as) None) (\<lambda>_. cmd_exit)
         else (case getopt (a # as) GREP_OPTIONS of
             Inl opt \<Rightarrow> py_bind (errorWrite (''grep: invalid option -- '' @ opt @ nl))
               (\<lambda>_. py_bind grep_help (\<lambda>_. cmd_exit))
           | Inr (opts, args) \<Rightarrow> py_bind (grep_files e (a # as) (Some args)) (\<lambda>_. cmd_exit)))"

text \<open>\<open>xs[j]\<close> for any integer\<close>

definition py_index :: "'a list \<Rightarrow> int \<Rightarrow> 'a res" where
  "py_index xs j = (let i = if j < 0 then j + int (length xs) else j in
     if 0 \<le> i \<and> i < int (length xs) then Inr (xs ! nat i) else Inl IndexError)"

text \<open>
  \<open>tail_application\<close>: \<open>n\<close> is kept from one file to the next. With as many lines as asked for the range
  starts at minus one, which is the last line.
\<close>

definition tail_lines :: "int \<Rightarrow> nat \<Rightarrow> int" where
  "tail_lines n lines = (if int lines < n then int lines - 1 else n)"

definition tail_application :: "int \<Rightarrow> string \<Rightarrow> int cmd_py" where
  "tail_application n contents =
     (let contentsplit = split_str nl contents; lines = length contentsplit; n = tail_lines n lines in
      py_bind (each (\<lambda>(i, j). py_bind (py_lift (py_index contentsplit j)) (\<lambda>line.
          py_bind (writeBytes line) (\<lambda>_. if int i < n then cmd_write nl else py_return ())))
        (enumerate 0 [int lines - n - 1..int lines - 1]))
      (\<lambda>_. py_return n))"

text \<open>An exception in the middle leaves \<open>n\<close> as it was set.\<close>

fun tail_files :: "cmd_env \<Rightarrow> int \<Rightarrow> string list \<Rightarrow> unit cmd_py" where
  "tail_files e n [] = py_return ()"
| "tail_files e n (pname # pnames) =
     py_bind (py_except (py_bind (cmd_file_contents e pname) (\<lambda>contents. case contents of
           None \<Rightarrow> py_raise (AttributeError ''split'')
         | Some text \<Rightarrow> py_return (Some text)))
       (\<lambda>x. Some (py_bind (errorWrite (''tail: cannot open '' @ quoted pname @ '' for reading: No such file or directory'' @ nl))
         (\<lambda>_. py_return None)))) (\<lambda>r. case r of
         None \<Rightarrow> tail_files e n pnames
       | Some text \<Rightarrow>
           py_bind (py_except (py_bind (tail_application n text) (\<lambda>_. py_return ()))
             (\<lambda>x. Some (errorWrite (''tail: cannot open '' @ quoted pname @ '' for reading: No such file or directory'' @ nl))))
           (\<lambda>_. tail_files e (tail_lines n (length (split_str nl text))) pnames))"

text \<open>The options \<open>-n\<close>; digits are those of ASCII.\<close>

fun line_count :: "string \<Rightarrow> options \<Rightarrow> int \<Rightarrow> int cmd_py" where
  "line_count name [] n = py_return n"
| "line_count name ((opt, v) # opts) n =
     (if opt \<noteq> ''-n'' then line_count name opts n
      else case (if v = [] then None else nat_of_digits 0 v) of
        None \<Rightarrow> py_bind (errorWrite (name @ '': illegal offset -- '' @ v @ nl)) (\<lambda>_. line_count name opts n)
      | Some m \<Rightarrow> line_count name opts (int m))"

definition tail_run :: "cmd_env \<Rightarrow> string list \<Rightarrow> string option \<Rightarrow> unit cmd_py" where
  "tail_run e args0 inp = (case getopt args0 ''n:'' of
       Inl opt \<Rightarrow> py_bind (errorWrite (''tail: invalid option -- '' @ [CHR 0x27] @ opt @ [CHR 0x27] @ nl)) (\<lambda>_. cmd_exit)
     | Inr (opts, args) \<Rightarrow> py_bind (line_count ''tail'' opts 10) (\<lambda>n.
         py_bind (case inp of
             Some (x # xs) \<Rightarrow> py_bind (tail_application n (x # xs)) (\<lambda>_. py_return ())
           | _ \<Rightarrow> py_bind (check_arguments ''tail'' args) (tail_files e n))
         (\<lambda>_. cmd_exit)))"

definition tail_start :: "cmd_env \<Rightarrow> unit cmd_py" where
  "tail_start e = py_bind py_get (\<lambda>c.
     if c_args c = [] \<or> hd (c_args c) = ''>'' then py_return () else tail_run e (c_args c) (input_data c))"

definition head_application :: "int \<Rightarrow> string \<Rightarrow> unit cmd_py" where
  "head_application n contents =
     each (\<lambda>(i, line). if int i < n then writeBytes (line @ nl) else py_return ()) (enumerate 0 (split_str nl contents))"

definition head_get_file_contents :: "cmd_env \<Rightarrow> int \<Rightarrow> string \<Rightarrow> unit cmd_py" where
  "head_get_file_contents e n filename =
     with_contents e filename (''head: cannot open '' @ quoted filename @ '' for reading: No such file or directory'' @ nl)
       (head_application n)"

definition head_run :: "cmd_env \<Rightarrow> string list \<Rightarrow> string option \<Rightarrow> unit cmd_py" where
  "head_run e args0 inp = (case getopt args0 ''n:'' of
       Inl opt \<Rightarrow> py_bind (errorWrite (''head: invalid option -- '' @ [CHR 0x27] @ opt @ [CHR 0x27] @ nl))
         (\<lambda>_. logged_exit ''/bin/head'')
     | Inr (opts, args) \<Rightarrow> py_bind (line_count ''head'' opts 10) (\<lambda>n.
         py_bind (case inp of
             Some (x # xs) \<Rightarrow> head_application n (x # xs)
           | _ \<Rightarrow> py_bind (check_arguments ''head'' args) (each (head_get_file_contents e n)))
         (\<lambda>_. logged_exit ''/bin/head'')))"

definition head_start :: "cmd_env \<Rightarrow> unit cmd_py" where
  "head_start e = py_bind py_get (\<lambda>c.
     if c_args c = [] \<or> hd (c_args c) = ''>'' then py_return () else head_run e (c_args c) (input_data c))"

section \<open>Directories\<close>

text \<open>The lookup's exceptions are swallowed, and the name it was to set is then missing.\<close>

definition cd_lookup :: "string \<Rightarrow> cmd \<Rightarrow> (string \<times> nat option) res" where
  "cd_lookup pname c = bind_res (resolve_path pname (c_cwd c)) (\<lambda>newpath.
     bind_res (getfile (frames (c_fs c)) (nodes (c_fs c)) True newpath) (\<lambda>inode. Inr (newpath, inode)))"

definition cd_to :: "string \<Rightarrow> unit cmd_py" where
  "cd_to pname = py_bind py_get (\<lambda>c.
     if pname = ''-'' then errorWrite (''bash: cd: OLDPWD not set'' @ nl)
     else case cd_lookup pname c of
         Inl x \<Rightarrow> py_raise (UnboundLocalError ''inode'')
       | Inr (newpath, None) \<Rightarrow> errorWrite (''bash: cd: '' @ pname @ '': No such file or directory'' @ nl)
       | Inr (newpath, Some r) \<Rightarrow>
           if A_TYPE (nodes (c_fs c) ! r) \<noteq> T_DIR then errorWrite (''bash: cd: '' @ pname @ '': Not a directory'' @ nl)
           else py_modify (\<lambda>c. c\<lparr>c_cwd := newpath\<rparr>))"

definition cd_call :: "unit cmd_py" where
  "cd_call = py_bind py_get (\<lambda>c.
     cd_to (case c_args c of [] \<Rightarrow> c_home c | a # _ \<Rightarrow> if a = ''~'' then c_home c else a))"

definition pwd_call :: "unit cmd_py" where
  "pwd_call = py_bind py_get (\<lambda>c. cmd_write (c_cwd c @ nl))"

text \<open>\<open>mkdir\<close> returns after its first argument.\<close>

definition mkdir_call :: "cmd_env \<Rightarrow> unit cmd_py" where
  "mkdir_call e = py_bind py_get (\<lambda>c. case c_args c of
       [] \<Rightarrow> py_return ()
     | f # _ \<Rightarrow> py_bind (resolv f) (\<lambda>pname. py_bind (on_fs (exists_path pname)) (\<lambda>ex.
         if ex then errorWrite (''mkdir: cannot create directory '' @ quoted f @ '': File exists'' @ nl)
         else py_except (on_fs (mkdir pname 0 0 4096 16877 (clock e))) (\<lambda>x.
           if x = FileNotFound
           then Some (errorWrite (''mkdir: cannot create directory '' @ quoted f @ '': No such file or directory'' @ nl))
           else None))))"

definition entry_names :: "nat \<Rightarrow> string list cmd_py" where
  "entry_names d = py_bind py_get (\<lambda>c. let ns = nodes (c_fs c) in
     py_return (map (\<lambda>x. A_NAME (ns ! x)) (A_CONTENTS (ns ! d))))"

text \<open>\<open>'/'.join(pname.split('/')[:-1])\<close> and \<open>pname.split('/')[-1]\<close>\<close>

definition parent_of :: "string \<Rightarrow> string" where
  "parent_of p = join [slash] (butlast (split_str [slash] p))"

definition last_name :: "string \<Rightarrow> string" where
  "last_name p = last (split_str [slash] p)"

text \<open>
  One argument of \<open>rmdir\<close>; \<open>True\<close> is Python's \<open>return\<close>. An empty directory list counts as none, as
  \<open>not dir\<close> is true of it.
\<close>

definition lookup_failed :: "py_exc \<Rightarrow> bool" where
  "lookup_failed x \<longleftrightarrow> x = IndexError \<or> x = FileNotFound"

definition rmdir_one :: "string \<Rightarrow> bool cmd_py" where
  "rmdir_one f = py_bind (resolv f) (\<lambda>pname.
     py_bind (py_except (py_bind (on_fs (fs_get_path pname)) (\<lambda>d. py_bind (entry_names d) (\<lambda>names.
           if names \<noteq> [] then py_return None
           else py_bind (on_fs (fs_get_path (parent_of pname))) (\<lambda>p. py_return (Some (Some p))))))
         (\<lambda>x. if lookup_failed x then Some (py_return (Some None)) else None)) (\<lambda>r. case r of
         None \<Rightarrow> py_bind (errorWrite (''rmdir: failed to remove '' @ quoted f @ '': Directory not empty'' @ nl)) (\<lambda>_. py_return False)
       | Some dir \<Rightarrow> py_bind py_get (\<lambda>c. let ns = nodes (c_fs c); fname = basename f in
           case (case dir of None \<Rightarrow> None | Some d \<Rightarrow> find (\<lambda>x. A_NAME (ns ! x) = fname) (A_CONTENTS (ns ! d))) of
             None \<Rightarrow> py_bind (errorWrite (''rmdir: failed to remove '' @ quoted f @ '': No such file or directory'' @ nl)) (\<lambda>_. py_return False)
           | Some x \<Rightarrow>
               if A_TYPE (ns ! x) \<noteq> T_DIR then
                 py_bind (errorWrite (''rmdir: failed to remove '' @ [CHR 0x27] @ f @ [CHR 0x27] @ '': Not a directory'' @ nl)) (\<lambda>_. py_return True)
               else py_bind (on_fs (remove_entry (the dir) x)) (\<lambda>_. py_return False))))"

fun rmdir_all :: "string list \<Rightarrow> unit cmd_py" where
  "rmdir_all [] = py_return ()"
| "rmdir_all (f # fs) = py_bind (rmdir_one f) (\<lambda>stop. if stop then py_return () else rmdir_all fs)"

definition rmdir_call :: "unit cmd_py" where
  "rmdir_call = py_bind py_get (\<lambda>c. rmdir_all (c_args c))"

text \<open>\<open>touch\<close>\<close>

fun touch_all :: "cmd_env \<Rightarrow> string list \<Rightarrow> unit cmd_py" where
  "touch_all e [] = py_return ()"
| "touch_all e (f # fs) = py_bind (resolv f) (\<lambda>pname.
     py_bind (on_fs (exists_path (dirname pname))) (\<lambda>parent.
     if \<not> parent then errorWrite (''touch: cannot touch `'' @ pname @ ''`: No such file or directory'' @ nl) else
     py_bind (on_fs (exists_path pname)) (\<lambda>ex.
     if ex then touch_all e fs
     else if list_ex (starts_with pname) SPECIAL_PATHS then
       errorWrite (''touch: cannot touch `'' @ pname @ ''`: Permission denied'' @ nl)
     else py_bind (on_fs (mkfile pname 0 0 0 33188 (clock e))) (\<lambda>_. touch_all e fs))))"

definition touch_call :: "cmd_env \<Rightarrow> unit cmd_py" where
  "touch_call e = py_bind py_get (\<lambda>c. if c_args c = []
     then py_bind (errorWrite (''touch: missing file operand'' @ nl))
       (\<lambda>_. errorWrite (''Try `touch --help'' @ [CHR 0x27] @ '' for more information.'' @ nl))
     else touch_all e (c_args c))"

section \<open>Removing, copying, moving\<close>

definition RM_HELP :: string where
  "RM_HELP = join nl
    [''Usage: rm [OPTION]... [FILE]...'',
     ''Remove (unlink) the FILE(s).'',
     [],
     '' -f, --force           ignore nonexistent files and arguments, never prompt'',
     '' -i                    prompt before every removal'',
     '' -I                    prompt once before removing more than three files, or'',
     ''                         when removing recursively; less intrusive than -i,'',
     ''                         while still giving protection against most mistakes'',
     ''      --interactive[=WHEN]  prompt according to WHEN: never, once (-I), or'',
     ''                         always (-i); without WHEN, prompt always'',
     ''      --one-file-system  when removing a hierarchy recursively, skip any'',
     ''                         directory that is on a file system different from'',
     ''                         that of the corresponding command line argument'',
     ''      --no-preserve-root  do not treat '' @ [CHR 0x27] @ ''/'' @ [CHR 0x27] @ '' specially'',
     ''      --preserve-root   do not remove '' @ [CHR 0x27] @ ''/'' @ [CHR 0x27] @ '' (default)'',
     '' -r, -R, --recursive   remove directories and their contents recursively'',
     '' -d, --dir             remove empty directories'',
     '' -v, --verbose         explain what is being done'',
     ''     --help     display this help and exit'',
     ''     --version  output version information and exit'',
     [],
     ''By default, rm does not remove directories.  Use the --recursive (-r or -R)'',
     ''option to remove each listed directory, too, along with all of its contents.'',
     [],
     ''To remove a file whose name starts with a '' @ [CHR 0x27] @ ''-'' @ [CHR 0x27] @ '', for example '' @ [CHR 0x27] @ ''-foo'' @ [CHR 0x27] @ '','',
     ''use one of these commands:'',
     '' rm -- -foo'',
     [],
     '' rm ./-foo'',
     [],
     ''Note that if you use rm to remove a file, it might be possible to recover'',
     ''some of its contents, given sufficient expertise and/or time.  For greater'',
     ''assurance that the contents are truly unrecoverable, consider using shred.'',
     [],
     ''GNU coreutils online help: <http://www.gnu.org/software/coreutils/>'',
     ''Full documentation at: <http://www.gnu.org/software/coreutils/rm>'',
     ''or available locally via: info '' @ [CHR 0x27] @ ''(coreutils) rm invocation'' @ [CHR 0x27],
     []]"

definition rm_paramError :: "unit cmd_py" where
  "rm_paramError = errorWrite (''Try '' @ [CHR 0x27] @ ''rm --help'' @ [CHR 0x27] @ '' for more information'' @ nl)"

text \<open>The options, in order: recursive, force, verbose, or \<open>None\<close> where help is asked for.\<close>

definition rm_option :: "string \<times> string \<Rightarrow> (bool \<times> bool \<times> bool) option \<Rightarrow> (bool \<times> bool \<times> bool) option" where
  "rm_option o' flags = (case flags of None \<Rightarrow> None | Some (recursive, force, verbose) \<Rightarrow>
     if fst o' \<in> {''--recursive'', ''-r'', ''-R''} then Some (True, force, verbose)
     else if fst o' \<in> {''--force'', ''-f''} then Some (recursive, True, verbose)
     else if fst o' \<in> {''--verbose'', ''-v''} then Some (recursive, force, True)
     else if fst o' \<in> {''--help'', ''-h''} then None
     else Some (recursive, force, verbose))"

definition rm_options :: "options \<Rightarrow> (bool \<times> bool \<times> bool) option" where
  "rm_options opts = fold rm_option opts (Some (False, False, False))"

definition rm_entry :: "bool \<Rightarrow> bool \<Rightarrow> nat \<Rightarrow> string \<Rightarrow> nat \<Rightarrow> unit cmd_py" where
  "rm_entry recursive verbose d name i = py_bind (on_fs (fs_node i)) (\<lambda>n.
     if A_NAME n \<noteq> name then py_return ()
     else if A_TYPE n = T_DIR \<and> \<not> recursive then
       errorWrite (''rm: cannot remove '' @ quoted (A_NAME n) @ '': Is a directory'' @ nl)
     else py_bind (on_fs (remove_entry d i)) (\<lambda>_.
       if \<not> verbose then py_return ()
       else cmd_write ((if A_TYPE n = T_DIR then ''removed directory '' else ''removed '') @ [CHR 0x27] @ A_NAME n @ [CHR 0x27] @ nl)))"

definition rm_one :: "bool \<times> bool \<times> bool \<Rightarrow> string \<Rightarrow> unit cmd_py" where
  "rm_one flags f = (case flags of (recursive, force, verbose) \<Rightarrow>
     py_bind (resolv f) (\<lambda>pname.
     py_bind (py_except (py_bind (on_fs (fs_get_path (parent_of pname))) (\<lambda>d.
           py_bind (on_fs (fs_get_path pname)) (\<lambda>_. py_return (Some d))))
         (\<lambda>x. if lookup_failed x then Some (py_bind (if force then py_return ()
               else errorWrite (''rm: cannot remove '' @ quoted f @ '': No such file or directory'' @ nl))
               (\<lambda>_. py_return None)) else None)) (\<lambda>r. case r of
         None \<Rightarrow> py_return ()
       | Some d \<Rightarrow> py_bind (on_fs (fs_node d)) (\<lambda>n. each (rm_entry recursive verbose d (last_name pname)) (A_CONTENTS n)))))"

text \<open>A wrong option ends the command here, and \<open>start\<close> ends it again.\<close>

definition rm_call :: "unit cmd_py" where
  "rm_call = py_bind py_get (\<lambda>c. if c_args c = []
     then py_bind (errorWrite (''rm: missing operand'' @ nl)) (\<lambda>_. rm_paramError)
     else case gnu_getopt (c_args c) ''rTfvh'' [''help'', ''recursive'', ''force'', ''verbose''] of
       Inl opt \<Rightarrow> py_bind (errorWrite (''rm: invalid option -- '' @ [CHR 0x27] @ opt @ [CHR 0x27] @ nl))
         (\<lambda>_. py_bind rm_paramError (\<lambda>_. logged_exit ''/bin/rm''))
     | Inr (opts, args) \<Rightarrow> (case rm_options opts of
           None \<Rightarrow> cmd_write RM_HELP
         | Some flags \<Rightarrow> each (rm_one flags) args))"

text \<open>
  \<open>copy.deepcopy\<close> of a node: all nodes are copied, with what is shared or cyclic among them; those that
  cannot be reached from the copy are never seen.
\<close>

definition deepcopy :: "nat \<Rightarrow> nat fs_py" where
  "deepcopy r = py_bind py_get (\<lambda>s. let k = length (nodes s) in
     py_bind (py_modify (\<lambda>s. s\<lparr>nodes := nodes s @ map (\<lambda>n. n\<lparr>A_CONTENTS := map (\<lambda>x. k + x) (A_CONTENTS n)\<rparr>) (nodes s)\<rparr>))
       (\<lambda>_. py_return (k + r)))"

definition rename_node :: "nat \<Rightarrow> string \<Rightarrow> unit fs_py" where
  "rename_node r name = set_node r (\<lambda>n. n\<lparr>A_NAME := name\<rparr>)"

definition drop_entry :: "nat \<Rightarrow> string \<Rightarrow> unit fs_py" where
  "drop_entry d name = py_bind py_get (\<lambda>s. set_node d (\<lambda>n. n\<lparr>A_CONTENTS := drop_named (nodes s) name (A_CONTENTS n)\<rparr>))"

text \<open>What \<open>cp\<close> and \<open>mv\<close> ask first, once the options are read: \<open>None\<close> if they give up, else whether the
  destination is a directory.\<close>

definition missing_destination :: "string \<Rightarrow> unit cmd_py" where
  "missing_destination name = py_bind py_get (\<lambda>c.
     py_bind (errorWrite (name @ '': missing destination file operand after '' @ quoted (hd (c_args c)) @ nl))
       (\<lambda>_. errorWrite (''Try `'' @ name @ '' --help'' @ [CHR 0x27] @ '' for more information.'' @ nl)))"

definition missing_operand :: "string \<Rightarrow> unit cmd_py" where
  "missing_operand name =
     py_bind (errorWrite (name @ '': missing file operand'' @ nl))
       (\<lambda>_. errorWrite (''Try `'' @ name @ '' --help'' @ [CHR 0x27] @ '' for more information.'' @ nl))"

definition is_dir_at :: "string \<Rightarrow> bool cmd_py" where
  "is_dir_at p = py_bind (resolv p) (\<lambda>q. on_fs (isdir q))"

definition exists_at :: "string \<Rightarrow> bool cmd_py" where
  "exists_at p = py_bind (resolv p) (\<lambda>q. on_fs (exists_path q))"

definition give_up :: "string \<Rightarrow> bool option cmd_py" where
  "give_up message = py_bind (errorWrite message) (\<lambda>_. py_return None)"

definition destination :: "string \<Rightarrow> string list \<Rightarrow> string \<Rightarrow> bool \<Rightarrow> bool option cmd_py" where
  "destination name sources dest may_create =
     py_bind (if length sources > 1 then is_dir_at dest else py_return True) (\<lambda>ok.
     if \<not> ok then give_up (name @ '': target '' @ quoted dest @ '' is not a directory'' @ nl) else
     py_bind (case dest of [] \<Rightarrow> py_raise IndexError
       | _ \<Rightarrow> if last dest = slash then py_bind (exists_at dest) (\<lambda>ex. py_return (\<not> ex \<and> \<not> may_create)) else py_return False) (\<lambda>bad.
     if bad then give_up (name @ '': cannot create regular file '' @ quoted dest @ '': Is a directory'' @ nl) else
     py_bind (is_dir_at dest) (\<lambda>d.
     if d then py_return (Some True) else
     py_bind (resolv dest) (\<lambda>p. py_bind (on_fs (exists_path (dirname p))) (\<lambda>ex.
     if ex then py_return (Some False)
     else give_up (name @ '': cannot create regular file '' @ quoted dest @ '': No such file or directory'' @ nl))))))"

definition target_dir :: "bool \<Rightarrow> string \<Rightarrow> nat cmd_py" where
  "target_dir into dest = py_bind (resolv dest) (\<lambda>p. on_fs (fs_get_path (if into then p else dirname p)))"

definition cannot_stat :: "string \<Rightarrow> string \<Rightarrow> unit cmd_py" where
  "cannot_stat name src = errorWrite (name @ '': cannot stat '' @ quoted src @ '': No such file or directory'' @ nl)"

text \<open>The copy is made even where \<open>getfile\<close> gives \<open>False\<close>; its fields can then not be set.\<close>

definition cp_one :: "bool \<Rightarrow> bool \<Rightarrow> string \<Rightarrow> string \<Rightarrow> unit cmd_py" where
  "cp_one recursive into dest src = py_bind (exists_at src) (\<lambda>ex.
     if \<not> ex then cannot_stat ''cp'' src else
     py_bind (if recursive then py_return False else is_dir_at src) (\<lambda>omit.
     if omit then errorWrite (''cp: omitting directory '' @ quoted src @ nl) else
     py_bind (resolv src) (\<lambda>p. py_bind (on_fs (fs_getfile True p)) (\<lambda>f. case f of
         None \<Rightarrow> py_raise TypeError
       | Some r \<Rightarrow> py_bind (on_fs (deepcopy r)) (\<lambda>s.
           py_bind (target_dir into dest) (\<lambda>d.
           let outfile = basename (if into then src else rstrip_chars [slash] dest) in
           py_bind (on_fs (drop_entry d outfile)) (\<lambda>_.
           py_bind (on_fs (rename_node s outfile)) (\<lambda>_.
           on_fs (append_entry d s)))))))))"

definition CP_OPTIONS :: string where
  "CP_OPTIONS = ''-abdfiHlLPpRrsStTuvx''"

definition cp_call :: "unit cmd_py" where
  "cp_call = py_bind py_get (\<lambda>c. if c_args c = [] then missing_operand ''cp'' else
     case gnu_getopt (c_args c) CP_OPTIONS [] of
       Inl opt \<Rightarrow> errorWrite (''Unrecognized option'' @ nl)
     | Inr (opts, args) \<Rightarrow>
         let recursive = list_ex (\<lambda>o'. fst o' \<in> {''-r'', ''-a'', ''-R''}) opts in
         if length args < 2 then missing_destination ''cp''
         else let sources = butlast args; dest = last args in
           py_bind (destination ''cp'' sources dest recursive) (\<lambda>r. case r of
               None \<Rightarrow> py_return ()
             | Some into \<Rightarrow> each (cp_one recursive into dest) sources))"

text \<open>
  \<open>dir\<close> is a list and is compared with a text, so it always differs: the node is renamed, appended and
  then removed from the directory it was in.
\<close>

definition mv_one :: "bool \<Rightarrow> string \<Rightarrow> string \<Rightarrow> unit cmd_py" where
  "mv_one into dest src = py_bind (exists_at src) (\<lambda>ex.
     if \<not> ex then cannot_stat ''mv'' src else
     py_bind (resolv src) (\<lambda>p. py_bind (on_fs (fs_getfile True p)) (\<lambda>f.
     py_bind (target_dir into dest) (\<lambda>d.
     case f of None \<Rightarrow> py_raise TypeError
     | Some s \<Rightarrow>
         py_bind (on_fs (rename_node s (basename (if into then src else dest)))) (\<lambda>_.
         py_bind (on_fs (append_entry d s)) (\<lambda>_.
         py_bind (on_fs (fs_get_path (dirname p))) (\<lambda>sd. on_fs (remove_entry sd s))))))))"

text \<open>After a wrong option \<open>mv\<close> ends and then goes on without its arguments.\<close>

definition mv_call :: "unit cmd_py" where
  "mv_call = py_bind py_get (\<lambda>c. if c_args c = [] then missing_operand ''mv'' else
     case gnu_getopt (c_args c) ''-bfiStTuv'' [] of
       Inl opt \<Rightarrow> py_bind (errorWrite (''Unrecognized option'' @ nl))
         (\<lambda>_. py_bind (logged_exit ''/bin/mv'') (\<lambda>_. py_raise (UnboundLocalError ''args'')))
     | Inr (opts, args) \<Rightarrow>
         if length args < 2 then missing_destination ''mv''
         else let sources = butlast args; dest = last args in
           py_bind (destination ''mv'' sources dest (length sources = 1)) (\<lambda>r. case r of
               None \<Rightarrow> py_return ()
             | Some into \<Rightarrow> each (mv_one into dest) sources))"

section \<open>The table of commands\<close>

datatype fs_command = Grep | Tail | Head | Cd | Rm | Cp | Mv | Mkdir | Rmdir | Pwd | Touch

definition fs_commands :: "(string \<times> fs_command) list" where
  "fs_commands = [(''/bin/grep'', Grep), (''/bin/egrep'', Grep), (''/bin/fgrep'', Grep), (''/bin/tail'', Tail),
     (''/usr/bin/tail'', Tail), (''/bin/head'', Head), (''/usr/bin/head'', Head), (''cd'', Cd), (''/bin/rm'', Rm),
     (''/bin/cp'', Cp), (''/bin/mv'', Mv), (''/bin/mkdir'', Mkdir), (''/bin/rmdir'', Rmdir), (''/bin/pwd'', Pwd),
     (''/bin/touch'', Touch), (''touch'', Touch), (''>'', Touch)]"

definition command_start :: "cmd_env \<Rightarrow> fs_command \<Rightarrow> unit cmd_py" where
  "command_start e k = (case k of
       Grep \<Rightarrow> grep_start e
     | Tail \<Rightarrow> tail_start e
     | Head \<Rightarrow> head_start e
     | Cd \<Rightarrow> cmd_start cd_call (logged_exit ''cd'')
     | Rm \<Rightarrow> cmd_start rm_call (logged_exit ''/bin/rm'')
     | Cp \<Rightarrow> cmd_start cp_call (logged_exit ''/bin/cp'')
     | Mv \<Rightarrow> cmd_start mv_call (logged_exit ''/bin/mv'')
     | Mkdir \<Rightarrow> cmd_start (mkdir_call e) (logged_exit ''/bin/mkdir'')
     | Rmdir \<Rightarrow> cmd_start rmdir_call (logged_exit ''/bin/rmdir'')
     | Pwd \<Rightarrow> cmd_start pwd_call (logged_exit ''/bin/pwd'')
     | Touch \<Rightarrow> cmd_start (touch_call e) (logged_exit ''/bin/touch''))"

text \<open>Running a command line: a fresh object with its arguments and input, its redirection, its start.\<close>

definition fresh_command :: "string list \<Rightarrow> string option \<Rightarrow> cmd \<Rightarrow> cmd" where
  "fresh_command args inp c = c\<lparr>c_args := args, input_data := inp, sink := ToPipe, out_file := None,
     safe_outfile := None, written_bytes := 0, temp_buff := [], codec_base64 := False\<rparr>"

definition run_command :: "cmd_env \<Rightarrow> fs_command \<Rightarrow> string list \<Rightarrow> string option \<Rightarrow> unit cmd_py" where
  "run_command e k args inp = py_bind (py_modify (fresh_command args inp)) (\<lambda>_.
     py_bind (HoneyPotCommand_init e) (\<lambda>_. command_start e k))"

end
