(* ===== verification/FsCommandsProps.thy ===== *)
theory FsCommandsProps
  imports FsCommands HoneyFSFacts
begin

text \<open>
  The commands of the emulated shell: none of them damages the store of the fake file system, what
  \<open>head\<close> and \<open>tail\<close> show is what the programs they imitate show, and what a redirection keeps.
\<close>

section \<open>The store under the commands\<close>

text \<open>The store is well formed, and the directory is an absolute path in normal form.\<close>

definition normal_path :: "string \<Rightarrow> bool" where
  "normal_path p \<longleftrightarrow> list_all normal_name (path_pieces p) \<and> p = abs_path (path_pieces p)"

definition cmd_inv :: "cmd \<Rightarrow> bool" where
  "cmd_inv c \<longleftrightarrow> fs_inv (c_fs c) \<and> normal_path (c_cwd c)"

text \<open>Both are kept, and the number of times a command has ended never falls.\<close>

definition cmd_rel :: "cmd \<Rightarrow> cmd \<Rightarrow> bool" where
  "cmd_rel c d \<longleftrightarrow> (cmd_inv c \<longrightarrow> cmd_inv d) \<and> exits c \<le> exits d"

definition cmd_rel_with :: "nat \<Rightarrow> cmd \<Rightarrow> cmd \<Rightarrow> bool" where
  "cmd_rel_with r c d \<longleftrightarrow> (cmd_inv c \<and> r < length (nodes (c_fs c)) \<longrightarrow> cmd_inv d \<and> r < length (nodes (c_fs d))) \<and>
     exits c \<le> exits d"

abbreviation keeps_cmd :: "'a cmd_py \<Rightarrow> bool" where
  "keeps_cmd \<equiv> keeps cmd_rel"

abbreviation keeps_cmd_with :: "nat \<Rightarrow> 'a cmd_py \<Rightarrow> bool" where
  "keeps_cmd_with r \<equiv> keeps (cmd_rel_with r)"

named_theorems keeps_shell \<open>what keeps the invariant of the store\<close>

lemma cmd_inv_preorder [keeps_shell]: "preorder_on_states cmd_rel"
  by (auto simp: preorder_on_states_def reflp_def transp_def cmd_rel_def)

lemma cmd_with_preorder [keeps_shell]: "preorder_on_states (cmd_rel_with r)"
  by (auto simp: preorder_on_states_def reflp_def transp_def cmd_rel_with_def)

lemma keeps_on_fs: "keeps_fs m \<Longrightarrow> keeps_cmd (on_fs m)"
  by (auto simp: keeps_def on_fs_def cmd_inv_def cmd_rel_def split: prod.split)

lemma keeps_with_on_fs: "keeps_fs_with r m \<Longrightarrow> keeps_cmd_with r (on_fs m)"
  by (auto simp: keeps_def on_fs_def cmd_inv_def cmd_rel_with_def split: prod.split)

lemma keeps_except [keeps_shell]:
  assumes "preorder_on_states R" and m: "keeps R m" and h: "\<And>e. pred_option (keeps R) (h e)"
  shows "keeps R (py_except m h)"
proof -
  have "R s (snd (py_except m h s))" for s
  proof (cases "m s")
    case (Pair r t)
    with m have st: "R s t" by (metis keepsD snd_conv)
    show ?thesis
    proof (cases "\<exists>e k. r = Inl e \<and> h e = Some k")
      case True
      then obtain e k where e: "r = Inl e" "h e = Some k" by blast
      then have "R t (snd (k t))" using h [of e] by (simp add: keepsD)
      with st assms(1) e Pair show ?thesis
        by (auto simp: preorder_on_states_def py_except_def elim: transpE)
    next
      case False
      with st Pair show ?thesis by (auto simp: py_except_def split: sum.split option.split)
    qed
  qed
  then show ?thesis by (simp add: keeps_def)
qed

lemma pred_handler [keeps_shell]:
  "P k \<Longrightarrow> pred_option P (Some k)" "pred_option P None"
  "pred_option P h \<Longrightarrow> pred_option P h' \<Longrightarrow> pred_option P (if b then h else h')"
  by simp_all

lemma keeps_each [keeps_shell]:
  "preorder_on_states R \<Longrightarrow> (\<And>x. keeps R (f x)) \<Longrightarrow> keeps R (each f xs)"
  by (induction xs) (simp_all add: keeps_intros)

text \<open>What touches neither the file system nor the directory.\<close>

definition quiet :: "'a cmd_py \<Rightarrow> bool" where
  "quiet = keeps (\<lambda>c d. c_fs d = c_fs c \<and> c_cwd d = c_cwd c \<and> exits c \<le> exits d)"

lemma quiet_keeps: "quiet m \<Longrightarrow> keeps_cmd m" "quiet m \<Longrightarrow> keeps_cmd_with r m"
  by (simp_all add: quiet_def keeps_def cmd_inv_def cmd_rel_def cmd_rel_with_def)

lemma same_but_output_preorder: "preorder_on_states (\<lambda>c d. c_fs d = c_fs c \<and> c_cwd d = c_cwd c \<and> exits c \<le> exits d)"
  by (auto simp: preorder_on_states_def reflp_def transp_def)

lemma quiet_output [simp]:
  "quiet (errorWrite x)" "quiet (buffer v)" "quiet get_output" "quiet cmd_exit" "quiet (resolv p)"
  unfolding quiet_def errorWrite_def buffer_def get_output_def cmd_exit_def resolv_def
  by (auto simp: keeps_def split: list.split pyobj.split option.split)

lemma keeps_update_size: "keeps_cmd (on_fs (update_size p z))"
  by (intro keeps_on_fs keeps_fs_setters)

lemma keeps_modify_quiet: "(\<And>c. c_fs (f c) = c_fs c \<and> c_cwd (f c) = c_cwd c \<and> exits (f c) = exits c) \<Longrightarrow> keeps_cmd (py_modify f)"
  by (rule quiet_keeps) (simp add: quiet_def keeps_def)

lemma keeps_writefn [keeps_shell]: "keeps_cmd (writefn x)"
proof -
  have f: "c_fs (append_host f d c) = c_fs c \<and> c_cwd (append_host f d c) = c_cwd c \<and> exits (append_host f d c) = exits c" for f d c by (simp add: append_host_def)
  have "keeps_cmd (write_to_file x)"
    unfolding write_to_file_def
    by (intro keeps_intros keeps_update_size keeps_modify_quiet cmd_inv_preorder) (auto simp: f)
  then have "keeps_cmd (case k of ToPipe \<Rightarrow> py_modify (\<lambda>c. c\<lparr>sent := sent c @ [OutPiece x]\<rparr>)
     | ToFile \<Rightarrow> write_to_file x | ToNowhere \<Rightarrow> py_return ())" for k
    by (cases k) (simp_all add: keeps_modify_quiet keeps_intros cmd_inv_preorder)
  then show ?thesis unfolding writefn_def by (intro keeps_intros cmd_inv_preorder)
qed

lemma keeps_output [keeps_shell]:
  "keeps_cmd (cmd_write x)" "keeps_cmd (writeBytes x)" "keeps_cmd (errorWrite x)" "keeps_cmd_with r (errorWrite x)"
  "keeps_cmd cmd_exit" "keeps_cmd (resolv p)" "keeps_cmd_with r (resolv p)" "keeps_cmd (logged_exit p)"
  unfolding cmd_write_def writeBytes_def logged_exit_def
  by (intro keeps_intros keeps_writefn cmd_inv_preorder quiet_output quiet_keeps keeps_modify_quiet; simp)+


lemma keeps_lookups [keeps_shell]:
  "keeps_cmd (on_fs (fs_getfile b p))" "keeps_cmd (on_fs (fs_get_path p))" "keeps_cmd (on_fs (exists_path p))"
  "keeps_cmd (on_fs (isdir p))" "keeps_cmd (on_fs (fs_node d))" "keeps_cmd (on_fs (remove_entry d i))"
  "keeps_cmd_with r (on_fs (fs_get_path p))" "keeps_cmd_with r (on_fs (fs_node d))"
  "keeps_cmd_with r (on_fs (append_entry d r))"
  unfolding exists_path_def isdir_def remove_entry_def
  by (intro keeps_on_fs keeps_with_on_fs keeps_fs keeps_fs_with_append keeps_fs_with_get_path harmless_intros;
      simp add: keeps_def)+

lemma keeps_changes [keeps_shell]:
  "keeps_cmd (on_fs (mkfile p u g z m t))" "keeps_cmd (on_fs (mkdir p u g z m t))"
  "keeps_cmd (on_fs (update_realfile real r f))"
  unfolding update_realfile_def
  by (intro keeps_on_fs keeps_fs_set_node harmless_intros; simp add: keeps_def fs_inv_mkfile fs_inv_mkdir)+

lemma keeps_file_contents [keeps_shell]: "keeps_cmd (cmd_file_contents e f)"
  unfolding cmd_file_contents_def file_contents_def exists_path_def
  by (intro keeps_intros keeps_shell keeps_on_fs keeps_fs)

lemma keeps_foldr: "(\<And>x m. keeps R m \<Longrightarrow> keeps R (f x m)) \<Longrightarrow> keeps R z \<Longrightarrow> keeps R (foldr f xs z)"
  by (induction xs) simp_all

lemma keeps_check_arguments [keeps_shell]: "keeps_cmd (check_arguments name args)"
  unfolding check_arguments_def
  by (rule keeps_foldr; intro keeps_intros keeps_shell; assumption)

lemma keeps_host_file [keeps_shell]: "keeps_cmd (py_modify (append_host f d))"
  by (rule keeps_modify_quiet) (simp add: append_host_def)

lemma keeps_create_target [keeps_shell]: "keeps_cmd (create_target e out)"
  unfolding create_target_def redirect_failed_def
  by (intro keeps_intros keeps_shell keeps_modify_quiet; simp)

lemma keeps_init [keeps_shell]: "keeps_cmd (HoneyPotCommand_init e)"
  unfolding HoneyPotCommand_init_def redirect_def appendable_def Let_def
  by (intro keeps_intros keeps_shell keeps_modify_quiet; simp)


text \<open>The commands\<close>

lemma keeps_case_list [keeps_shell]:
  "keeps R a \<Longrightarrow> (\<And>x xs. keeps R (b x xs)) \<Longrightarrow> keeps R (case v of [] \<Rightarrow> a | x # xs \<Rightarrow> b x xs)"
  by (cases v) auto

lemma keeps_with_contents [keeps_shell]: "(\<And>t. keeps_cmd (f t)) \<Longrightarrow> keeps_cmd (with_contents e n m f)"
  unfolding with_contents_def by (intro keeps_intros keeps_shell; simp)

lemma keeps_line_count [keeps_shell]: "keeps_cmd (line_count name opts n)"
proof (induction name opts n rule: line_count.induct)
  case (1 name n)
  show ?case by (simp only: line_count.simps) (intro keeps_intros keeps_shell)
next
  case (2 name opt v opts n)
  then show ?case
    by (cases "opt = ''-n''"; cases "if v = [] then None else nat_of_digits 0 v")
      (simp_all only: line_count.simps option.case if_True if_False not_not simp_thms,
        (rule keeps_bind, rule cmd_inv_preorder, rule keeps_shell, simp)?)
qed

lemma keeps_applications [keeps_shell]:
  "keeps_cmd (grep_application e text x)" "keeps_cmd (tail_application n text)" "keeps_cmd (head_application n text)"
  "keeps_cmd grep_help"
  unfolding grep_application_def tail_application_def head_application_def grep_help_def Let_def
  by (intro keeps_intros keeps_shell)+

lemma keeps_tail_files [keeps_shell]: "keeps_cmd (tail_files e n files)"
proof (induction files arbitrary: n)
  case Nil
  show ?case by (simp only: tail_files.simps) (intro keeps_intros keeps_shell)
next
  case (Cons f files)
  show ?case by (simp only: tail_files.simps) (intro keeps_intros keeps_shell Cons.IH)
qed

lemma keeps_readers [keeps_shell]: "keeps_cmd (grep_start e)" "keeps_cmd (tail_start e)" "keeps_cmd (head_start e)"
  unfolding grep_start_def grep_files_def grep_get_contents_def tail_start_def tail_run_def head_start_def head_run_def head_get_file_contents_def
    Let_def
  by (intro keeps_intros keeps_shell)+

lemma keeps_directories [keeps_shell]: "keeps_cmd pwd_call" "keeps_cmd (mkdir_call e)"
  unfolding pwd_call_def mkdir_call_def
  by (intro keeps_intros keeps_shell keeps_modify_quiet; simp)+

lemma cd_lookup_normal:
  assumes "cmd_inv c" and "cd_lookup pname c = Inr (q, f)"
  shows "normal_path q"
  using resolve_path_normal_form [of "c_cwd c" pname q "[]"] assms
  by (auto simp: cmd_inv_def normal_path_def cd_lookup_def py_simps)

lemma keeps_cd [keeps_shell]: "keeps_cmd cd_call"
proof -
  have "cmd_rel c (snd (cd_to p c))" for p c
  proof -
    have e: "cmd_rel c (snd (errorWrite m c))" for m using keeps_output(3) by (rule keepsD)
    show ?thesis
      using e cd_lookup_normal [of c p]
      by (auto simp: cd_to_def cmd_rel_def cmd_inv_def split: sum.split option.split)
  qed
  then have "keeps_cmd (cd_to p)" for p by (simp add: keeps_def)
  then show ?thesis unfolding cd_call_def by (intro keeps_intros keeps_shell)
qed

lemma keeps_rmdir [keeps_shell]: "keeps_cmd rmdir_call"
proof -
  have one: "keeps_cmd (rmdir_one f)" for f
    unfolding rmdir_one_def entry_names_def Let_def by (intro keeps_intros keeps_shell)
  have "keeps_cmd (rmdir_all fs)" for fs
    by (induction fs) (simp_all only: rmdir_all.simps, (intro keeps_intros keeps_shell one; assumption)+)
  then show ?thesis unfolding rmdir_call_def by (intro keeps_intros keeps_shell)
qed

lemma keeps_touch [keeps_shell]: "keeps_cmd (touch_call e)"
proof -
  have "keeps_cmd (touch_all e fs)" for fs
    by (induction fs) (simp_all only: touch_all.simps, (intro keeps_intros keeps_shell; assumption)+)
  then show ?thesis unfolding touch_call_def by (intro keeps_intros keeps_shell)
qed

lemma keeps_rm [keeps_shell]: "keeps_cmd rm_call"
  unfolding rm_call_def rm_paramError_def rm_one_def rm_entry_def
  by (intro keeps_intros keeps_shell)


text \<open>A node found is in the store, and so is its copy.\<close>

lemma keeps_found:
  assumes none: "keeps_cmd (k None)" and some: "\<And>r. keeps_cmd_with r (k (Some r))"
  shows "keeps_cmd (py_bind (on_fs (fs_getfile b p)) k)"
  unfolding keeps_def
proof
  fix c
  show "cmd_rel c (snd (py_bind (on_fs (fs_getfile b p)) k c))"
  proof (cases "getfile (frames (c_fs c)) (nodes (c_fs c)) b p")
    case (Inl e)
    then show ?thesis by (simp add: on_fs_def cmd_rel_def)
  next
    case (Inr f)
    show ?thesis
    proof (cases f)
      case None
      with Inr none [THEN keepsD, of c] show ?thesis by (simp add: on_fs_def)
    next
      case (Some r)
      with Inr have "cmd_inv c \<Longrightarrow> r < length (nodes (c_fs c))"
        by (auto simp: cmd_inv_def fs_inv_def dest: getfile_in_range)
      with Inr Some some [of r, THEN keepsD, of c] show ?thesis
        by (auto simp: on_fs_def cmd_rel_def cmd_rel_with_def)
    qed
  qed
qed

lemma store_ok_twice:
  assumes "store_ok ns"
  shows "store_ok (ns @ map (\<lambda>n. n\<lparr>A_CONTENTS := map (\<lambda>x. length ns + x) (A_CONTENTS n)\<rparr>) ns)"
  using assms by (auto simp: store_ok_def list_all_iff nth_append intro: trans_less_add1)

lemma keeps_copied:
  assumes k: "\<And>q. keeps_cmd_with q (k q)"
  shows "keeps_cmd_with r (py_bind (on_fs (deepcopy r)) k)"
  unfolding keeps_def
proof
  fix c
  define d where "d = snd (on_fs (deepcopy r) c)"
  have d: "on_fs (deepcopy r) c = (Inr (length (nodes (c_fs c)) + r), d)"
    by (simp add: d_def on_fs_def deepcopy_def Let_def)
  have n: "nodes (c_fs d) = nodes (c_fs c) @ map (\<lambda>n. n\<lparr>A_CONTENTS := map (\<lambda>x. length (nodes (c_fs c)) + x) (A_CONTENTS n)\<rparr>) (nodes (c_fs c))"
    "newcount (c_fs d) = newcount (c_fs c)" "c_cwd d = c_cwd c" "exits d = exits c"
    by (simp_all add: d_def on_fs_def deepcopy_def Let_def)
  have "cmd_inv c \<Longrightarrow> cmd_inv d" by (simp add: cmd_inv_def fs_inv_def n store_ok_twice)
  with k [of "length (nodes (c_fs c)) + r", THEN keepsD, of d]
  show "cmd_rel_with r c (snd (py_bind (on_fs (deepcopy r)) k c))"
    by (auto simp: d n cmd_rel_with_def)
qed

lemma keeps_entries [keeps_shell]:
  "keeps_cmd_with r (on_fs (drop_entry d x))" "keeps_cmd_with r (on_fs (rename_node q x))"
  "keeps_cmd_with r (on_fs (remove_entry d i))" "keeps_cmd_with r (target_dir into dest)"
  unfolding target_dir_def drop_entry_def rename_node_def remove_entry_def
  by (intro keeps_with_on_fs keeps_intros keeps_shell keeps_fs_with_preorder keeps_fs_with_set_node harmless_intros
      keeps_fs_with_get_path; simp add: harmless_def set_drop_named)+

lemma keeps_destination [keeps_shell]: "keeps_cmd (destination name sources dest b)"
  unfolding destination_def is_dir_at_def exists_at_def give_up_def
  by (intro keeps_intros keeps_shell)

lemma keeps_target [keeps_shell]: "keeps_cmd (target_dir into dest)" "keeps_cmd (exists_at p)" "keeps_cmd (is_dir_at p)"
  "keeps_cmd (cannot_stat name p)" "keeps_cmd (missing_operand name)" "keeps_cmd (missing_destination name)"
  unfolding target_dir_def exists_at_def is_dir_at_def cannot_stat_def missing_operand_def missing_destination_def
  by (intro keeps_intros keeps_shell)+

lemma keeps_cp [keeps_shell]: "keeps_cmd cp_call"
proof -
  have "keeps_cmd (cp_one recursive into dest src)" for recursive into dest src
    unfolding cp_one_def Let_def
    by (rule keeps_bind, rule keeps_shell, rule keeps_shell, rule keeps_if, rule keeps_shell)
      (intro keeps_bind keeps_shell keeps_if keeps_return keeps_found keeps_raise, simp_all only: option.case,
        intro keeps_shell keeps_raise, rule keeps_copied, intro keeps_intros keeps_shell)
  then show ?thesis
    unfolding cp_call_def Let_def by (intro keeps_intros keeps_shell)
qed

lemma keeps_mv [keeps_shell]: "keeps_cmd mv_call"
proof -
  have "keeps_cmd (mv_one into dest src)" for into dest src
    unfolding mv_one_def
    by (rule keeps_bind, rule keeps_shell, rule keeps_shell, rule keeps_if, rule keeps_shell)
      (intro keeps_bind keeps_shell keeps_found, simp_all only: option.case, (intro keeps_intros keeps_shell)+)
  then show ?thesis
    unfolding mv_call_def Let_def by (intro keeps_intros keeps_shell)
qed

lemma keeps_command_start: "keeps_cmd (command_start e k)"
  by (cases k) (simp_all only: command_start_def fs_command.case cmd_start_def, (intro keeps_intros keeps_shell)+)

lemma keeps_run_command: "keeps_cmd (run_command e k args inp)"
  unfolding run_command_def
  by (intro keeps_intros keeps_shell keeps_command_start keeps_modify_quiet) (simp add: fresh_command_def)


text \<open>A session's command lines as the calls of a transition system.\<close>

type_synonym command_line = "cmd_env \<times> fs_command \<times> string list \<times> string option"

definition shell_step :: "command_line \<Rightarrow> cmd \<Rightarrow> cmd" where
  "shell_step l c = (case l of (e, k, args, inp) \<Rightarrow> snd (run_command e k args inp c))"

definition session_start :: "fsnode list \<Rightarrow> nat \<Rightarrow> string list \<Rightarrow> cmd" where
  "session_start ns k home = \<lparr>c_fs = loaded ns k, c_cwd = abs_path (resolve_pieces [] (filter file_name home)),
     c_home = abs_path home, host_files = Map.empty, redir_files = {}, c_args = [], input_data = None, sink = ToPipe,
     out_file = None, safe_outfile = None, written_bytes = 0, temp_buff = [], codec_base64 = False, sent = [], cmd_logged = [], exits = 0\<rparr>"

interpretation shell: transition_system "session_start ns k home" shell_step cmd_inv for ns k home
proof
  have "list_all normal_name (resolve_pieces [] (filter file_name home))"
    by (rule resolve_pieces_normal) (simp_all add: list_all_iff)
  then show "cmd_inv (session_start ns k home)"
    using vf.inv_start [of ns k]
    by (simp add: cmd_inv_def session_start_def normal_path_def path_pieces_abs_path list_all_iff normal_name_def)
next
  show "cmd_inv (shell_step l c)" if "cmd_inv c" for c l
    using that keepsD [OF keeps_run_command] by (cases l) (simp add: shell_step_def cmd_rel_def)
qed

section \<open>Ending\<close>

text \<open>If a command returns, it has ended at least once more than before.\<close>

definition ends :: "'a cmd_py \<Rightarrow> bool" where
  "ends m \<longleftrightarrow> (\<forall>c. case m c of (Inl e, d) \<Rightarrow> True | (Inr a, d) \<Rightarrow> exits c < exits d)"

named_theorems ending \<open>what ends, part by part\<close>

lemma ends_exit [ending]: "ends cmd_exit"
  by (simp add: ends_def cmd_exit_def split: option.split)

lemma ends_bind [ending]:
  assumes m: "keeps_cmd m" and k: "\<And>a. ends (k a)"
  shows "ends (py_bind m k)"
  unfolding ends_def
proof
  fix c
  show "case py_bind m k c of (Inl e, d) \<Rightarrow> True | (Inr a, d) \<Rightarrow> exits c < exits d"
  proof (cases "m c")
    case (Pair r d)
    with m have "exits c \<le> exits d" by (metis cmd_rel_def keepsD snd_conv)
    moreover have "case k a d of (Inl e, d') \<Rightarrow> True | (Inr b, d') \<Rightarrow> exits d < exits d'" for a
      using k [of a] by (simp add: ends_def)
    ultimately show ?thesis using Pair by (fastforce split: sum.splits prod.splits)
  qed
qed

lemma ends_cases [ending]:
  "ends a \<Longrightarrow> ends b \<Longrightarrow> ends (if p then a else b)"
  "ends a \<Longrightarrow> (\<And>x xs. ends (l x xs)) \<Longrightarrow> ends (case v of [] \<Rightarrow> a | x # xs \<Rightarrow> l x xs)"
  "(\<And>x. ends (f x)) \<Longrightarrow> (\<And>y. ends (g y)) \<Longrightarrow> ends (case w of Inl x \<Rightarrow> f x | Inr y \<Rightarrow> g y)"
  "(\<And>x y. ends (h x y)) \<Longrightarrow> ends (case z of (x, y) \<Rightarrow> h x y)"
  by (simp_all split: list.split sum.split prod.split)

lemma ends_logged_exit [ending]: "ends (logged_exit p)"
proof -
  have "keeps_cmd get_output" by (intro quiet_keeps quiet_output)
  then show ?thesis
    unfolding logged_exit_def by (intro ending keeps_intros keeps_shell keeps_modify_quiet; simp)
qed

lemma ends_get: "(\<And>c. ends (k c)) \<Longrightarrow> ends (py_bind py_get k)"
  by (intro ends_bind keeps_intros keeps_shell)

lemma ends_start: "k \<notin> {Head, Tail} \<Longrightarrow> ends (command_start e k)"
proof -
  have "ends (grep_start e)"
    unfolding grep_start_def grep_files_def grep_get_contents_def by (intro ending keeps_intros keeps_shell)
  moreover have "ends (cmd_start m (logged_exit p))" if "keeps_cmd m" for m p
    unfolding cmd_start_def using that by (intro ending)
  ultimately show "k \<notin> {Head, Tail} \<Longrightarrow> ends (command_start e k)"
  by (cases k) (simp_all add: command_start_def keeps_shell)
qed

text \<open>The constructor leaves the first argument, unless it is an operator.\<close>

definition same_args :: "cmd \<Rightarrow> cmd \<Rightarrow> bool" where
  "same_args c d \<longleftrightarrow> c_args d = c_args c"

lemma same_args_preorder: "preorder_on_states same_args"
  by (auto simp: preorder_on_states_def reflp_def transp_def same_args_def)

lemma same_args_on_fs: "keeps same_args (on_fs m)"
  by (auto simp: keeps_def on_fs_def same_args_def split: prod.split)

lemma same_args_output: "keeps same_args (errorWrite x)"
  by (simp add: keeps_def same_args_def errorWrite_def buffer_def)

lemma same_args_target: "keeps same_args (create_target e out)"
  unfolding create_target_def redirect_failed_def
  by (intro keeps_intros keeps_except pred_handler same_args_preorder same_args_on_fs same_args_output keeps_modify;
      simp add: same_args_def append_host_def)

lemma index_of_pos: "xs = x # ys \<Longrightarrow> x \<noteq> y \<Longrightarrow> \<exists>n. index_of y xs = Suc n"
  by simp

lemma init_args:
  assumes init: "HoneyPotCommand_init e c = (Inr (), d)" and a: "c_args c = a # as" "a \<notin> {''>'', ''>>''}"
  shows "\<exists>bs. c_args d = a # bs"
proof -
  define b where "b = (''>>'' \<in> set (c_args c))"
  define k where "k = index_of (if b then ''>>'' else ''>'') (c_args c)"
  have k: "\<exists>n. k = Suc n" using a by (auto simp: k_def b_def)
  define rest where "rest = (\<lambda>out. py_bind (on_fs (fs_getfile True out)) (\<lambda>p. py_bind (appendable b p) (\<lambda>f. case f of
         Some f \<Rightarrow> py_modify (\<lambda>c. c\<lparr>safe_outfile := Some f\<rparr>) | None \<Rightarrow> create_target e out)))"
  have "keeps same_args (appendable b p)" for p
    unfolding appendable_def by (intro keeps_intros same_args_preorder same_args_on_fs)
  then have rest: "keeps same_args (rest out)" for out
    unfolding rest_def
    by (intro keeps_intros same_args_preorder same_args_on_fs same_args_target keeps_modify) (auto simp: same_args_def)
  let ?c = "\<lambda>out. c\<lparr>written_bytes := 0, sink := ToFile, out_file := Some out, c_args := take k (c_args c)\<rparr>"
  have r: "redirect e c = (case resolve_path (c_args c ! (k + 1)) (c_cwd c) of
      Inl z \<Rightarrow> (Inl z, c\<lparr>written_bytes := 0, sink := ToFile\<rparr>) | Inr out \<Rightarrow> rest out (?c out))"
    by (simp add: redirect_def Let_def rest_def k_def b_def split: sum.split)
  have "c_args d = c_args c \<or> c_args d = take k (c_args c)"
  proof (cases "HoneyPotCommand_init e c = redirect e c")
    case True
    then obtain out where "rest out (?c out) = (Inr (), d)" using init r by (auto split: sum.splits)
    then show ?thesis using keepsD [OF rest, of "?c out" out] by (simp add: same_args_def)
  next
    case False
    then have "HoneyPotCommand_init e c = (Inr (), c) \<or> (\<exists>x. HoneyPotCommand_init e c = errorWrite x c)"
      by (auto simp: HoneyPotCommand_init_def)
    then have "d = c \<or> (\<exists>x. d = snd (errorWrite x c))" using init by (metis Pair_inject snd_conv)
    then show ?thesis using keepsD [OF same_args_output, of c] by (auto simp: same_args_def)
  qed
  with a k show ?thesis by auto
qed

lemma ends_run: "ends (head_run e args inp)" "ends (tail_run e args inp)"
  unfolding head_run_def tail_run_def head_get_file_contents_def
  by (intro ending keeps_intros keeps_shell)+

lemma ends_readers:
  assumes "k \<in> {Head, Tail}" and "c_args c = a # as" and "a \<noteq> ''>''"
  shows "case command_start e k c of (Inl x, d) \<Rightarrow> True | (Inr u, d) \<Rightarrow> exits c < exits d"
proof -
  have "command_start e k c = head_run e (c_args c) (input_data c) c \<or>
      command_start e k c = tail_run e (c_args c) (input_data c) c"
    using assms by (auto simp: command_start_def head_start_def tail_start_def)
  then show ?thesis
    by (elim disjE) (use ends_run [of e "c_args c" "input_data c"] in \<open>simp_all add: ends_def\<close>)
qed

section \<open>Properties\<close>

lemma commands_keep_store:
  "let c = fold shell_step lines (session_start ns k home) in
     fs_inv (c_fs c) \<and> list_all normal_name (path_pieces (c_cwd c)) \<and> c_cwd c = abs_path (path_pieces (c_cwd c))"
  using shell.inv_reachable [of lines ns k home] by (simp add: cmd_inv_def normal_path_def Let_def)


end
