(* ===== verification/FsReading.thy ===== *)
theory FsReading
  imports FsCommands HoneyFSFacts
begin

text \<open>
  \<open>head\<close> and \<open>tail\<close> against the programs they imitate: what they send on, for every number of lines.
  The lemmas say what a command prints from what its parts print.
\<close>

section \<open>What is printed into a pipe\<close>

definition shown :: "bool \<Rightarrow> pyobj list \<Rightarrow> string list \<Rightarrow> cmd \<Rightarrow> cmd" where
  "shown b v xs c = c\<lparr>codec_base64 := b, temp_buff := v, sent := sent c @ map OutPiece xs\<rparr>"

definition prints :: "string list \<Rightarrow> unit cmd_py \<Rightarrow> bool" where
  "prints xs m \<longleftrightarrow> (\<forall>c. sink c = ToPipe \<longrightarrow> (\<exists>b v. m c = (Inr (), shown b v xs c)))"

named_theorems printing \<open>what a command prints, part by part\<close>

lemma shown_twice [simp]: "shown b v ys (shown b' v' xs c) = shown b v (xs @ ys) c" "sink (shown b v xs c) = sink c"
  by (simp_all add: shown_def)

lemma prints_write [printing]: "prints [x] (cmd_write x)" "prints [x] (writeBytes x)"
proof -
  have "cmd_write x c = (Inr (), shown (codec_base64 c) (temp_buff c @ [PyText x]) [x] c)"
    "writeBytes x c = (Inr (), shown True (temp_buff c @ [PyBytes x]) [x] c)" if "sink c = ToPipe" for c
    using that by (simp_all add: cmd_write_def writeBytes_def buffer_def writefn_def shown_def)
  then show "prints [x] (cmd_write x)" "prints [x] (writeBytes x)" by (auto simp: prints_def)
qed

lemma prints_return [printing]: "prints [] (py_return ())"
proof -
  have "shown (codec_base64 c) (temp_buff c) [] c = c" for c by (simp add: shown_def)
  then show ?thesis by (auto simp: prints_def intro: sym)
qed

lemma prints_bind [printing]:
  assumes m: "prints xs m" and k: "\<And>u. prints ys (k u)"
  shows "prints (xs @ ys) (py_bind m k)"
  unfolding prints_def
proof (intro allI impI)
  fix c :: cmd assume c: "sink c = ToPipe"
  with m obtain b v where m: "m c = (Inr (), shown b v xs c)" unfolding prints_def by blast
  moreover obtain b' v' where "k () (shown b v xs c) = (Inr (), shown b' v' ys (shown b v xs c))"
  proof -
    from k have "\<forall>d. sink d = ToPipe \<longrightarrow> (\<exists>b v. k () d = (Inr (), shown b v ys d))" unfolding prints_def by blast
    with c have "\<exists>b' v'. k () (shown b v xs c) = (Inr (), shown b' v' ys (shown b v xs c))"
      by (metis shown_twice(2))
    with that show thesis by blast
  qed
  ultimately show "\<exists>b v. py_bind m k c = (Inr (), shown b v (xs @ ys) c)" by auto
qed

lemma prints_if [printing]: "prints xs a \<Longrightarrow> prints ys b \<Longrightarrow> prints (if p then xs else ys) (if p then a else b)"
  by simp

lemma prints_each:
  "(\<And>x. x \<in> set xs \<Longrightarrow> prints (g x) (f x)) \<Longrightarrow> prints (concat (map g xs)) (each f xs)"
proof (induction xs)
  case Nil
  show ?case by (simp only: each.simps list.map concat.simps prints_return)
next
  case (Cons x xs)
  then have "prints (g x) (f x)" "prints (concat (map g xs)) (each f xs)" by simp_all
  then have "prints (g x @ concat (map g xs)) (py_bind (f x) (\<lambda>_. each f xs))" by (rule prints_bind)
  then show ?case by (simp only: each.simps list.map concat.simps)
qed

section \<open>\<open>head\<close>\<close>

definition unlines :: "string list \<Rightarrow> string" where
  "unlines ls = concat (map (\<lambda>l. l @ nl) ls)"

lemma prints_head: "prints (map (\<lambda>l. l @ nl) (take n (split_str nl text))) (head_application (int n) text)"
proof -
  have "prints (concat (map (\<lambda>(i, l). if int i < int n then [l @ nl] else []) (enumerate 0 (split_str nl text))))
      (head_application (int n) text)"
    unfolding head_application_def by (rule prints_each) (auto intro: printing)
  moreover have "concat (map (\<lambda>(i, l). if int i < int n then [l @ nl] else []) (enumerate k ls)) =
      map (\<lambda>l. l @ nl) (take (n - k) ls)" for k ls
    by (induction ls arbitrary: k) (auto simp: take_Cons' Suc_diff_Suc)
  ultimately show ?thesis by simp
qed

lemma lines_split: "\<forall>l \<in> set ls. CHR 0x0A \<notin> set l \<Longrightarrow> split_str nl (unlines ls) = ls @ [[]]"
proof (induction ls)
  case (Cons l ls)
  then have "split_str nl (l @ nl @ unlines ls) = l # split_str nl (unlines ls)"
    by (intro split_str_append) (simp_all add: nl_def)
  with Cons show ?case by (simp add: unlines_def)
qed (simp add: unlines_def)

lemma line_options: "getopt [''-n'', str_nat n] ''n:'' = Inr ([(''-n'', str_nat n)], [])"
  by (simp add: getopt_def starts_with_def do_shorts.simps)


section \<open>\<open>tail\<close>\<close>

lemma join_pieces:
  "xs \<noteq> [] \<Longrightarrow> n + 1 = k + length xs \<Longrightarrow>
     concat (concat (map (\<lambda>(i, x). x # (if i < n then [nl] else [])) (enumerate k xs))) = join nl xs"
proof (induction xs arbitrary: k)
  case (Cons x xs)
  show ?case
  proof (cases "xs = []")
    case False
    with Cons have "concat (concat (map (\<lambda>(i, x). x # (if i < n then [nl] else [])) (enumerate (Suc k) xs))) = join nl xs"
      and "k < n" by (simp_all del: concat_eq_Nil_conv)
    with False show ?thesis by (simp add: join_Cons)
  qed (use Cons in simp)
qed simp

lemma enumerate_map: "enumerate k (map f xs) = map (\<lambda>(i, x). (i, f x)) (enumerate k xs)"
  by (induction xs arbitrary: k) auto

lemma prints_tail:
  assumes m: "m = tail_lines n (length ls)" "0 \<le> m" and ls: "ls = split_str nl text"
    and ok: "\<And>j. j \<in> set js \<Longrightarrow> py_index ls j = Inr (f j)" and js: "js = [int (length ls) - m - 1..int (length ls) - 1]"
  shows "\<exists>out. concat out = join nl (map f js) \<and>
    (\<forall>c. sink c = ToPipe \<longrightarrow> (\<exists>b v. tail_application n text c = (Inr m, shown b v out c)))"
proof -
  define g where "g = (\<lambda>(i, x). x # (if int i < m then [nl] else []))"
  define part where "part = (\<lambda>(i, j). py_bind (py_lift (py_index ls j)) (\<lambda>line.
    py_bind (writeBytes line) (\<lambda>_. if int i < m then cmd_write nl else py_return ())))"
  have "prints (g (i, f j)) (part (i, j))" if "j \<in> set js" for i j
  proof -
    have "prints ([f j] @ (if int i < m then [nl] else []))
        (py_bind (writeBytes (f j)) (\<lambda>_. if int i < m then cmd_write nl else py_return ()))"
      by (intro printing)
    moreover have "part (i, j) = py_bind (writeBytes (f j)) (\<lambda>_. if int i < m then cmd_write nl else py_return ())"
      using ok [OF that] by (simp add: part_def py_bind_def fun_eq_iff)
    ultimately show ?thesis by (simp only: g_def case_prod_conv append_Cons append_Nil)
  qed
  then have p: "prints (concat (map (\<lambda>(i, j). g (i, f j)) (enumerate 0 js))) (each part (enumerate 0 js))"
    by (intro prints_each) (auto dest!: in_set_enumerate_eq [THEN iffD1] dest: nth_mem)
  have "length js = nat (m + 1)" by (simp add: js)
  with m(2) have "js \<noteq> []" "nat m + 1 = 0 + length js" by auto
  then have "concat (concat (map g (enumerate 0 (map f js)))) = join nl (map f js)"
    using join_pieces [of "map f js" "nat m" 0] by (simp add: g_def zless_nat_eq_int_zless)
  then have "concat (concat (map (\<lambda>(i, j). g (i, f j)) (enumerate 0 js))) = join nl (map f js)"
    by (simp add: enumerate_map split_def comp_def)
  moreover have "tail_application n text = py_bind (each part (enumerate 0 js)) (\<lambda>_. py_return m)"
    unfolding tail_application_def Let_def part_def js m(1) ls by simp
  ultimately show ?thesis using p by (fastforce simp: prints_def)
qed


text \<open>Of a text that ends with a newline, all the ways \<open>n\<close> can compare to the number of its pieces.\<close>

lemma indices: "map (\<lambda>j. ls ! nat j) [int k..int (length ls) - 1] = drop k ls"
proof (rule nth_equalityI)
  show "length (map (\<lambda>j. ls ! nat j) [int k..int (length ls) - 1]) = length (drop k ls)" by simp
qed (auto simp: nat_add_distrib)

lemma py_index_nat: "0 \<le> j \<Longrightarrow> j < int (length ls) \<Longrightarrow> py_index ls j = Inr (ls ! nat j)"
  by (simp add: py_index_def)

lemma tail_of_lines:
  assumes ls: "\<forall>l \<in> set ls. CHR 0x0A \<notin> set l" and c: "sink c = ToPipe"
  shows "\<exists>m b v out. tail_application (int n) (unlines ls) c = (Inr m, shown b v out c) \<and>
    concat out = (if n = length ls + 1 then nl else []) @ unlines (drop (length ls - n) ls)"
proof -
  let ?ls = "ls @ [[]]"
  have split: "?ls = split_str nl (unlines ls)" using ls by (rule lines_split [symmetric])
  have un: "join nl (xs @ [[]]) = unlines xs" for xs
    by (induction xs) (simp_all add: unlines_def join_Cons)
  show ?thesis
  proof (cases "n = length ls + 1")
    case True
    have l: "int (length ?ls) - int n - 1 = - 1" using True by simp
    have js: "[- 1..int (length ?ls) - 1] = - 1 # [int 0..int (length ?ls) - 1]" by (simp add: upto_rec1)
    define f where "f = (\<lambda>j. if j < 0 then [] else ?ls ! nat j)"
    have f: "py_index ?ls j = Inr (f j)" if "j \<in> set [- 1..int (length ?ls) - 1]" for j
      using that by (cases "j = - 1") (auto simp: py_index_def f_def nth_append)
    have f0: "map f [int 0..int (length ?ls) - 1] = ?ls"
    proof -
      have "map f [int 0..int (length ?ls) - 1] = map (\<lambda>j. ?ls ! nat j) [int 0..int (length ?ls) - 1]"
        by (rule map_cong) (simp_all add: f_def)
      then show ?thesis using indices [of ?ls 0] by (simp only: drop0)
    qed
    have "map f [- 1..int (length ?ls) - 1] = [] # ?ls"
      unfolding js list.map f0 by (simp add: f_def)
    then have "join nl (map f [- 1..int (length ?ls) - 1]) = nl @ unlines ls"
      by (simp add: join_Cons un)
    moreover have "int n = tail_lines (int n) (length ?ls)" using True by (simp add: tail_lines_def)
    ultimately show ?thesis
      using prints_tail [where m = "int n", OF _ _ split f] c True by (fastforce simp: l)
  next
    case False
    define k where "k = length ls - n"
    define m where "m = tail_lines (int n) (length ?ls)"
    have m: "0 \<le> m" "int (length ?ls) - m - 1 = int k"
      using False by (auto simp: m_def k_def tail_lines_def)
    have f: "py_index ?ls j = Inr (?ls ! nat j)" if "j \<in> set [int k..int (length ?ls) - 1]" for j
      using that by (intro py_index_nat) auto
    have "join nl (map (\<lambda>j. ?ls ! nat j) [int k..int (length ?ls) - 1]) = unlines (drop k ls)"
      unfolding indices by (simp add: un k_def)
    then show ?thesis
      using prints_tail [OF m_def m(1) split f] c False m(2) by (fastforce simp: k_def)
  qed
qed


section \<open>The two commands on a pipe\<close>

lemma get_output_out: "\<exists>o' b. get_output c = (Inr o', c\<lparr>codec_base64 := b\<rparr>)"
proof -
  have "c\<lparr>codec_base64 := codec_base64 c\<rparr> = c" by simp
  then show ?thesis
    by (auto simp: get_output_def split: list.split pyobj.split intro: exI [of _ "codec_base64 c"])
qed


text \<open>What a command leaves of the session that asked for it.\<close>

definition printed :: "string \<Rightarrow> cmd \<Rightarrow> cmd \<Rightarrow> bool" where
  "printed text c d \<longleftrightarrow> (\<exists>out. sent_out d = sent_out c @ out \<and> concat out = text) \<and> sent_err d = sent_err c \<and>
     c_fs d = c_fs c \<and> c_cwd d = c_cwd c \<and> host_files d = host_files c \<and> exits d = exits c + 1"

lemma run_not_redirected:
  "run_command e k [''-n'', str_nat n] inp c = command_start e k (fresh_command [''-n'', str_nat n] inp c)"
proof -
  have "str_nat n \<noteq> ''>''" "str_nat n \<noteq> ''>>''" using str_nat_digits [of n] by auto
  then have "HoneyPotCommand_init e (fresh_command [''-n'', str_nat n] inp c) =
      (Inr (), fresh_command [''-n'', str_nat n] inp c)"
    by (auto simp: HoneyPotCommand_init_def fresh_command_def)
  then show ?thesis by (simp add: run_command_def)
qed

lemma line_count_str_nat: "line_count name [(''-n'', str_nat n)] m c = (Inr (int n), c)"
proof -
  have "str_nat n \<noteq> []" by (subst str_nat.simps) simp
  then show ?thesis by (simp add: nat_of_digits_str_nat)
qed

lemma exits_printed:
  assumes "concat out = text" and "f = fresh_command args inp c"
  shows "printed text c (snd (cmd_exit (shown b v out f)))" "printed text c (snd (logged_exit realm (shown b v out f)))"
proof -
  obtain o' k where "get_output (shown b v out f) = (Inr o', (shown b v out f)\<lparr>codec_base64 := k\<rparr>)"
    using get_output_out by blast
  with assms show "printed text c (snd (cmd_exit (shown b v out f)))"
    "printed text c (snd (logged_exit realm (shown b v out f)))"
    by (auto simp: printed_def sent_out_def sent_err_def cmd_exit_def logged_exit_def shown_def fresh_command_def split: prod.split)
qed

lemma head_on_pipe:
  assumes "text \<noteq> []"
  shows "printed (unlines (take n (split_str nl text))) c
    (snd (run_command e Head [''-n'', str_nat n] (Some text) c))"
proof -
  define f where "f = fresh_command [''-n'', str_nat n] (Some text) c"
  have f: "sink f = ToPipe" "c_args f = [''-n'', str_nat n]" "input_data f = Some text"
    by (simp_all add: f_def fresh_command_def)
  obtain b v where "head_application (int n) text f =
      (Inr (), shown b v (map (\<lambda>l. l @ nl) (take n (split_str nl text))) f)"
    using prints_head f(1) unfolding prints_def by blast
  moreover from assms obtain x xs where "text = x # xs" by (cases "text") auto
  ultimately have "run_command e Head [''-n'', str_nat n] (Some text) c =
      logged_exit ''/bin/head'' (shown b v (map (\<lambda>l. l @ nl) (take n (split_str nl text))) f)"
    unfolding run_not_redirected f_def [symmetric] command_start_def fs_command.case head_start_def head_run_def
    using f by (simp add: line_options line_count_str_nat del: line_count.simps)
  then show ?thesis using exits_printed(2) [OF _ f_def] by (simp add: unlines_def)
qed

lemma tail_on_pipe:
  assumes ls: "\<forall>l \<in> set ls. CHR 0x0A \<notin> set l" "ls \<noteq> []"
  shows "printed ((if n = length ls + 1 then nl else []) @ unlines (drop (length ls - n) ls)) c
    (snd (run_command e Tail [''-n'', str_nat n] (Some (unlines ls)) c))"
proof -
  define f where "f = fresh_command [''-n'', str_nat n] (Some (unlines ls)) c"
  have f: "sink f = ToPipe" "c_args f = [''-n'', str_nat n]" "input_data f = Some (unlines ls)"
    by (simp_all add: f_def fresh_command_def)
  obtain m b v out where m: "tail_application (int n) (unlines ls) f = (Inr m, shown b v out f)"
    "concat out = (if n = length ls + 1 then nl else []) @ unlines (drop (length ls - n) ls)"
    using tail_of_lines [OF ls(1) f(1)] by blast
  moreover from ls obtain x xs where "unlines ls = x # xs" by (cases "unlines ls") (auto simp: unlines_def nl_def)
  ultimately have "run_command e Tail [''-n'', str_nat n] (Some (unlines ls)) c = cmd_exit (shown b v out f)"
    unfolding run_not_redirected f_def [symmetric] command_start_def fs_command.case tail_start_def tail_run_def
    using f by (simp add: line_options line_count_str_nat del: line_count.simps)
  then show ?thesis using exits_printed(1) [OF m(2) f_def] by simp
qed


section \<open>Properties\<close>

text \<open>Fed with lines, \<open>head -n\<close> and \<open>tail -n\<close> send on the first and the last \<open>n\<close> of them, nothing
  to the error stream, and change neither files nor directory; but where there are fewer lines than asked
  for, \<open>head\<close> adds an empty line after them, and where there is exactly one fewer, \<open>tail\<close> puts one before them.\<close>

theorem head_and_tail_lines:
  assumes "\<forall>l \<in> set ls. CHR 0x0A \<notin> set l" and "ls \<noteq> []"
  shows "printed (unlines (take n ls) @ (if length ls < n then nl else [])) c
      (snd (run_command e Head [''-n'', str_nat n] (Some (unlines ls)) c)) \<and>
    printed ((if n = length ls + 1 then nl else []) @ unlines (drop (length ls - n) ls)) c
      (snd (run_command e Tail [''-n'', str_nat n] (Some (unlines ls)) c))"
proof
  have "unlines ls \<noteq> []" using assms(2) by (cases ls) (simp_all add: unlines_def nl_def)
  moreover have "unlines (take n (ls @ [[]])) = unlines (take n ls) @ (if length ls < n then nl else [])"
    by (cases "n - length ls") (auto simp: unlines_def)
  ultimately show "printed (unlines (take n ls) @ (if length ls < n then nl else [])) c
      (snd (run_command e Head [''-n'', str_nat n] (Some (unlines ls)) c))"
    using head_on_pipe [of "unlines ls" n c e] lines_split [OF assms(1)] by simp
  show "printed ((if n = length ls + 1 then nl else []) @ unlines (drop (length ls - n) ls)) c
      (snd (run_command e Tail [''-n'', str_nat n] (Some (unlines ls)) c))"
    using tail_on_pipe [OF assms, of n c e] .
qed

definition ex_session :: cmd where
  "ex_session = \<lparr>c_fs = ex_fs, c_cwd = ''/tmp'', c_home = ''/root'', host_files = Map.empty, redir_files = {},
     c_args = [], input_data = None, sink = ToPipe, out_file = None, safe_outfile = None, written_bytes = 0,
     temp_buff = [], codec_base64 = False, sent = [], cmd_logged = [], exits = 0\<rparr>"

definition ex_env :: cmd_env where
  "ex_env = \<lparr>clock = 1700000000, tmp_fname = (\<lambda>out. ''redir''), is_real = (\<lambda>f. False), read_real = (\<lambda>f. Inl (OSError 2)),
     arch_file = ''arch'', re_match = (\<lambda>pattern text. Inr False)\<rparr>"

theorem head_and_tail_lines_witness:
  "printed (''a'' @ nl) ex_session (snd (run_command ex_env Head [''-n'', str_nat 1] (Some (unlines [''a'', ''b''])) ex_session)) \<and>
   printed (''b'' @ nl) ex_session (snd (run_command ex_env Tail [''-n'', str_nat 1] (Some (unlines [''a'', ''b''])) ex_session))"
proof -
  have "\<forall>l \<in> set [''a'', ''b'']. CHR 0x0A \<notin> set l" "[''a'', ''b''] \<noteq> []" by simp_all
  from head_and_tail_lines [OF this, of 1 ex_session ex_env] show ?thesis by (simp add: unlines_def)
qed

end
