(* ===== verification/FsErrors.thy ===== *)
theory FsErrors
  imports FsCommandsProps FsReading
begin

text \<open>
  What the file commands do when they are called in a way they do not expect, and small runs that show
  where they part from the programs they imitate.
\<close>

section \<open>Wrong options\<close>

lemma short_has_no_arg: "c \<notin> set so \<Longrightarrow> short_has_arg [c] so = Inl [c]"
  by (induction so) auto

lemma gnu_getopt_wrong:
  assumes "\<not> lead c" and "c \<notin> set so" and "c \<noteq> CHR ''-''"
  shows "gnu_getopt ((CHR ''-'' # c # w) # as) so long = Inl [c]"
  using assms by (simp add: gnu_getopt_def starts_with_def do_shorts.simps short_has_no_arg Let_def)

text \<open>Output that only goes to the error stream.\<close>

definition complains :: "unit cmd_py \<Rightarrow> bool" where
  "complains m \<longleftrightarrow> (\<forall>c. \<exists>d. m c = (Inr (), d) \<and> exits d = exits c \<and> c_fs d = c_fs c \<and> sent_out d = sent_out c)"

lemma complains_errorWrite: "complains (errorWrite x)"
  by (auto simp: complains_def errorWrite_def buffer_def sent_out_def)

lemma complainsE:
  assumes "complains m"
  obtains d where "m c = (Inr (), d)" "exits d = exits c" "c_fs d = c_fs c" "sent_out d = sent_out c"
  using assms unfolding complains_def by blast

lemma logged_exit_once:
  "\<exists>d. logged_exit p c = (Inr (), d) \<and> exits d = exits c + 1 \<and> c_fs d = c_fs c \<and> sent_out d = sent_out c"
proof -
  obtain o' k where "get_output c = (Inr o', c\<lparr>codec_base64 := k\<rparr>)" using get_output_out by blast
  then show ?thesis by (auto simp: logged_exit_def cmd_exit_def sent_out_def split: prod.split option.split)
qed

lemma complains_then_exit:
  assumes "complains m"
  shows "\<exists>d. py_bind m (\<lambda>_. logged_exit p) c = (Inr (), d) \<and> exits d = exits c + 1 \<and> c_fs d = c_fs c \<and> sent_out d = sent_out c"
proof -
  obtain d where "m c = (Inr (), d)" "exits d = exits c" "c_fs d = c_fs c" "sent_out d = sent_out c"
    by (rule complainsE [OF assms])
  with logged_exit_once [of p d] show ?thesis by simp
qed

lemma run_plain:
  assumes "''>'' \<notin> set args" and "''>>'' \<notin> set args"
  shows "run_command e k args inp c = command_start e k (fresh_command args inp c)"
  using assms by (simp add: run_command_def HoneyPotCommand_init_def) (simp add: fresh_command_def)

text \<open>Called with a letter that is no option of theirs, \<open>rm\<close>, \<open>mv\<close> and \<open>cp\<close> change no file and print
  nothing; \<open>cp\<close> ends once, \<open>rm\<close> ends twice, and \<open>mv\<close> raises after it has ended.\<close>

theorem wrong_option_ends:
  assumes "\<not> lead o'" and "o' \<notin> set (''h'' @ CP_OPTIONS)" and "''>'' \<notin> set as" and "''>>'' \<notin> set as"
  shows "list_all (\<lambda>(k, r, n). case run_command e k ((CHR ''-'' # o' # w) # as) inp c of (r', d) \<Rightarrow>
      r' = r \<and> exits d = exits c + n \<and> c_fs d = c_fs c \<and> sent_out d = sent_out c)
    [(Cp, Inr (), 1), (Rm, Inr (), 2), (Mv, Inl (UnboundLocalError ''args''), 1)]"
proof -
  define args where "args = (CHR ''-'' # o' # w) # as"
  define f where "f = fresh_command args inp c"
  have f: "exits f = exits c" "c_fs f = c_fs c" "sent_out f = sent_out c" "c_args f = args" "args \<noteq> []"
    by (simp_all add: f_def fresh_command_def args_def sent_out_def)
  have run: "run_command e k args inp c = command_start e k f" for k
    using assms(3,4) unfolding f_def by (intro run_plain) (simp_all add: args_def)
  have o: "o' \<notin> set so" if "set so \<subseteq> set (''h'' @ CP_OPTIONS)" for so using assms(2) that by blast
  have n: "o' \<noteq> CHR ''-''" using assms(2) by (auto simp: CP_OPTIONS_def)
  note g = gnu_getopt_wrong [OF assms(1) _ n, of _ w as, folded args_def]
  have "set CP_OPTIONS \<subseteq> set (''h'' @ CP_OPTIONS)" "set ''rTfvh'' \<subseteq> set (''h'' @ CP_OPTIONS)"
    "set ''-bfiStTuv'' \<subseteq> set (''h'' @ CP_OPTIONS)" by (auto simp: CP_OPTIONS_def)
  note gs = this [THEN o, THEN g]
  have cp: "command_start e Cp f = py_bind (errorWrite (''Unrecognized option'' @ nl)) (\<lambda>_. logged_exit ''/bin/cp'') f"
    using f by (simp add: command_start_def cmd_start_def cp_call_def gs(1))
  have rm: "command_start e Rm f = py_bind (py_bind (errorWrite (''rm: invalid option -- '' @ [CHR 0x27] @ [o'] @ [CHR 0x27] @ nl))
       (\<lambda>_. py_bind rm_paramError (\<lambda>_. logged_exit ''/bin/rm''))) (\<lambda>_. logged_exit ''/bin/rm'') f"
    using f by (simp add: command_start_def cmd_start_def rm_call_def gs(2))
  have mv: "command_start e Mv f = py_bind (py_bind (errorWrite (''Unrecognized option'' @ nl)) (\<lambda>_. logged_exit ''/bin/mv''))
       (\<lambda>_. py_raise (UnboundLocalError ''args'')) f"
    using f by (simp add: command_start_def cmd_start_def mv_call_def gs(3) split: sum.split prod.split)
  obtain d1 where d1: "command_start e Cp f = (Inr (), d1)" "exits d1 = exits f + 1" "c_fs d1 = c_fs f" "sent_out d1 = sent_out f"
    unfolding cp using complains_then_exit [OF complains_errorWrite] by blast
  obtain d2 where d2: "errorWrite (''rm: invalid option -- '' @ [CHR 0x27] @ [o'] @ [CHR 0x27] @ nl) f = (Inr (), d2)"
    "exits d2 = exits f" "c_fs d2 = c_fs f" "sent_out d2 = sent_out f"
    by (rule complainsE [OF complains_errorWrite])
  have "complains rm_paramError" unfolding rm_paramError_def by (rule complains_errorWrite)
  from complains_then_exit [OF this, of "''/bin/rm''" d2] obtain d3
    where d3: "py_bind rm_paramError (\<lambda>_. logged_exit ''/bin/rm'') d2 = (Inr (), d3)"
    "exits d3 = exits d2 + 1" "c_fs d3 = c_fs d2" "sent_out d3 = sent_out d2" by blast
  obtain d5 where d5: "logged_exit ''/bin/rm'' d3 = (Inr (), d5)" "exits d5 = exits d3 + 1" "c_fs d5 = c_fs d3"
    "sent_out d5 = sent_out d3"
    using logged_exit_once by blast
  have "command_start e Rm f = (Inr (), d5)"
    unfolding rm py_bind_apply [of "errorWrite x" for x] d2(1) py_bind_apply [of "py_bind m k" for m k]
    using d3(1) d5(1) by simp
  moreover obtain d4 where "py_bind (errorWrite (''Unrecognized option'' @ nl)) (\<lambda>_. logged_exit ''/bin/mv'') f = (Inr (), d4)"
    "exits d4 = exits f + 1" "c_fs d4 = c_fs f" "sent_out d4 = sent_out f"
    using complains_then_exit [OF complains_errorWrite] by blast
  moreover from this have "command_start e Mv f = (Inl (UnboundLocalError ''args''), d4)"
    unfolding mv by (simp only: py_bind_apply) simp
  ultimately show ?thesis
    unfolding args_def [symmetric] run using d1 d2 d3 d5 f by simp
qed

theorem wrong_option_ends_witness:
  "case run_command ex_env Rm [''-z'', ''x''] None ex_session of (r, d) \<Rightarrow> r = Inr () \<and> exits d = 2"
proof -
  have "\<not> lead (CHR ''z'')" "CHR ''z'' \<notin> set (''h'' @ CP_OPTIONS)" "''>'' \<notin> set [''x'']" "''>>'' \<notin> set [''x'']"
    by (simp_all add: lead_def CP_OPTIONS_def)
  from wrong_option_ends [OF this, where c = ex_session and e = ex_env and w = "[]" and inp = None] show ?thesis
    by (simp add: ex_session_def split: prod.splits)
qed

section \<open>Where the commands part from the originals\<close>

definition session_after :: "(fs_command \<times> string list) list \<Rightarrow> cmd" where
  "session_after ls = fold (\<lambda>(k, args) c. snd (run_command ex_env k args None c)) ls ex_session"

definition names_in :: "nat \<Rightarrow> cmd \<Rightarrow> string list" where
  "names_in d c = map (\<lambda>x. A_NAME (nodes (c_fs c) ! x)) (A_CONTENTS (nodes (c_fs c) ! d))"

text \<open>\<open>mkdir\<close> makes its first argument only.\<close>

lemma mkdir_makes_one: "names_in 1 (session_after [(fs_command.Mkdir, [''x'', ''y''])]) = [''a'', ''x'']"
  by code_simp

text \<open>\<open>mv\<close> onto a file leaves both under the one name; \<open>cp\<close> replaces the file.\<close>

lemma mv_leaves_both:
  "names_in 1 (session_after [(Touch, [''b'']), (Mv, [''/etc/passwd'', ''b''])]) = [''a'', ''b'', ''b'']"
  by code_simp

lemma cp_replaces:
  "names_in 1 (session_after [(Touch, [''b'']), (Cp, [''/etc/passwd'', ''b''])]) = [''a'', ''b'']"
  by code_simp

text \<open>A file makes \<open>rmdir\<close> stop; an empty directory goes.\<close>

lemma rmdir_stops_at_file:
  "names_in 1 (session_after [(Touch, [''b'']), (fs_command.Rmdir, [''b'', ''a''])]) = [''a'', ''b''] \<and>
   names_in 1 (session_after [(fs_command.Rmdir, [''a''])]) = []"
  by code_simp

text \<open>After \<open>cd\<close> to a name that cannot be looked up, the command raises instead of ending.\<close>

lemma cd_empty_raises: "fst (run_command ex_env Cd [[]] None ex_session) = Inl (UnboundLocalError ''inode'')"
  by code_simp

end
