(* ===== verification/HoneyShellProps.thy ===== *)
theory HoneyShellProps
  imports HoneyShell FsErrors
begin

text \<open>
  The emulated shell: a line is cut at its separators, its commands run one after the other, a pipe
  hands on what is written; and where the shell parts from that.
\<close>

section \<open>Commands that end once\<close>

text \<open>
  A command that writes \<open>out\<close>, ends once and returns: the laws of the commands under which the shell's
  behaviour is stated. \<open>w\<close> and \<open>w'\<close> are the session before and after.
\<close>

definition tame :: "shell_env \<Rightarrow> stage \<Rightarrow> cmd \<Rightarrow> string list \<Rightarrow> cmd \<Rightarrow> bool" where
  "tame e s w out w' \<longleftrightarrow> (\<exists>w1. construct e (st_class s) (st_args s) (st_input s) (w\<lparr>sent := [], exits := 0\<rparr>) = (Inr (), w1) \<and>
     sent w1 = [] \<and> start_command e (st_class s) (w1\<lparr>sent := [], exits := 0\<rparr>) = (Inr (), w') \<and>
     sent w' = map OutPiece out \<and> exits w' = 1)"

text \<open>What the next stage has as its input.\<close>

definition feed :: "string list \<Rightarrow> stage \<Rightarrow> stage" where
  "feed out s = (if out = [] then s
     else s\<lparr>st_input := Some ((case st_input s of None \<Rightarrow> [] | Some old \<Rightarrow> old) @ concat out)\<rparr>)"

definition delivered :: "stage \<Rightarrow> stage list \<Rightarrow> string list \<Rightarrow> pipe \<Rightarrow> proto \<Rightarrow> proto" where
  "delivered s rest out q p = (case rest of
       [] \<Rightarrow> if redirects q then p\<lparr>pp := Some (q\<lparr>redirected_data := redirected_data q @ concat out\<rparr>)\<rparr>
         else p\<lparr>pp := Some q, terminal := terminal p @ out\<rparr>
     | n # r \<Rightarrow> p\<lparr>pp := Some (q\<lparr>pp_stages := s # feed out n # r\<rparr>)\<rparr>)"

lemma feed_Cons: "feed (x # out) n = feed out (n\<lparr>st_input := Some (case st_input n of None \<Rightarrow> x | Some old \<Rightarrow> old @ x)\<rparr>)"
  by (simp add: feed_def split: option.split)

lemma delivered_all:
  "pp p = Some q \<Longrightarrow> pp_stages q = s # rest \<Longrightarrow> fold receive (map OutPiece out) p = delivered s rest out q p"
proof (induction out arbitrary: p q rest)
  case Nil
  then show ?case by (cases rest) (auto simp: delivered_def feed_def)
next
  case (Cons x out)
  show ?case
  proof (cases rest)
    case Nil
    with Cons show ?thesis
      by (cases "redirects q") (simp_all add: receive_def outReceived_def delivered_def)
  next
    case (Cons n r)
    with Cons.prems Cons.IH show ?thesis
      by (simp add: receive_def outReceived_def delivered_def feed_Cons)
  qed
qed

lemma delivered_fields [simp]:
  "cmdstack (delivered s rest out q p) = cmdstack p" "shells (delivered s rest out q p) = shells p"
  "world (delivered s rest out q p) = world p"
  by (simp_all add: delivered_def split: list.split)

lemma delivered_update:
  "(delivered s rest out q (p\<lparr>cmdstack := fs\<rparr>))\<lparr>cmdstack := fs'\<rparr> = delivered s rest out q (p\<lparr>cmdstack := fs'\<rparr>)"
  by (simp add: delivered_def split: list.split)

text \<open>Calling a command: what it writes is delivered, the shell below it goes on, then the next stage is called.\<close>

lemma call_tame:
  assumes t: "tame e s (world p) out w'" and q: "pp_stages q = s # rest" and st: "cmdstack p = fs @ [ShellFrame i]"
  shows "run_task (Suc (Suc k)) e (CallCommand q) p =
    py_bind (run_task k e (RunCommand i)) (\<lambda>_. outConnectionLost (run_task (Suc k) e))
      (delivered s rest out q (p\<lparr>pp := Some q, world := w'\<rparr>))"
proof -
  obtain w1 where w1: "construct e (st_class s) (st_args s) (st_input s) ((world p)\<lparr>sent := [], exits := 0\<rparr>) = (Inr (), w1)"
    "sent w1 = []" "start_command e (st_class s) (w1\<lparr>sent := [], exits := 0\<rparr>) = (Inr (), w')"
    "sent w' = map OutPiece out" "exits w' = 1"
    using t unfolding tame_def by blast
  let ?p = "p\<lparr>pp := Some q, cmdstack := fs @ [ShellFrame i, CommandFrame (st_class s)], world := w'\<rparr>"
  have d: "fold receive (map OutPiece out) ?p = delivered s rest out q ?p"
    using q by (intro delivered_all) simp_all
  have u: "(delivered s rest out q ?p)\<lparr>cmdstack := fs @ [ShellFrame i]\<rparr> = delivered s rest out q (p\<lparr>pp := Some q, world := w'\<rparr>)"
  proof -
    have "p\<lparr>pp := Some q, world := w', cmdstack := fs @ [ShellFrame i]\<rparr> = p\<lparr>pp := Some q, world := w'\<rparr>"
      using st by (cases p) simp
    moreover have "?p = p\<lparr>pp := Some q, world := w', cmdstack := fs @ [ShellFrame i, CommandFrame (st_class s)]\<rparr>" by simp
    ultimately show ?thesis by (simp only: delivered_update)
  qed
  have ne: "fs @ [ShellFrame i] \<noteq> []" by simp
  then obtain f fs' where f: "fs @ [ShellFrame i] = f # fs'" by (cases fs) auto
  then have l: "last (f # fs') = ShellFrame i" by (metis last_snoc)
  have ex: "exit_command (run_task k e) (delivered s rest out q ?p) =
      run_task k e (RunCommand i) (delivered s rest out q (p\<lparr>pp := Some q, world := w'\<rparr>))"
    using l u by (simp add: exit_command_def butlast_append f)
  show ?thesis
    using q st w1 d ex
    by (simp add: call_command_def perform_def run_start_def split: sum.split prod.split)
qed

section \<open>Lines of pipelines\<close>

text \<open>A pipeline as a list of names with their arguments, and as the tokens of a line.\<close>

fun flat :: "(string \<times> string list) list \<Rightarrow> string list" where
  "flat [] = []"
| "flat [(c, args)] = c # args"
| "flat ((c, args) # x # xs) = c # args @ ''|'' # flat (x # xs)"

definition stage_of :: "string \<times> string list \<Rightarrow> stage" where
  "stage_of x = \<lparr>st_class = Registered (fst x), st_args = snd x, st_input = None\<rparr>"

definition known :: "shell_env \<Rightarrow> string \<times> string list \<Rightarrow> bool" where
  "known e x \<longleftrightarrow> strip_space (fst x) \<noteq> [] \<and> CHR ''='' \<notin> set (fst x) \<and> is_command e (fst x) \<and>
     fst x \<noteq> ''|'' \<and> ''|'' \<notin> set (snd x)"

lemma known_name: "known e (c, args) \<Longrightarrow> c \<noteq> []"
proof -
  have "strip_space [] = []" by code_simp
  then show "known e (c, args) \<Longrightarrow> c \<noteq> []" by (auto simp: known_def)
qed

lemma pipe_segments_plain: "''|'' \<notin> set xs \<Longrightarrow> pipe_segments xs = [xs]"
  by (induction xs) auto

lemma pipe_segments_bar: "''|'' \<notin> set xs \<Longrightarrow> pipe_segments (xs @ ''|'' # ys) = xs # pipe_segments ys"
  by (induction xs) auto

lemma pipe_segments_flat:
  "xs \<noteq> [] \<Longrightarrow> list_all (known e) xs \<Longrightarrow> pipe_segments (flat xs) = map (\<lambda>(c, args). c # args) xs"
proof (induction xs rule: flat.induct)
  case (2 c args)
  then have "''|'' \<notin> set (c # args)" by (auto simp: known_def)
  then show ?case using pipe_segments_plain by (simp del: pipe_segments.simps)
next
  case (3 c args x xs)
  then have "''|'' \<notin> set (c # args)" by (auto simp: known_def)
  then have "pipe_segments ((c # args) @ ''|'' # flat (x # xs)) = (c # args) # pipe_segments (flat (x # xs))"
    by (rule pipe_segments_bar)
  with 3 show ?case by (simp del: pipe_segments.simps)
qed simp

lemma pop_commands_flat: "pop_commands (map (\<lambda>(c, args). c # args) xs) = Inr xs"
  by (induction xs) auto

lemma segments_of_rest:
  assumes "list_all (known e) ((c, args) # xs)"
  shows "\<exists>rest. flat ((c, args) # xs) = c # rest \<and> pipe_segments rest = args # map (\<lambda>(c, args). c # args) xs"
proof (cases xs)
  case Nil
  with assms pipe_segments_plain show ?thesis by (simp add: known_def)
next
  case (Cons x ys)
  with assms pipe_segments_bar [of args] pipe_segments_flat [of xs e] show ?thesis
    by (auto simp: known_def simp del: pipe_segments.simps)
qed

definition found_event :: "string \<times> string list \<Rightarrow> sh_event" where
  "found_event x = CommandFound (fst x @ '' '' @ join '' '' (snd x))"

lemma find_stages_known:
  assumes "env ''PATH'' = Some path" and "list_all (known e) xs"
  shows "find_stages e env xs acc p = (Inr (Inr (map stage_of (rev xs) @ acc)), p\<lparr>sh_log := sh_log p @ map found_event xs\<rparr>)"
  using assms(2)
proof (induction xs arbitrary: acc p)
  case (Cons x xs)
  obtain c args where x: "x = (c, args)" by fastforce
  have "getCommand e c (split_str '':'' path) = py_return (Some (Registered c))"
    using Cons.prems x by (simp add: getCommand_def known_def)
  with Cons x assms(1) show ?case
    by (simp add: shell_log_def getitem_def stage_of_def found_event_def)
qed simp

text \<open>Starting the next pipeline of a line.\<close>

definition pipe_of :: "(string \<times> string list) list \<Rightarrow> pipe" where
  "pipe_of xs = \<lparr>pp_stages = map stage_of xs, redirects = False, redirected_data = [], err_data = []\<rparr>"

lemma start_pipeline_known:
  assumes "xs \<noteq> []" and "list_all (known e) xs" and "sh_environ (shells p ! i) ''PATH'' \<noteq> None"
    and "\<not> sh_redirect (shells p ! i)"
  shows "start_pipeline go e i (flat xs) p =
    go (CallCommand (pipe_of xs)) (p\<lparr>sh_log := sh_log p @ map found_event (rev xs)\<rparr>)"
proof -
  obtain c args ys where xs: "xs = (c, args) # ys" using assms(1) by (cases xs) auto
  obtain rest where r: "flat xs = c # rest" "pipe_segments rest = args # map (\<lambda>(c, args). c # args) ys"
    using segments_of_rest assms(2) unfolding xs by blast
  obtain path where path: "sh_environ (shells p ! i) ''PATH'' = Some path" using assms(3) by auto
  have "known e (c, args)" using assms(2) xs by simp
  then have "c \<noteq> []" "split_once (CHR ''='') c = None" by (simp_all add: known_name) (simp add: known_def split_once_def)
  then obtain d ds where d: "c = d # ds" "split_once (CHR ''='') (d # ds) = None" by (cases c) auto
  have "find_stages e (sh_environ (shells p ! i)) (rev xs) [] p =
      (Inr (Inr (map stage_of xs)), p\<lparr>sh_log := sh_log p @ map found_event (rev xs)\<rparr>)"
    using find_stages_known [where env = "sh_environ (shells p ! i)" and path = path and e = e and xs = "rev xs" and p = p] path assms(2) by (simp add: list_all_iff)
  then show ?thesis
    using assms(4) r d xs by (simp add: start_pipeline_def pop_commands_flat pipe_of_def)
qed

text \<open>A pipeline that runs to its end: each stage's input is what the one before wrote.\<close>

inductive pipes :: "shell_env \<Rightarrow> stage list \<Rightarrow> cmd \<Rightarrow> string list \<Rightarrow> cmd \<Rightarrow> bool" for e where
  last: "tame e s w out w' \<Longrightarrow> pipes e [s] w out w'"
| more: "tame e s w out w1 \<Longrightarrow> pipes e (feed out n # r) w1 out' w' \<Longrightarrow> pipes e (s # n # r) w out' w'"

text \<open>
  What a line does: all but its last pipeline are cut after their first stage, whose output is then
  lost if it was meant for the next one.
\<close>

inductive runs :: "shell_env \<Rightarrow> (string \<times> string list) list list \<Rightarrow> cmd \<Rightarrow> string list \<Rightarrow> cmd \<Rightarrow> bool" for e where
  to_end: "pipes e (map stage_of xs) w out w' \<Longrightarrow> list_all (known e) xs \<Longrightarrow> runs e [xs] w out w'"
| one: "tame e (stage_of x) w out w1 \<Longrightarrow> known e x \<Longrightarrow> runs e (ys # yss) w1 out' w' \<Longrightarrow>
    runs e ([x] # ys # yss) w (out @ out') w'"
| cut: "tame e (stage_of x) w out w1 \<Longrightarrow> list_all (known e) (x # x2 # xs) \<Longrightarrow> runs e (ys # yss) w1 out' w' \<Longrightarrow>
    runs e ((x # x2 # xs) # ys # yss) w out' w'"

definition ready :: "nat \<Rightarrow> (string \<times> string list) list list \<Rightarrow> proto \<Rightarrow> bool" where
  "ready i css p \<longleftrightarrow> i < length (shells p) \<and> (\<exists>fs. cmdstack p = fs @ [ShellFrame i]) \<and>
     cmdpending (shells p ! i) = map flat css \<and> interactive (shells p ! i) \<and> \<not> sh_redirect (shells p ! i) \<and>
     sh_environ (shells p ! i) ''PATH'' \<noteq> None"

text \<open>What is left when the line is done, and the prompt is shown.\<close>

definition line_done :: "nat \<Rightarrow> proto \<Rightarrow> string list \<Rightarrow> cmd \<Rightarrow> proto \<Rightarrow> bool" where
  "line_done i p out w' p' \<longleftrightarrow> terminal p' = terminal p @ out \<and> cmdstack p' = cmdstack p \<and> world p' = w' \<and>
     cmdpending (shells p' ! i) = [] \<and> (\<exists>q. pp p' = Some q \<and> length (pp_stages q) = 1)"

lemma three_frames: "3 \<le> k \<Longrightarrow> \<exists>k'. k = Suc (Suc (Suc k'))"
  by presburger

lemma pipes_call:
  assumes "pipes e ss w out w'" and "pp_stages q = ss" and "ready i [] p" and "world p = w" and "\<not> redirects q"
    and "encode_ascii (prompt_text e w') = Inr pr" and "length ss + 2 \<le> k"
  shows "\<exists>p'. run_task k e (CallCommand q) p = (Inr (), p') \<and> line_done i p (out @ [pr]) w' p'"
  using assms
proof (induction arbitrary: q p k rule: pipes.induct)
  case (last s w out w')
  obtain fs where st: "cmdstack p = fs @ [ShellFrame i]" using last.prems by (auto simp: ready_def)
  obtain k' where k: "k = Suc (Suc (Suc k'))" using last.prems(6) three_frames [of k] by auto
  have t: "tame e s (world p) out w'" using last by simp
  show ?case
    unfolding k call_tame [OF t last.prems(1) st]
    using last.prems by (simp add: runCommand_def no_more_commands_def ready_def delivered_def showPrompt_def terminal_write_def
        outConnectionLost_def line_done_def)
next
  case (more s w out w1 n r out' w')
  obtain fs where st: "cmdstack p = fs @ [ShellFrame i]" using more.prems by (auto simp: ready_def)
  obtain k' where k: "k = Suc (Suc (Suc k'))" and k': "length (n # r) \<le> k'" using more.prems(6) three_frames [of k] by auto
  have t: "tame e s (world p) out w1" using more by simp
  let ?p = "p\<lparr>world := w1, pp := Some (q\<lparr>pp_stages := s # feed out n # r\<rparr>)\<rparr>"
  let ?q = "q\<lparr>pp_stages := feed out n # r, redirected_data := [], err_data := []\<rparr>"
  have "run_task k e (CallCommand q) p = run_task (Suc (Suc k')) e (CallCommand ?q) ?p"
    unfolding k call_tame [OF t more.prems(1) st]
    using more.prems by (simp add: runCommand_def no_more_commands_def ready_def delivered_def outConnectionLost_def)
  moreover have "\<exists>p'. run_task (Suc (Suc k')) e (CallCommand ?q) ?p = (Inr (), p') \<and> line_done i ?p (out' @ [pr]) w' p'"
    using more.prems k' by (intro more.IH) (simp_all add: ready_def)
  ultimately show ?case by (auto simp: line_done_def)
qed

text \<open>The frames a line needs, and what it does.\<close>

definition line_frames :: "(string \<times> string list) list list \<Rightarrow> nat" where
  "line_frames css = 3 * length css + length (last css)"

lemma go_on_after:
  assumes "\<exists>p'. run_task k e (RunCommand i) p1 = (Inr (), p') \<and> line_done i p1 out w' p'"
  shows "\<exists>p'. py_bind (run_task k e (RunCommand i)) (\<lambda>_. outConnectionLost go) p1 = (Inr (), p') \<and> line_done i p1 out w' p'"
proof -
  obtain p' q where p': "run_task k e (RunCommand i) p1 = (Inr (), p')" "line_done i p1 out w' p'" "pp p' = Some q" "length (pp_stages q) = 1"
    using assms by (auto simp: line_done_def)
  then obtain s where "pp_stages q = [s]" by (cases "pp_stages q") auto
  with p' show ?thesis by (simp add: outConnectionLost_def)
qed

lemma runs_line:
  assumes "runs e css w out w'" and "ready i css p" and "world p = w"
    and "encode_ascii (prompt_text e w') = Inr pr" and "line_frames css \<le> k"
  shows "\<exists>p'. run_task k e (RunCommand i) p = (Inr (), p') \<and> line_done i p (out @ [pr]) w' p'"
  using assms
proof (induction arbitrary: p k rule: runs.induct)
  case (to_end xs w out w')
  have "xs \<noteq> []" using to_end(1) by (auto elim: pipes.cases)
  obtain k' where k: "k = Suc k'" using to_end.prems by (cases k) (auto simp: line_frames_def)
  let ?p = "p\<lparr>shells := (shells p)[i := (shells p ! i)\<lparr>cmdpending := []\<rparr>], sh_log := sh_log p @ map found_event (rev xs)\<rparr>"
  have "run_task k e (RunCommand i) p = run_task k' e (CallCommand (pipe_of xs)) ?p"
    using to_end.prems(1) \<open>xs \<noteq> []\<close> to_end(2)
    by (simp add: k runCommand_def ready_def set_shell_def start_pipeline_known)
  moreover have "\<exists>p'. run_task k' e (CallCommand (pipe_of xs)) ?p = (Inr (), p') \<and> line_done i ?p (out @ [pr]) w' p'"
    using to_end.prems k by (intro pipes_call [OF to_end(1)]) (auto simp: pipe_of_def ready_def line_frames_def)
  ultimately show ?case by (auto simp: line_done_def)
next
  case (one x w out w1 ys yss out' w')
  obtain k' where k: "k = Suc (Suc (Suc k'))" using one.prems(4) three_frames [of k] by (auto simp: line_frames_def)
  let ?p = "p\<lparr>shells := (shells p)[i := (shells p ! i)\<lparr>cmdpending := map flat (ys # yss)\<rparr>], sh_log := sh_log p @ [found_event x]\<rparr>"
  let ?d = "delivered (stage_of x) [] out (pipe_of [x]) (?p\<lparr>pp := Some (pipe_of [x]), world := w1\<rparr>)"
  obtain fs where st: "cmdstack ?p = fs @ [ShellFrame i]" using one.prems(1) by (auto simp: ready_def)
  have t: "tame e (stage_of x) (world ?p) out w1" using one by simp
  have "run_task k e (RunCommand i) p = run_task (Suc (Suc k')) e (CallCommand (pipe_of [x])) ?p"
    using one.prems(1) one(2) start_pipeline_known [of "[x]"]
    by (simp add: k runCommand_def ready_def set_shell_def)
  also have "\<dots> = py_bind (run_task k' e (RunCommand i)) (\<lambda>_. outConnectionLost (run_task (Suc k') e)) ?d"
    by (rule call_tame [OF t _ st]) (simp add: pipe_of_def)
  finally have run: "run_task k e (RunCommand i) p = \<dots>" .
  have "\<exists>p'. run_task k' e (RunCommand i) ?d = (Inr (), p') \<and> line_done i ?d (out' @ [pr]) w' p'"
    using one.prems k by (intro one.IH) (auto simp: ready_def line_frames_def)
  from go_on_after [OF this] show ?case
    unfolding run by (auto simp: line_done_def delivered_def pipe_of_def)
next
  case (cut x w out w1 x2 xs ys yss out' w')
  obtain k' where k: "k = Suc (Suc (Suc k'))" using cut.prems(4) three_frames [of k] by (auto simp: line_frames_def)
  let ?xs = "x # x2 # xs"
  let ?p = "p\<lparr>shells := (shells p)[i := (shells p ! i)\<lparr>cmdpending := map flat (ys # yss)\<rparr>], sh_log := sh_log p @ map found_event (rev ?xs)\<rparr>"
  let ?d = "delivered (stage_of x) (map stage_of (x2 # xs)) out (pipe_of ?xs) (?p\<lparr>pp := Some (pipe_of ?xs), world := w1\<rparr>)"
  obtain fs where st: "cmdstack ?p = fs @ [ShellFrame i]" using cut.prems(1) by (auto simp: ready_def)
  have t: "tame e (stage_of x) (world ?p) out w1" using cut by simp
  have "run_task k e (RunCommand i) p = run_task (Suc (Suc k')) e (CallCommand (pipe_of ?xs)) ?p"
    using cut.prems(1) cut(2) start_pipeline_known [of ?xs]
    by (simp add: k runCommand_def ready_def set_shell_def del: flat.simps)
  also have "\<dots> = py_bind (run_task k' e (RunCommand i)) (\<lambda>_. outConnectionLost (run_task (Suc k') e)) ?d"
    by (rule call_tame [OF t _ st]) (simp add: pipe_of_def)
  finally have run: "run_task k e (RunCommand i) p = \<dots>" .
  have "\<exists>p'. run_task k' e (RunCommand i) ?d = (Inr (), p') \<and> line_done i ?d (out' @ [pr]) w' p'"
    using cut.prems k by (intro cut.IH) (auto simp: ready_def line_frames_def)
  from go_on_after [OF this] show ?case
    unfolding run by (auto simp: line_done_def delivered_def pipe_of_def)
qed

section \<open>What a line is cut into\<close>

text \<open>The lexer stays in its mode.\<close>

lemma skip_comment_posix [simp]: "posix (skip_comment lx) = posix lx"
  by (simp add: skip_comment_def)

lemma push_token_posix [simp]: "posix (push_token t lx) = posix lx"
  by (simp add: push_token_def)

lemma turns_posix [simp]:
  "posix (turn_state (blank_turn lx q e ch)) = posix lx" "posix (turn_state (quote_turn lx st e ch)) = posix lx"
  "posix (turn_state (escape_turn lx q st e ch)) = posix lx" "posix (turn_state (word_turn lx q st e ch)) = posix lx"
  by (simp_all add: blank_turn_def quote_turn_def escape_turn_def word_turn_def)

lemma loop_turn_posix: "posix (turn_state (loop_turn lx q e)) = posix lx"
proof -
  obtain ch lx1 where n: "next_char lx = (ch, lx1)" by fastforce
  then have "posix lx1 = posix lx" by (auto simp: next_char_def split: if_splits)
  then show ?thesis by (simp add: loop_turn_def n Let_def split: option.split)
qed

lemma read_loop_posix: "posix (snd (read_loop lx q e)) = posix lx"
proof (induction lx q e rule: read_loop.induct)
  case (1 lx q e)
  then show ?case
    using loop_turn_posix [of lx q e] by (cases "loop_turn lx q e") (simp_all add: read_loop.simps [of lx])
qed

lemma get_token_posix: "posix (snd (get_token lx)) = posix lx"
  using read_loop_posix [of lx False "'' ''"]
  by (auto simp: get_token_def read_token_def split: list.split prod.split sum.split)

text \<open>The tokens of a lexer, one by one.\<close>

lemma lex_all_token:
  assumes "fst (lex_all lx) = Inr ts" and "posix lx"
  shows "\<exists>lx'. posix lx' \<and> (case ts of [] \<Rightarrow> get_token lx = (Inr None, lx')
    | t # ts' \<Rightarrow> get_token lx = (Inr (Some t), lx') \<and> fst (lex_all lx') = Inr ts')"
proof -
  obtain r lx' where g: "get_token lx = (r, lx')" by fastforce
  have px: "posix lx'" using get_token_posix [of lx] g assms(2) by simp
  show ?thesis
    using assms(1) g px
    by (auto simp: lex_all.simps [of lx] lex_eof_def split: sum.splits if_splits prod.splits list.splits)
qed

text \<open>
  The reference: a line's tokens cut at the separators, variables replaced; the second part is the
  separator that has nothing before it, where parsing stops.
\<close>

definition separators :: "string list" where
  "separators = [''&&'', ''||'', '';'']"

definition token_text :: "(string \<rightharpoonup> string) \<Rightarrow> string \<Rightarrow> string option" where
  "token_text env t = (if t = ''$?'' then Some ''0'' else if hd t = CHR ''$'' then expand_variable env t else Some t)"

fun groups :: "(string \<rightharpoonup> string) \<Rightarrow> string list \<Rightarrow> string list \<Rightarrow> string list list \<times> string option" where
  "groups env acc [] = (if acc = [] then [] else [acc], None)"
| "groups env acc (t # ts) =
     (if t \<in> set separators then
        (if acc = [] then ([], Some t) else (acc # fst (groups env [] ts), snd (groups env [] ts)))
      else groups env (case token_text env t of None \<Rightarrow> acc | Some v \<Rightarrow> acc @ [v]) ts)"

text \<open>No word opens a parenthesis.\<close>

definition word_ok :: "string \<Rightarrow> bool" where
  "word_ok t \<longleftrightarrow> t \<noteq> [] \<and> hd t \<noteq> CHR ''('' \<and> \<not> starts_with t ''$(''"

definition outside :: "pstate \<Rightarrow> bool" where
  "outside st \<longleftrightarrow> ps_parc st = [] \<and> ps_sub st = [] \<and> \<not> held st \<and> posix (ps_lexer st)"

definition after_parse :: "nat \<Rightarrow> string list list \<times> string option \<Rightarrow> proto \<Rightarrow> proto" where
  "after_parse i g p = p\<lparr>shells := (shells p)[i := (shells p ! i)\<lparr>cmdpending := cmdpending (shells p ! i) @ fst g\<rparr>],
     terminal := terminal p @ (case snd g of None \<Rightarrow> []
       | Some t \<Rightarrow> [''-bash: syntax error near unexpected token `'' @ t @ [CHR 0x27] @ nl])\<rparr>"

lemma plain_token_word:
  assumes "word_ok t"
  shows "plain_token i t st p = (Inr (GoOn (st\<lparr>ps_tokens := (case token_text (sh_environ (shells p ! i)) t of
      None \<Rightarrow> ps_tokens st | Some v \<Rightarrow> ps_tokens st @ [v])\<rparr>)), p)"
proof -
  obtain c cs where t: "t = c # cs" using assms by (cases t) (auto simp: word_ok_def)
  have "st\<lparr>ps_tokens := ps_tokens st\<rparr> = st" by simp
  then show ?thesis
    using assms t by (auto simp: plain_token_def word_ok_def token_text_def split: option.split)
qed

lemma after_parse_push:
  "i < length (shells p) \<Longrightarrow>
     after_parse i g (p\<lparr>shells := (shells p)[i := (shells p ! i)\<lparr>cmdpending := cmdpending (shells p ! i) @ [ts]\<rparr>]\<rparr>) =
     after_parse i (ts # fst g, snd g) p"
  by (simp add: after_parse_def)

lemma parse_words:
  assumes "fst (lex_all (ps_lexer st)) = Inr ts" and "list_all word_ok ts" and "outside st" and "i < length (shells p)"
  shows "parse_loop subst i st p = (Inr (), after_parse i (groups (sh_environ (shells p ! i)) (ps_tokens st) ts) p)"
  using assms
proof (induction ts arbitrary: st p)
  case Nil
  then obtain lx where lx: "get_token (ps_lexer st) = (Inr None, lx)"
    using lex_all_token [of "ps_lexer st" "[]"] by (auto simp: outside_def)
  have same: "p\<lparr>shells := (shells p)[i := (shells p ! i)\<lparr>cmdpending := cmdpending (shells p ! i)\<rparr>], terminal := terminal p\<rparr> = p"
    by simp
  show ?case
    using Nil.prems lx same
    by (simp add: parse_loop.simps [of subst] parse_turn_def read_tok_def outside_def loop_body_def push_pending_def set_shell_def
        after_parse_def)
next
  case (Cons t ts)
  then obtain lx where lx: "get_token (ps_lexer st) = (Inr (Some t), lx)" "fst (lex_all lx) = Inr ts" "posix lx"
    using lex_all_token [of "ps_lexer st" "t # ts"] by (auto simp: outside_def)
  let ?st = "st\<lparr>ps_lexer := lx\<rparr>"
  have body: "parse_turn subst i st p = (if t \<in> set separators then separator i t ?st p else plain_token i t ?st p)"
    using Cons.prems lx by (simp add: parse_turn_def read_tok_def outside_def loop_body_def separators_def)
  show ?case
  proof (cases "t \<in> set separators")
    case False
    let ?st' = "?st\<lparr>ps_tokens := (case token_text (sh_environ (shells p ! i)) t of
      None \<Rightarrow> ps_tokens st | Some v \<Rightarrow> ps_tokens st @ [v])\<rparr>"
    have "parse_turn subst i st p = (Inr (GoOn ?st'), p)"
      using body False Cons.prems(2) plain_token_word [of t i ?st p]
      by (cases "token_text (sh_environ (shells p ! i)) t") simp_all
    moreover have "parse_loop subst i ?st' p = (Inr (), after_parse i (groups (sh_environ (shells p ! i)) (ps_tokens ?st') ts) p)"
      using Cons.prems lx by (intro Cons.IH) (simp_all add: outside_def)
    ultimately show ?thesis using False by (simp add: parse_loop.simps [of subst i st])
  next
    case sep: True
    show ?thesis
    proof (cases "ps_tokens st = []")
      case True
      then have "parse_turn subst i st p = (Inr Finished, after_parse i ([], Some t) p)"
        using body sep by (simp add: separator_def terminal_write_def after_parse_def)
      with sep True show ?thesis by (simp add: parse_loop.simps [of subst i st])
    next
      case False
      let ?p = "p\<lparr>shells := (shells p)[i := (shells p ! i)\<lparr>cmdpending := cmdpending (shells p ! i) @ [ps_tokens st]\<rparr>]\<rparr>"
      have "parse_turn subst i st p = (Inr (GoOn (?st\<lparr>ps_tokens := []\<rparr>)), ?p)"
        using body sep False by (simp add: separator_def push_pending_def set_shell_def)
      moreover have "parse_loop subst i (?st\<lparr>ps_tokens := []\<rparr>) ?p =
          (Inr (), after_parse i (groups (sh_environ (shells ?p ! i)) (ps_tokens (?st\<lparr>ps_tokens := []\<rparr>)) ts) ?p)"
        using Cons.prems lx by (intro Cons.IH) (simp_all add: outside_def)
      ultimately show ?thesis
        using sep False Cons.prems(4) by (simp add: parse_loop.simps [of subst i st] after_parse_push)
    qed
  qed
qed

end
