(* ===== verification/HoneyShellRuns.thy ===== *)
theory HoneyShellRuns
  imports HoneyShellProps
begin

text \<open>
  The emulated shell with the file commands: the commands of \<open>cowrie/commands/fs.py\<close> as what it finds
  and runs, whole sessions, and the properties of the shell.
\<close>

section \<open>The file commands in the shell\<close>

definition fs_construct :: "cmd_env \<Rightarrow> cmd_class \<Rightarrow> string list \<Rightarrow> string option \<Rightarrow> unit cmd_py" where
  "fs_construct ce cl args inp = py_bind (py_modify (fresh_command args inp)) (\<lambda>_. HoneyPotCommand_init ce)"

text \<open>A text command writes its file.\<close>

definition txtcmd :: "cmd_env \<Rightarrow> string \<Rightarrow> unit cmd_py" where
  "txtcmd ce txt = cmd_start (py_bind (py_lift (bind_res (read_real ce txt) py_decode)) cmd_write) cmd_exit"

definition fs_start :: "cmd_env \<Rightarrow> cmd_class \<Rightarrow> unit cmd_py" where
  "fs_start ce cl = (case cl of
       Registered name \<Rightarrow> (case map_of fs_commands name of Some k \<Rightarrow> command_start ce k | None \<Rightarrow> py_return ())
     | Txtcmd txt \<Rightarrow> txtcmd ce txt)"

definition exit_realm :: "fs_command \<Rightarrow> string option" where
  "exit_realm k = (case k of Grep \<Rightarrow> None | Tail \<Rightarrow> None | Head \<Rightarrow> Some ''/bin/head'' | Cd \<Rightarrow> Some ''cd'' | Rm \<Rightarrow> Some ''/bin/rm''
     | Cp \<Rightarrow> Some ''/bin/cp'' | Mv \<Rightarrow> Some ''/bin/mv'' | fs_command.Mkdir \<Rightarrow> Some ''/bin/mkdir''
     | fs_command.Rmdir \<Rightarrow> Some ''/bin/rmdir'' | Pwd \<Rightarrow> Some ''/bin/pwd'' | Touch \<Rightarrow> Some ''/bin/touch'')"

definition fs_exit :: "cmd_class \<Rightarrow> unit cmd_py" where
  "fs_exit cl = (case (case cl of Registered name \<Rightarrow> map_of fs_commands name | Txtcmd txt \<Rightarrow> None) of
       None \<Rightarrow> cmd_exit
     | Some k \<Rightarrow> (case exit_realm k of None \<Rightarrow> cmd_exit | Some realm \<Rightarrow> logged_exit realm))"

definition fs_shell :: "cmd_env \<Rightarrow> shell_env" where
  "fs_shell ce = \<lparr>prompt_option = None, user_name = ''root'', host_name = ''svr04'', user_uid = 0,
     base_environ = [''PATH'' \<mapsto> ''/bin:/usr/bin''], windowSize = None,
     is_command = (\<lambda>name. map_of fs_commands name \<noteq> None), txt_file = (\<lambda>p. None),
     construct = fs_construct ce, start_command = fs_start ce, command_exit = fs_exit, queues_input = (\<lambda>cl. False)\<rparr>"

definition ex_login :: proto where
  "ex_login = snd (interactive_session (fs_shell ex_env) (start_session ex_session))"

definition typed :: "string list \<Rightarrow> proto" where
  "typed lines = fold (\<lambda>line p. snd (lineReceived 30 (fs_shell ex_env) line p)) lines ex_login"

section \<open>Whole sessions\<close>

lemma session_pwd: "terminal (typed [''/bin/pwd'']) = [''root@svr04:/tmp# '', ''/tmp'' @ nl, ''root@svr04:/tmp# '']"
  by code_simp


text \<open>A pipeline before another command is cut: what \<open>pwd\<close> writes to \<open>head\<close> is lost.\<close>

lemma session_cut:
  "terminal (typed [''/bin/pwd | /bin/head -n 1'']) = [''root@svr04:/tmp# '', ''/tmp'' @ nl, ''root@svr04:/tmp# '']"
  "terminal (typed [''/bin/pwd | /bin/head -n 1; cd /etc'']) = [''root@svr04:/tmp# '', ''root@svr04:/etc# '']"
  by code_simp+

text \<open>\<open>head\<close> without arguments never reads the pipe and never ends.\<close>

lemma session_head_hangs:
  "cmdstack (typed [''/bin/pwd | /bin/head'']) = [ShellFrame 0, CommandFrame (Registered ''/bin/head'')]"
  by code_simp

text \<open>A wrong option of \<open>rm\<close> ends the shell with the command: the next line is not read.\<close>

lemma session_rm_loses_shell:
  "cmdstack (typed [''/bin/rm -z'']) = [] \<and>
   terminal (typed [''/bin/rm -z'', ''/bin/pwd'']) = terminal (typed [''/bin/rm -z''])"
  by code_simp

text \<open>A command in parentheses keeps the closing one, and the rest of the line is dropped.\<close>

lemma session_parentheses:
  "terminal (typed [''(/bin/pwd); cd /etc'']) =
     [''root@svr04:/tmp# '', ''-bash: /bin/pwd): command not found'' @ nl, ''root@svr04:/tmp# '']"
  by code_simp

text \<open>An empty word is a syntax error, and the commands before it are forgotten.\<close>

lemma session_empty_word:
  "terminal (typed [''cd /etc; '' @ [CHR 0x27, CHR 0x27]]) =
     [''root@svr04:/tmp# '', ''-bash: syntax error: unexpected end of file'' @ nl, ''root@svr04:/tmp# '']"
  by code_simp

text \<open>Quotes do not stop a substitution, and a command there that has a slash in its name is a syntax error.\<close>

lemma session_substitution:
  "CommandInput ''touch'' \<in> set (sh_log (typed [''/bin/pwd '' @ [CHR 0x27] @ ''$(touch z)'' @ [CHR 0x27]]))"
  "ShellException TypeError \<in> set (sh_log (typed [''/bin/pwd $(/bin/pwd)'']))"
  by code_simp+

text \<open>A pipe to nothing raises out of the shell, as does a directory whose name is not ASCII.\<close>

lemma session_raises:
  "fst (lineReceived 30 (fs_shell ex_env) ''/bin/pwd |'' ex_login) = Inl IndexError"
  "fst (lineReceived 30 (fs_shell ex_env) (''/bin/mkdir '' @ [CHR 0xC3, CHR 0xA9] @ ''; cd '' @ [CHR 0xC3, CHR 0xA9]) ex_login) =
     Inl (UserError ''UnicodeEncodeError'')"
  by code_simp+

section \<open>The session's store under the shell\<close>

definition world_rel :: "proto \<Rightarrow> proto \<Rightarrow> bool" where
  "world_rel p p' \<longleftrightarrow> (cmd_inv (world p) \<longrightarrow> cmd_inv (world p'))"

lemma world_rel_preorder: "preorder_on_states world_rel"
  by (auto simp: preorder_on_states_def reflp_def transp_def world_rel_def)

lemma keeps_world_modify: "(\<And>p. world (f p) = world p) \<Longrightarrow> keeps world_rel (py_modify f)"
  by (rule keeps_modify) (simp add: world_rel_def)

lemma keeps_on_world: "keeps_cmd m \<Longrightarrow> keeps world_rel (on_world m)"
  by (auto simp: keeps_def on_world_def world_rel_def cmd_rel_def split: prod.split)

lemma receive_world [simp]: "world (receive x p) = world p"
  by (simp add: receive_def outReceived_def errReceived_def split: piece.split option.split list.split)

lemma fold_receive_world [simp]: "world (fold receive xs p) = world p"
  by (induction xs arbitrary: p) simp_all

text \<open>What only touches the shell.\<close>

lemma keeps_world:
  "keeps world_rel (terminal_write x)" "keeps world_rel (shell_log ev)" "keeps world_rel (set_shell i f)"
  "keeps world_rel (push_pending i ts)" "keeps world_rel (showPrompt e i)" "keeps world_rel (no_more_commands e i)"
  unfolding terminal_write_def shell_log_def set_shell_def push_pending_def showPrompt_def no_more_commands_def
  by (intro keeps_intros world_rel_preorder keeps_world_modify; simp)+

lemma keeps_getCommand: "keeps world_rel (getCommand e c paths)"
proof -
  have "keeps_cmd (first_existing ps)" for ps
    by (induction ps) (simp_all only: first_existing.simps, (intro keeps_intros keeps_shell; assumption)+)
  then have "keeps_cmd (command_path c paths)"
    unfolding command_path_def by (intro keeps_intros keeps_shell)
  then show ?thesis unfolding getCommand_def by (intro keeps_intros world_rel_preorder keeps_on_world)
qed

lemma keeps_find_stages: "keeps world_rel (find_stages e env cs acc)"
proof (induction cs arbitrary: acc)
  case Nil
  show ?case by (simp only: find_stages.simps) (intro keeps_intros world_rel_preorder)
next
  case (Cons c cs)
  show ?case
    by (cases c; simp only: find_stages.simps) (intro keeps_intros world_rel_preorder keeps_getCommand keeps_world Cons.IH)
qed

lemma keeps_start_pipeline:
  assumes go: "\<And>t. keeps world_rel (go t)"
  shows "keeps world_rel (runOrPrompt go e i)" "keeps world_rel (start_pipeline go e i ts)"
proof -
  show r: "keeps world_rel (runOrPrompt go e i)"
    unfolding runOrPrompt_def by (intro keeps_intros world_rel_preorder keeps_world go)
  show "keeps world_rel (start_pipeline go e i ts)"
    unfolding start_pipeline_def
    by (intro keeps_intros keeps_shell world_rel_preorder keeps_world keeps_find_stages go r)
qed

section \<open>Commands that keep the store\<close>

text \<open>The interface of the commands towards the shell: their parts keep the invariant of the session.\<close>

locale keeping_commands =
  fixes e :: shell_env
  assumes construct_keeps: "keeps_cmd (construct e cl args inp)"
    and start_keeps: "keeps_cmd (start_command e cl)"
    and exit_keeps: "keeps_cmd (command_exit e cl)"
begin

lemma keeps_perform: "keeps_cmd m \<Longrightarrow> keeps world_rel (perform m)"
proof -
  assume m: "keeps_cmd m"
  have "world_rel p (snd (perform m p))" for p
  proof -
    obtain r w where r: "m ((world p)\<lparr>sent := [], exits := 0\<rparr>) = (r, w)" by fastforce
    with m have "cmd_rel ((world p)\<lparr>sent := [], exits := 0\<rparr>) w" by (metis keepsD snd_conv)
    with r show ?thesis by (simp add: perform_def world_rel_def cmd_rel_def cmd_inv_def)
  qed
  then show ?thesis by (simp add: keeps_def)
qed

lemma keeps_exit_times:
  assumes go: "\<And>t. keeps world_rel (go t)"
  shows "keeps world_rel (exit_times n go)"
  by (induction n) (simp_all only: exit_times.simps, (intro keeps_intros world_rel_preorder go; assumption?)+)

lemma keeps_run_start:
  assumes go: "\<And>t. keeps world_rel (go t)" and m: "keeps_cmd m"
  shows "keeps world_rel (run_start go m)"
proof -
  have "world_rel p (snd (run_start go m p))" for p
  proof -
    obtain r p1 where r: "perform m p = (r, p1)" by fastforce
    with keepsD [OF keeps_perform [OF m], of p] have "world_rel p p1" by simp
    moreover have "keeps world_rel (py_bind (exit_times (exits (world p1)) go) (\<lambda>_. py_lift r))"
      by (intro keeps_intros world_rel_preorder keeps_exit_times go)
    then have "world_rel p1 (snd (run_start go m p))" unfolding run_start_def r by (simp add: keeps_def)
    ultimately show ?thesis by (auto simp: world_rel_def)
  qed
  then show ?thesis by (simp add: keeps_def)
qed

lemma keeps_run_task: "keeps world_rel (run_task k e t)"
proof (induction k arbitrary: t)
  case (Suc k)
  have call: "keeps world_rel (call_command (run_task k e) e q)" for q
    unfolding call_command_def outConnectionLost_def
    by (intro keeps_intros keeps_shell world_rel_preorder keeps_perform keeps_run_start construct_keeps start_keeps
        keeps_world_modify Suc.IH; simp)
  have ex: "keeps world_rel (exit_command (run_task k e))"
  proof -
    have "keeps world_rel (case f of ShellFrame j \<Rightarrow> run_task k e (RunCommand j) | CommandFrame cl \<Rightarrow> py_return ())" for f
      by (cases f) (simp_all only: frame.case Suc.IH keeps_return world_rel_preorder)
    then show ?thesis
      unfolding exit_command_def by (intro keeps_intros keeps_shell world_rel_preorder keeps_world_modify; simp)
  qed
  have run: "keeps world_rel (runCommand (run_task k e) e i)" for i
    unfolding runCommand_def
    by (intro keeps_intros keeps_shell world_rel_preorder keeps_world keeps_start_pipeline Suc.IH)
  show ?case by (cases t) (simp_all only: run_task.simps call ex run)
qed (simp only: run_task.simps, intro keeps_intros world_rel_preorder)

lemma keeps_parse_loop:
  assumes sub: "\<And>s. keeps world_rel (subst s)"
  shows "keeps world_rel (parse_loop subst i st)"
proof -
  have "keeps world_rel (substitute subst parc st)" for parc st
    unfolding substitute_def by (intro keeps_intros world_rel_preorder sub)
  moreover have "keeps world_rel (inside_subshell i tok st)" "keeps world_rel (separator i t st)" "keeps world_rel (plain_token i t st)"
    for tok t st
    unfolding inside_subshell_def separator_def plain_token_def
    by (intro keeps_intros keeps_shell world_rel_preorder keeps_world)+
  ultimately have turn: "keeps world_rel (parse_turn subst i st)" for st
    unfolding parse_turn_def loop_body_def inside_substitution_def
    by (intro keeps_intros keeps_shell world_rel_preorder keeps_world) assumption+
  have "world_rel p (snd (parse_loop subst i st p))" for p
  proof (induction st arbitrary: p rule: measure_induct_rule [of parse_measure])
    case (less st)
    obtain r p1 where r: "parse_turn subst i st p = (r, p1)" by fastforce
    with keepsD [OF turn, of p st] have p1: "world_rel p p1" by simp
    show ?case
    proof (cases "\<exists>st'. r = Inr (GoOn st')")
      case True
      then obtain st' where st': "r = Inr (GoOn st')" by blast
      with r have "world_rel p1 (snd (parse_loop subst i st' p1))" by (intro less.IH parse_turn_measure) simp
      with p1 r st' show ?thesis by (auto simp: parse_loop.simps [of subst i st] world_rel_def)
    next
      case False
      with p1 r show ?thesis by (auto simp: parse_loop.simps [of subst i st] split: sum.split loop_step.split)
    qed
  qed
  then show ?thesis by (simp add: keeps_def)
qed

lemma keeps_new_shell: "keeps world_rel (new_shell e tty redir)"
  unfolding new_shell_def Let_def by (intro keeps_intros world_rel_preorder keeps_world keeps_world_modify; simp)

lemma keeps_line: "keeps world_rel (line_received k e i line)"
proof (induction k arbitrary: i line)
  case (Suc k)
  have "keeps world_rel (run_substitution (line_received k e) e s)" for s
    unfolding run_substitution_def
    by (intro keeps_intros world_rel_preorder keeps_new_shell keeps_world_modify Suc.IH; simp)
  then have "keeps world_rel (parse_loop (run_substitution (line_received k e) e) i st)" for st by (rule keeps_parse_loop)
  then show ?case
    unfolding line_received.simps syntax_error_def
    by (intro keeps_intros keeps_except pred_handler world_rel_preorder keeps_world keeps_start_pipeline keeps_run_task) assumption?
qed (simp only: line_received.simps, intro keeps_intros world_rel_preorder)

lemma keeps_frame:
  "(\<And>i. keeps R (f i)) \<Longrightarrow> (\<And>cl. keeps R (g cl)) \<Longrightarrow> keeps R (case fr of ShellFrame i \<Rightarrow> f i | CommandFrame cl \<Rightarrow> g cl)"
  by (cases fr) simp_all

lemma keeps_lineReceived: "keeps world_rel (lineReceived k e line)"
  unfolding lineReceived_def queue_line_def
  by (intro keeps_intros keeps_shell keeps_frame world_rel_preorder keeps_world keeps_line)

lemma keeps_CTRL_C: "keeps world_rel (proto_CTRL_C k e)"
  unfolding proto_CTRL_C_def handle_CTRL_C_def
  by (intro keeps_intros keeps_shell keeps_frame world_rel_preorder keeps_world keeps_run_start keeps_run_task exit_keeps)

end

text \<open>What a client can do, and the sessions of the two kinds.\<close>

datatype client_event = Typed string | PressCtrlC

definition client_step :: "nat \<Rightarrow> shell_env \<Rightarrow> client_event \<Rightarrow> proto \<Rightarrow> proto" where
  "client_step k e ev p = (case ev of Typed line \<Rightarrow> snd (lineReceived k e line p) | PressCtrlC \<Rightarrow> snd (proto_CTRL_C k e p))"

context keeping_commands
begin

lemma step_keeps: "cmd_inv (world p) \<Longrightarrow> cmd_inv (world (client_step k e ev p))"
  using keepsD [OF keeps_lineReceived, of p] keepsD [OF keeps_CTRL_C, of p]
  by (auto simp: client_step_def world_rel_def split: client_event.split)

lemma login_keeps: "cmd_inv (world p) \<Longrightarrow> cmd_inv (world (snd (interactive_session e p)))"
proof -
  have "keeps world_rel (interactive_session e)"
    unfolding interactive_session_def by (intro keeps_intros world_rel_preorder keeps_new_shell keeps_world_modify; simp)
  then show "cmd_inv (world p) \<Longrightarrow> cmd_inv (world (snd (interactive_session e p)))"
    by (auto simp: keeps_def world_rel_def)
qed

end

text \<open>The file commands fulfil the interface.\<close>

interpretation fs_cmds: keeping_commands "fs_shell ce" for ce
proof
  show "keeps_cmd (construct (fs_shell ce) cl args inp)" for cl args inp
    unfolding fs_shell_def shell_env.simps fs_construct_def
    by (intro keeps_intros keeps_shell keeps_modify_quiet) (simp add: fresh_command_def)
  show "keeps_cmd (start_command (fs_shell ce) cl)" for cl
    unfolding fs_shell_def shell_env.simps fs_start_def txtcmd_def cmd_start_def
    by (cases cl; simp only: cmd_class.case) (intro keeps_intros keeps_shell keeps_command_start)+
  show "keeps_cmd (command_exit (fs_shell ce) cl)" for cl
    unfolding fs_shell_def shell_env.simps fs_exit_def by (intro keeps_intros keeps_shell)
qed

definition login :: "shell_env \<Rightarrow> fsnode list \<Rightarrow> nat \<Rightarrow> string list \<Rightarrow> proto" where
  "login e ns k home = snd (interactive_session e (start_session (session_start ns k home)))"

interpretation client: transition_system "login (fs_shell ce) ns f home" "client_step k (fs_shell ce)" "\<lambda>p. cmd_inv (world p)"
  for ce ns f home k
proof
  show "cmd_inv (world (login (fs_shell ce) ns f home))"
    unfolding login_def using shell.inv_start by (intro fs_cmds.login_keeps) (simp add: start_session_def)
qed (rule fs_cmds.step_keeps)

section \<open>What a command does in a session, evaluated\<close>

definition constructed :: "shell_env \<Rightarrow> stage \<Rightarrow> cmd \<Rightarrow> unit res \<times> cmd" where
  "constructed e s w = construct e (st_class s) (st_args s) (st_input s) (w\<lparr>sent := [], exits := 0\<rparr>)"

definition started :: "shell_env \<Rightarrow> stage \<Rightarrow> cmd \<Rightarrow> unit res \<times> cmd" where
  "started e s w = start_command e (st_class s) ((snd (constructed e s w))\<lparr>sent := [], exits := 0\<rparr>)"

lemma tameI:
  assumes "fst (constructed e s w) = Inr ()" and "sent (snd (constructed e s w)) = []" and "fst (started e s w) = Inr ()"
    and "sent (snd (started e s w)) = map OutPiece out" and "exits (snd (started e s w)) = 1"
  shows "tame e s w out (snd (started e s w))"
  unfolding tame_def
proof (intro exI conjI)
  show "construct e (st_class s) (st_args s) (st_input s) (w\<lparr>sent := [], exits := 0\<rparr>) = (Inr (), snd (constructed e s w))"
    using assms(1) by (simp add: constructed_def prod_eq_iff)
  show "start_command e (st_class s) (snd (constructed e s w)\<lparr>sent := [], exits := 0\<rparr>) = (Inr (), snd (started e s w))"
    using assms(3) by (simp add: started_def prod_eq_iff)
qed (use assms in simp_all)

section \<open>Properties\<close>


text \<open>C3: A line of words, separators and pipes does what the relation \<open>runs\<close> says: its tokens are cut at
  the separators with variables replaced; the commands run in order, each once, its output on the terminal
  or, in the last pipeline, as the input of the next stage; then nothing is pending, the shell is on top
  again and the prompt comes. But a pipeline with another command after it is cut after its first stage,
  and what that stage wrote is lost. \<open>line_frames\<close> nested calls are enough.\<close>

theorem shell_line:
  assumes "fst (lex_all (line_lexer line)) = Inr ts" and "list_all word_ok ts" and "ready i [] p"
    and "groups (sh_environ (shells p ! i)) [] ts = (map flat css, None)" and "runs e css (world p) out w'"
    and "encode_ascii (prompt_text e w') = Inr pr" and "line_frames css \<le> k"
  shows "case line_received (Suc k) e i line p of
      (Inl x, p') \<Rightarrow> False
    | (Inr u, p') \<Rightarrow> line_done i p (out @ [pr]) w' p'"
proof -
  let ?p = "p\<lparr>sh_log := sh_log p @ [CommandInput line]\<rparr>"
  let ?q = "after_parse i (groups (sh_environ (shells ?p ! i)) [] ts) ?p"
  have "parse_loop subst i (parse_start line) ?p = (Inr (), ?q)" for subst
    using assms(1-3) parse_words [of "parse_start line" ts i ?p subst]
    by (simp add: parse_start_def outside_def ready_def line_lexer_def Let_def shlex_init_def)
  moreover have css: "css \<noteq> []" using assms(5) by (auto elim: runs.cases)
  moreover have q: "ready i css ?q"
    using assms(3,4) by (auto simp: ready_def after_parse_def)
  then have "cmdpending (shells ?q ! i) \<noteq> []" using css by (simp add: ready_def)
  ultimately have "line_received (Suc k) e i line p = run_task k e (RunCommand i) ?q"
    by (simp add: shell_log_def py_except_def runOrPrompt_def)
  moreover have "\<exists>p'. run_task k e (RunCommand i) ?q = (Inr (), p') \<and> line_done i ?q (out @ [pr]) w' p'"
    using assms(5-7) q by (intro runs_line) (auto simp: after_parse_def)
  ultimately show ?thesis
    using assms(4) by (auto simp: line_done_def after_parse_def)
qed

theorem shell_line_witness:
  "case line_received 9 (fs_shell ex_env) 0 ''/bin/pwd | /bin/head -n 1; /bin/pwd'' ex_login of
      (Inl x, p') \<Rightarrow> False
    | (Inr u, p') \<Rightarrow> terminal p' = terminal ex_login @ [''/tmp'' @ nl, ''root@svr04:/tmp# ''] \<and> cmdstack p' = [ShellFrame 0]"
proof -
  let ?e = "fs_shell ex_env" and ?line = "''/bin/pwd | /bin/head -n 1; /bin/pwd''"
  let ?css = "[[(''/bin/pwd'', []), (''/bin/head'', [''-n'', ''1''])], [(''/bin/pwd'', [])]]"
  let ?s = "stage_of (''/bin/pwd'', [])"
  define w1 where "w1 = snd (started ?e ?s (world ex_login))"
  define w2 where "w2 = snd (started ?e ?s w1)"
  have t1: "tame ?e ?s (world ex_login) [''/tmp'' @ nl] w1" unfolding w1_def by (rule tameI; code_simp)
  have t2: "tame ?e ?s w1 [''/tmp'' @ nl] w2" unfolding w2_def w1_def by (rule tameI; code_simp)
  have r: "runs ?e ?css (world ex_login) [''/tmp'' @ nl] w2"
  proof (rule runs.cut [OF t1])
    show "list_all (known ?e) [(''/bin/pwd'', []), (''/bin/head'', [''-n'', ''1''])]" by code_simp
    have "list_all (known ?e) [(''/bin/pwd'', [])]" by code_simp
    with pipes.last [OF t2] show "runs ?e [[(''/bin/pwd'', [])]] w1 [''/tmp'' @ nl] w2" by (intro runs.to_end) simp_all
  qed
  have l: "fst (lex_all (line_lexer ?line)) = Inr [''/bin/pwd'', ''|'', ''/bin/head'', ''-n'', ''1'', '';'', ''/bin/pwd'']"
    by code_simp
  have wd: "list_all word_ok [''/bin/pwd'', ''|'', ''/bin/head'', ''-n'', ''1'', '';'', ''/bin/pwd'']" by code_simp
  have st: "cmdstack ex_login = [] @ [ShellFrame 0]" by code_simp
  have "length (shells ex_login) = 1" "cmdpending (shells ex_login ! 0) = []" "interactive (shells ex_login ! 0)"
    "\<not> sh_redirect (shells ex_login ! 0)" "sh_environ (shells ex_login ! 0) ''PATH'' = Some ''/bin:/usr/bin''" by code_simp+
  with st have rd: "ready 0 [] ex_login" unfolding ready_def by auto
  have g: "groups (sh_environ (shells ex_login ! 0)) [] [''/bin/pwd'', ''|'', ''/bin/head'', ''-n'', ''1'', '';'', ''/bin/pwd''] =
      (map flat ?css, None)" by code_simp
  have pr: "encode_ascii (prompt_text ?e w2) = Inr ''root@svr04:/tmp# ''" unfolding w2_def w1_def by code_simp
  have k: "line_frames ?css \<le> 8" by (simp add: line_frames_def)
  have nine: "Suc 8 = (9::nat)" by simp
  from shell_line [OF l wd rd g r pr k] st show ?thesis
    unfolding nine by (auto simp: line_done_def split: sum.splits prod.splits)
qed

text \<open>A command that ends twice, at the prompt of a session.\<close>

definition ends_twice :: "shell_env \<Rightarrow> stage \<Rightarrow> cmd \<Rightarrow> bool" where
  "ends_twice e s w \<longleftrightarrow> fst (constructed e s w) = Inr () \<and> fst (started e s w) = Inr () \<and> exits (snd (started e s w)) = 2"

lemma receive_keeps:
  "pp p = Some q \<Longrightarrow> length (pp_stages q) = 1 \<Longrightarrow>
     cmdstack (receive x p) = cmdstack p \<and> shells (receive x p) = shells p \<and>
     (\<exists>q'. pp (receive x p) = Some q' \<and> length (pp_stages q') = 1)"
  by (auto simp: receive_def outReceived_def errReceived_def split: piece.split list.split)

lemma fold_receive_keeps:
  "pp p = Some q \<Longrightarrow> length (pp_stages q) = 1 \<Longrightarrow>
     cmdstack (fold receive xs p) = cmdstack p \<and> shells (fold receive xs p) = shells p \<and>
     (\<exists>q'. pp (fold receive xs p) = Some q' \<and> length (pp_stages q') = 1)"
proof (induction xs arbitrary: p q)
  case (Cons x xs)
  obtain q' where q': "pp (receive x p) = Some q'" "length (pp_stages q') = 1"
    using receive_keeps [OF Cons.prems, of x] by blast
  show ?case using Cons.IH [OF q'] receive_keeps [OF Cons.prems, of x] by simp
qed simp

lemma prompt_again:
  assumes "ready i [] p" and "pp p = Some q" and "length (pp_stages q) = 1"
    and "encode_ascii (prompt_text e (world p)) = Inr pr"
  shows "run_task (Suc k) e (RunCommand i) p = (Inr (), p\<lparr>terminal := terminal p @ [pr], last_prompt := Some (pr, ''> '')\<rparr>)"
  using assms by (simp add: runCommand_def no_more_commands_def ready_def showPrompt_def terminal_write_def)

text \<open>A command that ends twice at the prompt of a session (as \<open>rm\<close> does after a wrong option) takes
  the shell with it: the prompt still comes, but every line after it is discarded, whatever it is.\<close>

theorem two_ends_lose_shell:
  assumes "ends_twice e s (world p)" and "cmdstack p = [ShellFrame i]" and "ready i [] p" and "pp_stages q = [s]"
    and "encode_ascii (prompt_text e (snd (started e s (world p)))) = Inr pr" and "py_decode line = Inr line"
  shows "case run_task (Suc (Suc (Suc k))) e (CallCommand q) p of
      (Inl x, p') \<Rightarrow> False
    | (Inr u, p') \<Rightarrow> last (terminal p') = pr \<and> cmdstack p' = [] \<and>
        lineReceived k' e line p' = (Inr (), p'\<lparr>sh_log := sh_log p' @ [Discarded line]\<rparr>)"
proof -
  let ?w1 = "snd (constructed e s (world p))" and ?w2 = "snd (started e s (world p))"
  have c: "construct e (st_class s) (st_args s) (st_input s) ((world p)\<lparr>sent := [], exits := 0\<rparr>) = (Inr (), ?w1)"
    using assms(1) by (simp add: ends_twice_def constructed_def prod_eq_iff)
  have b: "start_command e (st_class s) (?w1\<lparr>sent := [], exits := 0\<rparr>) = (Inr (), ?w2)"
    using assms(1) by (simp add: ends_twice_def started_def prod_eq_iff)
  let ?p1 = "fold receive (sent ?w1) (p\<lparr>pp := Some q, world := ?w1\<rparr>)"
  obtain q1 where p1: "cmdstack ?p1 = [ShellFrame i]" "shells ?p1 = shells p" "pp ?p1 = Some q1" "length (pp_stages q1) = 1"
    "world ?p1 = ?w1"
    using fold_receive_keeps [of "p\<lparr>pp := Some q, world := ?w1\<rparr>" q "sent ?w1"] assms(2,4) by auto
  let ?p2 = "fold receive (sent ?w2) (?p1\<lparr>cmdstack := [ShellFrame i, CommandFrame (st_class s)], world := ?w2\<rparr>)"
  obtain q2 where p2: "cmdstack ?p2 = [ShellFrame i, CommandFrame (st_class s)]" "shells ?p2 = shells p" "pp ?p2 = Some q2"
    "length (pp_stages q2) = 1" "world ?p2 = ?w2"
    using fold_receive_keeps [of "?p1\<lparr>cmdstack := [ShellFrame i, CommandFrame (st_class s)], world := ?w2\<rparr>" q1 "sent ?w2"] p1
    by auto
  let ?p3 = "?p2\<lparr>cmdstack := [ShellFrame i]\<rparr>"
  let ?p4 = "?p3\<lparr>terminal := terminal ?p3 @ [pr], last_prompt := Some (pr, ''> '')\<rparr>"
  let ?p5 = "?p4\<lparr>cmdstack := []\<rparr>"
  have "run_task (Suc k) e (RunCommand i) ?p3 = (Inr (), ?p4)"
    using assms(3,5) p2 by (intro prompt_again [of i ?p3 q2]) (auto simp: ready_def)
  then have e1: "exit_command (run_task (Suc k) e) ?p2 = (Inr (), ?p4)"
    using p2 by (simp add: exit_command_def del: run_task.simps)
  have e2: "exit_command (run_task (Suc k) e) ?p4 = (Inr (), ?p5)" by (simp add: exit_command_def)
  have ex: "exits ?w2 = Suc (Suc 0)" using assms(1) by (simp add: ends_twice_def)
  have "run_task (Suc (Suc (Suc k))) e (CallCommand q) p = outConnectionLost (run_task (Suc (Suc k)) e) ?p5"
    using assms(2,4) c b p1 p2 e1 e2 ex
    by (simp add: call_command_def perform_def run_start_def)
  also have "\<dots> = (Inr (), ?p5)"
    using p2 by (cases "pp_stages q2") (auto simp: outConnectionLost_def)
  finally show ?thesis using assms(6) by (simp add: lineReceived_def shell_log_def)
qed

theorem two_ends_lose_shell_witness:
  "case run_task 9 (fs_shell ex_env) (CallCommand (pipe_of [(''/bin/rm'', [''-z''])])) ex_login of
      (Inl x, p') \<Rightarrow> False
    | (Inr u, p') \<Rightarrow> cmdstack p' = [] \<and>
        lineReceived 9 (fs_shell ex_env) ''/bin/pwd'' p' = (Inr (), p'\<lparr>sh_log := sh_log p' @ [Discarded ''/bin/pwd'']\<rparr>)"
proof -
  let ?e = "fs_shell ex_env" and ?s = "stage_of (''/bin/rm'', [''-z''])"
  have t: "ends_twice ?e ?s (world ex_login)" by code_simp
  have st: "cmdstack ex_login = [ShellFrame 0]" by code_simp
  have "length (shells ex_login) = 1" "cmdpending (shells ex_login ! 0) = []" "interactive (shells ex_login ! 0)"
    "\<not> sh_redirect (shells ex_login ! 0)" "sh_environ (shells ex_login ! 0) ''PATH'' = Some ''/bin:/usr/bin''" by code_simp+
  with st have rd: "ready 0 [] ex_login" unfolding ready_def by auto
  have q: "pp_stages (pipe_of [(''/bin/rm'', [''-z''])]) = [?s]" by (simp add: pipe_of_def)
  have pr: "encode_ascii (prompt_text ?e (snd (started ?e ?s (world ex_login)))) = Inr ''root@svr04:/tmp# ''" by code_simp
  have d: "py_decode ''/bin/pwd'' = Inr ''/bin/pwd''" by code_simp
  have nine: "Suc (Suc (Suc 6)) = (9::nat)" by simp
  from two_ends_lose_shell [OF t st rd q pr d, where k = 6 and k' = 9] show ?thesis
    unfolding nine by (auto split: sum.splits prod.splits)
qed

end
