(* ===== verification/Redirection.thy ===== *)
theory Redirection
  imports FsReading
begin

text \<open>
  Redirected output (\<open>cowrie/shell/command.py\<close>, the constructor, \<open>write_to_file\<close> and \<open>exit\<close>): between
  the constructor and the end of a command its output is in the host's file, and nowhere else.
\<close>

section \<open>A command whose output is redirected\<close>

text \<open>\<open>r\<close> is the new node of the fake file, \<open>f\<close> the file of the host that stands behind it.\<close>

definition redirected :: "string list \<Rightarrow> string \<Rightarrow> nat \<Rightarrow> string \<Rightarrow> cmd \<Rightarrow> bool" where
  "redirected ps f r data c \<longleftrightarrow> sink c = ToFile \<and> safe_outfile c = Some f \<and> out_file c = Some (abs_path ps) \<and>
     host_files c f = Some data \<and> written_bytes c = length data \<and> r < length (nodes (c_fs c)) \<and> 0 < frames (c_fs c) \<and>
     (\<exists>vs. chain (nodes (c_fs c)) 0 ps vs r) \<and> A_TYPE (nodes (c_fs c) ! r) = T_FILE \<and>
     A_REALFILE (nodes (c_fs c) ! r) = Some f \<and> A_SIZE (nodes (c_fs c) ! r) = int (length data)"

lemma chain_same_shape:
  assumes "chain ns p ps vs q"
    and "\<And>i. A_CONTENTS (ns' ! i) = A_CONTENTS (ns ! i) \<and> A_NAME (ns' ! i) = A_NAME (ns ! i) \<and> A_TYPE (ns' ! i) = A_TYPE (ns ! i)"
  shows "chain ns' p ps vs q"
  using assms by (intro chain_cong [OF assms(1)]) simp_all

lemma chain_set_node:
  assumes "chain ns p ps vs q"
    and "\<And>n. A_CONTENTS (g n) = A_CONTENTS n \<and> A_NAME (g n) = A_NAME n \<and> A_TYPE (g n) = A_TYPE n"
  shows "chain (ns[r := g (ns ! r)]) p ps vs q"
  using assms(1)
proof (rule chain_same_shape)
  fix i
  show "A_CONTENTS (ns[r := g (ns ! r)] ! i) = A_CONTENTS (ns ! i) \<and> A_NAME (ns[r := g (ns ! r)] ! i) = A_NAME (ns ! i) \<and>
      A_TYPE (ns[r := g (ns ! r)] ! i) = A_TYPE (ns ! i)"
    using assms(2) by (cases "i = r"; cases "r < length ns") (simp_all add: list_update_beyond)
qed

lemma redirected_size:
  assumes c: "redirected ps f r data c"
  shows "\<exists>s. update_size (abs_path ps) z (c_fs c) = (Inr (), s) \<and> s = (c_fs c)\<lparr>nodes := (nodes (c_fs c))[r := (nodes (c_fs c) ! r)\<lparr>A_SIZE := z\<rparr>]\<rparr>"
proof -
  obtain vs where "chain (nodes (c_fs c)) 0 ps vs r" using c by (auto simp: redirected_def)
  then have "getfile (frames (c_fs c)) (nodes (c_fs c)) True (abs_path ps) = Inr (Some r)"
    using c by (intro getfile_chain) (auto simp: redirected_def)
  with c show ?thesis by (simp add: update_size_def redirected_def)
qed

lemma redirected_write:
  assumes c: "redirected ps f r data c"
  shows "\<exists>d. cmd_write x c = (Inr (), d) \<and> redirected ps f r (data @ x) d \<and> sent d = sent c \<and> redir_files d = redir_files c \<and> exits d = exits c \<and> c_args d = c_args c"
proof -
  define ns where "ns = nodes (c_fs c)"
  define z where "z = int (length data + length x)"
  define d where "d = c\<lparr>temp_buff := temp_buff c @ [PyText x], host_files := (host_files c)(f \<mapsto> data @ x),
     written_bytes := length data + length x, c_fs := (c_fs c)\<lparr>nodes := ns[r := (ns ! r)\<lparr>A_SIZE := z\<rparr>]\<rparr>\<rparr>"
  let ?c = "c\<lparr>temp_buff := temp_buff c @ [PyText x], host_files := (host_files c)(f \<mapsto> data @ x), written_bytes := length data + length x\<rparr>"
  have "update_size (abs_path ps) z (c_fs c) = (Inr (), (c_fs c)\<lparr>nodes := ns[r := (ns ! r)\<lparr>A_SIZE := z\<rparr>]\<rparr>)"
    using redirected_size [OF c, of z] by (auto simp: ns_def)
  with c have "cmd_write x c = (Inr (), d)"
    by (simp add: cmd_write_def buffer_def writefn_def write_to_file_def redirected_def append_host_def on_fs_def d_def z_def)
  moreover obtain vs where "chain ns 0 ps vs r" using c by (auto simp: redirected_def ns_def)
  then have "chain (ns[r := (ns ! r)\<lparr>A_SIZE := z\<rparr>]) 0 ps vs r"
    by (rule chain_set_node [where g = "\<lambda>n. n\<lparr>A_SIZE := z\<rparr>"]) simp
  with c have "redirected ps f r (data @ x) d" by (auto simp: redirected_def d_def ns_def z_def)
  ultimately show ?thesis by (simp add: d_def)
qed

lemma redirected_writes:
  assumes "redirected ps f r data c"
  shows "\<exists>d. each cmd_write xs c = (Inr (), d) \<and> redirected ps f r (data @ concat xs) d \<and> sent d = sent c \<and> redir_files d = redir_files c \<and> exits d = exits c \<and> c_args d = c_args c"
  using assms
proof (induction xs arbitrary: data c)
  case (Cons x xs)
  obtain d where d: "cmd_write x c = (Inr (), d)" "redirected ps f r (data @ x) d" "sent d = sent c" "redir_files d = redir_files c" "exits d = exits c" "c_args d = c_args c"
    using redirected_write [OF Cons.prems, of x] by blast
  with Cons.IH [OF d(2)] show ?case by (simp add: d(1))
qed simp

lemma resolve_abs: "list_all normal_name ps \<Longrightarrow> resolve_path (abs_path ps) cwd = Inr (abs_path ps)"
proof -
  assume ps: "list_all normal_name ps"
  then have "list_all file_name ps" by (auto simp: list_all_iff normal_name_def)
  then have "path_pieces (abs_path ps) = ps" by (rule path_pieces_abs_path)
  moreover have "is_abs (abs_path ps)" "abs_path ps \<noteq> []" by (simp_all add: abs_path_def is_abs_def)
  ultimately show ?thesis using ps by (simp add: resolve_path_alt resolve_pieces_id)
qed

lemma redirected_contents:
  assumes c: "redirected ps f r data c" and "f \<noteq> []" and "list_all normal_name ps"
  shows "cmd_file_contents e (abs_path ps) c = (Inr (Some data), c)"
proof -
  obtain vs where "chain (nodes (c_fs c)) 0 ps vs r" using c by (auto simp: redirected_def)
  then have "getfile (frames (c_fs c)) (nodes (c_fs c)) True (abs_path ps) = Inr (Some r)"
    using c by (intro getfile_chain) (auto simp: redirected_def)
  with c assms(2) show ?thesis
    by (simp add: cmd_file_contents_def file_contents_def resolve_abs [OF assms(3)] exists_path_def on_fs_def redirected_def
        read_host_def)
qed


section \<open>Opening the file\<close>

lemma resolve_in:
  assumes "list_all normal_name ps" and "normal_name x"
  shows "resolve_path x (abs_path ps) = Inr (abs_path (ps @ [x]))"
proof -
  have x: "x \<noteq> []" "slash \<notin> set x" using assms(2) by (simp_all add: normal_name_def file_name_def)
  have "list_all file_name ps" using assms(1) by (auto simp: list_all_iff normal_name_def)
  then have "path_pieces (abs_path ps) = ps" by (rule path_pieces_abs_path)
  moreover have "path_pieces x = [x]"
    using x split_str_no_occurrence [of slash x] by (simp add: path_pieces_def)
  moreover have "\<not> is_abs x" using x by (cases x) (auto simp: is_abs_def)
  ultimately show ?thesis
    using x assms resolve_pieces_id [of "[x]" ps] by (simp add: resolve_path_alt)
qed

lemma index_of_append: "y \<notin> set xs \<Longrightarrow> index_of y (xs @ y # ys) = length xs"
  by (induction xs) auto

text \<open>What has to hold for a redirection to a name in the session's directory.\<close>

definition can_redirect :: "cmd_env \<Rightarrow> string list \<Rightarrow> string \<Rightarrow> cmd \<Rightarrow> bool" where
  "can_redirect e ps x c \<longleftrightarrow> fs_inv (c_fs c) \<and> list_all normal_name ps \<and> normal_name x \<and> c_cwd c = abs_path ps \<and>
     (\<exists>vs d. chain (nodes (c_fs c)) 0 ps vs d \<and> d \<notin> set vs \<and> distinct_names (nodes (c_fs c)) d) \<and>
     (\<exists>p. getfile (frames (c_fs c)) (nodes (c_fs c)) True (abs_path (ps @ [x])) = Inr p) \<and>
     newcount (c_fs c) \<le> 10000 \<and> 0 < frames (c_fs c) \<and> \<not> list_ex (starts_with (abs_path ps)) SPECIAL_PATHS \<and>
     x \<noteq> ''>'' \<and> x \<noteq> ''>>'' \<and> host_files c (tmp_fname e (abs_path (ps @ [x]))) = None"

lemma redirect_opens:
  assumes c: "can_redirect e ps x c" and a: "c_args c = args @ [''>'', x]" "''>'' \<notin> set args" "''>>'' \<notin> set args"
  shows "\<exists>r d. HoneyPotCommand_init e c = (Inr (), d) \<and> redirected (ps @ [x]) (tmp_fname e (abs_path (ps @ [x]))) r [] d \<and>
    c_args d = args \<and> sent d = sent c \<and> redir_files d = redir_files c \<and>
    exits d = exits c \<and> c_cwd d = c_cwd c"
proof -
  define out where "out = abs_path (ps @ [x])"
  define f where "f = tmp_fname e out"
  obtain vs d where d: "chain (nodes (c_fs c)) 0 ps vs d" "d \<notin> set vs" "distinct_names (nodes (c_fs c)) d"
    using c by (auto simp: can_redirect_def)
  obtain p where p: "getfile (frames (c_fs c)) (nodes (c_fs c)) True out = Inr p"
    using c by (auto simp: can_redirect_def out_def)
  have "file_name x" using c by (simp add: can_redirect_def normal_name_def)
  moreover have "fs_inv (c_fs c)" "newcount (c_fs c) \<le> 10000" "\<not> list_ex (starts_with (abs_path ps)) SPECIAL_PATHS"
    using c by (simp_all add: can_redirect_def)
  ultimately obtain t where t: "mkfile out 0 0 0 33188 (clock e) (c_fs c) = (Inr True, t)"
    "chain (nodes t) 0 (ps @ [x]) (vs @ [d]) (length (nodes (c_fs c)))"
    "nodes t ! length (nodes (c_fs c)) = plain_node x T_FILE 0 0 0 33188 (clock e)" "frames t = frames (c_fs c)"
    using mkfile_chain [OF _ d(1,2,3), of x 0 0 0 33188 "clock e"] unfolding out_def by metis
  let ?r = "length (nodes (c_fs c))"
  have fr: "0 < frames (c_fs c)" using c by (simp add: can_redirect_def)
  have g: "getfile (frames t) (nodes t) True out = Inr (Some ?r)"
    unfolding out_def using t(2) t(4) fr by (intro getfile_chain) auto
  have tinv: "fs_inv t" using fs_inv_mkfile [of "c_fs c"] c t(1) by (metis can_redirect_def snd_conv)
  then have r: "?r < length (nodes t)" using g by (auto simp: fs_inv_def dest: getfile_in_range)
  define ns where "ns = (nodes t)[?r := (nodes t ! ?r)\<lparr>A_REALFILE := Some f\<rparr>]"
  define w where "w = c\<lparr>written_bytes := 0, sink := ToFile, out_file := Some out, c_args := args, safe_outfile := Some f,
    c_fs := t\<lparr>nodes := ns\<rparr>, host_files := (host_files c)(f \<mapsto> [])\<rparr>"
  have res: "resolve_path x (c_cwd c) = Inr out"
    using c resolve_in [of ps x] by (simp add: can_redirect_def out_def)
  have app: "appendable False p s = (Inr None, s)" for s
    by (cases p) (auto simp: appendable_def on_fs_def split: option.split)
  have i: "index_of ''>'' (c_args c) = length args" using a by (simp add: index_of_append)
  have hf: "host_files c f = None" using c by (simp add: can_redirect_def out_def f_def)
  define c1 where "c1 = c\<lparr>written_bytes := 0, sink := ToFile, out_file := Some out, c_args := args\<rparr>"
  have "x \<noteq> ''>''" "x \<noteq> ''>>''" using c by (simp_all add: can_redirect_def)
  then have no: "''>>'' \<notin> set (c_args c)" using a by simp
  have "HoneyPotCommand_init e c = redirect e c"
    using a \<open>x \<noteq> ''>''\<close> \<open>x \<noteq> ''>>''\<close> by (simp add: HoneyPotCommand_init_def)
  also have "redirect e c = create_target e out c1"
    using a res p i no app [of "c1"] by (simp add: redirect_def Let_def on_fs_def c1_def nth_append)
  also have "create_target e out c1 = (Inr (), w)"
  proof -
    have m: "on_fs (mkfile out 0 0 0 file_perm (clock e)) (c1\<lparr>safe_outfile := Some f\<rparr>) =
        (Inr True, c1\<lparr>safe_outfile := Some f, c_fs := t\<rparr>)"
      using t(1) by (simp add: on_fs_def c1_def file_perm_def)
    show ?thesis
      unfolding create_target_def f_def [symmetric]
      using g t(3) r hf m
      by (simp add: on_fs_def [of "fs_getfile True out"] on_fs_def [of "set_node q h" for q h] py_except_def
          append_host_def update_realfile_def plain_node_def w_def ns_def c1_def)
  qed
  finally have "HoneyPotCommand_init e c = (Inr (), w)" .
  moreover have "chain ns 0 (ps @ [x]) (vs @ [d]) ?r"
    unfolding ns_def by (rule chain_set_node [OF t(2), where g = "\<lambda>n. n\<lparr>A_REALFILE := Some f\<rparr>"]) simp
  then have "redirected (ps @ [x]) f ?r [] w"
    using r t(3,4) fr by (auto simp: redirected_def w_def ns_def out_def plain_node_def)
  ultimately show ?thesis by (intro exI [of _ ?r] exI [of _ w]) (simp add: w_def f_def out_def)
qed


lemma ex_can_redirect: "can_redirect ex_env [''tmp''] ''x.sh'' (ex_session\<lparr>c_args := a\<rparr>)"
proof -
  have p: "abs_path ([''tmp''] @ [''x.sh'']) = ''/tmp/x.sh''" by code_simp
  have ch: "chain (nodes ex_fs) 0 [''tmp''] [0] 1" "distinct_names (nodes ex_fs) 1"
    using ex_chain by (simp_all add: ex_fs_def) code_simp
  have g: "getfile 100 (nodes ex_fs) True ''/tmp/x.sh'' = Inr None" by code_simp
  have sp: "\<not> list_ex (starts_with (abs_path [''tmp''])) SPECIAL_PATHS" "abs_path [''tmp''] = ''/tmp''"
    "list_all normal_name [''tmp'']" "normal_name ''x.sh''" by code_simp+
  show ?thesis
    using ex_fs_inv g sp p
    by (auto simp: can_redirect_def ex_session_def ex_fs_def intro!: exI [of _ "[0]"] exI [of _ 1] ch [unfolded ex_fs_def, simplified])
qed

section \<open>Properties\<close>

text \<open>C26: A command redirected to a plain name in its directory, whatever it writes: nothing reaches the
  session or the error stream; when it has ended, reading the name back through the fake file system
  gives exactly what was written, a listing shows that size, and the file is on record as an artifact.\<close>

theorem redirected_output_is_read_back:
  assumes "can_redirect e ps x c" and "c_args c = args @ [''>'', x]" and "''>'' \<notin> set args" and "''>>'' \<notin> set args"
    and "tmp_fname e (abs_path (ps @ [x])) \<noteq> []"
  shows "case py_bind (HoneyPotCommand_init e) (\<lambda>_. cmd_start (each cmd_write xs) cmd_exit) c of
      (Inl z, d) \<Rightarrow> False
    | (Inr u, d) \<Rightarrow> sent d = sent c \<and> c_args d = args \<and> exits d = exits c + 1 \<and>
        cmd_file_contents e (abs_path (ps @ [x])) d = (Inr (Some (concat xs)), d) \<and>
        (case stat_path 0 (abs_path (ps @ [x])) (c_fs d) of
           (Inr st, _) \<Rightarrow> st_size st = int (length (concat xs)) | (Inl z, _) \<Rightarrow> False) \<and>
        (tmp_fname e (abs_path (ps @ [x])), abs_path (ps @ [x])) \<in> redir_files d"
proof -
  let ?f = "tmp_fname e (abs_path (ps @ [x]))"
  obtain r w where w: "HoneyPotCommand_init e c = (Inr (), w)" "redirected (ps @ [x]) ?f r [] w" "c_args w = args"
    "sent w = sent c" "exits w = exits c"
    using redirect_opens [OF assms(1-4)] by blast
  obtain v where v: "each cmd_write xs w = (Inr (), v)" "redirected (ps @ [x]) ?f r (concat xs) v"
    "sent v = sent w" "exits v = exits w" "c_args v = c_args w"
    using redirected_writes [OF w(2), of xs] unfolding append_Nil by blast
  define d where "d = v\<lparr>redir_files := insert (?f, abs_path (ps @ [x])) (redir_files v), exits := exits v + 1\<rparr>"
  have d: "cmd_exit v = (Inr (), d)"
    using v(2) assms(5) by (simp add: cmd_exit_def d_def redirected_def)
  have rd: "redirected (ps @ [x]) ?f r (concat xs) d" using v(2) by (simp add: redirected_def d_def)
  then obtain vs where "chain (nodes (c_fs d)) 0 (ps @ [x]) vs r" "0 < frames (c_fs d)" by (auto simp: redirected_def)
  then have "getfile (frames (c_fs d)) (nodes (c_fs d)) True (abs_path (ps @ [x])) = Inr (Some r)"
    by (rule getfile_chain)
  moreover have "abs_path (ps @ [x]) \<noteq> [slash]"
  proof -
    have "x \<noteq> []" using assms(1) by (simp add: can_redirect_def normal_name_def file_name_def)
    then show ?thesis by (simp add: abs_path_snoc) (simp add: abs_path_def)
  qed
  moreover have "list_all normal_name (ps @ [x])" using assms(1) by (simp add: can_redirect_def)
  ultimately show ?thesis
    using redirected_contents [OF rd assms(5)] rd w v d
    by (simp add: cmd_start_def stat_path_def stat_of_def redirected_def) (simp add: d_def)
qed

theorem redirected_output_is_read_back_witness:
  "case py_bind (HoneyPotCommand_init ex_env) (\<lambda>_. cmd_start (each cmd_write [''#!/bin/sh'', ''ls'']) cmd_exit)
      (ex_session\<lparr>c_args := [''>'', ''x.sh'']\<rparr>) of
      (Inl z, d) \<Rightarrow> False
    | (Inr u, d) \<Rightarrow> sent d = [] \<and> cmd_file_contents ex_env ''/tmp/x.sh'' d = (Inr (Some ''#!/bin/shls''), d)"
proof -
  have p: "abs_path ([''tmp''] @ [''x.sh'']) = ''/tmp/x.sh''" by code_simp
  from redirected_output_is_read_back [OF ex_can_redirect, of "[''>'', ''x.sh'']" "[]" "[''#!/bin/sh'', ''ls'']"] show ?thesis
    unfolding p by (simp add: ex_env_def ex_session_def split: prod.splits sum.splits)
qed

end
