(* ===== verification/Sha256.thy ===== *)
theory Sha256
  imports Md5
begin

text \<open>
  \<open>hashlib.sha256(..).hexdigest()\<close>, under which the recordings and the files of attackers are kept
  (FIPS 180-4, on 32-bit words).
\<close>

definition sha256_consts :: "u32 list" where
  "sha256_consts =
     [1116352408, 1899447441, 3049323471, 3921009573, 961987163, 1508970993, 2453635748, 2870763221,
      3624381080, 310598401, 607225278, 1426881987, 1925078388, 2162078206, 2614888103, 3248222580,
      3835390401, 4022224774, 264347078, 604807628, 770255983, 1249150122, 1555081692, 1996064986,
      2554220882, 2821834349, 2952996808, 3210313671, 3336571891, 3584528711, 113926993, 338241895,
      666307205, 773529912, 1294757372, 1396182291, 1695183700, 1986661051, 2177026350, 2456956037,
      2730485921, 2820302411, 3259730800, 3345764771, 3516065817, 3600352804, 4094571909, 275423344,
      430227734, 506948616, 659060556, 883997877, 958139571, 1322822218, 1537002063, 1747873779,
      1955562222, 2024104815, 2227730452, 2361852424, 2428436474, 2756734187, 3204031479, 3329325298]"

definition rotr32 :: "nat \<Rightarrow> u32 \<Rightarrow> u32" where
  "rotr32 n x = drop_bit n x OR push_bit (32 - n) x"

definition big_sigma0 :: "u32 \<Rightarrow> u32" where
  "big_sigma0 x = rotr32 2 x XOR rotr32 13 x XOR rotr32 22 x"

definition big_sigma1 :: "u32 \<Rightarrow> u32" where
  "big_sigma1 x = rotr32 6 x XOR rotr32 11 x XOR rotr32 25 x"

definition small_sigma0 :: "u32 \<Rightarrow> u32" where
  "small_sigma0 x = rotr32 7 x XOR rotr32 18 x XOR drop_bit 3 x"

definition small_sigma1 :: "u32 \<Rightarrow> u32" where
  "small_sigma1 x = rotr32 17 x XOR rotr32 19 x XOR drop_bit 10 x"

text \<open>The schedule, one word more at a time from the last sixteen.\<close>

fun sha256_schedule :: "nat \<Rightarrow> u32 list \<Rightarrow> u32 list" where
  "sha256_schedule 0 ws = []"
| "sha256_schedule (Suc n) ws =
     hd ws # sha256_schedule n (tl ws @ [small_sigma1 (ws ! 14) + ws ! 9 + small_sigma0 (ws ! 1) + hd ws])"

type_synonym sha256_state = "u32 list"

definition sha256_round :: "u32 \<times> u32 \<Rightarrow> sha256_state \<Rightarrow> sha256_state" where
  "sha256_round = (\<lambda>(k, w) st. case st of
       [a, b, c, d, e, f, g, h] \<Rightarrow>
         let t1 = h + big_sigma1 e + ((e AND f) XOR (NOT e AND g)) + k + w;
             t2 = big_sigma0 a + ((a AND b) XOR (a AND c) XOR (b AND c))
         in [t1 + t2, a, b, c, d + t1, e, f, g]
     | _ \<Rightarrow> st)"

definition sha256_block :: "u32 list \<Rightarrow> sha256_state \<Rightarrow> sha256_state" where
  "sha256_block ws st = map2 (+) st (fold sha256_round (zip sha256_consts (sha256_schedule 64 ws)) st)"

fun words_be :: "nat list \<Rightarrow> u32 list" where
  "words_be (a # b # c # d # xs) =
     word_of_nat (((a * 256 + b) * 256 + c) * 256 + d) # words_be xs"
| "words_be _ = []"

definition sha256_pad :: "nat list \<Rightarrow> nat list" where
  "sha256_pad bs = bs @ [128] @ replicate ((119 - length bs mod 64) mod 64) 0 @ rev (bytes_le 8 (8 * length bs))"

definition sha256_start :: sha256_state where
  "sha256_start = [0x6a09e667, 0xbb67ae85, 0x3c6ef372, 0xa54ff53a, 0x510e527f, 0x9b05688c, 0x1f83d9ab, 0x5be0cd19]"

definition sha256_hex :: "string \<Rightarrow> string" where
  "sha256_hex s = concat (map hex_byte (concat (map (\<lambda>w. rev (bytes_le 4 (unat w)))
     (fold sha256_block (chunks16 (words_be (sha256_pad (map of_char s)))) sha256_start))))"

text \<open>A digest has 64 digits.\<close>

lemma length_sha256_round [simp]: "length (sha256_round kw st) = length st"
  by (auto simp: sha256_round_def Let_def split: prod.split list.split)

lemma length_sha256_block: "length st = 8 \<Longrightarrow> length (sha256_block ws st) = 8"
proof -
  assume "length st = 8"
  moreover have "length (fold sha256_round xs st) = length st" for xs
    by (induction xs rule: rev_induct) simp_all
  ultimately show ?thesis by (simp add: sha256_block_def)
qed

lemma length_sha256_blocks: "length st = 8 \<Longrightarrow> length (fold sha256_block bs st) = 8"
  by (induction bs arbitrary: st) (auto simp: length_sha256_block)

lemma length_words_bytes: "length (concat (map (\<lambda>w. rev (bytes_le 4 (unat w))) ws)) = 4 * length ws"
  by (induction ws) auto

lemma length_sha256_hex: "length (sha256_hex s) = 64"
  unfolding sha256_hex_def
  by (simp add: length_concat_hex length_words_bytes length_sha256_blocks sha256_start_def del: length_concat)

end
