(* ===== verification/TtyLog.thy ===== *)
theory TtyLog
  imports Sha256 Bytes
begin

text \<open>
  Recordings of sessions (\<open>cowrie/core/ttylog.py\<close>): a file of records, each a packed header and the bytes
  that passed in one direction, and the hash of what came in. The host's files are a map from their
  names to their contents; a time is the pair of seconds and microseconds that the code takes of it.
\<close>

type_synonym files = "string \<rightharpoonup> string"
type_synonym 'a host_py = "(files, 'a) py"
type_synonym stamp = "int \<times> int"

definition OP_OPEN :: int where "OP_OPEN = 1"
definition OP_CLOSE :: int where "OP_CLOSE = 2"
definition OP_WRITE :: int where "OP_WRITE = 3"
definition TYPE_INPUT :: int where "TYPE_INPUT = 1"
definition TYPE_OUTPUT :: int where "TYPE_OUTPUT = 2"
definition TYPE_INTERACT :: int where "TYPE_INTERACT = 3"

section \<open>The header\<close>

text \<open>\<open>struct\<close> in little-endian order: \<open>i\<close> is a signed number of four bytes, \<open>L\<close> an unsigned one.\<close>

definition le_bytes :: "nat \<Rightarrow> nat \<Rightarrow> string" where
  "le_bytes w n = rev (be_bytes w n)"

definition le_value :: "string \<Rightarrow> nat" where
  "le_value bs = be_value (rev bs)"

definition pack_i :: "int \<Rightarrow> string res" where
  "pack_i i = (if - (2 ^ 31) \<le> i \<and> i < 2 ^ 31 then Inr (le_bytes 4 (nat (i mod 2 ^ 32))) else Inl struct_error)"

definition pack_L :: "int \<Rightarrow> string res" where
  "pack_L i = (if 0 \<le> i \<and> i < 2 ^ 32 then Inr (le_bytes 4 (nat i)) else Inl struct_error)"

definition unpack_i :: "string \<Rightarrow> int" where
  "unpack_i bs = (let v = int (le_value bs) in if v < 2 ^ 31 then v else v - 2 ^ 32)"

text \<open>\<open>struct.pack(TTYSTRUCT, ...)\<close> and \<open>struct.unpack\<close>; the reader keeps the operation, the length and
  the direction.\<close>

definition tty_pack :: "int \<Rightarrow> int \<Rightarrow> int \<Rightarrow> stamp \<Rightarrow> string res" where
  "tty_pack op len direction stamp =
     bind_res (pack_i op) (\<lambda>b_op. bind_res (pack_L 0) (\<lambda>b_tty. bind_res (pack_i len) (\<lambda>b_len.
     bind_res (pack_i direction) (\<lambda>b_dir. bind_res (pack_L (fst stamp)) (\<lambda>b_sec.
     bind_res (pack_L (snd stamp)) (\<lambda>b_usec.
     Inr (b_op @ b_tty @ b_len @ b_dir @ b_sec @ b_usec)))))))"

definition tty_unpack :: "string \<Rightarrow> (int \<times> int \<times> int) res" where
  "tty_unpack bs = (if length bs = 24
     then Inr (unpack_i (take 4 bs), unpack_i (take 4 (drop 8 bs)), unpack_i (take 4 (drop 12 bs)))
     else Inl struct_error)"

section \<open>Writing\<close>

text \<open>\<open>open(f, 'ab')\<close> and writing to it\<close>

definition append_file :: "string \<Rightarrow> string \<Rightarrow> unit host_py" where
  "append_file f data = py_modify (\<lambda>h. h(f \<mapsto> (case h f of None \<Rightarrow> [] | Some old \<Rightarrow> old) @ data))"

definition ttylog_record :: "string \<Rightarrow> int \<Rightarrow> int \<Rightarrow> int \<Rightarrow> stamp \<Rightarrow> string \<Rightarrow> unit host_py" where
  "ttylog_record logfile op len direction stamp data =
     py_bind (append_file logfile []) (\<lambda>_. py_bind (py_lift (tty_pack op len direction stamp)) (\<lambda>header.
     py_bind (append_file logfile header) (\<lambda>_. append_file logfile data)))"

definition ttylog_open :: "string \<Rightarrow> stamp \<Rightarrow> unit host_py" where
  "ttylog_open logfile stamp = ttylog_record logfile OP_OPEN 0 0 stamp []"

definition ttylog_write :: "string \<Rightarrow> nat \<Rightarrow> int \<Rightarrow> stamp \<Rightarrow> string \<Rightarrow> unit host_py" where
  "ttylog_write logfile len direction stamp data = ttylog_record logfile OP_WRITE (int len) direction stamp data"

definition ttylog_close :: "string \<Rightarrow> stamp \<Rightarrow> unit host_py" where
  "ttylog_close logfile stamp = ttylog_record logfile OP_CLOSE 0 0 stamp []"

section \<open>Reading\<close>

text \<open>\<open>fd.read(n)\<close>: the bytes read and the rest.\<close>

definition py_read :: "int \<Rightarrow> string \<Rightarrow> (string \<times> string) res" where
  "py_read n s = (if n = -1 then Inr (s, []) else if n < 0 then Inl ValueError else Inr (take (nat n) s, drop (nat n) s))"

lemma py_read_shorter: "py_read n s = Inr (a, b) \<Longrightarrow> length b \<le> length s"
  by (auto simp: py_read_def split: if_splits)

function input_bytes :: "string \<Rightarrow> string \<Rightarrow> string res" where
  "input_bytes acc s = (case tty_unpack (take 24 s) of
       Inl e \<Rightarrow> Inr acc
     | Inr (op, len, direction) \<Rightarrow> (case py_read len (drop 24 s) of
           Inl e \<Rightarrow> Inl e
         | Inr (data, rest) \<Rightarrow>
             input_bytes (if op = OP_WRITE \<and> direction = TYPE_OUTPUT then acc else acc @ data) rest))"
  by pat_completeness auto
termination
  by (relation "measure (\<lambda>(acc, s). length s)") (auto simp: tty_unpack_def dest: py_read_shorter split: if_splits)

declare input_bytes.simps [simp del]

definition ttylog_inputhash :: "string \<Rightarrow> string host_py" where
  "ttylog_inputhash logfile = py_bind py_get (\<lambda>h. case h logfile of
       None \<Rightarrow> py_raise (OSError 2)
     | Some content \<Rightarrow> py_bind (py_lift (input_bytes [] content)) (\<lambda>bytes. py_return (sha256_hex bytes)))"

section \<open>Keeping a log under its hash\<close>

text \<open>\<open>os.path.join\<close> of two parts, \<open>os.remove\<close> and \<open>os.rename\<close>\<close>

definition os_join :: "string \<Rightarrow> string \<Rightarrow> string" where
  "os_join p x = (if starts_with x ''/'' then x else if p = [] \<or> ends_with p ''/'' then p @ x else p @ ''/'' @ x)"

definition os_remove :: "string \<Rightarrow> unit host_py" where
  "os_remove f = py_bind py_get (\<lambda>h. if h f = None then py_raise (OSError 2) else py_modify (\<lambda>h. h(f := None)))"

definition os_rename :: "string \<Rightarrow> string \<Rightarrow> unit host_py" where
  "os_rename f g = py_bind py_get (\<lambda>h. if h f = None then py_raise (OSError 2) else
     py_modify (\<lambda>h. if f = g then h else h(g := h f, f := None)))"

text \<open>
  What the sessions do with a log when they end: it is closed, and renamed to the hash of what came in,
  or removed where there is such a log already. The hash is returned and whether it was there.
\<close>

definition keep_log :: "string \<Rightarrow> string \<Rightarrow> stamp \<Rightarrow> (string \<times> bool) host_py" where
  "keep_log logfile path stamp =
     py_bind (ttylog_close logfile stamp) (\<lambda>_. py_bind (ttylog_inputhash logfile) (\<lambda>shasum.
     py_bind py_get (\<lambda>h. if h (os_join path shasum) \<noteq> None
       then py_bind (os_remove logfile) (\<lambda>_. py_return (shasum, True))
       else py_bind (os_rename logfile (os_join path shasum)) (\<lambda>_. py_return (shasum, False)))))"

section \<open>What is written is read\<close>

text \<open>A record of a log: operation, direction, time and data.\<close>

type_synonym log_record = "int \<times> int \<times> stamp \<times> string"

fun record_bytes :: "log_record \<Rightarrow> string" where
  "record_bytes (op, direction, (sec, usec), data) =
     le_bytes 4 (nat op) @ le_bytes 4 0 @ le_bytes 4 (length data) @ le_bytes 4 (nat direction) @
     le_bytes 4 (nat sec) @ le_bytes 4 (nat usec) @ data"

fun record_ok :: "log_record \<Rightarrow> bool" where
  "record_ok (op, direction, (sec, usec), data) \<longleftrightarrow> op \<in> {OP_OPEN, OP_CLOSE, OP_WRITE} \<and> direction \<in> {0..3} \<and>
     length data < 2 ^ 31 \<and> 0 \<le> sec \<and> sec < 2 ^ 32 \<and> 0 \<le> usec \<and> usec < 2 ^ 32"

fun came_in :: "log_record \<Rightarrow> string" where
  "came_in (op, direction, stamp, data) = (if op = OP_WRITE \<and> direction = TYPE_OUTPUT then [] else data)"

lemma length_le_bytes [simp]: "length (le_bytes w n) = w"
  by (simp add: le_bytes_def)

lemma unpack_le: "n < 2 ^ 31 \<Longrightarrow> unpack_i (le_bytes 4 n) = int n"
  by (simp add: unpack_i_def le_bytes_def le_value_def be_value_be_bytes)

lemma tty_pack_ok:
  assumes "record_ok (op, direction, stamp, data)"
  shows "\<exists>header. tty_pack op (int (length data)) direction stamp = Inr header \<and>
    header @ data = record_bytes (op, direction, stamp, data)"
proof -
  obtain sec usec where st: "stamp = (sec, usec)" by fastforce
  have "pack_i i = Inr (le_bytes 4 (nat i))" if "0 \<le> i" "i < 2 ^ 31" for i
    using that by (simp add: pack_i_def)
  with assms show ?thesis
    by (auto simp: st tty_pack_def pack_L_def OP_OPEN_def OP_CLOSE_def OP_WRITE_def)
qed

lemma written_record:
  assumes "record_ok (op, direction, stamp, data)"
  shows "ttylog_record f op (int (length data)) direction stamp data h =
    (Inr (), h(f \<mapsto> (case h f of None \<Rightarrow> [] | Some old \<Rightarrow> old) @ record_bytes (op, direction, stamp, data)))"
proof -
  obtain header where "tty_pack op (int (length data)) direction stamp = Inr header"
    and "header @ data = record_bytes (op, direction, stamp, data)"
    using tty_pack_ok [OF assms] by blast
  then show ?thesis by (simp add: ttylog_record_def append_file_def split: option.split)
qed

lemma input_bytes_record:
  assumes "record_ok r"
  shows "input_bytes acc (record_bytes r @ s) = input_bytes (acc @ came_in r) s"
proof -
  obtain op direction sec usec data where r: "r = (op, direction, (sec, usec), data)" by (metis prod.collapse)
  have "unpack_i (le_bytes 4 (nat op)) = op" "unpack_i (le_bytes 4 (nat direction)) = direction"
    "unpack_i (le_bytes 4 (length data)) = int (length data)"
    using assms by (auto simp: r unpack_le OP_OPEN_def OP_CLOSE_def OP_WRITE_def)
  then show ?thesis
    by (subst input_bytes.simps) (simp add: r tty_unpack_def py_read_def)
qed

text \<open>A whole file of records gives what came in, in order.\<close>

lemma input_bytes_records:
  "list_all record_ok rs \<Longrightarrow> input_bytes acc (concat (map record_bytes rs)) = Inr (acc @ concat (map came_in rs))"
proof (induction rs arbitrary: acc)
  case Nil
  then show ?case by (simp add: input_bytes.simps [of acc "[]"] tty_unpack_def)
qed (simp add: input_bytes_record)

definition log_bytes :: "log_record list \<Rightarrow> string" where
  "log_bytes rs = concat (map record_bytes rs)"

text \<open>A log of records, closed and kept.\<close>

lemma keep_log_kept:
  fixes rs :: "log_record list" and now :: stamp
  defines "rs' \<equiv> rs @ [(OP_CLOSE, 0, now, [])]"
  defines "sha \<equiv> sha256_hex (concat (map came_in rs))"
  assumes f: "h f = Some (log_bytes rs)" and rs: "list_all record_ok rs"
    and now: "record_ok (OP_CLOSE, 0, now, [])" and fresh: "f \<noteq> os_join path sha"
  shows "keep_log f path now h = (Inr (sha, h (os_join path sha) \<noteq> None),
    if h (os_join path sha) \<noteq> None then h(f := None) else h(os_join path sha \<mapsto> log_bytes rs', f := None))"
proof -
  have w: "ttylog_close f now h = (Inr (), h(f \<mapsto> log_bytes rs'))"
    using written_record [OF now, of f h] f by (simp add: ttylog_close_def log_bytes_def rs'_def)
  have "came_in (OP_CLOSE, 0, now, []) = []" by simp
  then have "input_bytes [] (log_bytes rs') = Inr (concat (map came_in rs))"
    using input_bytes_records [of rs' "[]"] rs now by (simp add: rs'_def log_bytes_def)
  then have "ttylog_inputhash f (h(f \<mapsto> log_bytes rs')) = (Inr sha, h(f \<mapsto> log_bytes rs'))"
    by (simp add: ttylog_inputhash_def sha_def)
  with w fresh show ?thesis
    by (auto simp: keep_log_def os_remove_def os_rename_def fun_eq_iff)
qed

end
