(* ===== verification/Recordings.thy ===== *)
theory Recordings
  imports TtyLog SshTerminal TelnetProxy
begin

text \<open>
  The recordings the proxies keep (\<open>channel_closed\<close> of \<open>cowrie/ssh_proxy/protocols/term.py\<close> and
  \<open>exec_term.py\<close>, \<open>close\<close> of \<open>cowrie/telnet_proxy/handler.py\<close>): what the sessions log is written to a file
  as it comes; at the end the file is kept under the hash of what came in.
\<close>

section \<open>From the first record to the last\<close>

definition term_entries :: "SshTerminal.tty_record list \<Rightarrow> (int \<times> string) list" where
  "term_entries = map (\<lambda>e. case e of TtyInput d \<Rightarrow> (TYPE_INPUT, d) | TtyOutput d \<Rightarrow> (TYPE_OUTPUT, d))"

definition handler_entries :: "tty_entry list \<Rightarrow> (int \<times> string) list" where
  "handler_entries = map (\<lambda>e. case e of TypeInput d \<Rightarrow> (TYPE_INPUT, d) | TypeOutput d \<Rightarrow> (TYPE_OUTPUT, d))"

text \<open>Each entry is written at its time.\<close>

fun write_entries :: "string \<Rightarrow> (stamp \<times> int \<times> string) list \<Rightarrow> unit host_py" where
  "write_entries f [] = py_return ()"
| "write_entries f ((stamp, direction, data) # es) =
     py_bind (ttylog_write f (length data) direction stamp data) (\<lambda>_. write_entries f es)"

definition record_session :: "string \<Rightarrow> stamp \<Rightarrow> (stamp \<times> int \<times> string) list \<Rightarrow> unit host_py" where
  "record_session f started es = py_bind (ttylog_open f started) (\<lambda>_. write_entries f es)"

text \<open>The event that is logged; the duration is left out.\<close>

record log_closed =
  closed_ttylog :: string
  closed_size :: nat
  closed_shasum :: string
  closed_duplicate :: bool

definition close_recording :: "string \<Rightarrow> string \<Rightarrow> stamp \<Rightarrow> nat \<Rightarrow> log_closed host_py" where
  "close_recording path f now n = py_bind (keep_log f path now) (\<lambda>(sha, dup).
     py_return \<lparr>closed_ttylog = os_join path sha, closed_size = n, closed_shasum = sha, closed_duplicate = dup\<rparr>)"

definition term_channel_closed :: "string \<Rightarrow> string \<Rightarrow> stamp \<Rightarrow> terminal \<Rightarrow> log_closed option host_py" where
  "term_channel_closed path f now t = (if tty_enabled t
     then py_bind (close_recording path f now (tty_size t)) (\<lambda>ev. py_return (Some ev)) else py_return None)"

definition exec_channel_closed :: "string \<Rightarrow> string \<Rightarrow> stamp \<Rightarrow> exec_session \<Rightarrow> log_closed option host_py" where
  "exec_channel_closed path f now s = (if exec_enabled s
     then py_bind (close_recording path f now (exec_size s)) (\<lambda>ev. py_return (Some ev)) else py_return None)"

definition handler_close :: "string \<Rightarrow> string \<Rightarrow> stamp \<Rightarrow> telnet \<Rightarrow> (log_closed option \<times> telnet) host_py" where
  "handler_close path f now s = (if ttylogEnabled s
     then py_bind (close_recording path f now (ttylogSize s)) (\<lambda>ev. py_return (Some ev, s\<lparr>ttylogEnabled := False\<rparr>))
     else py_return (None, s))"

section \<open>A recording and its hash\<close>

text \<open>Times and lengths that the header can hold; a file of its own, which no hash names.\<close>

definition entry_ok :: "stamp \<times> int \<times> string \<Rightarrow> bool" where
  "entry_ok e \<longleftrightarrow> fst (snd e) \<in> {1..3} \<and> record_ok (OP_WRITE, fst (snd e), fst e, snd (snd e))"

definition can_record :: "string \<Rightarrow> string \<Rightarrow> stamp \<Rightarrow> (stamp \<times> int \<times> string) list \<Rightarrow> stamp \<Rightarrow> files \<Rightarrow> bool" where
  "can_record path f started es now h \<longleftrightarrow> h f = None \<and> (\<forall>x. f \<noteq> os_join path (sha256_hex x)) \<and>
     record_ok (OP_OPEN, 0, started, []) \<and> list_all entry_ok es \<and> record_ok (OP_CLOSE, 0, now, [])"

definition entry_record :: "stamp \<times> int \<times> string \<Rightarrow> log_record" where
  "entry_record e = (OP_WRITE, fst (snd e), fst e, snd (snd e))"

definition session_records :: "stamp \<Rightarrow> (stamp \<times> int \<times> string) list \<Rightarrow> log_record list" where
  "session_records started es = (OP_OPEN, 0, started, []) # map entry_record es"

definition inputs :: "(stamp \<times> int \<times> string) list \<Rightarrow> string" where
  "inputs es = concat (map (\<lambda>(stamp, direction, data). if direction = TYPE_OUTPUT then [] else data) es)"

lemma write_entries_run:
  "list_all entry_ok es \<Longrightarrow> h f = Some old \<Longrightarrow>
     write_entries f es h = (Inr (), h(f \<mapsto> old @ log_bytes (map entry_record es)))"
proof (induction es arbitrary: h old)
  case Nil
  then show ?case by (auto simp: log_bytes_def)
next
  case (Cons e es)
  obtain stamp direction data where e: "e = (stamp, direction, data)" by (metis prod.collapse)
  from Cons.prems have "ttylog_write f (length data) direction stamp data h =
      (Inr (), h(f \<mapsto> old @ record_bytes (entry_record e)))"
    unfolding ttylog_write_def by (subst written_record) (auto simp: e entry_ok_def entry_record_def)
  with Cons show ?case by (auto simp: e log_bytes_def fun_eq_iff)
qed

lemma record_session_run:
  assumes "can_record path f started es now h"
  shows "record_session f started es h = (Inr (), h(f \<mapsto> log_bytes (session_records started es)))"
proof -
  have "ttylog_open f started h = (Inr (), h(f \<mapsto> record_bytes (OP_OPEN, 0, started, [])))"
    using assms written_record [of OP_OPEN 0 started "[]" f h] by (simp add: ttylog_open_def can_record_def)
  then show ?thesis
    using assms write_entries_run [of es _ f]
    by (simp add: record_session_def session_records_def can_record_def log_bytes_def)
qed

lemma session_records_ok: "can_record path f started es now h \<Longrightarrow> list_all record_ok (session_records started es)"
  by (auto simp: can_record_def session_records_def list_all_iff entry_ok_def entry_record_def)

lemma came_in_session: "concat (map came_in (session_records started es)) = inputs es"
proof -
  have "came_in \<circ> entry_record = (\<lambda>(stamp, direction, data). if direction = TYPE_OUTPUT then [] else data)"
    by (auto simp: entry_record_def fun_eq_iff)
  then show ?thesis by (simp add: session_records_def inputs_def OP_OPEN_def OP_WRITE_def)
qed

text \<open>The recording of a session from its start to its end: under which name it is, and that it is removed
  where there is one already.\<close>

lemma recorded_and_closed:
  fixes es :: "(stamp \<times> int \<times> string) list"
  defines "sha \<equiv> sha256_hex (inputs es)"
  assumes ok: "can_record path f started es now h"
  shows "py_bind (record_session f started es) (\<lambda>_. close_recording path f now n) h =
    (Inr \<lparr>closed_ttylog = os_join path sha, closed_size = n, closed_shasum = sha, closed_duplicate = h (os_join path sha) \<noteq> None\<rparr>,
     if h (os_join path sha) \<noteq> None then h
     else h(os_join path sha \<mapsto> log_bytes (session_records started es @ [(OP_CLOSE, 0, now, [])])))"
proof -
  let ?rs = "session_records started es" and ?h = "h(f \<mapsto> log_bytes (session_records started es))"
  have f: "f \<noteq> os_join path sha" "h f = None" "record_ok (OP_CLOSE, 0, now, [])"
    using ok by (auto simp: can_record_def sha_def)
  have k: "keep_log f path now ?h = (Inr (sha, ?h (os_join path sha) \<noteq> None),
      if ?h (os_join path sha) \<noteq> None then ?h(f := None)
      else ?h(os_join path sha \<mapsto> log_bytes (?rs @ [(OP_CLOSE, 0, now, [])]), f := None))"
    using keep_log_kept [of ?h f ?rs now path] session_records_ok [OF ok] f by (simp add: came_in_session sha_def)
  show ?thesis
    using record_session_run [OF ok] k f by (auto simp: close_recording_def fun_eq_iff)
qed

section \<open>What the proxies\' recordings are named by\<close>

text \<open>The times of the entries.\<close>

definition timed :: "stamp list \<Rightarrow> (int \<times> string) list \<Rightarrow> (stamp \<times> int \<times> string) list" where
  "timed = zip"

lemma inputs_timed:
  "length ts = length es \<Longrightarrow> inputs (timed ts es) = concat (map (\<lambda>(direction, data). if direction = TYPE_OUTPUT then [] else data) es)"
  by (induction ts es rule: list_induct2) (auto simp: timed_def inputs_def)

lemma exec_log_outputs:
  "exec_enabled s \<Longrightarrow> exec_enabled (fold (\<lambda>(p, d). exec_parse_packet p d) ps s) \<and>
     exec_log (fold (\<lambda>(p, d). exec_parse_packet p d) ps s) = exec_log s @ map (\<lambda>(p, d). TtyOutput d) ps"
proof (induction ps arbitrary: s)
  case (Cons x ps)
  then have "exec_enabled (exec_parse_packet (fst x) (snd x) s)" by (simp add: exec_parse_packet_def)
  from Cons.IH [OF this] Cons.prems show ?case by (simp add: exec_parse_packet_def case_prod_beta)
qed simp

text \<open>A session with one command through the SSH proxy, from its start to its end.\<close>

definition exec_session_recorded ::
  "string \<Rightarrow> string \<Rightarrow> string \<Rightarrow> stamp \<Rightarrow> stamp list \<Rightarrow> (side \<times> string) list \<Rightarrow> stamp \<Rightarrow> log_closed option host_py" where
  "exec_session_recorded path f cmd started ts ps now =
     py_bind (py_lift (ExecTerm_init True cmd)) (\<lambda>s0.
     let s = fold (\<lambda>(p, d). exec_parse_packet p d) ps s0 in
     py_bind (record_session f started (timed ts (term_entries (exec_log s)))) (\<lambda>_. exec_channel_closed path f now s))"

text \<open>Whatever passed, all of it is recorded as output, and the hash is that of nothing.\<close>

lemma exec_session_run:
  fixes ps :: "(side \<times> string) list" and ts :: "stamp list" and path :: string
  defines "es \<equiv> timed ts (map (\<lambda>(p, d). (TYPE_OUTPUT, d)) ps)" and "g \<equiv> os_join path (sha256_hex [])"
  assumes "ascii cmd" and "length ts = length ps" and ok: "can_record path f started es now h"
  shows "\<exists>n. exec_session_recorded path f cmd started ts ps now h =
    (Inr (Some \<lparr>closed_ttylog = g, closed_size = n, closed_shasum = sha256_hex [], closed_duplicate = h g \<noteq> None\<rparr>),
     if h g \<noteq> None then h else h(g \<mapsto> log_bytes (session_records started es @ [(OP_CLOSE, 0, now, [])])))"
proof -
  define s0 where "s0 = \<lparr>exec_enabled = True, exec_size = 0, exec_log = [], exec_entered = cmd\<rparr>"
  define s where "s = fold (\<lambda>(p, d). exec_parse_packet p d) ps s0"
  have "term_entries (map (\<lambda>(p, d). TtyOutput d) ps) = map (\<lambda>(p, d). (TYPE_OUTPUT, d)) ps" by (auto simp: term_entries_def)
  then have s: "timed ts (term_entries (exec_log s)) = es" "exec_enabled s"
    using exec_log_outputs [of s0 ps] by (simp_all add: s_def s0_def es_def)
  have "inputs es = []"
    using assms(4) by (auto simp: es_def inputs_timed concat_eq_Nil_conv)
  then have run: "py_bind (record_session f started es) (\<lambda>_. close_recording path f now (exec_size s)) h =
    (Inr \<lparr>closed_ttylog = g, closed_size = exec_size s, closed_shasum = sha256_hex [], closed_duplicate = h g \<noteq> None\<rparr>,
     if h g \<noteq> None then h else h(g \<mapsto> log_bytes (session_records started es @ [(OP_CLOSE, 0, now, [])])))"
    using recorded_and_closed [OF ok, of "exec_size s"] by (simp only: g_def)
  have "ExecTerm_init True cmd = Inr s0" using assms(3) by (simp add: ExecTerm_init_def s0_def)
  then have "exec_session_recorded path f cmd started ts ps now h =
      py_bind (py_bind (record_session f started es) (\<lambda>_. close_recording path f now (exec_size s))) (\<lambda>ev. py_return (Some ev)) h"
    unfolding exec_session_recorded_def Let_def using s
    by (simp add: exec_channel_closed_def flip: s_def split: sum.split prod.split)
  then show ?thesis unfolding py_bind_apply [of _ "\<lambda>ev. py_return (Some ev)"] run by (intro exI [of _ "exec_size s"]) simp
qed

text \<open>The sessions of the terminal and of telnet: what is recorded as input.\<close>

definition term_packets :: "(side \<times> string) list \<Rightarrow> unit term_py" where
  "term_packets ps = foldr (\<lambda>(p, d) m. py_bind (term_parse_packet p d) (\<lambda>_. m)) ps (py_return ())"

definition term_session_recorded ::
  "string \<Rightarrow> string \<Rightarrow> stamp \<Rightarrow> stamp list \<Rightarrow> (side \<times> string) list \<Rightarrow> stamp \<Rightarrow> log_closed option host_py" where
  "term_session_recorded path f started ts ps now =
     (case term_packets ps (Term_init True) of (r, t) \<Rightarrow>
       py_bind (record_session f started (timed ts (term_entries (tty_log t)))) (\<lambda>_. term_channel_closed path f now t))"

definition logs_kept :: "terminal \<Rightarrow> terminal \<Rightarrow> bool" where
  "logs_kept t t' \<longleftrightarrow> tty_log t' = tty_log t \<and> tty_enabled t' = tty_enabled t"

lemma logs_kept_preorder [keeps_intros]: "preorder_on_states logs_kept"
  by (auto simp: preorder_on_states_def logs_kept_def reflp_def transp_def)

lemma logs_kept_modify: "(\<And>t. tty_log (f t) = tty_log t \<and> tty_enabled (f t) = tty_enabled t) \<Longrightarrow> keeps logs_kept (py_modify f)"
  by (rule keeps_modify) (simp add: logs_kept_def)

lemma logs_kept_entered: "keeps logs_kept log_entered"
  unfolding log_entered_def by (intro keeps_intros logs_kept_modify) simp

lemma logs_kept_server: "keeps logs_kept (server_keys s)"
proof (induction s rule: length_induct)
  case (1 s)
  show ?case
  proof (cases s)
    case (Cons c cs)
    have "keeps logs_kept (server_keys cs)" "keeps logs_kept (server_keys (drop 2 cs))"
      using 1 by (simp_all add: Cons)
    then show ?thesis
      unfolding Cons server_keys.simps
      by (intro keeps_intros logs_kept_modify logs_kept_entered) (auto simp: backspace_def insert_key_def)
  next
    case Nil
    then show ?thesis by (simp only: server_keys.simps keeps_return logs_kept_preorder)
  qed
qed

lemma logs_kept_client: "keeps logs_kept (client_keys s)"
proof (induction s rule: length_induct)
  case (1 s)
  show ?case
  proof (cases s)
    case (Cons c cs)
    have "keeps logs_kept (client_keys cs)" "keeps logs_kept (client_keys (drop 2 cs))"
      using 1 by (simp_all add: Cons)
    then show ?thesis
      unfolding Cons client_keys.simps
      by (intro keeps_intros logs_kept_modify) (auto simp: insert_key_def)
  next
    case Nil
    then show ?thesis by (simp only: client_keys.simps keeps_return logs_kept_preorder)
  qed
qed

definition packet_entry :: "side \<times> string \<Rightarrow> SshTerminal.tty_record" where
  "packet_entry x = (case x of (SERVER, d) \<Rightarrow> TtyOutput d | (CLIENT, d) \<Rightarrow> TtyInput d)"

lemma term_packet_logged:
  assumes "term_parse_packet p d t = (Inr (), t')" and "tty_enabled t"
  shows "tty_enabled t' \<and> tty_log t' = tty_log t @ [packet_entry (p, d)]"
proof (cases p)
  case SERVER
  then show ?thesis
    using assms keepsD [OF logs_kept_server, of t d]
    by (auto simp: term_parse_packet_def logs_kept_def tty_write_def packet_entry_def split: prod.splits sum.splits)
next
  case CLIENT
  have tab: "tty_log (tab_answer d t) = tty_log t" "tty_enabled (tab_answer d t) = tty_enabled t"
    by (simp_all add: tab_answer_def)
  show ?thesis
    using CLIENT assms tab keepsD [OF logs_kept_client, of "tab_answer d t" d]
    by (auto simp: term_parse_packet_def logs_kept_def tty_write_def packet_entry_def split: prod.splits sum.splits if_splits)
qed

lemma term_packets_logged:
  "foldr (\<lambda>(p, d) m. py_bind (term_parse_packet p d) (\<lambda>_. m)) ps (py_return ()) t = (Inr (), t') \<Longrightarrow> tty_enabled t \<Longrightarrow>
     tty_enabled t' \<and> tty_log t' = tty_log t @ map packet_entry ps"
proof (induction ps arbitrary: t)
  case (Cons x ps)
  obtain p d where x: "x = (p, d)" by fastforce
  obtain r u where u: "term_parse_packet p d t = (r, u)" by fastforce
  with Cons.prems x have r: "r = Inr ()" by (cases r) auto
  with term_packet_logged u Cons.prems have "tty_enabled u" "tty_log u = tty_log t @ [packet_entry (p, d)]" by blast+
  with Cons u r x show ?case by auto
qed auto

lemma client_inputs:
  "concat (map (\<lambda>(direction, data). if direction = TYPE_OUTPUT then [] else data) (term_entries (map packet_entry ps))) =
     concat (map snd (filter (\<lambda>x. fst x = CLIENT) ps))"
  by (induction ps) (auto simp: term_entries_def packet_entry_def TYPE_INPUT_def TYPE_OUTPUT_def split: side.split)

section \<open>The properties\<close>

text \<open>Of a session with one command through the SSH proxy everything is recorded as output, whichever
  side sent it, so every recording has the hash of an empty input: after the first one that was kept, each
  recording is taken for a duplicate and removed, whatever was done in the session.\<close>

theorem exec_recording_erased:
  fixes ps :: "(side \<times> string) list" and ts :: "stamp list"
  defines "es \<equiv> timed ts (map (\<lambda>(p, d). (TYPE_OUTPUT, d)) ps)"
  assumes "ascii cmd0" and "length ts0 = length ps0"
    and "can_record path f0 started0 (timed ts0 (map (\<lambda>(p, d). (TYPE_OUTPUT, d)) ps0)) now0 h"
    and "h1 = snd (exec_session_recorded path f0 cmd0 started0 ts0 ps0 now0 h)"
    and "ascii cmd" and "length ts = length ps" and "can_record path f started es now h1"
  shows "case exec_session_recorded path f cmd started ts ps now h1 of
      (Inr (Some ev), h2) \<Rightarrow> closed_duplicate ev \<and> h2 = h1
    | _ \<Rightarrow> False"
proof -
  let ?g = "os_join path (sha256_hex [])"
  have "snd (exec_session_recorded path f0 cmd0 started0 ts0 ps0 now0 h) =
      (if h ?g \<noteq> None then h else h(?g \<mapsto> log_bytes (session_records started0
        (timed ts0 (map (\<lambda>(p, d). (TYPE_OUTPUT, d)) ps0)) @ [(OP_CLOSE, 0, now0, [])])))"
    using exec_session_run [OF assms(2,3,4)] by (elim exE) (simp only: snd_conv)
  then have g: "h1 ?g \<noteq> None" unfolding assms(5) by simp
  obtain n where "exec_session_recorded path f cmd started ts ps now h1 =
    (Inr (Some \<lparr>closed_ttylog = ?g, closed_size = n, closed_shasum = sha256_hex [], closed_duplicate = h1 ?g \<noteq> None\<rparr>), h1)"
    using exec_session_run [OF assms(6,7) assms(8) [unfolded es_def]] unfolding if_P [OF g] by blast
  then show ?thesis using g by simp
qed

lemma short_name: "length f < 64 \<Longrightarrow> f \<noteq> os_join path (sha256_hex x)"
  using length_sha256_hex [of x] by (auto simp: os_join_def split: if_splits)

theorem exec_recording_erased_witness:
  "let h1 = snd (exec_session_recorded ''/t'' ''/t/a'' ''id'' (1, 0) [(1, 5)] [(CLIENT, ''uid=0'')] (2, 0) Map.empty) in
   case exec_session_recorded ''/t'' ''/t/b'' ''w'' (3, 0) [(3, 5), (3, 6)] [(SERVER, ''q''), (CLIENT, ''none'')] (4, 0) h1 of
      (Inr (Some ev), h2) \<Rightarrow> closed_duplicate ev \<and> h2 = h1
    | _ \<Rightarrow> False"
proof -
  let ?es0 = "timed [(1, 5)] (map (\<lambda>(p, d). (TYPE_OUTPUT, d)) [(CLIENT, ''uid=0'')])"
  define h1 where "h1 = snd (exec_session_recorded ''/t'' ''/t/a'' ''id'' (1, 0) [(1, 5)] [(CLIENT, ''uid=0'')] (2, 0) Map.empty)"
  note defs = can_record_def timed_def entry_ok_def OP_OPEN_def OP_CLOSE_def OP_WRITE_def TYPE_OUTPUT_def short_name
  have c0: "can_record ''/t'' ''/t/a'' (1, 0) ?es0 (2, 0) Map.empty" by (simp add: defs)
  have "h1 ''/t/b'' = None"
    unfolding h1_def using exec_session_run [OF _ _ c0, of "''id''"] short_name [of "''/t/b''" "''/t''"]
    by (elim meta_impE exE) (simp_all add: ascii_def)
  then have "can_record ''/t'' ''/t/b'' (3, 0) (timed [(3, 5), (3, 6)]
      (map (\<lambda>(p, d). (TYPE_OUTPUT, d)) [(SERVER, ''q''), (CLIENT, ''none'')])) (4, 0) h1" by (simp add: defs)
  from exec_recording_erased [OF _ _ c0 h1_def _ _ this, of "''w''"] show ?thesis
    unfolding Let_def h1_def [symmetric] by (simp add: ascii_def)
qed

text \<open>The recording of a terminal session through the SSH proxy is kept under the hash of what the
  machine sent, not of the keys pressed: the two sides are swapped when they are logged.\<close>

theorem terminal_recording_hash:
  assumes "term_packets ps (Term_init True) = (Inr (), t)" and "length ts = length ps"
    and "can_record path f started (timed ts (term_entries (map packet_entry ps))) now h"
  shows "case term_session_recorded path f started ts ps now h of
      (Inr (Some ev), h') \<Rightarrow>
        closed_shasum ev = sha256_hex (concat (map snd (filter (\<lambda>x. fst x = CLIENT) ps))) \<and> h' (closed_ttylog ev) \<noteq> None
    | _ \<Rightarrow> False"
proof -
  have t: "tty_enabled t" "tty_log t = map packet_entry ps"
    using term_packets_logged [of ps "Term_init True" t] assms(1) by (simp_all add: term_packets_def Term_init_def)
  have "inputs (timed ts (term_entries (map packet_entry ps))) = concat (map snd (filter (\<lambda>x. fst x = CLIENT) ps))"
    using assms(2) by (subst inputs_timed) (simp_all add: client_inputs, simp add: term_entries_def)
  then show ?thesis
    using recorded_and_closed [OF assms(3), of "tty_size t"] t assms(1)
    by (auto simp: term_session_recorded_def term_channel_closed_def py_bind_def split: prod.splits sum.splits)
qed

theorem terminal_recording_hash_witness:
  "case term_session_recorded ''/t'' ''/t/a'' (1, 0) [(1, 5), (1, 6)] [(SERVER, ''w''), (CLIENT, ''none'')] (2, 0) Map.empty of
      (Inr (Some ev), h') \<Rightarrow> closed_shasum ev = sha256_hex ''none'' \<and> h' (closed_ttylog ev) \<noteq> None
    | _ \<Rightarrow> False"
proof -
  let ?ps = "[(SERVER, ''w''), (CLIENT, ''none'')]"
  obtain t where "term_packets ?ps (Term_init True) = (Inr (), t)"
    by (simp add: term_packets_def term_parse_packet_def insert_key_def tab_answer_def Term_init_def tty_write_def)
  moreover have "can_record ''/t'' ''/t/a'' (1, 0) (timed [(1, 5), (1, 6)] (term_entries (map packet_entry ?ps))) (2, 0) Map.empty"
    by (simp add: can_record_def timed_def entry_ok_def term_entries_def packet_entry_def short_name
        OP_OPEN_def OP_CLOSE_def OP_WRITE_def TYPE_OUTPUT_def TYPE_INPUT_def)
  moreover have "concat (map snd (filter (\<lambda>x. fst x = CLIENT) ?ps)) = ''none''" by simp
  ultimately show ?thesis using terminal_recording_hash [of ?ps t "[(1, 5), (1, 6)]"] by (simp only: list.size)
qed

end
