(* ===== verification/SessionRecorder.thy ===== *)
theory SessionRecorder
  imports TtyLog
begin

text \<open>
  The protocol around the emulated shell that records a session (\<open>cowrie/insults/insults.py\<close>): the log of
  what is typed and shown, the copy of what is fed to a single command, the limit on what is taken, and
  what becomes of the files that redirections left when the connection is lost. Sessions are members of
  one world, since they share the host's files and \<open>redirFiles\<close>, an attribute of the class. A set is the
  list of its elements in the order in which it will be iterated.
\<close>

section \<open>State\<close>

record rec_config =
  ttylog_path :: string
  download_path :: string
  ttylog_on :: bool
  received_limit :: nat

text \<open>
  \<open>session_ids\<close> is what \<open>getSessionId\<close> gives; \<open>conn_id\<close> is \<open>transport.session.conn.transport.transportId\<close>, \<open>None\<close>
  where the session has no \<open>conn\<close>. What goes on to the terminal and to the client is a list.
\<close>

record recorder =
  is_exec :: bool
  execcmd :: string
  session_ids :: "string \<times> string"
  conn_id :: "string option"
  ttylogFile :: string
  ttylogOpen :: bool
  ttylogSize :: nat
  stdinlogFile :: string
  stdinlogOpen :: bool
  bytesReceived :: nat
  terminal_open :: bool
  fed :: "string list"
  shown :: "string list"
  eofs :: nat

record file_saved =
  saved_duplicate :: bool
  saved_outfile :: string
  saved_shasum :: string
  saved_destfile :: string

datatype rec_event = LimitReached | FileDownload file_saved | LogClosed string nat string bool

record rec_world =
  w_files :: files
  redirFiles :: "(string \<times> string) list"
  w_events :: "rec_event list"
  members :: "nat \<Rightarrow> recorder"

type_synonym 'a rec_py = "(rec_world, 'a) py"

definition on_files :: "'a host_py \<Rightarrow> 'a rec_py" where
  "on_files m = (\<lambda>w. case m (w_files w) of (r, h) \<Rightarrow> (r, w\<lparr>w_files := h\<rparr>))"

definition the_member :: "nat \<Rightarrow> recorder rec_py" where
  "the_member i = py_bind py_get (\<lambda>w. py_return (members w i))"

definition set_member :: "nat \<Rightarrow> (recorder \<Rightarrow> recorder) \<Rightarrow> unit rec_py" where
  "set_member i f = py_modify (\<lambda>w. w\<lparr>members := (members w)(i := f (members w i))\<rparr>)"

definition log_event :: "rec_event \<Rightarrow> unit rec_py" where
  "log_event ev = py_modify (\<lambda>w. w\<lparr>w_events := w_events w @ [ev]\<rparr>)"

section \<open>While the session lasts\<close>

definition tty_name :: "rec_config \<Rightarrow> string \<Rightarrow> recorder \<Rightarrow> string" where
  "tty_name cfg when m = ttylog_path cfg @ ''/'' @ when @ ''-'' @ fst (session_ids m) @ ''-'' @ snd (session_ids m) @
     (if is_exec m then ''e'' else ''i'') @ ''.log''"

definition stdin_name :: "rec_config \<Rightarrow> string \<Rightarrow> recorder \<Rightarrow> string" where
  "stdin_name cfg when m = download_path cfg @ ''/'' @ when @ ''-'' @ fst (session_ids m) @ ''-'' @ snd (session_ids m) @
     ''-stdin.log''"

definition connectionMade :: "rec_config \<Rightarrow> string \<Rightarrow> stamp \<Rightarrow> nat \<Rightarrow> unit rec_py" where
  "connectionMade cfg when now i = py_bind (the_member i) (\<lambda>m.
     py_bind (if ttylog_on cfg then
         py_bind (set_member i (\<lambda>m. m\<lparr>ttylogFile := tty_name cfg when m\<rparr>)) (\<lambda>_.
         py_bind (on_files (ttylog_open (tty_name cfg when m) now)) (\<lambda>_.
         set_member i (\<lambda>m. m\<lparr>ttylogOpen := True, ttylogSize := 0\<rparr>)))
       else py_return ()) (\<lambda>_.
     py_bind (set_member i (\<lambda>m. m\<lparr>stdinlogFile := stdin_name cfg when m, stdinlogOpen := is_exec m, terminal_open := True\<rparr>)) (\<lambda>_.
     if is_exec m \<and> ttylog_on cfg
     then on_files (ttylog_write (tty_name cfg when m) (length (execcmd m)) TYPE_INTERACT now (execcmd m))
     else py_return ())))"

definition write_data :: "rec_config \<Rightarrow> stamp \<Rightarrow> string \<Rightarrow> nat \<Rightarrow> unit rec_py" where
  "write_data cfg now data i = py_bind (the_member i) (\<lambda>m.
     py_bind (if ttylog_on cfg \<and> ttylogOpen m then
         py_bind (on_files (ttylog_write (ttylogFile m) (length data) TYPE_OUTPUT now data)) (\<lambda>_.
         set_member i (\<lambda>m. m\<lparr>ttylogSize := ttylogSize m + length data\<rparr>))
       else py_return ()) (\<lambda>_.
     set_member i (\<lambda>m. m\<lparr>shown := shown m @ [data]\<rparr>)))"

definition eofReceived :: "nat \<Rightarrow> unit rec_py" where
  "eofReceived i = set_member i (\<lambda>m. if terminal_open m then m\<lparr>eofs := eofs m + 1\<rparr> else m)"

text \<open>What is fed to a command is kept but for a \<open>C0\<close> at its start or a zero byte at its end.\<close>

definition stdin_data :: "recorder \<Rightarrow> string \<Rightarrow> string" where
  "stdin_data m data = (if stdinlogOpen m \<and> \<not> starts_with data ''C0'' \<and> ends_with data [CHR 0x00] then butlast data else data)"

definition dataReceived :: "rec_config \<Rightarrow> stamp \<Rightarrow> string \<Rightarrow> nat \<Rightarrow> unit rec_py" where
  "dataReceived cfg now data i =
     py_bind (set_member i (\<lambda>m. m\<lparr>bytesReceived := bytesReceived m + length data\<rparr>)) (\<lambda>_.
     py_bind (the_member i) (\<lambda>m.
     if received_limit cfg \<noteq> 0 \<and> bytesReceived m > received_limit cfg then
       py_bind (log_event LimitReached) (\<lambda>_. eofReceived i)
     else
       py_bind (if stdinlogOpen m then
           on_files (append_file (stdinlogFile m) (if starts_with data ''C0'' then [] else stdin_data m data))
         else if ttylog_on cfg \<and> ttylogOpen m then
           on_files (ttylog_write (ttylogFile m) (length data) TYPE_INPUT now data)
         else py_return ()) (\<lambda>_.
       set_member i (\<lambda>m'. if terminal_open m' then m'\<lparr>fed := fed m' @ [stdin_data m data]\<rparr> else m'))))"

section \<open>When the connection is lost\<close>

text \<open>\<open>s.find(sub)\<close>\<close>

fun py_find :: "string \<Rightarrow> string \<Rightarrow> int" where
  "py_find sub [] = (if sub = [] then 0 else - 1)"
| "py_find sub (c # cs) = (if starts_with (c # cs) sub then 0
     else (let n = py_find sub cs in if n < 0 then - 1 else n + 1))"

definition redir_url :: "string \<times> string \<Rightarrow> string" where
  "redir_url rp = (if snd rp \<noteq> [] then snd rp else drop (nat (py_find ''redir_'' (fst rp) + 6)) (fst rp))"

text \<open>A file with its content is kept under the session's and the content's names, or removed where there
  is one already.\<close>

definition save_file :: "rec_config \<Rightarrow> nat \<Rightarrow> string \<Rightarrow> string \<Rightarrow> string \<Rightarrow> unit rec_py" where
  "save_file cfg i f content url = py_bind (the_member i) (\<lambda>m. case conn_id m of
       None \<Rightarrow> py_raise (AttributeError ''conn'')
     | Some tid \<Rightarrow>
         let shasum = sha256_hex content; outfile = os_join (download_path cfg) (tid @ ''.'' @ shasum) in
         py_bind py_get (\<lambda>w.
         py_bind (on_files (if w_files w outfile \<noteq> None then os_remove f else os_rename f outfile)) (\<lambda>_.
         log_event (FileDownload \<lparr>saved_duplicate = w_files w outfile \<noteq> None, saved_outfile = outfile,
           saved_shasum = shasum, saved_destfile = url\<rparr>))))"

text \<open>\<open>try: m finally: k\<close>\<close>

definition py_finally :: "('s, unit) py \<Rightarrow> ('s, unit) py \<Rightarrow> ('s, unit) py" where
  "py_finally m k = (\<lambda>s. case m s of (r, t) \<Rightarrow> py_bind k (\<lambda>_. py_lift r) t)"

definition save_stdin :: "rec_config \<Rightarrow> nat \<Rightarrow> unit rec_py" where
  "save_stdin cfg i = py_bind (the_member i) (\<lambda>m. if \<not> stdinlogOpen m then py_return () else
     py_finally (py_bind py_get (\<lambda>w. case w_files w (stdinlogFile m) of
         None \<Rightarrow> py_return ()
       | Some content \<Rightarrow> save_file cfg i (stdinlogFile m) content []))
     (set_member i (\<lambda>m. m\<lparr>stdinlogOpen := False\<rparr>)))"

definition save_redir :: "rec_config \<Rightarrow> nat \<Rightarrow> string \<times> string \<Rightarrow> unit rec_py" where
  "save_redir cfg i rp = py_bind py_get (\<lambda>w. case w_files w (fst rp) of
       None \<Rightarrow> py_return ()
     | Some content \<Rightarrow> if content = [] then on_files (os_remove (fst rp))
         else save_file cfg i (fst rp) content (redir_url rp))"

fun save_redirs :: "rec_config \<Rightarrow> nat \<Rightarrow> (string \<times> string) list \<Rightarrow> unit rec_py" where
  "save_redirs cfg i [] = py_modify (\<lambda>w. w\<lparr>redirFiles := []\<rparr>)"
| "save_redirs cfg i (rp # rps) = py_bind (save_redir cfg i rp) (\<lambda>_. save_redirs cfg i rps)"

definition close_tty :: "rec_config \<Rightarrow> stamp \<Rightarrow> nat \<Rightarrow> unit rec_py" where
  "close_tty cfg now i = py_bind (the_member i) (\<lambda>m. if \<not> (ttylog_on cfg \<and> ttylogOpen m) then py_return () else
     py_bind (on_files (ttylog_close (ttylogFile m) now)) (\<lambda>_.
     py_bind (set_member i (\<lambda>m. m\<lparr>ttylogOpen := False\<rparr>)) (\<lambda>_.
     py_bind (on_files (ttylog_inputhash (ttylogFile m))) (\<lambda>shasum.
     let shasumfile = os_join (ttylog_path cfg) shasum in
     py_bind py_get (\<lambda>w.
     py_bind (on_files (if w_files w shasumfile \<noteq> None then os_remove (ttylogFile m) else os_rename (ttylogFile m) shasumfile)) (\<lambda>_.
     log_event (LogClosed shasumfile (ttylogSize m) shasum (w_files w shasumfile \<noteq> None))))))))"

definition connectionLost :: "rec_config \<Rightarrow> stamp \<Rightarrow> nat \<Rightarrow> unit rec_py" where
  "connectionLost cfg now i =
     py_bind (save_stdin cfg i) (\<lambda>_.
     py_bind (py_bind py_get (\<lambda>w. save_redirs cfg i (redirFiles w))) (\<lambda>_.
     py_bind (close_tty cfg now i) (\<lambda>_.
     set_member i (\<lambda>m. m\<lparr>terminal_open := False\<rparr>))))"

text \<open>A command that ends a redirection leaves the file and its entry.\<close>

definition add_redirect :: "string \<Rightarrow> string \<Rightarrow> string \<Rightarrow> unit rec_py" where
  "add_redirect rf url content = py_bind (on_files (append_file rf content)) (\<lambda>_.
     py_modify (\<lambda>w. w\<lparr>redirFiles := List.insert (rf, url) (redirFiles w)\<rparr>))"

section \<open>Sessions side by side\<close>

datatype rec_call = Made string stamp | Data stamp string | Output stamp string | Eof | Lost stamp
  | Redirected string string string

definition rec_call :: "rec_config \<Rightarrow> nat \<times> rec_call \<Rightarrow> unit rec_py" where
  "rec_call cfg jc = (case jc of (j, c) \<Rightarrow> (case c of
       Made when now \<Rightarrow> connectionMade cfg when now j
     | Data now data \<Rightarrow> dataReceived cfg now data j
     | Output now data \<Rightarrow> write_data cfg now data j
     | Eof \<Rightarrow> eofReceived j
     | Lost now \<Rightarrow> connectionLost cfg now j
     | Redirected rf url content \<Rightarrow> add_redirect rf url content))"

definition rec_step :: "rec_config \<Rightarrow> nat \<times> rec_call \<Rightarrow> rec_world \<Rightarrow> rec_world" where
  "rec_step cfg jc w = snd (rec_call cfg jc w)"

end
