(* ===== verification/SessionRecorderProps.thy ===== *)
theory SessionRecorderProps
  imports SessionRecorder
begin

text \<open>
  What a recording holds, whatever other sessions do meanwhile; what becomes of the files that
  redirections left; and where the attribute that all sessions share mixes them up.
\<close>

section \<open>Calls that leave a file and a session alone\<close>

text \<open>Nobody but session \<open>i\<close> writes to \<open>f\<close>, and nothing is kept under its name.\<close>

definition others_spare :: "string \<Rightarrow> nat \<Rightarrow> rec_world \<Rightarrow> bool" where
  "others_spare f i w \<longleftrightarrow> (\<forall>j. j \<noteq> i \<longrightarrow> ttylogOpen (members w j) \<longrightarrow> ttylogFile (members w j) \<noteq> f) \<and>
     (\<forall>j. stdinlogOpen (members w j) \<longrightarrow> stdinlogFile (members w j) \<noteq> f) \<and> (\<forall>rp \<in> set (redirFiles w). fst rp \<noteq> f)"

definition no_log_name :: "rec_config \<Rightarrow> string \<Rightarrow> bool" where
  "no_log_name cfg f \<longleftrightarrow> (\<forall>x. f \<noteq> os_join (ttylog_path cfg) (sha256_hex x))"

definition own_name :: "rec_config \<Rightarrow> string \<Rightarrow> bool" where
  "own_name cfg f \<longleftrightarrow> no_log_name cfg f \<and>
     (\<forall>t x. f \<noteq> os_join (download_path cfg) (t @ ''.'' @ sha256_hex x))"

definition apart :: "(recorder \<Rightarrow> 'a) \<Rightarrow> string \<Rightarrow> nat \<Rightarrow> rec_world \<Rightarrow> rec_world \<Rightarrow> bool" where
  "apart part f i w w' \<longleftrightarrow> (others_spare f i w \<longrightarrow>
     others_spare f i w' \<and> w_files w' f = w_files w f \<and> part (members w' i) = part (members w i))"

lemma apart_preorder [keeps_intros]: "preorder_on_states (apart part f i)"
  by (auto simp: preorder_on_states_def reflp_def transp_def apart_def)

lemma apart_files: "(\<And>h. snd (m h) f = h f) \<Longrightarrow> keeps (apart part f i) (on_files m)"
  by (simp add: keeps_def apart_def on_files_def others_spare_def case_prod_beta)

lemma apart_member:
  assumes "\<And>m. j = i \<Longrightarrow> part (g m) = part m"
    and "\<And>m. ttylogOpen (g m) \<longrightarrow> ttylogOpen m \<and> ttylogFile (g m) = ttylogFile m"
    and "\<And>m. stdinlogOpen (g m) \<longrightarrow> stdinlogOpen m \<and> stdinlogFile (g m) = stdinlogFile m"
  shows "keeps (apart part f i) (set_member j g)"
proof -
  have "apart part f i w (w\<lparr>members := (members w)(j := g (members w j))\<rparr>)" for w :: rec_world
    using assms unfolding apart_def others_spare_def by simp
  then show ?thesis by (simp add: keeps_def set_member_def)
qed

lemma apart_event: "keeps (apart part f i) (log_event ev)"
  by (auto simp: keeps_def apart_def log_event_def others_spare_def)

lemma apart_the_member [keeps_intros]: "keeps (apart part f i) (the_member j)"
  unfolding the_member_def by (intro keeps_intros)

text \<open>A computation that starts by reading a session, seen from one state.\<close>

lemma keeps_the_member:
  "(\<And>w. others_spare f i w \<Longrightarrow> keeps (apart part f i) (k (members w j))) \<Longrightarrow> keeps (apart part f i) (py_bind (the_member j) k)"
  by (auto simp: keeps_def the_member_def apart_def)

lemma keeps_finally: "keeps (apart part f i) m \<Longrightarrow> keeps (apart part f i) k \<Longrightarrow> keeps (apart part f i) (py_finally m k)"
  by (simp add: keeps_def py_finally_def apart_def case_prod_beta split: sum.split)

text \<open>The parts know the tests and the values they come after.\<close>

lemma keeps_cond: "(c \<Longrightarrow> keeps R a) \<Longrightarrow> (\<not> c \<Longrightarrow> keeps R b) \<Longrightarrow> keeps R (if c then a else b)"
  by simp

lemma keeps_bind_value:
  assumes "preorder_on_states R" and "keeps R m" and "\<And>a s s'. m s = (Inr a, s') \<Longrightarrow> keeps R (k a)"
  shows "keeps R (py_bind m k)"
proof -
  have "R s (snd (py_bind m k s))" for s
  proof (cases "m s")
    case (Pair r t)
    with assms(2) have st: "R s t" by (metis keepsD snd_conv)
    show ?thesis
    proof (cases r)
      case (Inr a)
      then have "R t (snd (k a t))" using assms(3) Pair by (blast intro: keepsD)
      with st assms(1) Inr Pair show ?thesis by (auto simp: preorder_on_states_def elim: transpE)
    qed (use Pair st in simp)
  qed
  then show ?thesis by (simp add: keeps_def)
qed

lemma append_spares: "g \<noteq> f \<Longrightarrow> snd (append_file g data h) f = h f"
  by (simp add: append_file_def)

lemma record_spares: "g \<noteq> f \<Longrightarrow> snd (ttylog_record g op len direction stamp data h) f = h f"
  by (auto simp: ttylog_record_def append_file_def split: sum.split)

lemma inputhash_spares: "snd (ttylog_inputhash g h) = h"
  by (auto simp: ttylog_inputhash_def split: option.split sum.split)

lemma remove_spares: "g \<noteq> f \<Longrightarrow> snd (os_remove g h) f = h f"
  by (simp add: os_remove_def)

lemma rename_spares: "g \<noteq> f \<Longrightarrow> t \<noteq> f \<Longrightarrow> snd (os_rename g t h) f = h f"
  by (simp add: os_rename_def)

lemmas host_spares = append_spares record_spares inputhash_spares remove_spares rename_spares

lemma apart_save_file:
  "g \<noteq> f \<Longrightarrow> own_name cfg f \<Longrightarrow> keeps (apart part f i) (save_file cfg j g content url)"
  unfolding save_file_def Let_def
  by (intro keeps_intros apart_files apart_event) (auto simp: own_name_def intro!: host_spares)

lemma apart_save_redirs:
  "own_name cfg f \<Longrightarrow> \<forall>rp \<in> set rps. fst rp \<noteq> f \<Longrightarrow> keeps (apart part f i) (save_redirs cfg j rps)"
proof (induction rps)
  case Nil
  have "apart part f i w (w\<lparr>redirFiles := []\<rparr>)" for w by (auto simp: apart_def others_spare_def)
  then show ?case unfolding save_redirs.simps by (rule keeps_modify)
next
  case (Cons rp rps)
  have "keeps (apart part f i) (save_redir cfg j rp)"
    unfolding save_redir_def using Cons.prems
    by (intro keeps_intros apart_files apart_save_file) (auto simp: host_spares)
  moreover have "keeps (apart part f i) (save_redirs cfg j rps)" using Cons by simp
  ultimately show ?case unfolding save_redirs.simps by (intro keeps_intros)
qed

lemma apart_save_stdin:
  assumes "own_name cfg f" and part: "\<And>m. j = i \<Longrightarrow> part (m\<lparr>stdinlogOpen := False\<rparr>) = part m"
  shows "keeps (apart part f i) (save_stdin cfg j)"
  unfolding save_stdin_def
proof (rule keeps_the_member)
  fix w :: rec_world assume "others_spare f i w"
  then have f: "stdinlogFile (members w j) \<noteq> f" if "stdinlogOpen (members w j)" using that by (auto simp: others_spare_def)
  have m: "keeps (apart part f i) (set_member j (\<lambda>m. m\<lparr>stdinlogOpen := False\<rparr>))"
    using part by (intro apart_member) auto
  show "keeps (apart part f i) (if \<not> stdinlogOpen (members w j) then py_return () else
      py_finally (py_bind py_get (\<lambda>v. case w_files v (stdinlogFile (members w j)) of
          None \<Rightarrow> py_return ()
        | Some content \<Rightarrow> save_file cfg j (stdinlogFile (members w j)) content []))
      (set_member j (\<lambda>m. m\<lparr>stdinlogOpen := False\<rparr>)))"
    using f assms(1) m
    by (cases "stdinlogOpen (members w j)") (auto intro!: keeps_intros keeps_finally apart_save_file)
qed

text \<open>The calls of the other sessions.\<close>

lemma others_tty: "others_spare f i w \<Longrightarrow> j \<noteq> i \<Longrightarrow> ttylogOpen (members w j) \<Longrightarrow> ttylogFile (members w j) \<noteq> f"
  by (simp add: others_spare_def)

lemma others_stdin: "others_spare f i w \<Longrightarrow> stdinlogOpen (members w j) \<Longrightarrow> stdinlogFile (members w j) \<noteq> f"
  by (simp add: others_spare_def)

lemma inputhash_is_hash: "on_files (ttylog_inputhash g) w = (Inr sha, w') \<Longrightarrow> \<exists>x. sha = sha256_hex x"
  by (auto simp: on_files_def ttylog_inputhash_def split: prod.splits option.splits sum.splits)

lemma apart_close_tty: "no_log_name cfg f \<Longrightarrow> j \<noteq> i \<Longrightarrow> keeps (apart part f i) (close_tty cfg now j)"
  unfolding close_tty_def Let_def ttylog_close_def
proof (rule keeps_the_member)
  fix w :: rec_world
  let ?g = "ttylogFile (members w j)" and ?open = "ttylog_on cfg \<and> ttylogOpen (members w j)"
  assume f: "no_log_name cfg f" and ji: "j \<noteq> i" and w: "others_spare f i w"
  then have g: "?open \<Longrightarrow> ?g \<noteq> f" by (simp add: others_tty)
  have hash: "os_join (ttylog_path cfg) sha \<noteq> f" if "on_files (ttylog_inputhash ?g) s = (Inr sha, s')" for sha s s'
    using inputhash_is_hash [OF that] f by (auto simp: no_log_name_def)
  have moved: "keeps (apart part f i) (py_bind py_get (\<lambda>v.
     py_bind (on_files (if w_files v target \<noteq> None then os_remove ?g else os_rename ?g target)) (\<lambda>_.
     log_event (LogClosed target n sha (w_files v target \<noteq> None)))))" if ?open "target \<noteq> f" for target n sha
    using that g by (auto intro!: keeps_intros apart_files apart_event host_spares)
  show "keeps (apart part f i) (if \<not> ?open then py_return () else
     py_bind (on_files (ttylog_record ?g OP_CLOSE 0 0 now [])) (\<lambda>_.
     py_bind (set_member j (\<lambda>m. m\<lparr>ttylogOpen := False\<rparr>)) (\<lambda>_.
     py_bind (on_files (ttylog_inputhash ?g)) (\<lambda>shasum.
     py_bind py_get (\<lambda>v.
     py_bind (on_files (if w_files v (os_join (ttylog_path cfg) shasum) \<noteq> None then os_remove ?g
       else os_rename ?g (os_join (ttylog_path cfg) shasum))) (\<lambda>_.
     log_event (LogClosed (os_join (ttylog_path cfg) shasum) (ttylogSize (members w j)) shasum
       (w_files v (os_join (ttylog_path cfg) shasum) \<noteq> None))))))))"
    (is "keeps _ (if _ then _ else py_bind ?record (\<lambda>_. py_bind ?close (\<lambda>_. py_bind ?hash ?rest)))")
  proof (cases ?open)
    case True
    have r: "keeps (apart part f i) ?record" and h: "keeps (apart part f i) ?hash"
      using g [OF True] by (auto intro!: apart_files host_spares simp: inputhash_spares)
    have c: "keeps (apart part f i) ?close" using ji by (intro apart_member) auto
    have "keeps (apart part f i) (?rest sha)" if "?hash s = (Inr sha, s')" for sha s s'
      using True hash [OF that] by (rule moved)
    then have "keeps (apart part f i) (py_bind ?hash ?rest)" by (rule keeps_bind_value [OF apart_preorder h])
    then have "keeps (apart part f i) (py_bind ?record (\<lambda>_. py_bind ?close (\<lambda>_. py_bind ?hash ?rest)))"
      by (rule keeps_bind [OF apart_preorder r keeps_bind [OF apart_preorder c]])
    with True show ?thesis by (simp only: if_False not_True_eq_False simp_thms)
  qed (simp only: if_True not_False_eq_True keeps_return apart_preorder)
qed

lemma apart_write_data: "j \<noteq> i \<Longrightarrow> keeps (apart part f i) (write_data cfg now data j)"
  unfolding write_data_def ttylog_write_def
  by (rule keeps_the_member)
    (intro keeps_bind [OF apart_preorder] keeps_cond keeps_return [OF apart_preorder] apart_files apart_member record_spares;
      simp add: others_tty)

lemma apart_eof: "(j = i \<Longrightarrow> \<forall>m n. part (m\<lparr>eofs := n\<rparr>) = part m) \<Longrightarrow> keeps (apart part f i) (eofReceived j)"
  unfolding eofReceived_def by (rule apart_member) auto

lemma apart_dataReceived:
  assumes "j \<noteq> i"
  shows "keeps (apart part f i) (dataReceived cfg now data j)"
  unfolding dataReceived_def ttylog_write_def
proof (rule keeps_bind [OF apart_preorder apart_member keeps_the_member])
  fix w :: rec_world assume "others_spare f i w"
  with assms show "keeps (apart part f i) ((\<lambda>m.
     if received_limit cfg \<noteq> 0 \<and> bytesReceived m > received_limit cfg then
       py_bind (log_event LimitReached) (\<lambda>_. eofReceived j)
     else
       py_bind (if stdinlogOpen m then
           on_files (append_file (stdinlogFile m) (if starts_with data ''C0'' then [] else stdin_data m data))
         else if ttylog_on cfg \<and> ttylogOpen m then
           on_files (ttylog_record (ttylogFile m) OP_WRITE (int (length data)) TYPE_INPUT now data)
         else py_return ()) (\<lambda>_.
       set_member j (\<lambda>m'. if terminal_open m' then m'\<lparr>fed := fed m' @ [stdin_data m data]\<rparr> else m'))) (members w j))"
    by (intro keeps_bind [OF apart_preorder] keeps_cond keeps_return [OF apart_preorder] apart_files apart_member apart_event
      apart_eof host_spares; simp add: others_tty others_stdin)
qed (use assms in simp_all)

lemma apart_listed_redirs:
  assumes "own_name cfg f"
  shows "keeps (apart part f i) (py_bind py_get (\<lambda>w. save_redirs cfg j (redirFiles w)))"
proof -
  have "apart part f i s (snd (save_redirs cfg j (redirFiles s) s))" for s
  proof (cases "others_spare f i s")
    case True
    then have "\<forall>rp \<in> set (redirFiles s). fst rp \<noteq> f" by (simp add: others_spare_def)
    from keepsD [OF apart_save_redirs [OF assms this]] show ?thesis .
  qed (simp add: apart_def)
  then show ?thesis by (simp add: keeps_def)
qed

lemma apart_connectionLost:
  assumes f: "own_name cfg f" and ji: "j \<noteq> i"
  shows "keeps (apart part f i) (connectionLost cfg now j)"
proof -
  have "keeps (apart part f i) (save_stdin cfg j)" using f ji by (intro apart_save_stdin) auto
  moreover have "keeps (apart part f i) (py_bind py_get (\<lambda>w. save_redirs cfg j (redirFiles w)))"
    by (rule apart_listed_redirs) (rule f)
  moreover have "keeps (apart part f i) (close_tty cfg now j)" using f ji by (intro apart_close_tty) (auto simp: own_name_def)
  moreover have "keeps (apart part f i) (set_member j (\<lambda>m. m\<lparr>terminal_open := False\<rparr>))"
    using ji by (intro apart_member) auto
  ultimately show ?thesis unfolding connectionLost_def by (blast intro: keeps_bind [OF apart_preorder])
qed

lemma apart_update:
  assumes "j \<noteq> i" and "h f = w_files w f" and "ttylogOpen m \<longrightarrow> ttylogFile m \<noteq> f" and "stdinlogOpen m \<longrightarrow> stdinlogFile m \<noteq> f"
  shows "apart part f i w (w\<lparr>w_files := h, members := (members w)(j := m)\<rparr>)"
  using assms unfolding apart_def others_spare_def by simp

lemma apart_connectionMade:
  assumes ji: "j \<noteq> i" and w: "tty_name cfg when (members w j) \<noteq> f" "stdin_name cfg when (members w j) \<noteq> f"
  shows "apart part f i w (snd (connectionMade cfg when now j w))"
proof -
  let ?m = "members w j" and ?g = "tty_name cfg when (members w j)"
  obtain r h where o: "ttylog_open ?g now (w_files w) = (r, h)" by fastforce
  obtain r' h' where x: "ttylog_write ?g (length (execcmd ?m)) TYPE_INTERACT now (execcmd ?m) h = (r', h')" by fastforce
  have s: "snd (ttylog_open ?g now h0) f = h0 f" "snd (ttylog_write ?g n TYPE_INTERACT now c h0) f = h0 f" for h0 n c
    using w(1) by (simp_all add: ttylog_open_def ttylog_write_def record_spares)
  have h: "h f = w_files w f" "h' f = w_files w f"
    using s(1) [of "w_files w"] s(2) [of "length (execcmd ?m)" "execcmd ?m" h] unfolding o x by simp_all
  have m: "tty_name cfg when (?m\<lparr>ttylogFile := ?g\<rparr>) = ?g" by (simp add: tty_name_def)
  show ?thesis
  proof (cases "ttylog_on cfg \<and> r = Inr ()")
    case True
    let ?n = "?m\<lparr>ttylogFile := ?g, ttylogOpen := True, ttylogSize := 0, stdinlogFile := stdin_name cfg when ?m,
        stdinlogOpen := is_exec ?m, terminal_open := True\<rparr>"
    have "snd (connectionMade cfg when now j w) =
        w\<lparr>w_files := if is_exec ?m then h' else h, members := (members w)(j := ?n)\<rparr>"
      using True o x by (simp add: connectionMade_def the_member_def set_member_def on_files_def stdin_name_def)
    with ji w h show ?thesis by (simp only:) (rule apart_update, simp_all)
  next
    case off: False
    show ?thesis
    proof (cases "ttylog_on cfg")
      case True
      then obtain e where "r = Inl e" using off by (cases r) auto
      then have "snd (connectionMade cfg when now j w) = w\<lparr>w_files := h, members := (members w)(j := ?m\<lparr>ttylogFile := ?g\<rparr>)\<rparr>"
        using True o by (simp add: connectionMade_def the_member_def set_member_def on_files_def)
      moreover have "apart part f i w w \<Longrightarrow> others_spare f i w \<Longrightarrow> stdinlogOpen ?m \<longrightarrow> stdinlogFile ?m \<noteq> f"
        by (simp add: others_spare_def)
      ultimately show ?thesis using ji w(1) h apart_update [of j i h f w "?m\<lparr>ttylogFile := ?g\<rparr>" part]
        by (cases "others_spare f i w") (simp_all add: apart_def others_spare_def)
    next
      case False
      then have "snd (connectionMade cfg when now j w) = w\<lparr>w_files := w_files w, members := (members w)(j :=
          ?m\<lparr>stdinlogFile := stdin_name cfg when ?m, stdinlogOpen := is_exec ?m, terminal_open := True\<rparr>)\<rparr>"
        by (simp add: connectionMade_def the_member_def set_member_def)
      then show ?thesis using ji w(2)
          apart_update [of j i "w_files w" f w "?m\<lparr>stdinlogFile := stdin_name cfg when ?m, stdinlogOpen := is_exec ?m, terminal_open := True\<rparr>" part]
        by (cases "others_spare f i w") (simp_all add: apart_def others_spare_def)
    qed
  qed
qed

lemma apart_redirect: "rf \<noteq> f \<Longrightarrow> keeps (apart part f i) (add_redirect rf url content)"
  unfolding add_redirect_def
  by (intro keeps_bind [OF apart_preorder] apart_files host_spares)
    (auto simp: keeps_def apart_def others_spare_def)

text \<open>A step that is not one of session \<open>i\<close> and does not name its file.\<close>

definition foreign :: "rec_config \<Rightarrow> string \<Rightarrow> nat \<Rightarrow> (nat \<Rightarrow> recorder) \<Rightarrow> nat \<times> rec_call \<Rightarrow> bool" where
  "foreign cfg f i ms jc = (case snd jc of
       Redirected rf url content \<Rightarrow> rf \<noteq> f
     | Made when now \<Rightarrow> fst jc \<noteq> i \<and> tty_name cfg when (ms (fst jc)) \<noteq> f \<and> stdin_name cfg when (ms (fst jc)) \<noteq> f
     | _ \<Rightarrow> fst jc \<noteq> i)"

lemma foreign_step:
  assumes "own_name cfg f" and "foreign cfg f i (members w) jc"
  shows "apart part f i w (rec_step cfg jc w)"
proof -
  obtain j c where jc: "jc = (j, c)" by fastforce
  note kinds = jc rec_step_def rec_call_def foreign_def
  show ?thesis
  proof (cases c)
    case (Made t now)
    then show ?thesis using assms by (simp add: kinds apart_connectionMade)
  next
    case (Data now data)
    then show ?thesis using assms keepsD [OF apart_dataReceived] by (simp add: kinds)
  next
    case (Output now data)
    then show ?thesis using assms keepsD [OF apart_write_data] by (simp add: kinds)
  next
    case Eof
    then show ?thesis using assms by (auto simp: kinds intro: keepsD [OF apart_eof])
  next
    case (Lost now)
    then show ?thesis using assms keepsD [OF apart_connectionLost] by (simp add: kinds)
  next
    case (Redirected rf url content)
    then show ?thesis using assms keepsD [OF apart_redirect] by (simp add: kinds)
  qed
qed

end
