(* ===== verification/RecordedSession.thy ===== *)
theory RecordedSession
  imports SessionRecorderProps
begin

text \<open>
  A session from its start to its end: the recording holds what passed, and is kept under the hash of what
  was typed, whatever other sessions do meanwhile.
\<close>

section \<open>The calls of one session\<close>

definition recording :: "string \<Rightarrow> nat \<Rightarrow> log_record list \<Rightarrow> rec_world \<Rightarrow> bool" where
  "recording f i rs w \<longleftrightarrow> others_spare f i w \<and> ttylogOpen (members w i) \<and> ttylogFile (members w i) = f \<and>
     w_files w f = Some (log_bytes rs) \<and> list_all record_ok rs"

lemma recording_foreign:
  assumes "own_name cfg f" and "foreign cfg f i (members w) jc" and "recording f i rs w"
  shows "recording f i rs (rec_step cfg jc w) \<and> members (rec_step cfg jc w) i = members w i"
  using foreign_step [OF assms(1,2), of id] assms(3) by (auto simp: apart_def recording_def)

text \<open>A record written by the session itself.\<close>

lemma own_record:
  assumes "recording f i rs w" and "record_ok (op, direction, now, data)"
  shows "on_files (ttylog_record f op (int (length data)) direction now data) w =
      (Inr (), w\<lparr>w_files := (w_files w)(f \<mapsto> log_bytes (rs @ [(op, direction, now, data)]))\<rparr>)"
    and "recording f i (rs @ [(op, direction, now, data)])
      (w\<lparr>w_files := (w_files w)(f \<mapsto> log_bytes (rs @ [(op, direction, now, data)]))\<rparr>)"
  using assms written_record [OF assms(2), of f "w_files w"]
  by (auto simp: on_files_def recording_def others_spare_def log_bytes_def)

lemma recording_member:
  assumes "recording f i rs w" and "ttylogOpen (g (members w i)) = ttylogOpen (members w i)"
    and "ttylogFile (g (members w i)) = ttylogFile (members w i)"
    and "stdinlogOpen (g (members w i)) \<longrightarrow> stdinlogOpen (members w i)" "stdinlogFile (g (members w i)) = stdinlogFile (members w i)"
  shows "recording f i rs (snd (set_member i g w))"
  using assms by (auto simp: recording_def set_member_def others_spare_def)

text \<open>What a call of the session adds to its recording.\<close>

definition over_limit :: "rec_config \<Rightarrow> nat \<Rightarrow> bool" where
  "over_limit cfg n \<longleftrightarrow> received_limit cfg \<noteq> 0 \<and> n > received_limit cfg"

definition own_call :: "rec_call \<Rightarrow> bool" where
  "own_call c = (case c of
       Data now data \<Rightarrow> record_ok (OP_WRITE, TYPE_INPUT, now, data)
     | Output now data \<Rightarrow> record_ok (OP_WRITE, TYPE_OUTPUT, now, data)
     | Eof \<Rightarrow> True
     | _ \<Rightarrow> False)"

lemma own_output:
  assumes "recording f i rs w" and "record_ok (OP_WRITE, TYPE_OUTPUT, now, data)" and "ttylog_on cfg"
  obtains rs' w' where "write_data cfg now data i w = (Inr (), w')" and "recording f i rs' w'"
    and "concat (map came_in rs') = concat (map came_in rs)"
    and "bytesReceived (members w' i) = bytesReceived (members w i)" "is_exec (members w' i) = is_exec (members w i)"
      "stdinlogOpen (members w' i) = stdinlogOpen (members w i)" "conn_id (members w' i) = conn_id (members w i)"
proof -
  let ?r = "(OP_WRITE, TYPE_OUTPUT, now, data)"
  let ?w = "w\<lparr>w_files := (w_files w)(f \<mapsto> log_bytes (rs @ [?r]))\<rparr>"
  let ?g = "\<lambda>m. m\<lparr>ttylogSize := ttylogSize m + length data\<rparr>" and ?s = "\<lambda>m. m\<lparr>shown := shown m @ [data]\<rparr>"
  have "write_data cfg now data i w = set_member i ?s (snd (set_member i ?g ?w))"
    using assms(3) own_record(1) [OF assms(1,2)] assms(1)
    by (simp add: write_data_def the_member_def recording_def ttylog_write_def set_member_def)
  moreover have "recording f i (rs @ [?r]) (snd (set_member i ?s (snd (set_member i ?g ?w))))"
    using own_record(2) [OF assms(1,2)] by (intro recording_member) (auto simp: set_member_def)
  ultimately show thesis
    by (intro that [of "snd (set_member i ?s (snd (set_member i ?g ?w)))" "rs @ [?r]"])
      (auto simp: set_member_def OP_WRITE_def TYPE_OUTPUT_def)
qed

text \<open>What counts as typed: what came before the limit, and only at an interactive session.\<close>

definition taken :: "rec_config \<Rightarrow> recorder \<Rightarrow> string \<Rightarrow> string" where
  "taken cfg m data = (if over_limit cfg (bytesReceived m + length data) \<or> stdinlogOpen m then [] else data)"

lemma own_data:
  assumes rec: "recording f i rs w" and ok: "record_ok (OP_WRITE, TYPE_INPUT, now, data)" and on: "ttylog_on cfg"
  obtains rs' w' where "dataReceived cfg now data i w = (Inr (), w')" and "recording f i rs' w'"
    and "concat (map came_in rs') = concat (map came_in rs) @ taken cfg (members w i) data"
    and "bytesReceived (members w' i) = bytesReceived (members w i) + length data" "is_exec (members w' i) = is_exec (members w i)"
      "stdinlogOpen (members w' i) = stdinlogOpen (members w i)" "conn_id (members w' i) = conn_id (members w i)"
proof -
  let ?m = "members w i"
  define u where "u = snd (set_member i (\<lambda>m. m\<lparr>bytesReceived := bytesReceived m + length data\<rparr>) w)"
  have u: "recording f i rs u" unfolding u_def using rec by (rule recording_member) auto
  have ui: "members u i = ?m\<lparr>bytesReceived := bytesReceived ?m + length data\<rparr>"
    by (simp add: u_def set_member_def)
  let ?fed = "\<lambda>m'. if terminal_open m' then m'\<lparr>fed := fed m' @ [stdin_data (members u i) data]\<rparr> else m'"
  have run: "dataReceived cfg now data i w =
      (if over_limit cfg (bytesReceived ?m + length data) then py_bind (log_event LimitReached) (\<lambda>_. eofReceived i) u
       else py_bind (if stdinlogOpen ?m then on_files (append_file (stdinlogFile ?m) (if starts_with data ''C0'' then [] else stdin_data (members u i) data))
           else on_files (ttylog_write f (length data) TYPE_INPUT now data)) (\<lambda>_. set_member i ?fed) u)"
  proof -
    have s: "set_member i (\<lambda>m. m\<lparr>bytesReceived := bytesReceived m + length data\<rparr>) w = (Inr (), u)"
      by (simp add: u_def set_member_def)
    have m: "the_member i u = (Inr (members u i), u)" by (simp add: the_member_def)
    have "ttylogOpen (members u i)" "ttylogFile (members u i) = f" "stdinlogOpen (members u i) = stdinlogOpen ?m"
      "stdinlogFile (members u i) = stdinlogFile ?m" "bytesReceived (members u i) = bytesReceived ?m + length data"
      using u by (auto simp: recording_def ui)
    with on show ?thesis by (simp only: dataReceived_def py_bind_apply s m sum.case prod.case over_limit_def) simp
  qed
  show thesis
  proof (cases "over_limit cfg (bytesReceived ?m + length data)")
    case True
    let ?v = "u\<lparr>w_events := w_events u @ [LimitReached]\<rparr>" and ?e = "\<lambda>m. if terminal_open m then m\<lparr>eofs := eofs m + 1\<rparr> else m"
    have "recording f i rs ?v" using u by (simp add: recording_def others_spare_def)
    then have "recording f i rs (snd (set_member i ?e ?v))" by (rule recording_member) auto
    then show thesis using True run ui
      by (intro that [of "snd (set_member i ?e ?v)" rs]) (auto simp: taken_def log_event_def eofReceived_def set_member_def)
  next
    case le: False
    show thesis
    proof (cases "stdinlogOpen ?m")
      case True
      let ?app = "append_file (stdinlogFile ?m) (if starts_with data ''C0'' then [] else stdin_data (members u i) data)"
      define v where "v = snd (on_files ?app u)"
      have v: "on_files ?app u = (Inr (), v)" by (simp add: v_def on_files_def append_file_def)
      have "stdinlogFile ?m \<noteq> f" using rec True by (auto simp: recording_def others_spare_def)
      then have "recording f i rs v" and vi: "members v i = members u i"
        using u by (auto simp: v_def recording_def on_files_def append_file_def others_spare_def)
      then have "recording f i rs (snd (set_member i ?fed v))" by (intro recording_member) auto
      then show thesis using True le run ui v vi
        by (intro that [of "snd (set_member i ?fed v)" rs]) (simp_all add: taken_def set_member_def)
    next
      case False
      let ?r = "(OP_WRITE, TYPE_INPUT, now, data)" and ?v = "u\<lparr>w_files := (w_files u)(f \<mapsto> log_bytes (rs @ [(OP_WRITE, TYPE_INPUT, now, data)]))\<rparr>"
      have "recording f i (rs @ [?r]) (snd (set_member i ?fed ?v))"
        using own_record(2) [OF u ok] by (rule recording_member) auto
      moreover have "came_in ?r = data" by (simp add: TYPE_INPUT_def TYPE_OUTPUT_def)
      ultimately show thesis using False le run ui own_record(1) [OF u ok]
        by (intro that [of "snd (set_member i ?fed ?v)" "rs @ [?r]"]) (auto simp: taken_def set_member_def ttylog_write_def)
    qed
  qed
qed

section \<open>From start to end\<close>

text \<open>What is typed in a sequence of calls, with the limit counted from \<open>n\<close>.\<close>

fun typed :: "rec_config \<Rightarrow> nat \<Rightarrow> nat \<Rightarrow> (nat \<times> rec_call) list \<Rightarrow> string" where
  "typed cfg i n [] = []"
| "typed cfg i n ((j, c) # evs) = (case c of
       Data now data \<Rightarrow> if j = i
         then (if over_limit cfg (n + length data) then [] else data) @ typed cfg i (n + length data) evs
         else typed cfg i n evs
     | _ \<Rightarrow> typed cfg i n evs)"

text \<open>The calls of the session are those of a running one; the others do not name its file.\<close>

definition session_calls :: "rec_config \<Rightarrow> string \<Rightarrow> nat \<Rightarrow> (nat \<Rightarrow> recorder) \<Rightarrow> (nat \<times> rec_call) list \<Rightarrow> bool" where
  "session_calls cfg f i ms evs \<longleftrightarrow>
     (\<forall>ev \<in> set evs. if fst ev = i \<and> (\<forall>rf url c. snd ev \<noteq> Redirected rf url c) then own_call (snd ev) else foreign cfg f i ms ev)"

definition same_ids :: "(nat \<Rightarrow> recorder) \<Rightarrow> (nat \<Rightarrow> recorder) \<Rightarrow> bool" where
  "same_ids ms ms' \<longleftrightarrow> (\<forall>j. session_ids (ms' j) = session_ids (ms j) \<and> is_exec (ms' j) = is_exec (ms j))"

definition ids_kept :: "rec_world \<Rightarrow> rec_world \<Rightarrow> bool" where
  "ids_kept w w' \<longleftrightarrow> same_ids (members w) (members w') \<and> (\<forall>j. conn_id (members w' j) = conn_id (members w j))"

lemma ids_preorder [keeps_intros]: "preorder_on_states ids_kept"
  by (auto simp: preorder_on_states_def reflp_def transp_def ids_kept_def same_ids_def)

lemma ids_member:
  "(\<And>m. session_ids (g m) = session_ids m \<and> is_exec (g m) = is_exec m \<and> conn_id (g m) = conn_id m) \<Longrightarrow>
     keeps ids_kept (set_member j g)"
  by (auto simp: keeps_def ids_kept_def same_ids_def set_member_def)

lemma ids_files: "keeps ids_kept (on_files m)" "keeps ids_kept (log_event ev)" "keeps ids_kept (the_member j)"
  by (auto simp: keeps_def ids_kept_def same_ids_def on_files_def log_event_def the_member_def split: prod.split)

lemma ids_finally: "keeps ids_kept m \<Longrightarrow> keeps ids_kept k \<Longrightarrow> keeps ids_kept (py_finally m k)"
  by (auto simp: keeps_def py_finally_def ids_kept_def same_ids_def split: prod.split sum.split) (metis snd_conv)+

lemma ids_save_file: "keeps ids_kept (save_file cfg j g content url)"
  unfolding save_file_def Let_def by (intro keeps_intros ids_files)

lemma ids_redirs: "keeps ids_kept (save_redirs cfg j rps)"
proof (induction rps)
  case Nil
  have "ids_kept w (w\<lparr>redirFiles := []\<rparr>)" for w by (simp add: ids_kept_def same_ids_def)
  then show ?case unfolding save_redirs.simps by (rule keeps_modify)
next
  case (Cons rp rps)
  have "keeps ids_kept (save_redir cfg j rp)"
    unfolding save_redir_def by (intro keeps_intros ids_files ids_save_file)
  then show ?case unfolding save_redirs.simps by (intro keeps_bind [OF ids_preorder] Cons)
qed

lemma ids_stdin: "keeps ids_kept (save_stdin cfg j)"
  unfolding save_stdin_def by (intro keeps_intros ids_files ids_finally ids_save_file ids_member) simp

lemma ids_add_redirect: "keeps ids_kept (add_redirect rf url content)"
proof -
  have "ids_kept w (w\<lparr>redirFiles := List.insert (rf, url) (redirFiles w)\<rparr>)" for w by (simp add: ids_kept_def same_ids_def)
  then show ?thesis unfolding add_redirect_def by (intro keeps_intros ids_files keeps_modify)
qed

lemma ids_step: "ids_kept w (rec_step cfg jc w)"
proof -
  obtain j c where jc: "jc = (j, c)" by fastforce
  have "keeps ids_kept (rec_call cfg (j, c))"
  proof (cases c)
    case (Lost now)
    then show ?thesis unfolding rec_call_def connectionLost_def close_tty_def Let_def
      by (simp, intro keeps_intros ids_files ids_member ids_redirs ids_stdin) auto
  qed (auto simp: rec_call_def connectionMade_def dataReceived_def write_data_def eofReceived_def
      intro!: keeps_intros ids_files ids_member ids_add_redirect split: if_splits)
  then show ?thesis unfolding jc rec_step_def by (rule keepsD)
qed

lemma foreign_ids: "same_ids ms ms' \<Longrightarrow> foreign cfg f i ms' ev = foreign cfg f i ms ev"
  by (auto simp: foreign_def same_ids_def tty_name_def stdin_name_def split: rec_call.split)

lemma calls_recorded:
  assumes "own_name cfg f" and "ttylog_on cfg" and "session_calls cfg f i ms evs" and "same_ids ms (members w)"
    and "recording f i rs w" and "stdinlogOpen (members w i) = is_exec (members w i)"
  shows "\<exists>rs'. recording f i rs' (fold (rec_step cfg) evs w) \<and>
    concat (map came_in rs') = concat (map came_in rs) @ (if is_exec (members w i) then [] else typed cfg i (bytesReceived (members w i)) evs) \<and>
    ids_kept w (fold (rec_step cfg) evs w)"
  using assms(3-6)
proof (induction evs arbitrary: w rs)
  case Nil
  have "ids_kept w w" by (simp add: ids_kept_def same_ids_def)
  with Nil show ?case by auto
next
  case (Cons ev evs)
  obtain j c where ev: "ev = (j, c)" by fastforce
  let ?w = "rec_step cfg ev w"
  have ids: "ids_kept w ?w" "same_ids ms (members ?w)"
    using ids_step [of w cfg ev] Cons.prems(2) by (auto simp: ids_kept_def same_ids_def)
  have calls: "session_calls cfg f i ms evs" using Cons.prems(1) by (simp add: session_calls_def)
  obtain rs' where rs': "recording f i rs' ?w" "stdinlogOpen (members ?w i) = is_exec (members ?w i)"
    "is_exec (members ?w i) = is_exec (members w i)"
    "concat (map came_in rs') @ (if is_exec (members w i) then [] else typed cfg i (bytesReceived (members ?w i)) evs) =
     concat (map came_in rs) @ (if is_exec (members w i) then [] else typed cfg i (bytesReceived (members w i)) (ev # evs))"
  proof (cases "fst ev = i \<and> (\<forall>rf url c. snd ev \<noteq> Redirected rf url c)")
    case True
    then have c: "j = i" "own_call c" using Cons.prems(1) ev by (auto simp: session_calls_def)
    show thesis
    proof (cases c)
      case (Data now data)
      then have "record_ok (OP_WRITE, TYPE_INPUT, now, data)" using c by (simp add: own_call_def)
      then obtain rs' w' where "dataReceived cfg now data i w = (Inr (), w')" "recording f i rs' w'"
        "concat (map came_in rs') = concat (map came_in rs) @ taken cfg (members w i) data"
        "bytesReceived (members w' i) = bytesReceived (members w i) + length data" "is_exec (members w' i) = is_exec (members w i)"
        "stdinlogOpen (members w' i) = stdinlogOpen (members w i)"
        using own_data [OF Cons.prems(3) _ assms(2)] by metis
      then show thesis using Data c Cons.prems(4)
        by (intro that [of rs']) (auto simp: ev rec_step_def rec_call_def taken_def)
    next
      case (Output now data)
      then have "record_ok (OP_WRITE, TYPE_OUTPUT, now, data)" using c by (simp add: own_call_def)
      then obtain rs' w' where "write_data cfg now data i w = (Inr (), w')" "recording f i rs' w'"
        "concat (map came_in rs') = concat (map came_in rs)"
        "bytesReceived (members w' i) = bytesReceived (members w i)" "is_exec (members w' i) = is_exec (members w i)"
        "stdinlogOpen (members w' i) = stdinlogOpen (members w i)"
        using own_output [OF Cons.prems(3) _ assms(2)] by metis
      then show thesis using Output c Cons.prems(4)
        by (intro that [of rs']) (auto simp: ev rec_step_def rec_call_def)
    next
      case Eof
      have "recording f i rs (snd (eofReceived i w))"
        unfolding eofReceived_def by (rule recording_member [OF Cons.prems(3)]) auto
      then show thesis using Eof c Cons.prems(4)
        by (intro that [of rs]) (auto simp: ev rec_step_def rec_call_def eofReceived_def set_member_def)
    qed (use c in \<open>auto simp: own_call_def\<close>)
  next
    case False
    then have "foreign cfg f i (members w) ev"
      using Cons.prems(1,2) foreign_ids [of ms "members w" cfg f i ev] by (auto simp: session_calls_def)
    then have r: "recording f i rs ?w" "members ?w i = members w i" and fo: "foreign cfg f i (members w) ev"
      using recording_foreign [OF assms(1) _ Cons.prems(3)] by auto
    have "typed cfg i n (ev # evs) = typed cfg i n evs" for n
      using False fo by (cases c) (auto simp: ev foreign_def)
    with r Cons.prems(4) show thesis by (intro that [of rs]) simp_all
  qed
  from Cons.IH [OF calls ids(2) rs'(1,2)] rs'(3,4) ids(1) show ?case
    by (auto simp: ids_kept_def same_ids_def)
qed

text \<open>The start: a new file, and for a single command its text.\<close>

definition can_start :: "rec_config \<Rightarrow> string \<Rightarrow> nat \<Rightarrow> string \<Rightarrow> stamp \<Rightarrow> rec_world \<Rightarrow> bool" where
  "can_start cfg f i when now w \<longleftrightarrow> ttylog_on cfg \<and> own_name cfg f \<and> others_spare f i w \<and> w_files w f = None \<and>
     tty_name cfg when (members w i) = f \<and> stdin_name cfg when (members w i) \<noteq> f \<and>
     bytesReceived (members w i) = 0 \<and> conn_id (members w i) \<noteq> None \<and>
     record_ok (OP_OPEN, 0, now, []) \<and> record_ok (OP_WRITE, TYPE_INTERACT, now, execcmd (members w i))"

lemma session_started:
  assumes "can_start cfg f i when now w"
  obtains rs where "recording f i rs (rec_step cfg (i, Made when now) w)"
    and "concat (map came_in rs) = (if is_exec (members w i) then execcmd (members w i) else [])"
    and "bytesReceived (members (rec_step cfg (i, Made when now) w) i) = 0"
    and "stdinlogOpen (members (rec_step cfg (i, Made when now) w) i) = is_exec (members w i)"
proof -
  let ?m = "members w i" and ?o = "(OP_OPEN, 0, now, [])" and ?x = "(OP_WRITE, TYPE_INTERACT, now, execcmd (members w i))"
  let ?u = "w\<lparr>w_files := (w_files w)(f \<mapsto> log_bytes [?o]), members := (members w)(i := ?m\<lparr>ttylogFile := f, ttylogOpen := True,
      ttylogSize := 0, stdinlogFile := stdin_name cfg when ?m, stdinlogOpen := is_exec ?m, terminal_open := True\<rparr>)\<rparr>"
  have rec: "recording f i [?o] ?u"
    using assms by (auto simp: recording_def can_start_def others_spare_def)
  have "ttylog_open f now (w_files w) = (Inr (), (w_files w)(f \<mapsto> log_bytes [?o]))"
    using assms written_record [of OP_OPEN 0 now "[]" f "w_files w"]
    by (simp add: can_start_def ttylog_open_def log_bytes_def)
  then have made: "connectionMade cfg when now i w = (if is_exec ?m
      then on_files (ttylog_write f (length (execcmd ?m)) TYPE_INTERACT now (execcmd ?m)) ?u else (Inr (), ?u))"
    using assms by (simp add: connectionMade_def the_member_def set_member_def on_files_def can_start_def stdin_name_def)
  show thesis
  proof (cases "is_exec ?m")
    case True
    have x: "record_ok ?x" using assms by (simp add: can_start_def)
    have "came_in ?x = execcmd ?m" by (simp add: TYPE_INTERACT_def TYPE_OUTPUT_def)
    with True made own_record [OF rec x] assms show thesis
      by (intro that [of "[?o] @ [?x]"]) (simp_all add: rec_step_def rec_call_def ttylog_write_def can_start_def)
  next
    case False
    with made rec assms show thesis
      by (intro that [of "[?o]"]) (simp_all add: rec_step_def rec_call_def can_start_def)
  qed
qed

text \<open>The end: with a connection's name at hand nothing raises, and the log is closed and kept.\<close>

lemma save_file_returns:
  "w_files w g \<noteq> None \<Longrightarrow> conn_id (members w i) \<noteq> None \<Longrightarrow> fst (save_file cfg i g content url w) = Inr ()"
  by (auto simp: save_file_def the_member_def Let_def on_files_def os_remove_def os_rename_def log_event_def)

lemma save_redirs_return: "conn_id (members w i) \<noteq> None \<Longrightarrow> fst (save_redirs cfg i rps w) = Inr ()"
proof (induction rps arbitrary: w)
  case (Cons rp rps)
  have r: "fst (save_redir cfg i rp w) = Inr ()"
  proof (cases "w_files w (fst rp)")
    case (Some content)
    then show ?thesis
      using save_file_returns [of w "fst rp" i cfg content] Cons.prems
      by (cases "content = []") (simp_all add: save_redir_def on_files_def os_remove_def)
  qed (simp add: save_redir_def)
  have "keeps ids_kept (save_redir cfg i rp)"
    unfolding save_redir_def by (intro keeps_intros ids_files ids_save_file)
  then have "ids_kept w (snd (save_redir cfg i rp w))" by (rule keepsD)
  then have "conn_id (members (snd (save_redir cfg i rp w)) i) \<noteq> None"
    using Cons.prems by (simp add: ids_kept_def)
  with Cons.IH r show ?case by (cases "save_redir cfg i rp w") simp
qed simp

lemma save_stdin_returns: "conn_id (members w i) \<noteq> None \<Longrightarrow> fst (save_stdin cfg i w) = Inr ()"
  using save_file_returns [of w "stdinlogFile (members w i)" i cfg]
  by (auto simp: save_stdin_def the_member_def py_finally_def set_member_def split: option.split prod.split) (metis fst_conv)+

lemma close_recorded:
  assumes rec: "recording f i rs w" and own: "own_name cfg f" and on: "ttylog_on cfg"
    and now: "record_ok (OP_CLOSE, 0, now, [])"
  defines "sha \<equiv> sha256_hex (concat (map came_in rs))"
  defines "target \<equiv> os_join (ttylog_path cfg) sha"
  shows "\<exists>w'. close_tty cfg now i w = (Inr (), w') \<and>
    w_events w' = w_events w @ [LogClosed target (ttylogSize (members w i)) sha (w_files w target \<noteq> None)] \<and>
    w_files w' target = (if w_files w target \<noteq> None then w_files w target else Some (log_bytes (rs @ [(OP_CLOSE, 0, now, [])])))"
proof -
  let ?rs = "rs @ [(OP_CLOSE, 0, now, [])]"
  let ?u = "w\<lparr>w_files := (w_files w)(f \<mapsto> log_bytes ?rs)\<rparr>"
  let ?v = "?u\<lparr>members := (members w)(i := (members w i)\<lparr>ttylogOpen := False\<rparr>)\<rparr>"
  have m: "ttylogOpen (members w i)" "ttylogFile (members w i) = f" using rec by (auto simp: recording_def)
  have c: "on_files (ttylog_close f now) w = (Inr (), ?u)"
    using own_record(1) [OF rec now] by (simp add: ttylog_close_def)
  have "list_all record_ok ?rs" using rec now by (simp add: recording_def)
  then have "input_bytes [] (log_bytes ?rs) = Inr (concat (map came_in ?rs))"
    using input_bytes_records [of ?rs "[]"] by (simp add: log_bytes_def)
  then have h: "on_files (ttylog_inputhash f) ?v = (Inr sha, ?v)"
    by (simp add: on_files_def ttylog_inputhash_def sha_def)
  have "f \<noteq> target" using own by (simp add: own_name_def no_log_name_def target_def sha_def)
  then show ?thesis
    using c h m on
    by (auto simp: close_tty_def the_member_def set_member_def Let_def target_def on_files_def os_remove_def os_rename_def
      log_event_def split: prod.splits)
qed

lemma session_closed:
  assumes rec: "recording f i rs w" and own: "own_name cfg f" and on: "ttylog_on cfg"
    and conn: "conn_id (members w i) \<noteq> None" and now: "record_ok (OP_CLOSE, 0, now, [])"
  defines "sha \<equiv> sha256_hex (concat (map came_in rs))"
  defines "target \<equiv> os_join (ttylog_path cfg) sha"
  obtains n dup content where "last (w_events (rec_step cfg (i, Lost now) w)) = LogClosed target n sha dup"
    and "w_files (rec_step cfg (i, Lost now) w) target = Some content"
    and "\<not> dup \<Longrightarrow> input_bytes [] content = Inr (concat (map came_in rs))"
proof -
  define part :: "recorder \<Rightarrow> bool \<times> string" where "part = (\<lambda>m. (ttylogOpen m, ttylogFile m))"
  obtain u where u: "save_stdin cfg i w = (Inr (), u)"
    using save_stdin_returns [OF conn] by (metis prod.collapse)
  have "apart part f i w u" "ids_kept w u"
    using keepsD [OF apart_save_stdin [OF own, of i i part], of w] keepsD [OF ids_stdin, of w cfg i] u by (simp_all add: part_def)
  then have ru: "recording f i rs u" and cu: "conn_id (members u i) \<noteq> None"
    using rec conn by (simp_all add: apart_def recording_def part_def ids_kept_def)
  obtain v where v: "save_redirs cfg i (redirFiles u) u = (Inr (), v)"
    using save_redirs_return [OF cu] by (metis prod.collapse)
  have "apart part f i u v"
    using keepsD [OF apart_listed_redirs [OF own, of part i i], of u] v by simp
  then have rv: "recording f i rs v" using ru by (simp add: apart_def recording_def part_def)
  obtain x where x: "close_tty cfg now i v = (Inr (), x)"
    "w_events x = w_events v @ [LogClosed target (ttylogSize (members v i)) sha (w_files v target \<noteq> None)]"
    "w_files x target = (if w_files v target \<noteq> None then w_files v target else Some (log_bytes (rs @ [(OP_CLOSE, 0, now, [])])))"
    using close_recorded [OF rv own on now] by (auto simp: sha_def target_def)
  have step: "rec_step cfg (i, Lost now) w = x\<lparr>members := (members x)(i := (members x i)\<lparr>terminal_open := False\<rparr>)\<rparr>"
    using u v x(1) by (simp add: rec_step_def rec_call_def connectionLost_def set_member_def)
  have "list_all record_ok (rs @ [(OP_CLOSE, 0, now, [])])" using rv now by (simp add: recording_def)
  then have "input_bytes [] (log_bytes (rs @ [(OP_CLOSE, 0, now, [])])) = Inr (concat (map came_in rs))"
    using input_bytes_records [of "rs @ [(OP_CLOSE, 0, now, [])]" "[]"] by (simp add: log_bytes_def)
  then show thesis using x(2,3)
    by (cases "w_files v target") (auto simp: step intro!: that [of "ttylogSize (members v i)" "w_files v target \<noteq> None"])
qed


text \<open>A host with two sessions, the second with a single command.\<close>

definition ex_recorder :: "bool \<Rightarrow> string \<Rightarrow> recorder" where
  "ex_recorder exec name = \<lparr>is_exec = exec, execcmd = (if exec then ''cat'' else []), session_ids = (name, ''0''), conn_id = Some name,
     ttylogFile = [], ttylogOpen = False, ttylogSize = 0, stdinlogFile = [], stdinlogOpen = False, bytesReceived = 0,
     terminal_open = False, fed = [], shown = [], eofs = 0\<rparr>"

definition ex_rec_world :: rec_world where
  "ex_rec_world = \<lparr>w_files = Map.empty, redirFiles = [], w_events = [],
     members = (\<lambda>j. if j = 0 then ex_recorder False ''a'' else ex_recorder True ''b'')\<rparr>"

definition ex_rec_config :: rec_config where
  "ex_rec_config = \<lparr>ttylog_path = ''/t'', download_path = ''/d'', ttylog_on = True, received_limit = 0\<rparr>"

lemma short_os_join: "length f < 64 \<Longrightarrow> f \<noteq> os_join path (sha256_hex x)" "length f < 64 \<Longrightarrow> f \<noteq> os_join path (t @ ''.'' @ sha256_hex x)"
  using length_sha256_hex [of x] by (auto simp: os_join_def split: if_splits)


end
