(* ===== verification/SavedFiles.thy ===== *)
theory SavedFiles
  imports RecordedSession
begin

text \<open>
  What becomes of the files that redirections left when a session ends: all of them are kept, under the
  name of the session that ends and the hash of their content; a telnet session with such a file does not end.
\<close>

definition artifact :: "rec_config \<Rightarrow> string \<Rightarrow> string \<Rightarrow> string" where
  "artifact cfg tid c = os_join (download_path cfg) (tid @ ''.'' @ sha256_hex c)"

text \<open>What is kept has the hash it is named by.\<close>

definition hash_named :: "rec_config \<Rightarrow> string \<Rightarrow> files \<Rightarrow> bool" where
  "hash_named cfg tid h \<longleftrightarrow> (\<forall>c d. h (artifact cfg tid c) = Some d \<longrightarrow> sha256_hex d = sha256_hex c)"

definition saved :: "rec_config \<Rightarrow> string \<Rightarrow> files \<Rightarrow> string \<Rightarrow> bool" where
  "saved cfg tid h c \<longleftrightarrow> (\<exists>d. h (artifact cfg tid c) = Some d \<and> sha256_hex d = sha256_hex c)"

definition no_artifact :: "rec_config \<Rightarrow> string \<Rightarrow> string \<Rightarrow> bool" where
  "no_artifact cfg tid g \<longleftrightarrow> (\<forall>c. g \<noteq> artifact cfg tid c)"

lemma artifact_eq: "artifact cfg tid c = artifact cfg tid d \<longleftrightarrow> sha256_hex c = sha256_hex d"
  by (cases tid) (auto simp: artifact_def os_join_def starts_with_def)

text \<open>One file: it is gone, and its content is kept.\<close>

lemma save_file_saves:
  assumes g: "no_artifact cfg tid g" and c: "w_files w g = Some c" and m: "conn_id (members w i) = Some tid"
    and h: "hash_named cfg tid (w_files w)"
  shows "\<exists>w'. save_file cfg i g c url w = (Inr (), w') \<and> redirFiles w' = redirFiles w \<and> members w' = members w \<and>
    w_files w' g = None \<and> saved cfg tid (w_files w') c \<and> hash_named cfg tid (w_files w') \<and>
    (\<forall>d. saved cfg tid (w_files w) d \<longrightarrow> saved cfg tid (w_files w') d) \<and>
    (\<forall>f. f \<noteq> g \<longrightarrow> no_artifact cfg tid f \<longrightarrow> w_files w' f = w_files w f)"
proof -
  let ?a = "artifact cfg tid c"
  let ?h = "if w_files w ?a \<noteq> None then (w_files w)(g := None) else (w_files w)(?a \<mapsto> c, g := None)"
  have ga: "g \<noteq> artifact cfg tid d" for d using g by (simp add: no_artifact_def)
  let ?w = "w\<lparr>w_files := ?h, w_events := w_events w @ [FileDownload \<lparr>saved_duplicate = w_files w ?a \<noteq> None,
      saved_outfile = ?a, saved_shasum = sha256_hex c, saved_destfile = url\<rparr>]\<rparr>"
  have run: "save_file cfg i g c url w = (Inr (), ?w)"
    using m c ga [of c] by (cases "w_files w ?a") (simp_all add: save_file_def the_member_def Let_def on_files_def os_remove_def
      os_rename_def log_event_def artifact_def)
  have "saved cfg tid ?h c" using h ga by (auto simp: saved_def hash_named_def)
  moreover have "hash_named cfg tid ?h"
    using h ga [THEN not_sym] by (auto simp: hash_named_def artifact_eq split: if_splits)
  moreover have "saved cfg tid (w_files w) d \<longrightarrow> saved cfg tid ?h d" for d
    using ga by (auto simp: saved_def)
  moreover have "?h g = None" "\<forall>f. f \<noteq> g \<longrightarrow> no_artifact cfg tid f \<longrightarrow> ?h f = w_files w f"
    by (auto simp: no_artifact_def)
  ultimately show ?thesis using run by (intro exI [of _ ?w]) simp
qed

text \<open>All files of the list.\<close>

definition redirs_saved :: "rec_config \<Rightarrow> string \<Rightarrow> (string \<times> string) list \<Rightarrow> files \<Rightarrow> files \<Rightarrow> bool" where
  "redirs_saved cfg tid rps h h' \<longleftrightarrow> hash_named cfg tid h' \<and> (\<forall>d. saved cfg tid h d \<longrightarrow> saved cfg tid h' d) \<and>
     (\<forall>rp \<in> set rps. h' (fst rp) = None \<and> (\<forall>c. h (fst rp) = Some c \<longrightarrow> c = [] \<or> saved cfg tid h' c)) \<and>
     (\<forall>f. f \<notin> fst ` set rps \<longrightarrow> no_artifact cfg tid f \<longrightarrow> h' f = h f)"

lemma save_redir_saves:
  assumes "no_artifact cfg tid (fst rp)" and "conn_id (members w i) = Some tid" and "hash_named cfg tid (w_files w)"
  shows "\<exists>w'. save_redir cfg i rp w = (Inr (), w') \<and> redirFiles w' = redirFiles w \<and> members w' = members w \<and>
    redirs_saved cfg tid [rp] (w_files w) (w_files w')"
proof (cases "w_files w (fst rp)")
  case None
  then show ?thesis using assms by (simp add: save_redir_def redirs_saved_def)
next
  case (Some c)
  have sym: "artifact cfg tid d \<noteq> fst rp" for d using assms(1) by (metis no_artifact_def)
  show ?thesis
  proof (cases "c = []")
    case True
    then show ?thesis
      using Some assms sym by (auto simp: save_redir_def redirs_saved_def on_files_def os_remove_def saved_def hash_named_def no_artifact_def)
  next
    case False
    then show ?thesis
      using Some save_file_saves [OF assms(1) Some assms(2,3), of "redir_url rp"]
      by (auto simp: save_redir_def redirs_saved_def)
  qed
qed

lemma save_redirs_save:
  assumes "\<forall>rp \<in> set rps. no_artifact cfg tid (fst rp)" and "conn_id (members w i) = Some tid"
    and "hash_named cfg tid (w_files w)"
  shows "\<exists>w'. save_redirs cfg i rps w = (Inr (), w') \<and> redirFiles w' = [] \<and> members w' = members w \<and>
    redirs_saved cfg tid rps (w_files w) (w_files w')"
  using assms
proof (induction rps arbitrary: w)
  case Nil
  then show ?case by (simp add: redirs_saved_def)
next
  case (Cons rp rps)
  then obtain u where u: "save_redir cfg i rp w = (Inr (), u)" "members u = members w"
      "redirs_saved cfg tid [rp] (w_files w) (w_files u)"
    using save_redir_saves [of cfg tid rp w i] by auto
  then have "conn_id (members u i) = Some tid" "hash_named cfg tid (w_files u)"
    using Cons.prems by (auto simp: redirs_saved_def)
  then obtain w' where w': "save_redirs cfg i rps u = (Inr (), w')" "redirFiles w' = []" "members w' = members u"
      "redirs_saved cfg tid rps (w_files u) (w_files w')"
    using Cons.IH [of u] Cons.prems(1) by auto
  have "redirs_saved cfg tid (rp # rps) (w_files w) (w_files w')"
    unfolding redirs_saved_def
  proof (intro conjI allI ballI impI)
    fix x assume x: "x \<in> set (rp # rps)"
    show "w_files w' (fst x) = None"
      using x u(3) w'(4) Cons.prems(1) by (cases "fst x \<in> fst ` set rps") (auto simp: redirs_saved_def)
    fix c assume c: "w_files w (fst x) = Some c"
    show "c = [] \<or> saved cfg tid (w_files w') c"
    proof (cases "fst x = fst rp")
      case True
      then show ?thesis using c u(3) w'(4) by (auto simp: redirs_saved_def)
    next
      case False
      then have "w_files u (fst x) = Some c" using c u(3) x Cons.prems(1) by (auto simp: redirs_saved_def)
      then show ?thesis using False x w'(4) by (auto simp: redirs_saved_def)
    qed
  qed (use u(3) w'(4) in \<open>auto simp: redirs_saved_def\<close>)
  with u w' show ?case by simp
qed

text \<open>The start of the end touches only the copy of what was fed; its end only the session's log.\<close>

lemma stdin_saved:
  assumes "stdinlogOpen (members w i) \<longrightarrow> no_artifact cfg tid (stdinlogFile (members w i)) \<and>
      (\<forall>rp \<in> set (redirFiles w). fst rp \<noteq> stdinlogFile (members w i))"
    and "conn_id (members w i) = Some tid" and "hash_named cfg tid (w_files w)"
    and "\<forall>rp \<in> set (redirFiles w). no_artifact cfg tid (fst rp)"
  shows "\<exists>u. save_stdin cfg i w = (Inr (), u) \<and> redirFiles u = redirFiles w \<and> conn_id (members u i) = Some tid \<and>
    hash_named cfg tid (w_files u) \<and> (\<forall>rp \<in> set (redirFiles w). w_files u (fst rp) = w_files w (fst rp)) \<and>
    (ttylogFile (members u i) = ttylogFile (members w i))"
proof (cases "stdinlogOpen (members w i) \<and> w_files w (stdinlogFile (members w i)) \<noteq> None")
  case True
  then obtain c where c: "w_files w (stdinlogFile (members w i)) = Some c" by auto
  with save_file_saves [OF _ c assms(2,3), of "[]"] True assms(1) obtain v where
    v: "save_file cfg i (stdinlogFile (members w i)) c [] w = (Inr (), v)" "redirFiles v = redirFiles w" "members v = members w"
      "hash_named cfg tid (w_files v)" "\<forall>f. f \<noteq> stdinlogFile (members w i) \<longrightarrow> no_artifact cfg tid f \<longrightarrow> w_files v f = w_files w f"
    by blast
  let ?u = "v\<lparr>members := (members v)(i := (members v i)\<lparr>stdinlogOpen := False\<rparr>)\<rparr>"
  have "save_stdin cfg i w = (Inr (), ?u)"
    using True c v(1) by (simp add: save_stdin_def the_member_def py_finally_def set_member_def)
  then show ?thesis
    using v assms True by (intro exI [of _ ?u]) auto
qed (use assms in \<open>auto simp: save_stdin_def the_member_def py_finally_def set_member_def\<close>)

lemma close_spares:
  assumes g: "no_log_name cfg g" and m: "ttylogOpen (members w i) \<longrightarrow> ttylogFile (members w i) \<noteq> g"
  shows "w_files (snd (close_tty cfg now i w)) g = w_files w g \<and> redirFiles (snd (close_tty cfg now i w)) = redirFiles w"
proof (cases "ttylog_on cfg \<and> ttylogOpen (members w i)")
  case True
  let ?f = "ttylogFile (members w i)"
  obtain r h where c: "ttylog_close ?f now (w_files w) = (r, h)" by fastforce
  have hg: "h g = w_files w g"
    using record_spares [of ?f g OP_CLOSE 0 0 now "[]" "w_files w"] True m c by (simp add: ttylog_close_def)
  show ?thesis
  proof (cases r)
    case (Inl e)
    then show ?thesis using c hg True by (simp add: close_tty_def the_member_def on_files_def)
  next
    case (Inr u)
    obtain r' h' where s: "ttylog_inputhash ?f h = (r', h')" by fastforce
    then have h': "h' = h" using inputhash_spares [of ?f h] by simp
    show ?thesis
    proof (cases r')
      case (Inl e)
      then show ?thesis using c hg True Inr s h' by (simp add: close_tty_def the_member_def on_files_def set_member_def)
    next
      case (Inr sha)
      have "os_join (ttylog_path cfg) sha \<noteq> g"
        using inputhash_is_hash [of ?f "w\<lparr>w_files := h\<rparr>" sha "w\<lparr>w_files := h\<rparr>"] s Inr h' g
        by (auto simp: on_files_def no_log_name_def)
      then show ?thesis using c hg True \<open>r = Inr u\<close> s h' Inr m
        by (auto simp: close_tty_def the_member_def on_files_def set_member_def Let_def log_event_def os_remove_def os_rename_def)
    qed
  qed
qed (auto simp: close_tty_def the_member_def)



text \<open>A telnet session has no such name: with a redirected file its end stops before its log is closed, and
  nothing is kept.\<close>

lemma telnet_end_stops:
  assumes "conn_id (members w i) = None" and "\<not> stdinlogOpen (members w i)"
    and "redirFiles w = rp # rps" and "w_files w (fst rp) = Some (x # xs)"
  shows "connectionLost cfg now i w = (Inl (AttributeError ''conn''), w)"
  using assms by (simp add: connectionLost_def save_stdin_def the_member_def save_redir_def save_file_def)

end
