(* ===== verification/SshLink.thy ===== *)
theory SshLink
  imports SshProxy
begin

text \<open>
  The two transports of the SSH proxy between attacker and machine (\<open>cowrie/ssh_proxy/server_transport.py\<close>,
  \<open>client_transport.py\<close>, \<open>userauth.py\<close>): which packets go to the proxy's parser, which to Twisted's own
  handlers, and which wait until both sides are authenticated. The state has what the two objects share;
  a packet comes with whether its transport is encrypted, which is Twisted's.
\<close>

type_synonym ssh_packet = "nat \<times> string"

record ssh_link =
  link_parse :: ssh
  frontendAuthenticated :: bool
  backendConnected :: bool
  delayedPackets :: "ssh_packet list"
  back_delayedPackets :: "ssh_packet list"
  canAuth :: bool
  authDone :: bool
  triedCredentials :: "(string \<times> string) option"
  front_twisted :: "ssh_packet list"
  back_twisted :: "ssh_packet list"
  exit_codes :: "nat list"
  has_pool :: bool
  vm_freed :: "bool list"
  front_closed :: bool
  back_closed :: bool
  backends :: "(string \<times> nat) list"

record link_config =
  link_ssh :: ssh_config
  backend_user :: "string option"
  backend_pass :: "string option"
  pool_backend :: bool
  backend_ssh_host :: string
  backend_ssh_port :: nat

type_synonym 'a link_py = "(ssh_link, 'a) py"

definition new_link :: "link_config \<Rightarrow> ssh_link" where
  "new_link cfg = \<lparr>link_parse = SSH_init, frontendAuthenticated = False, backendConnected = False, delayedPackets = [],
     back_delayedPackets = [], canAuth = False, authDone = False, triedCredentials = None, front_twisted = [],
     back_twisted = [], exit_codes = [], has_pool = False, vm_freed = [], front_closed = False, back_closed = False,
     backends = []\<rparr>"

definition on_parse :: "unit ssh_py \<Rightarrow> unit link_py" where
  "on_parse m = (\<lambda>l. case m (link_parse l) of (r, s) \<Rightarrow> (r, l\<lparr>link_parse := s\<rparr>))"

definition config_get :: "string option \<Rightarrow> string link_py" where
  "config_get v = (case v of None \<Rightarrow> py_raise (UserError ''NoOptionError'') | Some x \<Rightarrow> py_return x)"

section \<open>Getting a machine\<close>

definition connect_to_backend :: "string \<Rightarrow> nat \<Rightarrow> unit link_py" where
  "connect_to_backend ip port = py_modify (\<lambda>l. l\<lparr>backends := backends l @ [(ip, port)]\<rparr>)"

text \<open>Without a pool the configured machine is used at once; with one, the first that it hands out.\<close>

definition front_connectionMade :: "link_config \<Rightarrow> unit link_py" where
  "front_connectionMade cfg = (if pool_backend cfg then py_return ()
     else connect_to_backend (backend_ssh_host cfg) (backend_ssh_port cfg))"

definition pool_connection_success :: "unit link_py" where
  "pool_connection_success = py_modify (\<lambda>l. l\<lparr>has_pool := True\<rparr>)"

definition received_pool_data :: "char \<Rightarrow> string \<Rightarrow> string \<Rightarrow> nat \<Rightarrow> nat \<Rightarrow> unit link_py" where
  "received_pool_data operation honey_ip snapshot ssh_port telnet_port =
     (if operation = CHR ''r'' then connect_to_backend honey_ip ssh_port else py_return ())"

section \<open>Authentication\<close>

definition bin_string_to_hex :: "string \<Rightarrow> string res" where
  "bin_string_to_hex m = bind_res (pack_uint 4 (int (length m))) (\<lambda>n. Inr (n @ m))"

text \<open>The machine's transport sends what the proxy logs in with.\<close>

definition auth_request :: "string \<Rightarrow> string \<Rightarrow> string res" where
  "auth_request user pw =
     bind_res (bin_string_to_hex user) (\<lambda>u. bind_res (string_to_hex ''ssh-connection'') (\<lambda>c.
     bind_res (string_to_hex ''password'') (\<lambda>m. bind_res (bin_string_to_hex pw) (\<lambda>p.
     Inr (u @ c @ m @ [CHR 0x00] @ p)))))"

definition back_send :: "nat \<Rightarrow> string \<Rightarrow> unit link_py" where
  "back_send num payload = on_parse (py_modify (\<lambda>s. s\<lparr>ssh_sent := ssh_sent s @ [(ToClient, num, payload)]\<rparr>))"

definition front_send :: "nat \<Rightarrow> string \<Rightarrow> unit link_py" where
  "front_send num payload = on_parse (py_modify (\<lambda>s. s\<lparr>ssh_sent := ssh_sent s @ [(ToServer, num, payload)]\<rparr>))"

definition log_in :: "link_config \<Rightarrow> unit link_py" where
  "log_in cfg =
     py_bind (config_get (backend_user cfg)) (\<lambda>user. py_bind (config_get (backend_pass cfg)) (\<lambda>pw.
     py_bind (py_lift (bin_string_to_hex ''ssh-userauth'')) (\<lambda>service.
     py_bind (back_send 5 service) (\<lambda>_.
     py_bind (py_lift (auth_request user pw)) (\<lambda>payload. back_send 50 payload)))))"

text \<open>Packets handed to the parser one after the other.\<close>

fun parse_all :: "ssh_config \<Rightarrow> side \<Rightarrow> ssh_packet list \<Rightarrow> unit link_py" where
  "parse_all cfg d [] = py_return ()"
| "parse_all cfg d (p # ps) = py_bind (on_parse (ssh_parse_packet cfg d (fst p) (snd p))) (\<lambda>_. parse_all cfg d ps)"

definition authenticateBackend :: "link_config \<Rightarrow> (string \<times> string) option \<Rightarrow> unit link_py" where
  "authenticateBackend cfg tried =
     py_bind (case tried of
         Some (u, pw) \<Rightarrow> if u \<noteq> [] \<and> pw \<noteq> [] then py_modify (\<lambda>l. l\<lparr>triedCredentials := tried\<rparr>) else py_return ()
       | None \<Rightarrow> py_return ()) (\<lambda>_.
     py_bind py_get (\<lambda>l. if \<not> frontendAuthenticated l \<or> \<not> canAuth l then py_return () else
       py_bind (log_in cfg) (\<lambda>_.
       py_bind (py_modify (\<lambda>l. l\<lparr>backendConnected := True\<rparr>)) (\<lambda>_.
       py_bind (py_bind py_get (\<lambda>l. parse_all (link_ssh cfg) SERVER (delayedPackets l))) (\<lambda>_.
       py_modify (\<lambda>l. l\<lparr>delayedPackets := [], authDone := True\<rparr>))))))"

text \<open>What Twisted calls when the checkers have admitted the attacker.\<close>

definition cbFinishedAuth :: "link_config \<Rightarrow> string \<Rightarrow> string option \<Rightarrow> unit link_py" where
  "cbFinishedAuth cfg user pw =
     py_bind (front_send 52 []) (\<lambda>_.
     py_bind (py_modify (\<lambda>l. l\<lparr>frontendAuthenticated := True\<rparr>)) (\<lambda>_.
     py_bind py_get (\<lambda>l. if client_set (link_parse l)
       then authenticateBackend cfg (case pw of None \<Rightarrow> None | Some w \<Rightarrow> Some (user, w)) else py_return ())))"

definition back_connectionMade :: "unit link_py" where
  "back_connectionMade = on_parse set_client"

definition connectionSecure :: "link_config \<Rightarrow> unit link_py" where
  "connectionSecure cfg = py_bind (py_modify (\<lambda>l. l\<lparr>canAuth := True\<rparr>)) (\<lambda>_. authenticateBackend cfg None)"

section \<open>Packets\<close>

definition front_packet_buffer :: "link_config \<Rightarrow> ssh_packet \<Rightarrow> unit link_py" where
  "front_packet_buffer cfg p = py_bind py_get (\<lambda>l.
     if \<not> backendConnected l then py_modify (\<lambda>l. l\<lparr>delayedPackets := delayedPackets l @ [p]\<rparr>)
     else if delayedPackets l \<noteq> [] then py_modify (\<lambda>l. l\<lparr>delayedPackets := delayedPackets l @ [p]\<rparr>)
     else parse_all (link_ssh cfg) SERVER [p])"

definition front_dispatch :: "link_config \<Rightarrow> bool \<Rightarrow> ssh_packet \<Rightarrow> unit link_py" where
  "front_dispatch cfg encrypted p =
     (if fst p = 5 then py_modify (\<lambda>l. l\<lparr>front_twisted := front_twisted l @ [p]\<rparr>)
      else if 50 \<le> fst p \<and> fst p \<le> 79 then
        py_modify (\<lambda>l. l\<lparr>frontendAuthenticated := False, front_twisted := front_twisted l @ [p]\<rparr>)
      else if encrypted then front_packet_buffer cfg p
      else py_modify (\<lambda>l. l\<lparr>front_twisted := front_twisted l @ [p]\<rparr>))"

definition back_packet_buffer :: "link_config \<Rightarrow> ssh_packet \<Rightarrow> unit link_py" where
  "back_packet_buffer cfg p = py_bind py_get (\<lambda>l.
     if \<not> frontendAuthenticated l then py_modify (\<lambda>l. l\<lparr>back_delayedPackets := back_delayedPackets l @ [p]\<rparr>)
     else if back_delayedPackets l \<noteq> [] then
       py_bind (py_modify (\<lambda>l. l\<lparr>back_delayedPackets := back_delayedPackets l @ [p]\<rparr>)) (\<lambda>_.
       py_bind (py_bind py_get (\<lambda>l. parse_all (link_ssh cfg) CLIENT (back_delayedPackets l))) (\<lambda>_.
       py_modify (\<lambda>l. l\<lparr>back_delayedPackets := []\<rparr>)))
     else parse_all (link_ssh cfg) CLIENT [p])"

text \<open>The exit status in a channel request, read with slices that may be short.\<close>

definition exit_status :: "string \<Rightarrow> nat option" where
  "exit_status payload =
     (let rest = drop 4 payload; n = be_value (take 4 rest)
      in if take n (drop 4 rest) = ''exit-status'' then Some (be_value (take 4 (drop (n + 9) payload))) else None)"

definition back_dispatch :: "link_config \<Rightarrow> bool \<Rightarrow> ssh_packet \<Rightarrow> unit link_py" where
  "back_dispatch cfg encrypted p =
     (if fst p = 6 \<or> fst p = 52 then py_return () else
      py_bind (if fst p = 98 then py_modify (\<lambda>l. case exit_status (snd p) of
          None \<Rightarrow> l | Some n \<Rightarrow> l\<lparr>exit_codes := exit_codes l @ [n]\<rparr>) else py_return ()) (\<lambda>_.
      if encrypted then back_packet_buffer cfg p
      else py_modify (\<lambda>l. l\<lparr>back_twisted := back_twisted l @ [p]\<rparr>)))"

section \<open>The end\<close>

text \<open>The machine counts as used if the proxy was logged in to it.\<close>

definition front_connectionLost :: "unit link_py" where
  "front_connectionLost = py_modify (\<lambda>l. l\<lparr>front_closed := True,
     back_closed := back_closed l \<or> client_set (link_parse l),
     vm_freed := if has_pool l then vm_freed l @ [client_set (link_parse l) \<and> authDone l] else vm_freed l\<rparr>)"

definition back_connectionLost :: "unit link_py" where
  "back_connectionLost = py_modify (\<lambda>l. l\<lparr>back_closed := True, front_closed := True\<rparr>)"

section \<open>A session\<close>

datatype link_event =
    PoolReady
  | PoolData char string string nat nat
  | BackendMade
  | BackendSecure
  | Admitted string "string option"
  | FrontPacket bool ssh_packet
  | BackPacket bool ssh_packet
  | FrontLost
  | BackLost

definition link_event :: "link_config \<Rightarrow> link_event \<Rightarrow> unit link_py" where
  "link_event cfg ev = (case ev of
       PoolReady \<Rightarrow> pool_connection_success
     | PoolData c ip snap ssh telnet \<Rightarrow> received_pool_data c ip snap ssh telnet
     | BackendMade \<Rightarrow> back_connectionMade
     | BackendSecure \<Rightarrow> connectionSecure cfg
     | Admitted user pw \<Rightarrow> cbFinishedAuth cfg user pw
     | FrontPacket enc p \<Rightarrow> front_dispatch cfg enc p
     | BackPacket enc p \<Rightarrow> back_dispatch cfg enc p
     | FrontLost \<Rightarrow> front_connectionLost
     | BackLost \<Rightarrow> back_connectionLost)"

text \<open>An exception ends the session.\<close>

fun link_run :: "link_config \<Rightarrow> link_event list \<Rightarrow> unit link_py" where
  "link_run cfg [] = py_return ()"
| "link_run cfg (ev # evs) = py_bind (link_event cfg ev) (\<lambda>_. link_run cfg evs)"

definition link_session :: "link_config \<Rightarrow> link_event list \<Rightarrow> unit res \<times> ssh_link" where
  "link_session cfg evs = py_bind (front_connectionMade cfg) (\<lambda>_. link_run cfg evs) (new_link cfg)"

end
