(* ===== verification/SshLinkProps.thy ===== *)
theory SshLinkProps
  imports SshLink
begin

text \<open>
  The link of the SSH proxy: whatever the order in which the two sides connect, are authenticated and send,
  the parser gets each side's packets in their order and each once, and none before its time.
\<close>

section \<open>What the parser is given\<close>

datatype action = Parse side ssh_packet | Send transport ssh_packet | SetClient

definition run_action :: "ssh_config \<Rightarrow> action \<Rightarrow> ssh \<Rightarrow> ssh" where
  "run_action cfg a s = (case a of
       Parse d p \<Rightarrow> snd (ssh_parse_packet cfg d (fst p) (snd p) s)
     | Send t p \<Rightarrow> s\<lparr>ssh_sent := ssh_sent s @ [(t, p)]\<rparr>
     | SetClient \<Rightarrow> snd (set_client s))"

definition run_actions :: "ssh_config \<Rightarrow> action list \<Rightarrow> ssh" where
  "run_actions cfg acts = fold (run_action cfg) acts SSH_init"

fun parsed :: "side \<Rightarrow> action list \<Rightarrow> ssh_packet list" where
  "parsed d [] = []"
| "parsed d (Parse e p # acts) = (if e = d then [p] else []) @ parsed d acts"
| "parsed d (_ # acts) = parsed d acts"

fun own_sends :: "action list \<Rightarrow> (transport \<times> ssh_packet) list" where
  "own_sends [] = []"
| "own_sends (Send t p # acts) = (t, p) # own_sends acts"
| "own_sends (_ # acts) = own_sends acts"

lemma parsed_append [simp]: "parsed d (as @ bs) = parsed d as @ parsed d bs"
  by (induction as rule: parsed.induct) auto

lemma own_sends_append [simp]: "own_sends (as @ bs) = own_sends as @ own_sends bs"
  by (induction as rule: own_sends.induct) auto

lemma parsed_map [simp]: "parsed d (map (Parse e) ps) = (if d = e then ps else [])"
  by (induction ps) auto

lemma own_sends_map [simp]: "own_sends (map (Parse e) ps) = []"
  by (induction ps) auto

text \<open>The packets of each side that are the parser's, and the events that open the way.\<close>

fun front_packets :: "link_event list \<Rightarrow> ssh_packet list" where
  "front_packets [] = []"
| "front_packets (FrontPacket enc p # evs) =
     (if enc \<and> fst p \<noteq> 5 \<and> \<not> (50 \<le> fst p \<and> fst p \<le> 79) then [p] else []) @ front_packets evs"
| "front_packets (_ # evs) = front_packets evs"

fun back_packets :: "link_event list \<Rightarrow> ssh_packet list" where
  "back_packets [] = []"
| "back_packets (BackPacket enc p # evs) = (if enc \<and> fst p \<noteq> 6 \<and> fst p \<noteq> 52 then [p] else []) @ back_packets evs"
| "back_packets (_ # evs) = back_packets evs"

lemma front_packets_append [simp]: "front_packets (as @ bs) = front_packets as @ front_packets bs"
  by (induction as rule: front_packets.induct) auto

lemma back_packets_append [simp]: "back_packets (as @ bs) = back_packets as @ back_packets bs"
  by (induction as rule: back_packets.induct) auto

definition admitted :: "link_event list \<Rightarrow> bool" where
  "admitted evs \<longleftrightarrow> list_ex (\<lambda>ev. case ev of Admitted u pw \<Rightarrow> True | _ \<Rightarrow> False) evs"

definition secured :: "link_event list \<Rightarrow> bool" where
  "secured evs \<longleftrightarrow> list_ex (\<lambda>ev. ev = BackendSecure) evs"

text \<open>What the proxy sends by itself: the news that the attacker is in, and its own login to the machine.\<close>

definition own_packets :: "link_config \<Rightarrow> (transport \<times> ssh_packet) set" where
  "own_packets cfg = {(t, n, v). t = ToServer \<and> n = 52 \<and> v = [] \<or> t = ToClient \<and> n = 5 \<and> bin_string_to_hex ''ssh-userauth'' = Inr v \<or>
     t = ToClient \<and> n = 50 \<and> (\<exists>u p. backend_user cfg = Some u \<and> backend_pass cfg = Some p \<and> auth_request u p = Inr v)}"

definition link_inv :: "link_config \<Rightarrow> link_event list \<Rightarrow> action list \<Rightarrow> ssh_link \<Rightarrow> bool" where
  "link_inv cfg evs acts l \<longleftrightarrow> link_parse l = run_actions (link_ssh cfg) acts \<and>
     parsed SERVER acts @ delayedPackets l = front_packets evs \<and> parsed CLIENT acts @ back_delayedPackets l = back_packets evs \<and>
     set (own_sends acts) \<subseteq> own_packets cfg \<and> (backendConnected l \<longrightarrow> delayedPackets l = [] \<and> admitted evs \<and> secured evs) \<and>
     (parsed SERVER acts \<noteq> [] \<longrightarrow> backendConnected l) \<and> (parsed CLIENT acts \<noteq> [] \<longrightarrow> admitted evs) \<and>
     (frontendAuthenticated l \<longrightarrow> admitted evs) \<and> (canAuth l \<longrightarrow> secured evs) \<and> (authDone l \<longrightarrow> backendConnected l)"

lemma parse_all_runs:
  "parse_all cfg d ps l = (Inr (), l') \<Longrightarrow>
     l' = l\<lparr>link_parse := fold (run_action cfg) (map (Parse d) ps) (link_parse l)\<rparr>"
proof (induction ps arbitrary: l)
  case (Cons p ps)
  obtain r s where s: "ssh_parse_packet cfg d (fst p) (snd p) (link_parse l) = (r, s)" by fastforce
  with Cons.prems have "r = Inr ()" by (cases r) (auto simp: on_parse_def)
  with Cons.IH [of "l\<lparr>link_parse := s\<rparr>"] Cons.prems s show ?case by (simp add: on_parse_def run_action_def)
qed simp

lemma log_in_runs:
  assumes "log_in cfg l = (Inr (), l')"
  obtains v w where "l' = l\<lparr>link_parse := fold (run_action c) [Send ToClient (5, v), Send ToClient (50, w)] (link_parse l)\<rparr>"
    and "(ToClient, 5, v) \<in> own_packets cfg" "(ToClient, 50, w) \<in> own_packets cfg"
  using assms
  by (auto simp: log_in_def config_get_def back_send_def on_parse_def run_action_def own_packets_def split: option.splits sum.splits)

lemma run_actions_more:
  "run_actions cfg (acts @ more_acts) = fold (run_action cfg) more_acts (run_actions cfg acts)"
  by (simp add: run_actions_def)

text \<open>Logging in, where it happens: the packets that waited follow the login at once.\<close>

lemma authenticate_inv:
  assumes inv: "link_inv cfg evs acts l" and run: "authenticateBackend cfg tried l = (Inr (), l')"
  shows "\<exists>more_acts. link_inv cfg evs (acts @ more_acts) l'"
proof -
  define l0 where "l0 = (case tried of Some (u, pw) \<Rightarrow> if u \<noteq> [] \<and> pw \<noteq> [] then l\<lparr>triedCredentials := tried\<rparr> else l | None \<Rightarrow> l)"
  have l0: "link_inv cfg evs acts l0"
    using inv by (auto simp: l0_def link_inv_def split: option.split)
  have run0: "(if \<not> frontendAuthenticated l0 \<or> \<not> canAuth l0 then py_return () else
       py_bind (log_in cfg) (\<lambda>_.
       py_bind (py_modify (\<lambda>l. l\<lparr>backendConnected := True\<rparr>)) (\<lambda>_.
       py_bind (py_bind py_get (\<lambda>l. parse_all (link_ssh cfg) SERVER (delayedPackets l))) (\<lambda>_.
       py_modify (\<lambda>l. l\<lparr>delayedPackets := [], authDone := True\<rparr>))))) l0 = (Inr (), l')"
    using run by (auto simp: authenticateBackend_def l0_def split: option.splits if_splits)
  show ?thesis
  proof (cases "\<not> frontendAuthenticated l0 \<or> \<not> canAuth l0")
    case True
    with run0 l0 show ?thesis by (intro exI [of _ "[]"]) auto
  next
    case False
    obtain r l1 where l1: "log_in cfg l0 = (r, l1)" by fastforce
    with run0 False have "r = Inr ()" by (cases r) auto
    with l1 obtain v w where log: "l1 = l0\<lparr>link_parse := fold (run_action (link_ssh cfg)) [Send ToClient (5, v), Send ToClient (50, w)] (link_parse l0)\<rparr>"
      "(ToClient, 5, v) \<in> own_packets cfg" "(ToClient, 50, w) \<in> own_packets cfg"
      using log_in_runs [of cfg l0 l1 "link_ssh cfg"] by blast
    let ?l2 = "l1\<lparr>backendConnected := True\<rparr>" and ?ps = "delayedPackets l0"
    obtain r' l3 where l3: "parse_all (link_ssh cfg) SERVER ?ps ?l2 = (r', l3)" by fastforce
    then have "r' = Inr ()" and l': "l' = l3\<lparr>delayedPackets := [], authDone := True\<rparr>"
      using run0 False l1 \<open>r = Inr ()\<close> log(1) by (cases r'; simp)+
    then have "l3 = ?l2\<lparr>link_parse := fold (run_action (link_ssh cfg)) (map (Parse SERVER) ?ps) (link_parse ?l2)\<rparr>"
      using parse_all_runs l3 by blast
    with l' log l0 False show ?thesis
      by (intro exI [of _ "[Send ToClient (5, v), Send ToClient (50, w)] @ map (Parse SERVER) ?ps"])
        (auto simp: link_inv_def run_actions_more)
  qed
qed

text \<open>Every event.\<close>

lemma inv_event:
  "link_inv cfg evs acts l \<Longrightarrow> front_packets [ev] = [] \<Longrightarrow> back_packets [ev] = [] \<Longrightarrow> link_inv cfg (evs @ [ev]) acts l"
  by (auto simp: link_inv_def admitted_def secured_def)

lemma inv_same:
  assumes "link_inv cfg evs acts l" and "link_parse l' = link_parse l" "delayedPackets l' = delayedPackets l"
    "back_delayedPackets l' = back_delayedPackets l" "backendConnected l' = backendConnected l" "authDone l' = authDone l"
    and "frontendAuthenticated l' \<longrightarrow> frontendAuthenticated l \<or> admitted evs" "canAuth l' \<longrightarrow> canAuth l \<or> secured evs"
  shows "link_inv cfg evs acts l'"
  using assms by (auto simp: link_inv_def)

lemma front_buffer_inv:
  assumes inv: "link_inv cfg evs acts l" and ev: "front_packets [ev] = [p]" "back_packets [ev] = []"
    and run: "front_packet_buffer cfg p l = (Inr (), l')"
  shows "\<exists>more_acts. link_inv cfg (evs @ [ev]) (acts @ more_acts) l'"
proof (cases "backendConnected l")
  case False
  then have "l' = l\<lparr>delayedPackets := delayedPackets l @ [p]\<rparr>" using run by (simp add: front_packet_buffer_def)
  with False inv ev show ?thesis
    by (intro exI [of _ "[]"]) (auto simp: link_inv_def admitted_def secured_def)
next
  case True
  then have "delayedPackets l = []" using inv by (simp add: link_inv_def)
  then have "parse_all (link_ssh cfg) SERVER [p] l = (Inr (), l')"
    using True run by (simp add: front_packet_buffer_def)
  from parse_all_runs [OF this] True inv ev show ?thesis
    by (intro exI [of _ "[Parse SERVER p]"]) (auto simp: link_inv_def admitted_def secured_def run_actions_more)
qed

lemma back_buffer_inv:
  assumes inv: "link_inv cfg evs acts l" and ev: "back_packets [ev] = [p]" "front_packets [ev] = []"
    and run: "back_packet_buffer cfg p l = (Inr (), l')"
  shows "\<exists>more_acts. link_inv cfg (evs @ [ev]) (acts @ more_acts) l'"
proof (cases "frontendAuthenticated l")
  case False
  then have "l' = l\<lparr>back_delayedPackets := back_delayedPackets l @ [p]\<rparr>" using run by (simp add: back_packet_buffer_def)
  with False inv ev show ?thesis
    by (intro exI [of _ "[]"]) (auto simp: link_inv_def admitted_def secured_def)
next
  case True
  let ?l = "l\<lparr>back_delayedPackets := back_delayedPackets l @ [p]\<rparr>" and ?ps = "back_delayedPackets l @ [p]"
  have "l' = l\<lparr>back_delayedPackets := [], link_parse := fold (run_action (link_ssh cfg)) (map (Parse CLIENT) ?ps) (link_parse l)\<rparr>"
  proof (cases "back_delayedPackets l = []")
    case empty: True
    then have "parse_all (link_ssh cfg) CLIENT [p] l = (Inr (), l')"
      using run True by (simp add: back_packet_buffer_def)
    from parse_all_runs [OF this] empty show ?thesis by simp
  next
    case False
    obtain r v where v: "parse_all (link_ssh cfg) CLIENT ?ps ?l = (r, v)" by fastforce
    with False run True have r: "r = Inr ()" and l': "l' = v\<lparr>back_delayedPackets := []\<rparr>"
      by (cases r; simp add: back_packet_buffer_def)+
    from parse_all_runs [OF v [unfolded r]] l' show ?thesis by simp
  qed
  with True inv ev show ?thesis
    by (intro exI [of _ "map (Parse CLIENT) ?ps"]) (auto simp: link_inv_def admitted_def secured_def run_actions_more)
qed

lemma event_inv:
  assumes inv: "link_inv cfg evs acts l" and run: "link_event cfg ev l = (Inr (), l')"
  shows "\<exists>more_acts. link_inv cfg (evs @ [ev]) (acts @ more_acts) l'"
proof (cases ev)
  case BackendMade
  then have l': "l' = l\<lparr>link_parse := run_action (link_ssh cfg) SetClient (link_parse l)\<rparr>"
    using run by (simp add: link_event_def back_connectionMade_def on_parse_def set_client_def run_action_def)
  have "link_inv cfg (evs @ [ev]) acts l" using inv BackendMade by (intro inv_event) auto
  then show ?thesis unfolding l' by (intro exI [of _ "[SetClient]"]) (auto simp: link_inv_def run_actions_more)
next
  case BackendSecure
  have "link_inv cfg (evs @ [ev]) acts l" using inv BackendSecure by (intro inv_event) auto
  then have "link_inv cfg (evs @ [ev]) acts (l\<lparr>canAuth := True\<rparr>)"
    by (rule inv_same) (auto simp: secured_def BackendSecure)
  from authenticate_inv [OF this, of None l'] show ?thesis
    using run BackendSecure by (simp add: link_event_def connectionSecure_def)
next
  case (Admitted user pw)
  have "link_inv cfg (evs @ [ev]) acts l" using inv Admitted by (intro inv_event) auto
  moreover have ad: "admitted (evs @ [ev])" using Admitted by (simp add: admitted_def)
  ultimately have i: "link_inv cfg (evs @ [ev]) (acts @ [Send ToServer (52, [])])
      (l\<lparr>link_parse := (link_parse l)\<lparr>ssh_sent := ssh_sent (link_parse l) @ [(ToServer, 52, [])]\<rparr>, frontendAuthenticated := True\<rparr>)"
    by (auto simp: link_inv_def run_actions_more run_action_def own_packets_def)
  show ?thesis
  proof (cases "client_set (link_parse l)")
    case True
    then show ?thesis
      using authenticate_inv [OF i] run Admitted by (auto simp: link_event_def cbFinishedAuth_def front_send_def on_parse_def)
  next
    case False
    then show ?thesis
      using i run Admitted by (auto simp: link_event_def cbFinishedAuth_def front_send_def on_parse_def)
  qed
next
  case (FrontPacket enc p)
  show ?thesis
  proof (cases "front_packets [ev] = []")
    case True
    then have "link_inv cfg (evs @ [ev]) acts l" using inv FrontPacket by (intro inv_event) auto
    then have "link_inv cfg (evs @ [ev]) acts l'"
      using True FrontPacket run by (auto simp: link_event_def front_dispatch_def split: if_splits elim: inv_same)
    then show ?thesis by (intro exI [of _ "[]"]) simp
  next
    case False
    then have "front_packets [ev] = [p]" "front_packet_buffer cfg p l = (Inr (), l')"
      using FrontPacket run by (auto simp: link_event_def front_dispatch_def split: if_splits)
    then show ?thesis using FrontPacket by (intro front_buffer_inv [OF inv]) auto
  qed
next
  case (BackPacket enc p)
  define k where "k = (if fst p = 98 then (case exit_status (snd p) of None \<Rightarrow> l | Some n \<Rightarrow> l\<lparr>exit_codes := exit_codes l @ [n]\<rparr>) else l)"
  have k: "link_inv cfg evs acts k" using inv by (rule inv_same) (auto simp: k_def split: option.split)
  show ?thesis
  proof (cases "back_packets [ev] = []")
    case True
    then have "link_inv cfg (evs @ [ev]) acts k" "link_inv cfg (evs @ [ev]) acts l"
      using inv k BackPacket by (auto intro!: inv_event)
    moreover have "l' = l \<or> l' = k\<lparr>back_twisted := back_twisted k @ [p]\<rparr>"
      using True BackPacket run by (auto simp: link_event_def back_dispatch_def k_def split: if_splits option.splits)
    ultimately have "link_inv cfg (evs @ [ev]) acts l'" by (auto elim: inv_same)
    then show ?thesis by (intro exI [of _ "[]"]) simp
  next
    case False
    then have "back_packets [ev] = [p]" "back_packet_buffer cfg p k = (Inr (), l')"
      using BackPacket run by (auto simp: link_event_def back_dispatch_def k_def split: if_splits option.splits)
    then show ?thesis using BackPacket by (intro back_buffer_inv [OF k]) auto
  qed
qed (use inv run in \<open>auto simp: link_event_def pool_connection_success_def received_pool_data_def connect_to_backend_def
    front_connectionLost_def back_connectionLost_def split: if_splits
    intro!: exI [of _ "[]"] elim!: inv_same [OF inv_event]\<close>)

lemma run_inv:
  "link_inv cfg evs acts l \<Longrightarrow> link_run cfg rest l = (Inr (), l') \<Longrightarrow> \<exists>more_acts. link_inv cfg (evs @ rest) (acts @ more_acts) l'"
proof (induction rest arbitrary: evs acts l)
  case Nil
  then show ?case by (intro exI [of _ "[]"]) simp
next
  case (Cons ev rest)
  obtain r k where k: "link_event cfg ev l = (r, k)" by fastforce
  with Cons.prems(2) have "r = Inr ()" "link_run cfg rest k = (Inr (), l')" by (cases r; simp)+
  with k event_inv [OF Cons.prems(1)] obtain xs where "link_inv cfg (evs @ [ev]) (acts @ xs) k" by blast
  from Cons.IH [OF this \<open>link_run cfg rest k = (Inr (), l')\<close>] show ?case by auto
qed

section \<open>The properties\<close>


text \<open>A packet of the machine that came before the attacker was admitted waits for the next one.\<close>

lemma back_packet_waits:
  assumes "backend_user cfg = Some ''root''" and "backend_pass cfg = Some ''root''"
  shows "\<exists>l. link_session cfg [BackendMade, BackendSecure, BackPacket True (2, ''x''), Admitted ''root'' (Some ''pw'')] = (Inr (), l) \<and>
    back_delayedPackets l = [(2, ''x'')] \<and> frontendAuthenticated l \<and> authDone l"
proof -
  have "\<exists>s. bin_string_to_hex ''ssh-userauth'' = Inr s" "\<exists>s. auth_request ''root'' ''root'' = Inr s"
    by (simp_all add: bin_string_to_hex_def auth_request_def string_to_hex_def pack_uint_def)
  then show ?thesis
    using assms by (cases "pool_backend cfg") (auto simp: link_session_def front_connectionMade_def connect_to_backend_def new_link_def
      link_event_def back_connectionMade_def connectionSecure_def authenticateBackend_def back_dispatch_def back_packet_buffer_def
      cbFinishedAuth_def front_send_def on_parse_def set_client_def log_in_def config_get_def back_send_def)
qed

text \<open>A message of authentication sent again stops what the machine sends, until the attacker is admitted again.\<close>

lemma auth_again_stops:
  assumes "50 \<le> n" "n \<le> 79" and "m \<noteq> 6" "m \<noteq> 52" "m \<noteq> 98"
  shows "\<exists>l'. link_run cfg [FrontPacket True (n, v), BackPacket True (m, w)] l = (Inr (), l') \<and>
    link_parse l' = link_parse l \<and> back_delayedPackets l' = back_delayedPackets l @ [(m, w)]"
  using assms by (auto simp: link_event_def front_dispatch_def back_dispatch_def back_packet_buffer_def)

definition ex_link_config :: link_config where
  "ex_link_config = \<lparr>link_ssh = \<lparr>cfg_forwarding = Some True, cfg_sftp_enabled = Some True, cfg_interactive_timeout = 180, cfg_ttylog = True\<rparr>,
     backend_user = Some ''root'', backend_pass = Some ''root'', pool_backend = False, backend_ssh_host = ''10.0.0.1'',
     backend_ssh_port = 22\<rparr>"


end
