(* ===== verification/EventLog.thy ===== *)
theory EventLog
  imports Bytes "HOL-Library.AList" "HOL-Library.Word"
begin

text \<open>
  The dispatcher of events to the output plugins (\<open>cowrie/core/output.py\<close>): an event, a dictionary with text
  keys, is decoded, completed with sensor, time and message, and attributed to its session by the number
  of its transport; a plugin writes what is left. \<open>cowrie/core/cef.py\<close> prints such an event as a line.
\<close>

text \<open>The values of an event; a float is its 64 bits.\<close>

datatype logval =
    LNone
  | LBool bool
  | LInt int
  | LFloat "64 word"
  | LText string
  | LBytes string
  | LTuple "logval list"
  | LList "logval list"
  | LDict "(logval \<times> logval) list"

type_synonym event = "(string \<times> logval) list"

text \<open>What a float prints as and its whole part, what other values that are not text print as, and the time's text.\<close>

record log_env =
  sensor :: string
  show_float :: "64 word \<Rightarrow> string"
  show_value :: "logval \<Rightarrow> string"
  float_trunc :: "64 word \<Rightarrow> int"
  format_time :: "logval \<Rightarrow> string res"

section \<open>Decoding\<close>

function (sequential) convert :: "logval \<Rightarrow> logval res"
  and convert_list :: "logval list \<Rightarrow> logval list res"
  and convert_pairs :: "(logval \<times> logval) list \<Rightarrow> (logval \<times> logval) list \<Rightarrow> (logval \<times> logval) list res" where
  "convert (LDict ps) = bind_res (convert_pairs ps []) (\<lambda>qs. Inr (LDict qs))"
| "convert (LList xs) = bind_res (convert_list xs) (\<lambda>ys. Inr (LList ys))"
| "convert (LBytes b) = bind_res (py_decode b) (\<lambda>t. Inr (LText t))"
| "convert v = Inr v"
| "convert_list [] = Inr []"
| "convert_list (x # xs) = bind_res (convert x) (\<lambda>y. bind_res (convert_list xs) (\<lambda>ys. Inr (y # ys)))"
| "convert_pairs [] acc = Inr acc"
| "convert_pairs ((k, v) # ps) acc = bind_res (convert k) (\<lambda>k'. bind_res (convert v) (\<lambda>v'.
     convert_pairs ps (AList.update k' v' acc)))"
  by pat_completeness auto
termination
  by (relation "measure (case_sum size (case_sum (size_list size) (\<lambda>(ps, acc). size_list (size_prod size size) ps)))") auto

fun convert_event :: "event \<Rightarrow> event res" where
  "convert_event [] = Inr []"
| "convert_event ((k, v) # ev) = bind_res (convert v) (\<lambda>v'. bind_res (convert_event ev) (\<lambda>ev'. Inr ((k, v') # ev')))"

section \<open>Formatting\<close>

definition show_log :: "log_env \<Rightarrow> logval \<Rightarrow> string" where
  "show_log env v = (case v of
       LNone \<Rightarrow> ''None'' | LBool b \<Rightarrow> if b then ''True'' else ''False'' | LInt i \<Rightarrow> str_int i
     | LFloat x \<Rightarrow> show_float env x | LText t \<Rightarrow> t | _ \<Rightarrow> show_value env v)"

definition show_whole :: "log_env \<Rightarrow> logval \<Rightarrow> string res" where
  "show_whole env v = (case v of
       LBool b \<Rightarrow> Inr (if b then ''1'' else ''0'') | LInt i \<Rightarrow> Inr (str_int i) | LFloat x \<Rightarrow> Inr (str_int (float_trunc env x))
     | _ \<Rightarrow> Inl TypeError)"

text \<open>
  \<open>format % event\<close> with the conversions that the program's events use: \<open>%(key)s\<close>, \<open>%(key)d\<close>, \<open>%(key)i\<close> and \<open>%%\<close>;
  others are taken as errors.
\<close>

function percent :: "log_env \<Rightarrow> event \<Rightarrow> string \<Rightarrow> string res" where
  "percent env ev [] = Inr []"
| "percent env ev (c # cs) =
     (if c \<noteq> CHR ''%'' then bind_res (percent env ev cs) (\<lambda>r. Inr (c # r))
      else case cs of
          [] \<Rightarrow> Inl ValueError
        | d # ds \<Rightarrow>
            if d = CHR ''%'' then bind_res (percent env ev ds) (\<lambda>r. Inr (d # r))
            else if d = CHR ''('' then (case split_once (CHR '')'') ds of
                None \<Rightarrow> Inl ValueError
              | Some (key, rest) \<Rightarrow> (case rest of
                    [] \<Rightarrow> Inl ValueError
                  | conv # more_text \<Rightarrow> bind_res (getitem (map_of ev) key) (\<lambda>v.
                      bind_res (if conv = CHR ''s'' then Inr (show_log env v)
                        else if conv \<in> {CHR ''d'', CHR ''i''} then show_whole env v else Inl ValueError) (\<lambda>t.
                      bind_res (percent env ev more_text) (\<lambda>r. Inr (t @ r))))))
            else Inl ValueError)"
  by pat_completeness auto
termination
  by (relation "measure (\<lambda>(env, ev, s). length s)") (auto dest: split_once_Some)

section \<open>State\<close>

text \<open>
  A dictionary whose first key with a value is sought is an association list. \<open>sink\<close> is what the plugin
  itself keeps: a file's text, a database.
\<close>

record 'w plugin =
  sessions :: "(logval \<times> logval) list"
  ips :: "(logval \<times> logval) list"
  src_ports :: "(logval \<times> logval) list"
  protocols :: "(logval \<times> logval) list"
  dest_ip :: logval
  dest_port :: logval
  sink :: 'w

definition Output_init :: "'w \<Rightarrow> 'w plugin" where
  "Output_init w = \<lparr>sessions = [], ips = [], src_ports = [], protocols = [], dest_ip = LNone, dest_port = LNone, sink = w\<rparr>"

type_synonym ('w, 'a) out_py = "('w plugin, 'a) py"

text \<open>A plugin's \<open>write\<close>: it may change the dictionary that it is given, which is its result.\<close>

type_synonym 'w writer = "event \<Rightarrow> ('w, event) py"

definition key_text :: "logval \<Rightarrow> string" where
  "key_text v = (case v of LText t \<Rightarrow> t | _ \<Rightarrow> [])"

definition read_key :: "(logval \<times> logval) list \<Rightarrow> logval \<Rightarrow> ('w, logval) out_py" where
  "read_key d k = (case map_of d k of None \<Rightarrow> py_raise (KeyError (key_text k)) | Some v \<Rightarrow> py_return v)"

definition item :: "event \<Rightarrow> string \<Rightarrow> ('s, logval) py" where
  "item ev k = py_lift (getitem (map_of ev) k)"

definition del_item :: "event \<Rightarrow> string \<Rightarrow> ('s, event) py" where
  "del_item ev k = py_bind (item ev k) (\<lambda>_. py_return (AList.delete k ev))"

section \<open>Completing an event\<close>

definition has_keys :: "event \<Rightarrow> bool" where
  "has_keys ev \<longleftrightarrow> \<not> dict_has ''printed'' ev \<and> dict_has ''eventid'' ev \<and>
     (dict_has ''sessionno'' ev \<or> dict_has ''session'' ev \<or> dict_has ''system'' ev) \<and> (dict_has ''message'' ev \<or> dict_has ''format'' ev)"

definition with_message :: "log_env \<Rightarrow> event \<Rightarrow> event" where
  "with_message env ev = (case map_of ev ''format'' of
       None \<Rightarrow> ev
     | Some f \<Rightarrow> if map_of ev ''message'' \<in> {None, Some (LTuple [])} then
           (case f of LText t \<Rightarrow> (case percent env ev t of
               Inr m \<Rightarrow> AList.delete ''format'' (dict_set ''message'' (LText m) ev) | Inl e \<Rightarrow> ev) | _ \<Rightarrow> ev)
         else ev)"

definition complete :: "log_env \<Rightarrow> logval \<Rightarrow> event \<Rightarrow> event res" where
  "complete env now event = bind_res (convert_event event) (\<lambda>ev0.
     let ev1 = AList.delete ''isError'' (dict_set ''sensor'' (LText (sensor env)) ev0);
         ev2 = if dict_has ''time'' ev1 then ev1 else dict_set ''time'' now ev1
     in bind_res (format_time env (the (map_of ev2 ''time''))) (\<lambda>t.
        Inr (with_message env (dict_set ''timestamp'' (LText t) ev2))))"

section \<open>The session of an event\<close>

definition is_digit :: "char \<Rightarrow> bool" where
  "is_digit c \<longleftrightarrow> c \<in> set ''0123456789''"

definition is_addr :: "char \<Rightarrow> bool" where
  "is_addr c \<longleftrightarrow> c \<in> set ''0123456789abcdef:.''"

text \<open>
  \<open>re.match('.*' + name + ',([0-9]+),[0-9a-f:.]+$', system)\<close>, read from the end: the address, the number, the
  name, and before it anything on the same line.
\<close>

definition transport_no :: "string \<Rightarrow> string \<Rightarrow> string option" where
  "transport_no name system =
     (let s = (if ends_with system [CHR 0x0A] then butlast system else system);
          addr = takeWhile is_addr (rev s); rest = dropWhile is_addr (rev s);
          no = takeWhile is_digit (tl rest); front = rev (dropWhile is_digit (tl rest))
      in if addr \<noteq> [] \<and> rest \<noteq> [] \<and> hd rest = CHR '','' \<and> no \<noteq> [] \<and> ends_with front (name @ '','') \<and>
          CHR 0x0A \<notin> set front
         then Some (rev no) else None)"

definition find_session :: "(logval \<times> logval) list \<Rightarrow> logval \<Rightarrow> logval option" where
  "find_session d v = map_option fst (find (\<lambda>p. snd p = v) d)"

text \<open>The number, and the event without it; \<open>None\<close> where the event is dropped.\<close>

definition session_no :: "event \<Rightarrow> ('w, (logval \<times> event) option) out_py" where
  "session_no ev = (case map_of ev ''sessionno'' of
       Some no \<Rightarrow> py_return (Some (no, AList.delete ''sessionno'' ev))
     | None \<Rightarrow> (case map_of ev ''session'' of
           Some sess \<Rightarrow> py_bind py_get (\<lambda>s. py_return (map_option (\<lambda>no. (no, ev)) (find_session (sessions s) sess)))
         | None \<Rightarrow> (case map_of ev ''system'' of
               Some (LText system) \<Rightarrow> (case transport_no ''TelnetTransport'' system of
                   Some no \<Rightarrow> py_return (Some (LText (CHR ''T'' # no), ev))
                 | None \<Rightarrow> py_return (map_option (\<lambda>no. (LText (CHR ''S'' # no), ev)) (transport_no ''SSHTransport'' system)))
             | _ \<Rightarrow> py_raise TypeError)))"

definition with_address :: "logval \<Rightarrow> event \<Rightarrow> ('w, event) out_py" where
  "with_address no ev = py_bind py_get (\<lambda>s. case map_of (ips s) no of
       None \<Rightarrow> py_return ev
     | Some ip \<Rightarrow> py_bind (read_key (src_ports s) no) (\<lambda>port. py_bind (read_key (protocols s) no) (\<lambda>proto.
         py_return (dict_set ''protocol'' proto (dict_set ''dest_port'' (dest_port s) (dict_set ''dest_ip'' (dest_ip s)
           (dict_set ''src_port'' port (dict_set ''src_ip'' ip ev))))))))"

text \<open>A connection is remembered; the first one's destination stays.\<close>

definition connect_rest :: "logval \<Rightarrow> event \<Rightarrow> ('w, event) out_py" where
  "connect_rest no ev =
     py_bind (item ev ''src_port'') (\<lambda>port. py_bind (py_modify (\<lambda>s. s\<lparr>src_ports := AList.update no port (src_ports s)\<rparr>)) (\<lambda>_.
     py_bind (item ev ''protocol'') (\<lambda>proto. py_bind (py_modify (\<lambda>s. s\<lparr>protocols := AList.update no proto (protocols s)\<rparr>)) (\<lambda>_.
     py_bind py_get (\<lambda>s.
     py_bind (if dest_ip s = LNone \<or> dest_port s = LNone then
         py_bind (item ev ''dst_ip'') (\<lambda>ip. py_bind (py_modify (\<lambda>s. s\<lparr>dest_ip := ip\<rparr>)) (\<lambda>_.
         py_bind (item ev ''dst_port'') (\<lambda>port. py_modify (\<lambda>s. s\<lparr>dest_port := port\<rparr>))))
       else py_return ()) (\<lambda>_.
     py_bind (del_item ev ''dst_ip'') (\<lambda>ev. py_bind (del_item ev ''dst_port'') (\<lambda>ev. py_bind py_get (\<lambda>s.
     py_return (dict_set ''dest_port'' (dest_port s) (dict_set ''dest_ip'' (dest_ip s) ev)))))))))))"

definition connect :: "logval \<Rightarrow> event \<Rightarrow> ('w, event) out_py" where
  "connect no ev =
     py_bind (item ev ''session'') (\<lambda>sess. py_bind (py_modify (\<lambda>s. s\<lparr>sessions := AList.update no sess (sessions s)\<rparr>)) (\<lambda>_.
     py_bind (item ev ''src_ip'') (\<lambda>ip. py_bind (py_modify (\<lambda>s. s\<lparr>ips := AList.update no ip (ips s)\<rparr>)) (\<lambda>_.
     connect_rest no ev))))"

text \<open>What the plugin kept of a connection is deleted when it closes.\<close>

definition forget :: "logval \<Rightarrow> ('w, unit) out_py" where
  "forget no =
     py_bind py_get (\<lambda>s. py_bind (read_key (sessions s) no) (\<lambda>_. py_bind (py_modify (\<lambda>s. s\<lparr>sessions := AList.delete no (sessions s)\<rparr>)) (\<lambda>_.
     py_bind (read_key (ips s) no) (\<lambda>_. py_bind (py_modify (\<lambda>s. s\<lparr>ips := AList.delete no (ips s)\<rparr>)) (\<lambda>_.
     py_bind (read_key (src_ports s) no) (\<lambda>_. py_bind (py_modify (\<lambda>s. s\<lparr>src_ports := AList.delete no (src_ports s)\<rparr>)) (\<lambda>_.
     py_bind (read_key (protocols s) no) (\<lambda>_. py_modify (\<lambda>s. s\<lparr>protocols := AList.delete no (protocols s)\<rparr>)))))))))"

text \<open>Lists and dictionaries are no keys of a dictionary.\<close>

fun hashable :: "logval \<Rightarrow> bool" where
  "hashable (LList vs) = False"
| "hashable (LDict vs) = False"
| "hashable (LTuple vs) = list_all hashable vs"
| "hashable _ = True"

definition write_event :: "'w writer \<Rightarrow> event \<Rightarrow> ('w, event) out_py" where
  "write_event wr ev s = (case wr ev (sink s) of (r, w) \<Rightarrow> (r, s\<lparr>sink := w\<rparr>))"

text \<open>The id that decides whether the session is forgotten is read after the plugin has had the event.\<close>

definition emit_completed :: "'w writer \<Rightarrow> event \<Rightarrow> ('w, unit) out_py" where
  "emit_completed wr ev0 = py_bind (session_no ev0) (\<lambda>r. case r of
       None \<Rightarrow> py_return ()
     | Some (no, ev1) \<Rightarrow> if \<not> hashable no then py_raise TypeError else
         py_bind (with_address no ev1) (\<lambda>ev2.
         py_bind (item ev2 ''eventid'') (\<lambda>eid.
         py_bind (if eid = LText ''cowrie.session.connect'' then connect no ev2
           else py_bind (py_bind py_get (\<lambda>s. read_key (sessions s) no)) (\<lambda>sess. py_return (dict_set ''session'' sess ev2))) (\<lambda>ev3.
         py_bind (write_event wr (dict_set ''type'' (LText ''d_link_dph150s'') ev3)) (\<lambda>ev4.
         py_bind (item ev4 ''eventid'') (\<lambda>eid'.
         if eid' = LText ''cowrie.session.closed'' then forget no else py_return ()))))))"

definition emit :: "'w writer \<Rightarrow> log_env \<Rightarrow> logval \<Rightarrow> event \<Rightarrow> ('w, unit) out_py" where
  "emit wr env now event = (if \<not> has_keys event then py_return ()
     else py_bind (py_lift (complete env now event)) (emit_completed wr))"

definition logDispatch :: "'w writer \<Rightarrow> log_env \<Rightarrow> logval \<Rightarrow> logval list \<Rightarrow> event \<Rightarrow> ('w, unit) out_py" where
  "logDispatch wr env now msg kw = emit wr env now (dict_set ''message'' (LTuple msg) kw)"

end
