(* ===== verification/LogOutputs.thy ===== *)
theory LogOutputs
  imports EventLog Md5
begin

text \<open>
  What the plugins write of an event: \<open>cowrie/core/cef.py\<close>, \<open>cowrie/output/textlog.py\<close>, \<open>jsonlog.py\<close> and
  \<open>localsyslog.py\<close>, and the dump of Python's \<open>json\<close>, which is written piece by piece.
\<close>

section \<open>JSON\<close>

fun code_points :: "string \<Rightarrow> nat list" where
  "code_points [] = []"
| "code_points (c # cs) = (let b = of_char c :: nat;
       n = (if b < 192 then 0 else if b < 224 then 1 else if b < 240 then 2 else 3);
       top = (if n = 0 then b else b mod 2 ^ (6 - n))
     in foldl (\<lambda>a d. a * 64 + of_char d mod 64) top (take n cs) # code_points (drop n cs))"

definition hex4 :: "nat \<Rightarrow> string" where
  "hex4 n = CHR 0x5C # CHR ''u'' # map hex_digit [n div 4096 mod 16, n div 256 mod 16, n div 16 mod 16, n mod 16]"

definition json_char :: "nat \<Rightarrow> string" where
  "json_char n = (if n = 34 \<or> n = 92 then [CHR 0x5C, char_of n]
     else if 32 \<le> n \<and> n < 127 then [char_of n]
     else if n = 10 then [CHR 0x5C, CHR ''n''] else if n = 13 then [CHR 0x5C, CHR ''r'']
     else if n = 9 then [CHR 0x5C, CHR ''t''] else if n = 8 then [CHR 0x5C, CHR ''b'']
     else if n = 12 then [CHR 0x5C, CHR ''f'']
     else if n < 65536 then hex4 n
     else hex4 (55296 + (n - 65536) div 1024 mod 1024) @ hex4 (56320 + (n - 65536) mod 1024))"

definition json_string :: "string \<Rightarrow> string" where
  "json_string s = CHR 0x22 # concat (map json_char (code_points s)) @ [CHR 0x22]"

text \<open>The text that was written, and the exception that stopped it.\<close>

type_synonym dump = "string \<times> py_exc option"

definition and_then :: "dump \<Rightarrow> dump \<Rightarrow> dump" where
  "and_then a b = (case a of (s, Some e) \<Rightarrow> (s, Some e) | (s, None) \<Rightarrow> (s @ fst b, snd b))"

definition put :: "string \<Rightarrow> dump" where
  "put s = (s, None)"

definition json_key :: "(64 word \<Rightarrow> string) \<Rightarrow> logval \<Rightarrow> string option" where
  "json_key fl k = (case k of
       LText t \<Rightarrow> Some t | LFloat x \<Rightarrow> Some (fl x) | LBool b \<Rightarrow> Some (if b then ''true'' else ''false'') | LNone \<Rightarrow> Some ''null''
     | LInt i \<Rightarrow> Some (str_int i) | _ \<Rightarrow> None)"

function (sequential) json_dump :: "(64 word \<Rightarrow> string) \<Rightarrow> logval \<Rightarrow> dump"
  and json_items :: "(64 word \<Rightarrow> string) \<Rightarrow> bool \<Rightarrow> logval list \<Rightarrow> dump"
  and json_pairs :: "(64 word \<Rightarrow> string) \<Rightarrow> bool \<Rightarrow> (logval \<times> logval) list \<Rightarrow> dump" where
  "json_dump fl LNone = put ''null''"
| "json_dump fl (LBool b) = put (if b then ''true'' else ''false'')"
| "json_dump fl (LInt i) = put (str_int i)"
| "json_dump fl (LFloat x) = put (fl x)"
| "json_dump fl (LText t) = put (json_string t)"
| "json_dump fl (LBytes b) = ([], Some TypeError)"
| "json_dump fl (LTuple vs) = and_then (put ''['') (and_then (json_items fl True vs) (put '']''))"
| "json_dump fl (LList vs) = and_then (put ''['') (and_then (json_items fl True vs) (put '']''))"
| "json_dump fl (LDict ps) = and_then (put ''{'') (and_then (json_pairs fl True ps) (put ''}''))"
| "json_items fl first [] = put []"
| "json_items fl first (v # vs) = and_then (put (if first then [] else '','')) (and_then (json_dump fl v) (json_items fl False vs))"
| "json_pairs fl first [] = put []"
| "json_pairs fl first ((k, v) # ps) = (case json_key fl k of
       None \<Rightarrow> ([], Some TypeError)
     | Some t \<Rightarrow> and_then (put ((if first then [] else '','') @ json_string t @ '':''))
         (and_then (json_dump fl v) (json_pairs fl False ps)))"
  by pat_completeness auto
termination
  by (relation "measure (case_sum (\<lambda>(fl, v). size v) (case_sum (\<lambda>(fl, first, vs). size_list size vs) (\<lambda>(fl, first, ps). size_list (size_prod size size) ps)))") auto

definition json_event :: "(64 word \<Rightarrow> string) \<Rightarrow> event \<Rightarrow> dump" where
  "json_event fl ev = json_dump fl (LDict (map (\<lambda>(k, v). (LText k, v)) ev))"

section \<open>The JSON log\<close>

text \<open>Whether the epoch is added, how it is computed from the time, the time that is read the n-th time, and what floats print as.\<close>

record json_env =
  epoch_timestamp :: bool
  epoch_of :: "logval \<Rightarrow> logval res"
  iso_now :: "nat \<Rightarrow> string"
  float_repr :: "64 word \<Rightarrow> string"

text \<open>The keys that are removed before anything is written.\<close>

definition clean_key :: "string \<Rightarrow> event \<Rightarrow> event res" where
  "clean_key i ev = (let ev1 = (if starts_with i ''log_'' \<or> i = ''time'' \<or> i = ''system'' then AList.delete i ev else ev)
     in if i = ''new_session'' then bind_res (getitem (map_of ev1) i) (\<lambda>v. Inr (AList.delete i (dict_set ''session'' v ev1)))
        else Inr ev1)"

fun clean_keys :: "string list \<Rightarrow> event \<Rightarrow> event res" where
  "clean_keys [] ev = Inr ev"
| "clean_keys (i # ks) ev = bind_res (clean_key i ev) (clean_keys ks)"

definition move_key :: "string \<Rightarrow> string \<Rightarrow> event \<Rightarrow> event res" where
  "move_key new old ev = bind_res (getitem (map_of ev) old) (\<lambda>v. Inr (dict_set new v ev))"

definition drop_key :: "string \<Rightarrow> event \<Rightarrow> event res" where
  "drop_key k ev = bind_res (getitem (map_of ev) k) (\<lambda>_. Inr (AList.delete k ev))"

definition base_name :: "logval \<Rightarrow> logval res" where
  "base_name v = (case v of LText t \<Rightarrow> Inr (LText (last (split_str ''/'' t))) | _ \<Rightarrow> Inl (AttributeError ''split''))"

definition command_fields :: "logval \<Rightarrow> event \<Rightarrow> event res" where
  "command_fields eid ev = bind_res (move_key ''command_input'' ''input'' (dict_set ''eventid'' (LText ''command_accept'') ev)) (\<lambda>ev.
     let ev = dict_set ''command_input_codec'' (LText ''plain'') ev in
     bind_res (if eid = LText ''cowrie.command.failed'' then
         bind_res (move_key ''command_output'' ''message'' ev) (\<lambda>ev. Inr (dict_set ''command_output_codec'' (LText ''plain'') ev))
       else Inr ev) (drop_key ''input''))"

definition download_fields :: "event \<Rightarrow> event res" where
  "download_fields ev = bind_res (move_key ''file_sha256'' ''shasum'' (dict_set ''eventid'' (LText ''file_download'') ev)) (\<lambda>ev.
     bind_res (bind_res (getitem (map_of ev) ''outfile'') base_name) (\<lambda>name.
     bind_res (drop_key ''shasum'' (dict_set ''file_name'' name ev)) (\<lambda>ev.
     bind_res (move_key ''file_path'' ''outfile'' ev) (drop_key ''outfile''))))"

definition upload_fields :: "event \<Rightarrow> event res" where
  "upload_fields ev = bind_res (move_key ''file_sha256'' ''shasum'' (dict_set ''eventid'' (LText ''file_upload'') ev)) (\<lambda>ev.
     bind_res (move_key ''file_name'' ''filename'' ev) (\<lambda>ev.
     bind_res (drop_key ''shasum'' ev) (\<lambda>ev. bind_res (drop_key ''filename'' ev) (\<lambda>ev.
     bind_res (move_key ''file_path'' ''outfile'' ev) (drop_key ''outfile'')))))"

text \<open>\<open>None\<close> for an event that is not written.\<close>

definition json_fields :: "event \<Rightarrow> event option res" where
  "json_fields ev = (let eid = (case map_of ev ''eventid'' of None \<Rightarrow> LNone | Some v \<Rightarrow> v) in
     if eid = LText ''cowrie.command.failed'' \<or> eid = LText ''cowrie.command.success'' then bind_res (command_fields eid ev) (\<lambda>ev. Inr (Some ev))
     else if eid = LText ''cowrie.login.failed'' \<or> eid = LText ''cowrie.login.success'' then
       Inr (Some (dict_set ''auth_status'' (LBool (eid = LText ''cowrie.login.success'')) (dict_set ''eventid'' (LText ''authorization'') ev)))
     else if eid = LText ''cowrie.session.closed'' then
       bind_res (drop_key ''duration'' (dict_set ''eventid'' (LText ''disconnection'') ev)) (\<lambda>ev. Inr (Some ev))
     else if eid = LText ''cowrie.session.connect'' then Inr (Some (dict_set ''eventid'' (LText ''connection'') ev))
     else if eid = LText ''cowrie.session.file_download'' then bind_res (download_fields ev) (\<lambda>ev. Inr (Some ev))
     else if eid = LText ''cowrie.session.file_upload'' then bind_res (upload_fields ev) (\<lambda>ev. Inr (Some ev))
     else Inr None)"

definition json_prepare :: "json_env \<Rightarrow> event \<Rightarrow> event res" where
  "json_prepare env ev = bind_res
     (if epoch_timestamp env then bind_res (bind_res (getitem (map_of ev) ''time'') (epoch_of env)) (\<lambda>t. Inr (dict_set ''epoch'' t ev))
      else Inr ev) (\<lambda>ev. clean_keys (map fst ev) ev)"

text \<open>The file's text, and how often the time was read\<close>

type_synonym json_file = "string \<times> nat"

text \<open>A value that has no JSON is reported on the terminal; what was written before stays in the file.\<close>

definition json_line :: "json_env \<Rightarrow> event \<Rightarrow> string" where
  "json_line env ev = (case json_event (float_repr env) ev of (s, None) \<Rightarrow> s @ [CHR 0x0A] | (s, Some e) \<Rightarrow> s)"

definition dump_entry :: "json_env \<Rightarrow> event \<Rightarrow> (json_file, event) py" where
  "dump_entry env ev = (\<lambda>(f, n). let ev1 = dict_set ''timestamp'' (LText (iso_now env n)) ev
     in (Inr ev1, (f @ json_line env ev1, Suc n)))"

definition jsonlog_write :: "json_env \<Rightarrow> json_file writer" where
  "jsonlog_write env entry = py_bind (py_lift (json_prepare env entry)) (\<lambda>ev.
     py_bind (py_lift (json_fields ev)) (\<lambda>r. case r of None \<Rightarrow> py_return ev | Some ev1 \<Rightarrow> dump_entry env ev1))"

section \<open>CEF\<close>

definition base_extensions :: "event \<Rightarrow> event res" where
  "base_extensions ev = bind_res (getitem (map_of ev) ''sensor'') (\<lambda>sensor.
     bind_res (getitem (map_of ev) ''message'') (\<lambda>msg. bind_res (getitem (map_of ev) ''src_ip'') (\<lambda>src.
     Inr [(''app'', LText ''SSHv2''), (''destinationServicename'', LText ''sshd''), (''deviceExternalId'', sensor),
       (''msg'', msg), (''src'', src), (''proto'', LText ''tcp'')])))"

fun copy_keys :: "(string \<times> string) list \<Rightarrow> event \<Rightarrow> event \<Rightarrow> event res" where
  "copy_keys [] ev ext = Inr ext"
| "copy_keys ((new, old) # ks) ev ext = bind_res (getitem (map_of ev) old) (\<lambda>v. copy_keys ks ev (dict_set new v ext))"

definition more_extensions :: "event \<Rightarrow> event \<Rightarrow> event res" where
  "more_extensions ev ext = bind_res (getitem (map_of ev) ''eventid'') (\<lambda>eid.
     if eid = LText ''cowrie.session.connect'' then
       copy_keys [(''spt'', ''src_port''), (''dpt'', ''dst_port''), (''src'', ''src_ip''), (''dst'', ''dst_ip'')] ev ext
     else if eid = LText ''cowrie.login.success'' then
       bind_res (copy_keys [(''duser'', ''username'')] ev ext) (\<lambda>x. Inr (dict_set ''outcome'' (LText ''success'') x))
     else if eid = LText ''cowrie.login.failed'' then
       bind_res (copy_keys [(''duser'', ''username'')] ev ext) (\<lambda>x. Inr (dict_set ''outcome'' (LText ''failed'') x))
     else if eid = LText ''cowrie.file.file_download'' \<or> eid = LText ''cowrie.file.file_upload'' then
       copy_keys [(''filehash'', ''filehash''), (''filePath'', ''filename''), (''fsize'', ''size'')] ev ext
     else Inr ext)"

definition formatCef :: "log_env \<Rightarrow> event \<Rightarrow> string res" where
  "formatCef env ev = bind_res (getitem (map_of ev) ''eventid'') (\<lambda>eid.
     bind_res (bind_res (base_extensions ev) (more_extensions ev)) (\<lambda>ext.
     case eid of LText name \<Rightarrow> Inr (''CEF:0|Cowrie|Cowrie|1.0|'' @ name @ ''|'' @ name @ ''|5|'' @
         join '' '' (map (\<lambda>(k, v). k @ ''='' @ show_log env v) ext))
     | _ \<Rightarrow> Inl TypeError))"

section \<open>Text and system log\<close>

definition put_text :: "string \<Rightarrow> (string, unit) py" where
  "put_text t = py_modify (\<lambda>f. f @ t)"

definition textlog_write :: "log_env \<Rightarrow> bool \<Rightarrow> string writer" where
  "textlog_write env cef ev =
     py_bind (item ev ''timestamp'') (\<lambda>t. py_bind (put_text (show_log env t @ '' '')) (\<lambda>_.
     py_bind (if cef then py_bind (py_lift (formatCef env ev)) (\<lambda>l. put_text (l @ [CHR 0x0A]))
       else py_bind (item ev ''session'') (\<lambda>s. py_bind (put_text (show_log env s @ '' '')) (\<lambda>_.
         py_bind (item ev ''message'') (\<lambda>m. put_text (show_log env m @ [CHR 0x0A]))))) (\<lambda>_.
     py_return ev)))"

text \<open>What is handed to the system log is kept in order.\<close>

definition syslog_write :: "log_env \<Rightarrow> bool \<Rightarrow> event list writer" where
  "syslog_write env cef entry = (let ev = (if dict_has ''isError'' entry then entry else dict_set ''isError'' (LBool False) entry) in
     if cef then py_bind (py_lift (formatCef env ev)) (\<lambda>l.
         py_bind (py_modify (\<lambda>w. w @ [[(''message'', LText l), (''isError'', LBool False), (''system'', LText ''cowrie'')]])) (\<lambda>_. py_return ev))
     else py_bind (item ev ''message'') (\<lambda>m. let ev1 = dict_set ''message'' (LList [m]) ev in
         py_bind (py_modify (\<lambda>w. w @ [ev1])) (\<lambda>_. py_return ev1)))"

end
