(* ===== verification/EventLogProps.thy ===== *)
theory EventLogProps
  imports EventLog
begin

text \<open>
  What the dispatcher hands to a plugin, against a map from the numbers of the open connections to what
  is known of them.
\<close>

section \<open>Single steps\<close>

lemma item_Some: "map_of ev k = Some v \<Longrightarrow> item ev k s = (Inr v, s)"
  by (simp add: item_def getitem_def)

lemma read_key_Some: "map_of d k = Some v \<Longrightarrow> read_key d k s = (Inr v, s)"
  by (simp add: read_key_def)

lemma read_key_None: "map_of d k = None \<Longrightarrow> read_key d k s = (Inl (KeyError (key_text k)), s)"
  by (simp add: read_key_def)

lemma map_of_AList [simp]:
  "map_of (AList.update k v d) = (map_of d)(k \<mapsto> v)" "map_of (AList.delete k d) = (map_of d)(k := None)"
  by (auto simp: update_conv' delete_conv' fun_eq_iff)

lemmas log_steps = item_Some read_key_Some read_key_None del_item_def

text \<open>What is known of a connection.\<close>

type_synonym known = "logval \<times> logval \<times> logval \<times> logval"

definition open_connections :: "'w plugin \<Rightarrow> logval \<Rightarrow> known option" where
  "open_connections s no = (case (map_of (sessions s) no, map_of (ips s) no, map_of (src_ports s) no, map_of (protocols s) no) of
       (Some a, Some b, Some c, Some d) \<Rightarrow> Some (a, b, c, d) | _ \<Rightarrow> None)"

definition agree :: "'w plugin \<Rightarrow> bool" where
  "agree s \<longleftrightarrow> dom (map_of (ips s)) = dom (map_of (sessions s)) \<and> dom (map_of (src_ports s)) = dom (map_of (sessions s)) \<and>
     dom (map_of (protocols s)) = dom (map_of (sessions s))"

lemma agreeD:
  assumes "agree s"
  shows "map_of (ips s) no = None \<longleftrightarrow> map_of (sessions s) no = None" "map_of (src_ports s) no = None \<longleftrightarrow> map_of (sessions s) no = None"
    "map_of (protocols s) no = None \<longleftrightarrow> map_of (sessions s) no = None"
  using assms unfolding agree_def by (metis domIff)+

lemma agreeI:
  "(\<And>no. map_of (ips s) no = None \<longleftrightarrow> map_of (sessions s) no = None) \<Longrightarrow>
   (\<And>no. map_of (src_ports s) no = None \<longleftrightarrow> map_of (sessions s) no = None) \<Longrightarrow>
   (\<And>no. map_of (protocols s) no = None \<longleftrightarrow> map_of (sessions s) no = None) \<Longrightarrow> agree s"
  unfolding agree_def dom_def by simp

lemma open_Some_iff:
  "open_connections s no = Some (a, b, c, d) \<longleftrightarrow>
     map_of (sessions s) no = Some a \<and> map_of (ips s) no = Some b \<and> map_of (src_ports s) no = Some c \<and> map_of (protocols s) no = Some d"
  by (auto simp: open_connections_def split: option.splits)

lemma open_None_iff: "agree s \<Longrightarrow> open_connections s no = None \<longleftrightarrow> map_of (sessions s) no = None"
  by (auto simp: open_connections_def agreeD split: option.splits)

definition addressed :: "'w plugin \<Rightarrow> known \<Rightarrow> event \<Rightarrow> event" where
  "addressed s k ev = (case k of (sess, ip, port, proto) \<Rightarrow>
     dict_set ''protocol'' proto (dict_set ''dest_port'' (dest_port s) (dict_set ''dest_ip'' (dest_ip s)
       (dict_set ''src_port'' port (dict_set ''src_ip'' ip ev)))))"

lemma with_address_open: "open_connections s no = Some k \<Longrightarrow> with_address no ev s = (Inr (addressed s k ev), s)"
  by (cases k) (simp add: with_address_def addressed_def open_Some_iff log_steps)

lemma with_address_closed: "agree s \<Longrightarrow> open_connections s no = None \<Longrightarrow> with_address no ev s = (Inr ev, s)"
  using agreeD(1) [of s no] by (simp add: with_address_def open_None_iff)

lemma forget_open:
  "open_connections s no = Some k \<Longrightarrow> forget no s = (Inr (), s\<lparr>sessions := AList.delete no (sessions s), ips := AList.delete no (ips s),
     src_ports := AList.delete no (src_ports s), protocols := AList.delete no (protocols s)\<rparr>)"
  by (cases k) (simp add: forget_def open_Some_iff log_steps)

definition connection_keys :: "string list" where
  "connection_keys = [''session'', ''src_ip'', ''src_port'', ''protocol'', ''dst_ip'', ''dst_port'']"

definition known_of :: "event \<Rightarrow> known" where
  "known_of ev = (the (map_of ev ''session''), the (map_of ev ''src_ip''), the (map_of ev ''src_port''), the (map_of ev ''protocol''))"

text \<open>The destination after a connection\<close>

definition destination :: "'w plugin \<Rightarrow> event \<Rightarrow> logval \<times> logval" where
  "destination s ev = (if dest_ip s = LNone \<or> dest_port s = LNone then (the (map_of ev ''dst_ip''), the (map_of ev ''dst_port''))
     else (dest_ip s, dest_port s))"

definition remember :: "logval \<Rightarrow> known \<Rightarrow> logval \<times> logval \<Rightarrow> 'w plugin \<Rightarrow> 'w plugin" where
  "remember no k d s = (case k of (sess, ip, port, proto) \<Rightarrow> s\<lparr>sessions := AList.update no sess (sessions s), ips := AList.update no ip (ips s),
     src_ports := AList.update no port (src_ports s), protocols := AList.update no proto (protocols s),
     dest_ip := fst d, dest_port := snd d\<rparr>)"

definition connected :: "logval \<times> logval \<Rightarrow> event \<Rightarrow> event" where
  "connected d ev = dict_set ''dest_port'' (snd d) (dict_set ''dest_ip'' (fst d) (AList.delete ''dst_port'' (AList.delete ''dst_ip'' ev)))"

lemma connect_complete:
  assumes "list_all (\<lambda>k. dict_has k ev) connection_keys"
  shows "connect no ev s = (Inr (connected (destination s ev) ev), remember no (known_of ev) (destination s ev) s)"
proof -
  from assms obtain a b c d e f where
    "map_of ev ''session'' = Some a" "map_of ev ''src_ip'' = Some b" "map_of ev ''src_port'' = Some c"
    "map_of ev ''protocol'' = Some d" "map_of ev ''dst_ip'' = Some e" "map_of ev ''dst_port'' = Some f"
    by (auto simp: connection_keys_def dict_has_iff)
  then show ?thesis
    by (simp add: connect_def connect_rest_def log_steps connected_def destination_def remember_def known_of_def)
qed

lemma open_remember [simp]: "open_connections (remember no k d s) = (open_connections s)(no \<mapsto> k)"
  by (cases k) (auto simp: remember_def open_connections_def fun_eq_iff)

lemma agree_remember: "agree s \<Longrightarrow> agree (remember no k d s)"
  by (cases k) (auto simp: remember_def agreeD intro!: agreeI)

lemma sink_remember [simp]: "sink (remember no k d s) = sink s"
  by (cases k) (simp add: remember_def)


section \<open>One call\<close>

text \<open>The number of a completed event that does not depend on what is remembered.\<close>

definition explicit_no :: "event \<Rightarrow> (logval \<times> event) option" where
  "explicit_no ev = (case map_of ev ''sessionno'' of
       Some no \<Rightarrow> Some (no, AList.delete ''sessionno'' ev)
     | None \<Rightarrow> (case map_of ev ''system'' of
           Some (LText system) \<Rightarrow> (case transport_no ''TelnetTransport'' system of
               Some no \<Rightarrow> Some (LText (CHR ''T'' # no), ev)
             | None \<Rightarrow> map_option (\<lambda>no. (LText (CHR ''S'' # no), ev)) (transport_no ''SSHTransport'' system))
         | _ \<Rightarrow> None))"

text \<open>An event as the program makes them: numbered by text, with a message; a connection with its addresses.\<close>

definition is_text :: "logval option \<Rightarrow> bool" where
  "is_text v \<longleftrightarrow> (case v of Some (LText t) \<Rightarrow> True | _ \<Rightarrow> False)"

definition is_connect :: "event \<Rightarrow> bool" where
  "is_connect ev \<longleftrightarrow> map_of ev ''eventid'' = Some (LText ''cowrie.session.connect'')"

definition is_closed :: "event \<Rightarrow> bool" where
  "is_closed ev \<longleftrightarrow> map_of ev ''eventid'' = Some (LText ''cowrie.session.closed'')"

definition proper :: "event \<Rightarrow> bool" where
  "proper ev \<longleftrightarrow> (if dict_has ''sessionno'' ev then is_text (map_of ev ''sessionno'')
       else \<not> dict_has ''session'' ev \<and> is_text (map_of ev ''system'')) \<and>
     is_text (map_of ev ''eventid'') \<and> dict_has ''timestamp'' ev \<and> dict_has ''message'' ev \<and>
     (is_connect ev \<longrightarrow> list_all (\<lambda>k. dict_has k ev) connection_keys)"

lemma session_no_proper: "proper ev \<Longrightarrow> session_no ev s = (Inr (explicit_no ev), s)"
  by (auto simp: proper_def session_no_def explicit_no_def is_text_def dict_has_iff split: option.splits logval.splits if_splits)

lemma explicit_no_keys:
  assumes "explicit_no ev = Some (no, ev1)" "proper ev"
  shows "\<exists>t. no = LText t" "k \<noteq> ''sessionno'' \<Longrightarrow> map_of ev1 k = map_of ev k"
  using assms by (auto simp: explicit_no_def proper_def is_text_def dict_has_iff split: option.splits logval.splits if_splits)

text \<open>What a call writes and leaves, when the event is proper.\<close>

definition written_event :: "'w plugin \<Rightarrow> logval \<Rightarrow> event \<Rightarrow> event option" where
  "written_event s no ev = (let m = open_connections s no; ev2 = (case m of None \<Rightarrow> ev | Some k \<Rightarrow> addressed s k ev) in
     if is_connect ev then Some (dict_set ''type'' (LText ''d_link_dph150s'') (connected (destination s ev2) ev2))
     else map_option (\<lambda>k. dict_set ''type'' (LText ''d_link_dph150s'') (dict_set ''session'' (fst k) ev2)) m)"

definition after_start :: "'w plugin \<Rightarrow> logval \<Rightarrow> event \<Rightarrow> 'w plugin" where
  "after_start s no ev = (let m = open_connections s no; ev2 = (case m of None \<Rightarrow> ev | Some k \<Rightarrow> addressed s k ev) in
     if is_connect ev then remember no (known_of ev2) (destination s ev2) s else s)"

lemma addressed_keys:
  "k \<notin> {''protocol'', ''dest_port'', ''dest_ip'', ''src_port'', ''src_ip''} \<Longrightarrow> map_of (addressed s k' ev) k = map_of ev k"
  by (cases k') (simp add: addressed_def)

lemma emit_completed_proper:
  assumes "proper ev" "agree s" "explicit_no ev = Some (no, ev1)" "written_event s no ev1 = Some ev3"
  shows "emit_completed wr ev s = py_bind (write_event wr ev3) (\<lambda>ev4. py_bind (item ev4 ''eventid'') (\<lambda>eid'.
     if eid' = LText ''cowrie.session.closed'' then forget no else py_return ())) (after_start s no ev1)"
proof -
  obtain t where no: "no = LText t" using explicit_no_keys(1) [OF assms(3,1)] by blast
  define ev2 where "ev2 = (case open_connections s no of None \<Rightarrow> ev1 | Some k \<Rightarrow> addressed s k ev1)"
  have keys: "k \<noteq> ''sessionno'' \<Longrightarrow> map_of ev1 k = map_of ev k" for k using explicit_no_keys(2) [OF assms(3,1)] .
  have addr: "with_address no ev1 s = (Inr ev2, s)"
    by (cases "open_connections s no") (simp_all add: ev2_def with_address_open with_address_closed assms(2))
  have eid: "map_of ev2 ''eventid'' = map_of ev ''eventid''"
    by (cases "open_connections s no") (simp_all add: ev2_def addressed_keys keys)
  obtain e where e: "map_of ev ''eventid'' = Some (LText e)"
    using assms(1) by (auto simp: proper_def is_text_def split: option.splits logval.splits)
  have conn: "is_connect ev1 \<longleftrightarrow> e = ''cowrie.session.connect''" by (simp add: is_connect_def keys e)
  show ?thesis
  proof (cases "e = ''cowrie.session.connect''")
    case True
    have c: "list_all (\<lambda>k. dict_has k ev2) connection_keys"
      using assms(1) True e
      by (cases "open_connections s no")
        (auto simp: proper_def is_connect_def connection_keys_def ev2_def dict_has_iff keys addressed_def)
    show ?thesis
      using assms(4) conn True
      by (simp add: emit_completed_def session_no_proper [OF assms(1)] assms(3) no [symmetric] addr eid e item_Some connect_complete [OF c]
          written_event_def after_start_def ev2_def [symmetric] Let_def)
        (simp add: no)
  next
    case False
    then obtain k where k: "open_connections s no = Some k"
      using assms(4) conn by (auto simp: written_event_def Let_def)
    obtain a b c d where kk: "k = (a, b, c, d)" by (cases k)
    have ev2: "ev2 = addressed s (a, b, c, d) ev1" using k kk by (simp add: ev2_def)
    have sess: "map_of (sessions s) no = Some a" using k kk by (simp add: open_Some_iff)
    show ?thesis
      using assms(4) conn False
      by (simp add: emit_completed_def session_no_proper [OF assms(1)] assms(3) addr eid [unfolded ev2] e item_Some
          written_event_def after_start_def ev2 Let_def k kk read_key_Some [OF sess])
        (simp add: no)
  qed
qed


lemma emit_completed_unknown:
  assumes "proper ev" "agree s" "explicit_no ev = Some (no, ev1)" "written_event s no ev1 = None"
  shows "snd (emit_completed wr ev s) = s"
proof -
  obtain t where no: "no = LText t" using explicit_no_keys(1) [OF assms(3,1)] by blast
  have keys: "k \<noteq> ''sessionno'' \<Longrightarrow> map_of ev1 k = map_of ev k" for k using explicit_no_keys(2) [OF assms(3,1)] .
  have m: "open_connections s no = None" and c: "\<not> is_connect ev1"
    using assms(4) by (auto simp: written_event_def Let_def split: if_splits)
  have addr: "with_address no ev1 s = (Inr ev1, s)" by (rule with_address_closed [OF assms(2) m])
  obtain e where e: "map_of ev ''eventid'' = Some (LText e)"
    using assms(1) by (auto simp: proper_def is_text_def split: option.splits logval.splits)
  have ne: "e \<noteq> ''cowrie.session.connect''" using c by (simp add: is_connect_def keys e)
  have sess: "map_of (sessions s) no = None" using m assms(2) by (simp add: open_None_iff)
  show ?thesis
    using ne by (simp add: emit_completed_def session_no_proper [OF assms(1)] assms(3) addr keys e item_Some read_key_None [OF sess] no [symmetric])
      (simp add: no)?
qed

lemma emit_completed_dropped:
  "proper ev \<Longrightarrow> explicit_no ev = None \<Longrightarrow> snd (emit_completed wr ev s) = s"
  by (simp add: emit_completed_def session_no_proper)

section \<open>The specification\<close>

text \<open>What an event says: time, id, message, session and address.\<close>

type_synonym row = "logval option \<times> logval option \<times> logval option \<times> known"

definition row :: "event \<Rightarrow> row" where
  "row ev = (map_of ev ''timestamp'', map_of ev ''eventid'', map_of ev ''message'', known_of ev)"

text \<open>
  A connection is opened under its number with what its event says; if the number is still open, the
  address is that of the connection that opened it. An event belongs to the connection that is open
  under its number, and is left out where there is none.
\<close>

definition opened :: "event \<Rightarrow> known option \<Rightarrow> known" where
  "opened ev old = (case old of None \<Rightarrow> known_of ev | Some (sess, addr) \<Rightarrow> (the (map_of ev ''session''), addr))"

definition spec_known :: "event \<Rightarrow> known option \<Rightarrow> known option" where
  "spec_known ev m = (if is_connect ev then Some (opened ev m) else m)"

definition spec_step :: "event \<Rightarrow> (logval \<Rightarrow> known option) \<Rightarrow> (logval \<Rightarrow> known option)" where
  "spec_step ev m = (case explicit_no ev of None \<Rightarrow> m
     | Some (no, _) \<Rightarrow> m(no := (if is_closed ev then None else spec_known ev (m no))))"

definition spec_row :: "event \<Rightarrow> (logval \<Rightarrow> known option) \<Rightarrow> row list" where
  "spec_row ev m = (case explicit_no ev of None \<Rightarrow> []
     | Some (no, _) \<Rightarrow> (case spec_known ev (m no) of None \<Rightarrow> []
         | Some k \<Rightarrow> [(map_of ev ''timestamp'', map_of ev ''eventid'', map_of ev ''message'', k)]))"

fun spec_rows :: "event list \<Rightarrow> (logval \<Rightarrow> known option) \<Rightarrow> row list" where
  "spec_rows [] m = []"
| "spec_rows (ev # evs) m = spec_row ev m @ spec_rows evs (spec_step ev m)"

lemma written_row:
  assumes "proper ev" "explicit_no ev = Some (no, ev1)"
  shows "map row (case written_event s no ev1 of None \<Rightarrow> [] | Some e \<Rightarrow> [e]) = spec_row ev (open_connections s)"
proof -
  have keys: "k \<noteq> ''sessionno'' \<Longrightarrow> map_of ev1 k = map_of ev k" for k using explicit_no_keys(2) [OF assms(2,1)] .
  show ?thesis
    by (cases "open_connections s no")
      (auto simp: written_event_def spec_row_def assms(2) spec_known_def is_connect_def keys Let_def row_def known_of_def
        connected_def opened_def addressed_def)
qed

lemma after_start_spec:
  assumes "proper ev" "explicit_no ev = Some (no, ev1)"
  shows "open_connections (after_start s no ev1) = (open_connections s)(no := spec_known ev (open_connections s no))"
    "agree s \<Longrightarrow> agree (after_start s no ev1)" "sink (after_start s no ev1) = sink s"
proof -
  have keys: "k \<noteq> ''sessionno'' \<Longrightarrow> map_of ev1 k = map_of ev k" for k using explicit_no_keys(2) [OF assms(2,1)] .
  show "open_connections (after_start s no ev1) = (open_connections s)(no := spec_known ev (open_connections s no))"
    by (cases "open_connections s no")
      (auto simp: after_start_def spec_known_def is_connect_def keys Let_def known_of_def opened_def addressed_def fun_eq_iff)
qed (simp_all add: after_start_def Let_def agree_remember)

lemma written_other_keys:
  assumes "written_event s no ev1 = Some ev3"
    "k \<notin> {''protocol'', ''dest_port'', ''dest_ip'', ''src_port'', ''src_ip'', ''type'', ''session'', ''dst_ip'', ''dst_port''}"
  shows "map_of ev3 k = map_of ev1 k"
proof -
  define ev2 where "ev2 = (case open_connections s no of None \<Rightarrow> ev1 | Some k \<Rightarrow> addressed s k ev1)"
  have "map_of ev2 k = map_of ev1 k" using assms(2) by (cases "open_connections s no") (simp_all add: ev2_def addressed_keys)
  moreover have "map_of ev3 k = map_of ev2 k"
    using assms by (auto simp: written_event_def ev2_def [symmetric] Let_def connected_def split: if_splits)
  ultimately show ?thesis by simp
qed

lemma written_keys:
  assumes "proper ev" "explicit_no ev = Some (no, ev1)" "written_event s no ev1 = Some ev3"
  shows "map_of ev3 ''eventid'' = map_of ev ''eventid''" "dict_has ''timestamp'' ev3" "dict_has ''message'' ev3"
    "open_connections (after_start s no ev1) no \<noteq> None"
proof -
  have keys: "k \<noteq> ''sessionno'' \<Longrightarrow> map_of ev1 k = map_of ev k" for k using explicit_no_keys(2) [OF assms(2,1)] .
  show "map_of ev3 ''eventid'' = map_of ev ''eventid''" "dict_has ''timestamp'' ev3" "dict_has ''message'' ev3"
    using assms(1) by (simp_all add: written_other_keys [OF assms(3)] keys dict_has_iff proper_def)
  show "open_connections (after_start s no ev1) no \<noteq> None"
    using assms(3) by (auto simp: after_start_def written_event_def Let_def split: if_splits) (metis prod_cases4)
qed

lemma written_session:
  assumes "proper ev" "explicit_no ev = Some (no, ev1)" "written_event s no ev1 = Some ev3"
  shows "dict_has ''session'' ev3"
proof (cases "is_connect ev1")
  case True
  then have "dict_has ''session'' ev1"
    using assms(1) explicit_no_keys(2) [OF assms(2,1)]
    by (simp add: proper_def is_connect_def connection_keys_def dict_has_iff)
  with True assms(3) show ?thesis
    by (cases "open_connections s no") (auto simp: written_event_def Let_def dict_has_iff connected_def addressed_keys)
next
  case False
  with assms(3) show ?thesis by (auto simp: written_event_def Let_def dict_has_iff)
qed


section \<open>Every plugin\<close>

text \<open>Events one after the other; an exception that a plugin raises does not stop the next one.\<close>

definition log_run :: "'w writer \<Rightarrow> log_env \<Rightarrow> (logval \<times> event) list \<Rightarrow> 'w plugin \<Rightarrow> 'w plugin" where
  "log_run wr env = fold (\<lambda>(now, ev) s. snd (emit wr env now ev s))"

definition completed :: "log_env \<Rightarrow> (logval \<times> event) list \<Rightarrow> event list" where
  "completed env calls = concat (map (\<lambda>(now, ev). if has_keys ev then (case complete env now ev of Inr e \<Rightarrow> [e] | Inl _ \<Rightarrow> []) else []) calls)"

lemma log_run_completed: "log_run wr env calls s = fold (\<lambda>ev s. snd (emit_completed wr ev s)) (completed env calls) s"
proof (induction calls arbitrary: s)
  case Nil
  then show ?case by (simp add: log_run_def completed_def)
next
  case (Cons c calls)
  obtain now ev where c: "c = (now, ev)" by (cases c)
  have "snd (emit wr env now ev s) = fold (\<lambda>ev s. snd (emit_completed wr ev s)) (completed env [c]) s"
    by (auto simp: c emit_def completed_def split: sum.splits)
  with Cons.IH show ?case by (simp add: log_run_def completed_def c)
qed

text \<open>
  The interface of a plugin: it takes an event that has a time, a message and a session, adds to what it
  keeps what the event's row says, and leaves the event's id.
\<close>

locale event_writer =
  fixes wr :: "'w writer" and outs :: "'w \<Rightarrow> 'o list" and obs :: "row \<Rightarrow> 'o list"
  assumes writes: "dict_has ''timestamp'' ev \<Longrightarrow> dict_has ''message'' ev \<Longrightarrow> dict_has ''session'' ev \<Longrightarrow> is_text (map_of ev ''eventid'') \<Longrightarrow>
     \<exists>ev' w'. wr ev w = (Inr ev', w') \<and> map_of ev' ''eventid'' = map_of ev ''eventid'' \<and> outs w' = outs w @ obs (row ev)"
begin

lemma step_written:
  assumes "proper ev" "agree s" "explicit_no ev = Some (no, ev1)" "written_event s no ev1 = Some ev3"
  shows "\<exists>w. outs w = outs (sink s) @ obs (row ev3) \<and> snd (emit_completed wr ev s) = (let t = (after_start s no ev1)\<lparr>sink := w\<rparr> in
     if is_closed ev then snd (forget no t) else t)"
proof -
  note keys = written_keys [OF assms(1,3,4)]
  have eidt: "is_text (map_of ev3 ''eventid'')" using assms(1) by (simp add: keys(1) proper_def)
  obtain ev' w where w: "wr ev3 (sink s) = (Inr ev', w)" "map_of ev' ''eventid'' = map_of ev3 ''eventid''" "outs w = outs (sink s) @ obs (row ev3)"
    using writes [OF keys(2,3) written_session [OF assms(1,3,4)] eidt] by blast
  obtain e where e: "map_of ev ''eventid'' = Some (LText e)"
    using assms(1) by (auto simp: proper_def is_text_def split: option.splits logval.splits)
  have "snd (emit_completed wr ev s) = (let t = (after_start s no ev1)\<lparr>sink := w\<rparr> in if is_closed ev then snd (forget no t) else t)"
    by (simp add: emit_completed_proper [OF assms] write_event_def after_start_spec(3) [OF assms(1,3)] w keys(1) e
        item_Some is_closed_def Let_def)
  with w(3) show ?thesis by blast
qed

lemma step_refines:
  assumes "proper ev" "agree s"
  shows "agree (snd (emit_completed wr ev s))"
    "open_connections (snd (emit_completed wr ev s)) = spec_step ev (open_connections s)"
    "outs (sink (snd (emit_completed wr ev s))) = outs (sink s) @ concat (map obs (spec_row ev (open_connections s)))"
proof -
  have "agree (snd (emit_completed wr ev s)) \<and>
    open_connections (snd (emit_completed wr ev s)) = spec_step ev (open_connections s) \<and>
    outs (sink (snd (emit_completed wr ev s))) = outs (sink s) @ concat (map obs (spec_row ev (open_connections s)))"
  proof (cases "explicit_no ev")
    case None
    then show ?thesis using assms by (simp add: emit_completed_dropped spec_step_def spec_row_def)
  next
    case (Some p)
    then obtain no ev1 where no: "explicit_no ev = Some (no, ev1)" by (cases p) auto
    note row = written_row [OF assms(1) no, of s]
    note after = after_start_spec [OF assms(1) no, of s]
    show ?thesis
    proof (cases "written_event s no ev1")
      case None
      then have u: "spec_known ev (open_connections s no) = None"
        using row by (auto simp: spec_row_def no split: option.splits)
      then have "open_connections s no = None" by (auto simp: spec_known_def split: if_splits)
      with u None row show ?thesis
        using emit_completed_unknown [OF assms no None, of wr] assms(2) by (auto simp: spec_step_def no)
    next
      case (Some ev3)
      from step_written [OF assms no Some] obtain w where
        w: "outs w = outs (sink s) @ obs (row ev3)"
        and s': "snd (emit_completed wr ev s) = (let t = (after_start s no ev1)\<lparr>sink := w\<rparr> in if is_closed ev then snd (forget no t) else t)"
        by blast
      let ?t = "(after_start s no ev1)\<lparr>sink := w\<rparr>"
      have same: "open_connections ?t = open_connections (after_start s no ev1)" by (simp add: open_connections_def fun_eq_iff)
      have at: "agree ?t" using after(2) [OF assms(2)] by (simp add: agree_def)
      obtain k where k: "open_connections ?t no = Some k" using written_keys(4) [OF assms(1) no Some] same by auto
      have f: "snd (forget no ?t) = ?t\<lparr>sessions := AList.delete no (sessions ?t), ips := AList.delete no (ips ?t),
         src_ports := AList.delete no (src_ports ?t), protocols := AList.delete no (protocols ?t)\<rparr>"
        by (simp only: forget_open [OF k] snd_conv)
      have af: "agree (snd (forget no ?t))" unfolding f using agreeD [OF at] by (intro agreeI) auto
      have "open_connections (snd (forget no ?t)) = (open_connections ?t)(no := None)"
        unfolding f by (auto simp: open_connections_def fun_eq_iff)
      then show ?thesis
        using w at af by (auto simp: s' Let_def same after(1) spec_step_def no Some f row [symmetric])
    qed
  qed
  then show "agree (snd (emit_completed wr ev s))"
    "open_connections (snd (emit_completed wr ev s)) = spec_step ev (open_connections s)"
    "outs (sink (snd (emit_completed wr ev s))) = outs (sink s) @ concat (map obs (spec_row ev (open_connections s)))" by blast+
qed

lemma run_completed:
  "list_all proper evs \<Longrightarrow> agree s \<Longrightarrow> outs (sink (fold (\<lambda>ev s. snd (emit_completed wr ev s)) evs s)) =
     outs (sink s) @ concat (map obs (spec_rows evs (open_connections s)))"
  by (induction evs arbitrary: s) (simp_all add: step_refines)

lemma run_refines:
  "list_all proper (completed env calls) \<Longrightarrow> agree s \<Longrightarrow> outs (sink (log_run wr env calls s)) =
     outs (sink s) @ concat (map obs (spec_rows (completed env calls) (open_connections s)))"
  unfolding log_run_completed by (rule run_completed)

end

lemma Output_init_simps [simp]:
  "agree (Output_init w)" "open_connections (Output_init w) = Map.empty" "sink (Output_init w) = w"
  by (simp_all add: Output_init_def agree_def open_connections_def fun_eq_iff)

end
