(* ===== verification/LogOutputsProps.thy ===== *)
theory LogOutputsProps
  imports LogOutputs EventLogProps
begin

text \<open>
  The plugins against the dispatcher's interface: the text and the system log satisfy it; the JSON log
  changes the event's id and so keeps every session for ever, but writes at most one line for an event;
  a connection has no CEF.
\<close>

section \<open>The text and the system log\<close>

definition logged_row :: "event \<Rightarrow> row" where
  "logged_row ev = (map_of ev ''timestamp'', map_of ev ''eventid'',
     (case map_of ev ''message'' of Some (LList [m]) \<Rightarrow> Some m | v \<Rightarrow> v), known_of ev)"

interpretation syslog: event_writer "syslog_write env False" "map logged_row" "\<lambda>r. [r]" for env
proof (unfold_locales, goal_cases)
  case (1 ev w)
  then obtain m where m: "map_of ev ''message'' = Some m" by (auto simp: dict_has_iff)
  show ?case
    by (simp add: syslog_write_def Let_def item_Some m logged_row_def row_def known_of_def)
qed

definition text_line :: "log_env \<Rightarrow> row \<Rightarrow> string" where
  "text_line env r = (case r of (t, eid, m, sess, addr) \<Rightarrow>
     show_log env (the t) @ '' '' @ show_log env sess @ '' '' @ show_log env (the m) @ [CHR 0x0A])"

interpretation textlog: event_writer "textlog_write env False" "\<lambda>f. f" "text_line env" for env
proof (unfold_locales, goal_cases)
  case (1 ev w)
  then obtain m t s where "map_of ev ''message'' = Some m" "map_of ev ''timestamp'' = Some t" "map_of ev ''session'' = Some s"
    by (auto simp: dict_has_iff)
  then show ?case
    by (simp add: textlog_write_def item_Some row_def known_of_def text_line_def put_text_def)
qed

text \<open>C13: The system log says of every event the session and the address of the connection that is open
  under the event's number, and nothing of events without one: for any sequence of events as the program
  makes them, what is in the log is what the specification reads off a map from the numbers of the
  open connections to their session and address.\<close>

theorem system_log_attributes:
  assumes "list_all proper (completed env calls)"
  shows "map logged_row (sink (log_run (syslog_write env False) env calls (Output_init []))) = spec_rows (completed env calls) Map.empty"
  using syslog.run_refines [OF assms, of "Output_init []" env] by simp

text \<open>The text log has the same rows, one line each.\<close>

lemma text_log_rows:
  "list_all proper (completed env calls) \<Longrightarrow>
     sink (log_run (textlog_write env False) env calls (Output_init [])) = concat (map (text_line env) (spec_rows (completed env calls) Map.empty))"
  using textlog.run_refines [of env calls "Output_init []" env] by simp

text \<open>A message with a line's end in it reads as two events.\<close>

lemma text_line_forged:
  "text_line env (Some (LText t), eid, Some (LText (m @ [CHR 0x0A] @ t' @ '' '' @ u @ '' '' @ m')), LText s, addr) =
     text_line env (Some (LText t), eid1, Some (LText m), LText s, addr) @ text_line env (Some (LText t'), eid2, Some (LText m'), LText u, addr')"
  by (simp add: text_line_def show_log_def)

section \<open>The JSON log\<close>

lemma move_key_other: "move_key new old ev = Inr ev' \<Longrightarrow> k \<noteq> new \<Longrightarrow> map_of ev' k = map_of ev k"
  by (auto simp: move_key_def py_simps)

lemma drop_key_other: "drop_key old ev = Inr ev' \<Longrightarrow> k \<noteq> old \<Longrightarrow> map_of ev' k = map_of ev k"
  by (auto simp: drop_key_def py_simps)

lemma command_fields_id: "command_fields eid ev = Inr ev' \<Longrightarrow> map_of ev' ''eventid'' = Some (LText ''command_accept'')"
  by (auto simp: command_fields_def py_simps Let_def drop_key_other move_key_other split: if_splits)

lemma download_fields_id: "download_fields ev = Inr ev' \<Longrightarrow> map_of ev' ''eventid'' = Some (LText ''file_download'')"
  unfolding download_fields_def bind_res_Inr_iff by (elim exE conjE) (simp add: drop_key_other move_key_other)

lemma upload_fields_id: "upload_fields ev = Inr ev' \<Longrightarrow> map_of ev' ''eventid'' = Some (LText ''file_upload'')"
  unfolding upload_fields_def bind_res_Inr_iff by (elim exE conjE) (simp add: drop_key_other move_key_other)

text \<open>A session's end does not leave the plugin as a session's end.\<close>

lemma json_fields_None:
  assumes "json_fields ev = Inr None"
  shows "map_of ev ''eventid'' \<noteq> Some (LText ''cowrie.session.closed'')"
proof
  assume c: "map_of ev ''eventid'' = Some (LText ''cowrie.session.closed'')"
  from assms show False by (simp add: json_fields_def c py_simps)
qed

lemma if_cases: "(if b then x else y) = z \<Longrightarrow> (b \<Longrightarrow> x = z \<Longrightarrow> P) \<Longrightarrow> (y = z \<Longrightarrow> P) \<Longrightarrow> P"
  by (cases b) auto

lemma written_fields: "bind_res r (\<lambda>ev. Inr (Some ev)) = Inr (Some ev1) \<Longrightarrow> r = Inr ev1"
  by (simp add: py_simps)

lemma json_fields_Some:
  assumes "json_fields ev = Inr (Some ev1)"
  shows "map_of ev1 ''eventid'' \<noteq> Some (LText ''cowrie.session.closed'')"
  using assms unfolding json_fields_def Let_def
  apply (elim if_cases)
  subgoal by (drule written_fields, drule command_fields_id) simp
  subgoal by (simp only: sum.inject option.inject) auto
  subgoal by (drule written_fields) (simp add: drop_key_other)
  subgoal by (simp only: sum.inject option.inject) auto
  subgoal by (drule written_fields, drule download_fields_id) simp
  subgoal by (drule written_fields, drule upload_fields_id) simp
  subgoal by simp
  done

lemma jsonlog_id:
  assumes "jsonlog_write env ev w = (Inr ev', w')"
  shows "map_of ev' ''eventid'' \<noteq> Some (LText ''cowrie.session.closed'')"
proof -
  from assms obtain ev1 r where r: "json_fields ev1 = Inr r"
    and ev': "(case r of None \<Rightarrow> py_return ev1 | Some ev2 \<Rightarrow> dump_entry env ev2) w = (Inr ev', w')"
    by (auto simp: jsonlog_write_def split: sum.splits)
  show ?thesis
  proof (cases r)
    case None
    with ev' json_fields_None r show ?thesis by auto
  next
    case (Some ev2)
    with ev' have "map_of ev' ''eventid'' = map_of ev2 ''eventid''" by (auto simp: dump_entry_def Let_def split: prod.splits)
    with json_fields_Some r Some show ?thesis by auto
  qed
qed


definition ips_extend :: "'w plugin \<Rightarrow> 'w plugin \<Rightarrow> bool" where
  "ips_extend s s' \<longleftrightarrow> map_of (ips s) \<subseteq>\<^sub>m map_of (ips s')"

lemma same_preorder: "preorder_on_states (\<lambda>s s'. f s' = f s)"
  by (auto simp: preorder_on_states_def reflp_def transp_def)

lemma keeps_item [keeps_intros]: "preorder_on_states R \<Longrightarrow> keeps R (item ev k)"
  by (simp add: item_def keeps_lift)

lemma keeps_read_key [keeps_intros]: "preorder_on_states R \<Longrightarrow> keeps R (read_key d k)"
  unfolding read_key_def by (cases "map_of d k") (simp_all add: keeps_raise keeps_return)

lemma keeps_del_item [keeps_intros]: "preorder_on_states R \<Longrightarrow> keeps R (del_item ev k)"
  unfolding del_item_def by (intro keeps_intros)

lemma connect_rest_keeps:
  assumes "\<And>s g. f (src_ports_update g s) = f s" "\<And>s g. f (protocols_update g s) = f s"
    "\<And>s g. f (dest_ip_update g s) = f s" "\<And>s g. f (dest_port_update g s) = f s"
  shows "keeps (\<lambda>s s'. f s' = f s) (connect_rest no ev)"
  unfolding connect_rest_def by (intro keeps_intros same_preorder keeps_modify) (simp_all add: assms)

lemma connect_ips:
  fixes s :: "'w plugin"
  shows "ips (snd (connect no ev s)) = ips s \<or> (\<exists>v. map_of ev ''src_ip'' = Some v \<and> ips (snd (connect no ev s)) = AList.update no v (ips s))"
proof -
  have rest: "ips (snd (connect_rest no ev t)) = ips t" for t :: "'w plugin"
    using connect_rest_keeps [of "ips :: 'w plugin \<Rightarrow> _" no ev] by (simp add: keeps_def)
  show ?thesis
    by (cases "map_of ev ''session''"; cases "map_of ev ''src_ip''") (auto simp: connect_def item_def getitem_def rest)
qed


lemma session_no_state: "snd (session_no ev s) = s"
  by (auto simp: session_no_def split: option.split logval.split)

lemma with_address_state: "snd (with_address no ev s) = s"
  by (auto simp: with_address_def read_key_def split: option.split)

lemma with_address_ip:
  "with_address no ev s = (Inr ev', t) \<Longrightarrow> map_of (ips s) no = Some ip \<Longrightarrow> map_of ev' ''src_ip'' = Some ip"
  by (auto simp: with_address_def read_key_def split: option.splits)

lemma connect_extends:
  assumes "with_address no ev s = (Inr ev', s)"
  shows "ips_extend s (snd (connect no ev' s))"
proof -
  consider "ips (snd (connect no ev' s)) = ips s"
    | v where "map_of ev' ''src_ip'' = Some v" "ips (snd (connect no ev' s)) = AList.update no v (ips s)"
    using connect_ips by blast
  then show ?thesis
  proof cases
    case 1
    then show ?thesis by (simp add: ips_extend_def)
  next
    case (2 v)
    then show ?thesis
      using with_address_ip [OF assms] by (auto simp: ips_extend_def map_le_def dom_def)
  qed
qed

lemma ips_extend_trans: "ips_extend s t \<Longrightarrow> ips_extend t u \<Longrightarrow> ips_extend s u"
  unfolding ips_extend_def by (rule map_le_trans)

lemma write_event_ips: "ips (snd (write_event wr ev s)) = ips s"
  by (simp add: write_event_def split: prod.split)

lemma ips_extend_refl [simp]: "ips_extend t t"
  by (simp add: ips_extend_def)

lemma json_tail_extends:
  "ips_extend t (snd (py_bind (write_event (jsonlog_write jenv) ev) (\<lambda>ev4. py_bind (item ev4 ''eventid'') (\<lambda>eid'.
     if eid' = LText ''cowrie.session.closed'' then forget no else py_return ())) t))"
proof -
  obtain r w where w: "jsonlog_write jenv ev (sink t) = (r, w)" by (cases "jsonlog_write jenv ev (sink t)") auto
  show ?thesis
  proof (cases r)
    case (Inl e)
    with w show ?thesis by (simp add: write_event_def ips_extend_def)
  next
    case (Inr ev4)
    with jsonlog_id w have "map_of ev4 ''eventid'' \<noteq> Some (LText ''cowrie.session.closed'')" by blast
    with w Inr show ?thesis
      by (cases "map_of ev4 ''eventid''") (simp_all add: write_event_def item_def getitem_def ips_extend_def)
  qed
qed

lemma json_emit_completed_extends: "ips_extend s (snd (emit_completed (jsonlog_write jenv) ev s))"
proof -
  obtain r where r: "session_no ev s = (r, s)" using session_no_state [of ev s] by (metis prod.collapse)
  show ?thesis
  proof (cases "\<exists>no ev1. r = Inr (Some (no, ev1)) \<and> hashable no")
    case False
    then show ?thesis by (auto simp: emit_completed_def r split: sum.split option.split)
  next
    case True
    then obtain no ev1 where no: "r = Inr (Some (no, ev1))" "hashable no" by blast
    obtain a where a: "with_address no ev1 s = (a, s)" using with_address_state [of no ev1 s] by (metis prod.collapse)
    show ?thesis
    proof (cases "\<exists>ev2 eid. a = Inr ev2 \<and> map_of ev2 ''eventid'' = Some eid")
      case False
      then show ?thesis by (cases a) (simp_all add: emit_completed_def r no a item_def getitem_def)
    next
      case True
      then obtain ev2 eid where ev2: "a = Inr ev2" "map_of ev2 ''eventid'' = Some eid" by blast
      define start :: "(json_file, event) out_py" where "start = (if eid = LText ''cowrie.session.connect'' then connect no ev2
         else py_bind (py_bind py_get (\<lambda>s. read_key (sessions s) no)) (\<lambda>sess. py_return (dict_set ''session'' sess ev2)))"
      have st: "ips_extend s (snd (start s))"
        using connect_extends [OF a [unfolded ev2(1)]] by (simp add: start_def read_key_def split: option.split)
      then show ?thesis
        using ips_extend_trans [OF st json_tail_extends]
        by (cases "start s"; cases "fst (start s)") (simp_all add: emit_completed_def r no a ev2(1) item_Some [OF ev2(2)] start_def [symmetric])
    qed
  qed
qed

text \<open>C24: With the JSON log as plugin, what is remembered of a connection's address is never given up nor
  changed, whatever happens to the session: the plugin replaces the event's id before the dispatcher
  looks whether the session has ended.\<close>

theorem json_log_never_forgets:
  assumes "map_of (ips s) no = Some ip"
  shows "map_of (ips (log_run (jsonlog_write jenv) env calls s)) no = Some ip"
proof -
  have "ips_extend s (fold (\<lambda>ev s. snd (emit_completed (jsonlog_write jenv) ev s)) evs s)" for evs
    by (induction evs arbitrary: s) (auto intro: ips_extend_trans json_emit_completed_extends)
  then show ?thesis
    using assms unfolding log_run_completed ips_extend_def map_le_def by (metis domI)
qed


section \<open>One event, one line\<close>

definition line_ends :: "string \<Rightarrow> nat" where
  "line_ends s = length (filter (\<lambda>c. c = CHR 0x0A) s)"

lemma line_ends_simps [simp]:
  "line_ends [] = 0" "line_ends (c # s) = (if c = CHR 0x0A then Suc (line_ends s) else line_ends s)"
  "line_ends (s @ t) = line_ends s + line_ends t"
  by (simp_all add: line_ends_def)

lemma line_ends_0: "line_ends s = 0 \<longleftrightarrow> CHR 0x0A \<notin> set s"
  by (auto simp: line_ends_def filter_empty_conv)

lemma hex_digit_line: "d < 16 \<Longrightarrow> hex_digit d \<noteq> CHR 0x0A"
proof -
  assume "d < 16"
  then have "hex_digit d \<in> set ''0123456789abcdef''" unfolding hex_digit_def by (intro nth_mem) simp
  then show ?thesis by auto
qed

lemma hex4_line: "line_ends (hex4 n) = 0"
  unfolding hex4_def by (simp add: hex_digit_line)

lemma json_char_line: "line_ends (json_char n) = 0"
proof -
  have "char_of n \<noteq> (CHR 0x0A :: char)" if "32 \<le> n" "n < 127"
  proof
    assume "char_of n = (CHR 0x0A :: char)"
    then have "of_char (char_of n :: char) = (10 :: nat)" by simp
    with that show False by simp
  qed
  then show ?thesis by (auto simp: json_char_def hex4_line)
qed

lemma json_string_line: "line_ends (json_string s) = 0"
  unfolding json_string_def by (simp add: line_ends_0) (use json_char_line line_ends_0 in auto)

lemma and_then_line: "line_ends (fst a) = 0 \<Longrightarrow> line_ends (fst b) = 0 \<Longrightarrow> line_ends (fst (and_then a b)) = 0"
  by (auto simp: and_then_def split: prod.split option.split)

lemma put_line [simp]: "line_ends (fst (put s)) = line_ends s"
  by (simp add: put_def)

lemma str_int_line: "line_ends (str_int i) = 0"
  using str_nat_digits by (auto simp: line_ends_0 str_int_def)


lemma json_pairs_line:
  "(json_key fl k = None \<or> line_ends (fst (json_dump fl v)) = 0 \<and> line_ends (fst (json_pairs fl False ps)) = 0) \<Longrightarrow>
     line_ends (fst (json_pairs fl first ((k, v) # ps))) = 0"
  by (cases "json_key fl k") (simp_all add: and_then_line json_string_line)

declare json_pairs.simps(2) [simp del]

lemma json_dump_line:
  assumes fl: "\<And>x. line_ends (fl x) = 0"
  shows "line_ends (fst (json_dump fl v)) = 0" "line_ends (fst (json_items fl b vs)) = 0" "line_ends (fst (json_pairs fl b ps)) = 0"
  using fl
proof (induction fl v and fl b vs and fl b ps rule: json_dump_json_items_json_pairs.induct)
  case (13 fl b k v ps)
  show ?case
  proof (rule json_pairs_line, cases "json_key fl k")
    case (Some t)
    show "json_key fl k = None \<or> line_ends (fst (json_dump fl v)) = 0 \<and> line_ends (fst (json_pairs fl False ps)) = 0"
      by (intro disjI2 conjI 13(1) [OF Some] 13(2) [OF Some] 13(3))
  qed (rule disjI1)
qed (simp_all add: and_then_line json_string_line str_int_line)

lemma json_line_ends: "(\<And>x. line_ends (float_repr jenv x) = 0) \<Longrightarrow> line_ends (json_line jenv ev) \<le> 1"
proof -
  assume "\<And>x. line_ends (float_repr jenv x) = 0"
  then have "line_ends (fst (json_event (float_repr jenv) ev)) = 0" unfolding json_event_def by (rule json_dump_line(1))
  then show ?thesis by (cases "json_event (float_repr jenv) ev"; cases "snd (json_event (float_repr jenv) ev)") (auto simp: json_line_def)
qed

lemma jsonlog_write_lines:
  assumes "\<And>x. line_ends (float_repr jenv x) = 0"
  shows "line_ends (fst (snd (jsonlog_write jenv ev w))) \<le> Suc (line_ends (fst w))"
  using json_line_ends [OF assms]
  by (auto simp: jsonlog_write_def dump_entry_def Let_def split: sum.split option.split prod.split)

lemma sink_kept:
  "keeps (\<lambda>s s'. sink s' = sink s) (connect no ev)" "keeps (\<lambda>s s'. sink s' = sink s) (forget no)"
  unfolding connect_def forget_def
  by (intro keeps_intros same_preorder keeps_modify connect_rest_keeps; simp)+

lemma write_event_sink: "sink (snd (write_event wr ev s)) = snd (wr ev (sink s))"
  by (simp add: write_event_def split: prod.split)

text \<open>A call hands at most one event to the plugin.\<close>

abbreviation same_sink :: "'w plugin \<Rightarrow> 'w plugin \<Rightarrow> bool" where
  "same_sink s s' \<equiv> sink s' = sink s"

definition one_write :: "'w writer \<Rightarrow> ('w, 'a) out_py \<Rightarrow> bool" where
  "one_write wr m \<longleftrightarrow> (\<forall>s. sink (snd (m s)) = sink s \<or> (\<exists>e. sink (snd (m s)) = snd (wr e (sink s))))"

lemma one_write_keeps: "keeps same_sink m \<Longrightarrow> one_write wr m"
  by (simp add: one_write_def keeps_def)

lemma one_write_bind:
  assumes m: "keeps same_sink m" and k: "\<And>a. one_write wr (k a)"
  shows "one_write wr (py_bind m k)"
  unfolding one_write_def
proof
  fix s
  have "sink (snd (m s)) = sink s" using m by (simp add: keeps_def)
  then show "sink (snd (py_bind m k s)) = sink s \<or> (\<exists>e. sink (snd (py_bind m k s)) = snd (wr e (sink s)))"
    using k unfolding one_write_def by (cases "m s"; cases "fst (m s)") (auto, metis)
qed

lemma one_write_end: "(\<And>a. keeps same_sink (k a)) \<Longrightarrow> one_write wr (py_bind (write_event wr ev) k)"
  unfolding one_write_def keeps_def by (intro allI disjI2 exI [of _ ev]) (auto simp: write_event_def split: prod.split sum.split)

lemma emit_completed_one_write: "one_write wr (emit_completed wr ev)"
proof -
  note keep = keeps_intros same_preorder
  have state: "keeps same_sink (session_no ev)" "\<And>no ev. keeps same_sink (with_address no ev)"
    by (simp_all add: keeps_def session_no_state with_address_state)
  show ?thesis
    unfolding emit_completed_def
  proof (rule one_write_bind [OF state(1)], goal_cases)
    case (1 r)
    show ?case
    proof (cases "\<exists>no ev1. r = Some (no, ev1) \<and> hashable no")
      case True
      then show ?thesis
        by (auto intro!: one_write_bind one_write_end keep state sink_kept)
    next
      case False
      then show ?thesis
        by (auto intro!: one_write_keeps keep split: option.split)
    qed
  qed
qed

text \<open>Whatever the events hold, the JSON log gains at most one line for each: nothing that a client sends
  can make a line of its own.\<close>

theorem json_log_lines:
  assumes "\<And>x. CHR 0x0A \<notin> set (float_repr jenv x)"
  shows "line_ends (fst (sink (log_run (jsonlog_write jenv) env calls s))) \<le> line_ends (fst (sink s)) + length calls"
proof -
  have call: "line_ends (fst (sink (snd (emit_completed (jsonlog_write jenv) ev s)))) \<le> Suc (line_ends (fst (sink s)))" for ev s
    using emit_completed_one_write [of "jsonlog_write jenv" ev] jsonlog_write_lines [of jenv] assms
    unfolding one_write_def line_ends_0 by (metis le_SucI order_refl)
  show ?thesis
proof (induction calls arbitrary: s)
  case Nil
  then show ?case by (simp add: log_run_def)
next
  case (Cons c calls)
  obtain now ev where c: "c = (now, ev)" by (cases c)
  let ?t = "snd (emit (jsonlog_write jenv) env now ev s)"
  have "line_ends (fst (sink ?t)) \<le> Suc (line_ends (fst (sink s)))"
    unfolding emit_def by (cases "has_keys ev"; cases "complete env now ev") (simp_all add: call)
  with Cons.IH [of ?t] show ?case by (simp add: log_run_def c)
qed
qed


section \<open>A connection has no CEF\<close>

lemma formatCef_connection:
  assumes "is_connect ev" "dict_has ''sensor'' ev" "dict_has ''message'' ev" "dict_has ''src_ip'' ev" "dict_has ''src_port'' ev"
    "map_of ev ''dst_port'' = None"
  shows "formatCef env ev = Inl (KeyError ''dst_port'')"
proof -
  from assms obtain a b c d where "map_of ev ''sensor'' = Some a" "map_of ev ''message'' = Some b" "map_of ev ''src_ip'' = Some c"
    "map_of ev ''src_port'' = Some d" by (auto simp: dict_has_iff)
  with assms(1,6) show ?thesis
    by (simp add: formatCef_def base_extensions_def more_extensions_def is_connect_def getitem_def)
qed

text \<open>C40: In the text log's CEF form the event of a connection raises KeyError after its time was written
  and the connection was remembered: the dispatcher has removed the destination that the format reads.\<close>

theorem cef_connection_fails:
  assumes "proper ev" "is_connect ev" "dict_has ''sensor'' ev" "explicit_no ev = Some (no, ev1)" "agree s"
  shows "\<exists>s'. emit_completed (textlog_write env True) ev s = (Inl (KeyError ''dst_port''), s') \<and>
    sink s' = sink s @ show_log env (the (map_of ev ''timestamp'')) @ '' '' \<and> open_connections s' no \<noteq> None"
proof -
  have keys: "k \<noteq> ''sessionno'' \<Longrightarrow> map_of ev1 k = map_of ev k" for k using explicit_no_keys(2) [OF assms(4,1)] .
  have conn: "is_connect ev1" using assms(2) by (simp add: is_connect_def keys)
  then obtain ev3 where ev3: "written_event s no ev1 = Some ev3" by (simp add: written_event_def Let_def)
  have c: "list_all (\<lambda>k. dict_has k ev1) connection_keys"
    using assms(1,2) by (simp add: proper_def connection_keys_def dict_has_iff keys)
  have "dict_has ''src_ip'' ev3" "dict_has ''src_port'' ev3" "map_of ev3 ''dst_port'' = None"
    using ev3 conn c by (cases "open_connections s no";
        auto simp: written_event_def Let_def connected_def dict_has_iff connection_keys_def addressed_def)+
  moreover have "is_connect ev3" "dict_has ''sensor'' ev3" "map_of ev3 ''timestamp'' = map_of ev ''timestamp''" "dict_has ''message'' ev3"
    using assms(1-3) by (simp_all add: is_connect_def written_other_keys [OF ev3] keys dict_has_iff proper_def)
  ultimately have cef: "formatCef env ev3 = Inl (KeyError ''dst_port'')" by (intro formatCef_connection)
  obtain t where t: "map_of ev ''timestamp'' = Some t" using assms(1) by (auto simp: proper_def dict_has_iff)
  let ?t = "after_start s no ev1"
  have "emit_completed (textlog_write env True) ev s = (Inl (KeyError ''dst_port''), ?t\<lparr>sink := sink s @ show_log env t @ '' ''\<rparr>)"
    using \<open>map_of ev3 ''timestamp'' = _\<close> t
    by (simp add: emit_completed_proper [OF assms(1,5,4) ev3] write_event_def textlog_write_def item_Some put_text_def cef
        after_start_spec(3) [OF assms(1,4)])
  moreover have "open_connections (?t\<lparr>sink := w\<rparr>) = open_connections ?t" for w by (simp add: open_connections_def fun_eq_iff)
  ultimately show ?thesis using written_keys(4) [OF assms(1,4) ev3] t by auto
qed

section \<open>An example\<close>

definition example_env :: log_env where
  "example_env = \<lparr>sensor = ''honey'', show_float = (\<lambda>x. ''0.5''), show_value = (\<lambda>v. ''?''), float_trunc = (\<lambda>x. 0),
     format_time = (\<lambda>t. Inr ''now'')\<rparr>"

definition example_connect :: event where
  "example_connect = [(''eventid'', LText ''cowrie.session.connect''), (''message'', LText ''New''), (''src_ip'', LText ''1.2.3.4''),
     (''src_port'', LInt 4000), (''dst_ip'', LText ''10.0.0.1''), (''dst_port'', LInt 2222), (''session'', LText ''ab''),
     (''sessionno'', LText ''S0''), (''protocol'', LText ''ssh'')]"

definition example_end :: event where
  "example_end = [(''eventid'', LText ''cowrie.session.closed''), (''format'', LText ''Lost after %(duration)d s''), (''message'', LTuple []), (''duration'', LInt 3),
     (''system'', LText ''SSHTransport,0,1.2.3.4'')]"

definition example_calls :: "(logval \<times> event) list" where
  "example_calls = [(LInt 1, example_connect), (LInt 2, example_end), (LInt 3, example_end)]"

lemma example_proper: "list_all proper (completed example_env example_calls)"
  by code_simp

lemma example_rows: "map (fst o snd o snd) (spec_rows (completed example_env example_calls) Map.empty) =
    [Some (LText ''New''), Some (LText ''Lost after 3 s'')]"
  by code_simp

lemma system_log_attributes_witness:
  "map (fst o snd o snd) (map logged_row (sink (log_run (syslog_write example_env False) example_env example_calls (Output_init [])))) =
     [Some (LText ''New''), Some (LText ''Lost after 3 s'')]"
  unfolding system_log_attributes [OF example_proper] by (rule example_rows)

definition example_json :: json_env where
  "example_json = \<lparr>epoch_timestamp = False, epoch_of = (\<lambda>t. Inr t), iso_now = (\<lambda>n. ''now''), float_repr = (\<lambda>x. ''0.5'')\<rparr>"

definition example_state :: "json_file plugin" where
  "example_state = remember (LText ''S0'') (LText ''ab'', LText ''1.2.3.4'', LInt 4000, LText ''ssh'') (LText ''10.0.0.1'', LInt 2222) (Output_init ([], 0))"

lemma json_log_never_forgets_witness:
  "map_of (ips (log_run (jsonlog_write example_json) example_env example_calls example_state)) (LText ''S0'') = Some (LText ''1.2.3.4'')"
proof -
  have "map_of (ips example_state) (LText ''S0'') = Some (LText ''1.2.3.4'')"
    by (simp add: example_state_def remember_def Output_init_def)
  then show ?thesis by (rule json_log_never_forgets)
qed

lemma json_log_lines_witness:
  "line_ends (fst (sink (log_run (jsonlog_write example_json) example_env example_calls (Output_init ([], 0))))) \<le> 3"
  using json_log_lines [of example_json example_env example_calls "Output_init ([], 0)"] by (simp add: example_json_def example_calls_def)

definition example_event :: event where
  "example_event = hd (completed example_env [(LInt 1, example_connect)])"

lemma cef_connection_fails_witness:
  "\<exists>s'. emit_completed (textlog_write example_env True) example_event (Output_init []) = (Inl (KeyError ''dst_port''), s') \<and>
    sink s' = ''now ''"
proof -
  have ev: "proper example_event" "is_connect example_event" "dict_has ''sensor'' example_event"
    "explicit_no example_event = Some (LText ''S0'', AList.delete ''sessionno'' example_event)"
    "show_log example_env (the (map_of example_event ''timestamp'')) = ''now''" by code_simp+
  then show ?thesis
    using cef_connection_fails [OF ev(1-4), of "Output_init []" example_env] by auto
qed

end
