(* ===== verification/TextCommands.thy ===== *)
theory TextCommands
  imports FsCommands
begin

text \<open>
  Commands of the emulated shell that print or filter text: \<open>echo\<close>, \<open>printf\<close>, \<open>whoami\<close>, \<open>id\<close> and \<open>chmod\<close> of
  \<open>cowrie/commands/base.py\<close>, and \<open>cat\<close>, \<open>wc\<close>, \<open>base64\<close>, \<open>chpasswd\<close> and \<open>which\<close> of the modules with their names.
\<close>

text \<open>The user and the search path.\<close>

record user_env =
  u_name :: string
  u_uid :: int
  u_gid :: int
  u_path :: "string option"

section \<open>Escapes\<close>

definition bs :: char where
  "bs = CHR 0x5C"

definition hex_value :: "char \<Rightarrow> nat option" where
  "hex_value c = (let n = of_char c in if 48 \<le> n \<and> n \<le> 57 then Some (n - 48) else if 97 \<le> n \<and> n \<le> 102 then Some (n - 87)
     else if 65 \<le> n \<and> n \<le> 70 then Some (n - 55) else None)"

definition oct_value :: "char \<Rightarrow> nat option" where
  "oct_value c = (let n = of_char c in if 48 \<le> n \<and> n \<le> 55 then Some (n - 48) else None)"

text \<open>The octal digits of an escape, three at most, their value, and what follows them.\<close>

fun octal :: "nat \<Rightarrow> nat \<Rightarrow> string \<Rightarrow> nat \<times> string" where
  "octal 0 v cs = (v, cs)"
| "octal (Suc k) v [] = (v, [])"
| "octal (Suc k) v (c # cs) = (case oct_value c of None \<Rightarrow> (v, c # cs) | Some d \<Rightarrow> octal k (8 * v + d) cs)"

lemma octal_shorter: "length (snd (octal k v cs)) \<le> length cs"
  by (induction k v cs rule: octal.induct) (auto split: option.split)

definition simple_escapes :: "(char \<times> string) list" where
  "simple_escapes = [(CHR 0x0A, []), (bs, [bs]), (CHR 0x27, [CHR 0x27]), (CHR 0x22, [CHR 0x22]), (CHR ''b'', [CHR 0x08]),
     (CHR ''f'', [CHR 0x0C]), (CHR ''t'', [CHR 0x09]), (CHR ''n'', [CHR 0x0A]), (CHR ''r'', [CHR 0x0D]), (CHR ''v'', [CHR 0x0B]),
     (CHR ''a'', [CHR 0x07])]"

text \<open>\<open>codecs.escape_decode\<close> of text.\<close>

function escape_decode :: "string \<Rightarrow> string res" where
  "escape_decode [] = Inr []"
| "escape_decode (c # cs) =
     (if c \<noteq> bs then bind_res (escape_decode cs) (\<lambda>r. Inr (c # r))
      else case cs of
          [] \<Rightarrow> Inl ValueError
        | d # ds \<Rightarrow> (case map_of simple_escapes d of
              Some t \<Rightarrow> bind_res (escape_decode ds) (\<lambda>r. Inr (t @ r))
            | None \<Rightarrow>
                if d = CHR ''x'' then (case ds of
                    a # b # es \<Rightarrow> (case (hex_value a, hex_value b) of
                        (Some m, Some n) \<Rightarrow> bind_res (escape_decode es) (\<lambda>r. Inr (char_of (16 * m + n) # r))
                      | _ \<Rightarrow> Inl ValueError)
                  | _ \<Rightarrow> Inl ValueError)
                else if oct_value d \<noteq> None then
                  bind_res (escape_decode (snd (octal 2 (the (oct_value d)) ds)))
                    (\<lambda>r. Inr (char_of (fst (octal 2 (the (oct_value d)) ds) mod 256) # r))
                else bind_res (escape_decode (d # ds)) (\<lambda>r. Inr (bs # r))))"
  by pat_completeness auto
termination
  by (relation "measure length") (auto simp: le_imp_less_Suc octal_shorter le_SucI)

declare escape_decode.simps(2) [simp del]

text \<open>
  \<open>re.sub(r'(?<=\\)x([0-9a-fA-F])(?=\\|\"|\'|\s|$)', r'x0\g<1>', s)\<close>; the first argument is the character
  before.
\<close>

definition digit_ends :: "string \<Rightarrow> bool" where
  "digit_ends cs \<longleftrightarrow> cs = [] \<or> hd cs \<in> {bs, CHR 0x22, CHR 0x27} \<or> list_ex (starts_with cs) py_spaces"

fun pad_hex :: "char \<Rightarrow> string \<Rightarrow> string" where
  "pad_hex p [] = []"
| "pad_hex p [c] = [c]"
| "pad_hex p (c # d # ds) =
     (if p = bs \<and> c = CHR ''x'' \<and> hex_value d \<noteq> None \<and> digit_ends ds then c # CHR ''0'' # d # pad_hex d ds
      else c # pad_hex c (d # ds))"

definition fix_escapes :: "string \<Rightarrow> string" where
  "fix_escapes s = pad_hex (CHR 0x00) (replace_all [bs, bs, CHR ''x''] [bs, CHR ''x''] s)"

section \<open>Commands of \<open>base.py\<close>\<close>

text \<open>Options after one that is wrong are lost with it, and the arguments are printed as they are.\<close>

definition echo_options :: "string list \<Rightarrow> bool \<times> bool \<times> string list" where
  "echo_options args0 = (case getopt args0 ''eEn'' of
       Inl x \<Rightarrow> (False, True, args0)
     | Inr (opts, args) \<Rightarrow>
         (fold (\<lambda>o' d. if fst o' = ''-e'' then True else if fst o' = ''-E'' then False else d) opts False,
          \<not> list_ex (\<lambda>o'. fst o' = ''-n'') opts, args))"

text \<open>The text with its line's end, before it is decoded.\<close>

definition echo_text :: "bool \<Rightarrow> string list \<Rightarrow> string" where
  "echo_text newline args = (let s = fix_escapes (join '' '' args) in
     if ends_with s [bs, CHR ''c''] then butlast (butlast s) else if newline then s @ nl else s)"

definition echo_call :: "unit cmd_py" where
  "echo_call = py_bind py_get (\<lambda>c. case echo_options (c_args c) of (decode, newline, args) \<Rightarrow>
     py_except (if decode then py_bind (py_lift (escape_decode (echo_text newline args))) writeBytes
         else cmd_write (echo_text newline args))
       (\<lambda>x. if x = ValueError \<or> x = UnicodeDecodeError then Some (py_return ()) else None))"

text \<open>What \<open>printf\<close> decodes is bytes, which \<open>write\<close> cannot encode.\<close>

definition printf_text :: "string \<Rightarrow> string" where
  "printf_text a = (let s = strip_chars [CHR 0x22, CHR 0x27] (fix_escapes a) in
     if ends_with s [bs, CHR ''c''] then butlast (butlast s) else s)"

definition printf_call :: "unit cmd_py" where
  "printf_call = py_bind py_get (\<lambda>c. case c_args c of
       [] \<Rightarrow> cmd_write (''printf: usage: printf [-v var] format [arguments]'' @ nl)
     | a # as \<Rightarrow>
         if ''-v'' \<notin> set (a # as) \<and> as = [] then
           py_bind (py_lift (escape_decode (printf_text a))) (\<lambda>data.
           py_bind (buffer (PyBytes data)) (\<lambda>_. py_raise (AttributeError ''encode'')))
         else py_return ())"

definition whoami_call :: "user_env \<Rightarrow> unit cmd_py" where
  "whoami_call u = cmd_write (u_name u @ nl)"

definition id_call :: "user_env \<Rightarrow> unit cmd_py" where
  "id_call u = cmd_write (''uid='' @ str_int (u_uid u) @ ''('' @ u_name u @ '') gid='' @ str_int (u_gid u) @ ''('' @ u_name u @
     '') groups='' @ str_int (u_gid u) @ ''('' @ u_name u @ '')'' @ nl)"

definition chmod_one :: "string \<Rightarrow> unit cmd_py" where
  "chmod_one arg = py_bind (exists_at arg) (\<lambda>ex.
     if ex then py_return () else cmd_write (''chmod: cannot access '' @ arg @ '': No such file or directory'' @ nl))"

definition chmod_call :: "unit cmd_py" where
  "chmod_call = py_bind py_get (\<lambda>c. if length (c_args c) < 2
     then py_bind (cmd_write (''chmod: missing operand'' @ nl)) (\<lambda>_. cmd_write (''Try chmod --help for more information.'' @ nl))
     else each chmod_one (drop 1 (c_args c)))"

section \<open>\<open>which\<close>\<close>

definition which_one :: "string \<Rightarrow> string \<Rightarrow> unit cmd_py" where
  "which_one f path = py_bind (py_lift (resolve_path f path)) (\<lambda>resolved. py_bind (on_fs (exists_path resolved)) (\<lambda>ex.
     if ex then cmd_write (path @ ''/'' @ f @ nl) else py_return ()))"

definition which_call :: "user_env \<Rightarrow> unit cmd_py" where
  "which_call u = py_bind py_get (\<lambda>c. case u_path u of
       None \<Rightarrow> py_return ()
     | Some p \<Rightarrow> each (\<lambda>f. each (which_one f) (split_str '':'' p)) (c_args c))"

section \<open>\<open>cat\<close>\<close>

text \<open>The number of the next line is kept from one file to the next.\<close>

definition cat_number :: "nat \<Rightarrow> string" where
  "cat_number n = (let s = str_nat n in replicate (6 - length s) (CHR 0x20) @ s @ ''  '')"

fun cat_lines :: "bool \<Rightarrow> nat \<Rightarrow> string list \<Rightarrow> nat cmd_py" where
  "cat_lines number n [] = py_return n"
| "cat_lines number n (line # ls) =
     py_bind (if number then cmd_write (cat_number n) else py_return ()) (\<lambda>_.
     py_bind (cmd_write (line @ nl)) (\<lambda>_. cat_lines number (if number then Suc n else n) ls))"

definition text_lines :: "string \<Rightarrow> string list" where
  "text_lines s = (let ls = split_str nl s in if last ls = [] then butlast ls else ls)"

definition cat_output :: "bool \<Rightarrow> nat \<Rightarrow> string \<Rightarrow> nat cmd_py" where
  "cat_output number n contents = py_bind (py_lift (py_decode contents)) (\<lambda>t. cat_lines number n (text_lines t))"

definition CAT_HELP :: string where
  "CAT_HELP = join nl
    [''Usage: cat [OPTION]... [FILE]...'',
     ''Concatenate FILE(s) to standard output.'',
     [],
     ''With no FILE, or when FILE is -, read standard input.'',
     [],
     ''    -A, --show-all           equivalent to -vET'',
     ''    -b, --number-nonblank    number nonempty output lines, overrides -n'',
     ''    -e                       equivalent to -vE'',
     ''    -E, --show-ends          display $ at end of each line'',
     ''    -n, --number             number all output lines'',
     ''    -s, --squeeze-blank      suppress repeated empty output lines'',
     ''    -t                       equivalent to -vT'',
     ''    -T, --show-tabs          display TAB characters as ^I'',
     ''    -u                       (ignored)'',
     ''    -v, --show-nonprinting   use ^ and M- notation, except for LFD and TAB'',
     ''        --help     display this help and exit'',
     ''        --version  output version information and exit'',
     [],
     ''Examples:'',
     ''    cat f - g  Output f'' @ [CHR 0x27] @ ''s contents, then standard input, then g'' @ [CHR 0x27] @ ''s contents.'',
     ''    cat        Copy standard input to standard output.'',
     [],
     ''GNU coreutils online help: <http://www.gnu.org/software/coreutils/>'',
     ''Full documentation at: <http://www.gnu.org/software/coreutils/cat>'',
     ''or available locally via: info '' @ [CHR 0x27] @ ''(coreutils) cat invocation'' @ [CHR 0x27],
     []]"

definition no_such_file :: "string \<Rightarrow> unit cmd_py" where
  "no_such_file arg = errorWrite (''cat: '' @ arg @ '': No such file or directory'' @ nl)"

text \<open>A file that is empty counts as missing.\<close>

definition cat_one :: "cmd_env \<Rightarrow> bool \<Rightarrow> nat \<Rightarrow> string \<Rightarrow> nat cmd_py" where
  "cat_one e number n arg = py_bind (resolv arg) (\<lambda>pname. py_bind (on_fs (isdir pname)) (\<lambda>d.
     if d then py_bind (errorWrite (''cat: '' @ arg @ '': Is a directory'' @ nl)) (\<lambda>_. py_return n)
     else py_except (py_bind (cmd_file_contents e pname) (\<lambda>contents. case contents of
           Some (x # xs) \<Rightarrow> cat_output number n (x # xs)
         | _ \<Rightarrow> py_raise FileNotFound))
       (\<lambda>x. if x = FileNotFound then Some (py_bind (no_such_file arg) (\<lambda>_. py_return n)) else None)))"

fun cat_files :: "cmd_env \<Rightarrow> bool \<Rightarrow> nat \<Rightarrow> string list \<Rightarrow> unit cmd_py" where
  "cat_files e number n [] = py_return ()"
| "cat_files e number n (arg # args) = py_bind (cat_one e number n arg) (\<lambda>n'. cat_files e number n' args)"

text \<open>Help ends the options; with input from a pipe, or nothing to read, the command does not end.\<close>

definition cat_start :: "cmd_env \<Rightarrow> unit cmd_py" where
  "cat_start e = py_bind py_get (\<lambda>c. case gnu_getopt (c_args c) ''AbeEnstTuv'' [''help'', ''number'', ''version''] of
       Inl opt \<Rightarrow> py_bind (errorWrite (''cat: invalid option -- '' @ [CHR 0x27] @ opt @ [CHR 0x27] @ nl @
           ''Try '' @ [CHR 0x27] @ ''cat --help'' @ [CHR 0x27] @ '' for more information.'' @ nl)) (\<lambda>_. logged_exit ''cat'')
     | Inr (opts, args) \<Rightarrow>
         if list_ex (\<lambda>o'. fst o' = ''--help'') opts then py_bind (cmd_write CAT_HELP) (\<lambda>_. logged_exit ''cat'') else
         let number = list_ex (\<lambda>o'. fst o' \<in> {''-n'', ''--number''}) opts in (case input_data c of
             Some (x # xs) \<Rightarrow> py_bind (cat_output number 1 (x # xs)) (\<lambda>_. py_return ())
           | _ \<Rightarrow> if args = [] then py_return () else py_bind (cat_files e number 1 args) (\<lambda>_. logged_exit ''cat'')))"

section \<open>\<open>wc\<close>\<close>

definition WC_HELP :: "string list" where
  "WC_HELP = [''Usage: wc [OPTION]... [FILE]...'' @ nl,
     ''Print newline, word, and byte counts for each FILE, and a total line if'' @ nl,
     ''more than one FILE is specified.  A word is a non-zero-length sequence of'' @ nl,
     ''characters delimited by white space.'' @ nl, nl, ''With no FILE, or when FILE is -, read standard input.'' @ nl, nl,
     ''The options below may be used to select which counts are printed, always in'' @ nl,
     ''the following order: newline, word, character, byte, maximum line length.'' @ nl,
     CHR 0x09 # ''-c'' @ CHR 0x09 # ''print the byte counts'' @ nl, CHR 0x09 # ''-m'' @ CHR 0x09 # ''print the character counts'' @ nl,
     CHR 0x09 # ''-l'' @ CHR 0x09 # ''print the newline counts'' @ nl, CHR 0x09 # ''-w'' @ CHR 0x09 # ''print the word counts'' @ nl,
     CHR 0x09 # ''-h'' @ CHR 0x09 # ''display this help and exit'' @ nl, CHR 0x09 # ''-v'' @ CHR 0x09 # ''output version information and exit'' @ nl]"

definition wc_help :: "unit cmd_py" where
  "wc_help = each writeBytes WC_HELP"

text \<open>\<open>re.sub(' +', ' ', s)\<close>\<close>

fun squeeze :: "string \<Rightarrow> string" where
  "squeeze (c # d # cs) = (if c = CHR 0x20 \<and> d = CHR 0x20 then squeeze (d # cs) else c # squeeze (d # cs))"
| "squeeze s = s"

definition wc_words :: "string \<Rightarrow> nat res" where
  "wc_words contents = bind_res (py_decode contents) (\<lambda>t.
     Inr (length (split_str '' '' (squeeze (strip_space (strip_chars nl t))))))"

text \<open>An empty file without a file of the host behind it is read as text, which has neither bytes to split nor \<open>decode\<close>.\<close>

definition wc_one :: "pyobj \<Rightarrow> string \<times> string \<Rightarrow> unit cmd_py" where
  "wc_one contents opt =
     (if fst opt = ''-l'' then (case contents of
          PyBytes b \<Rightarrow> cmd_write (str_nat (length (split_str nl b) - 1) @ nl) | PyText t \<Rightarrow> py_raise TypeError)
      else if fst opt = ''-w'' then (case contents of
          PyBytes b \<Rightarrow> py_bind (py_lift (wc_words b)) (\<lambda>n. cmd_write (str_nat n @ nl)) | PyText t \<Rightarrow> py_raise (AttributeError ''decode''))
      else if fst opt = ''-m'' \<or> fst opt = ''-c'' then cmd_write (str_nat (case contents of PyBytes b \<Rightarrow> length b | PyText t \<Rightarrow> py_len t) @ nl)
      else wc_help)"

definition wc_application :: "pyobj \<Rightarrow> options \<Rightarrow> unit cmd_py" where
  "wc_application contents opts = each (wc_one contents) opts"

definition contents_obj :: "cmd_env \<Rightarrow> string \<Rightarrow> pyobj option cmd_py" where
  "contents_obj e path = py_bind (cmd_file_contents e path) (\<lambda>r. case r of
       None \<Rightarrow> py_return None
     | Some [] \<Rightarrow> py_bind (on_fs (fs_getfile True path)) (\<lambda>p. case p of
           None \<Rightarrow> py_return (Some (PyText []))
         | Some i \<Rightarrow> py_bind (on_fs (fs_node i)) (\<lambda>n. py_return (Some
             (if A_REALFILE n = None \<or> A_REALFILE n = Some [] then PyText [] else PyBytes []))))
     | Some b \<Rightarrow> py_return (Some (PyBytes b)))"

definition wc_get_contents :: "cmd_env \<Rightarrow> options \<Rightarrow> string \<Rightarrow> unit cmd_py" where
  "wc_get_contents e opts filename =
     py_except (py_bind (contents_obj e filename) (\<lambda>r. case r of
         Some v \<Rightarrow> wc_application v opts
       | None \<Rightarrow> if list_ex (\<lambda>o'. fst o' \<in> {''-l'', ''-w'', ''-m'', ''-c''}) (take 1 opts) then py_raise (AttributeError ''split'')
           else wc_application (PyText []) opts))
     (\<lambda>x. Some (errorWrite (''wc: '' @ filename @ '': No such file or directory'' @ nl)))"

text \<open>The first file named is skipped.\<close>

definition wc_run :: "cmd_env \<Rightarrow> options \<Rightarrow> string list \<Rightarrow> unit cmd_py" where
  "wc_run e opts args = py_bind py_get (\<lambda>c. py_bind (case input_data c of
       Some (x # xs) \<Rightarrow> wc_application (PyBytes (x # xs)) opts
     | _ \<Rightarrow> py_bind (check_arguments ''wc'' (drop 1 args)) (each (wc_get_contents e opts))) (\<lambda>_. logged_exit ''/bin/wc''))"

definition wc_start :: "cmd_env \<Rightarrow> unit cmd_py" where
  "wc_start e = py_bind py_get (\<lambda>c. case c_args c of
       [] \<Rightarrow> logged_exit ''/bin/wc''
     | a # as \<Rightarrow>
         if a = ''>'' then py_raise (UnboundLocalError (if input_data c \<in> {None, Some []} then ''args'' else ''optlist''))
         else (case getopt (a # as) ''cmlLw'' of
             Inl opt \<Rightarrow> py_bind (errorWrite (''wc: invalid option -- '' @ opt @ nl)) (\<lambda>_. py_bind wc_help (\<lambda>_. logged_exit ''/bin/wc''))
           | Inr (opts, args) \<Rightarrow> wc_run e opts args))"


section \<open>\<open>base64\<close>\<close>

definition BASE64_HELP :: string where
  "BASE64_HELP = join nl
    [''Usage: base64 [OPTION]... [FILE]'',
     ''Base64 encode or decode FILE, or standard input, to standard output.'',
     [],
     ''Mandatory arguments to long options are mandatory for short options too.'',
     ''  -d, --decode          decode data'',
     ''  -i, --ignore-garbage  when decoding, ignore non-alphabet characters'',
     ''  -w, --wrap=COLS       wrap encoded lines after COLS character (default 76).'',
     ''                        Use 0 to disable line wrapping'',
     [],
     ''      --help     display this help and exit'',
     ''      --version  output version information and exit'',
     [],
     ''With no FILE, or when FILE is -, read standard input.'',
     [],
     ''The data are encoded as described for the base64 alphabet in RFC 3548.'',
     ''When decoding, the input may contain newlines in addition to the bytes of'',
     ''the formal base64 alphabet.  Use --ignore-garbage to attempt to recover'',
     ''from any other non-alphabet bytes in the encoded stream.'',
     [],
     ''Report base64 bugs to bug-coreutils@gnu.org'',
     ''GNU coreutils home page: <http://www.gnu.org/software/coreutils/>'',
     ''General help using GNU software: <http://www.gnu.org/gethelp/>'',
     ''For complete documentation, run: info coreutils '' @ [CHR 0x27] @ ''base64 invocation'' @ [CHR 0x27],
     []]"

definition BASE64_VERSION :: string where
  "BASE64_VERSION = join nl
    [''base64 (GNU coreutils) 8.21'',
     ''Copyright (C) 2013 Free Software Foundation, Inc.'',
     ''License GPLv3+: GNU GPL version 3 or later <http://gnu.org/licenses/gpl.html>.'',
     ''This is free software: you are free to change and redistribute it.'',
     ''There is NO WARRANTY, to the extent permitted by law.'',
     [],
     ''Written by Simon Josefsson.'',
     []]"

text \<open>
  The job on bytes, on text or on \<open>None\<close>: bytes have no \<open>encode\<close>, text has no \<open>decode\<close>, \<open>base64\<close> is no
  encoding of text, and no byte is in a text.
\<close>

definition ignoring :: "pyobj option \<Rightarrow> pyobj option res" where
  "ignoring v = (case v of
       None \<Rightarrow> Inl TypeError
     | Some (PyBytes b) \<Rightarrow> if b = [] then Inr (Some (PyText [])) else Inl TypeError
     | Some (PyText t) \<Rightarrow> Inr (Some (PyText (filter (\<lambda>c. c = CHR ''='' \<or> c \<in> set (map b64_char [0..63])) t))))"

definition dojob :: "bool \<Rightarrow> bool \<Rightarrow> pyobj option \<Rightarrow> unit cmd_py" where
  "dojob decode ignore v = py_bind (py_lift (if ignore then ignoring v else Inr v)) (\<lambda>s.
     if decode then py_except (case s of
           Some (PyBytes b) \<Rightarrow> py_raise (UserError ''LookupError'')
         | _ \<Rightarrow> py_raise (AttributeError ''decode'')) (\<lambda>x. Some (errorWrite (''base64: invalid input'' @ nl)))
     else (case s of
         Some (PyText t) \<Rightarrow> py_raise (UserError ''LookupError'')
       | _ \<Rightarrow> py_raise (AttributeError ''encode'')))"

text \<open>\<open>None\<close> where the help or the version ends the command, with what it prints; else decode and ignore.\<close>

fun base64_options :: "options \<Rightarrow> bool \<times> bool \<Rightarrow> string + bool \<times> bool" where
  "base64_options [] flags = Inr flags"
| "base64_options (o' # opts) flags =
     (if fst o' = ''--help'' then Inl BASE64_HELP
      else if fst o' = ''--version'' then Inl BASE64_VERSION
      else if fst o' \<in> {''-d'', ''--decode''} then base64_options opts (True, snd flags)
      else if fst o' \<in> {''-i'', ''--ignore-garbage''} then base64_options opts (fst flags, True)
      else base64_options opts flags)"

definition base64_run :: "cmd_env \<Rightarrow> bool \<times> bool \<Rightarrow> string list \<Rightarrow> unit cmd_py" where
  "base64_run e flags args = py_bind py_get (\<lambda>c. case input_data c of
       Some (x # xs) \<Rightarrow> py_bind (dojob (fst flags) (snd flags) (Some (PyBytes (x # xs)))) (\<lambda>_. logged_exit ''base64'')
     | _ \<Rightarrow> (case args of
           [] \<Rightarrow> py_raise IndexError
         | [a] \<Rightarrow> py_bind (resolv a) (\<lambda>pname. py_bind (on_fs (isdir pname)) (\<lambda>d.
             py_bind (if d then errorWrite (''base64: read error: Is a directory'' @ nl)
               else py_except (py_bind (contents_obj e pname) (dojob (fst flags) (snd flags)))
                 (\<lambda>x. Some (errorWrite (''base64: '' @ a @ '': No such file or directory'' @ nl))))
               (\<lambda>_. logged_exit ''base64'')))
         | a # b # as \<Rightarrow> py_bind (errorWrite (''base64: extra operand '' @ [CHR 0x27] @ a @ [CHR 0x27] @ nl @
             ''Try '' @ [CHR 0x27] @ ''base64 --help'' @ [CHR 0x27] @ '' for more information.'' @ nl)) (\<lambda>_. logged_exit ''base64'')))"

definition base64_start :: "cmd_env \<Rightarrow> unit cmd_py" where
  "base64_start e = py_bind py_get (\<lambda>c.
     case getopt_loop [] (c_args c) ''diw:'' [''version'', ''help'', ''decode'', ''ignore-garbage'', ''wrap=''] of
       Inl opt \<Rightarrow> py_bind (errorWrite (''Unrecognized option'' @ nl)) (\<lambda>_. logged_exit ''base64'')
     | Inr (opts, args) \<Rightarrow> (case base64_options opts (False, False) of
           Inl message \<Rightarrow> py_bind (cmd_write message) (\<lambda>_. logged_exit ''base64'')
         | Inr flags \<Rightarrow> base64_run e flags args))"

section \<open>\<open>chpasswd\<close>\<close>

definition CHPASSWD_HELP :: "string list" where
  "CHPASSWD_HELP = [''Usage: chpasswd [options]'', [], ''Options:'',
     ''  -c, --crypt-method METHOD     the crypt method (one of NONE DES MD5 SHA256 SHA512)'',
     ''  -e, --encrypted               supplied passwords are encrypted'',
     ''  -h, --help                    display this help message and exit'',
     ''  -m, --md5                     encrypt the clear text password using'',
     ''                                the MD5 algorithm'' @
     ''  -R, --root CHROOT_DIR         directory to chroot into'' @
     ''  -s, --sha-rounds              number of SHA rounds for the SHA*'' @
     ''                                crypt algorithms'']"

definition chpasswd_help :: "unit cmd_py" where
  "chpasswd_help = each (\<lambda>l. cmd_write (l @ nl)) CHPASSWD_HELP"

definition missing_password :: "nat \<Rightarrow> unit cmd_py" where
  "missing_password n = cmd_write (''chpasswd: line '' @ str_nat n @ '': missing new password'' @ nl)"

definition chpasswd_line :: "nat \<Rightarrow> string \<Rightarrow> unit cmd_py" where
  "chpasswd_line n line = (if line = [] then py_return () else case split_str '':'' line of
       [u, p] \<Rightarrow> if p = [] then missing_password n else py_return ()
     | _ \<Rightarrow> py_raise ValueError)"

text \<open>A line that is wrong ends the loop.\<close>

fun chpasswd_lines :: "nat \<Rightarrow> string list \<Rightarrow> unit cmd_py" where
  "chpasswd_lines n [] = py_return ()"
| "chpasswd_lines n (line # ls) =
     py_bind (py_except (py_bind (chpasswd_line n line) (\<lambda>_. py_return True))
       (\<lambda>x. Some (py_bind (missing_password n) (\<lambda>_. py_return False))))
     (\<lambda>go. if go then chpasswd_lines (Suc n) ls else py_return ())"

definition chpasswd_application :: "string \<Rightarrow> unit cmd_py" where
  "chpasswd_application contents = chpasswd_lines 1 (split_str nl contents)"

text \<open>The operands are compared with the names of the methods: no method is supported. Only the help returns.\<close>

fun chpasswd_options :: "options \<Rightarrow> bool cmd_py" where
  "chpasswd_options [] = py_return False"
| "chpasswd_options (o' # opts) =
     (if fst o' = ''-h'' then py_bind chpasswd_help (\<lambda>_. py_bind (logged_exit ''chpasswd'') (\<lambda>_. py_return True))
      else if fst o' = ''-c'' then
        py_bind (errorWrite (''chpasswd: unsupported crypt method: '' @ snd o' @ nl)) (\<lambda>_.
        py_bind chpasswd_help (\<lambda>_. py_bind (logged_exit ''chpasswd'') (\<lambda>_. chpasswd_options opts)))
      else chpasswd_options opts)"

definition chpasswd_start :: "unit cmd_py" where
  "chpasswd_start = py_bind py_get (\<lambda>c.
     case getopt_loop [] (c_args c) ''c:ehmr:s:'' [''crypt-method'', ''encrypted'', ''help'', ''md5'', ''root'', ''sha-rounds''] of
       Inl opt \<Rightarrow> py_bind chpasswd_help (\<lambda>_. logged_exit ''chpasswd'')
     | Inr (opts, args) \<Rightarrow> py_bind (chpasswd_options opts) (\<lambda>done'.
         if done' then py_return () else case input_data c of
           Some (x # xs) \<Rightarrow> py_bind (chpasswd_application (x # xs)) (\<lambda>_. logged_exit ''chpasswd'')
         | _ \<Rightarrow> py_return ()))"

section \<open>The table\<close>

datatype text_command = Echo | Printf | Whoami | Id | Chmod | Which | Cat | Wc | Base64 | Chpasswd

definition text_commands :: "(string \<times> text_command) list" where
  "text_commands = [(''/bin/echo'', Echo), (''echo'', Echo), (''/usr/bin/printf'', Printf), (''printf'', Printf),
     (''/usr/bin/whoami'', Whoami), (''whoami'', Whoami), (''/usr/bin/users'', Whoami), (''users'', Whoami),
     (''/usr/bin/id'', Id), (''id'', Id), (''/bin/chmod'', Chmod), (''chmod'', Chmod), (''which'', Which),
     (''/bin/cat'', Cat), (''cat'', Cat), (''/usr/bin/wc'', Wc), (''/bin/wc'', Wc),
     (''/usr/bin/base64'', Base64), (''base64'', Base64), (''/usr/sbin/chpasswd'', Chpasswd), (''chpasswd'', Chpasswd)]"

definition text_realm :: "text_command \<Rightarrow> string" where
  "text_realm k = (case k of Echo \<Rightarrow> ''echo'' | Printf \<Rightarrow> ''printf'' | Whoami \<Rightarrow> ''whoami'' | Id \<Rightarrow> ''id'' | Chmod \<Rightarrow> ''chmod''
     | Which \<Rightarrow> ''which'' | Cat \<Rightarrow> ''cat'' | Wc \<Rightarrow> ''/bin/wc'' | Base64 \<Rightarrow> ''base64'' | Chpasswd \<Rightarrow> ''chpasswd'')"

definition text_start :: "cmd_env \<Rightarrow> user_env \<Rightarrow> text_command \<Rightarrow> unit cmd_py" where
  "text_start e u k = (case k of
       Cat \<Rightarrow> cat_start e
     | Wc \<Rightarrow> wc_start e
     | Base64 \<Rightarrow> base64_start e
     | Chpasswd \<Rightarrow> chpasswd_start
     | Echo \<Rightarrow> cmd_start echo_call (logged_exit ''echo'')
     | Printf \<Rightarrow> cmd_start printf_call (logged_exit ''printf'')
     | Whoami \<Rightarrow> cmd_start (whoami_call u) (logged_exit ''whoami'')
     | Id \<Rightarrow> cmd_start (id_call u) (logged_exit ''id'')
     | Chmod \<Rightarrow> cmd_start chmod_call (logged_exit ''chmod'')
     | Which \<Rightarrow> cmd_start (which_call u) (logged_exit ''which''))"

definition run_text :: "cmd_env \<Rightarrow> user_env \<Rightarrow> text_command \<Rightarrow> string list \<Rightarrow> string option \<Rightarrow> unit cmd_py" where
  "run_text e u k args inp = py_bind (py_modify (fresh_command args inp)) (\<lambda>_.
     py_bind (HoneyPotCommand_init e) (\<lambda>_. text_start e u k))"

end
