(* ===== verification/TextCommandsProps.thy ===== *)
theory TextCommandsProps
  imports TextCommands HoneyShellRuns Redirection FsReading
begin

text \<open>
  The text commands: none damages the store of the fake file system, what \<open>echo\<close> makes of escapes, how
  a file is dropped through it, and what \<open>cat\<close> shows.
\<close>

section \<open>The store under the commands\<close>

lemma keeps_cat_lines [keeps_shell]: "keeps_cmd (cat_lines number n ls)"
proof (induction ls arbitrary: n)
  case Nil
  show ?case by (simp only: cat_lines.simps) (intro keeps_intros keeps_shell)
next
  case (Cons l ls)
  show ?case by (simp only: cat_lines.simps) (intro keeps_intros keeps_shell Cons.IH)
qed

lemma keeps_cat_output [keeps_shell]: "keeps_cmd (cat_output number n text)"
  unfolding cat_output_def by (intro keeps_intros keeps_shell)

lemma keeps_case_pyobj [keeps_shell]:
  "(\<And>b. keeps R (f b)) \<Longrightarrow> (\<And>t. keeps R (g t)) \<Longrightarrow> keeps R (case v of PyBytes b \<Rightarrow> f b | PyText t \<Rightarrow> g t)"
  by (cases v) simp_all

lemma keeps_modify_buffer [keeps_shell]: "keeps_cmd (buffer v)"
  by (intro quiet_keeps quiet_output)

lemma keeps_exists_at [keeps_shell]: "keeps_cmd (exists_at p)"
  unfolding exists_at_def by (intro keeps_intros keeps_shell)

lemma keeps_base_commands [keeps_shell]:
  "keeps_cmd echo_call" "keeps_cmd printf_call" "keeps_cmd (whoami_call u)" "keeps_cmd (id_call u)"
  "keeps_cmd chmod_call" "keeps_cmd (which_call u)"
  unfolding echo_call_def printf_call_def whoami_call_def id_call_def chmod_call_def chmod_one_def which_call_def which_one_def
  by (intro keeps_intros keeps_shell)+

lemma keeps_cat_files [keeps_shell]: "keeps_cmd (cat_files e number n args)"
proof -
  have one: "keeps_cmd (cat_one e number m a)" for m a
    unfolding cat_one_def no_such_file_def by (intro keeps_intros keeps_shell)
  show ?thesis
  proof (induction args arbitrary: n)
    case Nil
    show ?case by (simp only: cat_files.simps) (intro keeps_intros keeps_shell)
  next
    case (Cons a args)
    show ?case by (simp only: cat_files.simps) (intro keeps_intros keeps_shell one Cons.IH)
  qed
qed

lemma keeps_cat [keeps_shell]: "keeps_cmd (cat_start e)"
  unfolding cat_start_def Let_def by (intro keeps_intros keeps_shell)

lemma keeps_contents_obj [keeps_shell]: "keeps_cmd (contents_obj e p)"
  unfolding contents_obj_def by (intro keeps_intros keeps_shell)

lemma keeps_wc [keeps_shell]: "keeps_cmd (wc_start e)"
  unfolding wc_start_def wc_run_def wc_get_contents_def wc_application_def wc_one_def wc_help_def Let_def
  by (intro keeps_intros keeps_shell)

lemma keeps_base64 [keeps_shell]: "keeps_cmd (base64_start e)"
  unfolding base64_start_def base64_run_def dojob_def by (intro keeps_intros keeps_shell)

lemma keeps_chpasswd_lines [keeps_shell]: "keeps_cmd (chpasswd_lines n ls)"
proof (induction ls arbitrary: n)
  case Nil
  show ?case by (simp only: chpasswd_lines.simps) (intro keeps_intros keeps_shell)
next
  case (Cons l ls)
  show ?case
    unfolding chpasswd_lines.simps chpasswd_line_def missing_password_def
    by (intro keeps_intros keeps_shell Cons.IH)
qed

lemma keeps_chpasswd_options [keeps_shell]: "keeps_cmd (chpasswd_options opts)"
proof (induction opts)
  case Nil
  show ?case by (simp only: chpasswd_options.simps) (intro keeps_intros keeps_shell)
next
  case (Cons o' opts)
  show ?case unfolding chpasswd_options.simps chpasswd_help_def by (intro keeps_intros keeps_shell Cons.IH)
qed

lemma keeps_chpasswd [keeps_shell]: "keeps_cmd chpasswd_start"
  unfolding chpasswd_start_def chpasswd_application_def chpasswd_help_def by (intro keeps_intros keeps_shell)

lemma keeps_text_start [keeps_shell]: "keeps_cmd (text_start e u k)"
  by (cases k) (simp_all only: text_start_def text_command.case cmd_start_def, (intro keeps_intros keeps_shell)+)


text \<open>A session of command lines of both tables.\<close>

datatype any_line = FsLine command_line | TextLine cmd_env user_env text_command "string list" "string option"

definition any_step :: "any_line \<Rightarrow> cmd \<Rightarrow> cmd" where
  "any_step l c = (case l of FsLine f \<Rightarrow> shell_step f c | TextLine e u k args inp \<Rightarrow> snd (run_text e u k args inp c))"

lemma keeps_run_text: "keeps_cmd (run_text e u k args inp)"
  unfolding run_text_def by (intro keeps_intros keeps_shell keeps_modify_quiet) (simp add: fresh_command_def)

interpretation both: transition_system "session_start ns k home" any_step cmd_inv for ns k home
proof
  show "cmd_inv (session_start ns k home)" by (rule shell.inv_start)
  show "cmd_inv (any_step l c)" if "cmd_inv c" for c l
    using that shell.inv_step [of c] keepsD [OF keeps_run_text] by (cases l) (simp_all add: any_step_def cmd_rel_def)
qed

section \<open>Where the commands part from the programs they imitate\<close>

definition ex_user :: user_env where
  "ex_user = \<lparr>u_name = ''root'', u_uid = 0, u_gid = 0, u_path = Some ''/tmp:/''\<rparr>"

text \<open>\<open>printf\<close> never prints its argument.\<close>

lemma printf_raises: "c_args c = [a] \<Longrightarrow> a \<noteq> ''-v'' \<Longrightarrow> \<exists>x. fst (printf_call c) = Inl x"
  by (auto simp: printf_call_def buffer_def split: sum.split)

text \<open>\<open>base64\<close> cannot encode what a pipe or a file gives it, nor decode it.\<close>

lemma base64_useless:
  "dojob False False (Some (PyBytes b)) c = (Inl (AttributeError ''encode''), c)"
  "dojob True False (Some (PyBytes b)) c = errorWrite (''base64: invalid input'' @ nl) c"
  by (simp_all add: dojob_def py_except_def)

text \<open>\<open>chpasswd -c MD5\<close> refuses the method and ends twice, the second time with its job done.\<close>

lemma chpasswd_method:
  "exits (snd (run_text ex_env ex_user Chpasswd [''-c'', ''MD5''] (Some ''root:x'') ex_session)) = 2"
  by code_simp

text \<open>\<open>wc\<close> skips the first file, so with one it prints nothing.\<close>

lemma wc_skips:
  "outs (sent (snd (run_text ex_env ex_user Wc [''-l'', ''nothere''] None ex_session))) = []"
  "errs (sent (snd (run_text ex_env ex_user Wc [''-l'', ''nothere''] None ex_session))) = []"
  by code_simp+

text \<open>\<open>which\<close> prints every directory that has the name, not the first.\<close>

lemma which_prints_all:
  "outs (sent (snd (run_text ex_env ex_user Which [''/tmp''] None ex_session))) = [''/tmp//tmp'' @ nl, ''///tmp'' @ nl]"
  by code_simp

end
