(* ===== verification/CatShows.thy ===== *)
theory CatShows
  imports TextCommandsProps
begin

text \<open>
  What \<open>cat\<close> shows: the lines of all files, numbered through, and a message for each name it cannot read.
\<close>

section \<open>What is said into a pipe\<close>

definition says :: "piece list \<Rightarrow> 'a \<Rightarrow> 'a cmd_py \<Rightarrow> cmd \<Rightarrow> bool" where
  "says ps a m c \<longleftrightarrow> (\<exists>v. m c = (Inr a, c\<lparr>temp_buff := v, sent := sent c @ ps\<rparr>))"

lemma says_write: "sink c = ToPipe \<Longrightarrow> says [OutPiece x] () (cmd_write x) c"
  by (auto simp: says_def cmd_write_def buffer_def writefn_def)

lemma says_error: "says [ErrPiece x] () (errorWrite x) c"
  by (auto simp: says_def cmd_write_def errorWrite_def buffer_def writefn_def)

lemma says_return: "says [] a (py_return a) c"
  by (auto simp: says_def intro: exI [of _ "temp_buff c"])

lemma says_bind:
  assumes "says ps a m c" and "\<And>v. says qs b (k a) (c\<lparr>temp_buff := v, sent := sent c @ ps\<rparr>)"
  shows "says (ps @ qs) b (py_bind m k) c"
proof -
  obtain v where v: "m c = (Inr a, c\<lparr>temp_buff := v, sent := sent c @ ps\<rparr>)" using assms(1) by (auto simp: says_def)
  have "says qs b (k a) (c\<lparr>temp_buff := v, sent := sent c @ ps\<rparr>)" using assms(2) by auto
  then show ?thesis using v by (auto simp: says_def)
qed

section \<open>Lines and files\<close>

definition line_text :: "bool \<Rightarrow> nat \<times> string \<Rightarrow> string" where
  "line_text number il = (if number then cat_number (fst il) else []) @ snd il @ nl"

text \<open>Lines numbered from \<open>n\<close>.\<close>

definition numbered :: "bool \<Rightarrow> nat \<Rightarrow> string list \<Rightarrow> string" where
  "numbered number n ls = concat (map (line_text number) (enumerate n ls))"

definition next_number :: "bool \<Rightarrow> nat \<Rightarrow> string list \<Rightarrow> nat" where
  "next_number number n ls = (if number then n + length ls else n)"

fun line_pieces :: "bool \<Rightarrow> nat \<Rightarrow> string list \<Rightarrow> piece list" where
  "line_pieces number n [] = []"
| "line_pieces number n (l # ls) =
     (if number then [OutPiece (cat_number n)] else []) @ [OutPiece (l @ nl)] @ line_pieces number (next_number number n [l]) ls"

lemma numbered_any: "numbered False n ls = numbered False k ls"
  by (induction ls arbitrary: n k) (simp_all add: numbered_def line_text_def)

lemma line_pieces_text:
  "concat (outs (line_pieces number n ls)) = numbered number n ls" "errs (line_pieces number n ls) = []"
proof (induction ls arbitrary: n)
  case (Cons l ls)
  {
    case 1
    then show ?case using Cons numbered_any [of n ls "Suc n"] by (simp add: numbered_def line_text_def next_number_def)
  next
    case 2
    then show ?case using Cons by simp
  }
qed (simp_all add: numbered_def)

lemma next_number_append: "next_number number (next_number number n xs) ys = next_number number n (xs @ ys)"
  by (simp add: next_number_def)

lemma says_lines:
  "sink c = ToPipe \<Longrightarrow> says (line_pieces number n ls) (next_number number n ls) (cat_lines number n ls) c"
proof (induction ls arbitrary: n c)
  case Nil
  show ?case by (simp only: cat_lines.simps line_pieces.simps next_number_def list.size add_0_right if_cancel says_return)
next
  case (Cons l ls)
  have n: "(if number then Suc n else n) = next_number number n [l]" by (simp add: next_number_def)
  have first: "says (if number then [OutPiece (cat_number n)] else []) () (if number then cmd_write (cat_number n) else py_return ()) c"
    using Cons.prems by (cases number) (simp_all only: if_True if_False says_write says_return)
  have rest: "says ([OutPiece (l @ nl)] @ line_pieces number (next_number number n [l]) ls) (next_number number n (l # ls))
      (py_bind (cmd_write (l @ nl)) (\<lambda>_. cat_lines number (next_number number n [l]) ls)) d" if "sink d = ToPipe" for d
  proof (rule says_bind [OF says_write [OF that]])
    fix v
    have "sink (d\<lparr>temp_buff := v, sent := sent d @ [OutPiece (l @ nl)]\<rparr>) = ToPipe" using that by simp
    from Cons.IH [OF this, of "next_number number n [l]"]
    show "says (line_pieces number (next_number number n [l]) ls) (next_number number n (l # ls))
        (cat_lines number (next_number number n [l]) ls) (d\<lparr>temp_buff := v, sent := sent d @ [OutPiece (l @ nl)]\<rparr>)"
      using next_number_append [of number n "[l]" ls] by (simp only: append_Cons append_Nil)
  qed
  show ?case
    unfolding cat_lines.simps line_pieces.simps n by (rule says_bind [OF first rest]) (use Cons.prems in simp)
qed

text \<open>What \<open>cat\<close> finds under a name: a text, or what it says of it.\<close>

datatype sight = Shows string | Complains string

definition cat_sees :: "cmd_env \<Rightarrow> cmd \<Rightarrow> string \<Rightarrow> sight \<Rightarrow> bool" where
  "cat_sees e c a s \<longleftrightarrow> (\<exists>p d. resolve_path a (c_cwd c) = Inr p \<and> isdir p (c_fs c) = (Inr d, c_fs c) \<and>
     (if d then s = Complains (''cat: '' @ a @ '': Is a directory'' @ nl)
      else case cmd_file_contents e p c of
          (Inr (Some (x # xs)), c') \<Rightarrow> c' = c \<and> (\<exists>t. py_decode (x # xs) = Inr t \<and> s = Shows t)
        | (r, c') \<Rightarrow> c' = c \<and> r \<in> {Inr None, Inr (Some []), Inl FileNotFound} \<and>
            s = Complains (''cat: '' @ a @ '': No such file or directory'' @ nl)))"

fun sight_pieces :: "bool \<Rightarrow> nat \<Rightarrow> sight \<Rightarrow> piece list" where
  "sight_pieces number n (Shows t) = line_pieces number n (text_lines t)"
| "sight_pieces number n (Complains m) = [ErrPiece m]"

fun sight_lines :: "sight \<Rightarrow> string list" where
  "sight_lines (Shows t) = text_lines t"
| "sight_lines (Complains m) = []"

fun sight_errors :: "sight \<Rightarrow> string list" where
  "sight_errors (Shows t) = []"
| "sight_errors (Complains m) = [m]"

text \<open>It is the same where only the output differs.\<close>

lemma contents_output:
  "cmd_file_contents e p (c\<lparr>temp_buff := v, sent := ps\<rparr>) =
     (case cmd_file_contents e p c of (r, c') \<Rightarrow> (r, c'\<lparr>temp_buff := v, sent := ps\<rparr>))"
proof -
  have "read_host e (c\<lparr>temp_buff := v, sent := ps\<rparr>) = read_host e c" by (rule ext) (simp add: read_host_def)
  then show ?thesis by (simp add: cmd_file_contents_def on_fs_def split: prod.split)
qed

lemma cat_sees_output: "cat_sees e c a s \<Longrightarrow> cat_sees e (c\<lparr>temp_buff := v, sent := ps\<rparr>) a s"
  unfolding cat_sees_def contents_output
  by (elim exE conjE, intro exI conjI, simp, simp) (auto split: prod.splits sum.splits option.splits list.splits if_splits)

lemma says_one:
  assumes s: "cat_sees e c a s" and c: "sink c = ToPipe"
  shows "says (sight_pieces number n s) (next_number number n (sight_lines s)) (cat_one e number n a) c"
proof -
  obtain p d where p: "resolve_path a (c_cwd c) = Inr p" "isdir p (c_fs c) = (Inr d, c_fs c)"
      "if d then s = Complains (''cat: '' @ a @ '': Is a directory'' @ nl)
      else case cmd_file_contents e p c of
          (Inr (Some (x # xs)), c') \<Rightarrow> c' = c \<and> (\<exists>t. py_decode (x # xs) = Inr t \<and> s = Shows t)
        | (r, c') \<Rightarrow> c' = c \<and> r \<in> {Inr None, Inr (Some []), Inl FileNotFound} \<and>
            s = Complains (''cat: '' @ a @ '': No such file or directory'' @ nl)"
    using s unfolding cat_sees_def by blast
  have w: "says [ErrPiece m] n (py_bind (errorWrite m) (\<lambda>_. py_return n)) c" for m
  proof -
    have "says ([ErrPiece m] @ []) n (py_bind (errorWrite m) (\<lambda>_. py_return n)) c"
      by (rule says_bind [OF says_error says_return])
    then show ?thesis by (simp only: append_Nil2)
  qed
  obtain r c' where r: "cmd_file_contents e p c = (r, c')" by fastforce
  show ?thesis
  proof (cases d)
    case True
    with p w show ?thesis by (simp add: cat_one_def says_def resolv_def on_fs_def next_number_def)
  next
    case False
    show ?thesis
    proof (cases "\<exists>x xs. r = Inr (Some (x # xs))")
      case True
      then obtain x xs where x: "r = Inr (Some (x # xs))" by blast
      then obtain t where t: "c' = c" "py_decode (x # xs) = Inr t" "s = Shows t" using p(3) False r by auto
      have "cat_output number n (x # xs) c = cat_lines number n (text_lines t) c" using t by (simp add: cat_output_def)
      moreover have "cat_one e number n a c = (case cat_output number n (x # xs) c of
          (Inl z, u) \<Rightarrow> (if z = FileNotFound then py_bind (no_such_file a) (\<lambda>_. py_return n) u else (Inl z, u)) | (Inr k, u) \<Rightarrow> (Inr k, u))"
        using p(1,2) False r x t(1) by (simp add: cat_one_def resolv_def on_fs_def py_except_def split: prod.split sum.split)
      ultimately show ?thesis
        using says_lines [OF c, of number n "text_lines t"] t(3) by (auto simp: says_def)
    next
      case none: False
      then have "c' = c" "r \<in> {Inr None, Inr (Some []), Inl FileNotFound}"
        "s = Complains (''cat: '' @ a @ '': No such file or directory'' @ nl)"
        using p(3) False r by (auto split: sum.splits option.splits list.splits)
      then show ?thesis
        using p(1,2) False r w [of "''cat: '' @ a @ '': No such file or directory'' @ nl"]
        by (auto simp: cat_one_def says_def resolv_def on_fs_def py_except_def next_number_def no_such_file_def)
    qed
  qed
qed


fun all_pieces :: "bool \<Rightarrow> nat \<Rightarrow> sight list \<Rightarrow> piece list" where
  "all_pieces number n [] = []"
| "all_pieces number n (s # ss) = sight_pieces number n s @ all_pieces number (next_number number n (sight_lines s)) ss"

lemma numbered_append: "numbered number n (xs @ ys) = numbered number n xs @ numbered number (next_number number n xs) ys"
  using numbered_any [of "n + length xs" ys n]
  by (cases number) (simp_all add: numbered_def next_number_def enumerate_append_eq)

lemma all_pieces_text:
  "concat (outs (all_pieces number n ss)) = numbered number n (concat (map sight_lines ss)) \<and>
   errs (all_pieces number n ss) = concat (map sight_errors ss)"
proof (induction ss arbitrary: n)
  case (Cons s ss)
  have "concat (outs (sight_pieces number n s)) = numbered number n (sight_lines s) \<and>
      errs (sight_pieces number n s) = sight_errors s"
    by (cases s) (simp_all add: line_pieces_text numbered_def)
  with Cons show ?case by (simp add: numbered_append)
qed (simp add: numbered_def)

lemma says_files:
  "list_all2 (cat_sees e c) args ss \<Longrightarrow> sink c = ToPipe \<Longrightarrow> says (all_pieces number n ss) () (cat_files e number n args) c"
proof (induction args arbitrary: n c ss)
  case Nil
  then have "ss = []" by simp
  then show ?case by (simp only: cat_files.simps all_pieces.simps says_return)
next
  case (Cons a args)
  then obtain s rest where ss: "ss = s # rest" "cat_sees e c a s" "list_all2 (cat_sees e c) args rest"
    by (auto simp: list_all2_Cons1)
  show ?case
    unfolding ss(1) cat_files.simps all_pieces.simps
  proof (rule says_bind [OF says_one [OF ss(2) Cons.prems(2)]])
    fix v
    let ?c = "c\<lparr>temp_buff := v, sent := sent c @ sight_pieces number n s\<rparr>"
    have "list_all2 (cat_sees e ?c) args rest" using ss(3) by (rule list_all2_mono) (rule cat_sees_output)
    then show "says (all_pieces number (next_number number n (sight_lines s)) rest) ()
        (cat_files e number (next_number number n (sight_lines s)) args) ?c"
      by (rule Cons.IH) (simp add: Cons.prems(2))
  qed
qed

section \<open>Property\<close>

lemma cat_getopt:
  assumes "\<forall>a \<in> set args. \<not> starts_with a ''-'' \<or> a = ''-''"
  shows "gnu_getopt ((if number then [''-n''] else []) @ args) ''AbeEnstTuv'' [''help'', ''number'', ''version''] =
    Inr (if number then [(''-n'', [])] else [], args)"
proof (cases number)
  case False
  then show ?thesis using gnu_getopt_operands [OF assms] by simp
next
  case True
  have loop: "gnu_loop opts pa args s l = Inr (opts, pa @ args)" for opts pa s l
    using assms by (induction args arbitrary: pa) (auto simp: starts_with_def)
  have "do_shorts [] ''n'' ''AbeEnstTuv'' args = Inr ([(''-n'', [])], args)"
  proof -
    have "read1 ''n'' = (''n'', [])" "short_has_arg ''n'' ''AbeEnstTuv'' = Inr False" by code_simp+
    then show ?thesis by (simp add: do_shorts.simps Let_def del: read1.simps short_has_arg.simps)
  qed
  with True loop show ?thesis by (simp add: gnu_getopt_def starts_with_def)
qed

definition cat_args :: "bool \<Rightarrow> string list \<Rightarrow> string list" where
  "cat_args number args = (if number then [''-n''] else []) @ args"

lemma cat_sees_fresh: "cat_sees e c a s \<Longrightarrow> cat_sees e (fresh_command args inp c) a s"
proof -
  have rh: "read_host e (fresh_command args inp c) = read_host e c" by (rule ext) (simp add: read_host_def fresh_command_def)
  have "cmd_file_contents e p (fresh_command args inp c) =
      (case cmd_file_contents e p c of (r, c') \<Rightarrow> (r, fresh_command args inp c'))" for p
    by (simp add: cmd_file_contents_def on_fs_def rh split: prod.split) (simp add: fresh_command_def)
  then show "cat_sees e c a s \<Longrightarrow> cat_sees e (fresh_command args inp c) a s"
    unfolding cat_sees_def
    by (elim exE conjE, intro exI conjI, simp add: fresh_command_def, simp add: fresh_command_def)
      (auto split: prod.splits sum.splits option.splits list.splits if_splits)
qed

text \<open>The same, computed; \<open>None\<close> where the command raises.\<close>

definition cat_sight :: "cmd_env \<Rightarrow> cmd \<Rightarrow> string \<Rightarrow> sight option" where
  "cat_sight e c a = (case resolve_path a (c_cwd c) of
       Inl z \<Rightarrow> None
     | Inr p \<Rightarrow>
         if fst (isdir p (c_fs c)) = Inr True then Some (Complains (''cat: '' @ a @ '': Is a directory'' @ nl))
         else (case fst (cmd_file_contents e p c) of
             Inr (Some (x # xs)) \<Rightarrow> (case py_decode (x # xs) of Inl z \<Rightarrow> None | Inr t \<Rightarrow> Some (Shows t))
           | r \<Rightarrow> if r \<in> {Inr None, Inr (Some []), Inl FileNotFound}
               then Some (Complains (''cat: '' @ a @ '': No such file or directory'' @ nl)) else None))"

lemma unchanged_preorder: "preorder_on_states (=)"
  by (simp add: preorder_on_states_def reflp_def transp_def)

lemma contents_unchanged: "snd (cmd_file_contents e p c) = c"
proof -
  have g: "keeps (=) (fs_getfile True q)" "keeps (=) (fs_node r)" for q r
    by (simp_all add: keeps_def)
  have "keeps (=) (file_contents f a p)" for f a
    unfolding file_contents_def exists_path_def by (intro keeps_intros unchanged_preorder g)
  then have "snd (file_contents f a p s) = s" for f a s by (metis keepsD)
  then show ?thesis by (simp add: cmd_file_contents_def on_fs_def split: prod.split) (metis cmd.surjective cmd.update_convs(1) snd_conv)
qed

lemma isdir_unchanged: "\<exists>d. isdir p s = (Inr d, s)"
  by (auto simp: isdir_def split: sum.split option.split)

lemma cat_sight_sees: "cat_sight e c a = Some s \<Longrightarrow> cat_sees e c a s"
proof -
  assume s: "cat_sight e c a = Some s"
  then obtain p where p: "resolve_path a (c_cwd c) = Inr p" by (auto simp: cat_sight_def split: sum.splits)
  obtain d where d: "isdir p (c_fs c) = (Inr d, c_fs c)" using isdir_unchanged by blast
  obtain r where r: "cmd_file_contents e p c = (r, c)" using contents_unchanged [of e p c] by (metis prod.collapse)
  show ?thesis
    unfolding cat_sees_def
    using s p d r by (intro exI [of _ p] exI [of _ d]) (auto simp: cat_sight_def split: if_splits sum.splits option.splits list.splits)
qed

text \<open>C27: \<open>cat\<close> of any names: the lines of the files, in the order asked for and with \<open>-n\<close> numbered through from one
  file to the next, are what the session sees; each name that is missing, empty or a directory gives its
  message on the error stream and does not stop the others; the command ends once and changes no file.\<close>

theorem cat_shows_lines:
  assumes "map (cat_sight e c) args = map Some sights" and "args \<noteq> []"
    and "\<forall>a \<in> set args. (\<not> starts_with a ''-'' \<or> a = ''-'') \<and> a \<notin> {''>'', ''>>''}"
  shows "case run_text e u Cat (cat_args number args) None c of
      (Inl z, d) \<Rightarrow> False
    | (Inr v, d) \<Rightarrow> (\<exists>ps. sent d = sent c @ ps \<and> concat (outs ps) = numbered number 1 (concat (map sight_lines sights)) \<and>
          errs ps = concat (map sight_errors sights)) \<and>
        exits d = exits c + 1 \<and> c_fs d = c_fs c \<and> host_files d = host_files c"
proof -
  let ?f = "fresh_command (cat_args number args) None c"
  have "HoneyPotCommand_init e ?f = (Inr (), ?f)"
    using assms(3) by (auto simp: HoneyPotCommand_init_def fresh_command_def cat_args_def)
  then have run: "run_text e u Cat (cat_args number args) None c = cat_start e ?f"
    by (simp add: run_text_def text_start_def)
  have "list_all2 (cat_sees e c) args sights"
    using assms(1) by (auto simp: list_all2_conv_all_nth list_eq_iff_nth_eq intro: cat_sight_sees)
  then have "list_all2 (cat_sees e ?f) args sights" by (rule list_all2_mono) (rule cat_sees_fresh)
  then have "says (all_pieces number 1 sights) () (cat_files e number 1 args) ?f"
    by (rule says_files) (simp add: fresh_command_def)
  then obtain w where w: "cat_files e number 1 args ?f = (Inr (), ?f\<lparr>temp_buff := w, sent := sent ?f @ all_pieces number 1 sights\<rparr>)"
    by (auto simp: says_def)
  let ?g = "?f\<lparr>temp_buff := w, sent := sent ?f @ all_pieces number 1 sights\<rparr>"
  have go: "gnu_getopt (c_args ?f) ''AbeEnstTuv'' [''help'', ''number'', ''version''] = Inr (if number then [(''-n'', [])] else [], args)"
    using cat_getopt [of args number] assms(3) by (simp add: fresh_command_def cat_args_def)
  have "input_data ?f = None" by (simp add: fresh_command_def)
  then have "cat_start e ?f = logged_exit ''cat'' ?g"
    using w go assms(2) by (cases number) (simp_all add: cat_start_def)
  moreover obtain o' b where "get_output ?g = (Inr o', ?g\<lparr>codec_base64 := b\<rparr>)" using get_output_out by blast
  ultimately show ?thesis
    using all_pieces_text [of number 1 sights] run
    by (cases o') (auto simp: logged_exit_def cmd_exit_def fresh_command_def)
qed


text \<open>Two empty lines and one without its end, from a file of the session named twice, with a directory and a name
  that is missing.\<close>

definition ex_cat :: cmd where
  "ex_cat = snd (run_text ex_env ex_user Echo [''-ne'', [bs] @ ''na'' @ [bs] @ ''n'' @ [bs] @ ''nb'', ''>'', ''f''] None ex_session)"

theorem cat_shows_lines_witness:
  "concat (outs (drop (length (sent ex_cat)) (sent (snd (run_text ex_env ex_user Cat (cat_args True [''f'', ''g'', ''/tmp'', ''f'']) None ex_cat))))) =
     ''     1  '' @ nl @ ''     2  a'' @ nl @ ''     3  '' @ nl @ ''     4  b'' @ nl @
     ''     5  '' @ nl @ ''     6  a'' @ nl @ ''     7  '' @ nl @ ''     8  b'' @ nl"
proof -
  let ?t = "nl @ ''a'' @ nl @ nl @ ''b''"
  have "map (cat_sight ex_env ex_cat) [''f'', ''g'', ''/tmp'', ''f''] = map Some [Shows ?t,
      Complains (''cat: g: No such file or directory'' @ nl), Complains (''cat: /tmp: Is a directory'' @ nl), Shows ?t]"
    by code_simp
  note sights = this
  have num: "numbered True 1 (text_lines ?t @ text_lines ?t) =
     ''     1  '' @ nl @ ''     2  a'' @ nl @ ''     3  '' @ nl @ ''     4  b'' @ nl @
     ''     5  '' @ nl @ ''     6  a'' @ nl @ ''     7  '' @ nl @ ''     8  b'' @ nl" by code_simp
  have args: "\<forall>a \<in> set [''f'', ''g'', ''/tmp'', ''f'']. (\<not> starts_with a ''-'' \<or> a = ''-'') \<and> a \<notin> {''>'', ''>>''}" by code_simp
  have "case run_text ex_env ex_user Cat (cat_args True [''f'', ''g'', ''/tmp'', ''f'']) None ex_cat of (Inl z, d) \<Rightarrow> False
    | (Inr v, d) \<Rightarrow> \<exists>ps. sent d = sent ex_cat @ ps \<and> concat (outs ps) = numbered True 1 (text_lines ?t @ text_lines ?t)"
    using cat_shows_lines [OF sights _ args, where u = ex_user and number = True] by (auto split: prod.splits sum.splits)
  then show ?thesis unfolding num by (auto split: prod.splits sum.splits)
qed

text \<open>With its input from a pipe \<open>cat\<close> never ends, and a file that is not UTF-8 raises out of it.\<close>

lemma cat_piped_never_ends:
  assumes "input_data c = Some (x # xs)" and "gnu_getopt (c_args c) ''AbeEnstTuv'' [''help'', ''number'', ''version''] = Inr (opts, args)"
    and "\<not> list_ex (\<lambda>o'. fst o' = ''--help'') opts" and "py_decode (x # xs) = Inr t" and "sink c = ToPipe"
  shows "case cat_start e c of (Inl z, d) \<Rightarrow> False | (Inr v, d) \<Rightarrow> exits d = exits c"
proof -
  obtain v where "cat_lines (list_ex (\<lambda>o'. fst o' \<in> {''-n'', ''--number''}) opts) 1 (text_lines t) c =
      (Inr (next_number (list_ex (\<lambda>o'. fst o' \<in> {''-n'', ''--number''}) opts) 1 (text_lines t)), v)" "exits v = exits c"
    using says_lines [OF assms(5), of "list_ex (\<lambda>o'. fst o' \<in> {''-n'', ''--number''}) opts" 1 "text_lines t"]
    by (auto simp: says_def)
  with assms show ?thesis by (simp add: cat_start_def cat_output_def)
qed

lemma cat_raises_on_binary:
  "fst (run_text ex_env ex_user Cat [''f''] None
     (snd (run_text ex_env ex_user Echo [''-ne'', [bs] @ ''xff'', ''>'', ''f''] None ex_session))) = Inl UnicodeDecodeError"
  by code_simp

end
