(* ===== verification/EchoDrops.thy ===== *)
theory EchoDrops
  imports TextCommandsProps
begin

text \<open>
  A file spelled out with \<open>echo\<close>: what its escapes stand for, and what a sequence of redirected calls leaves.
\<close>

section \<open>Bytes spelled in hexadecimal\<close>

text \<open>A byte after one or two backslashes, with one or two digits.\<close>

datatype hex_token = Hex bool string

definition is_hex :: "char \<Rightarrow> bool" where
  "is_hex c \<longleftrightarrow> c \<in> set ''0123456789abcdefABCDEF''"

fun token_ok :: "hex_token \<Rightarrow> bool" where
  "token_ok (Hex b ds) \<longleftrightarrow> (length ds = 1 \<or> length ds = 2) \<and> list_all is_hex ds"

fun token_byte :: "hex_token \<Rightarrow> char" where
  "token_byte (Hex b ds) = char_of (fold (\<lambda>d v. 16 * v + the (hex_value d)) ds 0)"

fun token_text :: "hex_token \<Rightarrow> string" where
  "token_text (Hex b ds) = (if b then [bs, bs, CHR ''x''] else [bs, CHR ''x'']) @ ds"

definition spelled :: "hex_token list \<Rightarrow> string" where
  "spelled ts = concat (map token_text ts)"

text \<open>The same with one backslash each, and with two digits each.\<close>

fun single :: "hex_token \<Rightarrow> hex_token" where
  "single (Hex b ds) = Hex False ds"

fun padded :: "hex_token \<Rightarrow> hex_token" where
  "padded (Hex b ds) = Hex False (if length ds = 1 then CHR ''0'' # ds else ds)"

lemma spelled_simps [simp]: "spelled [] = []" "spelled (t # ts) = token_text t @ spelled ts"
  by (simp_all add: spelled_def)

lemma is_hex_value: "is_hex c \<Longrightarrow> \<exists>v. hex_value c = Some v \<and> v < 16"
  by (auto simp: is_hex_def hex_value_def)

lemma is_hex_not: "is_hex c \<Longrightarrow> c \<noteq> bs \<and> c \<noteq> CHR ''x'' \<and> \<not> digit_ends (c # cs)"
  by (auto simp: is_hex_def digit_ends_def bs_def py_spaces_def starts_with_def)

lemma token_cases:
  assumes "token_ok t"
  obtains b c where "t = Hex b [c]" "is_hex c" | b c d where "t = Hex b [c, d]" "is_hex c" "is_hex d"
proof (cases t)
  case (Hex b ds)
  then show ?thesis
    using assms that by (auto simp: length_Suc_conv numeral_2_eq_2)
qed

section \<open>What \<open>echo\<close> makes of them\<close>

lemma replace_all_skip: "\<not> starts_with (c # cs) old \<Longrightarrow> replace_all old new (c # cs) = c # replace_all old new cs"
  by (cases "split_str old cs") (auto simp: replace_all_def join_Cons_char)

lemma replace_all_hit: "old \<noteq> [] \<Longrightarrow> replace_all old new (old @ s) = new @ replace_all old new s"
  by (cases old) (simp_all add: replace_all_def join_Cons starts_with_def)

lemma one_backslash: "list_all token_ok ts \<Longrightarrow> replace_all [bs, bs, CHR ''x''] [bs, CHR ''x''] (spelled ts) = spelled (map single ts)"
proof (induction ts)
  case Nil
  show ?case by (simp add: replace_all_def)
next
  case (Cons t ts)
  let ?r = "replace_all [bs, bs, CHR ''x''] [bs, CHR ''x'']"
  have skip: "?r (c # s) = c # ?r s" if "is_hex c" for c s
    using is_hex_not [OF that, of "[]"] by (intro replace_all_skip) (auto simp: starts_with_def)
  have x: "?r (bs # CHR ''x'' # s) = bs # CHR ''x'' # ?r s" for s
    by (subst replace_all_skip, simp add: starts_with_def bs_def) (subst replace_all_skip, simp_all add: starts_with_def bs_def)
  have hit: "?r (bs # bs # CHR ''x'' # s) = bs # CHR ''x'' # ?r s" for s
    using replace_all_hit [of "[bs, bs, CHR ''x'']" "[bs, CHR ''x'']" s] by simp
  from Cons.prems have "token_ok t" by simp
  then show ?case
    by (rule token_cases) (use Cons in \<open>auto simp: skip x hit\<close>)
qed

lemma spelled_start: "digit_ends (spelled ts)"
proof (cases ts)
  case (Cons t us)
  then show ?thesis by (cases t) (simp add: digit_ends_def)
qed (simp add: digit_ends_def)

lemma pad_hex_step: "d \<noteq> bs \<or> c \<noteq> CHR ''x'' \<Longrightarrow> pad_hex d (c # s) = c # pad_hex c s"
  by (cases s) auto

lemma two_digits: "list_all token_ok ts \<Longrightarrow> pad_hex p (spelled (map single ts)) = spelled (map padded ts)"
proof (induction ts arbitrary: p)
  case (Cons t ts)
  have b: "pad_hex p (bs # s) = bs # pad_hex bs s" for s
    by (rule pad_hex_step) (simp add: bs_def)
  have x: "CHR ''x'' \<noteq> bs" by (simp add: bs_def)
  from Cons.prems have "token_ok t" by simp
  then show ?case
  proof (rule token_cases)
    fix b' c assume t: "t = Hex b' [c]" "is_hex c"
    have "pad_hex bs (CHR ''x'' # c # s) = CHR ''x'' # CHR ''0'' # c # pad_hex c s" if "digit_ends s" for s
      using that is_hex_value [OF t(2)] by auto
    then show ?thesis
      using Cons t spelled_start [of "map single ts"] by (simp add: b del: pad_hex.simps)
  next
    fix b' c d assume t: "t = Hex b' [c, d]" "is_hex c" "is_hex d"
    have n: "\<not> digit_ends (d # s)" "c \<noteq> bs" "d \<noteq> bs" for s using is_hex_not [OF t(2)] is_hex_not [OF t(3)] by auto
    have "pad_hex bs (CHR ''x'' # c # d # s) = CHR ''x'' # c # d # pad_hex d s" for s
      using n x by (simp add: pad_hex_step)
    then show ?thesis using Cons t by (simp add: b del: pad_hex.simps)
  qed
qed simp

lemma decode_spelled: "list_all token_ok ts \<Longrightarrow> escape_decode (spelled (map padded ts)) = Inr (map token_byte ts)"
proof (induction ts)
  case (Cons t ts)
  have se: "map_of simple_escapes CHR ''x'' = None" by (simp add: simple_escapes_def bs_def)
  have h: "escape_decode (bs # CHR ''x'' # a # b # s) =
      (case (hex_value a, hex_value b) of
         (Some m, Some n) \<Rightarrow> bind_res (escape_decode s) (\<lambda>r. Inr (char_of (16 * m + n) # r)) | _ \<Rightarrow> Inl ValueError)" for a b s
    using se by (simp add: escape_decode.simps(2))
  have z: "hex_value CHR ''0'' = Some 0" by (simp add: hex_value_def)
  from Cons.prems have "token_ok t" by simp
  then show ?case
    by (rule token_cases) (use Cons z in \<open>auto simp: h dest!: is_hex_value\<close>)
qed simp

lemma spelled_end: "list_all token_ok ts \<Longrightarrow> \<not> ends_with (spelled ts) [bs, CHR ''c'']"
proof (induction ts rule: rev_induct)
  case (snoc t ts)
  from snoc.prems have "token_ok t" by simp
  then show ?case
    by (rule token_cases)
      (auto simp: spelled_def ends_with_iff append_eq_append_conv2 Cons_eq_append_conv is_hex_not bs_def dest: is_hex_not)
qed (simp add: ends_with_def)


lemma padded_ok: "token_ok t \<Longrightarrow> token_ok (padded t)"
  by (erule token_cases) (auto simp: is_hex_def)

lemma echo_decodes:
  assumes "list_all token_ok ts"
  shows "escape_decode (echo_text False [spelled ts]) = Inr (map token_byte ts)"
proof -
  have "fix_escapes (spelled ts) = spelled (map padded ts)"
    using assms by (simp add: fix_escapes_def one_backslash two_digits)
  moreover have "list_all token_ok (map padded ts)" using assms by (auto simp: list_all_iff padded_ok)
  ultimately show ?thesis
    using spelled_end [of "map padded ts"] decode_spelled [OF assms] by (simp add: echo_text_def)
qed

lemma spelled_no_option: "\<not> starts_with (spelled ts) ''-''"
proof (cases ts)
  case (Cons t us)
  then show ?thesis by (cases t) (auto simp: starts_with_def bs_def)
qed (simp add: starts_with_def)

lemma echo_options_ne: "\<not> starts_with a ''-'' \<Longrightarrow> echo_options [''-ne'', a] = (True, False, [a])"
proof -
  assume "\<not> starts_with a ''-''"
  moreover have "read1 ''ne'' = (''n'', ''e'')" "read1 ''e'' = (''e'', [])"
    "short_has_arg ''n'' ''eEn'' = Inr False" "short_has_arg ''e'' ''eEn'' = Inr False" by code_simp+
  then have "do_shorts [] ''ne'' ''eEn'' [a] = Inr ([(''-n'', []), (''-e'', [])], [a])" for a
    by (simp add: do_shorts.simps Let_def del: read1.simps short_has_arg.simps)
  ultimately show ?thesis
    by (simp add: echo_options_def getopt_def starts_with_def)
qed

lemma echo_call_spelled:
  assumes "list_all token_ok ts" and "c_args c = [''-ne'', spelled ts]"
  shows "echo_call c = py_except (writeBytes (map token_byte ts))
     (\<lambda>x. if x = ValueError \<or> x = UnicodeDecodeError then Some (py_return ()) else None) c"
proof -
  have "echo_options (c_args c) = (True, False, [spelled ts])"
    using echo_options_ne [OF spelled_no_option] assms(2) by simp
  then show ?thesis
    using echo_decodes [OF assms(1)] by (simp add: echo_call_def py_except_def)
qed

section \<open>Appending to a file of the session\<close>

definition holds_file :: "string list \<Rightarrow> string \<Rightarrow> nat \<Rightarrow> string \<Rightarrow> cmd \<Rightarrow> bool" where
  "holds_file ps f r data c \<longleftrightarrow> host_files c f = Some data \<and> r < length (nodes (c_fs c)) \<and> 0 < frames (c_fs c) \<and>
     (\<exists>vs. chain (nodes (c_fs c)) 0 ps vs r) \<and> A_TYPE (nodes (c_fs c) ! r) = T_FILE \<and> A_REALFILE (nodes (c_fs c) ! r) = Some f"

definition writing_to :: "string list \<Rightarrow> string \<Rightarrow> nat \<Rightarrow> cmd \<Rightarrow> bool" where
  "writing_to ps f n c \<longleftrightarrow> sink c = ToFile \<and> safe_outfile c = Some f \<and> out_file c = Some (abs_path ps) \<and> written_bytes c = n"

text \<open>What stays the same while a command runs with its output in a file.\<close>

definition unseen :: "cmd \<Rightarrow> cmd \<Rightarrow> bool" where
  "unseen c d \<longleftrightarrow> sent d = sent c \<and> redir_files d = redir_files c \<and> exits d = exits c \<and> c_cwd d = c_cwd c"

lemma holds_getfile: "holds_file ps f r data c \<Longrightarrow> getfile (frames (c_fs c)) (nodes (c_fs c)) True (abs_path ps) = Inr (Some r)"
  by (auto simp: holds_file_def intro!: getfile_chain)

lemma redirected_holds: "redirected ps f r data c \<Longrightarrow> holds_file ps f r data c \<and> writing_to ps f (length data) c"
  by (simp add: redirected_def holds_file_def writing_to_def)

lemma written_bytes_append:
  assumes c: "holds_file ps f r data c" and w: "writing_to ps f n c"
  shows "\<exists>d. writeBytes x c = (Inr (), d) \<and> holds_file ps f r (data @ x) d \<and> writing_to ps f (n + length x) d \<and> unseen c d \<and>
    c_args d = c_args c \<and> A_SIZE (nodes (c_fs d) ! r) = int (n + length x)"
proof -
  define ns where "ns = nodes (c_fs c)"
  define z where "z = int (n + length x)"
  let ?ns = "ns[r := (ns ! r)\<lparr>A_SIZE := z\<rparr>]"
  define d where "d = c\<lparr>codec_base64 := True, temp_buff := temp_buff c @ [PyBytes x], host_files := (host_files c)(f \<mapsto> data @ x),
     written_bytes := n + length x, c_fs := (c_fs c)\<lparr>nodes := ?ns\<rparr>\<rparr>"
  have "update_size (abs_path ps) z (c_fs c) = (Inr (), (c_fs c)\<lparr>nodes := ?ns\<rparr>)"
    using c holds_getfile [OF c] by (simp add: update_size_def holds_file_def ns_def)
  with c w have "writeBytes x c = (Inr (), d)"
    by (simp add: writeBytes_def buffer_def writefn_def write_to_file_def holds_file_def writing_to_def append_host_def on_fs_def d_def z_def)
  moreover obtain vs where "chain ns 0 ps vs r" using c by (auto simp: holds_file_def ns_def)
  then have "chain ?ns 0 ps vs r"
    by (rule chain_set_node [where g = "\<lambda>n. n\<lparr>A_SIZE := z\<rparr>"]) simp
  with c w have "holds_file ps f r (data @ x) d" "writing_to ps f (n + length x) d" "A_SIZE (nodes (c_fs d) ! r) = z"
    by (auto simp: holds_file_def writing_to_def d_def ns_def)
  ultimately show ?thesis by (simp add: unseen_def d_def z_def)
qed

text \<open>The constructor with \<open>>>\<close> and the name of such a file.\<close>

lemma append_opens:
  assumes c: "holds_file (ps @ [x]) f r data c" and a: "c_args c = args @ [''>>'', x]" "''>>'' \<notin> set args" "x \<notin> {''>'', ''>>''}"
    and n: "list_all normal_name ps" "normal_name x" "c_cwd c = abs_path ps" and f: "f \<noteq> []" "\<not> starts_with f ''honeyfs''"
  shows "\<exists>d. HoneyPotCommand_init e c = (Inr (), d) \<and> holds_file (ps @ [x]) f r data d \<and> writing_to (ps @ [x]) f 0 d \<and>
    unseen c d \<and> c_args d = args"
proof -
  let ?out = "abs_path (ps @ [x])"
  define d where "d = c\<lparr>written_bytes := 0, sink := ToFile, out_file := Some ?out, c_args := args, safe_outfile := Some f\<rparr>"
  have i: "index_of ''>>'' (c_args c) = length args" using a by (simp add: index_of_append)
  have "resolve_path x (c_cwd c) = Inr ?out" using n resolve_in [of ps x] by simp
  then have "redirect e c = (Inr (), d)"
    using a i holds_getfile [OF c] c f
    by (simp add: redirect_def Let_def on_fs_def d_def nth_append appendable_def holds_file_def)
  moreover have "HoneyPotCommand_init e c = redirect e c" using a by (simp add: HoneyPotCommand_init_def)
  ultimately show ?thesis using c by (auto simp: d_def holds_file_def writing_to_def unseen_def)
qed


section \<open>A sequence of calls\<close>

lemma logged_exit_in_file:
  assumes c: "holds_file ps f r data c" and w: "writing_to ps f n c" and f: "f \<noteq> []"
  shows "\<exists>d. logged_exit realm c = (Inr (), d) \<and> holds_file ps f r data d \<and> sent d = sent c \<and> exits d = exits c + 1 \<and>
    c_cwd d = c_cwd c \<and> c_fs d = c_fs c \<and> redir_files d = insert (f, abs_path ps) (redir_files c)"
proof -
  obtain o' b where o': "get_output c = (Inr o', c\<lparr>codec_base64 := b\<rparr>)" using get_output_out by blast
  show ?thesis
    using c w f by (cases o') (simp add: logged_exit_def cmd_exit_def o' holds_file_def writing_to_def)
qed

lemma echo_into_file:
  assumes c: "holds_file ps f r data c" and w: "writing_to ps f n c" and f: "f \<noteq> []"
    and ts: "list_all token_ok ts" and a: "c_args c = [''-ne'', spelled ts]"
  shows "\<exists>d. text_start e u Echo c = (Inr (), d) \<and> holds_file ps f r (data @ map token_byte ts) d \<and> sent d = sent c \<and>
    exits d = exits c + 1 \<and> c_cwd d = c_cwd c \<and> A_SIZE (nodes (c_fs d) ! r) = int (n + length ts) \<and>
    redir_files d = insert (f, abs_path ps) (redir_files c)"
proof -
  obtain v where v: "writeBytes (map token_byte ts) c = (Inr (), v)" "holds_file ps f r (data @ map token_byte ts) v"
      "writing_to ps f (n + length ts) v" "unseen c v" "A_SIZE (nodes (c_fs v) ! r) = int (n + length ts)"
    using written_bytes_append [OF c w, of "map token_byte ts"] by auto
  obtain d where d: "logged_exit ''echo'' v = (Inr (), d)" "holds_file ps f r (data @ map token_byte ts) d" "sent d = sent v"
      "exits d = exits v + 1" "c_cwd d = c_cwd v" "c_fs d = c_fs v" "redir_files d = insert (f, abs_path ps) (redir_files v)"
    using logged_exit_in_file [OF v(2,3) f] by blast
  have "text_start e u Echo c = (Inr (), d)"
    using echo_call_spelled [OF ts a] v(1) d(1) by (simp add: text_start_def cmd_start_def py_except_def)
  then show ?thesis using d v by (auto simp: unseen_def)
qed

definition echo_to :: "cmd_env \<Rightarrow> user_env \<Rightarrow> string \<Rightarrow> string \<Rightarrow> hex_token list \<Rightarrow> cmd \<Rightarrow> cmd" where
  "echo_to e u op x ts c = snd (run_text e u Echo [''-ne'', spelled ts, op, x] None c)"

text \<open>What has been dropped so far, after so many calls, the last of so many bytes.\<close>

definition dropped :: "string list \<Rightarrow> string \<Rightarrow> string \<Rightarrow> nat \<Rightarrow> string \<Rightarrow> nat \<Rightarrow> cmd \<Rightarrow> cmd \<Rightarrow> bool" where
  "dropped ps x f r data k c d \<longleftrightarrow> holds_file (ps @ [x]) f r data d \<and> sent d = sent c \<and> exits d = exits c + k \<and>
     c_cwd d = abs_path ps \<and> redir_files d = insert (f, abs_path (ps @ [x])) (redir_files c)"

lemma no_operator: "spelled ts \<noteq> ''>'' \<and> spelled ts \<noteq> ''>>''"
proof (cases ts)
  case (Cons t us)
  then show ?thesis by (cases t) (simp add: bs_def)
qed simp

lemma can_redirect_fresh: "can_redirect e ps x c \<Longrightarrow> can_redirect e ps x (fresh_command args inp c)"
  by (simp add: can_redirect_def fresh_command_def)

lemma first_drop:
  assumes c: "can_redirect e ps x c" and ts: "list_all token_ok ts" and f: "f = tmp_fname e (abs_path (ps @ [x]))" "f \<noteq> []"
  shows "\<exists>r. dropped ps x f r (map token_byte ts) 1 c (echo_to e u ''>'' x ts c) \<and>
    A_SIZE (nodes (c_fs (echo_to e u ''>'' x ts c)) ! r) = int (length ts)"
proof -
  let ?c = "fresh_command [''-ne'', spelled ts, ''>'', x] None c"
  have a: "c_args ?c = [''-ne'', spelled ts] @ [''>'', x]" by (simp add: fresh_command_def)
  have no: "''>'' \<notin> set [''-ne'', spelled ts]" "''>>'' \<notin> set [''-ne'', spelled ts]" using no_operator [of ts] by auto
  have cwd: "c_cwd c = abs_path ps" using c by (simp add: can_redirect_def)
  obtain r w where w: "HoneyPotCommand_init e ?c = (Inr (), w)" "redirected (ps @ [x]) f r [] w" "c_args w = [''-ne'', spelled ts]"
      "sent w = sent ?c" "exits w = exits ?c" "redir_files w = redir_files ?c" "c_cwd w = c_cwd ?c"
    using redirect_opens [OF can_redirect_fresh [OF c] a no] f(1) by blast
  have h: "holds_file (ps @ [x]) f r [] w" "writing_to (ps @ [x]) f 0 w" using redirected_holds [OF w(2)] by simp_all
  obtain d where "text_start e u Echo w = (Inr (), d)" "holds_file (ps @ [x]) f r (map token_byte ts) d" "sent d = sent w"
      "exits d = exits w + 1" "c_cwd d = c_cwd w" "A_SIZE (nodes (c_fs d) ! r) = int (length ts)"
      "redir_files d = insert (f, abs_path (ps @ [x])) (redir_files w)"
    using echo_into_file [OF h f(2) ts w(3), of e u] by auto
  with w cwd show ?thesis
    by (intro exI [of _ r]) (simp add: echo_to_def run_text_def dropped_def fresh_command_def)
qed

lemma next_drop:
  assumes d: "dropped ps x f r data k c d" and ts: "list_all token_ok ts" and f: "f \<noteq> []" "\<not> starts_with f ''honeyfs''"
    and n: "list_all normal_name ps" "normal_name x" "x \<notin> {''>'', ''>>''}"
  shows "dropped ps x f r (data @ map token_byte ts) (Suc k) c (echo_to e u ''>>'' x ts d) \<and>
    A_SIZE (nodes (c_fs (echo_to e u ''>>'' x ts d)) ! r) = int (length ts)"
proof -
  let ?d = "fresh_command [''-ne'', spelled ts, ''>>'', x] None d"
  have a: "c_args ?d = [''-ne'', spelled ts] @ [''>>'', x]" by (simp add: fresh_command_def)
  have no: "''>>'' \<notin> set [''-ne'', spelled ts]" using no_operator [of ts] by auto
  have h: "holds_file (ps @ [x]) f r data ?d" "c_cwd ?d = abs_path ps"
    using d by (simp_all add: dropped_def holds_file_def fresh_command_def)
  obtain w where w: "HoneyPotCommand_init e ?d = (Inr (), w)" "holds_file (ps @ [x]) f r data w" "writing_to (ps @ [x]) f 0 w"
      "unseen ?d w" "c_args w = [''-ne'', spelled ts]"
    using append_opens [OF h(1) a no n(3,1,2) h(2) f] by blast
  obtain v where "text_start e u Echo w = (Inr (), v)" "holds_file (ps @ [x]) f r (data @ map token_byte ts) v" "sent v = sent w"
      "exits v = exits w + 1" "c_cwd v = c_cwd w" "A_SIZE (nodes (c_fs v) ! r) = int (length ts)"
      "redir_files v = insert (f, abs_path (ps @ [x])) (redir_files w)"
    using echo_into_file [OF w(2,3) f(1) ts w(5), of e u] by auto
  with w d show ?thesis
    by (simp add: echo_to_def run_text_def dropped_def fresh_command_def unseen_def)
qed

lemma all_drops:
  assumes d: "dropped ps x f r data k c d" "A_SIZE (nodes (c_fs d) ! r) = int m" and tss: "list_all (list_all token_ok) tss"
    and f: "f \<noteq> []" "\<not> starts_with f ''honeyfs''" and n: "list_all normal_name ps" "normal_name x" "x \<notin> {''>'', ''>>''}"
  shows "dropped ps x f r (data @ concat (map (map token_byte) tss)) (k + length tss) c (fold (echo_to e u ''>>'' x) tss d) \<and>
    A_SIZE (nodes (c_fs (fold (echo_to e u ''>>'' x) tss d)) ! r) = int (last (m # map length tss))"
  using d tss
proof (induction tss arbitrary: d data k m)
  case (Cons ts tss)
  have "list_all token_ok ts" using Cons.prems by simp
  from next_drop [OF Cons.prems(1) this f n, of e u]
  have "dropped ps x f r (data @ map token_byte ts) (Suc k) c (echo_to e u ''>>'' x ts d)"
    "A_SIZE (nodes (c_fs (echo_to e u ''>>'' x ts d)) ! r) = int (length ts)" by simp_all
  from Cons.IH [OF this] Cons.prems(3) show ?case by simp
qed simp

section \<open>Property\<close>

text \<open>C9: The usual way to bring a program into a machine without a download, \<open>echo -ne '\x7f\x45..'\<close> into a file and
  more of it with \<open>>>\<close>, in bytes of one or two digits after one or two backslashes: each call ends once, the
  session sees nothing of it, reading the file back gives exactly the bytes spelled, whatever they are, and
  it is on record as an artifact. But a listing shows only the size of what came last.\<close>

theorem spelled_file_dropped:
  assumes "can_redirect e ps x c" and "tmp_fname e (abs_path (ps @ [x])) = f" and "f \<noteq> []" and "\<not> starts_with f ''honeyfs''"
    and "list_all (list_all token_ok) (ts # tss)"
  shows "let d = fold (echo_to e u ''>>'' x) tss (echo_to e u ''>'' x ts c) in
    cmd_file_contents e (abs_path (ps @ [x])) d = (Inr (Some (concat (map (map token_byte) (ts # tss)))), d) \<and>
    sent d = sent c \<and> exits d = exits c + Suc (length tss) \<and> (f, abs_path (ps @ [x])) \<in> redir_files d \<and>
    (case stat_path 0 (abs_path (ps @ [x])) (c_fs d) of
       (Inr st, _) \<Rightarrow> st_size st = int (length (last (ts # tss))) | (Inl z, _) \<Rightarrow> False)"
proof -
  have n: "list_all normal_name ps" "normal_name x" "x \<notin> {''>'', ''>>''}" using assms(1) by (simp_all add: can_redirect_def)
  obtain r where r: "dropped ps x f r (map token_byte ts) 1 c (echo_to e u ''>'' x ts c)"
      "A_SIZE (nodes (c_fs (echo_to e u ''>'' x ts c)) ! r) = int (length ts)"
    using first_drop [OF assms(1) _ assms(2) [symmetric] assms(3), of ts u] assms(5) by auto
  define d where "d = fold (echo_to e u ''>>'' x) tss (echo_to e u ''>'' x ts c)"
  have d: "dropped ps x f r (map token_byte ts @ concat (map (map token_byte) tss)) (Suc (length tss)) c d"
    "A_SIZE (nodes (c_fs d) ! r) = int (last (length ts # map length tss))"
    using all_drops [OF r _ assms(3,4) n] assms(5) by (simp_all add: d_def)
  have h: "holds_file (ps @ [x]) f r (concat (map (map token_byte) (ts # tss))) d" using d(1) by (simp add: dropped_def)
  have l: "last (length ts # map length tss) = length (last (ts # tss))" by (simp add: last_map)
  have "abs_path (ps @ [x]) \<noteq> [slash]"
    using n(2) by (simp add: abs_path_snoc) (simp add: abs_path_def normal_name_def file_name_def)
  moreover have "list_all normal_name (ps @ [x])" using n by simp
  moreover note holds_getfile [OF h]
  ultimately show ?thesis
    using h d l assms(3)
    by (simp add: Let_def d_def [symmetric] dropped_def stat_path_def stat_of_def cmd_file_contents_def file_contents_def resolve_abs
        exists_path_def on_fs_def holds_file_def read_host_def)
qed


theorem spelled_file_dropped_witness:
  "cmd_file_contents ex_env ''/tmp/x.sh'' (fold (echo_to ex_env ex_user ''>>'' ''x.sh'') [[Hex False ''4C'', Hex False ''1'']]
     (echo_to ex_env ex_user ''>'' ''x.sh'' [Hex False ''7f'', Hex True ''45''] ex_session)) =
   (Inr (Some [CHR 0x7F, CHR ''E'', CHR ''L'', CHR 0x01]), fold (echo_to ex_env ex_user ''>>'' ''x.sh'') [[Hex False ''4C'', Hex False ''1'']]
     (echo_to ex_env ex_user ''>'' ''x.sh'' [Hex False ''7f'', Hex True ''45''] ex_session))"
proof -
  have p: "abs_path ([''tmp''] @ [''x.sh'']) = ''/tmp/x.sh''" by code_simp
  have ok: "list_all (list_all token_ok) [[Hex False ''7f'', Hex True ''45''], [Hex False ''4C'', Hex False ''1'']]"
    "concat (map (map token_byte) [[Hex False ''7f'', Hex True ''45''], [Hex False ''4C'', Hex False ''1'']]) =
      [CHR 0x7F, CHR ''E'', CHR ''L'', CHR 0x01]" by code_simp+
  have s: "ex_session\<lparr>c_args := []\<rparr> = ex_session" by (simp add: ex_session_def)
  have "tmp_fname ex_env (abs_path ([''tmp''] @ [''x.sh''])) = ''redir''" "\<not> starts_with ''redir'' ''honeyfs''"
    by (simp_all add: ex_env_def starts_with_def)
  from spelled_file_dropped [OF ex_can_redirect [of "[]", unfolded s] this(1) _ this(2) ok(1), of ex_user] show ?thesis
    by (simp only: Let_def p ok(2) simp_thms list.distinct)
qed

end
