(* ===== verification/UserDb.thy ===== *)
theory UserDb
  imports Bytes HoneyFS
begin

text \<open>
  The users and groups of the emulated machine (\<open>cowrie/shell/pwd.py\<close>), and which of them a login becomes
  (\<open>CowrieUser\<close> of \<open>shell/avatar.py\<close> for SSH, \<open>HoneyPotTelnetSession\<close> of \<open>telnet/session.py\<close>). The files are
  given as text with their line ends translated, as Python reads them. Last, the session of an SSH login
  (\<open>shell/session.py\<close>), which makes a new user's home.
\<close>

record pw =
  pw_name :: string
  pw_passwd :: string
  pw_uid :: int
  pw_gid :: int
  pw_gecos :: "string option"
  pw_dir :: string
  pw_shell :: string

record gr =
  gr_name :: string
  gr_gid :: int
  gr_mem :: string

section \<open>Loading\<close>

definition number_or_1001 :: "string \<Rightarrow> int" where
  "number_or_1001 s = (case py_int s of Inr n \<Rightarrow> n | Inl x \<Rightarrow> 1001)"

text \<open>Lines that are skipped, and those of other than seven fields.\<close>

definition skipped :: "string \<Rightarrow> bool" where
  "skipped line \<longleftrightarrow> line = [] \<or> starts_with line ''#''"

definition passwd_line :: "string \<Rightarrow> pw option" where
  "passwd_line line = (case split_str '':'' line of
       [name, passwd, uid, gid, gecos, dir, shell] \<Rightarrow> Some \<lparr>pw_name = name, pw_passwd = passwd, pw_uid = number_or_1001 uid,
         pw_gid = number_or_1001 gid, pw_gecos = Some gecos, pw_dir = dir, pw_shell = shell\<rparr>
     | _ \<Rightarrow> None)"

fun load_lines :: "string list \<Rightarrow> pw list" where
  "load_lines [] = []"
| "load_lines (rawline # lines) = (let line = strip_space rawline in
     if skipped line then load_lines lines
     else case passwd_line line of None \<Rightarrow> load_lines lines | Some e \<Rightarrow> e # load_lines lines)"

definition Passwd_load :: "string \<Rightarrow> pw list" where
  "Passwd_load contents = load_lines (split_str [CHR 0x0A] contents)"

fun load_groups :: "string list \<Rightarrow> gr list res" where
  "load_groups [] = Inr []"
| "load_groups (rawline # lines) = (let line = strip_space rawline in
     if skipped line then load_groups lines
     else case split_str '':'' line of
       [name, passwd, gid, mem] \<Rightarrow> bind_res (load_groups lines) (\<lambda>gs. Inr (\<lparr>gr_name = name, gr_gid = number_or_1001 gid, gr_mem = mem\<rparr> # gs))
     | _ \<Rightarrow> Inl ValueError)"

definition Group_load :: "string \<Rightarrow> gr list res" where
  "Group_load contents = load_groups (split_str [CHR 0x0A] contents)"

section \<open>Looking up\<close>

definition found :: "string \<Rightarrow> 'a option \<Rightarrow> 'a res" where
  "found message v = (case v of Some e \<Rightarrow> Inr e | None \<Rightarrow> Inl (KeyError message))"

definition getpwnam :: "pw list \<Rightarrow> string \<Rightarrow> pw res" where
  "getpwnam db name = found (''getpwnam(): name not found in passwd file: '' @ name) (find (\<lambda>e. name = pw_name e) db)"

definition getpwuid :: "pw list \<Rightarrow> int \<Rightarrow> pw res" where
  "getpwuid db uid = found (''getpwuid(): uid not found in passwd file: '' @ str_int uid) (find (\<lambda>e. uid = pw_uid e) db)"

definition getgrnam :: "gr list \<Rightarrow> string \<Rightarrow> gr res" where
  "getgrnam db name = found (''getgrnam(): name not found in group file: '' @ name) (find (\<lambda>e. name = gr_name e) db)"

definition getgrgid :: "gr list \<Rightarrow> int \<Rightarrow> gr res" where
  "getgrgid db uid = found (''getgruid(): uid not found in group file: '' @ str_int uid) (find (\<lambda>e. uid = gr_gid e) db)"

section \<open>New users\<close>

text \<open>\<open>crc32\<close> of the standard library, a bit at a time.\<close>

definition crc_bit :: "32 word \<Rightarrow> 32 word" where
  "crc_bit c = (if bit c 0 then xor (drop_bit 1 c) 0xEDB88320 else drop_bit 1 c)"

definition crc_byte :: "32 word \<Rightarrow> char \<Rightarrow> 32 word" where
  "crc_byte c b = (crc_bit ^^ 8) (xor c (of_nat (of_char b)))"

definition crc32 :: "string \<Rightarrow> 32 word" where
  "crc32 s = not (foldl crc_byte (not 0) s)"

text \<open>\<open>randint(1500, 10000)\<close> after \<open>seed\<close> is a function of the seed, which is a parameter.\<close>

definition setpwentry :: "(nat \<Rightarrow> int) \<Rightarrow> string \<Rightarrow> pw list \<Rightarrow> pw \<times> pw list" where
  "setpwentry randint name db = (let n = randint (unat (crc32 name));
       e = \<lparr>pw_name = name, pw_passwd = ''x'', pw_uid = n, pw_gid = n, pw_gecos = None, pw_dir = ''/home/'' @ name, pw_shell = ''/bin/bash''\<rparr> in
     (e, db @ [e]))"

section \<open>Who a login becomes\<close>

record user =
  us_username :: string
  us_uid :: int
  us_gid :: int
  us_home :: string
  us_temporary :: bool
  us_environ :: "(string \<times> string) list"

definition CowrieUser :: "(nat \<Rightarrow> int) \<Rightarrow> string \<Rightarrow> string \<Rightarrow> user res" where
  "CowrieUser randint contents username = bind_res (py_decode username) (\<lambda>name.
     let (e, temporary) = (case getpwnam (Passwd_load contents) name of
         Inr e \<Rightarrow> (e, False) | Inl x \<Rightarrow> (fst (setpwentry randint name (Passwd_load contents)), True)) in
     Inr \<lparr>us_username = name, us_uid = pw_uid e, us_gid = pw_gid e, us_home = pw_dir e, us_temporary = temporary, us_environ = []\<rparr>)"

definition search_path :: "int \<Rightarrow> string" where
  "search_path uid = (if uid = 0 then ''/usr/local/sbin:/usr/local/bin:/usr/sbin:/usr/bin:/sbin:/bin''
     else ''/usr/local/bin:/usr/bin:/bin:/usr/local/games:/usr/games'')"

definition HoneyPotTelnetSession :: "string \<Rightarrow> string \<Rightarrow> user res" where
  "HoneyPotTelnetSession contents username = bind_res (py_decode username) (\<lambda>name.
     let (uid, gid, home) = (case getpwnam (Passwd_load contents) name of
         Inr e \<Rightarrow> (pw_uid e, pw_gid e, pw_dir e) | Inl x \<Rightarrow> (1001, 1001, ''/home'')) in
     Inr \<lparr>us_username = name, us_uid = uid, us_gid = gid, us_home = home, us_temporary = False,
       us_environ = [(''LOGNAME'', name), (''USER'', name), (''SHELL'', ''/bin/bash''), (''HOME'', home), (''TMOUT'', ''1800''),
         (''PATH'', search_path uid)]\<rparr>)"

text \<open>The mode of the new directory is the decimal 755, which has no type of file in it.\<close>

definition SSHSessionForCowrieUser :: "int \<Rightarrow> user \<Rightarrow> user fs_py" where
  "SSHSessionForCowrieUser now avatar =
     py_bind (if us_temporary avatar then mkdir (us_home avatar) (us_uid avatar) (us_gid avatar) 4096 755 now else py_return ()) (\<lambda>_.
     py_return (avatar\<lparr>us_environ := [(''LOGNAME'', us_username avatar), (''SHELL'', ''/bin/bash''), (''USER'', us_username avatar),
       (''HOME'', us_home avatar), (''TMOUT'', ''1800''), (''PATH'', search_path (us_uid avatar))]\<rparr>))"

definition getPty :: "string \<Rightarrow> user \<Rightarrow> user res" where
  "getPty terminal u = bind_res (py_decode terminal) (\<lambda>t. Inr (u\<lparr>us_environ := AList.update ''TERM'' t (us_environ u)\<rparr>))"

section \<open>Reading what is written\<close>

datatype db_line = Entry pw | Noise string

definition entry_fields :: "pw \<Rightarrow> string list" where
  "entry_fields e = [pw_name e, pw_passwd e, str_int (pw_uid e), str_int (pw_gid e), (case pw_gecos e of None \<Rightarrow> [] | Some g \<Rightarrow> g),
     pw_dir e, pw_shell e]"

fun line_text :: "db_line \<Rightarrow> string" where
  "line_text (Entry e) = join '':'' (entry_fields e)"
| "line_text (Noise w) = w"

fun line_entry :: "db_line \<Rightarrow> pw list" where
  "line_entry (Entry e) = [e]"
| "line_entry (Noise w) = []"

definition newline :: char where
  "newline = CHR 0x0A"

definition unspaced :: "string \<Rightarrow> bool" where
  "unspaced s \<longleftrightarrow> hd s \<notin> hd ` set py_spaces \<and> last s \<notin> last ` set py_spaces"

fun line_ok :: "db_line \<Rightarrow> bool" where
  "line_ok (Entry e) = (list_all (\<lambda>f. CHR '':'' \<notin> set f \<and> newline \<notin> set f) (entry_fields e) \<and> 0 \<le> pw_uid e \<and> 0 \<le> pw_gid e \<and>
     pw_gecos e \<noteq> None \<and> unspaced (line_text (Entry e)) \<and> \<not> starts_with (line_text (Entry e)) ''#'')"
| "line_ok (Noise w) = (skipped (strip_space w) \<and> newline \<notin> set w)"

definition db_text :: "db_line list \<Rightarrow> string" where
  "db_text ls = join [newline] (map line_text ls)"

definition db_entries :: "db_line list \<Rightarrow> pw list" where
  "db_entries ls = concat (map line_entry ls)"

lemma number_back: "0 \<le> i \<Longrightarrow> number_or_1001 (str_int i) = i"
  by (simp add: number_or_1001_def str_int_def py_int_str_nat)

lemma entry_line:
  assumes "line_ok (Entry e)"
  shows "passwd_line (line_text (Entry e)) = Some e"
proof -
  have "split_str '':'' (join '':'' (entry_fields e)) = entry_fields e"
    using assms by (intro split_str_join) (auto simp: list_all_iff entry_fields_def)
  then show ?thesis using assms by (cases e) (auto simp: passwd_line_def entry_fields_def number_back)
qed

lemma join_chars: "x \<in> set (join sep ws) \<Longrightarrow> x \<in> set sep \<or> (\<exists>w \<in> set ws. x \<in> set w)"
  by (induction sep ws rule: join.induct) auto

lemma line_plain:
  assumes "line_ok l"
  shows "newline \<notin> set (line_text l)"
proof (cases l)
  case (Entry e)
  then show ?thesis using assms join_chars [of newline "'':''" "entry_fields e"] by (auto simp: list_all_iff newline_def)
next
  case (Noise w)
  then show ?thesis using assms by simp
qed

lemma load_lines_entries: "list_all line_ok ls \<Longrightarrow> load_lines (map line_text ls) = db_entries ls"
proof (induction ls)
  case (Cons l ls)
  show ?case
  proof (cases l)
    case (Noise w)
    with Cons show ?thesis by (simp add: db_entries_def)
  next
    case (Entry e)
    then have "unspaced (line_text l)" "\<not> starts_with (line_text l) ''#''" using Cons.prems by auto
    then have "strip_space (line_text l) = line_text l" "\<not> skipped (line_text l)"
      by (auto simp: unspaced_def skipped_def Entry entry_fields_def join_Cons intro: strip_space_id)
    with Cons entry_line [of e] Entry show ?thesis by (simp add: db_entries_def del: line_text.simps)
  qed
qed (simp add: db_entries_def)

lemma loads_printed:
  assumes "list_all line_ok ls"
  shows "Passwd_load (db_text ls) = db_entries ls"
proof (cases "ls = []")
  case True
  have "skipped (strip_space [])" by code_simp
  with True show ?thesis by (simp add: Passwd_load_def db_text_def db_entries_def)
next
  case False
  then have "split_str [newline] (join [newline] (map line_text ls)) = map line_text ls"
    using assms line_plain by (intro split_str_join) (auto simp: list_all_iff)
  then show ?thesis using load_lines_entries [OF assms] by (simp add: Passwd_load_def db_text_def newline_def)
qed

text \<open>C21: A password file of entries, comments and blank lines is read back as these entries, in order. A login whose name is in
  it becomes the first entry with that name, over SSH and telnet alike; one whose name is not gets, over SSH,
  a number that depends on nothing but the name, and a home of its own, but over telnet always 1001 and \<open>/home\<close>.\<close>

theorem logins_become:
  assumes "list_all line_ok ls" and "ascii name"
  shows "Passwd_load (db_text ls) = db_entries ls \<and>
    (case find (\<lambda>e. name = pw_name e) (db_entries ls) of
       Some e \<Rightarrow> CowrieUser randint (db_text ls) name = Inr \<lparr>us_username = name, us_uid = pw_uid e, us_gid = pw_gid e,
            us_home = pw_dir e, us_temporary = False, us_environ = []\<rparr> \<and>
          (\<exists>u. HoneyPotTelnetSession (db_text ls) name = Inr u \<and> us_uid u = pw_uid e \<and> us_gid u = pw_gid e \<and> us_home u = pw_dir e)
     | None \<Rightarrow> CowrieUser randint (db_text ls) name = Inr \<lparr>us_username = name, us_uid = randint (unat (crc32 name)),
            us_gid = randint (unat (crc32 name)), us_home = ''/home/'' @ name, us_temporary = True, us_environ = []\<rparr> \<and>
          (\<exists>u. HoneyPotTelnetSession (db_text ls) name = Inr u \<and> us_uid u = 1001 \<and> us_gid u = 1001 \<and> us_home u = ''/home''))"
  using assms(2)
  by (cases "find (\<lambda>e. name = pw_name e) (db_entries ls)")
    (simp_all add: loads_printed [OF assms(1)] CowrieUser_def HoneyPotTelnetSession_def py_decode_ascii getpwnam_def found_def setpwentry_def Let_def)

text \<open>A file of two entries and a comment: a user of it, and one who is not.\<close>

definition ex_pw :: "string \<Rightarrow> int \<Rightarrow> string \<Rightarrow> pw" where
  "ex_pw name uid dir = \<lparr>pw_name = name, pw_passwd = ''x'', pw_uid = uid, pw_gid = uid, pw_gecos = Some [], pw_dir = dir, pw_shell = ''/bin/sh''\<rparr>"

theorem logins_become_witness:
  "let ls = [Entry (ex_pw ''root'' 0 ''/root''), Noise ''# users'', Entry (ex_pw ''bin'' 2 ''/bin'')] in
    length (Passwd_load (db_text ls)) = 2 \<and>
    CowrieUser (\<lambda>seed. 1500 + int seed mod 8501) (db_text ls) ''bin'' = Inr \<lparr>us_username = ''bin'', us_uid = 2, us_gid = 2, us_home = ''/bin'',
      us_temporary = False, us_environ = []\<rparr>"
proof -
  let ?ls = "[Entry (ex_pw ''root'' 0 ''/root''), Noise ''# users'', Entry (ex_pw ''bin'' 2 ''/bin'')]"
  have "list_all line_ok ?ls" "ascii ''bin''" by code_simp+
  from logins_become [OF this, of "\<lambda>seed. 1500 + int seed mod 8501"] show ?thesis
    by (simp add: db_entries_def ex_pw_def)
qed

end
