(* ===== verification/Ls.thy ===== *)
theory Ls
  imports TextCommands UserDb "HOL-Library.List_Lexorder" "HOL-Library.Char_ord"
begin

text \<open>
  The listing of directories (\<open>cowrie/commands/ls.py\<close>), plain in columns and long with modes, owners and sizes.
\<close>

record ls_env =
  wincols :: "nat option"
  show_time :: "int \<Rightarrow> string"
  ls_passwd :: string
  ls_group :: string

section \<open>Names of owners\<close>

text \<open>Any exception makes it the number.\<close>

definition uid2name :: "ls_env \<Rightarrow> int \<Rightarrow> string" where
  "uid2name v uid = (case getpwuid (Passwd_load (ls_passwd v)) uid of Inr e \<Rightarrow> pw_name e | Inl x \<Rightarrow> str_int uid)"

definition gid2name :: "ls_env \<Rightarrow> int \<Rightarrow> string" where
  "gid2name v gid = (case bind_res (Group_load (ls_group v)) (\<lambda>gs. getgrgid gs gid) of Inr e \<Rightarrow> gr_name e | Inl x \<Rightarrow> str_int gid)"

section \<open>The files of a directory\<close>

definition type_number :: "ftype \<Rightarrow> int" where
  "type_number t = (case t of T_LINK \<Rightarrow> 0 | T_DIR \<Rightarrow> 1 | T_FILE \<Rightarrow> 2 | T_BLK \<Rightarrow> 3 | T_CHR \<Rightarrow> 4 | T_SOCK \<Rightarrow> 5 | T_FIFO \<Rightarrow> 6)"

text \<open>
  Nodes are lists, which are sorted by their name and then their other fields. Entries of one directory that
  agree in all of these would be compared by their contents, here they keep their order.
\<close>

definition sort_files :: "fsnode list \<Rightarrow> fsnode list" where
  "sort_files files = sort_key A_NAME (sort_key (\<lambda>n. [type_number (A_TYPE n), A_UID n, A_GID n, A_SIZE n, A_MODE n, A_CTIME n]) files)"

definition node_copy :: "string \<Rightarrow> fsnode fs_py" where
  "node_copy path = py_bind (fs_getfile True path) (\<lambda>f. case f of None \<Rightarrow> py_raise TypeError | Some r \<Rightarrow> fs_node r)"

definition hidden :: "fsnode \<Rightarrow> bool" where
  "hidden n \<longleftrightarrow> starts_with (A_NAME n) ''.''"

definition dir_files :: "bool \<Rightarrow> bool \<Rightarrow> string \<Rightarrow> fsnode list fs_py" where
  "dir_files showHidden showDirectories path = py_bind (isdir path) (\<lambda>d.
     if d \<and> \<not> showDirectories then
       py_bind (fs_get_path path) (\<lambda>r. py_bind py_get (\<lambda>s.
       let files = map ((!) (nodes s)) (A_CONTENTS (nodes s ! r)) in
       if showHidden then
         py_bind (node_copy path) (\<lambda>dot. py_bind (node_copy (dirname path)) (\<lambda>dotdot.
         py_return (sort_files (files @ [dot\<lparr>A_NAME := ''.''\<rparr>, dotdot\<lparr>A_NAME := ''..''\<rparr>]))))
       else py_return (sort_files (filter (\<lambda>n. \<not> hidden n) files))))
     else py_bind (node_copy path) (\<lambda>n. py_return [n]))"

definition get_dir_files :: "bool \<Rightarrow> bool \<Rightarrow> string \<Rightarrow> fsnode list cmd_py" where
  "get_dir_files showHidden showDirectories path = py_except (on_fs (dir_files showHidden showDirectories path))
     (\<lambda>x. Some (py_bind (cmd_write (''ls: cannot access '' @ path @ '': No such file or directory'' @ nl)) (\<lambda>_. py_return [])))"

section \<open>Columns\<close>

text \<open>Widths count characters, not bytes.\<close>

definition ljust :: "nat \<Rightarrow> string \<Rightarrow> string" where
  "ljust n s = s @ replicate (n - py_len s) (CHR '' '')"

definition rjust :: "nat \<Rightarrow> string \<Rightarrow> string" where
  "rjust n s = replicate (n - py_len s) (CHR '' '') @ s"

definition widest :: "string list \<Rightarrow> nat" where
  "widest ss = foldr max (map py_len ss) 0"

fun ls_cells :: "nat \<Rightarrow> nat \<Rightarrow> nat \<Rightarrow> string list \<Rightarrow> unit cmd_py" where
  "ls_cells perline width count [] = py_return ()"
| "ls_cells perline width count (f # fs) =
     py_bind (if count = perline then cmd_write nl else py_return ()) (\<lambda>_.
     py_bind (cmd_write (ljust width f)) (\<lambda>_.
     ls_cells perline width (if count = perline then 1 else count + 1) fs))"

definition do_ls_normal :: "ls_env \<Rightarrow> bool \<Rightarrow> bool \<Rightarrow> string \<Rightarrow> unit cmd_py" where
  "do_ls_normal v showHidden showDirectories path = py_bind (get_dir_files showHidden showDirectories path) (\<lambda>files.
     if files = [] then py_return () else
     let line = map A_NAME files; width = widest line + 1; cols = (case wincols v of Some n \<Rightarrow> n | None \<Rightarrow> 80) in
     py_bind (ls_cells (cols div width) width 0 line) (\<lambda>_. cmd_write nl))"

section \<open>Long lines\<close>

definition has_bit :: "int \<Rightarrow> int \<Rightarrow> bool" where
  "has_bit mode b \<longleftrightarrow> mode AND b \<noteq> 0"

definition letter_if :: "int \<Rightarrow> int \<Rightarrow> char \<Rightarrow> char" where
  "letter_if mode b c = (if has_bit mode b then c else CHR ''-'')"

text \<open>The place of a right to execute also shows a special bit, in lower case if both are set.\<close>

definition exec_letter :: "int \<Rightarrow> int \<Rightarrow> int \<Rightarrow> char \<Rightarrow> char \<Rightarrow> char" where
  "exec_letter mode x special both only =
     (if has_bit mode x \<and> has_bit mode special then both else if has_bit mode special then only else letter_if mode x (CHR ''x''))"

definition perms :: "fsnode \<Rightarrow> string" where
  "perms n = (let m = A_MODE n in
     [if A_TYPE n = T_DIR then CHR ''d'' else if A_TYPE n = T_LINK then CHR ''l'' else CHR ''-'',
      letter_if m 0x100 (CHR ''r''), letter_if m 0x80 (CHR ''w''), exec_letter m 0x40 0x800 (CHR ''s'') (CHR ''S''),
      letter_if m 0x20 (CHR ''r''), letter_if m 0x10 (CHR ''w''), exec_letter m 0x8 0x400 (CHR ''s'') (CHR ''S''),
      letter_if m 0x4 (CHR ''r''), letter_if m 0x2 (CHR ''w''), exec_letter m 0x1 0x200 (CHR ''t'') (CHR ''T'')])"

definition link_target :: "fsnode \<Rightarrow> string" where
  "link_target n = (if A_TYPE n = T_LINK then '' -> '' @ (case A_TARGET n of Some t \<Rightarrow> t | None \<Rightarrow> ''None'') else [])"

definition long_line :: "ls_env \<Rightarrow> fsnode list \<Rightarrow> fsnode \<Rightarrow> string" where
  "long_line v files n = perms n @ '' 1 '' @ ljust (widest (map (\<lambda>x. uid2name v (A_UID x)) files)) (uid2name v (A_UID n)) @ '' '' @
     ljust (widest (map (\<lambda>x. gid2name v (A_GID x)) files)) (gid2name v (A_GID n)) @ '' '' @
     rjust (widest (map (\<lambda>x. str_int (A_SIZE x)) files)) (str_int (A_SIZE n)) @ '' '' @
     show_time v (A_CTIME n) @ '' '' @ A_NAME n @ link_target n"

fun write_lines :: "string list \<Rightarrow> unit cmd_py" where
  "write_lines [] = py_return ()"
| "write_lines (l # ls) = py_bind (cmd_write (l @ nl)) (\<lambda>_. write_lines ls)"

definition do_ls_l :: "ls_env \<Rightarrow> bool \<Rightarrow> bool \<Rightarrow> string \<Rightarrow> unit cmd_py" where
  "do_ls_l v showHidden showDirectories path = py_bind (get_dir_files showHidden showDirectories path) (\<lambda>files.
     write_lines (map (long_line v files) (filter (\<lambda>n. \<not> (hidden n \<and> \<not> showHidden)) files)))"

section \<open>The command\<close>

definition LS_OPTIONS :: string where
  "LS_OPTIONS = ''1@ABCFGHLOPRSTUWabcdefghiklmnopqrstuvwx''"

definition LS_LONG :: "string list" where
  "LS_LONG = [''help'', ''version'', ''param'']"

text \<open>What the library says of the first argument that is wrong; none of the options takes an argument.\<close>

definition long_error :: "string \<Rightarrow> string" where
  "long_error a = (let (name, explicit) = (case split_once (CHR ''='') a of None \<Rightarrow> (a, False) | Some (n, w) \<Rightarrow> (n, True)) in
     case filter (\<lambda>l. starts_with l name) LS_LONG of
       [] \<Rightarrow> ''option --'' @ name @ '' not recognized''
     | l # ls \<Rightarrow> if ls \<noteq> [] then ''option --'' @ name @ '' not a unique prefix'' else ''option --'' @ l @ '' must not have an argument'')"

fun getopt_error :: "string list \<Rightarrow> string" where
  "getopt_error [] = []"
| "getopt_error (a # as) =
     (if a = ''--'' then []
      else if \<not> starts_with a ''-'' \<or> a = ''-'' then getopt_error as
      else if starts_with a ''--'' then (case do_longs [] (drop 2 a) LS_LONG [] of Inl x \<Rightarrow> long_error (drop 2 a) | Inr r \<Rightarrow> getopt_error as)
      else case do_shorts [] (drop 1 a) LS_OPTIONS [] of Inl opt \<Rightarrow> ''option -'' @ opt @ '' not recognized'' | Inr r \<Rightarrow> getopt_error as)"

fun resolve_all :: "string list \<Rightarrow> string \<Rightarrow> string list res" where
  "resolve_all [] cwd = Inr []"
| "resolve_all (a # as) cwd = bind_res (resolve_path a cwd) (\<lambda>p. bind_res (resolve_all as cwd) (\<lambda>ps. Inr (p # ps)))"

definition ls_call :: "ls_env \<Rightarrow> unit cmd_py" where
  "ls_call v = py_bind py_get (\<lambda>c. case gnu_getopt (c_args c) LS_OPTIONS LS_LONG of
       Inl opt \<Rightarrow> py_bind (cmd_write (''ls: '' @ getopt_error (c_args c) @ nl)) (\<lambda>_.
         cmd_write (''Try '' @ [CHR 0x27] @ ''ls --help'' @ [CHR 0x27] @ '' for more information.'' @ nl))
     | Inr (opts, args) \<Rightarrow>
         let given = (\<lambda>x. x \<in> fst ` set opts); list_one = (if given ''-l'' then do_ls_l else do_ls_normal) in
         py_bind (py_lift (resolve_all args (c_cwd c))) (\<lambda>paths.
         foldr (\<lambda>p rest. py_bind (list_one v (given ''-a'') (given ''-d'') p) (\<lambda>_. rest))
           (if paths = [] then [c_cwd c] else paths) (py_return ())))"

definition ls_start :: "ls_env \<Rightarrow> unit cmd_py" where
  "ls_start v = cmd_start (ls_call v) (logged_exit ''ls'')"

end
