(* ===== verification/LsProps.thy ===== *)
theory LsProps
  imports Ls FsErrors FsReading
begin

text \<open>
  What \<open>ls\<close> prints of a directory, and that the letters of the long form determine the mode.
\<close>

section \<open>Columns\<close>

text \<open>Words between blanks and line ends.\<close>

definition blank :: "char \<Rightarrow> bool" where
  "blank c \<longleftrightarrow> c = CHR 0x20 \<or> c = CHR 0x0A"

fun words_from :: "string \<Rightarrow> string \<Rightarrow> string list" where
  "words_from w [] = (if w = [] then [] else [w])"
| "words_from w (c # cs) = (if blank c then (if w = [] then [] else [w]) @ words_from [] cs else words_from (w @ [c]) cs)"

abbreviation words :: "string \<Rightarrow> string list" where
  "words \<equiv> words_from []"

definition plain_name :: "string \<Rightarrow> bool" where
  "plain_name f \<longleftrightarrow> f \<noteq> [] \<and> list_all (\<lambda>c. \<not> blank c) f"

lemma words_in: "list_all (\<lambda>c. \<not> blank c) f \<Longrightarrow> words_from w (f @ s) = words_from (w @ f) s"
  by (induction f arbitrary: w) auto

lemma words_blanks: "list_all blank gap \<Longrightarrow> words (gap @ s) = words s"
  by (induction gap) auto

lemma words_name: "plain_name f \<Longrightarrow> gap \<noteq> [] \<Longrightarrow> list_all blank gap \<Longrightarrow> words (f @ gap @ s) = f # words s"
  using words_blanks [of "tl gap" s] by (cases gap) (auto simp: plain_name_def words_in)

fun cells_text :: "nat \<Rightarrow> nat \<Rightarrow> nat \<Rightarrow> string list \<Rightarrow> string" where
  "cells_text perline width count [] = []"
| "cells_text perline width count (f # fs) = (if count = perline then nl else []) @ ljust width f @
     cells_text perline width (if count = perline then 1 else count + 1) fs"

lemma cells_printed:
  "sink c = ToPipe \<Longrightarrow> \<exists>d. ls_cells perline width count fs c = (Inr (), d) \<and>
     concat (sent_out d) = concat (sent_out c) @ cells_text perline width count fs \<and> exits d = exits c \<and> sink d = ToPipe \<and> c_fs d = c_fs c"
proof (induction fs arbitrary: count c)
  case (Cons f fs)
  define c1 where "c1 = snd ((if count = perline then cmd_write nl else py_return ()) c)"
  have c1: "(if count = perline then cmd_write nl else py_return ()) c = (Inr (), c1)" "sink c1 = ToPipe" "exits c1 = exits c" "c_fs c1 = c_fs c"
    "concat (sent_out c1) = concat (sent_out c) @ (if count = perline then nl else [])"
    using Cons.prems by (simp_all add: c1_def cmd_write_def buffer_def writefn_def sent_out_def)
  define c2 where "c2 = snd (cmd_write (ljust width f) c1)"
  have c2: "cmd_write (ljust width f) c1 = (Inr (), c2)" "sink c2 = ToPipe" "exits c2 = exits c1" "c_fs c2 = c_fs c1"
    "concat (sent_out c2) = concat (sent_out c1) @ ljust width f"
    using c1(2) by (simp_all add: c2_def cmd_write_def buffer_def writefn_def sent_out_def)
  obtain d where "ls_cells perline width (if count = perline then 1 else count + 1) fs c2 = (Inr (), d)" "sink d = ToPipe" "exits d = exits c2"
    "c_fs d = c_fs c2"
    "concat (sent_out d) = concat (sent_out c2) @ cells_text perline width (if count = perline then 1 else count + 1) fs"
    using Cons.IH [OF c2(2)] by blast
  with c1 c2 show ?case by (intro exI [of _ d]) simp
qed simp

lemma cell_words:
  assumes "\<forall>f \<in> set fs. plain_name f \<and> py_len f < width"
  shows "words (cells_text perline width count fs @ nl) = fs"
  using assms
proof (induction fs arbitrary: count)
  case Nil
  then show ?case by (simp add: nl_def blank_def)
next
  case (Cons f fs)
  let ?k = "if count = perline then 1 else count + 1"
  let ?sp = "replicate (width - py_len f) (CHR '' '')"
  have "?sp \<noteq> []" "list_all blank ?sp" using Cons.prems by (auto simp: blank_def list_all_iff)
  then have "words (f @ ?sp @ cells_text perline width ?k fs @ nl) = f # fs"
    using Cons by (subst words_name) simp_all
  moreover have "list_all blank (if count = perline then nl else [])" by (simp add: nl_def blank_def)
  ultimately show ?case using words_blanks by (simp add: ljust_def)
qed

text \<open>No line is longer than its cells.\<close>

lemma py_len_append: "py_len (s @ t) = py_len s + py_len t"
  by (simp add: py_len_def)

lemma py_len_blanks: "py_len (replicate n (CHR '' '')) = n"
  by (simp add: py_len_def)

lemma py_len_ljust: "py_len f \<le> width \<Longrightarrow> py_len (ljust width f) = width"
  by (simp add: ljust_def py_len_append py_len_blanks)

lemma split_after: "newline \<notin> set w \<Longrightarrow> split_str [newline] (w @ s) = (w @ hd (split_str [newline] s)) # tl (split_str [newline] s)"
  by (induction w) (auto simp: starts_with_def)

lemma cell_lines:
  assumes "\<forall>f \<in> set fs. newline \<notin> set f \<and> py_len f \<le> width" and "count \<le> perline" and "0 < perline"
  shows "py_len (hd (split_str [newline] (cells_text perline width count fs @ nl))) \<le> (perline - count) * width \<and>
    (\<forall>l \<in> set (tl (split_str [newline] (cells_text perline width count fs @ nl))). py_len l \<le> perline * width)"
  using assms(1,2)
proof (induction fs arbitrary: count)
  case Nil
  have "split_str [newline] nl = [[], []]" by (simp add: nl_def newline_def starts_with_def)
  then show ?case by (simp add: py_len_def)
next
  case (Cons f fs)
  let ?k = "if count = perline then 1 else count + 1"
  let ?rest = "cells_text perline width ?k fs @ nl"
  have k: "?k \<le> perline" using Cons.prems assms(3) by auto
  have f: "newline \<notin> set (ljust width f)" "py_len (ljust width f) = width"
    using Cons.prems by (auto simp: ljust_def newline_def) (auto simp: ljust_def [symmetric] py_len_ljust)
  have "\<forall>g \<in> set fs. newline \<notin> set g \<and> py_len g \<le> width" using Cons.prems by simp
  note IH = Cons.IH [OF this k]
  have cell: "split_str [newline] (ljust width f @ ?rest) = (ljust width f @ hd (split_str [newline] ?rest)) # tl (split_str [newline] ?rest)"
    using f(1) by (rule split_after)
  show ?case
  proof (cases "count = perline")
    case True
    have "split_str [newline] (nl @ ljust width f @ ?rest) = [] # split_str [newline] (ljust width f @ ?rest)"
      by (simp add: nl_def newline_def starts_with_def)
    moreover have "width + (perline - 1) * width = perline * width" using assms(3) by (cases perline) simp_all
    ultimately show ?thesis using True IH cell f(2) by (auto simp: py_len_append) (simp_all add: py_len_def)
  next
    case False
    then have "width + (perline - ?k) * width = (perline - count) * width"
      using Cons.prems by (simp flip: mult_Suc add: Suc_diff_Suc)
    then show ?thesis using False IH cell f(2) by (auto simp: py_len_append)
  qed
qed

section \<open>The command\<close>

definition visible :: "cmd \<Rightarrow> nat \<Rightarrow> string list" where
  "visible c d = filter (\<lambda>x. \<not> starts_with x ''.'') (map (\<lambda>r. A_NAME (nodes (c_fs c) ! r)) (A_CONTENTS (nodes (c_fs c) ! d)))"

lemma map_insort: "map f (insort_key f x ys) = insort (f x) (map f ys)"
  by (induction ys) auto

lemma map_sort: "map f (sort_key f xs) = sort (map f xs)"
  by (induction xs) (simp_all add: map_insort)

lemma sort_insort: "sort (map f (insort_key g x ys)) = insort (f x) (sort (map f ys))"
  by (induction ys) (simp_all add: insort_left_comm)

lemma sort_any_order: "sort (map f (sort_key g xs)) = sort (map f xs)"
  by (induction xs) (simp_all add: sort_insort)

lemma names_sorted: "map A_NAME (sort_files files) = sort (map A_NAME files)"
  by (simp add: sort_files_def map_sort sort_any_order)

lemma directory_read:
  assumes "chain (nodes (c_fs c)) 0 ps vs d" and "0 < frames (c_fs c)" and "A_TYPE (nodes (c_fs c) ! d) = T_DIR"
  shows "\<exists>files. get_dir_files False False (abs_path ps) c = (Inr files, c) \<and> map A_NAME files = sort (visible c d)"
proof -
  have "getfile (frames (c_fs c)) (nodes (c_fs c)) True (abs_path ps) = Inr (Some d)" using assms(1,2) by (rule getfile_chain)
  then have "isdir (abs_path ps) (c_fs c) = (Inr True, c_fs c)" using assms(3) by (simp add: isdir_def)
  moreover have "get_path (frames (c_fs c)) (nodes (c_fs c)) True (abs_path ps) = Inr d" using assms(1) by (rule get_path_abs)
  ultimately have "dir_files False False (abs_path ps) (c_fs c) =
      (Inr (sort_files (filter (\<lambda>n. \<not> hidden n) (map ((!) (nodes (c_fs c))) (A_CONTENTS (nodes (c_fs c) ! d))))), c_fs c)"
    by (simp add: dir_files_def Let_def)
  moreover have "map A_NAME (filter (\<lambda>n. \<not> hidden n) (map ((!) (nodes (c_fs c))) (A_CONTENTS (nodes (c_fs c) ! d)))) = visible c d"
    by (simp add: visible_def hidden_def filter_map o_def)
  ultimately show ?thesis by (simp add: get_dir_files_def on_fs_def py_except_def names_sorted)
qed

lemma widest_bound: "f \<in> set fs \<Longrightarrow> py_len f \<le> widest fs"
  by (induction fs) (auto simp: widest_def)

lemma widest_le: "widest fs \<le> n \<longleftrightarrow> (\<forall>f \<in> set fs. py_len f \<le> n)"
  by (induction fs) (auto simp: widest_def)

section \<open>Properties\<close>

text \<open>C28: Plain \<open>ls\<close> in a directory whose visible entries have names without blanks: whatever the width of the window, the
  words it prints are the names of exactly the entries that do not begin with a dot, each once, in order;
  if the widest fits, no line is wider than the window; the store is not changed and the command ends once.\<close>

theorem ls_names:
  assumes "chain (nodes (c_fs c)) 0 ps vs d" and "A_TYPE (nodes (c_fs c) ! d) = T_DIR" and "0 < frames (c_fs c)"
    and "c_cwd c = abs_path ps" and "c_args c = []" and "sink c = ToPipe" and "list_all plain_name (visible c d)"
  shows "case ls_start v c of
      (Inl z, t) \<Rightarrow> False
    | (Inr u, t) \<Rightarrow> exits t = exits c + 1 \<and> c_fs t = c_fs c \<and> (\<exists>shown. concat (sent_out t) = concat (sent_out c) @ shown \<and>
        words shown = sort (visible c d) \<and>
        (widest (visible c d) < (case wincols v of Some n \<Rightarrow> n | None \<Rightarrow> 80) \<longrightarrow>
          (\<forall>l \<in> set (split_str [newline] shown). py_len l \<le> (case wincols v of Some n \<Rightarrow> n | None \<Rightarrow> 80))))"
proof -
  let ?cols = "case wincols v of Some n \<Rightarrow> n | None \<Rightarrow> 80" and ?line = "sort (visible c d)"
  let ?width = "widest ?line + 1"
  obtain files where files: "get_dir_files False False (abs_path ps) c = (Inr files, c)" "map A_NAME files = ?line"
    using directory_read [OF assms(1,3,2)] by blast
  define shown where "shown = (if ?line = [] then [] else cells_text (?cols div ?width) ?width 0 ?line @ nl)"
  have "gnu_getopt [] LS_OPTIONS LS_LONG = Inr ([], [])" by (rule gnu_getopt_operands) simp
  then have call: "ls_call v c = do_ls_normal v False False (abs_path ps) c" using assms(4,5)
    by (simp add: ls_call_def Let_def split: prod.split sum.split)
  have "\<exists>e. ls_call v c = (Inr (), e) \<and> concat (sent_out e) = concat (sent_out c) @ shown \<and> exits e = exits c \<and> c_fs e = c_fs c"
  proof (cases "files = []")
    case True
    then have "?line = []" using files(2) by simp
    then show ?thesis using True files(1) by (simp add: call do_ls_normal_def shown_def)
  next
    case False
    then have ne: "?line \<noteq> []" using files(2) by auto
    obtain e where e: "ls_cells (?cols div ?width) ?width 0 ?line c = (Inr (), e)"
      "concat (sent_out e) = concat (sent_out c) @ cells_text (?cols div ?width) ?width 0 ?line" "exits e = exits c" "sink e = ToPipe" "c_fs e = c_fs c"
      using cells_printed [OF assms(6)] by blast
    have "do_ls_normal v False False (abs_path ps) c = py_bind (ls_cells (?cols div ?width) ?width 0 ?line) (\<lambda>_. cmd_write nl) c"
      using False files by (simp add: do_ls_normal_def Let_def)
    then show ?thesis using e ne by (simp add: call cmd_write_def buffer_def writefn_def sent_out_def shown_def)
  qed
  then obtain e where e: "ls_call v c = (Inr (), e)" "concat (sent_out e) = concat (sent_out c) @ shown" "exits e = exits c" "c_fs e = c_fs c" by blast
  obtain t where t: "logged_exit ''ls'' e = (Inr (), t)" "exits t = exits e + 1" "c_fs t = c_fs e" "sent_out t = sent_out e"
    using logged_exit_once [of "''ls''" e] by blast
  have w: "\<forall>f \<in> set ?line. py_len f < ?width" using widest_bound [of _ ?line] by (simp add: less_Suc_eq_le)
  have "plain_name f \<and> newline \<notin> set f" if "f \<in> set ?line" for f
    using assms(7) that by (auto simp: list_all_iff plain_name_def blank_def newline_def)
  with w have plain: "\<forall>f \<in> set ?line. plain_name f \<and> py_len f < ?width \<and> newline \<notin> set f" by simp
  then have "words shown = ?line" by (simp add: shown_def cell_words)
  moreover have "py_len l \<le> ?cols" if l: "l \<in> set (split_str [newline] shown)" and fits: "widest (visible c d) < ?cols" for l
  proof (cases "?line = []")
    case True
    then show ?thesis using l by (simp add: shown_def py_len_def)
  next
    case False
    have "widest ?line \<le> widest (visible c d)" using widest_bound by (auto simp: widest_le)
    then have n: "0 < ?cols div ?width" using fits by (simp add: div_greater_zero_iff)
    have "\<forall>f \<in> set ?line. newline \<notin> set f \<and> py_len f \<le> ?width" using plain by auto
    from cell_lines [OF this _ n, of 0] have b: "py_len (hd (split_str [newline] shown)) \<le> (?cols div ?width) * ?width"
      "\<forall>l \<in> set (tl (split_str [newline] shown)). py_len l \<le> (?cols div ?width) * ?width" using False by (simp_all add: shown_def)
    have "split_str [newline] shown = hd (split_str [newline] shown) # tl (split_str [newline] shown)" using split_str_not_Nil by (metis list.collapse)
    with l b have "py_len l \<le> (?cols div ?width) * ?width" by (metis set_ConsD)
    also have "\<dots> \<le> ?cols" by (rule div_times_less_eq_dividend)
    finally show ?thesis .
  qed
  ultimately show ?thesis using e t by (simp add: ls_start_def cmd_start_def)
qed

theorem ls_names_witness:
  "\<exists>shown. concat (sent_out (snd (ls_start \<lparr>wincols = Some 9, show_time = (\<lambda>t. []), ls_passwd = [], ls_group = []\<rparr>
      (ex_session\<lparr>c_cwd := ''/''\<rparr>)))) = shown \<and> words shown = [''etc'', ''tmp''] \<and> (\<forall>l \<in> set (split_str [newline] shown). py_len l \<le> 9)"
proof -
  let ?c = "ex_session\<lparr>c_cwd := ''/''\<rparr>" and ?v = "\<lparr>wincols = Some 9, show_time = (\<lambda>t. []), ls_passwd = [], ls_group = []\<rparr>"
  have v: "visible ?c 0 = [''tmp'', ''etc'']" by (simp add: visible_def ex_session_def ex_fs_simps starts_with_def)
  have w: "sort [''tmp'', ''etc''] = [''etc'', ''tmp'']" "widest [''tmp'', ''etc''] < 9" "list_all plain_name [''tmp'', ''etc'']" by code_simp+
  have c: "A_TYPE (nodes (c_fs ?c) ! 0) = T_DIR" "0 < frames (c_fs ?c)" "c_cwd ?c = abs_path []" "c_args ?c = []" "sink ?c = ToPipe" "sent_out ?c = []"
    by (simp_all add: ex_session_def ex_fs_simps abs_path_def slash_def sent_out_def)
  have p: "list_all plain_name (visible ?c 0)" using v w(3) by simp
  obtain r t where t: "ls_start ?v ?c = (r, t)" by fastforce
  from ls_names [OF chain.here c(1-5) p, of ?v] obtain shown where
    "concat (sent_out t) = shown" "words shown = [''etc'', ''tmp'']" "\<forall>l \<in> set (split_str [newline] shown). py_len l \<le> 9"
    using v w c(6) t by (cases r) auto
  then show ?thesis using t by simp
qed

text \<open>The letters of a long line determine the type and all twelve bits of the mode.\<close>

lemma exec_letter_bits:
  "exec_letter m x p b u = exec_letter n x p b u \<Longrightarrow> distinct [b, u, CHR ''x'', CHR ''-''] \<Longrightarrow> has_bit m x = has_bit n x \<and> has_bit m p = has_bit n p"
  by (auto simp: exec_letter_def letter_if_def split: if_splits)

lemma letter_bits: "letter_if m b c = letter_if n b c \<Longrightarrow> c \<noteq> CHR ''-'' \<Longrightarrow> has_bit m b = has_bit n b"
  by (auto simp: letter_if_def split: if_splits)

lemma perms_determine_mode:
  assumes "perms n = perms k" and "b \<in> {0x800, 0x400, 0x200, 0x100, 0x80, 0x40, 0x20, 0x10, 0x8, 0x4, 0x2, 0x1}"
  shows "has_bit (A_MODE n) b = has_bit (A_MODE k) b"
proof -
  let ?m = "A_MODE n" and ?l = "A_MODE k"
  note e = assms(1) [unfolded perms_def Let_def list.inject]
  have l: "has_bit ?m x = has_bit ?l x" if "letter_if ?m x c = letter_if ?l x c" "c \<noteq> CHR ''-''" for x c using that by (rule letter_bits)
  have s: "has_bit ?m x = has_bit ?l x \<and> has_bit ?m p = has_bit ?l p"
    if "exec_letter ?m x p (CHR ''s'') (CHR ''S'') = exec_letter ?l x p (CHR ''s'') (CHR ''S'')" for x p
    using that by (rule exec_letter_bits) simp
  have t: "has_bit ?m 0x1 = has_bit ?l 0x1 \<and> has_bit ?m 0x200 = has_bit ?l 0x200" using e by (intro exec_letter_bits [of _ _ _ "CHR ''t''" "CHR ''T''"]) simp_all
  have "has_bit ?m 0x100 = has_bit ?l 0x100" "has_bit ?m 0x80 = has_bit ?l 0x80" "has_bit ?m 0x20 = has_bit ?l 0x20"
    "has_bit ?m 0x10 = has_bit ?l 0x10" "has_bit ?m 0x4 = has_bit ?l 0x4" "has_bit ?m 0x2 = has_bit ?l 0x2"
    using e l [of _ "CHR ''r''"] l [of _ "CHR ''w''"] by simp_all
  moreover have "has_bit ?m 0x40 = has_bit ?l 0x40 \<and> has_bit ?m 0x800 = has_bit ?l 0x800" using e s by blast
  moreover have "has_bit ?m 0x8 = has_bit ?l 0x8 \<and> has_bit ?m 0x400 = has_bit ?l 0x400" using e s by blast
  ultimately show ?thesis using t assms(2) by (elim insertE) simp_all
qed

end
