(* ===== verification/SshTransport.thy ===== *)
theory SshTransport
  imports Bytes
begin

text \<open>
  The honeypot's own SSH transport (\<open>cowrie/ssh/transport.py\<close>): the identification of the client, the loop
  over its packets, the packets sent, the client's fingerprint, timeouts and the end. What it inherits from
  Twisted is a parameter, with Twisted's own part of the state as the type \<open>'l\<close>.
\<close>

datatype ssh_note =
    ClientVersion string
  | BadVersion string
  | ClientKex string string "string list list"
  | DisconnectError nat string
  | RemoteError nat string
  | TimedOut
  | SessionClosed int

record 'l conn =
  t_lib :: 'l
  t_buf :: string
  t_gotVersion :: bool
  t_otherVersion :: string
  t_wire :: "string list"
  t_closing :: bool
  t_timeout :: "int option"
  t_kex :: bool
  t_blocked :: "(nat \<times> string) list"
  t_outType :: pyobj
  t_inType :: pyobj
  t_outComp :: bool
  t_inComp :: bool
  t_outSeq :: nat
  t_start :: "int option"
  t_notes :: "ssh_note list"

type_synonym ('l, 'a) conn_py = "('l conn, 'a) py"

text \<open>What the front of the buffer is to Twisted: a packet, not yet one, or a reason to disconnect.\<close>

datatype packet_result = Packet string | NotYet | Broken nat string

record 'l conch =
  get_packet :: "'l \<Rightarrow> string \<Rightarrow> packet_result \<times> 'l \<times> string"
  dispatch :: "nat \<Rightarrow> string \<Rightarrow> ('l, unit) conn_py"
  base_sendKexInit :: "('l, unit) conn_py"
  base_KEXINIT :: "string \<Rightarrow> ('l, unit) conn_py"
  base_sendDisconnect :: "nat \<Rightarrow> string \<Rightarrow> ('l, unit) conn_py"
  base_connectionLost :: "('l, unit) conn_py"
  base_setService :: "string \<Rightarrow> ('l, unit) conn_py"
  get_ns :: "nat \<Rightarrow> string \<Rightarrow> string list res"
  kex_allowed :: "nat \<Rightarrow> bool"
  compress :: "string \<Rightarrow> 'l \<Rightarrow> string \<times> 'l"
  enc_block :: "'l \<Rightarrow> nat"
  encrypt :: "string \<Rightarrow> 'l \<Rightarrow> string \<times> 'l"
  make_mac :: "nat \<Rightarrow> string \<Rightarrow> 'l \<Rightarrow> string"
  secure_random :: "nat \<Rightarrow> 'l \<Rightarrow> string \<times> 'l"
  supported :: "string list"
  auth_timeout :: int
  interactive_timeout :: int

definition on_lib :: "('l \<Rightarrow> 'a \<times> 'l) \<Rightarrow> ('l, 'a) conn_py" where
  "on_lib f = (\<lambda>s. case f (t_lib s) of (a, l) \<Rightarrow> (Inr a, s\<lparr>t_lib := l\<rparr>))"

definition wire_write :: "string \<Rightarrow> ('l, unit) conn_py" where
  "wire_write data = py_modify (\<lambda>s. s\<lparr>t_wire := t_wire s @ [data]\<rparr>)"

definition lose_connection :: "('l, unit) conn_py" where
  "lose_connection = py_modify (\<lambda>s. s\<lparr>t_closing := True\<rparr>)"

definition ssh_log :: "ssh_note \<Rightarrow> ('l, unit) conn_py" where
  "ssh_log n = py_modify (\<lambda>s. s\<lparr>t_notes := t_notes s @ [n]\<rparr>)"

definition set_timeout :: "int option \<Rightarrow> ('l, unit) conn_py" where
  "set_timeout t = py_modify (\<lambda>s. s\<lparr>t_timeout := t\<rparr>)"

section \<open>Identification\<close>

definition crlf :: string where
  "crlf = [CHR 0x0D, CHR 0x0A]"

definition connectionMade :: "'l conch \<Rightarrow> int \<Rightarrow> string \<Rightarrow> ('l, unit) conn_py" where
  "connectionMade e now ourVersionString = py_bind (wire_write (ourVersionString @ crlf)) (\<lambda>_.
     py_bind (py_modify (\<lambda>s. s\<lparr>t_start := Some now\<rparr>)) (\<lambda>_. set_timeout (Some (auth_timeout e))))"

definition digit :: "char \<Rightarrow> bool" where
  "digit c \<longleftrightarrow> c \<in> set ''0123456789''"

text \<open>
  \<open>re.match(br'SSH-(\d+.\d+)-(.*)', s)\<close>, its first group: any character may stand between the numbers, a
  digit too.
\<close>

definition version_of :: "string \<Rightarrow> string option" where
  "version_of s = (if \<not> starts_with s ''SSH-'' then None else
     let r = drop 4 s; a = takeWhile digit r; r1 = dropWhile digit r in
     if a = [] \<or> r1 = [] then None else
     let b = takeWhile digit (tl r1); r2 = dropWhile digit (tl r1) in
     if hd r1 \<noteq> CHR 0x0A \<and> b \<noteq> [] \<and> starts_with r2 ''-'' then Some (a @ hd r1 # b)
     else if length a \<ge> 3 \<and> hd r1 = CHR ''-'' then Some a else None)"

definition byte_spaces :: string where
  "byte_spaces = [CHR 0x20, CHR 0x09, CHR 0x0A, CHR 0x0D, CHR 0x0B, CHR 0x0C]"

definition first_line :: "string \<Rightarrow> string" where
  "first_line b = takeWhile (\<lambda>c. c \<noteq> CHR 0x0A) b"

definition after_line :: "string \<Rightarrow> string" where
  "after_line b = tl (dropWhile (\<lambda>c. c \<noteq> CHR 0x0A) b)"

definition sendKexInit :: "'l conch \<Rightarrow> ('l, unit) conn_py" where
  "sendKexInit e = py_bind py_get (\<lambda>s. if \<not> t_gotVersion s then py_return () else base_sendKexInit e)"

definition unsupportedVersionReceived :: "('l, unit) conn_py" where
  "unsupportedVersionReceived = py_bind (wire_write (''Protocol major versions differ.'' @ [CHR 0x0A])) (\<lambda>_. lose_connection)"

text \<open>Whether the packets are to be looked at. After an unsupported version the line stays in the buffer.\<close>

definition identify :: "'l conch \<Rightarrow> ('l, bool) conn_py" where
  "identify e = py_bind py_get (\<lambda>s.
     if t_gotVersion s then py_return True
     else if CHR 0x0A \<notin> set (t_buf s) then py_return False
     else let v = strip_chars byte_spaces (first_line (t_buf s)) in
       py_bind (py_modify (\<lambda>s. s\<lparr>t_otherVersion := v\<rparr>)) (\<lambda>_.
       py_bind (ssh_log (ClientVersion v)) (\<lambda>_. case version_of v of
           None \<Rightarrow> py_bind (ssh_log (BadVersion v)) (\<lambda>_. py_bind (wire_write (''Protocol mismatch.'' @ [CHR 0x0A])) (\<lambda>_.
             py_bind lose_connection (\<lambda>_. py_return False)))
         | Some r \<Rightarrow> py_bind (py_modify (\<lambda>s. s\<lparr>t_gotVersion := True\<rparr>)) (\<lambda>_.
             if r \<notin> set (supported e) then py_bind unsupportedVersionReceived (\<lambda>_. py_return False)
             else py_bind (py_modify (\<lambda>s. s\<lparr>t_buf := after_line (t_buf s)\<rparr>)) (\<lambda>_.
               py_bind (sendKexInit e) (\<lambda>_. py_return True))))))"

section \<open>Packets\<close>

definition contains :: "string \<Rightarrow> string \<Rightarrow> bool" where
  "contains s w \<longleftrightarrow> length (split_str w s) > 1"

definition sendDisconnect :: "'l conch \<Rightarrow> nat \<Rightarrow> string \<Rightarrow> ('l, unit) conn_py" where
  "sendDisconnect e reason desc = (if \<not> contains desc ''bad packet length'' then base_sendDisconnect e reason desc
     else py_bind (wire_write (''Packet corrupt'' @ [CHR 0x0A])) (\<lambda>_.
       py_bind (ssh_log (DisconnectError reason desc)) (\<lambda>_. lose_connection)))"

definition getPacket :: "'l conch \<Rightarrow> ('l, string option) conn_py" where
  "getPacket e = (\<lambda>s. case get_packet e (t_lib s) (t_buf s) of (r, l, b) \<Rightarrow>
     (case r of
        Packet p \<Rightarrow> py_return (Some p)
      | NotYet \<Rightarrow> py_return None
      | Broken reason desc \<Rightarrow> py_bind (sendDisconnect e reason desc) (\<lambda>_. py_return None)) (s\<lparr>t_lib := l, t_buf := b\<rparr>))"

text \<open>\<open>while packet:\<close>, an empty packet ends the loop; the length of the buffer is frames enough.\<close>

fun drain :: "'l conch \<Rightarrow> nat \<Rightarrow> ('l, unit) conn_py" where
  "drain e 0 = py_return ()"
| "drain e (Suc n) = py_bind (getPacket e) (\<lambda>packet. case packet of
       Some (m # payload) \<Rightarrow> py_bind (dispatch e (of_char m) payload) (\<lambda>_. drain e n)
     | _ \<Rightarrow> py_return ())"

definition packet_loop :: "'l conch \<Rightarrow> ('l, unit) conn_py" where
  "packet_loop e = py_bind py_get (\<lambda>s. drain e (Suc (length (t_buf s))))"

definition dataReceived :: "'l conch \<Rightarrow> string \<Rightarrow> ('l, unit) conn_py" where
  "dataReceived e data = py_bind (py_modify (\<lambda>s. s\<lparr>t_buf := t_buf s @ data\<rparr>)) (\<lambda>_.
     py_bind (identify e) (\<lambda>go. if go then packet_loop e else py_return ()))"

text \<open>Twisted reads nothing more from a connection that is being closed.\<close>

definition deliver :: "'l conch \<Rightarrow> string \<Rightarrow> ('l, unit) conn_py" where
  "deliver e data = py_bind py_get (\<lambda>s. if t_closing s then py_return () else dataReceived e data)"

fun deliver_all :: "'l conch \<Rightarrow> string list \<Rightarrow> ('l, unit) conn_py" where
  "deliver_all e [] = py_return ()"
| "deliver_all e (c # cs) = py_bind (deliver e c) (\<lambda>_. deliver_all e cs)"

section \<open>Sending\<close>

definition MSG_KEXINIT :: nat where
  "MSG_KEXINIT = 20"

definition pad_length :: "nat \<Rightarrow> nat \<Rightarrow> nat" where
  "pad_length block n = (let p = block - n mod block in if p < 4 then p + block else p)"

definition padding_for :: "'l conch \<Rightarrow> nat \<Rightarrow> nat \<Rightarrow> ('l, string) conn_py" where
  "padding_for e messageType n = (if messageType = MSG_KEXINIT then py_return (replicate n (CHR 0x00)) else on_lib (secure_random e n))"

definition sendPacket :: "'l conch \<Rightarrow> nat \<Rightarrow> string \<Rightarrow> ('l, unit) conn_py" where
  "sendPacket e messageType payload0 = py_bind py_get (\<lambda>s.
     if t_kex s \<and> \<not> kex_allowed e messageType then py_modify (\<lambda>s. s\<lparr>t_blocked := t_blocked s @ [(messageType, payload0)]\<rparr>)
     else if messageType > 255 then py_raise ValueError
     else py_bind (if t_outComp s then on_lib (compress e (char_of messageType # payload0)) else py_return (char_of messageType # payload0))
       (\<lambda>payload. py_bind py_get (\<lambda>s. let totalSize = 5 + length payload; lenPad = pad_length (enc_block e (t_lib s)) totalSize in
       py_bind (padding_for e messageType lenPad) (\<lambda>padding.
       py_bind (py_lift (pack_uint 4 (int (totalSize + lenPad - 4)))) (\<lambda>size4.
       py_bind (py_lift (pack_uint 1 (int lenPad))) (\<lambda>pad1.
       let packet = size4 @ pad1 @ payload @ padding in
       py_bind (on_lib (encrypt e packet)) (\<lambda>enc.
       py_bind py_get (\<lambda>s.
       py_bind (wire_write (enc @ make_mac e (t_outSeq s) packet (t_lib s))) (\<lambda>_.
       py_modify (\<lambda>s. s\<lparr>t_outSeq := t_outSeq s + 1\<rparr>))))))))))"

section \<open>The fingerprint\<close>

text \<open>The names of a list, decoded and joined again.\<close>

fun decode_all :: "string list \<Rightarrow> string list res" where
  "decode_all [] = Inr []"
| "decode_all (a # as) = bind_res (py_decode a) (\<lambda>t. bind_res (decode_all as) (\<lambda>ts. Inr (t # ts)))"

definition joined_names :: "string list \<Rightarrow> string res" where
  "joined_names algs = bind_res (decode_all algs) (\<lambda>ts. Inr (join '','' ts))"

definition hassh_algorithms :: "string list \<Rightarrow> string list \<Rightarrow> string list \<Rightarrow> string list \<Rightarrow> string res" where
  "hassh_algorithms kexAlgs encCS macCS compCS =
     bind_res (joined_names kexAlgs) (\<lambda>k. bind_res (joined_names encCS) (\<lambda>c.
     bind_res (joined_names macCS) (\<lambda>m. bind_res (joined_names compCS) (\<lambda>z.
     Inr (k @ '';'' @ c @ '';'' @ m @ '';'' @ z)))))"

definition ssh_KEXINIT :: "'l conch \<Rightarrow> string \<Rightarrow> ('l, unit) conn_py" where
  "ssh_KEXINIT e packet = py_bind (py_lift (get_ns e 10 (drop 16 packet))) (\<lambda>k.
     case map (split_str '','') (butlast k) of
       [kexAlgs, keyAlgs, encCS, u1, macCS, u2, compCS, u3, langCS, u4] \<Rightarrow>
         py_bind (py_lift (hassh_algorithms kexAlgs encCS macCS compCS)) (\<lambda>algs.
         py_bind (ssh_log (ClientKex (md5_hex algs) algs [kexAlgs, keyAlgs, encCS, macCS, compCS, langCS])) (\<lambda>_.
         base_KEXINIT e packet))
     | _ \<Rightarrow> py_raise ValueError)"

section \<open>Services, timeouts, the end\<close>

text \<open>A service's name is bytes; what is compared with text is never equal.\<close>

definition setService :: "'l conch \<Rightarrow> string \<Rightarrow> ('l, unit) conn_py" where
  "setService e service =
     py_bind (if PyBytes service = PyBytes ''ssh-connection'' then set_timeout (Some (interactive_timeout e)) else py_return ()) (\<lambda>_.
     py_bind (if PyBytes service = PyText ''ssh-connection'' then py_modify (\<lambda>s. s\<lparr>
         t_outComp := t_outComp s \<or> t_outType s = PyText ''zlib@openssh.com'',
         t_inComp := t_inComp s \<or> t_inType s = PyText ''zlib@openssh.com''\<rparr>) else py_return ()) (\<lambda>_.
     base_setService e service))"

definition timeoutConnection :: "('l, unit) conn_py" where
  "timeoutConnection = py_bind (ssh_log TimedOut) (\<lambda>_. lose_connection)"

definition receiveError :: "nat \<Rightarrow> string \<Rightarrow> ('l, unit) conn_py" where
  "receiveError reason description = ssh_log (RemoteError reason description)"

definition connectionLost :: "'l conch \<Rightarrow> int \<Rightarrow> ('l, unit) conn_py" where
  "connectionLost e now = py_bind (set_timeout None) (\<lambda>_. py_bind (base_connectionLost e) (\<lambda>_. py_bind py_get (\<lambda>s.
     case t_start s of None \<Rightarrow> py_raise TypeError | Some t \<Rightarrow> ssh_log (SessionClosed (now - t)))))"

end
