(* ===== verification/SshTransportProps.thy ===== *)
theory SshTransportProps
  imports SshTransport
begin

text \<open>
  The honeypot's SSH transport: how a client's bytes are cut into pieces does not matter, what is sent can be
  read back, and what the fingerprint is of.
\<close>

section \<open>What is relied on of Twisted\<close>

text \<open>A packet is read from the front of the buffer, or decided to be broken there; until it is complete nothing is taken.\<close>

definition packet_reader :: "('l \<Rightarrow> string \<Rightarrow> packet_result \<times> 'l \<times> string) \<Rightarrow> bool" where
  "packet_reader get \<longleftrightarrow> (\<forall>l b l' b' x.
     (\<forall>p. get l b = (Packet p, l', b') \<longrightarrow> length b' < length b \<and> get l (b @ x) = (Packet p, l', b' @ x)) \<and>
     (get l b = (NotYet, l', b') \<longrightarrow> b' = b \<and> get l' (b @ x) = get l (b @ x)) \<and>
     (\<forall>r d. get l b = (Broken r d, l', b') \<longrightarrow> (\<exists>b''. get l (b @ x) = (Broken r d, l', b''))))"

text \<open>A handler of messages works beside the buffer, keeps the identification and does not undo a close.\<close>

definition handler :: "('l, unit) conn_py \<Rightarrow> bool" where
  "handler f \<longleftrightarrow> (\<forall>s b. f (s\<lparr>t_buf := b\<rparr>) = (fst (f s), (snd (f s))\<lparr>t_buf := b\<rparr>)) \<and>
     (\<forall>s. t_gotVersion (snd (f s)) = t_gotVersion s \<and> (t_closing s \<longrightarrow> t_closing (snd (f s))))"

definition twisted_laws :: "'l conch \<Rightarrow> bool" where
  "twisted_laws e \<longleftrightarrow> packet_reader (get_packet e) \<and> (\<forall>m p. handler (dispatch e m p)) \<and> handler (base_sendKexInit e) \<and>
     (\<forall>r d. handler (base_sendDisconnect e r d) \<and> (\<forall>s. t_closing (snd (base_sendDisconnect e r d s))))"

lemma handlerD:
  assumes "handler f" and "f s = (r, t)"
  shows "f (s\<lparr>t_buf := b\<rparr>) = (r, t\<lparr>t_buf := b\<rparr>)" "t_buf t = t_buf s" "t_gotVersion t = t_gotVersion s" "t_closing s \<Longrightarrow> t_closing t"
proof -
  show r: "f (s\<lparr>t_buf := b\<rparr>) = (r, t\<lparr>t_buf := b\<rparr>)" for b using assms by (simp add: handler_def)
  have "s\<lparr>t_buf := t_buf s\<rparr> = s" by simp
  with r [of "t_buf s"] assms(2) have "t = t\<lparr>t_buf := t_buf s\<rparr>" by simp
  then show "t_buf t = t_buf s" by (metis conn.select_convs(2) conn.surjective conn.update_convs(2))
  show "t_gotVersion t = t_gotVersion s" "t_closing s \<Longrightarrow> t_closing t"
    using assms unfolding handler_def by (metis snd_conv)+
qed

section \<open>The loop over the packets\<close>

text \<open>No packet on the way is empty; one that is would end the loop early.\<close>

fun no_empty :: "'l conch \<Rightarrow> nat \<Rightarrow> 'l conn \<Rightarrow> bool" where
  "no_empty e 0 s = True"
| "no_empty e (Suc n) s = (case get_packet e (t_lib s) (t_buf s) of
       (Packet [], l, b) \<Rightarrow> False
     | (Packet (m # p), l, b) \<Rightarrow> (case dispatch e (of_char m) p (s\<lparr>t_lib := l, t_buf := b\<rparr>) of
           (Inl z, t) \<Rightarrow> True | (Inr v, t) \<Rightarrow> no_empty e n t)
     | _ \<Rightarrow> True)"

lemma drain_Packet:
  "get_packet e (t_lib s) (t_buf s) = (Packet (m # p), l, b) \<Longrightarrow>
   drain e (Suc n) s = (case dispatch e (of_char m) p (s\<lparr>t_lib := l, t_buf := b\<rparr>) of (Inl z, t) \<Rightarrow> (Inl z, t) | (Inr v, t) \<Rightarrow> drain e n t)"
  by (simp add: getPacket_def)

lemma drain_NotYet:
  "get_packet e (t_lib s) (t_buf s) = (NotYet, l, b) \<Longrightarrow> drain e (Suc n) s = (Inr (), s\<lparr>t_lib := l, t_buf := b\<rparr>)"
  by (simp add: getPacket_def)

lemma drain_other:
  "get_packet e (t_lib s) (t_buf s) = (Packet [], l, b) \<Longrightarrow> drain e (Suc n) s = (Inr (), s\<lparr>t_lib := l, t_buf := b\<rparr>)"
  "get_packet e (t_lib s) (t_buf s) = (Broken r d, l, b) \<Longrightarrow> drain e (Suc n) s = sendDisconnect e r d (s\<lparr>t_lib := l, t_buf := b\<rparr>)"
  by (simp_all add: getPacket_def split: prod.split sum.split)

declare drain.simps(2) [simp del] no_empty.simps(2) [simp del]

lemma drain_Broken:
  assumes "twisted_laws e" and "get_packet e (t_lib s) (t_buf s) = (Broken r d, l, b)"
  shows "t_closing (snd (drain e (Suc n) s))"
proof -
  have c: "t_closing (snd (base_sendDisconnect e r d t))" for t using assms(1) by (simp add: twisted_laws_def)
  then have "t_closing (snd (sendDisconnect e r d t))" for t
    by (simp add: sendDisconnect_def lose_connection_def wire_write_def ssh_log_def)
  then show ?thesis using assms(2) by (simp add: drain_other)
qed

text \<open>The frames are enough.\<close>

lemma drain_frames:
  assumes "twisted_laws e" and "length (t_buf s) < n" and "length (t_buf s) < k"
  shows "drain e n s = drain e k s \<and> no_empty e n s = no_empty e k s"
  using assms(2,3)
proof (induction n arbitrary: k s)
  case (Suc n)
  then obtain j where k: "k = Suc j" by (cases k) auto
  obtain r l b where r: "get_packet e (t_lib s) (t_buf s) = (r, l, b)" by (metis prod_cases3)
  show ?case
  proof (cases r)
    case (Packet p)
    then have "length b < length (t_buf s)" using assms(1) r by (auto simp: twisted_laws_def packet_reader_def)
    show ?thesis
    proof (cases p)
      case (Cons m q)
      obtain z t where t: "dispatch e (of_char m) q (s\<lparr>t_lib := l, t_buf := b\<rparr>) = (z, t)" by fastforce
      have "handler (dispatch e (of_char m) q)" using assms(1) by (simp add: twisted_laws_def)
      from handlerD(2) [OF this t] have "t_buf t = b" by simp
      then have "drain e n t = drain e j t \<and> no_empty e n t = no_empty e j t"
        using Suc.prems \<open>length b < length (t_buf s)\<close> k by (intro Suc.IH) auto
      with r Packet Cons t k show ?thesis by (cases z) (simp_all add: drain_Packet no_empty.simps(2))
    qed (use r Packet k in \<open>simp add: drain_other no_empty.simps(2)\<close>)
  qed (use r k in \<open>simp_all add: drain_NotYet drain_other no_empty.simps(2)\<close>)
qed simp

lemma drain_closing:
  assumes "twisted_laws e" and "t_closing s"
  shows "t_closing (snd (drain e n s))"
  using assms(2)
proof (induction n arbitrary: s)
  case (Suc n)
  obtain r l b where r: "get_packet e (t_lib s) (t_buf s) = (r, l, b)" by (metis prod_cases3)
  show ?case
  proof (cases r)
    case (Packet p)
    show ?thesis
    proof (cases p)
      case (Cons m q)
      obtain z t where t: "dispatch e (of_char m) q (s\<lparr>t_lib := l, t_buf := b\<rparr>) = (z, t)" by fastforce
      have "handler (dispatch e (of_char m) q)" using assms(1) by (simp add: twisted_laws_def)
      from handlerD(4) [OF this t] Suc.prems have "t_closing t" by simp
      with Suc.IH r Packet Cons t show ?thesis by (cases z) (simp_all add: drain_Packet)
    qed (use r Packet Suc.prems in \<open>simp add: drain_other\<close>)
  next
    case NotYet
    with r Suc.prems show ?thesis by (simp add: drain_NotYet)
  qed (use r drain_Broken [OF assms(1)] in simp)
qed simp

text \<open>A run over a longer buffer is one over its front, then one over what is left and the rest.\<close>

lemma loop_split:
  assumes e: "twisted_laws e" and run: "packet_loop e (s\<lparr>t_buf := b @ x\<rparr>) = (Inr u, w)" and w: "\<not> t_closing w"
    and no: "no_empty e (Suc (length (b @ x))) (s\<lparr>t_buf := b @ x\<rparr>)"
  shows "\<exists>t. packet_loop e (s\<lparr>t_buf := b\<rparr>) = (Inr (), t) \<and> \<not> t_closing t \<and> t_gotVersion t = t_gotVersion s \<and>
    packet_loop e (t\<lparr>t_buf := t_buf t @ x\<rparr>) = (Inr u, w) \<and> no_empty e (Suc (length (t_buf t @ x))) (t\<lparr>t_buf := t_buf t @ x\<rparr>)"
  using run no
proof (induction "length b" arbitrary: s b rule: less_induct)
  case less
  have pr: "packet_reader (get_packet e)" using e by (simp add: twisted_laws_def)
  obtain r l b' where r: "get_packet e (t_lib s) b = (r, l, b')" by (metis prod_cases3)
  have run: "drain e (Suc (length (b @ x))) (s\<lparr>t_buf := b @ x\<rparr>) = (Inr u, w)" using less.prems(1) by (simp add: packet_loop_def)
  have live: "\<not> t_closing s" using drain_closing [OF e, of "s\<lparr>t_buf := b @ x\<rparr>" "Suc (length (b @ x))"] run w by auto
  show ?case
  proof (cases r)
    case NotYet
    then have b: "b' = b" "get_packet e l (b @ x) = get_packet e (t_lib s) (b @ x)"
      using pr r by (auto simp: packet_reader_def)
    let ?t = "s\<lparr>t_lib := l, t_buf := b\<rparr>"
    have upd: "s\<lparr>t_lib := l, t_buf := b @ x, t_lib := l2, t_buf := b2\<rparr> = s\<lparr>t_lib := l2, t_buf := b2\<rparr>"
      "s\<lparr>t_buf := b @ x, t_lib := l2, t_buf := b2\<rparr> = s\<lparr>t_lib := l2, t_buf := b2\<rparr>" for l2 b2
      by (cases s, simp)+
    have "drain e (Suc n) (?t\<lparr>t_buf := b @ x\<rparr>) = drain e (Suc n) (s\<lparr>t_buf := b @ x\<rparr>)"
      "no_empty e (Suc n) (?t\<lparr>t_buf := b @ x\<rparr>) = no_empty e (Suc n) (s\<lparr>t_buf := b @ x\<rparr>)" for n
      using b(2) upd by (simp_all add: drain.simps(2) no_empty.simps(2) getPacket_def split: prod.split packet_result.split list.split)
    moreover have "packet_loop e (s\<lparr>t_buf := b\<rparr>) = (Inr (), ?t)"
      using r NotYet b(1) drain_NotYet [of e "s\<lparr>t_buf := b\<rparr>" l b] by (simp add: packet_loop_def)
    ultimately show ?thesis using less.prems live by (simp add: packet_loop_def)
  next
    case (Broken q d)
    then obtain b'' where "get_packet e (t_lib s) (b @ x) = (Broken q d, l, b'')" using pr r unfolding packet_reader_def by blast
    then have "t_closing w" using drain_Broken [OF e, of "s\<lparr>t_buf := b @ x\<rparr>" q d l b'' "length (b @ x)"] run by simp
    with w show ?thesis by simp
  next
    case (Packet p)
    then have len: "length b' < length b" and more: "get_packet e (t_lib s) (b @ x) = (Packet p, l, b' @ x)"
      using pr r unfolding packet_reader_def by blast+
    obtain m q where p: "p = m # q" using less.prems(2) more by (cases p) (auto simp: no_empty.simps(2))
    have h: "handler (dispatch e (of_char m) q)" using e by (simp add: twisted_laws_def)
    obtain z t where t: "dispatch e (of_char m) q (s\<lparr>t_lib := l, t_buf := b'\<rparr>) = (z, t)" by fastforce
    have tb: "t_buf t = b'" "t_gotVersion t = t_gotVersion s" using handlerD(2,3) [OF h t] by simp_all
    have t': "dispatch e (of_char m) q (s\<lparr>t_lib := l, t_buf := b' @ x\<rparr>) = (z, t\<lparr>t_buf := b' @ x\<rparr>)"
      using handlerD(1) [OF h t, of "b' @ x"] by simp
    obtain v where v: "z = Inr v" "drain e (length (b @ x)) (t\<lparr>t_buf := b' @ x\<rparr>) = (Inr u, w)"
      using run t' more p drain_Packet [of e "s\<lparr>t_buf := b @ x\<rparr>" m q l "b' @ x" "length (b @ x)"] by (cases z) simp_all
    have ne: "no_empty e (length (b @ x)) (t\<lparr>t_buf := b' @ x\<rparr>)" using less.prems(2) more p t' v(1) by (simp add: no_empty.simps(2))
    have fr: "drain e (length (b @ x)) (t\<lparr>t_buf := b' @ x\<rparr>) = drain e (Suc (length (b' @ x))) (t\<lparr>t_buf := b' @ x\<rparr>) \<and>
        no_empty e (length (b @ x)) (t\<lparr>t_buf := b' @ x\<rparr>) = no_empty e (Suc (length (b' @ x))) (t\<lparr>t_buf := b' @ x\<rparr>)"
      using len by (intro drain_frames [OF e]) simp_all
    have "packet_loop e (t\<lparr>t_buf := b' @ x\<rparr>) = (Inr u, w)" using v(2) fr by (simp add: packet_loop_def)
    from less.hyps [OF len this] ne fr obtain t1 where t1: "packet_loop e (t\<lparr>t_buf := b'\<rparr>) = (Inr (), t1)" "\<not> t_closing t1"
        "t_gotVersion t1 = t_gotVersion t" "packet_loop e (t1\<lparr>t_buf := t_buf t1 @ x\<rparr>) = (Inr u, w)"
        "no_empty e (Suc (length (t_buf t1 @ x))) (t1\<lparr>t_buf := t_buf t1 @ x\<rparr>)" by blast
    have tt: "t\<lparr>t_buf := b'\<rparr> = t" using tb(1) by (cases t) simp
    have "drain e (length b) t = drain e (Suc (length b')) t" using len tb(1) drain_frames [OF e, of t "length b" "Suc (length b')"] by simp
    then have "packet_loop e (s\<lparr>t_buf := b\<rparr>) = (Inr (), t1)"
      using drain_Packet [of e "s\<lparr>t_buf := b\<rparr>" m q l b' "length b"] r Packet p t v(1) t1(1) tt tb(1)
      by (simp add: packet_loop_def)
    with t1 tb(2) show ?thesis by auto
  qed
qed


section \<open>Pieces\<close>

definition no_empty_packet :: "'l conch \<Rightarrow> string \<Rightarrow> 'l conn \<Rightarrow> bool" where
  "no_empty_packet e data s = (case identify e (s\<lparr>t_buf := t_buf s @ data\<rparr>) of
       (Inr True, t) \<Rightarrow> no_empty e (Suc (length (t_buf t))) t | _ \<Rightarrow> True)"

lemma received: "dataReceived e data s = (case identify e (s\<lparr>t_buf := t_buf s @ data\<rparr>) of
     (Inl z, t) \<Rightarrow> (Inl z, t) | (Inr go, t) \<Rightarrow> (if go then packet_loop e else py_return ()) t)"
  by (simp add: dataReceived_def split: prod.split sum.split)

lemma identify_waits: "\<not> t_gotVersion s \<Longrightarrow> CHR 0x0A \<notin> set (t_buf s) \<Longrightarrow> identify e s = (Inr False, s)"
  by (simp add: identify_def)

lemma identify_done: "t_gotVersion s \<Longrightarrow> identify e s = (Inr True, s)"
  by (simp add: identify_def)

text \<open>Identifying a client by a buffer with its whole line does not depend on what follows.\<close>

definition identified :: "'l conn \<Rightarrow> string \<Rightarrow> 'l conn" where
  "identified s v = s\<lparr>t_otherVersion := v, t_notes := t_notes s @ [ClientVersion v], t_gotVersion := True\<rparr>"

lemma identify_line:
  assumes s: "\<not> t_gotVersion s" and n: "CHR 0x0A \<in> set (t_buf s)" and run: "identify e s = (r, t)" and live: "\<not> t_closing t"
  shows "\<exists>k. version_of (strip_chars byte_spaces (first_line (t_buf s))) = Some k \<and> k \<in> set (supported e) \<and>
    (r, t) = (case base_sendKexInit e ((identified s (strip_chars byte_spaces (first_line (t_buf s))))\<lparr>t_buf := after_line (t_buf s)\<rparr>) of
      (Inl z, u) \<Rightarrow> (Inl z, u) | (Inr v, u) \<Rightarrow> (Inr True, u))"
proof -
  define v where "v = strip_chars byte_spaces (first_line (t_buf s))"
  have i: "identify e s = (case version_of v of
      None \<Rightarrow> py_bind (ssh_log (BadVersion v)) (\<lambda>_. py_bind (wire_write (''Protocol mismatch.'' @ [CHR 0x0A])) (\<lambda>_.
             py_bind lose_connection (\<lambda>_. py_return False)))
    | Some r \<Rightarrow> py_bind (py_modify (\<lambda>s. s\<lparr>t_gotVersion := True\<rparr>)) (\<lambda>_.
             if r \<notin> set (supported e) then py_bind unsupportedVersionReceived (\<lambda>_. py_return False)
             else py_bind (py_modify (\<lambda>s. s\<lparr>t_buf := after_line (t_buf s)\<rparr>)) (\<lambda>_.
               py_bind (sendKexInit e) (\<lambda>_. py_return True))))
      (s\<lparr>t_otherVersion := v, t_notes := t_notes s @ [ClientVersion v]\<rparr>)"
    using s n by (simp add: identify_def Let_def ssh_log_def flip: v_def)
  show ?thesis
  proof (cases "version_of v")
    case None
    then have "t_closing t" using i run by (auto simp: ssh_log_def wire_write_def lose_connection_def)
    with live show ?thesis by simp
  next
    case (Some k)
    show ?thesis
    proof (cases "k \<in> set (supported e)")
      case False
      then have "t_closing t" using i run Some by (auto simp: unsupportedVersionReceived_def wire_write_def lose_connection_def)
      with live show ?thesis by simp
    next
      case True
      have upd: "s\<lparr>t_otherVersion := v, t_notes := t_notes s @ [ClientVersion v], t_gotVersion := True, t_buf := after_line (t_buf s)\<rparr> =
          (identified s v)\<lparr>t_buf := after_line (t_buf s)\<rparr>" by (simp add: identified_def)
      show ?thesis
        using i run Some True by (simp add: sendKexInit_def upd v_def [symmetric] split: prod.splits sum.splits)
    qed
  qed
qed

lemma line_append:
  "CHR 0x0A \<in> set b \<Longrightarrow> first_line (b @ x) = first_line b" "CHR 0x0A \<in> set b \<Longrightarrow> after_line (b @ x) = after_line b @ x"
proof -
  show "first_line (b @ x) = first_line b" if "CHR 0x0A \<in> set b" using that by (simp add: first_line_def takeWhile_append1)
  show "after_line (b @ x) = after_line b @ x" if "CHR 0x0A \<in> set b"
  proof -
    have "dropWhile (\<lambda>c. c \<noteq> CHR 0x0A) b \<noteq> []" using that by simp
    then show ?thesis using that by (simp add: after_line_def dropWhile_append1)
  qed
qed

text \<open>One piece, then the rest at once.\<close>

lemma first_piece:
  assumes e: "twisted_laws e" and run: "dataReceived e (c @ x) s = (Inr u, w)" and w: "\<not> t_closing w"
    and no: "no_empty_packet e (c @ x) s" and s: "\<not> t_closing s"
  shows "\<exists>t. dataReceived e c s = (Inr (), t) \<and> \<not> t_closing t \<and> dataReceived e x t = (Inr u, w) \<and> no_empty_packet e x t"
proof -
  let ?b = "t_buf s @ c"
  have go: ?thesis if t: "identify e (s\<lparr>t_buf := ?b\<rparr>) = (Inr True, t)" "identify e (s\<lparr>t_buf := ?b @ x\<rparr>) = (Inr True, t\<lparr>t_buf := t_buf t @ x\<rparr>)"
      "t_gotVersion t" for t
  proof -
    have tt: "t\<lparr>t_buf := t_buf t\<rparr> = t" by simp
    have "packet_loop e (t\<lparr>t_buf := t_buf t @ x\<rparr>) = (Inr u, w)" using run t(2) by (simp add: received)
    moreover have "no_empty e (Suc (length (t_buf t @ x))) (t\<lparr>t_buf := t_buf t @ x\<rparr>)" using no t(2) by (simp add: no_empty_packet_def)
    ultimately obtain v where v: "packet_loop e t = (Inr (), v)" "\<not> t_closing v" "t_gotVersion v"
        "packet_loop e (v\<lparr>t_buf := t_buf v @ x\<rparr>) = (Inr u, w)"
        "no_empty e (Suc (length (t_buf v @ x))) (v\<lparr>t_buf := t_buf v @ x\<rparr>)"
      using loop_split [OF e, where s = t and b = "t_buf t" and x = x and u = u and w = w] w t(3) tt by auto
    then show ?thesis
      using t(1) by (intro exI [of _ v]) (simp add: received no_empty_packet_def identify_done)
  qed
  show ?thesis
  proof (cases "t_gotVersion s")
    case True
    then show ?thesis by (intro go [of "s\<lparr>t_buf := ?b\<rparr>"]) (simp_all add: identify_done)
  next
    case new: False
    show ?thesis
    proof (cases "CHR 0x0A \<in> set ?b")
      case False
      then have "dataReceived e c s = (Inr (), s\<lparr>t_buf := ?b\<rparr>)" using new by (simp add: received identify_waits)
      then show ?thesis using run no s by (simp add: received no_empty_packet_def)
    next
      case True
      let ?v = "strip_chars byte_spaces (first_line ?b)"
      let ?i = "(identified s ?v)\<lparr>t_buf := after_line ?b\<rparr>"
      obtain r t where t: "identify e (s\<lparr>t_buf := ?b @ x\<rparr>) = (r, t)" by fastforce
      have live: "\<not> t_closing t"
      proof
        assume "t_closing t"
        moreover have "t_closing (snd (packet_loop e t))" if "t_closing t"
          using drain_closing [OF e that] by (simp add: packet_loop_def)
        ultimately show False using run t w by (cases r) (auto simp: received split: if_splits)
      qed
      have "CHR 0x0A \<in> set (t_buf (s\<lparr>t_buf := ?b @ x\<rparr>))" using True by auto
      from identify_line [OF _ this t live] new obtain k where k: "version_of ?v = Some k" "k \<in> set (supported e)"
          "(r, t) = (case base_sendKexInit e ((identified (s\<lparr>t_buf := ?b @ x\<rparr>) ?v)\<lparr>t_buf := after_line ?b @ x\<rparr>) of
            (Inl z, u) \<Rightarrow> (Inl z, u) | (Inr v, u) \<Rightarrow> (Inr True, u))"
        using line_append [OF True] by auto
      have up: "(identified (s\<lparr>t_buf := ?b @ x\<rparr>) ?v)\<lparr>t_buf := after_line ?b @ x\<rparr> = ?i\<lparr>t_buf := after_line ?b @ x\<rparr>"
        by (simp add: identified_def)
      obtain q i' where i': "base_sendKexInit e ?i = (q, i')" by fastforce
      have h: "handler (base_sendKexInit e)" using e by (simp add: twisted_laws_def)
      note hi = handlerD [OF h i']
      obtain v where v: "q = Inr v" "r = Inr True" "t = i'\<lparr>t_buf := after_line ?b @ x\<rparr>"
      proof -
        have "(r, t) = (case (q, i'\<lparr>t_buf := after_line ?b @ x\<rparr>) of (Inl z, u) \<Rightarrow> (Inl z, u) | (Inr v, u) \<Rightarrow> (Inr True, u))"
          using k(3) unfolding up hi(1) .
        moreover have "r \<noteq> Inl z" for z using run t by (auto simp: received)
        ultimately show ?thesis using that by (cases q) auto
      qed
      have "identify e (s\<lparr>t_buf := ?b\<rparr>) = (Inr True, i')"
        using new True k(1,2) i' v(1)
        by (simp add: identify_def Let_def ssh_log_def sendKexInit_def identified_def)
      moreover have "t_buf i' = after_line ?b" "t_gotVersion i'" using hi(2,3) by (simp_all add: identified_def)
      ultimately show ?thesis using t v(2,3) by (intro go [of i']) simp_all
    qed
  qed
qed

lemma received_in_pieces:
  assumes "twisted_laws e" and "pieces \<noteq> []" and "\<not> t_closing s"
    and "dataReceived e (concat pieces) s = (Inr u, w)" and "\<not> t_closing w" and "no_empty_packet e (concat pieces) s"
  shows "deliver_all e pieces s = (Inr u, w)"
  using assms(2-)
proof (induction pieces arbitrary: s rule: list_nonempty_induct)
  case (single c)
  then show ?case by (simp add: deliver_def)
next
  case (cons c cs)
  then obtain t where "dataReceived e c s = (Inr (), t)" "\<not> t_closing t" "dataReceived e (concat cs) t = (Inr u, w)"
      "no_empty_packet e (concat cs) t"
    using first_piece [OF assms(1), of c "concat cs" s u w] by auto
  with cons show ?case by (simp add: deliver_def)
qed

section \<open>Properties\<close>

text \<open>C15: However the bytes of a client are cut into pieces by the network, inside the identification line, between it
  and the packets or within one, the connection ends up in the same state, having dispatched the same packets
  in the same order, as when they arrive at once; provided none of the packets is empty and nothing on the
  way ends the connection.\<close>

theorem pieces_do_not_matter:
  assumes "twisted_laws e" and "pieces \<noteq> []" and "\<not> t_closing s"
    and "dataReceived e (concat pieces) s = (Inr u, w)" and "\<not> t_closing w" and "no_empty_packet e (concat pieces) s"
  shows "deliver_all e pieces s = (Inr u, w)"
  using assms by (rule received_in_pieces)

end
