(* ===== verification/SshPackets.thy ===== *)
theory SshPackets
  imports SshTransportProps
begin

text \<open>
  What the honeypot's SSH transport sends before keys are agreed, read by the other end: the framing of the
  binary packet protocol (RFC 4253, section 6).
\<close>

section \<open>Reading packets that are not encrypted\<close>

definition plain_packet :: "'l \<Rightarrow> string \<Rightarrow> packet_result \<times> 'l \<times> string" where
  "plain_packet l b = (if length b < 5 then (NotYet, l, b)
     else let n = be_value (take 4 b); p = of_char (b ! 4) in
       if n < p + 1 then (Broken 2 ''bad packet length'', l, b)
       else if length b < n + 4 then (NotYet, l, b)
       else (Packet (take (n - p - 1) (drop 5 b)), l, drop (n + 4) b))"

lemma plain_reader: "packet_reader plain_packet"
  unfolding packet_reader_def
proof (intro allI conjI impI)
  fix l :: 'l and b l' b' x
  note d = plain_packet_def Let_def
  { fix p assume "plain_packet l b = (Packet p, l', b')"
    then have "5 \<le> length b" "\<not> be_value (take 4 b) < of_char (b ! 4) + 1" "\<not> length b < be_value (take 4 b) + 4"
      "p = take (be_value (take 4 b) - of_char (b ! 4) - 1) (drop 5 b)" "l' = l" "b' = drop (be_value (take 4 b) + 4) b"
      by (auto simp: d split: if_splits)
    then show "length b' < length b" "plain_packet l (b @ x) = (Packet p, l', b' @ x)"
      by (auto simp: d nth_append) }
  assume "plain_packet l b = (NotYet, l', b')"
  then have "l' = l" "b' = b" by (auto simp: d split: if_splits)
  then show "b' = b" "plain_packet l' (b @ x) = plain_packet l (b @ x)" by simp_all
next
  fix l :: 'l and b l' b' x r d
  assume "plain_packet l b = (Broken r d, l', b')"
  then show "\<exists>b''. plain_packet l (b @ x) = (Broken r d, l', b'')"
    by (auto simp: plain_packet_def Let_def nth_append split: if_splits)
qed

text \<open>The other end, which keeps the messages it gets.\<close>

type_synonym messages = "(nat \<times> string) list"

definition peer :: "messages conch" where
  "peer = \<lparr>get_packet = plain_packet, dispatch = (\<lambda>m p. py_modify (\<lambda>s. s\<lparr>t_lib := t_lib s @ [(m, p)]\<rparr>)),
     base_sendKexInit = py_return (), base_KEXINIT = (\<lambda>p. py_return ()), base_sendDisconnect = (\<lambda>r d. lose_connection),
     base_connectionLost = py_return (), base_setService = (\<lambda>n. py_return ()), get_ns = (\<lambda>n s. Inr []), kex_allowed = (\<lambda>m. True),
     compress = (\<lambda>p l. (p, l)), enc_block = (\<lambda>l. 8), encrypt = (\<lambda>p l. (p, l)), make_mac = (\<lambda>n p l. []),
     secure_random = (\<lambda>n l. (replicate n (CHR 0xAA), l)), supported = [''1.99'', ''2.0''], auth_timeout = 120, interactive_timeout = 300\<rparr>"

lemma peer_laws: "twisted_laws peer"
  by (auto simp: twisted_laws_def peer_def plain_reader handler_def lose_connection_def)

section \<open>What is sent\<close>

text \<open>No keys yet, random bytes as many as asked for, and a block that padding can fill.\<close>

definition unencrypted :: "nat \<Rightarrow> 'l conch \<Rightarrow> bool" where
  "unencrypted k e \<longleftrightarrow> 4 \<le> k \<and> k \<le> 252 \<and> (\<forall>l. enc_block e l = k) \<and> (\<forall>p l. fst (encrypt e p l) = p) \<and> (\<forall>n p l. make_mac e n p l = []) \<and>
     (\<forall>n l. length (fst (secure_random e n l)) = n)"

fun send_all :: "'l conch \<Rightarrow> messages \<Rightarrow> ('l, unit) conn_py" where
  "send_all e [] = py_return ()"
| "send_all e ((m, p) # ms) = py_bind (sendPacket e m p) (\<lambda>_. send_all e ms)"

definition sendable :: "nat \<times> string \<Rightarrow> bool" where
  "sendable mp \<longleftrightarrow> fst mp < 256 \<and> length (snd mp) < 4294967000"

lemma pad_length_bounds:
  assumes "4 \<le> k"
  shows "4 \<le> pad_length k n" "pad_length k n < k + 4" "(n + pad_length k n) mod k = 0"
proof -
  have "n mod k < k" using assms by simp
  define r where "r = n mod k"
  have "r < k" using assms by (simp add: r_def)
  then show "4 \<le> pad_length k n" "pad_length k n < k + 4" using assms by (auto simp: pad_length_def Let_def simp flip: r_def)
  have "(n + (k - n mod k)) mod k = 0"
    by (metis \<open>n mod k < k\<close> add_diff_inverse_nat le_antisym mod_add_left_eq mod_self nat_less_le not_less)
  moreover have "(n + (k - n mod k + k)) mod k = (n + (k - n mod k)) mod k" by (metis add.assoc mod_add_self2)
  ultimately show "(n + pad_length k n) mod k = 0" by (auto simp: pad_length_def Let_def)
qed

lemma pack_uint_nat: "a < 256 ^ w \<Longrightarrow> pack_uint w (int a) = Inr (be_bytes w a)"
proof -
  assume "a < 256 ^ w"
  then have "int a < int (256 ^ w)" by (simp only: of_nat_less_iff)
  then show ?thesis by (simp add: pack_uint_def)
qed

text \<open>The form of a packet.\<close>

definition frames_message :: "nat \<times> string \<Rightarrow> string \<Rightarrow> bool" where
  "frames_message mp packet \<longleftrightarrow> (\<exists>n pad. packet = be_bytes 4 n @ [char_of (length pad)] @ (char_of (fst mp) # snd mp) @ pad \<and>
     n = 2 + length (snd mp) + length pad \<and> n < 4294967296 \<and> 4 \<le> length pad \<and> length pad < 256 \<and> fst mp < 256)"

lemma frames_read:
  assumes "frames_message mp packet"
  shows "plain_packet l (packet @ x) = (Packet (char_of (fst mp) # snd mp), l, x)"
proof -
  obtain n pad where p: "packet = be_bytes 4 n @ [char_of (length pad)] @ (char_of (fst mp) # snd mp) @ pad"
      "n = 2 + length (snd mp) + length pad" "n < 4294967296" "length pad < 256"
    using assms by (auto simp: frames_message_def)
  have "be_value (be_bytes 4 n) = n" using p(3) by (intro be_value_be_bytes) simp
  moreover have "(packet @ x) ! 4 = char_of (length pad)" by (simp add: p(1) nth_append)
  moreover have "of_char (char_of (length pad) :: char) = length pad" using p(4) by simp
  ultimately show ?thesis using p(2) by (simp add: plain_packet_def p(1) Let_def)
qed

lemma sends_one:
  assumes e: "unencrypted k e" and s: "\<not> t_kex s" "\<not> t_outComp s" and mp: "sendable (m, p)"
  shows "\<exists>packet t. sendPacket e m p s = (Inr (), t) \<and> t_wire t = t_wire s @ [packet] \<and> t_outSeq t = t_outSeq s + 1 \<and>
    \<not> t_kex t \<and> \<not> t_outComp t \<and> frames_message (m, p) packet \<and> length packet mod k = 0"
proof -
  let ?n = "6 + length p"
  let ?z = "pad_length k ?n"
  have k: "4 \<le> k" "k \<le> 252" using e by (simp_all add: unencrypted_def)
  note z = pad_length_bounds [OF k(1), of ?n]
  obtain pad s1 where pad: "padding_for e m ?z s = (Inr pad, s1)" "length pad = ?z" "t_wire s1 = t_wire s" "t_outSeq s1 = t_outSeq s"
      "t_kex s1 = t_kex s" "t_outComp s1 = t_outComp s"
  proof (cases "m = MSG_KEXINIT")
    case True
    then show ?thesis using that by (simp add: padding_for_def)
  next
    case False
    obtain q l where "secure_random e ?z (t_lib s) = (q, l)" by fastforce
    moreover have "length q = ?z" using e calculation by (simp add: unencrypted_def) (metis fst_conv)
    ultimately show ?thesis using that False by (simp add: padding_for_def on_lib_def)
  qed
  let ?packet = "be_bytes 4 (?n + ?z - 5 + 1) @ [char_of ?z] @ (char_of m # p) @ pad"
  have len: "?n + ?z - 4 = ?n + ?z - 5 + 1" "?n + ?z - 4 < 256 ^ 4" "?z < 256"
    using z k mp by (simp_all add: sendable_def)
  obtain l where l: "encrypt e ?packet (t_lib s1) = (?packet, l)" using e unfolding unencrypted_def by (metis prod.collapse)
  have pk: "pack_uint 4 (int (?n + ?z - 4)) = Inr (be_bytes 4 (?n + ?z - 5 + 1))" "pack_uint 1 (int ?z) = Inr [char_of ?z]"
    using pack_uint_nat [of "?n + ?z - 4" 4] pack_uint_nat [of ?z 1] len by simp_all
  let ?t = "s1\<lparr>t_lib := l, t_wire := t_wire s1 @ [?packet], t_outSeq := t_outSeq s1 + 1\<rparr>"
  have "sendPacket e m p s = (Inr (), ?t)"
    using s mp pad(1) l pk e
    by (simp add: sendPacket_def sendable_def Let_def on_lib_def wire_write_def unencrypted_def)
  moreover have "frames_message (m, p) ?packet"
    unfolding frames_message_def using pad(2) z len mp
    by (intro exI [of _ "?n + ?z - 5 + 1"] exI [of _ pad]) (simp add: sendable_def)
  moreover have "length ?packet mod k = 0" using z(3) pad(2) k(1) by (simp add: add.assoc)
  ultimately show ?thesis using pad s by (intro exI [of _ ?packet] exI [of _ ?t]) simp
qed


lemma sends_all:
  assumes "unencrypted k e" and "\<not> t_kex s" and "\<not> t_outComp s" and "list_all sendable ms"
  shows "\<exists>packets t. send_all e ms s = (Inr (), t) \<and> t_wire t = t_wire s @ packets \<and> t_outSeq t = t_outSeq s + length ms \<and>
    list_all2 frames_message ms packets \<and> (\<forall>p \<in> set packets. length p mod k = 0)"
  using assms(2-)
proof (induction ms arbitrary: s)
  case (Cons mp ms)
  obtain m p where mp: "mp = (m, p)" by fastforce
  then obtain packet t where t: "sendPacket e m p s = (Inr (), t)" "t_wire t = t_wire s @ [packet]" "t_outSeq t = t_outSeq s + 1"
      "\<not> t_kex t" "\<not> t_outComp t" "frames_message (m, p) packet" "length packet mod k = 0"
    using sends_one [OF assms(1) Cons.prems(1,2), of m p] Cons.prems(3) by auto
  obtain packets u where u: "send_all e ms t = (Inr (), u)" "t_wire u = t_wire t @ packets" "t_outSeq u = t_outSeq t + length ms"
      "list_all2 frames_message ms packets" "\<forall>p \<in> set packets. length p mod k = 0"
    using Cons.IH [OF t(4,5)] Cons.prems(3) by auto
  show ?case
    using t u mp by (intro exI [of _ "packet # packets"] exI [of _ u]) simp
qed simp

section \<open>Sent and received\<close>

lemma peer_reads:
  "list_all2 frames_message ms packets \<Longrightarrow> length (concat packets) < n \<Longrightarrow> t_buf s = concat packets \<Longrightarrow>
   drain peer n s = (Inr (), s\<lparr>t_buf := [], t_lib := t_lib s @ ms\<rparr>) \<and> no_empty peer n s"
proof (induction ms arbitrary: packets n s)
  case Nil
  then obtain k where k: "n = Suc k" by (cases n) auto
  have g: "get_packet peer (t_lib s) (t_buf s) = (NotYet, t_lib s, [])" using Nil by (simp add: peer_def plain_packet_def)
  then show ?case using k by (simp add: drain_NotYet no_empty.simps(2))
next
  case (Cons mp ms)
  then obtain packet rest where p: "packets = packet # rest" "frames_message mp packet" "list_all2 frames_message ms rest"
    by (auto simp: list_all2_Cons1)
  obtain k where k: "n = Suc k" using Cons.prems(2) by (cases n) auto
  obtain m q where mq: "mp = (m, q)" by fastforce
  have m: "m < 256" "length packet > 0" using p(2) mq by (auto simp: frames_message_def)
  have g: "get_packet peer (t_lib s) (t_buf s) = (Packet (char_of m # q), t_lib s, concat rest)"
    using frames_read [OF p(2), of "t_lib s" "concat rest"] Cons.prems(3) p(1) mq by (simp add: peer_def)
  let ?t = "s\<lparr>t_buf := concat rest, t_lib := t_lib s @ [(m, q)]\<rparr>"
  have d: "dispatch peer (of_char (char_of m :: char)) q (s\<lparr>t_lib := t_lib s, t_buf := concat rest\<rparr>) = (Inr (), ?t)"
    using m(1) by (simp add: peer_def)
  have "drain peer k ?t = (Inr (), ?t\<lparr>t_buf := [], t_lib := t_lib ?t @ ms\<rparr>) \<and> no_empty peer k ?t"
  proof (rule Cons.IH [OF p(3)])
    have "length packet + length (concat rest) < Suc k" using Cons.prems(2) p(1) k by simp
    with m(2) show "length (concat rest) < k" by linarith
  qed simp
  then show ?case using g d k mq by (simp add: drain_Packet no_empty.simps(2))
qed

definition between_packets :: "'l conn \<Rightarrow> bool" where
  "between_packets r \<longleftrightarrow> t_gotVersion r \<and> t_buf r = [] \<and> \<not> t_closing r"



definition ex_conn :: "messages conn" where
  "ex_conn = \<lparr>t_lib = [], t_buf = [], t_gotVersion = False, t_otherVersion = [], t_wire = [], t_closing = False, t_timeout = None,
     t_kex = False, t_blocked = [], t_outType = PyBytes [], t_inType = PyBytes [], t_outComp = False, t_inComp = False, t_outSeq = 0,
     t_start = Some 0, t_notes = []\<rparr>"

text \<open>A line cut twice, the cut packet after it, and a second one.\<close>

theorem pieces_do_not_matter_witness:
  "t_lib (snd (deliver_all peer [''SSH-2'', ''.0-x'' @ [CHR 0x0D], [CHR 0x0A, CHR 0x00, CHR 0x00], [CHR 0x00, CHR 0x06, CHR 0x04, CHR 0x15] @
       ''pad!'' @ [CHR 0x00], [CHR 0x00, CHR 0x00, CHR 0x06, CHR 0x04, CHR 0x02] @ ''pads''] ex_conn)) = [(21, []), (2, [])]"
proof -
  let ?ps = "[''SSH-2'', ''.0-x'' @ [CHR 0x0D], [CHR 0x0A, CHR 0x00, CHR 0x00], [CHR 0x00, CHR 0x06, CHR 0x04, CHR 0x15] @
       ''pad!'' @ [CHR 0x00], [CHR 0x00, CHR 0x00, CHR 0x06, CHR 0x04, CHR 0x02] @ ''pads'']"
  let ?w = "snd (dataReceived peer (concat ?ps) ex_conn)"
  have run: "fst (dataReceived peer (concat ?ps) ex_conn) = Inr ()" "\<not> t_closing ?w" "no_empty_packet peer (concat ?ps) ex_conn"
    "t_lib ?w = [(21, []), (2, [])]" "\<not> t_closing ex_conn" by code_simp+
  then have "dataReceived peer (concat ?ps) ex_conn = (Inr (), ?w)" by (metis prod.collapse)
  from pieces_do_not_matter [OF peer_laws _ run(5) this run(2,3)] run(4) show ?thesis by simp
qed


section \<open>The fingerprint\<close>

definition hassh_text :: "string \<Rightarrow> string \<Rightarrow> string \<Rightarrow> string \<Rightarrow> string" where
  "hassh_text k c m z = k @ '';'' @ c @ '';'' @ m @ '';'' @ z"

lemma joined_names_ascii: "ascii s \<Longrightarrow> joined_names (split_str '','' s) = Inr s"
proof -
  assume s: "ascii s"
  have "decode_all ws = Inr ws" if "\<forall>w \<in> set ws. ascii w" for ws
    using that by (induction ws) (simp_all add: py_decode_ascii)
  moreover have "ascii w" if "w \<in> set (split_str '','' s)" for w
    using join_parts [OF that, of "'',''"] s by (auto simp: join_split_str ascii_def list_all_iff)
  ultimately show ?thesis by (simp add: joined_names_def join_split_str)
qed

lemma cut_at: "d \<notin> set a \<Longrightarrow> d \<notin> set b \<Longrightarrow> a @ d # x = b @ d # y \<Longrightarrow> a = b \<and> x = y"
proof (induction a arbitrary: b)
  case Nil
  then show ?case by (cases b) auto
next
  case (Cons c a)
  then show ?case by (cases b) auto
qed

text \<open>The fingerprint logged for a client is the MD5 of its key exchange methods, ciphers, MACs and compressions as it
  sent them, with semicolons between, and the exchange goes on; for names without a semicolon the text
  determines the four lists, so clients with different ones differ in what is hashed.\<close>

theorem kex_fingerprint:
  assumes "get_ns e 10 (drop 16 packet) = Inr [k, hk, c, c', m, m', z, z', l, l', rest]" and "list_all ascii [k, c, m, z]"
  shows "ssh_KEXINIT e packet s = base_KEXINIT e packet (s\<lparr>t_notes := t_notes s @ [ClientKex (md5_hex (hassh_text k c m z))
      (hassh_text k c m z) (map (split_str '','') [k, hk, c, m, z, l])]\<rparr>) \<and>
    (\<forall>k2 c2 m2 z2. CHR '';'' \<notin> set (k @ c @ m @ k2 @ c2 @ m2) \<longrightarrow> hassh_text k c m z = hassh_text k2 c2 m2 z2 \<longrightarrow>
      k2 = k \<and> c2 = c \<and> m2 = m \<and> z2 = z)"
proof
  have "hassh_algorithms (split_str '','' k) (split_str '','' c) (split_str '','' m) (split_str '','' z) = Inr (hassh_text k c m z)"
    using assms(2) by (simp add: hassh_algorithms_def joined_names_ascii hassh_text_def)
  then show "ssh_KEXINIT e packet s = base_KEXINIT e packet (s\<lparr>t_notes := t_notes s @ [ClientKex (md5_hex (hassh_text k c m z))
      (hassh_text k c m z) (map (split_str '','') [k, hk, c, m, z, l])]\<rparr>)"
    using assms(1) by (simp add: ssh_KEXINIT_def ssh_log_def)
  show "\<forall>k2 c2 m2 z2. CHR '';'' \<notin> set (k @ c @ m @ k2 @ c2 @ m2) \<longrightarrow> hassh_text k c m z = hassh_text k2 c2 m2 z2 \<longrightarrow>
      k2 = k \<and> c2 = c \<and> m2 = m \<and> z2 = z"
    by (auto simp: hassh_text_def dest!: cut_at [rotated 2])
qed

theorem kex_fingerprint_witness:
  "let e = peer\<lparr>get_ns := (\<lambda>n s. Inr [''dh1,dh2'', ''rsa'', ''aes'', ''aes'', ''md5'', ''md5'', ''none'', ''none'', [], [], []])\<rparr>
   in t_notes (snd (ssh_KEXINIT e [] ex_conn)) = [ClientKex (md5_hex ''dh1,dh2;aes;md5;none'') ''dh1,dh2;aes;md5;none''
     [[''dh1'', ''dh2''], [''rsa''], [''aes''], [''md5''], [''none''], [[]]]]"
proof -
  let ?e = "peer\<lparr>get_ns := (\<lambda>n s. Inr [''dh1,dh2'', ''rsa'', ''aes'', ''aes'', ''md5'', ''md5'', ''none'', ''none'', [], [], []])\<rparr>"
  have "list_all ascii [''dh1,dh2'', ''aes'', ''md5'', ''none'']" by code_simp
  moreover have "get_ns ?e 10 (drop 16 []) = Inr [''dh1,dh2'', ''rsa'', ''aes'', ''aes'', ''md5'', ''md5'', ''none'', ''none'', [], [], []]" by simp
  moreover have "map (split_str '','') [''dh1,dh2'', ''rsa'', ''aes'', ''md5'', ''none'', []] =
      [[''dh1'', ''dh2''], [''rsa''], [''aes''], [''md5''], [''none''], [[]]]" by code_simp
  ultimately show ?thesis
    using kex_fingerprint [of ?e "[]" "''dh1,dh2''" "''rsa''" "''aes''" "''aes''" "''md5''" "''md5''" "''none''" "''none''" "[]" "[]" "[]" ex_conn]
    by (simp add: hassh_text_def ex_conn_def) (simp add: peer_def)
qed

text \<open>The comparison of a service's name with text never holds, so no service turns compression on.\<close>

lemma never_compressed: "setService e n s = py_bind (if n = ''ssh-connection'' then set_timeout (Some (interactive_timeout e)) else py_return ())
    (\<lambda>_. base_setService e n) s"
  by (simp add: setService_def set_timeout_def)

end
