(* ===== verification/TelnetLogin.thy ===== *)
theory TelnetLogin
  imports Bytes
begin

text \<open>
  The telnet honeypot before its shell: \<open>cowrie/telnet/transport.py\<close> and \<open>cowrie/telnet/userauth.py\<close>. Twisted
  calls the method named by the state with each line and takes its result as the next state; what comes of
  negotiations and of a login is an event. With them, that the two questions alternate whatever comes.
\<close>

section \<open>The state\<close>

datatype asking = User | Password | Discard | Command

text \<open>A login waits for the end of the negotiation of echo, then for the portal.\<close>

datatype progress = Settling string string | Deciding string string

record telnet =
  tn_state :: asking
  tn_username :: "string option"
  tn_window :: "nat list"
  tn_options :: bool
  tn_wire :: "string list"
  tn_refusals :: nat
  tn_pending :: "progress list"
  tn_logins :: "(string \<times> string) list"
  tn_shell :: "nat list option"
  tn_passed :: "string list"
  tn_timeout :: int

type_synonym 'a telnet_py = "(telnet, 'a) py"

definition ECHO :: char where
  "ECHO = CHR 0x01"

definition loginPrompt :: string where
  "loginPrompt = [CHR 0xFF, CHR 0xFC, CHR 0x01, CHR 0xFF, CHR 0xFB, CHR 0x01, CHR 0xFF, CHR 0xFB, CHR 0x03, CHR 0xFF, CHR 0xFD, CHR 0x18,
     CHR 0xFF, CHR 0xFB, CHR 0x18, CHR 0xFF, CHR 0xFD, CHR 0x1F, CHR 0xFF, CHR 0xFB, CHR 0x1F, CHR 0xFF, CHR 0xFB, CHR 0x22,
     CHR 0xFF, CHR 0xFB, CHR 0x05] @ ''Login:''"

definition passwordPrompt :: string where
  "passwordPrompt = ''Password:''"

section \<open>Writing\<close>

definition lf :: string where
  "lf = [CHR 0x0A]"

definition transport_write :: "string \<Rightarrow> unit telnet_py" where
  "transport_write data = py_modify (\<lambda>s. s\<lparr>tn_wire := tn_wire s @ [replace_all [CHR 0x0D, CHR 0x0A] lf data]\<rparr>)"

definition telnet_connectionMade :: "string \<Rightarrow> unit telnet_py" where
  "telnet_connectionMade banner = py_bind (transport_write (replace_all lf [CHR 0x0D, CHR 0x0D, CHR 0x0A] banner))
     (\<lambda>_. transport_write loginPrompt)"

section \<open>Logging in\<close>

definition set_asking :: "asking \<Rightarrow> unit telnet_py" where
  "set_asking a = py_modify (\<lambda>s. s\<lparr>tn_state := a\<rparr>)"

definition telnet_User :: "string \<Rightarrow> asking telnet_py" where
  "telnet_User line = py_bind (py_modify (\<lambda>s. s\<lparr>tn_username := Some line\<rparr>)) (\<lambda>_.
     py_bind (transport_write passwordPrompt) (\<lambda>_. py_return Password))"

text \<open>A client that has negotiated nothing is logged in without waiting.\<close>

definition telnet_Password :: "string \<Rightarrow> asking telnet_py" where
  "telnet_Password line = py_bind py_get (\<lambda>s. case tn_username s of
       None \<Rightarrow> py_raise (AttributeError ''username'')
     | Some u \<Rightarrow> py_bind (py_modify (\<lambda>s. s\<lparr>tn_username := None\<rparr>)) (\<lambda>_.
         py_bind (if tn_options s
           then py_modify (\<lambda>s. s\<lparr>tn_refusals := tn_refusals s + 1, tn_pending := tn_pending s @ [Settling u line]\<rparr>)
           else py_modify (\<lambda>s. s\<lparr>tn_logins := tn_logins s @ [(u, line)], tn_pending := tn_pending s @ [Deciding u line]\<rparr>)) (\<lambda>_.
         py_return Discard)))"

text \<open>\<open>telnet_Command\<close> passes a line on to the shell's protocol.\<close>

definition telnet_Command :: "string \<Rightarrow> asking telnet_py" where
  "telnet_Command command = py_bind (py_modify (\<lambda>s. s\<lparr>tn_passed := tn_passed s @ [command @ [CHR 0x0D]]\<rparr>)) (\<lambda>_. py_return Command)"

definition cbLogin :: "int \<Rightarrow> unit telnet_py" where
  "cbLogin interactive_timeout = py_bind (set_asking Command) (\<lambda>_. py_bind (transport_write lf) (\<lambda>_.
     py_modify (\<lambda>s. s\<lparr>tn_timeout := interactive_timeout, tn_shell := Some (tn_window s)\<rparr>)))"

definition ebLogin :: "unit telnet_py" where
  "ebLogin = py_bind (py_modify (\<lambda>s. s\<lparr>tn_refusals := tn_refusals s + 1\<rparr>)) (\<lambda>_. py_bind (transport_write lf) (\<lambda>_.
     py_bind (transport_write loginPrompt) (\<lambda>_. set_asking User)))"

text \<open>Four bytes are the width and the height.\<close>

definition telnet_NAWS :: "string list \<Rightarrow> unit telnet_py" where
  "telnet_NAWS data = (if length data = 4 then
       py_bind (py_lift (unpack_uint 2 (take 2 (concat data)))) (\<lambda>width.
       py_bind (py_lift (unpack_uint 2 (drop 2 (concat data)))) (\<lambda>height.
       py_modify (\<lambda>s. s\<lparr>tn_window := [height, width]\<rparr>)))
     else py_return ())"

definition enableLocal :: "char \<Rightarrow> bool" where
  "enableLocal opt \<longleftrightarrow> opt = ECHO"

definition enableRemote :: "char \<Rightarrow> bool" where
  "enableRemote opt \<longleftrightarrow> opt = CHR 0x1F \<or> opt = CHR 0x03"


section \<open>Events\<close>

datatype telnet_event = Line string | Settled | Admitted | Refused

text \<open>After a login the transport's protocol is the shell's, which gets the lines.\<close>

definition telnet_line :: "string \<Rightarrow> unit telnet_py" where
  "telnet_line line = py_bind py_get (\<lambda>s. if tn_shell s \<noteq> None then py_return () else case tn_state s of
       User \<Rightarrow> py_bind (telnet_User line) set_asking
     | Password \<Rightarrow> py_bind (telnet_Password line) set_asking
     | Discard \<Rightarrow> py_return ()
     | Command \<Rightarrow> py_bind (telnet_Command line) set_asking)"

text \<open>The inner function \<open>login\<close>, when the negotiation is over.\<close>

definition portal_login :: "unit telnet_py" where
  "portal_login = py_modify (\<lambda>s. case tn_pending s of
       Settling u p # ps \<Rightarrow> s\<lparr>tn_logins := tn_logins s @ [(u, p)], tn_pending := Deciding u p # ps\<rparr>
     | _ \<Rightarrow> s)"

definition decided :: "unit telnet_py \<Rightarrow> unit telnet_py" where
  "decided callback = py_bind py_get (\<lambda>s. case tn_pending s of
       Deciding u p # ps \<Rightarrow> py_bind (py_modify (\<lambda>s. s\<lparr>tn_pending := ps\<rparr>)) (\<lambda>_. callback)
     | _ \<Rightarrow> py_return ())"

definition telnet_event :: "int \<Rightarrow> telnet_event \<Rightarrow> unit telnet_py" where
  "telnet_event timeout ev = (case ev of
       Line line \<Rightarrow> telnet_line line
     | Settled \<Rightarrow> portal_login
     | Admitted \<Rightarrow> decided (cbLogin timeout)
     | Refused \<Rightarrow> decided ebLogin)"

definition telnet_step :: "int \<Rightarrow> telnet_event \<Rightarrow> telnet \<Rightarrow> telnet" where
  "telnet_step timeout ev s = snd (telnet_event timeout ev s)"

definition telnet_start :: "bool \<Rightarrow> string \<Rightarrow> int \<Rightarrow> telnet" where
  "telnet_start options banner auth_timeout = snd (telnet_connectionMade banner \<lparr>tn_state = User, tn_username = None, tn_window = [40, 80],
     tn_options = options, tn_wire = [], tn_refusals = 0, tn_pending = [], tn_logins = [], tn_shell = None, tn_passed = [],
     tn_timeout = auth_timeout\<rparr>)"

section \<open>What always holds\<close>

definition telnet_inv :: "telnet \<Rightarrow> bool" where
  "telnet_inv s \<longleftrightarrow> (tn_username s \<noteq> None \<longleftrightarrow> tn_state s = Password) \<and>
     (if tn_state s = Discard then length (tn_pending s) = 1 else tn_pending s = []) \<and>
     (tn_shell s \<noteq> None \<longleftrightarrow> tn_state s = Command)"

lemmas telnet_defs = telnet_event_def telnet_line_def telnet_User_def telnet_Password_def telnet_Command_def cbLogin_def ebLogin_def
  portal_login_def decided_def set_asking_def transport_write_def

lemma telnet_never_raises: "telnet_inv s \<Longrightarrow> \<exists>t. telnet_event timeout ev s = (Inr (), t) \<and> telnet_inv t"
  by (cases ev; cases "tn_state s"; cases "tn_username s"; cases "tn_pending s"; cases "hd (tn_pending s)")
    (auto simp: telnet_inv_def telnet_defs)

interpretation asking: transition_system "telnet_start options banner auth" "telnet_step timeout" telnet_inv
  for options banner auth timeout
proof
  show "telnet_inv (telnet_start options banner auth)"
    by (simp add: telnet_start_def telnet_connectionMade_def transport_write_def telnet_inv_def)
  show "telnet_inv (telnet_step timeout ev s)" if "telnet_inv s" for ev s
    using telnet_never_raises [OF that, of timeout ev] by (auto simp: telnet_step_def)
qed

section \<open>Attempts\<close>

text \<open>An attempt that is refused: two lines, the end of the negotiation if there is one, lines typed meanwhile, the refusal.\<close>

definition attempt_events :: "bool \<Rightarrow> string \<times> string \<times> string list \<Rightarrow> telnet_event list" where
  "attempt_events options a = (case a of (u, p, meanwhile) \<Rightarrow>
     [Line u, Line p] @ (if options then [Settled] else []) @ map Line meanwhile @ [Refused])"

definition credentials :: "string \<times> string \<times> string list \<Rightarrow> string \<times> string" where
  "credentials a = (fst a, fst (snd a))"

lemma prompts_unchanged: "replace_all [CHR 0x0D, CHR 0x0A] lf loginPrompt = loginPrompt"
  "replace_all [CHR 0x0D, CHR 0x0A] lf passwordPrompt = passwordPrompt" "replace_all [CHR 0x0D, CHR 0x0A] lf lf = lf"
  by code_simp+

lemma discards: "tn_state s = Discard \<Longrightarrow> fold (telnet_step t) (map Line ls) s = s"
proof (induction ls)
  case (Cons l ls)
  then have "telnet_step t (Line l) s = s" by (simp add: telnet_step_def telnet_event_def telnet_line_def)
  with Cons show ?case by simp
qed simp

definition asking_user :: "telnet \<Rightarrow> bool" where
  "asking_user s \<longleftrightarrow> tn_state s = User \<and> tn_shell s = None \<and> tn_pending s = [] \<and> tn_username s = None"

lemma one_attempt:
  assumes "asking_user s"
  shows "let t = fold (telnet_step k) (attempt_events (tn_options s) a) s in asking_user t \<and> tn_options t = tn_options s \<and>
    tn_logins t = tn_logins s @ [credentials a] \<and> tn_wire t = tn_wire s @ [passwordPrompt, lf, loginPrompt] \<and>
    tn_window t = tn_window s \<and> tn_passed t = tn_passed s"
proof -
  obtain u p ls where a: "a = (u, p, ls)" by (metis prod_cases3)
  let ?d = "s\<lparr>tn_username := None, tn_wire := tn_wire s @ [passwordPrompt], tn_logins := tn_logins s @ [(u, p)],
     tn_refusals := tn_refusals s + (if tn_options s then 1 else 0), tn_pending := [Deciding u p], tn_state := Discard\<rparr>"
  have "fold (telnet_step k) ([Line u, Line p] @ (if tn_options s then [Settled] else [])) s = ?d"
    using assms by (cases s) (simp add: asking_user_def telnet_step_def telnet_defs prompts_unchanged)
  then have "fold (telnet_step k) (attempt_events (tn_options s) a) s = telnet_step k Refused ?d"
    using discards [of ?d k ls] by (simp add: attempt_events_def a)
  then show ?thesis
    using assms by (simp add: Let_def asking_user_def telnet_step_def telnet_defs prompts_unchanged credentials_def a)
qed

text \<open>C17: Whatever is typed at the telnet honeypot's prompts: no event raises; every two lines are one attempt, with exactly
  these as name and password, in order; what is typed while one is decided is dropped and becomes part of
  no attempt; and after each refusal the session is asked again, by the same bytes.\<close>

theorem telnet_attempts:
  "(\<forall>evs ev. fst (telnet_event k ev (fold (telnet_step k) evs (telnet_start options banner auth))) = Inr ()) \<and>
   (let s = telnet_start options banner auth; t = fold (telnet_step k) (concat (map (attempt_events options) atts)) s in
      asking_user t \<and> tn_logins t = map credentials atts \<and> tn_passed t = [] \<and>
      tn_wire t = tn_wire s @ concat (replicate (length atts) [passwordPrompt, lf, loginPrompt]))"
proof -
  let ?s = "telnet_start options banner auth"
  have "fst (telnet_event k ev (fold (telnet_step k) evs ?s)) = Inr ()" for evs ev
    using telnet_never_raises [OF asking.inv_reachable] by (metis fst_conv)
  moreover have s: "asking_user ?s" "tn_options ?s = options" "tn_logins ?s = []" "tn_passed ?s = []"
    by (simp_all add: telnet_start_def telnet_connectionMade_def transport_write_def asking_user_def)
  have "asking_user s \<Longrightarrow> tn_options s = options \<Longrightarrow>
      let t = fold (telnet_step k) (concat (map (attempt_events options) atts)) s in asking_user t \<and>
        tn_logins t = tn_logins s @ map credentials atts \<and> tn_passed t = tn_passed s \<and>
        tn_wire t = tn_wire s @ concat (replicate (length atts) [passwordPrompt, lf, loginPrompt])" for s
  proof (induction atts arbitrary: s)
    case (Cons a atts)
    note one = one_attempt [OF Cons.prems(1), of k a, unfolded Let_def Cons.prems(2)]
    show ?case using Cons.IH [of "fold (telnet_step k) (attempt_events options a) s"] one by (simp add: Let_def)
  qed (simp add: Let_def)
  from this [OF s(1,2)] s(3,4) have "let t = fold (telnet_step k) (concat (map (attempt_events options) atts)) ?s in
      asking_user t \<and> tn_logins t = map credentials atts \<and> tn_passed t = [] \<and>
      tn_wire t = tn_wire ?s @ concat (replicate (length atts) [passwordPrompt, lf, loginPrompt])" by simp
  ultimately show ?thesis by (simp add: Let_def)
qed

text \<open>No method is registered for the sizes a client sends, so the shell always gets the first ones.\<close>

lemma window_fixed: "tn_window (fold (telnet_step k) evs (telnet_start options banner auth)) = [40, 80]"
proof -
  have step: "tn_window (telnet_step k ev s) = tn_window s" for ev s
    by (cases ev; cases "tn_state s"; cases "tn_username s"; cases "tn_pending s"; cases "hd (tn_pending s)")
      (auto simp: telnet_step_def telnet_defs)
  have "tn_window (fold (telnet_step k) evs s) = tn_window s" for s by (induction evs arbitrary: s) (simp_all add: step)
  then show ?thesis by (simp add: telnet_start_def telnet_connectionMade_def transport_write_def)
qed

text \<open>The two replacements of a banner's lines undo each other but for one carriage return.\<close>

lemma banner_lines:
  "CHR 0x0D \<notin> set banner \<Longrightarrow> hd (tn_wire (telnet_start options banner auth)) = replace_all lf [CHR 0x0D, CHR 0x0A] banner"
proof -
  assume b: "CHR 0x0D \<notin> set banner"
  have twice: "replace_all [CHR 0x0D, CHR 0x0A] lf (join [CHR 0x0D, CHR 0x0D, CHR 0x0A] ls) = join [CHR 0x0D, CHR 0x0A] ls"
    if "\<forall>l \<in> set ls. CHR 0x0D \<notin> set l" for ls
    using that
  proof (induction ls rule: induct_list012)
    case (2 x)
    then show ?case by (simp add: replace_all_def split_str_single)
  next
    case (3 x y zs)
    have "replace_all [CHR 0x0D, CHR 0x0A] lf (x @ [CHR 0x0D] @ [CHR 0x0D, CHR 0x0A] @ r) = x @ [CHR 0x0D] @ lf @ replace_all [CHR 0x0D, CHR 0x0A] lf r" for r
    proof -
      have "split_str [CHR 0x0D, CHR 0x0A] ([CHR 0x0D] @ [CHR 0x0D, CHR 0x0A] @ r) = [CHR 0x0D] # split_str [CHR 0x0D, CHR 0x0A] r"
        by (simp add: starts_with_def)
      then have "split_str [CHR 0x0D, CHR 0x0A] (w @ [CHR 0x0D] @ [CHR 0x0D, CHR 0x0A] @ r) = (w @ [CHR 0x0D]) # split_str [CHR 0x0D, CHR 0x0A] r"
        if "CHR 0x0D \<notin> set w" for w
        using that
      proof (induction w)
        case (Cons c w)
        then have "c \<noteq> CHR 0x0D" by auto
        then have "\<not> starts_with (c # w @ [CHR 0x0D] @ [CHR 0x0D, CHR 0x0A] @ r) [CHR 0x0D, CHR 0x0A]" by (simp add: starts_with_def)
        with Cons show ?case by simp
      qed simp
      then show ?thesis using "3.prems" by (simp add: replace_all_def join_Cons)
    qed
    with 3 show ?case by (simp add: join_Cons lf_def)
  qed (simp add: replace_all_def)
  have "\<forall>l \<in> set (split_str lf banner). CHR 0x0D \<notin> set l"
    using b join_parts [of _ "split_str lf banner" lf] by (auto simp: join_split_str)
  from twice [OF this] show ?thesis
    by (simp add: telnet_start_def telnet_connectionMade_def transport_write_def replace_all_def)
qed

end
