(* ===== verification/Optparse.thy ===== *)
theory Optparse
  imports Bytes
begin

text \<open>
  \<open>optparse.OptionParser\<close> of the standard library, as far as the commands of the shell use it: options that
  store a flag, options that store their argument, and options with a callback that takes the next argument
  if it does not look like an option. Every error of the parser calls its method \<open>error\<close>, which here is
  the result None.
\<close>

datatype opt_value = OptTrue | OptText string

datatype opt_kind = StoreTrue | StoreArg | OptionalArg

type_synonym opt_specs = "(string \<times> string \<times> opt_kind) list"

type_synonym opt_values = "string \<rightharpoonup> opt_value"

text \<open>Whether a value is true.\<close>

fun opt_true :: "opt_value option \<Rightarrow> bool" where
  "opt_true (Some (OptText t)) = (t \<noteq> [])"
| "opt_true (Some OptTrue) = True"
| "opt_true None = False"

text \<open>\<open>Option.process\<close>, with the arguments that are left.\<close>

fun process_option :: "opt_kind \<Rightarrow> string \<Rightarrow> opt_values \<Rightarrow> string list \<Rightarrow> (opt_values \<times> string list) option" where
  "process_option StoreTrue dest vs rargs = Some (vs(dest \<mapsto> OptTrue), rargs)"
| "process_option StoreArg dest vs [] = None"
| "process_option StoreArg dest vs (v # rargs) = Some (vs(dest \<mapsto> OptText v), rargs)"
| "process_option OptionalArg dest vs [] = Some (vs(dest \<mapsto> OptTrue), [])"
| "process_option OptionalArg dest vs (v # rargs) = Some (if starts_with v ''-'' then (vs(dest \<mapsto> OptTrue), v # rargs)
     else (vs(dest \<mapsto> OptText v), rargs))"

text \<open>The letters behind one dash; what follows an option with an argument is its argument.\<close>

fun short_opts :: "opt_specs \<Rightarrow> string \<Rightarrow> opt_values \<Rightarrow> string list \<Rightarrow> (opt_values \<times> string list) option" where
  "short_opts specs [] vs rargs = Some (vs, rargs)"
| "short_opts specs (c # cs) vs rargs = (case map_of specs [CHR ''-'', c] of
       None \<Rightarrow> None
     | Some (dest, k) \<Rightarrow>
         if k = StoreArg \<and> cs \<noteq> [] then process_option k dest vs (cs # rargs)
         else (case process_option k dest vs rargs of
             None \<Rightarrow> None
           | Some (vs', rargs') \<Rightarrow> short_opts specs cs vs' rargs'))"

text \<open>A long option may be cut short if what is left is the beginning of only one.\<close>

definition match_long :: "opt_specs \<Rightarrow> string \<Rightarrow> string option" where
  "match_long specs s = (if s \<in> fst ` set specs then Some s else case filter (\<lambda>w. starts_with w s) (map fst specs) of
       [w] \<Rightarrow> Some w
     | _ \<Rightarrow> None)"

definition long_opt :: "opt_specs \<Rightarrow> string \<Rightarrow> opt_values \<Rightarrow> string list \<Rightarrow> (opt_values \<times> string list) option" where
  "long_opt specs arg vs rargs = (let s = takeWhile (\<lambda>c. c \<noteq> CHR ''='') arg; explicit = CHR ''='' \<in> set arg;
       next_arg = tl (dropWhile (\<lambda>c. c \<noteq> CHR ''='') arg) in
     case match_long specs s of
       None \<Rightarrow> None
     | Some w \<Rightarrow> (case map_of specs w of
           None \<Rightarrow> None
         | Some (dest, k) \<Rightarrow> if k = StoreArg then process_option k dest vs (if explicit then next_arg # rargs else rargs)
             else if explicit then None else process_option k dest vs rargs))"

lemma process_option_shorter: "process_option k dest vs rargs = Some (vs', rargs') \<Longrightarrow> length rargs' \<le> length rargs"
  by (induction k dest vs rargs rule: process_option.induct) (auto split: if_splits)

lemma process_arg_shorter: "process_option StoreArg dest vs rargs = Some (vs', rargs') \<Longrightarrow> Suc (length rargs') = length rargs"
  by (cases rargs) auto

lemma short_opts_shorter: "short_opts specs cs vs rargs = Some (vs', rargs') \<Longrightarrow> length rargs' \<le> length rargs"
proof (induction cs arbitrary: vs rargs)
  case (Cons c cs)
  then obtain dest k where d: "map_of specs [CHR ''-'', c] = Some (dest, k)" by (auto split: option.splits)
  show ?case
  proof (cases "k = StoreArg \<and> cs \<noteq> []")
    case True
    with Cons.prems d show ?thesis using process_arg_shorter [of dest vs "cs # rargs"] by auto
  next
    case False
    with Cons.prems d obtain v r where p: "process_option k dest vs rargs = Some (v, r)" "short_opts specs cs v r = Some (vs', rargs')"
      by (auto split: option.splits)
    show ?thesis using Cons.IH [OF p(2)] process_option_shorter [OF p(1)] by simp
  qed
qed simp

lemma long_opt_shorter: "long_opt specs arg vs rargs = Some (vs', rargs') \<Longrightarrow> length rargs' \<le> length rargs"
  by (auto simp: long_opt_def Let_def split: option.splits if_splits prod.splits dest: process_option_shorter process_arg_shorter)

text \<open>
  \<open>_process_args\<close>: the values and the arguments that are none. Each turn uses up the argument it looks at.
\<close>

function process_args :: "opt_specs \<Rightarrow> string list \<Rightarrow> opt_values \<Rightarrow> string list \<Rightarrow> (opt_values \<times> string list) option" where
  "process_args specs largs vs [] = Some (vs, largs)"
| "process_args specs largs vs (arg # rargs) =
     (if arg = ''--'' then Some (vs, largs @ rargs)
      else if starts_with arg ''--'' then (case long_opt specs arg vs rargs of
          None \<Rightarrow> None | Some (vs', rargs') \<Rightarrow> process_args specs largs vs' rargs')
      else if starts_with arg ''-'' \<and> length arg > 1 then (case short_opts specs (tl arg) vs rargs of
          None \<Rightarrow> None | Some (vs', rargs') \<Rightarrow> process_args specs largs vs' rargs')
      else process_args specs (largs @ [arg]) vs rargs)"
  by pat_completeness auto
termination
  by (relation "measure (\<lambda>(specs, largs, vs, rargs). length rargs)")
    (auto simp: less_Suc_eq_le dest: long_opt_shorter short_opts_shorter)

definition parse_args :: "opt_specs \<Rightarrow> opt_values \<Rightarrow> string list \<Rightarrow> (opt_values \<times> string list) option" where
  "parse_args specs defaults args = process_args specs [] defaults args"

end
