(* ===== verification/Iptables.thy ===== *)
theory Iptables
  imports FsCommands Optparse "HOL-Library.AList"
begin

text \<open>
  The emulated \<open>iptables\<close> (\<open>cowrie/commands/iptables.py\<close>). Its tables are an attribute of the server, so all
  sessions of it share them: they are created by the first run that gets as far, and a run may empty them.
\<close>

type_synonym chains = "(string \<times> string list list) list"

type_synonym tables = "(string \<times> chains) list"

record iptables =
  ip_cmd :: cmd
  ip_tables :: "tables option"
  current_table :: string

type_synonym 'a ip_py = "(iptables, 'a) py"

definition on_cmd :: "'a cmd_py \<Rightarrow> 'a ip_py" where
  "on_cmd m = (\<lambda>s. case m (ip_cmd s) of (r, c) \<Rightarrow> (r, s\<lparr>ip_cmd := c\<rparr>))"

section \<open>Messages\<close>

definition APP_NAME :: string where
  "APP_NAME = ''iptables''"

definition APP_VERSION :: string where
  "APP_VERSION = ''v1.4.14''"

definition quote_mark :: string where
  "quote_mark = [CHR 0x27]"

definition ip_exit :: "unit ip_py" where
  "ip_exit = on_cmd (logged_exit ''iptables'')"

definition ip_say :: "string \<Rightarrow> unit ip_py" where
  "ip_say message = py_bind (on_cmd (cmd_write message)) (\<lambda>_. ip_exit)"

definition try_help :: string where
  "try_help = ''Try `iptables -h'' @ quote_mark @ '' or '' @ quote_mark @ ''iptables --help'' @ quote_mark @ '' for more information.'' @ nl"

definition no_command :: "unit ip_py" where
  "no_command = ip_say (APP_NAME @ '' '' @ APP_VERSION @ '': no command specified'' @ quote_mark @ nl @ try_help)"

definition bad_argument :: "string \<Rightarrow> unit ip_py" where
  "bad_argument argument = ip_say (''Bad argument '' @ quote_mark @ argument @ quote_mark @ nl @ try_help)"

definition perhaps :: string where
  "perhaps = ''Perhaps iptables or your kernel needs to be upgraded.'' @ nl"

definition no_permission :: "unit ip_py" where
  "no_permission = ip_say (APP_NAME @ '' '' @ APP_VERSION @ '': can'' @ quote_mark @ ''t initialize iptables table '' @ quote_mark @
     ''filter'' @ quote_mark @ '': Permission denied (you must be root)'' @ nl @ perhaps)"

definition no_table :: "string \<Rightarrow> unit ip_py" where
  "no_table table = ip_say (APP_NAME @ '': can'' @ quote_mark @ ''t initialize iptables table '' @ quote_mark @ table @ quote_mark @
     '': Table does not exist (do you need to insmod?)'' @ nl @ perhaps)"

definition show_version :: "unit ip_py" where
  "show_version = ip_say (APP_NAME @ '' '' @ APP_VERSION @ nl)"

definition IPTABLES_HELP :: "string list" where
  "IPTABLES_HELP = [APP_NAME @ '' '' @ APP_VERSION @ quote_mark,
     [],
     ''Usage: iptables -[AD] chain rule-specification [options]'',
     ''       iptables -I chain [rulenum] rule-specification [options]'',
     ''       iptables -R chain rulenum rule-specification [options]'',
     ''       iptables -D chain rulenum [options]'',
     ''       iptables -[LS] [chain [rulenum]] [options]'',
     ''       iptables -[FZ] [chain] [options]'',
     ''       iptables -[NX] chain'',
     ''       iptables -E old-chain-name new-chain-name'',
     ''       iptables -P chain target [options]'',
     ''       iptables -h (print this help information)'',
     [],
     ''Commands:'',
     ''Either long or short options are allowed.'',
     ''  --append  -A chain       Append to chain'',
     ''  --delete  -D chain       Delete matching rule from chain'',
     ''  --delete  -D chain rulenum'',
     ''               Delete rule rulenum (1 = first) from chain'',
     ''  --insert  -I chain [rulenum]'',
     ''               Insert in chain as rulenum (default 1=first)'',
     ''  --replace -R chain rulenum'',
     ''               Replace rule rulenum (1 = first) in chain'',
     ''  --list    -L [chain [rulenum]]'',
     ''               List the rules in a chain or all chains'',
     ''  --list-rules -S [chain [rulenum]]'',
     ''               Print the rules in a chain or all chains'',
     ''  --flush   -F [chain]     Delete all rules in  chain or all chains'',
     ''  --zero    -Z [chain [rulenum]]'',
     ''               Zero counters in chain or all chains'',
     ''  --new     -N chain       Create a new user-defined chain'',
     ''  --delete-chain'',
     ''            -X [chain]     Delete a user-defined chain'',
     ''  --policy  -P chain target'',
     ''               Change policy on chain to target'',
     ''  --rename-chain'',
     ''            -E old-chain new-chain'',
     ''               Change chain name, (moving any references)'',
     ''Options:'',
     ''[!] --proto    -p proto    protocol: by number or name, eg. '' @ quote_mark @ ''tcp'' @ quote_mark,
     ''[!] --source   -s address[/mask][...]'',
     ''               source specification'',
     ''[!] --destination -d address[/mask][...]'',
     ''               destination specification'',
     ''[!] --in-interface -i input name[+]'',
     ''               network interface name ([+] for wildcard)'',
     ''  --jump    -j target'',
     ''               target for rule (may load target extension)'',
     ''  --goto      -g chain'',
     ''                              jump to chain with no return'',
     ''  --match  -m match'',
     ''               extended match (may load extension)'',
     ''  --numeric    -n      numeric output of addresses and ports'',
     ''[!] --out-interface -o output name[+]'',
     ''               network interface name ([+] for wildcard)'',
     ''  --table  -t table    table to manipulate (default: '' @ quote_mark @ ''filter'' @ quote_mark @ '')'',
     ''  --verbose    -v      verbose mode'',
     ''  --line-numbers       print line numbers when listing'',
     ''  --exact  -x      expand numbers (display exact values)'',
     ''[!] --fragment -f      match second or further fragments only'',
     ''  --modprobe=<command>     try to insert modules using this command'',
     ''  --set-counters PKTS BYTES    set the counter during insert/append'',
     ''[!] --version  -V      print package version.'']"

definition show_help :: "unit ip_py" where
  "show_help = ip_say (concat (map (\<lambda>l. l @ nl) IPTABLES_HELP))"

section \<open>Tables\<close>

definition FRESH_TABLES :: tables where
  "FRESH_TABLES =
    [(''raw'', [(''PREROUTING'', []), (''OUTPUT'', [])]),
     (''filter'', [
        (''INPUT'', [[''ACCEPT'', ''tcp'', ''--'', ''anywhere'', ''anywhere'', ''tcp'', ''dpt:ssh''],
                     [''DROP'', ''all'', ''--'', ''anywhere'', ''anywhere'', [], []]]),
        (''FORWARD'', []), (''OUTPUT'', [])]),
     (''mangle'', [(''PREROUTING'', []), (''INPUT'', []), (''FORWARD'', []), (''OUTPUT'', []), (''POSTROUTING'', [])]),
     (''nat'', [(''PREROUTING'', []), (''OUTPUT'', [])])]"

text \<open>The tables once they exist.\<close>

definition tables_of :: "tables option \<Rightarrow> tables" where
  "tables_of t = (case t of None \<Rightarrow> FRESH_TABLES | Some ts \<Rightarrow> ts)"

definition is_valid_table :: "bool \<Rightarrow> string \<Rightarrow> bool ip_py" where
  "is_valid_table root table = py_bind py_get (\<lambda>s.
     if root then (if table \<notin> fst ` set (tables_of (ip_tables s)) then py_bind (no_table table) (\<lambda>_. py_return False) else py_return True)
     else py_bind no_permission (\<lambda>_. py_return False))"

definition setup_table :: "bool \<Rightarrow> string \<Rightarrow> bool ip_py" where
  "setup_table root table = py_bind (py_modify (\<lambda>s. s\<lparr>ip_tables := Some (tables_of (ip_tables s))\<rparr>)) (\<lambda>_.
     py_bind (is_valid_table root table) (\<lambda>ok. if \<not> ok then py_return False
       else py_bind (py_modify (\<lambda>s. s\<lparr>current_table := table\<rparr>)) (\<lambda>_. py_return True)))"

definition current_chains :: "iptables \<Rightarrow> chains" where
  "current_chains s = (case map_of (tables_of (ip_tables s)) (current_table s) of None \<Rightarrow> [] | Some cs \<Rightarrow> cs)"

definition is_valid_chain :: "string \<Rightarrow> bool ip_py" where
  "is_valid_chain chain = py_bind py_get (\<lambda>s. if chain \<notin> fst ` set (current_chains s) then
       py_bind (ip_say (APP_NAME @ '': No chain/target/match by that name.'' @ nl)) (\<lambda>_. py_return False)
     else py_return True)"

text \<open>The chains that are named: one, which has to exist, or all of the table. What is printed for the operator is left out.\<close>

definition chosen_chains :: "string \<Rightarrow> (string list \<Rightarrow> unit ip_py) \<Rightarrow> unit ip_py" where
  "chosen_chains chain k = (if length chain > 0
     then py_bind (is_valid_chain chain) (\<lambda>ok. if \<not> ok then py_return () else k [chain])
     else py_bind py_get (\<lambda>s. k (map fst (current_chains s))))"

definition list_rules :: "bool \<Rightarrow> string \<Rightarrow> unit ip_py" where
  "list_rules root chain = (if \<not> root then no_permission else chosen_chains chain (\<lambda>named.
     ip_say (join nl (map (\<lambda>c. ''-P '' @ c @ '' ACCEPT'') named) @ nl)))"

text \<open>\<open>%-10s\<close> and the like pad with spaces; a rule has seven fields.\<close>

definition padded :: "nat \<Rightarrow> string \<Rightarrow> string" where
  "padded n s = s @ replicate (n - length s) (CHR '' '')"

definition rule_line :: "string list \<Rightarrow> string res" where
  "rule_line rule = (case rule of
       [a, b, c, d, e, f, g] \<Rightarrow> Inr (join '' '' [padded 10 a, padded 4 b, padded 3 c, padded 20 d, padded 20 e, f, g])
     | _ \<Rightarrow> Inl TypeError)"

fun rule_lines :: "string list list \<Rightarrow> string list res" where
  "rule_lines [] = Inr []"
| "rule_lines (r # rs) = bind_res (rule_line r) (\<lambda>l. bind_res (rule_lines rs) (\<lambda>ls. Inr (l # ls)))"

definition chain_text :: "chains \<Rightarrow> string \<Rightarrow> string res" where
  "chain_text cs chain = (case map_of cs chain of
       None \<Rightarrow> Inl (KeyError chain)
     | Some rules \<Rightarrow> bind_res (rule_lines rules) (\<lambda>ls. Inr (join nl ((''Chain '' @ chain @ '' (policy ACCEPT)'') #
         ''target     prot opt source               destination'' # ls))))"

fun chain_texts :: "chains \<Rightarrow> string list \<Rightarrow> string list res" where
  "chain_texts cs [] = Inr []"
| "chain_texts cs (c # named) = bind_res (chain_text cs c) (\<lambda>t. bind_res (chain_texts cs named) (\<lambda>ts. Inr (t # ts)))"

definition ip_list :: "bool \<Rightarrow> string \<Rightarrow> unit ip_py" where
  "ip_list root chain = (if \<not> root then no_permission else chosen_chains chain (\<lambda>named. py_bind py_get (\<lambda>s.
     py_bind (py_lift (chain_texts (current_chains s) named)) (\<lambda>ts. ip_say (join (nl @ nl) ts @ nl)))))"

definition empty_chains :: "string list \<Rightarrow> chains \<Rightarrow> chains" where
  "empty_chains named cs = fold (\<lambda>c. AList.update c []) named cs"

definition flush :: "bool \<Rightarrow> string \<Rightarrow> unit ip_py" where
  "flush root chain = (if \<not> root then no_permission else chosen_chains chain (\<lambda>named.
     py_bind (py_modify (\<lambda>s. s\<lparr>ip_tables := map_option
         (AList.update (current_table s) (empty_chains named (current_chains s))) (ip_tables s)\<rparr>)) (\<lambda>_. ip_exit)))"

section \<open>The command\<close>

definition both :: "string \<Rightarrow> string \<Rightarrow> string \<Rightarrow> opt_kind \<Rightarrow> opt_specs" where
  "both short long dest k = [(short, dest, k), (long, dest, k)]"

definition OPTIONS :: opt_specs where
  "OPTIONS =
     both ''-h'' ''--help'' ''help'' StoreTrue @ both ''-V'' ''--version'' ''version'' StoreTrue @
     both ''-v'' ''--verbose'' ''verbose'' StoreTrue @ both ''-x'' ''--exact'' ''exact'' StoreTrue @
     [(''--line-numbers'', ''line_numbers'', StoreTrue)] @ both ''-n'' ''--numeric'' ''numeric'' StoreTrue @
     [(''--modprobe'', ''modprobe'', StoreArg)] @
     both ''-t'' ''--table'' ''table'' StoreArg @ both ''-F'' ''--flush'' ''flush'' OptionalArg @
     both ''-Z'' ''--zero'' ''zero'' OptionalArg @ both ''-S'' ''--list-rules'' ''list_rules'' OptionalArg @
     both ''-L'' ''--list'' ''list'' OptionalArg @ both ''-A'' ''--append'' ''append'' StoreArg @
     both ''-D'' ''--delete'' ''delete'' StoreArg @ both ''-I'' ''--insert'' ''insert'' StoreArg @
     both ''-R'' ''--replace'' ''replace'' StoreArg @ both ''-N'' ''--new-chain'' ''new_chain'' StoreArg @
     both ''-X'' ''--delete-chain'' ''delete_chain'' StoreArg @ both ''-P'' ''--policy'' ''policy'' StoreArg @
     both ''-E'' ''--rename-chain'' ''rename_chain'' StoreArg @
     both ''-p'' ''--protocol'' ''protocol'' StoreArg @ both ''-s'' ''--source'' ''source'' StoreArg @
     both ''-d'' ''--destination'' ''destination'' StoreArg @ both ''-j'' ''--jump'' ''jump'' StoreArg @
     both ''-g'' ''--goto'' ''goto'' StoreArg @ both ''-i'' ''--in-interface'' ''in_interface'' StoreArg @
     both ''-o'' ''--out-interface'' ''out_interface'' StoreArg @ both ''-f'' ''--fragment'' ''fragment'' StoreTrue @
     both ''-c'' ''--set-counters'' ''set_counters'' StoreArg @ both ''-m'' ''--match'' ''match'' StoreArg @
     both ''--sport'' ''--source-ports'' ''source_ports'' StoreArg @ both ''--dport'' ''--destination-ports'' ''dest_ports'' StoreArg @
     [(''--ports'', ''ports'', StoreArg), (''--state'', ''state'', StoreArg)]"

definition parse_options :: "string list \<Rightarrow> opt_values option" where
  "parse_options args = map_option fst (parse_args OPTIONS [''table'' \<mapsto> OptText ''filter''] args)"

definition table_option :: "opt_values \<Rightarrow> string" where
  "table_option opts = (case opts ''table'' of Some (OptText t) \<Rightarrow> t | _ \<Rightarrow> [])"

text \<open>The value of an option that is true is replaced by the empty text, so a chain that is named is not used.\<close>

definition blanked :: "opt_value option \<Rightarrow> string" where
  "blanked v = (if opt_true v then [] else case v of Some (OptText t) \<Rightarrow> t | _ \<Rightarrow> [])"

definition chosen_action :: "bool \<Rightarrow> opt_values \<Rightarrow> unit ip_py" where
  "chosen_action root opts =
     (if opt_true (opts ''help'') then show_help
      else if opt_true (opts ''version'') then show_version
      else if opt_true (opts ''flush'') then flush root (blanked (opts ''flush''))
      else if opt_true (opts ''list'') then ip_list root (blanked (opts ''list''))
      else if opt_true (opts ''list_rules'') then list_rules root (blanked (opts ''list_rules''))
      else ip_exit)"

definition iptables_start :: "bool \<Rightarrow> unit ip_py" where
  "iptables_start root = py_bind py_get (\<lambda>s. let args = c_args (ip_cmd s) in
     if args = [] then no_command
     else case parse_options args of
         None \<Rightarrow> bad_argument (hd args)
       | Some opts \<Rightarrow> py_bind (setup_table root (table_option opts)) (\<lambda>ok. if \<not> ok then py_return () else chosen_action root opts))"

definition run_iptables :: "cmd_env \<Rightarrow> bool \<Rightarrow> string list \<Rightarrow> string option \<Rightarrow> unit ip_py" where
  "run_iptables e root args inp = py_bind (on_cmd (py_modify (fresh_command args inp))) (\<lambda>_.
     py_bind (on_cmd (HoneyPotCommand_init e)) (\<lambda>_. iptables_start root))"

end
