(* ===== verification/IptablesProps.thy ===== *)
theory IptablesProps
  imports Iptables FsErrors FsReading
begin

text \<open>
  What a history of runs of \<open>iptables\<close> by any users leaves of a server's tables, and what each run does.
\<close>

section \<open>Specification\<close>

text \<open>Whether a run looks at the tables, and the one it empties: the chain it names does not matter.\<close>

definition reaches_tables :: "bool \<times> cmd \<Rightarrow> bool" where
  "reaches_tables r \<longleftrightarrow> c_args (snd r) \<noteq> [] \<and> parse_options (c_args (snd r)) \<noteq> None"

definition wants_flush :: "opt_values \<Rightarrow> bool" where
  "wants_flush opts \<longleftrightarrow> \<not> opt_true (opts ''help'') \<and> \<not> opt_true (opts ''version'') \<and> opt_true (opts ''flush'')"

definition empties :: "bool \<times> cmd \<Rightarrow> string set" where
  "empties r = (case parse_options (c_args (snd r)) of
       Some opts \<Rightarrow> if fst r \<and> c_args (snd r) \<noteq> [] \<and> wants_flush opts then {table_option opts} else {}
     | None \<Rightarrow> {})"

definition emptied :: "chains \<Rightarrow> chains" where
  "emptied cs = map (\<lambda>(c, rules). (c, [])) cs"

definition view :: "string set \<Rightarrow> tables" where
  "view F = map (\<lambda>(t, cs). (t, if t \<in> F then emptied cs else cs)) FRESH_TABLES"

definition run_on :: "bool \<times> cmd \<Rightarrow> tables option \<Rightarrow> tables option" where
  "run_on r ts = ip_tables (snd (iptables_start (fst r) \<lparr>ip_cmd = snd r, ip_tables = ts, current_table = []\<rparr>))"

section \<open>Runs end\<close>

text \<open>A result that only the command's own part of the state can tell from a return, with one exit.\<close>

definition ended :: "iptables \<Rightarrow> 'a \<Rightarrow> (py_exc + 'a) \<times> iptables \<Rightarrow> bool" where
  "ended s a r \<longleftrightarrow> (\<exists>c. r = (Inr a, s\<lparr>ip_cmd := c\<rparr>) \<and> exits c = exits (ip_cmd s) + 1)"

lemma ended_exit: "ended s () (ip_exit s)"
  using logged_exit_once [of "''iptables''" "ip_cmd s"] by (auto simp: ended_def ip_exit_def on_cmd_def)

lemma writes:
  assumes "sink c = ToPipe"
  shows "cmd_write m c = (Inr (), c\<lparr>temp_buff := temp_buff c @ [PyText m], sent := sent c @ [OutPiece m]\<rparr>)"
  using assms by (simp add: cmd_write_def buffer_def writefn_def)

lemma says:
  assumes "sink (ip_cmd s) = ToPipe"
  shows "\<exists>c. ip_say m s = (Inr (), s\<lparr>ip_cmd := c\<rparr>) \<and> exits c = exits (ip_cmd s) + 1 \<and> sent_out c = sent_out (ip_cmd s) @ [m]"
proof -
  let ?d = "(ip_cmd s)\<lparr>temp_buff := temp_buff (ip_cmd s) @ [PyText m], sent := sent (ip_cmd s) @ [OutPiece m]\<rparr>"
  obtain c where "logged_exit ''iptables'' ?d = (Inr (), c)" "exits c = exits ?d + 1" "sent_out c = sent_out ?d"
    using logged_exit_once [of "''iptables''" ?d] by blast
  with writes [OF assms, of m] show ?thesis by (auto simp: ip_say_def ip_exit_def on_cmd_def sent_out_def)
qed

lemma ended_says: "sink (ip_cmd s) = ToPipe \<Longrightarrow> ended s () (ip_say m s)"
  using says [of s m] by (auto simp: ended_def)

section \<open>The tables\<close>

definition same_tables :: "iptables \<Rightarrow> iptables \<Rightarrow> bool" where
  "same_tables s t \<longleftrightarrow> ip_tables t = ip_tables s"

lemma view_empty: "view {} = FRESH_TABLES"
  by (simp add: view_def)

lemma distinct_tables: "distinct (map fst FRESH_TABLES)" "\<forall>(t, cs) \<in> set FRESH_TABLES. distinct (map fst cs)"
  by code_simp+

lemma names_view: "map fst (view F) = map fst FRESH_TABLES"
  by (simp add: view_def case_prod_beta o_def)

lemma empty_all: "distinct (map fst cs) \<Longrightarrow> empty_chains (map fst cs) cs = emptied cs"
proof -
  have "distinct (map fst cs) \<Longrightarrow> distinct (map fst ds) \<Longrightarrow> fst ` set ds \<inter> fst ` set cs = {} \<Longrightarrow>
      fold (\<lambda>c. AList.update c []) (map fst cs) (ds @ cs) = ds @ emptied cs" for ds
  proof (induction cs arbitrary: ds)
    case (Cons p cs)
    obtain c rules where p: "p = (c, rules)" by fastforce
    have "c \<notin> fst ` set ds" using Cons.prems p by auto
    then have "AList.update c [] (ds @ p # cs) = (ds @ [(c, [])]) @ cs"
      by (induction ds) (auto simp: p)
    moreover have "fold (\<lambda>c. AList.update c []) (map fst cs) ((ds @ [(c, [])]) @ cs) = (ds @ [(c, [])]) @ emptied cs"
      using Cons.prems p by (intro Cons.IH) auto
    ultimately show ?case by (simp add: p emptied_def)
  qed (simp add: emptied_def)
  from this [of "[]"] show "distinct (map fst cs) \<Longrightarrow> empty_chains (map fst cs) cs = emptied cs"
    by (simp add: empty_chains_def)
qed

lemma emptied_twice: "emptied (emptied cs) = emptied cs"
  by (simp add: emptied_def case_prod_beta o_def)

lemma names_emptied: "map fst (emptied cs) = map fst cs"
  by (simp add: emptied_def case_prod_beta o_def)

lemma update_emptied:
  "distinct (map fst ts) \<Longrightarrow> map_of ts t = Some cs \<Longrightarrow>
     AList.update t (emptied cs) ts = map (\<lambda>(u, ds). (u, if u = t then emptied ds else ds)) ts"
proof (induction ts)
  case (Cons p ts)
  have "map (\<lambda>(u, ds). (u, if u = t then emptied ds else ds)) ts = ts" if "t \<notin> fst ` set ts"
    using that by (induction ts) auto
  with Cons show ?case by (cases p) (auto split: if_splits)
qed simp

text \<open>Emptying all chains of a table adds its name.\<close>

lemma flush_view:
  assumes "t \<in> fst ` set FRESH_TABLES"
  shows "\<exists>cs. map_of (view F) t = Some cs \<and> AList.update t (empty_chains (map fst cs) cs) (view F) = view (insert t F)"
proof -
  have d: "distinct (map fst (view F))" using distinct_tables(1) by (simp add: names_view)
  have "fst ` set (view F) = fst ` set FRESH_TABLES" using arg_cong [OF names_view, of set F] by simp
  then obtain cs where cs: "map_of (view F) t = Some cs" using assms by (metis map_of_eq_None_iff option.exhaust)
  then have "(t, cs) \<in> set (view F)" by (rule map_of_SomeD)
  then obtain rules where "(t, rules) \<in> set FRESH_TABLES" "map fst cs = map fst rules"
    by (auto simp: view_def names_emptied split: if_splits)
  then have "distinct (map fst cs)" using distinct_tables(2) by auto
  then have "AList.update t (empty_chains (map fst cs) cs) (view F) =
      map (\<lambda>(u, ds). (u, if u = t then emptied ds else ds)) (view F)"
    using update_emptied [OF d cs] by (simp add: empty_all)
  also have "\<dots> = view (insert t F)" by (auto simp: view_def emptied_twice)
  finally show ?thesis using cs by blast
qed

lemma same_tables_order: "preorder_on_states same_tables"
  by (auto simp: preorder_on_states_def same_tables_def reflp_def transp_def)

lemma keeps_on_cmd: "keeps same_tables (on_cmd m)"
  by (auto simp: keeps_def on_cmd_def same_tables_def split: prod.split)

lemma keeps_say: "keeps same_tables (ip_say m)" "keeps same_tables ip_exit"
  unfolding ip_say_def ip_exit_def by (intro keeps_intros keeps_on_cmd same_tables_order)+

lemmas messages = no_command_def bad_argument_def no_permission_def no_table_def show_version_def show_help_def

lemma keeps_chosen: "(\<And>named. keeps same_tables (k named)) \<Longrightarrow> keeps same_tables (chosen_chains w k)"
  unfolding chosen_chains_def is_valid_chain_def by (intro keeps_intros keeps_say same_tables_order | assumption)+

lemma keeps_listing: "keeps same_tables (list_rules root w)" "keeps same_tables (ip_list root w)"
  unfolding list_rules_def ip_list_def messages
  by (intro keeps_intros keeps_say keeps_chosen same_tables_order)+

lemma keeps_other_action: "\<not> wants_flush opts \<Longrightarrow> keeps same_tables (chosen_action root opts)"
  by (auto simp: chosen_action_def wants_flush_def messages intro: keeps_say keeps_listing)

lemma same_tablesD: "keeps same_tables m \<Longrightarrow> ip_tables (snd (m s)) = ip_tables s"
  using keepsD [of same_tables m s] by (simp add: same_tables_def)

lemma flush_tables:
  assumes "ip_tables s = Some (view F)" and "current_table s \<in> fst ` set FRESH_TABLES"
  shows "ip_tables (snd (flush True [] s)) = Some (view (insert (current_table s) F))"
proof -
  obtain cs where cs: "map_of (view F) (current_table s) = Some cs"
      "AList.update (current_table s) (empty_chains (map fst cs) cs) (view F) = view (insert (current_table s) F)"
    using flush_view [OF assms(2)] by blast
  then have c: "current_chains s = cs" by (simp add: current_chains_def assms(1) tables_of_def)
  show ?thesis
    using same_tablesD [OF keeps_say(2)] by (simp add: flush_def chosen_chains_def c cs(2) assms(1))
qed

lemma view_insert_other: "t \<notin> fst ` set FRESH_TABLES \<Longrightarrow> view (insert t F) = view F"
  by (force simp: view_def)

lemma setup_valid:
  assumes "tables_of (ip_tables s) = view F" and "root" and "t \<in> fst ` set FRESH_TABLES"
  shows "setup_table root t s = (Inr True, s\<lparr>ip_tables := Some (view F), current_table := t\<rparr>)"
  using assms arg_cong [OF names_view, of set F] by (simp add: setup_table_def is_valid_table_def tables_of_def)

lemma setup_invalid:
  assumes "tables_of (ip_tables s) = view F" and "\<not> (root \<and> t \<in> fst ` set FRESH_TABLES)"
  shows "\<exists>x u. setup_table root t s = (x, u) \<and> x \<noteq> Inr True \<and> ip_tables u = Some (view F)"
proof -
  let ?t = "s\<lparr>ip_tables := Some (view F)\<rparr>" and ?m = "if root then no_table t else no_permission"
  have "is_valid_table root t ?t = py_bind ?m (\<lambda>_. py_return False) ?t"
    using assms(2) arg_cong [OF names_view, of set F] by (simp add: is_valid_table_def tables_of_def)
  moreover obtain x u where m: "?m ?t = (x, u)" by fastforce
  moreover have "ip_tables (snd (?m ?t)) = Some (view F)"
    using same_tablesD [OF keeps_say(1), of _ ?t] by (simp add: messages)
  ultimately show ?thesis using assms(1) by (cases x) (simp_all add: setup_table_def)
qed

lemma run_view:
  assumes "tables_of ts = view F"
  shows "run_on r ts = (if reaches_tables r then Some (view (F \<union> empties r)) else ts)"
proof -
  obtain root c where r: "r = (root, c)" by fastforce
  let ?s = "\<lparr>ip_cmd = c, ip_tables = ts, current_table = []\<rparr>"
  have unreached: ?thesis if "\<not> reaches_tables r"
    using that same_tablesD [OF keeps_say(1), of _ ?s]
    by (auto simp: run_on_def reaches_tables_def iptables_start_def r Let_def messages split: option.split)
  have reached: ?thesis if reach: "reaches_tables r"
  proof -
    obtain opts where opts: "parse_options (c_args c) = Some opts" "c_args c \<noteq> []"
      using reach by (auto simp: reaches_tables_def r)
    let ?n = "table_option opts" and ?k = "\<lambda>ok. if \<not> ok then py_return () else chosen_action root opts"
    have start: "iptables_start root ?s = py_bind (setup_table root ?n) ?k ?s"
      using opts by (simp add: iptables_start_def)
    have e: "empties r = (if root \<and> wants_flush opts then {?n} else {})" using opts by (simp add: empties_def r)
    show ?thesis
    proof (cases "root \<and> ?n \<in> fst ` set FRESH_TABLES")
      case False
      then obtain x u where u: "setup_table root ?n ?s = (x, u)" "x \<noteq> Inr True" "ip_tables u = Some (view F)"
        using setup_invalid [of ?s F root ?n] assms by auto
      moreover have "view (F \<union> empties r) = view F" using False view_insert_other by (auto simp: e)
      ultimately show ?thesis using reach start by (auto simp: run_on_def r py_bind_def split: sum.split)
    next
      case True
      let ?u = "?s\<lparr>ip_tables := Some (view F), current_table := ?n\<rparr>"
      have "ip_tables (snd (chosen_action True opts ?u)) = Some (view (F \<union> empties r))"
      proof (cases "wants_flush opts")
        case False
        then show ?thesis using same_tablesD [OF keeps_other_action] by (simp add: e)
      next
        case flush: True
        then have "chosen_action True opts = flush True []" by (simp add: chosen_action_def wants_flush_def blanked_def)
        then show ?thesis using flush_tables [of ?u F] True flush by (simp add: e)
      qed
      then show ?thesis using True reach start setup_valid [of ?s F root ?n] assms by (simp add: run_on_def r)
    qed
  qed
  from unreached reached show ?thesis by blast
qed

lemma history_view:
  "tables_of ts = view F \<Longrightarrow> fold run_on runs ts =
     (if list_ex reaches_tables runs then Some (view (F \<union> \<Union> (set (map empties runs)))) else ts)"
proof (induction runs arbitrary: ts F)
  case (Cons r runs)
  have none: "empties r = {}" if "\<not> reaches_tables r" using that by (auto simp: reaches_tables_def empties_def split: option.split)
  have "list_ex reaches_tables runs \<or> \<Union> (set (map empties runs)) = {}"
    by (induction runs) (auto simp: reaches_tables_def empties_def split: option.split)
  moreover note run_view [OF Cons.prems, of r] 
  ultimately show ?case
    using Cons.IH [of ts F] Cons.IH [of "Some (view (F \<union> empties r))" "F \<union> empties r"] Cons.prems none
    by (auto simp: tables_of_def Un_assoc)
qed simp

section \<open>What is shown\<close>

text \<open>A rule's fields in columns, and a table as it is listed.\<close>

definition rule_text :: "string list \<Rightarrow> string" where
  "rule_text rule = join '' '' (map2 padded [10, 4, 3, 20, 20, 0, 0] rule)"

definition listing :: "chains \<Rightarrow> string" where
  "listing cs = join (nl @ nl) (map (\<lambda>(c, rules). join nl ((''Chain '' @ c @ '' (policy ACCEPT)'') #
     ''target     prot opt source               destination'' # map rule_text rules)) cs) @ nl"

definition seven_fields :: "chains \<Rightarrow> bool" where
  "seven_fields cs \<longleftrightarrow> list_all (\<lambda>(c, rules). list_all (\<lambda>r. length r = 7) rules) cs \<and> distinct (map fst cs)"

lemma rule_lines_text: "list_all (\<lambda>r. length r = 7) rules \<Longrightarrow> rule_lines rules = Inr (map rule_text rules)"
proof (induction rules)
  case (Cons r rules)
  then obtain a b c d e f g where "r = [a, b, c, d, e, f, g]"
    by (auto simp: numeral_eq_Suc length_Suc_conv)
  with Cons show ?case by (simp add: rule_line_def rule_text_def padded_def)
qed simp

lemma chain_texts_listing:
  assumes "seven_fields cs"
  shows "bind_res (chain_texts cs (map fst cs)) (\<lambda>ts. Inr (join (nl @ nl) ts @ nl)) = Inr (listing cs)"
proof -
  let ?text = "\<lambda>(c, rules). join nl ((''Chain '' @ c @ '' (policy ACCEPT)'') #
     ''target     prot opt source               destination'' # map rule_text rules)"
  have "chain_texts cs (map fst ds) = Inr (map ?text ds)" if "set ds \<subseteq> set cs" for ds
    using that
  proof (induction ds)
    case (Cons p ds)
    obtain c rules where p: "p = (c, rules)" by fastforce
    then have "(c, rules) \<in> set cs" using Cons.prems by simp
    then have "map_of cs c = Some rules" "list_all (\<lambda>r. length r = 7) rules"
      using assms by (auto simp: seven_fields_def list_all_iff)
    then have "chain_text cs c = Inr (?text p)" by (simp add: chain_text_def rule_lines_text p)
    with Cons show ?case by (simp add: p)
  qed simp
  then show ?thesis by (simp add: listing_def)
qed

lemma view_fields: "list_all (\<lambda>(t, cs). seven_fields cs) (view F)"
proof -
  have "list_all (\<lambda>(t, cs). seven_fields cs \<and> seven_fields (emptied cs)) FRESH_TABLES" by code_simp
  then show ?thesis by (auto simp: view_def list_all_iff)
qed

section \<open>What a run does\<close>

lemma view_lookup:
  assumes "t \<in> fst ` set FRESH_TABLES"
  obtains cs where "map_of (view F) t = Some cs" and "seven_fields cs"
proof -
  have "t \<in> fst ` set (view F)" using assms arg_cong [OF names_view, of set F] by simp
  then obtain cs where cs: "map_of (view F) t = Some cs" by (metis map_of_eq_None_iff option.exhaust)
  then have "seven_fields cs" using view_fields [of F] map_of_SomeD [OF cs] by (auto simp: list_all_iff)
  with cs that show thesis by blast
qed

definition ready :: "string set \<Rightarrow> string \<Rightarrow> iptables \<Rightarrow> bool" where
  "ready F t s \<longleftrightarrow> sink (ip_cmd s) = ToPipe \<and> ip_tables s = Some (view F) \<and> current_table s = t \<and> t \<in> fst ` set FRESH_TABLES"

lemma listed:
  assumes "ready F t s" and "map_of (view F) t = Some cs"
  shows "ip_list True [] s = ip_say (listing cs) s"
proof -
  have "seven_fields cs" using view_fields [of F] map_of_SomeD [OF assms(2)] by (auto simp: list_all_iff)
  then obtain ts where ts: "chain_texts cs (map fst cs) = Inr ts" "join (nl @ nl) ts @ nl = listing cs"
    using chain_texts_listing [of cs] by (cases "chain_texts cs (map fst cs)") auto
  have "current_chains s = cs" using assms by (simp add: current_chains_def tables_of_def ready_def)
  then show ?thesis using ts by (simp add: ip_list_def chosen_chains_def)
qed

definition ends_once :: "cmd \<Rightarrow> (py_exc + unit) \<times> iptables \<Rightarrow> bool" where
  "ends_once c r \<longleftrightarrow> fst r = Inr () \<and> exits (ip_cmd (snd r)) = exits c + 1"

lemma ends_say: "sink (ip_cmd s) = ToPipe \<Longrightarrow> ends_once (ip_cmd s) (ip_say m s)" "ends_once (ip_cmd s) (ip_exit s)"
  using ended_says [of s m] ended_exit [of s] by (auto simp: ended_def ends_once_def)

lemma action_ends:
  assumes "ready F t s"
  shows "ends_once (ip_cmd s) (chosen_action True opts s)"
proof -
  obtain cs where "map_of (view F) t = Some cs" using view_lookup assms by (metis ready_def)
  then have l: "ip_list True [] s = ip_say (listing cs) s" by (rule listed [OF assms])
  have p: "sink (ip_cmd s) = ToPipe" using assms by (simp add: ready_def)
  have "ends_once (ip_cmd s) (flush True [] s)"
    using ends_say(2) [of "s\<lparr>ip_tables := u\<rparr>" for u] by (simp add: flush_def chosen_chains_def ends_once_def)
  moreover have "ends_once (ip_cmd s) (list_rules True [] s)" using ends_say(1) [OF p] by (simp add: list_rules_def chosen_chains_def)
  ultimately show ?thesis
    using ends_say(1) [OF p] ends_say(2) [of s] l by (simp add: chosen_action_def messages blanked_def)
qed

lemma start_ends:
  assumes "sink c = ToPipe" and "tables_of ts = view F"
  shows "ends_once c (iptables_start root \<lparr>ip_cmd = c, ip_tables = ts, current_table = []\<rparr>)"
proof -
  let ?s = "\<lparr>ip_cmd = c, ip_tables = ts, current_table = []\<rparr>"
  have say: "ends_once c (ip_say m ?s)" for m using ends_say(1) [of ?s] assms(1) by simp
  show ?thesis
  proof (cases "c_args c = [] \<or> parse_options (c_args c) = None")
    case True
    then show ?thesis using say by (auto simp: iptables_start_def Let_def messages)
  next
    case False
    then obtain opts where opts: "parse_options (c_args c) = Some opts" "c_args c \<noteq> []" by auto
    let ?n = "table_option opts" and ?t = "?s\<lparr>ip_tables := Some (view F)\<rparr>"
    let ?k = "\<lambda>ok. if \<not> ok then py_return () else chosen_action root opts"
    have start: "iptables_start root ?s = py_bind (setup_table root ?n) ?k ?s" using opts by (simp add: iptables_start_def)
    have refused: "ends_once c (py_bind (py_bind (ip_say m) (\<lambda>_. py_return False)) ?k ?t)" for m
      using says [of ?t m] assms(1) by (auto simp: ends_once_def)
    show ?thesis
    proof (cases "root \<and> ?n \<in> fst ` set FRESH_TABLES")
      case True
      let ?u = "?s\<lparr>ip_tables := Some (view F), current_table := ?n\<rparr>"
      have "ready F ?n ?u" using True assms(1) by (simp add: ready_def)
      from action_ends [OF this] show ?thesis using True start setup_valid [of ?s F root ?n] assms by simp
    next
      case False
      have "fst ` set (view F) = fst ` set FRESH_TABLES" using arg_cong [OF names_view, of set F] by simp
      then have "iptables_start root ?s = py_bind (py_bind (if root then no_table ?n else no_permission) (\<lambda>_. py_return False)) ?k ?t"
        using False assms by (auto simp: start setup_table_def is_valid_table_def tables_of_def py_bind_def split: sum.split prod.split)
      then show ?thesis using refused by (simp add: messages)
    qed
  qed
qed

lemma list_option: "parse_options [''-t'', t, ''-L''] = Some [''table'' \<mapsto> OptText t, ''list'' \<mapsto> OptTrue]"
proof -
  have "map_of OPTIONS ''-t'' = Some (''table'', StoreArg)" "map_of OPTIONS ''-L'' = Some (''list'', OptionalArg)" by code_simp+
  then show ?thesis by (simp add: parse_options_def parse_args_def starts_with_def)
qed

section \<open>Property\<close>

text \<open>C20: Whatever users have run before on a server: the tables are the first ones, where all chains of those tables
  are empty that root has flushed, whichever chain was named; the next run, of anyone with any arguments,
  returns and ends once; and what root gets listed of a table is what is left of it, in columns.\<close>

theorem iptables_history:
  assumes "sink c = ToPipe"
  shows "let ts = fold run_on runs None; F = \<Union> (set (map empties runs)); s = \<lparr>ip_cmd = c, ip_tables = ts, current_table = []\<rparr> in
    ts = (if list_ex reaches_tables runs then Some (view F) else None) \<and>
    ends_once c (iptables_start root s) \<and>
    (\<forall>(t, cs) \<in> set (view F). c_args c = [''-t'', t, ''-L''] \<longrightarrow>
       sent_out (ip_cmd (snd (iptables_start True s))) = sent_out c @ [listing cs])"
proof -
  define ts F where "ts = fold run_on runs None" and "F = \<Union> (set (map empties runs))"
  have "tables_of None = view {}" by (simp add: tables_of_def view_empty)
  from history_view [OF this, of runs] have ts: "ts = (if list_ex reaches_tables runs then Some (view F) else None)"
    by (simp add: ts_def F_def)
  have "list_ex reaches_tables runs \<or> F = {}"
    unfolding F_def by (induction runs) (auto simp: reaches_tables_def empties_def split: option.split)
  then have v: "tables_of ts = view F" by (auto simp: ts tables_of_def view_empty)
  let ?s = "\<lparr>ip_cmd = c, ip_tables = ts, current_table = []\<rparr>"
  have "sent_out (ip_cmd (snd (iptables_start True ?s))) = sent_out c @ [listing cs]"
    if t: "(t, cs) \<in> set (view F)" and a: "c_args c = [''-t'', t, ''-L'']" for t cs
  proof -
    have n: "t \<in> fst ` set FRESH_TABLES" using t by (auto simp: view_def intro: rev_image_eqI)
    let ?u = "?s\<lparr>ip_tables := Some (view F), current_table := t\<rparr>"
    have u: "ready F t ?u" using n assms by (simp add: ready_def)
    have cs: "map_of (view F) t = Some cs" using t distinct_tables(1) by (simp add: names_view)
    have "iptables_start True ?s = ip_say (listing cs) ?u"
      using a setup_valid [of ?s F True t] n v listed [OF u cs]
      by (simp add: iptables_start_def list_option table_option_def chosen_action_def blanked_def)
    then show ?thesis using says [of ?u "listing cs"] assms by auto
  qed
  then show ?thesis using start_ends [OF assms v, of root] ts by (auto simp: ts_def F_def Let_def)
qed

text \<open>Root flushes one chain, then another user and root list; of the filter table only the headers are left.\<close>

definition ex_run :: "string list \<Rightarrow> cmd" where
  "ex_run args = fresh_command args None ex_session"

theorem iptables_history_witness:
  "sent_out (ip_cmd (snd (iptables_start True \<lparr>ip_cmd = ex_run [''-t'', ''nat'', ''-L''],
      ip_tables = fold run_on [(True, ex_run [''-t'', ''nat'', ''-F'', ''OUTPUT'']), (False, ex_run [''-F''])] None, current_table = []\<rparr>))) =
     [join nl [''Chain PREROUTING (policy ACCEPT)'', ''target     prot opt source               destination'', [],
        ''Chain OUTPUT (policy ACCEPT)'', ''target     prot opt source               destination''] @ nl]"
proof -
  let ?runs = "[(True, ex_run [''-t'', ''nat'', ''-F'', ''OUTPUT'']), (False, ex_run [''-F''])]" and ?c = "ex_run [''-t'', ''nat'', ''-L'']"
  have c: "sink ?c = ToPipe" "c_args ?c = [''-t'', ''nat'', ''-L'']" "sent_out ?c = []" by (simp_all add: ex_run_def fresh_command_def ex_session_def sent_out_def)
  have F: "(''nat'', [(''PREROUTING'', []), (''OUTPUT'', [])]) \<in> set (view (\<Union> (set (map empties ?runs))))"
    by (simp add: view_def FRESH_TABLES_def emptied_def)
  show ?thesis
    using iptables_history [OF c(1), of ?runs True] F c(2,3) by (auto simp: Let_def listing_def)
qed

end
