(* ===== verification/Forwarding.thy ===== *)
theory Forwarding
  imports Bytes
begin

text \<open>
  Connections that a client asks to have forwarded (\<open>cowrie/ssh/forwarding.py\<close>): where they are led, and the
  channel that reaches a host through a proxy's CONNECT. Twisted's channel is its three calls: what is sent
  to the host, what is written to the client, and closing.
\<close>

section \<open>Where a connection is led\<close>

type_synonym host_port = "string \<times> int"

record forward_config =
  forward_redirect :: bool
  forward_tunnel :: bool
  ssh_items :: "(string \<times> string) list"

datatype forward_channel =
    SSHConnect host_port
  | TCPTunnel host_port host_port
  | FakeForwarding host_port

text \<open>An item that is looked at: the port that ends its key, the host and the port that its value has.\<close>

definition forward_entry :: "string \<times> string \<Rightarrow> (int \<times> host_port) res" where
  "forward_entry i = (case split_str '':'' (snd i) of
       h # p # rest \<Rightarrow> bind_res (py_int p) (\<lambda>port. bind_res (py_int (last (split_str ''_'' (fst i)))) (\<lambda>dest. Inr (dest, h, port)))
     | _ \<Rightarrow> Inl IndexError)"

fun forward_table :: "string \<Rightarrow> (string \<times> string) list \<Rightarrow> (int \<times> host_port) list \<Rightarrow> (int \<times> host_port) list res" where
  "forward_table pre [] acc = Inr acc"
| "forward_table pre (i # items) acc =
     (if starts_with (fst i) pre then bind_res (forward_entry i) (\<lambda>(dest, hp). forward_table pre items (AList.update dest hp acc))
      else forward_table pre items acc)"

text \<open>Where an enabled way leads a port, if it does.\<close>

definition led_to :: "bool \<Rightarrow> string \<Rightarrow> (string \<times> string) list \<Rightarrow> int \<Rightarrow> host_port option res" where
  "led_to enabled pre items port = (if enabled then bind_res (forward_table pre items []) (\<lambda>t. Inr (map_of t port)) else Inr None)"

definition cowrieOpenConnectForwardingClient :: "forward_config \<Rightarrow> host_port \<Rightarrow> forward_channel res" where
  "cowrieOpenConnectForwardingClient cfg remoteHP =
     bind_res (led_to (forward_redirect cfg) ''forward_redirect_'' (ssh_items cfg) (snd remoteHP)) (\<lambda>r. case r of
         Some hp \<Rightarrow> Inr (SSHConnect hp)
       | None \<Rightarrow> bind_res (led_to (forward_tunnel cfg) ''forward_tunnel_'' (ssh_items cfg) (snd remoteHP)) (\<lambda>t. case t of
             Some hp \<Rightarrow> Inr (TCPTunnel hp remoteHP)
           | None \<Rightarrow> Inr (FakeForwarding remoteHP)))"

section \<open>The channels\<close>

record channel =
  ch_connected :: bool
  ch_to_host :: "string list"
  ch_to_client :: "string list"
  ch_closed :: "string list"
  ch_lost :: nat
  tunnel_established :: bool

type_synonym 'a channel_py = "(channel, 'a) py"

definition to_host :: "string \<Rightarrow> unit channel_py" where
  "to_host data = py_modify (\<lambda>c. c\<lparr>ch_to_host := ch_to_host c @ [data]\<rparr>)"

definition to_client :: "string \<Rightarrow> unit channel_py" where
  "to_client data = py_modify (\<lambda>c. c\<lparr>ch_to_client := ch_to_client c @ [data]\<rparr>)"

definition channel_close :: "string \<Rightarrow> unit channel_py" where
  "channel_close reason = py_modify (\<lambda>c. c\<lparr>ch_closed := ch_closed c @ [reason]\<rparr>)"

definition lose :: "unit channel_py" where
  "lose = py_modify (\<lambda>c. c\<lparr>ch_lost := ch_lost c + 1\<rparr>)"

definition base_open :: "unit channel_py" where
  "base_open = py_modify (\<lambda>c. c\<lparr>ch_connected := True\<rparr>)"

definition refused :: string where
  "refused = ''Connection refused''"

definition blank_line :: string where
  "blank_line = [CHR 0x0D, CHR 0x0A, CHR 0x0D, CHR 0x0A]"

text \<open>The text of the request is encoded as ASCII; a name that is not raises a kind of ValueError.\<close>

definition tunnel_channelOpen :: "host_port \<Rightarrow> unit channel_py" where
  "tunnel_channelOpen dstport = py_bind base_open (\<lambda>_. let dst = fst dstport @ '':'' @ str_int (snd dstport) in
     if \<not> ascii dst then py_raise ValueError
     else to_host (''CONNECT '' @ dst @ '' HTTP/1.1'' @ blank_line))"

definition is_http :: "string \<Rightarrow> bool" where
  "is_http data \<longleftrightarrow> map (\<lambda>c. if c \<in> set ''HTP'' then char_of (of_char c + 32 :: nat) else c) (take 4 data) = ''http''"

definition strip_head :: "string \<Rightarrow> string" where
  "strip_head data = (case split_str blank_line data of [d] \<Rightarrow> data | d # ds \<Rightarrow> drop (length d + 4) data)"

text \<open>
  \<open>write\<close>: a response whose code cannot be read closes the channel, and the next test reads a variable that
  was not assigned.
\<close>

definition tunnel_write :: "string \<Rightarrow> unit channel_py" where
  "tunnel_write data = py_bind py_get (\<lambda>c.
     if \<not> tunnel_established c \<and> is_http data then (case split_str '' '' data of
         s # code # rest \<Rightarrow> (case py_int code of
             Inr n \<Rightarrow> py_bind (if n \<noteq> 200 then channel_close refused else py_return ()) (\<lambda>_.
               py_bind (py_modify (\<lambda>c. c\<lparr>tunnel_established := True\<rparr>)) (\<lambda>_. to_client (strip_head data)))
           | Inl x \<Rightarrow> py_bind (channel_close refused) (\<lambda>_. py_raise (UnboundLocalError ''res_code'')))
       | _ \<Rightarrow> py_raise IndexError)
     else to_client data)"

datatype channel_event = FromClient string | FromHost string | Eof

definition channel_event :: "forward_channel \<Rightarrow> channel_event \<Rightarrow> unit channel_py" where
  "channel_event ch ev = (case (ch, ev) of
       (FakeForwarding hp, FromClient data) \<Rightarrow> channel_close refused
     | (FakeForwarding hp, _) \<Rightarrow> py_return ()
     | (_, Eof) \<Rightarrow> lose
     | (_, FromClient data) \<Rightarrow> to_host data
     | (SSHConnect hp, FromHost data) \<Rightarrow> to_client data
     | (TCPTunnel hp dst, FromHost data) \<Rightarrow> tunnel_write data)"

definition channel_open :: "forward_channel \<Rightarrow> unit channel_py" where
  "channel_open ch = (case ch of
       SSHConnect hp \<Rightarrow> base_open
     | TCPTunnel hp dst \<Rightarrow> tunnel_channelOpen dst
     | FakeForwarding hp \<Rightarrow> py_return ())"

definition new_channel :: channel where
  "new_channel = \<lparr>ch_connected = False, ch_to_host = [], ch_to_client = [], ch_closed = [], ch_lost = 0, tunnel_established = False\<rparr>"

fun channel_events :: "forward_channel \<Rightarrow> channel_event list \<Rightarrow> unit channel_py" where
  "channel_events ch [] = py_return ()"
| "channel_events ch (ev # evs) = py_bind (channel_event ch ev) (\<lambda>_. channel_events ch evs)"

definition run_channel :: "forward_channel \<Rightarrow> channel_event list \<Rightarrow> unit channel_py" where
  "run_channel ch evs = py_bind (channel_open ch) (\<lambda>_. channel_events ch evs)"

section \<open>Only configured hosts\<close>

text \<open>The entries of the items with a prefix; for a port, the last one counts.\<close>

definition entries :: "string \<Rightarrow> (string \<times> string) list \<Rightarrow> (int \<times> host_port) list" where
  "entries pre items = concat (map (\<lambda>i. if starts_with (fst i) pre then (case forward_entry i of Inr e \<Rightarrow> [e] | Inl x \<Rightarrow> []) else []) items)"

definition configured :: "bool \<Rightarrow> string \<Rightarrow> (string \<times> string) list \<Rightarrow> int \<Rightarrow> host_port option" where
  "configured enabled pre items port = (if enabled then map_of (rev (entries pre items)) port else None)"

lemma forward_table_entries:
  "forward_table pre items acc = Inr t \<Longrightarrow> map_of t = map_of acc ++ map_of (rev (entries pre items))"
proof (induction items arbitrary: acc)
  case (Cons i items)
  show ?case
  proof (cases "starts_with (fst i) pre")
    case True
    with Cons.prems obtain d hp where e: "forward_entry i = Inr (d, hp)" "forward_table pre items (AList.update d hp acc) = Inr t"
      by (cases "forward_entry i") auto
    have "map_of (rev (entries pre (i # items))) = [d \<mapsto> hp] ++ map_of (rev (entries pre items))"
      using True e(1) by (simp add: entries_def map_of_append)
    moreover have "map_of (AList.update d hp acc) = map_of acc ++ [d \<mapsto> hp]" by (simp add: update_conv')
    ultimately show ?thesis using Cons.IH [OF e(2)] by (simp only: map_add_assoc)
  qed (use Cons in \<open>simp add: entries_def\<close>)
qed (simp add: entries_def)

lemma led_to_configured: "led_to enabled pre items port = Inr v \<Longrightarrow> v = configured enabled pre items port"
  using forward_table_entries [of pre items "[]"]
  by (cases "forward_table pre items []") (auto simp: led_to_def configured_def split: if_splits)

lemma fake_silent:
  "\<exists>c'. channel_events (FakeForwarding hp) evs c = (Inr (), c') \<and> ch_to_host c' = ch_to_host c \<and> ch_to_client c' = ch_to_client c \<and>
     ch_connected c' = ch_connected c"
proof (induction evs arbitrary: c)
  case (Cons ev evs)
  show ?case
  proof (cases ev)
    case (FromClient data)
    then show ?thesis using Cons [of "c\<lparr>ch_closed := ch_closed c @ [refused]\<rparr>"] by (simp add: channel_event_def channel_close_def)
  qed (use Cons in \<open>simp_all add: channel_event_def\<close>)
qed simp

section \<open>The tunnel\<close>

fun client_pieces :: "channel_event list \<Rightarrow> string list" where
  "client_pieces [] = []"
| "client_pieces (FromClient data # evs) = data # client_pieces evs"
| "client_pieces (ev # evs) = client_pieces evs"

fun host_pieces :: "channel_event list \<Rightarrow> string list" where
  "host_pieces [] = []"
| "host_pieces (FromHost data # evs) = data # host_pieces evs"
| "host_pieces (ev # evs) = host_pieces evs"

text \<open>An answer that accepts: the word HTTP, the code 200, and no blank line before its end.\<close>

definition first_end :: "string \<Rightarrow> bool" where
  "first_end head \<longleftrightarrow> list_all (\<lambda>i. \<not> starts_with (drop i (head @ blank_line)) blank_line) [0..<length head]"

definition accepts :: "string \<Rightarrow> bool" where
  "accepts head \<longleftrightarrow> is_http head \<and> first_end head \<and>
     (case split_str '' '' head of v # code # r # rs \<Rightarrow> code = ''200'' | _ \<Rightarrow> False)"

lemma starts_with_longer: "length p \<le> length s \<Longrightarrow> starts_with (s @ t) p = starts_with s p"
  by (simp add: starts_with_def)

lemma split_first:
  assumes "first_end head"
  shows "split_str blank_line (head @ blank_line @ rest) = head # split_str blank_line rest"
  using assms
proof (induction head)
  case Nil
  then show ?case by (simp add: blank_line_def starts_with_def)
next
  case (Cons c head)
  have n: "\<not> starts_with ((c # head) @ blank_line) blank_line" "first_end head"
    using Cons.prems by (auto simp: first_end_def list_all_iff upt_conv_Cons simp del: upt_Suc dest: bspec [where x = "Suc i" for i])
  then have "\<not> starts_with (((c # head) @ blank_line) @ rest) blank_line" by (subst starts_with_longer) simp_all
  then show ?case using Cons.IH [OF n(2)] by simp
qed

lemma accepted:
  assumes "accepts head"
  shows "\<exists>v rs. split_str '' '' (head @ x) = v # ''200'' # rs" and "is_http (head @ x)" and "first_end head"
proof -
  obtain v r rs where sp: "split_str '' '' head = v # ''200'' # r # rs" using assms by (auto simp: accepts_def split: list.splits)
  then have "head = join '' '' (v # ''200'' # r # rs)" by (metis join_split_str)
  then have h: "head = v @ '' '' @ ''200'' @ '' '' @ join '' '' (r # rs)" by (simp add: join_Cons)
  have "CHR '' '' \<notin> set v" using split_str_no_sep [of v "CHR '' ''" head] sp by simp
  then have "split_str '' '' (head @ x) = v # split_str '' '' (''200'' @ '' '' @ join '' '' (r # rs) @ x)"
    unfolding h by (subst split_str_append [symmetric]) simp_all
  also have "\<dots> = v # ''200'' # split_str '' '' (join '' '' (r # rs) @ x)"
    by (subst split_str_append) simp_all
  finally show "\<exists>v rs. split_str '' '' (head @ x) = v # ''200'' # rs" by blast
  have "length (take 4 head) = 4" using assms by (auto simp: accepts_def is_http_def dest!: arg_cong [where f = length])
  then show "is_http (head @ x)" using assms by (simp add: accepts_def is_http_def)
  show "first_end head" using assms by (simp add: accepts_def)
qed

lemma strip_first:
  assumes "first_end head"
  shows "strip_head (head @ blank_line @ rest) = rest"
proof -
  obtain w ws where w: "split_str blank_line rest = w # ws" using split_str_not_Nil by (cases "split_str blank_line rest") auto
  show ?thesis unfolding strip_head_def split_first [OF assms] w by (simp add: blank_line_def)
qed

lemma py_int_200: "py_int ''200'' = Inr 200"
  by code_simp

lemma first_write:
  assumes "accepts head" and "\<not> tunnel_established c"
  shows "tunnel_write (head @ blank_line @ rest) c =
    (Inr (), c\<lparr>tunnel_established := True, ch_to_client := ch_to_client c @ [rest]\<rparr>)"
proof -
  obtain v rs where sp: "split_str '' '' (head @ blank_line @ rest) = v # ''200'' # rs" using accepted(1) [OF assms(1)] by blast
  show ?thesis
    using assms(2) accepted(2,3) [OF assms(1)] strip_first
    by (simp add: tunnel_write_def sp py_int_200 to_client_def del: split_str.simps)
qed

definition relayed :: "channel \<Rightarrow> string list \<Rightarrow> string list \<Rightarrow> channel \<Rightarrow> bool" where
  "relayed c up down d \<longleftrightarrow> ch_to_host d = ch_to_host c @ up \<and> ch_to_client d = ch_to_client c @ down \<and>
     ch_closed d = ch_closed c \<and> ch_connected d = ch_connected c"

lemma relays_established:
  "tunnel_established c \<Longrightarrow> \<exists>d. channel_events (TCPTunnel hp dst) evs c = (Inr (), d) \<and> relayed c (client_pieces evs) (host_pieces evs) d"
proof (induction evs arbitrary: c)
  case (Cons ev evs)
  let ?c = "case ev of FromClient x \<Rightarrow> c\<lparr>ch_to_host := ch_to_host c @ [x]\<rparr> | FromHost x \<Rightarrow> c\<lparr>ch_to_client := ch_to_client c @ [x]\<rparr>
     | Eof \<Rightarrow> c\<lparr>ch_lost := ch_lost c + 1\<rparr>"
  have "channel_event (TCPTunnel hp dst) ev c = (Inr (), ?c)"
    using Cons.prems by (cases ev) (simp_all add: channel_event_def tunnel_write_def to_client_def to_host_def lose_def)
  moreover obtain d where "channel_events (TCPTunnel hp dst) evs ?c = (Inr (), d)" "relayed ?c (client_pieces evs) (host_pieces evs) d"
    using Cons.IH [of ?c] Cons.prems by (cases ev) auto
  ultimately show ?case by (cases ev) (auto simp: relayed_def)
qed (simp add: relayed_def)

lemma relays:
  "\<not> tunnel_established c \<Longrightarrow> host_pieces evs = (head @ blank_line @ rest) # pieces \<Longrightarrow> accepts head \<Longrightarrow>
     \<exists>d. channel_events (TCPTunnel hp dst) evs c = (Inr (), d) \<and> relayed c (client_pieces evs) (rest # pieces) d"
proof (induction evs arbitrary: c)
  case (Cons ev evs)
  show ?case
  proof (cases ev)
    case (FromClient x)
    with Cons.IH [of "c\<lparr>ch_to_host := ch_to_host c @ [x]\<rparr>"] Cons.prems show ?thesis
      by (auto simp: channel_event_def to_host_def relayed_def)
  next
    case Eof
    with Cons.IH [of "c\<lparr>ch_lost := ch_lost c + 1\<rparr>"] Cons.prems show ?thesis
      by (auto simp: channel_event_def lose_def relayed_def)
  next
    case (FromHost x)
    let ?c = "c\<lparr>tunnel_established := True, ch_to_client := ch_to_client c @ [rest]\<rparr>"
    obtain d where "channel_events (TCPTunnel hp dst) evs ?c = (Inr (), d)" "relayed ?c (client_pieces evs) (host_pieces evs) d"
      using relays_established [of ?c hp dst evs] by auto
    then show ?thesis using Cons.prems FromHost first_write [OF Cons.prems(3,1)]
      by (auto simp: channel_event_def relayed_def)
  qed
qed simp

section \<open>Properties\<close>

text \<open>C11: Whatever a client asks to have forwarded and then sends: the only hosts reached are those of the configuration, by
  an enabled way whose last item for the port asked for names them, a redirection before a tunnel; otherwise
  nothing is connected, nothing passed in either direction, and no event raises.\<close>

theorem forward_targets:
  assumes "cowrieOpenConnectForwardingClient cfg hp = Inr ch"
  shows "case (configured (forward_redirect cfg) ''forward_redirect_'' (ssh_items cfg) (snd hp),
      configured (forward_tunnel cfg) ''forward_tunnel_'' (ssh_items cfg) (snd hp)) of
      (Some t, _) \<Rightarrow> ch = SSHConnect t
    | (None, Some t) \<Rightarrow> ch = TCPTunnel t hp
    | (None, None) \<Rightarrow> ch = FakeForwarding hp \<and> (case run_channel ch evs new_channel of (r, c) \<Rightarrow>
        r = Inr () \<and> \<not> ch_connected c \<and> ch_to_host c = [] \<and> ch_to_client c = [])"
proof -
  have quiet: "case run_channel (FakeForwarding hp) evs new_channel of (r, c) \<Rightarrow>
      r = Inr () \<and> \<not> ch_connected c \<and> ch_to_host c = [] \<and> ch_to_client c = []"
    using fake_silent [of hp evs new_channel] by (auto simp: run_channel_def channel_open_def new_channel_def)
  obtain r where r: "led_to (forward_redirect cfg) ''forward_redirect_'' (ssh_items cfg) (snd hp) = Inr r"
    using assms by (auto simp: cowrieOpenConnectForwardingClient_def py_simps)
  show ?thesis
  proof (cases r)
    case (Some t)
    with assms r show ?thesis
      using led_to_configured [OF r] by (auto simp: cowrieOpenConnectForwardingClient_def split: option.split)
  next
    case None
    then obtain t where t: "led_to (forward_tunnel cfg) ''forward_tunnel_'' (ssh_items cfg) (snd hp) = Inr t"
      using assms r by (auto simp: cowrieOpenConnectForwardingClient_def py_simps)
    with None assms r show ?thesis
      using led_to_configured [OF r, symmetric] led_to_configured [OF t, symmetric] quiet
      by (cases t) (simp_all add: cowrieOpenConnectForwardingClient_def)
  qed
qed

text \<open>A port that is not redirected: what either end sends goes nowhere.\<close>

theorem forward_targets_witness:
  "case run_channel (FakeForwarding (''victim'', 80)) [FromClient ''x'', FromHost ''y'', Eof] new_channel of (r, c) \<Rightarrow>
      r = Inr () \<and> \<not> ch_connected c \<and> ch_to_host c = [] \<and> ch_to_client c = []"
proof -
  let ?cfg = "\<lparr>forward_redirect = True, forward_tunnel = False, ssh_items = [(''forward_redirect_25'', ''mail:2525''), (''port'', ''22'')]\<rparr>"
  have "cowrieOpenConnectForwardingClient ?cfg (''victim'', 80) = Inr (FakeForwarding (''victim'', 80))"
    "configured True ''forward_redirect_'' (ssh_items ?cfg) 80 = None" "configured False ''forward_tunnel_'' (ssh_items ?cfg) 80 = None"
    by code_simp+
  from forward_targets [OF this(1), of "[FromClient ''x'', FromHost ''y'', Eof]"] this(2,3) show ?thesis by simp
qed

lemma ascii_str_int: "ascii (str_int i)"
proof -
  have "ascii (str_nat n)" for n
  proof -
    have "set (str_nat n) \<subseteq> set ''0123456789''" by (rule str_nat_digits)
    then have "\<forall>c \<in> set (str_nat n). ascii [c]" by (auto simp: ascii_def)
    then show ?thesis by (auto simp: ascii_def list_all_iff)
  qed
  then show ?thesis by (simp add: str_int_def ascii_def)
qed

text \<open>A tunnel whose proxy accepts in one piece with the code 200: whatever the order of the events, the host gets
  the request for the destination and then all pieces of the client, the client gets what followed the
  answer's blank line and then all pieces of the host, unchanged even if they look like an answer, and
  nothing closes or raises.\<close>

theorem tunnel_relays:
  assumes "accepts head" and "host_pieces evs = (head @ blank_line @ rest) # pieces" and "ascii (fst dst)"
  shows "case run_channel (TCPTunnel hp dst) evs new_channel of (r, c) \<Rightarrow> r = Inr () \<and> ch_connected c \<and>
    ch_to_host c = (''CONNECT '' @ fst dst @ '':'' @ str_int (snd dst) @ '' HTTP/1.1'' @ blank_line) # client_pieces evs \<and>
    ch_to_client c = rest # pieces \<and> ch_closed c = []"
proof -
  let ?dst = "fst dst @ '':'' @ str_int (snd dst)"
  let ?c = "new_channel\<lparr>ch_connected := True, ch_to_host := [''CONNECT '' @ ?dst @ '' HTTP/1.1'' @ blank_line]\<rparr>"
  have "ascii ?dst" using assms(3) ascii_str_int by (simp add: ascii_def)
  then have "channel_open (TCPTunnel hp dst) new_channel = (Inr (), ?c)"
    by (simp add: channel_open_def tunnel_channelOpen_def base_open_def to_host_def new_channel_def)
  moreover obtain d where "channel_events (TCPTunnel hp dst) evs ?c = (Inr (), d)" "relayed ?c (client_pieces evs) (rest # pieces) d"
    using relays [OF _ assms(2,1), of ?c hp dst] by (auto simp: new_channel_def)
  ultimately show ?thesis by (simp add: run_channel_def relayed_def new_channel_def)
qed

theorem tunnel_relays_witness:
  "ch_to_client (snd (run_channel (TCPTunnel (''proxy'', 3128) (''site'', 80))
     [FromClient ''GET'', FromHost (''HTTP/1.0 200 ok'' @ blank_line @ ''data''), FromHost ''HTTP/1.1 404'', Eof] new_channel)) =
     [''data'', ''HTTP/1.1 404'']"
proof -
  let ?evs = "[FromClient ''GET'', FromHost (''HTTP/1.0 200 ok'' @ blank_line @ ''data''), FromHost ''HTTP/1.1 404'', Eof]"
  have a: "accepts ''HTTP/1.0 200 ok''" "ascii (fst (''site'', 80::int))" by code_simp+
  have "host_pieces ?evs = (''HTTP/1.0 200 ok'' @ blank_line @ ''data'') # [''HTTP/1.1 404'']" by simp
  from tunnel_relays [OF a(1) this a(2), of "(''proxy'', 3128)"] show ?thesis by (simp split: prod.splits)
qed

end
