(* ===== verification/SftpFiles.thy ===== *)
theory SftpFiles
  imports HoneyFS Bytes Sha256 UserDb
begin

text \<open>
  Files over SFTP on the honeypot's own file system: \<open>cowrie/shell/filetransfer.py\<close>, and of \<open>shell/fs.py\<close> what it
  alone calls, \<open>open\<close>, \<open>write\<close>, \<open>lseek\<close> and \<open>close\<close> on files of the host. Those are names for contents, as
  in Unix: a file that is open keeps its contents when its name goes.
\<close>

section \<open>The host's files\<close>

record sftp_server =
  sf_fs :: honeyfs
  h_names :: "string \<rightharpoonup> nat"
  h_data :: "string list"
  h_fds :: "(nat \<times> nat \<times> nat \<times> bool) list"
  tempfiles :: "nat \<rightharpoonup> string"
  filenames :: "nat \<rightharpoonup> string"
  sf_session :: string
  uploads :: "(string \<times> string \<times> string) list"
  sf_files :: "(string \<times> nat option \<times> string option option \<times> nat) list"

type_synonym 'a sftp_py = "(sftp_server, 'a) py"

record sftp_env =
  download_path :: string
  time_stamp :: string
  sf_now :: int
  bytesReceivedLimit :: nat
  sf_home :: string
  host_cwd :: string
  sf_arch_file :: string
  passwd_text :: string
  group_text :: string

definition on_store :: "'a fs_py \<Rightarrow> 'a sftp_py" where
  "on_store m = (\<lambda>s. case m (sf_fs s) of (r, f) \<Rightarrow> (r, s\<lparr>sf_fs := f\<rparr>))"

definition host_read :: "sftp_server \<Rightarrow> string \<Rightarrow> string res" where
  "host_read s f = (case h_names s f of Some i \<Rightarrow> Inr (h_data s ! i) | None \<Rightarrow> Inl (OSError ENOENT))"

abbreviation O_CREAT :: int where "O_CREAT \<equiv> 0x40"
abbreviation O_EXCL :: int where "O_EXCL \<equiv> 0x80"
abbreviation O_TRUNC :: int where "O_TRUNC \<equiv> 0x200"
abbreviation O_APPEND :: int where "O_APPEND \<equiv> 0x400"
abbreviation EBADF :: int where "EBADF \<equiv> 9"

text \<open>The lowest number that is free; the first three are the daemon's own.\<close>

definition fresh_fd :: "sftp_server \<Rightarrow> nat" where
  "fresh_fd s = hd (filter (\<lambda>n. n \<notin> fst ` set (h_fds s)) [3..<4 + length (h_fds s)])"

definition new_fd :: "nat \<Rightarrow> int \<Rightarrow> nat sftp_py" where
  "new_fd i flags = py_bind py_get (\<lambda>s. py_bind (py_modify (\<lambda>s. s\<lparr>h_fds := (fresh_fd s, i, 0, flags AND O_APPEND \<noteq> 0) # h_fds s\<rparr>))
     (\<lambda>_. py_return (fresh_fd s)))"

definition os_open :: "string \<Rightarrow> int \<Rightarrow> nat sftp_py" where
  "os_open f flags = py_bind py_get (\<lambda>s. case h_names s f of
       None \<Rightarrow> if flags AND O_CREAT = 0 then py_raise (OSError ENOENT)
         else py_bind (py_modify (\<lambda>s. s\<lparr>h_names := (h_names s)(f \<mapsto> length (h_data s)), h_data := h_data s @ [[]]\<rparr>))
           (\<lambda>_. new_fd (length (h_data s)) flags)
     | Some i \<Rightarrow> if flags AND O_CREAT \<noteq> 0 \<and> flags AND O_EXCL \<noteq> 0 then py_raise (OSError EEXIST)
         else py_bind (if flags AND O_TRUNC \<noteq> 0 then py_modify (\<lambda>s. s\<lparr>h_data := (h_data s)[i := []]\<rparr>) else py_return ())
           (\<lambda>_. new_fd i flags))"

text \<open>Bytes between the end and a place beyond it are zero.\<close>

definition put_at :: "nat \<Rightarrow> string \<Rightarrow> string \<Rightarrow> string" where
  "put_at pos data old = take pos (old @ replicate (pos - length old) (CHR 0x00)) @ data @ drop (pos + length data) old"

definition os_write :: "nat \<Rightarrow> string \<Rightarrow> unit sftp_py" where
  "os_write fd data = py_bind py_get (\<lambda>s. case map_of (h_fds s) fd of
       None \<Rightarrow> py_raise (OSError EBADF)
     | Some (i, pos, app) \<Rightarrow> (let old = h_data s ! i; p = (if app then length old else pos) in
         py_modify (\<lambda>s. s\<lparr>h_data := (h_data s)[i := put_at p data old],
           h_fds := AList.update fd (i, p + length data, app) (h_fds s)\<rparr>)))"

definition os_lseek :: "nat \<Rightarrow> nat \<Rightarrow> unit sftp_py" where
  "os_lseek fd offset = py_bind py_get (\<lambda>s. case map_of (h_fds s) fd of
       None \<Rightarrow> py_raise (OSError EBADF)
     | Some (i, pos, app) \<Rightarrow> py_modify (\<lambda>s. s\<lparr>h_fds := AList.update fd (i, offset, app) (h_fds s)\<rparr>))"

definition os_close :: "nat \<Rightarrow> unit sftp_py" where
  "os_close fd = py_bind py_get (\<lambda>s. case map_of (h_fds s) fd of
       None \<Rightarrow> py_raise (OSError EBADF)
     | Some x \<Rightarrow> py_modify (\<lambda>s. s\<lparr>h_fds := AList.delete fd (h_fds s)\<rparr>))"

definition os_remove :: "string \<Rightarrow> unit sftp_py" where
  "os_remove f = py_bind py_get (\<lambda>s. if h_names s f = None then py_raise (OSError ENOENT)
     else py_modify (\<lambda>s. s\<lparr>h_names := (h_names s)(f := None)\<rparr>))"

definition os_rename :: "string \<Rightarrow> string \<Rightarrow> unit sftp_py" where
  "os_rename f g = py_bind py_get (\<lambda>s. case h_names s f of
       None \<Rightarrow> py_raise (OSError ENOENT)
     | Some i \<Rightarrow> py_modify (\<lambda>s. s\<lparr>h_names := ((h_names s)(f := None))(g \<mapsto> i)\<rparr>))"

section \<open>The file system's open files\<close>

definition letter_or_digit :: "char \<Rightarrow> bool" where
  "letter_or_digit c \<longleftrightarrow> c \<in> set ''0123456789ABCDEFGHIJKLMNOPQRSTUVWXYZabcdefghijklmnopqrstuvwxyz''"

definition sftp_hostfile :: "sftp_env \<Rightarrow> string \<Rightarrow> string" where
  "sftp_hostfile e filename = download_path e @ ''/'' @ time_stamp e @ ''_sftp_'' @
     map (\<lambda>c. if letter_or_digit c then c else CHR ''_'') (filter (\<lambda>c. \<not> continuation c) filename)"

text \<open>\<open>update_realfile(getfile(...), ...)\<close>: False, for a file that is not found, has no fields.\<close>

definition set_realfile :: "string \<Rightarrow> string \<Rightarrow> unit sftp_py" where
  "set_realfile filename f = py_bind (on_store (fs_getfile True filename)) (\<lambda>p. case p of
       None \<Rightarrow> py_raise TypeError
     | Some r \<Rightarrow> py_bind py_get (\<lambda>s. on_store (update_realfile (\<lambda>g. h_names s g \<noteq> None) r f)))"

text \<open>The host's permissions of the new file are left out.\<close>

definition fs_open :: "sftp_env \<Rightarrow> string \<Rightarrow> int \<Rightarrow> int \<Rightarrow> nat option sftp_py" where
  "fs_open e filename openFlags mode =
     (if openFlags AND 1 = 1 \<or> openFlags AND 2 = 2 then
       (let hostfile = sftp_hostfile e filename in
        py_bind (on_store (mkfile filename 0 0 0 (0x8000 OR mode) (sf_now e))) (\<lambda>_.
        py_bind (os_open hostfile openFlags) (\<lambda>fd.
        py_bind (set_realfile filename hostfile) (\<lambda>_.
        py_bind (py_modify (\<lambda>s. s\<lparr>tempfiles := (tempfiles s)(fd \<mapsto> hostfile), filenames := (filenames s)(fd \<mapsto> filename)\<rparr>)) (\<lambda>_.
        py_return (Some fd))))))
      else py_return None)"

definition fs_write :: "nat option \<Rightarrow> string \<Rightarrow> unit sftp_py" where
  "fs_write fd data = (case fd of None \<Rightarrow> py_raise TypeError | Some n \<Rightarrow> os_write n data)"

definition fs_lseek :: "nat option \<Rightarrow> nat \<Rightarrow> unit sftp_py" where
  "fs_lseek fd offset = (case fd of None \<Rightarrow> py_return () | Some n \<Rightarrow> if n = 0 then py_return () else os_lseek n offset)"

definition final_path :: "sftp_env \<Rightarrow> sftp_server \<Rightarrow> string \<Rightarrow> string" where
  "final_path e s filename = download_path e @ ''/session:'' @ sf_session s @ '':'' @ basename filename"

definition fs_close :: "sftp_env \<Rightarrow> nat option \<Rightarrow> unit sftp_py" where
  "fs_close e fd0 = (case fd0 of
       None \<Rightarrow> py_return ()
     | Some fd \<Rightarrow> if fd = 0 then py_return () else py_bind py_get (\<lambda>s. case (tempfiles s fd, filenames s fd) of
         (Some temp, Some filename) \<Rightarrow>
           py_bind (py_lift (host_read s temp)) (\<lambda>contents.
           let new_filepath = final_path e s filename in
           py_bind (if h_names s new_filepath \<noteq> None then os_remove temp else os_rename temp new_filepath) (\<lambda>_.
           py_bind (set_realfile filename new_filepath) (\<lambda>_.
           py_bind (py_modify (\<lambda>s. s\<lparr>uploads := uploads s @ [(basename filename, new_filepath, sha256_hex contents)],
             tempfiles := (tempfiles s)(fd := None), filenames := (filenames s)(fd := None)\<rparr>)) (\<lambda>_.
           os_close fd))))
       | _ \<Rightarrow> py_raise (KeyError [])))"

section \<open>Paths and attributes\<close>

text \<open>\<open>os.path.abspath(os.path.join(home, path))\<close>: two slashes at the start are kept, more are one.\<close>

definition os_join :: "string \<Rightarrow> string \<Rightarrow> string" where
  "os_join a b = (if starts_with b [slash] then b else if a = [] \<or> last a = slash then a @ b else a @ slash # b)"

definition os_abspath :: "string \<Rightarrow> string \<Rightarrow> string" where
  "os_abspath cwd p0 = (let p = os_join cwd p0 in
     (if starts_with p [slash, slash] \<and> \<not> starts_with p [slash, slash, slash] then [slash, slash] else [slash]) @
     join [slash] (resolve_pieces [] (split_str [slash] p)))"

text \<open>\<open>nativeString\<close> takes ASCII only, of bytes and of text.\<close>

definition absPath :: "sftp_env \<Rightarrow> string \<Rightarrow> string sftp_py" where
  "absPath e path = (if \<not> ascii (sf_home e) then py_raise ValueError
     else if \<not> ascii path then py_raise UnicodeDecodeError
     else py_return (os_abspath (host_cwd e) (os_join (sf_home e) path)))"

record sftp_attrs =
  at_size :: "int option"
  at_owner :: "(int \<times> int) option"
  at_permissions :: "int option"
  at_times :: "(int \<times> int) option"

definition if_given :: "'a option \<Rightarrow> ('a \<Rightarrow> unit sftp_py) \<Rightarrow> unit sftp_py" where
  "if_given v k = (case v of None \<Rightarrow> py_return () | Some a \<Rightarrow> k a)"

definition setAttrs_at :: "string \<Rightarrow> sftp_attrs \<Rightarrow> unit sftp_py" where
  "setAttrs_at path attrs =
     py_bind (if_given (at_owner attrs) (\<lambda>(uid, gid). on_store (chown path uid gid))) (\<lambda>_.
     py_bind (if_given (at_permissions attrs) (\<lambda>perm. on_store (chmod path perm))) (\<lambda>_.
     if_given (at_times attrs) (\<lambda>(atime, mtime). on_store (utime path mtime))))"

definition setAttrs :: "sftp_env \<Rightarrow> string \<Rightarrow> sftp_attrs \<Rightarrow> unit sftp_py" where
  "setAttrs e path attrs = py_bind (absPath e path) (\<lambda>p. setAttrs_at p attrs)"

section \<open>A file\<close>

definition openFlags_of :: "int \<Rightarrow> int" where
  "openFlags_of flags =
     (if flags AND 1 = 1 \<and> flags AND 2 = 0 then 0 else if flags AND 2 = 2 \<and> flags AND 1 = 0 then 1
      else if flags AND 2 = 2 \<and> flags AND 1 = 1 then 2 else 0) OR
     (if flags AND 4 = 4 then O_APPEND else 0) OR (if flags AND 8 = 8 then O_CREAT else 0) OR
     (if flags AND 16 = 16 then O_TRUNC else 0) OR (if flags AND 32 = 32 then O_EXCL else 0)"

text \<open>The constructor; the handle is the file's number. What is read is fetched when the file is opened.\<close>

definition CowrieSFTPFile :: "sftp_env \<Rightarrow> string \<Rightarrow> int \<Rightarrow> sftp_attrs \<Rightarrow> nat sftp_py" where
  "CowrieSFTPFile e filename flags attrs =
     (let filemode = (case at_permissions attrs of Some p \<Rightarrow> p | None \<Rightarrow> 511); left = attrs\<lparr>at_permissions := None\<rparr> in
      py_bind (fs_open e filename (openFlags_of flags) filemode) (\<lambda>fd.
      py_bind (if at_size left = None \<and> at_owner left = None \<and> at_times left = None then py_return () else setAttrs e filename left) (\<lambda>_.
      py_bind (if flags AND 1 = 1 then py_bind py_get (\<lambda>s. py_bind (on_store (file_contents (host_read s) (sf_arch_file e) filename))
          (\<lambda>c. py_return (Some c))) else py_return None) (\<lambda>contents.
      py_bind py_get (\<lambda>s. py_bind (py_modify (\<lambda>s. s\<lparr>sf_files := sf_files s @ [(filename, fd, contents, 0)]\<rparr>)) (\<lambda>_.
      py_return (length (sf_files s))))))))"

definition file_at :: "nat \<Rightarrow> (string \<times> nat option \<times> string option option \<times> nat) sftp_py" where
  "file_at h = py_bind py_get (\<lambda>s. py_return (sf_files s ! h))"

definition close_file :: "sftp_env \<Rightarrow> nat \<Rightarrow> unit sftp_py" where
  "close_file e h = py_bind (file_at h) (\<lambda>(filename, fd, contents, received).
     py_bind (if received > 0 then on_store (update_size filename (int received)) else py_return ()) (\<lambda>_. fs_close e fd))"

definition readChunk :: "nat \<Rightarrow> nat \<Rightarrow> nat \<Rightarrow> string sftp_py" where
  "readChunk h offset len = py_bind (file_at h) (\<lambda>(filename, fd, contents, received). case contents of
       None \<Rightarrow> py_raise (AttributeError ''contents'')
     | Some None \<Rightarrow> py_raise TypeError
     | Some (Some c) \<Rightarrow> py_return (take len (drop offset c)))"

text \<open>Bytes over the limit are counted too; once over it, always over it.\<close>

definition writeChunk :: "sftp_env \<Rightarrow> nat \<Rightarrow> nat \<Rightarrow> string \<Rightarrow> unit sftp_py" where
  "writeChunk e h offset data = py_bind (file_at h) (\<lambda>(filename, fd, contents, received).
     let n = received + length data in
     py_bind (py_modify (\<lambda>s. s\<lparr>sf_files := (sf_files s)[h := (filename, fd, contents, n)]\<rparr>)) (\<lambda>_.
     if bytesReceivedLimit e \<noteq> 0 \<and> n > bytesReceivedLimit e then py_raise (UserError ''SFTPError'')
     else py_bind (fs_lseek fd offset) (\<lambda>_. fs_write fd data)))"

section \<open>The server\<close>

definition openFile :: "sftp_env \<Rightarrow> string \<Rightarrow> int \<Rightarrow> sftp_attrs \<Rightarrow> nat sftp_py" where
  "openFile e filename flags attrs = py_bind (absPath e filename) (\<lambda>p. CowrieSFTPFile e p flags attrs)"

definition removeFile :: "sftp_env \<Rightarrow> string \<Rightarrow> unit sftp_py" where
  "removeFile e filename = py_bind (absPath e filename) (\<lambda>p. on_store (remove_file p))"

definition renameFile :: "sftp_env \<Rightarrow> string \<Rightarrow> string \<Rightarrow> unit sftp_py" where
  "renameFile e oldpath newpath = py_bind (absPath e oldpath) (\<lambda>p. py_bind (absPath e newpath) (\<lambda>q. on_store (rename p q)))"

definition makeDirectory :: "sftp_env \<Rightarrow> string \<Rightarrow> sftp_attrs \<Rightarrow> unit sftp_py" where
  "makeDirectory e path attrs = py_bind (absPath e path) (\<lambda>p. py_bind (on_store (mkdir2 p (sf_now e))) (\<lambda>_. setAttrs_at p attrs))"

definition removeDirectory :: "sftp_env \<Rightarrow> string \<Rightarrow> bool sftp_py" where
  "removeDirectory e path = py_bind (absPath e path) (\<lambda>p. on_store (rmdir p))"

definition getAttrs :: "sftp_env \<Rightarrow> string \<Rightarrow> bool \<Rightarrow> fs_stat sftp_py" where
  "getAttrs e path followLinks = py_bind (absPath e path) (\<lambda>p.
     on_store (if followLinks then stat_path (sf_now e) p else lstat (sf_now e) p))"

definition readLink :: "sftp_env \<Rightarrow> string \<Rightarrow> string option sftp_py" where
  "readLink e path = py_bind (absPath e path) (\<lambda>p. on_store (readlink p))"

definition makeLink :: "sftp_env \<Rightarrow> string \<Rightarrow> string \<Rightarrow> unit sftp_py" where
  "makeLink e linkPath targetPath = py_bind (absPath e linkPath) (\<lambda>_. py_bind (absPath e targetPath) (\<lambda>_. py_raise NotImplementedError))"

definition realPath :: "sftp_env \<Rightarrow> string \<Rightarrow> string sftp_py" where
  "realPath e path = absPath e path"

section \<open>A directory\<close>

text \<open>The names of owner and group are looked up in the files, which do not have those of new users.\<close>

record dir_entry =
  en_name :: string
  en_owner :: string
  en_group :: string
  en_attrs :: fs_stat

definition dir_entry_of :: "sftp_env \<Rightarrow> string \<Rightarrow> string \<Rightarrow> dir_entry sftp_py" where
  "dir_entry_of e f path = py_bind (on_store (lstat (sf_now e) path)) (\<lambda>s.
     py_bind (py_lift (getpwuid (Passwd_load (passwd_text e)) (st_uid s))) (\<lambda>u.
     py_bind (py_lift (bind_res (Group_load (group_text e)) (\<lambda>gs. getgrgid gs (st_gid s)))) (\<lambda>g.
     py_return \<lparr>en_name = f, en_owner = pw_name u, en_group = gr_name g, en_attrs = s\<rparr>)))"

definition openDirectory :: "sftp_env \<Rightarrow> string \<Rightarrow> (string list \<times> string) sftp_py" where
  "openDirectory e path = py_bind (absPath e path) (\<lambda>p. py_bind (on_store (listdir p)) (\<lambda>names. py_return ([''.'', ''..''] @ names, p)))"

definition parent_path :: "string \<Rightarrow> string" where
  "parent_path dir = slash # join [slash] (butlast (split_str [slash] (strip_space dir)))"

definition next_entry :: "sftp_env \<Rightarrow> string list \<times> string \<Rightarrow> dir_entry sftp_py" where
  "next_entry e d = (case d of (files, dir) \<Rightarrow> (case files of
       [] \<Rightarrow> py_raise (UserError ''StopIteration'')
     | f # fs \<Rightarrow> dir_entry_of e f (if f = ''..'' then parent_path dir else if f = ''.'' then dir else os_join dir f)))"

end
