(* ===== verification/SftpFilesProps.thy ===== *)
theory SftpFilesProps
  imports SftpFiles Redirection
begin

text \<open>
  What becomes of a file that a client uploads over SFTP: what the operator keeps, and what the attacker sees.
\<close>

section \<open>The store stays well formed\<close>

definition store_kept :: "sftp_server \<Rightarrow> sftp_server \<Rightarrow> bool" where
  "store_kept s t \<longleftrightarrow> (fs_inv (sf_fs s) \<longrightarrow> fs_inv (sf_fs t))"

lemma store_kept_order: "preorder_on_states store_kept"
  by (auto simp: preorder_on_states_def store_kept_def reflp_def transp_def)

lemma keeps_on_store: "keeps_fs m \<Longrightarrow> keeps store_kept (on_store m)"
  by (auto simp: keeps_def on_store_def store_kept_def split: prod.split)

lemma keeps_host: "(\<And>s. sf_fs (f s) = sf_fs s) \<Longrightarrow> keeps store_kept (py_modify f)"
  by (auto simp: keeps_def store_kept_def py_modify_def)

lemma keeps_creations: "keeps_fs (mkfile path uid gid z mode t)" "keeps_fs (mkdir2 path now)" "keeps_fs (rename oldpath newpath)"
  using fs_inv_mkfile fs_inv_mkdir2 fs_inv_rename by (auto simp: keeps_def)

lemmas store_intros = keeps_intros store_kept_order keeps_on_store keeps_host keeps_creations keeps_fs_setters keeps_fs_remove_file
  keeps_fs_rmdir keeps_fs_getfile

datatype sftp_request = Open string int sftp_attrs | Close nat | Read nat nat nat | Write nat nat string | Remove string | Rename string string
  | Mkdir string sftp_attrs | Rmdir string | SetStat string sftp_attrs | Stat string bool | ReadLink string | ReadDir string "string list \<times> string"

definition ignore_result :: "'a sftp_py \<Rightarrow> unit sftp_py" where
  "ignore_result m = py_bind m (\<lambda>_. py_return ())"

definition sftp_request :: "sftp_env \<Rightarrow> sftp_request \<Rightarrow> unit sftp_py" where
  "sftp_request e r = (case r of
       Open path flags attrs \<Rightarrow> ignore_result (openFile e path flags attrs)
     | Close h \<Rightarrow> close_file e h
     | Read h offset n \<Rightarrow> ignore_result (readChunk h offset n)
     | Write h offset data \<Rightarrow> writeChunk e h offset data
     | Remove path \<Rightarrow> removeFile e path
     | Rename oldpath newpath \<Rightarrow> renameFile e oldpath newpath
     | Mkdir path attrs \<Rightarrow> makeDirectory e path attrs
     | Rmdir path \<Rightarrow> ignore_result (removeDirectory e path)
     | SetStat path attrs \<Rightarrow> setAttrs e path attrs
     | Stat path follow \<Rightarrow> ignore_result (getAttrs e path follow)
     | ReadLink path \<Rightarrow> ignore_result (readLink e path)
     | ReadDir path d \<Rightarrow> py_bind (ignore_result (openDirectory e path)) (\<lambda>_. ignore_result (next_entry e d)))"

lemma keeps_store_readers: "keeps_fs (stat_of follow now path)" "keeps_fs (readlink path)" "keeps_fs (listdir path)"
    "keeps_fs (file_contents rd arch path)" "keeps_fs (update_realfile real r f)"
  unfolding stat_of_def readlink_def listdir_def file_contents_def update_realfile_def exists_path_def
  by (intro keeps_fs harmless_intros)+

lemmas os_defs = os_open_def new_fd_def os_write_def os_lseek_def os_close_def os_remove_def os_rename_def

lemma keeps_os: "keeps store_kept (os_open f flags)" "keeps store_kept (os_write fd data)" "keeps store_kept (os_lseek fd offset)"
    "keeps store_kept (os_close fd)" "keeps store_kept (os_remove f)" "keeps store_kept (os_rename f g)"
  unfolding os_defs Let_def by (intro store_intros; simp)+

lemma keeps_set_realfile: "keeps store_kept (set_realfile filename f)"
  unfolding set_realfile_def by (intro store_intros keeps_store_readers)

lemma keeps_fs_open: "keeps store_kept (fs_open e filename flags mode)"
  unfolding fs_open_def Let_def by (intro store_intros keeps_os keeps_set_realfile; simp)

lemma keeps_fs_close: "keeps store_kept (fs_close e fd)"
  unfolding fs_close_def Let_def by (intro store_intros keeps_os keeps_set_realfile; simp)

lemma keeps_absPath: "keeps store_kept (absPath e path)"
  unfolding absPath_def by (intro store_intros)

lemma keeps_setAttrs_at: "keeps store_kept (setAttrs_at path attrs)"
  unfolding setAttrs_at_def if_given_def by (intro store_intros)

lemma keeps_fs_write: "keeps store_kept (fs_lseek fd offset)" "keeps store_kept (fs_write fd data)"
  unfolding fs_lseek_def fs_write_def by (intro store_intros keeps_os)+

lemmas request_intros = keeps_fs_write store_intros keeps_os keeps_set_realfile keeps_fs_open keeps_fs_close keeps_absPath keeps_setAttrs_at keeps_store_readers

lemma keeps_file: "keeps store_kept (CowrieSFTPFile e filename flags attrs)"
  unfolding CowrieSFTPFile_def Let_def setAttrs_def by (intro request_intros; simp)

lemma keeps_entry: "keeps store_kept (dir_entry_of e f path)"
  unfolding dir_entry_of_def lstat_def by (intro request_intros)

lemma keeps_next_entry: "keeps store_kept (next_entry e d)"
proof (cases d)
  case (Pair files dir)
  then show ?thesis
    by (cases files) (simp_all add: next_entry_def keeps_entry keeps_raise [OF store_kept_order])
qed

text \<open>No request of a client damages the tree, whatever it raises.\<close>

lemma sftp_keeps_store: "keeps store_kept (sftp_request e r)"
proof (cases r)
  case (Open path flags attrs)
  then show ?thesis by (simp add: sftp_request_def ignore_result_def openFile_def) (intro request_intros keeps_file)
next
  case (Close h)
  then show ?thesis by (simp add: sftp_request_def close_file_def file_at_def) (intro request_intros)
next
  case (Read h offset n)
  then show ?thesis by (simp add: sftp_request_def ignore_result_def readChunk_def file_at_def) (intro request_intros)
next
  case (Write h offset data)
  then show ?thesis by (simp add: sftp_request_def writeChunk_def file_at_def Let_def) (intro request_intros; simp)
next
  case (ReadDir path d)
  then show ?thesis
    by (simp add: sftp_request_def ignore_result_def openDirectory_def) (intro request_intros keeps_next_entry)
qed (simp add: sftp_request_def ignore_result_def removeFile_def renameFile_def makeDirectory_def removeDirectory_def setAttrs_def getAttrs_def
    readLink_def stat_path_def lstat_def, intro request_intros)+

section \<open>Paths\<close>

lemma normal_file_names: "list_all normal_name ps \<Longrightarrow> list_all file_name ps"
  by (auto simp: list_all_iff normal_name_def)

lemma abspath_id:
  assumes "list_all normal_name ps"
  shows "os_abspath cwd (os_join home (abs_path ps)) = abs_path ps"
proof -
  have j: "os_join home (abs_path ps) = abs_path ps" for home by (simp add: os_join_def abs_path_def starts_with_def)
  have "\<not> starts_with (abs_path ps) [slash, slash]"
  proof (cases ps)
    case (Cons p qs)
    then have "p \<noteq> []" "slash \<notin> set p" using assms by (simp_all add: normal_name_def file_name_def)
    then show ?thesis using Cons by (cases p; cases qs) (auto simp: abs_path_def starts_with_def)
  qed (simp add: abs_path_def starts_with_def)
  moreover have "resolve_pieces [] (split_str [slash] (abs_path ps)) = ps"
    using resolve_pieces_id [OF assms, of "[]"] by (simp add: split_abs_path [OF normal_file_names [OF assms]])
  ultimately show ?thesis by (simp add: os_abspath_def j) (simp add: abs_path_def)
qed

section \<open>Open files\<close>

lemma fresh_fd: "fresh_fd s \<notin> fst ` set (h_fds s)" "3 \<le> fresh_fd s"
proof -
  let ?ns = "filter (\<lambda>n. n \<notin> fst ` set (h_fds s)) [3..<4 + length (h_fds s)]"
  have "?ns \<noteq> []"
  proof
    assume "?ns = []"
    then have "set [3..<4 + length (h_fds s)] \<subseteq> fst ` set (h_fds s)" by (auto simp: filter_empty_conv)
    then have "card (set [3..<4 + length (h_fds s)]) \<le> card (fst ` set (h_fds s))" by (intro card_mono) simp_all
    also have "\<dots> \<le> length (h_fds s)" by (metis card_image_le card_length finite_set le_trans)
    finally show False by simp
  qed
  then have "fresh_fd s \<in> set ?ns" unfolding fresh_fd_def by (rule hd_in_set)
  then show "fresh_fd s \<notin> fst ` set (h_fds s)" "3 \<le> fresh_fd s" by simp_all
qed

text \<open>A new file that is written to from its start.\<close>

definition opened :: "sftp_env \<Rightarrow> string \<Rightarrow> string \<Rightarrow> nat \<Rightarrow> honeyfs \<Rightarrow> sftp_server \<Rightarrow> sftp_server" where
  "opened e path data pos f s = s\<lparr>sf_fs := f, h_names := (h_names s)(sftp_hostfile e path \<mapsto> length (h_data s)), h_data := h_data s @ [data],
     h_fds := (fresh_fd s, length (h_data s), pos, False) # h_fds s, tempfiles := (tempfiles s)(fresh_fd s \<mapsto> sftp_hostfile e path),
     filenames := (filenames s)(fresh_fd s \<mapsto> path), sf_files := sf_files s @ [(path, Some (fresh_fd s), None, length data)]\<rparr>"

definition shown_as :: "string list \<Rightarrow> string \<Rightarrow> int \<Rightarrow> honeyfs \<Rightarrow> bool" where
  "shown_as ps f z s \<longleftrightarrow> 0 < frames s \<and> (\<exists>vs r. chain (nodes s) 0 ps vs r \<and> r < length (nodes s) \<and> A_TYPE (nodes s ! r) = T_FILE \<and>
     A_REALFILE (nodes s ! r) = Some f \<and> A_SIZE (nodes s ! r) = z)"

definition can_upload :: "sftp_env \<Rightarrow> string list \<Rightarrow> string \<Rightarrow> sftp_server \<Rightarrow> bool" where
  "can_upload e ps x s \<longleftrightarrow> fs_inv (sf_fs s) \<and> list_all normal_name ps \<and> normal_name x \<and> ascii (abs_path (ps @ [x])) \<and> ascii (sf_home e) \<and>
     (\<exists>vs d. chain (nodes (sf_fs s)) 0 ps vs d \<and> d \<notin> set vs \<and> distinct_names (nodes (sf_fs s)) d) \<and>
     newcount (sf_fs s) \<le> 10000 \<and> 0 < frames (sf_fs s) \<and> \<not> list_ex (starts_with (abs_path ps)) SPECIAL_PATHS \<and>
     h_names s (sftp_hostfile e (abs_path (ps @ [x]))) = None \<and> (\<forall>i \<in> ran (h_names s). i < length (h_data s)) \<and>
     final_path e s x \<noteq> sftp_hostfile e (abs_path (ps @ [x]))"

definition no_attrs :: sftp_attrs where
  "no_attrs = \<lparr>at_size = None, at_owner = None, at_permissions = None, at_times = None\<rparr>"

text \<open>The flags a client sends to write a new file: write, create and truncate.\<close>

definition WRITE_NEW :: int where
  "WRITE_NEW = 26"

lemma write_new_flags: "openFlags_of WRITE_NEW = 0x241" "WRITE_NEW AND 1 = 0" "(0x241::int) AND 1 = 1" "(0x241::int) AND O_CREAT \<noteq> 0"
    "(0x241::int) AND O_EXCL = 0" "(0x241::int) AND O_APPEND = 0" "(0x8000::int) OR 511 = 33279"
  by code_simp+

lemma getfile_shown: "shown_as ps f z s \<Longrightarrow> \<exists>r. getfile (frames s) (nodes s) True (abs_path ps) = Inr (Some r) \<and> r < length (nodes s) \<and>
    A_TYPE (nodes s ! r) = T_FILE \<and> A_REALFILE (nodes s ! r) = Some f \<and> A_SIZE (nodes s ! r) = z \<and> (\<exists>vs. chain (nodes s) 0 ps vs r)"
  unfolding shown_as_def using getfile_chain by blast

lemma opens:
  assumes c: "can_upload e ps x s"
  shows "\<exists>f. openFile e (abs_path (ps @ [x])) WRITE_NEW no_attrs s = (Inr (length (sf_files s)), opened e (abs_path (ps @ [x])) [] 0 f s) \<and>
    shown_as (ps @ [x]) (sftp_hostfile e (abs_path (ps @ [x]))) 0 f"
proof -
  define path where "path = abs_path (ps @ [x])"
  define h where "h = sftp_hostfile e path"
  obtain vs d where d: "chain (nodes (sf_fs s)) 0 ps vs d" "d \<notin> set vs" "distinct_names (nodes (sf_fs s)) d"
    using c by (auto simp: can_upload_def)
  have "file_name x" using c by (simp add: can_upload_def normal_name_def)
  moreover have "fs_inv (sf_fs s)" "newcount (sf_fs s) \<le> 10000" "\<not> list_ex (starts_with (abs_path ps)) SPECIAL_PATHS"
    using c by (simp_all add: can_upload_def)
  ultimately obtain t where t: "mkfile path 0 0 0 33279 (sf_now e) (sf_fs s) = (Inr True, t)"
    "chain (nodes t) 0 (ps @ [x]) (vs @ [d]) (length (nodes (sf_fs s)))"
    "nodes t ! length (nodes (sf_fs s)) = plain_node x T_FILE 0 0 0 33279 (sf_now e)" "frames t = frames (sf_fs s)"
    using mkfile_chain [OF _ d(1,2,3), of x 0 0 0 33279 "sf_now e"] unfolding path_def by metis
  let ?r = "length (nodes (sf_fs s))"
  have fr: "0 < frames t" using c t(4) by (simp add: can_upload_def)
  have g: "getfile (frames t) (nodes t) True path = Inr (Some ?r)" unfolding path_def using t(2) fr by (rule getfile_chain)
  have "fs_inv t" using fs_inv_mkfile [of "sf_fs s"] c t(1) by (metis can_upload_def snd_conv)
  then have r: "?r < length (nodes t)" using g by (auto simp: fs_inv_def dest: getfile_in_range)
  define f where "f = t\<lparr>nodes := (nodes t)[?r := (nodes t ! ?r)\<lparr>A_REALFILE := Some h\<rparr>]\<rparr>"
  have n: "h_names s h = None" using c by (simp add: can_upload_def h_def path_def)
  have p: "absPath e path s = (Inr path, s)"
    using c abspath_id [of "ps @ [x]" "host_cwd e" "sf_home e"] by (simp add: absPath_def can_upload_def path_def)
  let ?s1 = "s\<lparr>sf_fs := t, h_names := (h_names s)(h \<mapsto> length (h_data s)), h_data := h_data s @ [[]],
      h_fds := (fresh_fd s, length (h_data s), 0, False) # h_fds s\<rparr>"
  have o: "os_open h 0x241 (s\<lparr>sf_fs := t\<rparr>) = (Inr (fresh_fd s), ?s1)"
    using n write_new_flags(4,6) by (simp add: os_open_def new_fd_def fresh_fd_def)
  have u: "set_realfile path h ?s1 = (Inr (), ?s1\<lparr>sf_fs := f\<rparr>)"
    using g r t(3) by (simp add: set_realfile_def on_store_def update_realfile_def plain_node_def f_def)
  have "fs_open e path 0x241 511 s = (Inr (Some (fresh_fd s)), ?s1\<lparr>sf_fs := f, tempfiles := (tempfiles s)(fresh_fd s \<mapsto> h),
      filenames := (filenames s)(fresh_fd s \<mapsto> path)\<rparr>)"
    using o u t(1) write_new_flags(3,7) by (simp add: fs_open_def on_store_def h_def [symmetric] Let_def)
  then have "openFile e path WRITE_NEW no_attrs s = (Inr (length (sf_files s)), opened e path [] 0 f s)"
    using p write_new_flags(1,2) by (simp add: openFile_def CowrieSFTPFile_def no_attrs_def opened_def h_def Let_def)
  moreover have "chain (nodes f) 0 (ps @ [x]) (vs @ [d]) ?r"
    unfolding f_def using chain_set_node [OF t(2), where g = "\<lambda>n. n\<lparr>A_REALFILE := Some h\<rparr>"] by simp
  moreover have "?r < length (nodes f)" "A_TYPE (nodes f ! ?r) = T_FILE" "A_REALFILE (nodes f ! ?r) = Some h" "A_SIZE (nodes f ! ?r) = 0" "0 < frames f"
    using r t(3) fr by (simp_all add: f_def plain_node_def)
  ultimately have "shown_as (ps @ [x]) h 0 f" "openFile e path WRITE_NEW no_attrs s = (Inr (length (sf_files s)), opened e path [] 0 f s)"
    unfolding shown_as_def by blast+
  then show ?thesis unfolding path_def h_def by blast
qed

section \<open>Writing\<close>

lemma put_at_end: "put_at (length old) data old = old @ data"
  by (simp add: put_at_def)

lemma writes_chunk:
  assumes "bytesReceivedLimit e = 0 \<or> length data + length c \<le> bytesReceivedLimit e"
  shows "writeChunk e (length (sf_files s)) (length data) c (opened e path data pos f s) =
    (Inr (), opened e path (data @ c) (length data + length c) f s)"
  using assms fresh_fd(2) [of s]
  by (auto simp: writeChunk_def file_at_def opened_def fs_lseek_def fs_write_def os_lseek_def os_write_def put_at_end Let_def)

fun write_chunks :: "sftp_env \<Rightarrow> nat \<Rightarrow> nat \<Rightarrow> string list \<Rightarrow> unit sftp_py" where
  "write_chunks e h offset [] = py_return ()"
| "write_chunks e h offset (c # cs) = py_bind (writeChunk e h offset c) (\<lambda>_. write_chunks e h (offset + length c) cs)"

lemma writes_chunks:
  "bytesReceivedLimit e = 0 \<or> length data + length (concat cs) \<le> bytesReceivedLimit e \<Longrightarrow>
     \<exists>pos'. write_chunks e (length (sf_files s)) (length data) cs (opened e path data pos f s) = (Inr (), opened e path (data @ concat cs) pos' f s)"
proof (induction cs arbitrary: data pos)
  case (Cons c cs)
  then have "writeChunk e (length (sf_files s)) (length data) c (opened e path data pos f s) =
      (Inr (), opened e path (data @ c) (length data + length c) f s)"
    by (intro writes_chunk) auto
  moreover have "bytesReceivedLimit e = 0 \<or> length (data @ c) + length (concat cs) \<le> bytesReceivedLimit e" using Cons.prems by auto
  from Cons.IH [OF this, of "length data + length c"] obtain pos' where
    "write_chunks e (length (sf_files s)) (length data + length c) cs (opened e path (data @ c) (length data + length c) f s) =
       (Inr (), opened e path (data @ c @ concat cs) pos' f s)" by auto
  ultimately show ?case by auto
qed auto

section \<open>Closing\<close>

definition host_file :: "sftp_server \<Rightarrow> string \<Rightarrow> string option" where
  "host_file s f = (case host_read s f of Inr c \<Rightarrow> Some c | Inl x \<Rightarrow> None)"

lemma sized:
  assumes f: "shown_as ps h 0 f" and "z = 0 \<or> 0 < z"
  shows "\<exists>g. (if 0 < z then update_size (abs_path ps) z else py_return ()) f = (Inr (), g) \<and> shown_as ps h z g \<and> frames g = frames f"
proof (cases "0 < z")
  case True
  obtain r vs where r: "getfile (frames f) (nodes f) True (abs_path ps) = Inr (Some r)" "r < length (nodes f)" "A_TYPE (nodes f ! r) = T_FILE"
    "A_REALFILE (nodes f ! r) = Some h" "chain (nodes f) 0 ps vs r" using getfile_shown [OF f] by blast
  let ?g = "f\<lparr>nodes := (nodes f)[r := (nodes f ! r)\<lparr>A_SIZE := z\<rparr>]\<rparr>"
  have "chain (nodes ?g) 0 ps vs r" using chain_set_node [OF r(5), where g = "\<lambda>n. n\<lparr>A_SIZE := z\<rparr>"] by simp
  moreover have "r < length (nodes ?g)" "A_TYPE (nodes ?g ! r) = T_FILE" "A_REALFILE (nodes ?g ! r) = Some h" "A_SIZE (nodes ?g ! r) = z"
    "0 < frames ?g" using r f by (simp_all add: shown_as_def)
  ultimately have "shown_as ps h z ?g" unfolding shown_as_def by blast
  then show ?thesis using True r(1,3) by (simp add: update_size_def)
qed (use assms in auto)

lemma keeps_realfile:
  assumes "shown_as ps h z (sf_fs s)" and "h \<noteq> []"
  shows "set_realfile (abs_path ps) g s = (Inr (), s)"
proof -
  obtain r where r: "getfile (frames (sf_fs s)) (nodes (sf_fs s)) True (abs_path ps) = Inr (Some r)" "A_REALFILE (nodes (sf_fs s) ! r) = Some h"
    using getfile_shown [OF assms(1)] by blast
  have "s\<lparr>sf_fs := (sf_fs s)\<lparr>nodes := (nodes (sf_fs s))[r := nodes (sf_fs s) ! r]\<rparr>\<rparr> = s" by simp
  moreover have "s\<lparr>sf_fs := sf_fs s\<rparr> = s" by simp
  ultimately show ?thesis using r assms(2) by (simp add: set_realfile_def on_store_def update_realfile_def)
qed

text \<open>The state after the file is closed: its name is the final one, unless that was taken.\<close>

definition closed :: "sftp_env \<Rightarrow> string \<Rightarrow> string \<Rightarrow> honeyfs \<Rightarrow> sftp_server \<Rightarrow> sftp_server" where
  "closed e path data f s = s\<lparr>sf_fs := f,
     h_names := (if h_names s (final_path e s path) = None then (h_names s)(final_path e s path \<mapsto> length (h_data s)) else h_names s),
     h_data := h_data s @ [data], tempfiles := (tempfiles s)(fresh_fd s := None), filenames := (filenames s)(fresh_fd s := None),
     uploads := uploads s @ [(basename path, final_path e s path, sha256_hex data)],
     sf_files := sf_files s @ [(path, Some (fresh_fd s), None, length data)]\<rparr>"

lemma closes:
  assumes f: "shown_as ps (sftp_hostfile e (abs_path ps)) 0 f" and n: "h_names s (sftp_hostfile e (abs_path ps)) = None"
    and ne: "final_path e s (abs_path ps) \<noteq> sftp_hostfile e (abs_path ps)"
  shows "\<exists>g. close_file e (length (sf_files s)) (opened e (abs_path ps) data pos f s) = (Inr (), closed e (abs_path ps) data g s) \<and>
    shown_as ps (sftp_hostfile e (abs_path ps)) (int (length data)) g"
proof -
  let ?path = "abs_path ps" and ?h = "sftp_hostfile e (abs_path ps)" and ?z = "int (length data)"
  obtain g where g: "(if 0 < ?z then update_size ?path ?z else py_return ()) f = (Inr (), g)" "shown_as ps ?h ?z g"
    using sized [OF f, of ?z] by auto
  let ?o = "opened e ?path data pos g s" and ?new = "final_path e s ?path"
  have h: "?h \<noteq> []" by (simp add: sftp_hostfile_def)
  have size: "(if 0 < length data then on_store (update_size ?path ?z) else py_return ()) (opened e ?path data pos f s) = (Inr (), ?o)"
    using g(1) by (simp add: on_store_def opened_def split: if_splits)
  have read: "host_read ?o ?h = Inr data" by (simp add: host_read_def opened_def)
  have fp: "final_path e ?o ?path = ?new" by (simp add: final_path_def opened_def)
  have fd: "fresh_fd s \<noteq> 0" using fresh_fd(2) [of s] by simp
  define w where "w = (if h_names s ?new = None then (h_names s)(?new \<mapsto> length (h_data s)) else h_names s)"
  have undo: "(h_names s)(?h := None) = h_names s" using n by auto
  have move: "(if h_names ?o ?new \<noteq> None then os_remove ?h else os_rename ?h ?new) ?o = (Inr (), ?o\<lparr>h_names := w\<rparr>)"
    using ne undo by (simp add: opened_def os_remove_def os_rename_def w_def)
  have real: "set_realfile ?path ?new (?o\<lparr>h_names := w\<rparr>) = (Inr (), ?o\<lparr>h_names := w\<rparr>)"
    using g(2) h by (intro keeps_realfile [where h = ?h and z = ?z]) (simp_all add: opened_def)
  have "fs_close e (Some (fresh_fd s)) ?o = (Inr (), closed e ?path data g s)"
  proof -
    have tf: "tempfiles ?o (fresh_fd s) = Some ?h" "filenames ?o (fresh_fd s) = Some ?path" by (simp_all add: opened_def)
    have "fs_close e (Some (fresh_fd s)) ?o = py_bind (py_modify (\<lambda>s'. s'\<lparr>uploads := uploads s' @ [(basename ?path, ?new, sha256_hex data)],
        tempfiles := (tempfiles s')(fresh_fd s := None), filenames := (filenames s')(fresh_fd s := None)\<rparr>)) (\<lambda>_. os_close (fresh_fd s))
        (?o\<lparr>h_names := w\<rparr>)"
      using tf fd read move real by (simp add: fs_close_def fp Let_def)
    also have "\<dots> = (Inr (), closed e ?path data g s)"
      using fresh_fd(1) [of s] by (simp add: opened_def closed_def os_close_def w_def delete_id fun_upd_idem image_iff)
    finally show ?thesis .
  qed
  then have "close_file e (length (sf_files s)) (opened e ?path data pos f s) = (Inr (), closed e ?path data g s)"
    using size by (simp add: close_file_def file_at_def) (simp add: opened_def)
  then show ?thesis using g(2) by blast
qed

section \<open>Property\<close>

definition upload :: "sftp_env \<Rightarrow> string \<Rightarrow> string list \<Rightarrow> unit sftp_py" where
  "upload e path cs = py_bind (openFile e path WRITE_NEW no_attrs) (\<lambda>h. py_bind (write_chunks e h 0 cs) (\<lambda>_. close_file e h))"

lemma basename_plain: "file_name x \<Longrightarrow> basename x = x"
proof -
  assume "file_name x"
  then have "takeWhile (\<lambda>c. c \<noteq> slash) (rev x) = rev x" by (auto simp: file_name_def takeWhile_eq_all_conv)
  then show ?thesis by (simp only: basename_def rev_rev_ident)
qed

lemma uploaded:
  assumes c: "can_upload e ps x s" and l: "bytesReceivedLimit e = 0 \<or> length (concat cs) \<le> bytesReceivedLimit e"
  shows "\<exists>g. upload e (abs_path (ps @ [x])) cs s = (Inr (), closed e (abs_path (ps @ [x])) (concat cs) g s) \<and>
    shown_as (ps @ [x]) (sftp_hostfile e (abs_path (ps @ [x]))) (int (length (concat cs))) g"
proof -
  let ?path = "abs_path (ps @ [x])"
  obtain f where f: "openFile e ?path WRITE_NEW no_attrs s = (Inr (length (sf_files s)), opened e ?path [] 0 f s)"
    "shown_as (ps @ [x]) (sftp_hostfile e ?path) 0 f" using opens [OF c] by blast
  obtain pos where w: "write_chunks e (length (sf_files s)) 0 cs (opened e ?path [] 0 f s) = (Inr (), opened e ?path (concat cs) pos f s)"
    using writes_chunks [of e "[]" cs s ?path 0 f] l by auto
  have x: "file_name x" "list_all file_name ps" using c by (auto simp: can_upload_def normal_name_def intro: normal_file_names)
  have "basename ?path = x" "basename x = x" using path_of_entry [OF x(2,1)] basename_plain [OF x(1)] by simp_all
  then have "final_path e s ?path \<noteq> sftp_hostfile e ?path" using c by (simp add: can_upload_def final_path_def)
  moreover have "h_names s (sftp_hostfile e ?path) = None" using c by (simp add: can_upload_def)
  ultimately obtain g where "close_file e (length (sf_files s)) (opened e ?path (concat cs) pos f s) = (Inr (), closed e ?path (concat cs) g s)"
    "shown_as (ps @ [x]) (sftp_hostfile e ?path) (int (length (concat cs))) g"
    using closes [OF f(2)] by blast
  with f(1) w show ?thesis by (intro exI [of _ g]) (simp add: upload_def)
qed

text \<open>C10: A file uploaded over SFTP to a plain name in a directory, in any pieces within the limit: the operator keeps exactly its
  bytes under the session's number and the name, with their hash logged, unless a file with that name was
  uploaded in the session before, whatever its directory: then the new one is deleted. The attacker sees the
  size, but reading the file raises, because it still refers to the temporary name.\<close>

theorem uploads_kept:
  assumes "can_upload e ps x s" and "bytesReceivedLimit e = 0 \<or> length (concat cs) \<le> bytesReceivedLimit e"
  shows "case upload e (abs_path (ps @ [x])) cs s of
      (Inl z, t) \<Rightarrow> False
    | (Inr u, t) \<Rightarrow>
        host_file t (final_path e s x) = Some (case host_file s (final_path e s x) of None \<Rightarrow> concat cs | Some old \<Rightarrow> old) \<and>
        host_file t (sftp_hostfile e (abs_path (ps @ [x]))) = None \<and> h_fds t = h_fds s \<and>
        uploads t = uploads s @ [(x, final_path e s x, sha256_hex (concat cs))] \<and>
        (case stat_path 0 (abs_path (ps @ [x])) (sf_fs t) of
           (Inr st, _) \<Rightarrow> st_size st = int (length (concat cs)) | (Inl z, _) \<Rightarrow> False) \<and>
        fst (file_contents (host_read t) (sf_arch_file e) (abs_path (ps @ [x])) (sf_fs t)) = Inl (OSError ENOENT)"
proof -
  let ?path = "abs_path (ps @ [x])" and ?new = "final_path e s x" and ?h = "sftp_hostfile e (abs_path (ps @ [x]))"
  obtain g where g: "upload e ?path cs s = (Inr (), closed e ?path (concat cs) g s)" "shown_as (ps @ [x]) ?h (int (length (concat cs))) g"
    using uploaded [OF assms] by blast
  let ?t = "closed e ?path (concat cs) g s"
  have x: "file_name x" "list_all file_name ps" "list_all normal_name (ps @ [x])"
    using assms(1) by (auto simp: can_upload_def normal_name_def intro: normal_file_names)
  have b: "basename ?path = x" "final_path e s ?path = ?new"
    using path_of_entry [OF x(2,1)] basename_plain [OF x(1)] by (simp_all add: final_path_def)
  have c: "h_names s ?h = None" "?new \<noteq> ?h" "\<And>i. h_names s ?new = Some i \<Longrightarrow> i < length (h_data s)"
    using assms(1) by (auto simp: can_upload_def ran_def)
  have kept: "host_file ?t ?new = Some (case host_file s ?new of None \<Rightarrow> concat cs | Some old \<Rightarrow> old)"
    using c(3) by (cases "h_names s ?new") (simp_all add: host_file_def host_read_def closed_def b nth_append)
  have gone: "host_read ?t ?h = Inl (OSError ENOENT)" using c(1,2) by (simp add: host_read_def closed_def b)
  obtain r where r: "getfile (frames g) (nodes g) True ?path = Inr (Some r)" "A_TYPE (nodes g ! r) = T_FILE" "A_REALFILE (nodes g ! r) = Some ?h"
    "A_SIZE (nodes g ! r) = int (length (concat cs))" using getfile_shown [OF g(2)] by blast
  have "?h \<noteq> []" by (simp add: sftp_hostfile_def)
  then have "fst (file_contents (host_read ?t) (sf_arch_file e) ?path g) = Inl (OSError ENOENT)"
    using r gone by (simp add: file_contents_def resolve_abs [OF x(3)] exists_path_def)
  moreover have "?path \<noteq> [slash]"
    using x(1) by (simp add: abs_path_snoc file_name_def) (simp add: abs_path_def)
  ultimately show ?thesis
    using g(1) r kept gone b by (simp add: host_file_def stat_path_def stat_of_def) (simp add: closed_def b)
qed

text \<open>A second file of the same name, in another directory than the first: only the first one is kept.\<close>

definition ex_sftp_env :: sftp_env where
  "ex_sftp_env = \<lparr>download_path = ''dl'', time_stamp = ''1'', sf_now = 5, bytesReceivedLimit = 0, sf_home = ''/root'', host_cwd = ''/'',
     sf_arch_file = ''arch'', passwd_text = [], group_text = []\<rparr>"

definition ex_server :: sftp_server where
  "ex_server = \<lparr>sf_fs = ex_fs, h_names = [''dl/session:s1:x'' \<mapsto> 0], h_data = [''first''], h_fds = [], tempfiles = Map.empty,
     filenames = Map.empty, sf_session = ''s1'', uploads = [], sf_files = []\<rparr>"

theorem uploads_kept_witness:
  "host_file (snd (upload ex_sftp_env ''/tmp/x'' [''sec'', ''ond''] ex_server)) ''dl/session:s1:x'' = Some ''first''"
proof -
  have p: "abs_path ([''tmp''] @ [''x'']) = ''/tmp/x''" "final_path ex_sftp_env ex_server ''x'' = ''dl/session:s1:x''"
    "sftp_hostfile ex_sftp_env ''/tmp/x'' = ''dl/1_sftp__tmp_x''" by code_simp+
  have ch: "chain (nodes ex_fs) 0 [''tmp''] [0] 1" "distinct_names (nodes ex_fs) 1"
    using ex_chain by (simp_all add: ex_fs_def) code_simp
  have sp: "\<not> list_ex (starts_with (abs_path [''tmp''])) SPECIAL_PATHS" "list_all normal_name [''tmp'']" "normal_name ''x''"
    "ascii ''/tmp/x''" "ascii (sf_home ex_sftp_env)" "newcount ex_fs \<le> 10000" "0 < frames ex_fs" by code_simp+
  have "can_upload ex_sftp_env [''tmp''] ''x'' ex_server"
    using ex_fs_inv sp p ch by (auto simp: can_upload_def ex_server_def intro!: exI [of _ "[0]"] exI [of _ 1])
  moreover have "bytesReceivedLimit ex_sftp_env = 0 \<or> length (concat [''sec'', ''ond'']) \<le> bytesReceivedLimit ex_sftp_env"
    by (simp add: ex_sftp_env_def)
  moreover have "host_file ex_server ''dl/session:s1:x'' = Some ''first''" by code_simp
  ultimately show ?thesis
    using uploads_kept [of ex_sftp_env "[''tmp'']" "''x''" ex_server "[''sec'', ''ond'']"] p by (auto split: prod.splits sum.splits)
qed

end
