(* ===== verification/Spec2Isabelle.thy ===== *)
theory Spec2Isabelle
  imports SipServerProps LogWriter HttpServer PoolProtocolProps HoneyFSFacts TelnetProxyProps SshTerminalProps
    SshProxyProps SftpSessionProps ShlexProps HoneyShellRuns Redirection Recordings SavedFiles SshLinkProps LogOutputsProps
    CatShows EchoDrops LsProps SshPackets TelnetLogin IptablesProps Forwarding SftpFilesProps
begin

text \<open>
  A model of VoIPHoneypot: the SIP honeypot (\<open>src/src/*.py\<close>), the SSH and telnet honeypot it runs beside
  (\<open>src/cowrie/src/cowrie\<close>) and the pool of virtual machines that one uses
  (\<open>src/cowrie/src/backend_pool\<close>). Paths below are under \<open>src/src\<close>, \<open>cowrie\<close> or \<open>backend_pool\<close>.

  \<^bold>\<open>How the parts interact.\<close> A SIP datagram or connection reaches a server, which hands it to a user agent
  with its calls; what the agent reports is completed by the server and put on the log's queue, which a
  thread writes to the plugins. An SSH or telnet session either ends in the emulated shell, whose commands
  work on a fake file system, or is passed on by a proxy to a machine that a client of the pool's
  protocol requested; the login decisions are the same for both.

  \<^bold>\<open>Conventions.\<close> \<open>Prelude\<close> has Python's exceptions as a datatype, results that may raise, and methods as
  functions from a state to a result and the state left behind (\<open>py\<close>; what was changed before a raise stays
  changed); the locale \<open>transition_system\<close>, whose interpretations carry the invariants; and a collection of
  introduction rules for relations a method keeps. Text is the list of its UTF-8 bytes. Python's numbers
  are \<open>int\<close> or \<open>nat\<close>, those of MD5 32-bit words, and those a packet holds are cut and checked as
  \<open>struct\<close> does (\<open>Bytes\<close>). A class is a record, a method a function with the method's name.

  \<^bold>\<open>SIP.\<close>
  \<^item> \<open>SipSession\<close>: the call object of \<open>sipsession.py\<close> and the shipped \<open>config.json\<close>.
  \<^item> \<open>VoipClient\<close>: \<open>voipclient.py\<close>, header parser, every request's handler and the dispatcher; \<open>Md5\<close> computes
    the digest of RFC 1321 and checks UTF-8. \<open>VoipProps\<close> shows that parsing undoes printing, which answers a
    request gets, that calls stay in the states the protocol allows; \<open>VoipAnswers\<close> has the properties.
  \<^item> \<open>SipServer\<close>: \<open>sip_server.py\<close>, TCP and UDP, the sessions of addresses and their expiry. \<open>SipServerProps\<close>:
    the invariant over all interleavings, complete log entries, expiry.
  \<^item> \<open>LogWriter\<close>: \<open>logger/\<close>, the queue, the writer's turns and the plugins: order, and that a stop drains.
  \<^item> \<open>HttpServer\<close>: \<open>http_server.py\<close>, the decoy pages.

  \<^bold>\<open>Emulated shell.\<close>
  \<^item> \<open>Shlex\<close>: \<open>shell/shlex.py\<close>, the lexer's character loop, \<open>split\<close> and \<open>quote\<close>; \<open>ShlexProps\<close> their round trip.
  \<^item> \<open>HoneyFS\<close>: \<open>shell/fs.py\<close>, a graph of nodes whose directories name their children, with an identity per
    node because the code shares and copies them; \<open>HoneyFSProps\<close> and \<open>HoneyFSFacts\<close> show that every
    operation keeps the graph well formed, and what paths and lookups do.
  \<^item> \<open>Getopt\<close>, \<open>ShellCommand\<close>: the standard library's option parser and the base class \<open>shell/command.py\<close> with
    redirected output; \<open>FsCommands\<close>: \<open>commands/fs.py\<close>. \<open>FsCommandsProps\<close> shows that no command damages the
    store and which ones always end; \<open>FsReading\<close> compares \<open>head\<close> and \<open>tail\<close> with their specification;
    \<open>FsErrors\<close> and \<open>Redirection\<close> the errors and the files that redirections leave.
  \<^item> \<open>TextCommands\<close>: \<open>echo\<close>, \<open>printf\<close>, \<open>whoami\<close>, \<open>id\<close> and \<open>chmod\<close> of \<open>commands/base.py\<close>, and \<open>cat\<close>, \<open>wc\<close>, \<open>base64\<close>,
    \<open>chpasswd\<close> and \<open>which\<close>; \<open>TextCommandsProps\<close> shows that they leave the store well formed and where they part
    from the programs they imitate, \<open>EchoDrops\<close> that a program spelled with \<open>echo\<close> arrives byte for byte,
    \<open>CatShows\<close> what \<open>cat\<close> shows.
  \<^item> \<open>Ls\<close>: \<open>commands/ls.py\<close>, columns and long lines; \<open>LsProps\<close>: the words printed are the visible names in order, no
    line is wider than the window, and the letters of a long line determine the mode.
  \<^item> \<open>Iptables\<close>: \<open>commands/iptables.py\<close> over the option parser of \<open>Optparse\<close>; \<open>IptablesProps\<close> reduces any history of
    runs to the set of tables that root has flushed.
  \<^item> \<open>SftpFiles\<close>: \<open>shell/filetransfer.py\<close> and the open files of \<open>shell/fs.py\<close>, with the host's files below them;
    \<open>SftpFilesProps\<close>: no request damages the store, and what is kept and shown of an upload.
  \<^item> \<open>SessionRecorder\<close>: \<open>insults/insults.py\<close>, the sessions that record, the redirected files that they share
    and the files of the host; \<open>TtyLog\<close> and \<open>Sha256\<close> the records of \<open>core/ttylog.py\<close> and the hash that names
    them. \<open>SessionRecorderProps\<close> separates the sessions' names; \<open>RecordedSession\<close> and \<open>SavedFiles\<close> show what
    a session's end keeps.
  \<^item> \<open>HoneyShell\<close>: \<open>shell/honeypot.py\<close> and \<open>shell/protocol.py\<close>, tokens to commands, variables and substitution,
    pipes, the stack of running commands. \<open>HoneyShellProps\<close> gives a line's meaning as a sequence of pipelines
    and shows that the shell does that for any commands that return; \<open>HoneyShellRuns\<close> instantiates the
    commands with those of \<open>FsCommands\<close>, by an interpretation of \<open>keeping_commands\<close>.

  \<^bold>\<open>Logins and proxies.\<close>
  \<^item> \<open>UserAuth\<close>: \<open>core/auth.py\<close> and the password checker; \<open>UserAuthProps\<close> the random admission.
  \<^item> \<open>SshTransport\<close>: \<open>ssh/transport.py\<close>, the honeypot's own end of SSH, over a state of Twisted's that stays
    abstract; \<open>SshTransportProps\<close> shows that the pieces in which bytes arrive do not matter, \<open>SshPackets\<close> that
    the messages sent are those another reader gets, and what a client's fingerprint covers.
  \<^item> \<open>TelnetLogin\<close>: \<open>telnet/transport.py\<close> and \<open>telnet/userauth.py\<close>, the prompts and the login as a system of
    events, with what becomes of lines typed at any time.
  \<^item> \<open>UserDb\<close>: \<open>shell/pwd.py\<close>, \<open>shell/avatar.py\<close>, \<open>shell/session.py\<close> and \<open>telnet/session.py\<close>, the users of the emulated
    machine and which of them a login becomes.
  \<^item> \<open>Forwarding\<close>: \<open>ssh/forwarding.py\<close>, the hosts a forwarded connection may reach and the tunnel through a proxy.
  \<^item> \<open>TelnetProxy\<close>: \<open>telnet_proxy/handler.py\<close>; \<open>TelnetProxyProps\<close> that typed passwords do not pass.
  \<^item> \<open>SshTerminal\<close>, \<open>SftpSession\<close>, \<open>SshProxy\<close>: \<open>ssh_proxy/protocols/\<close>, the terminal's line, the SFTP session with
    its reassembly, and the packets with the channels they open; the theories with \<open>Props\<close> show a
    refinement of a line editor, reassembly, and which packets are passed on, held back or answered.
    \<open>Recordings\<close>: what the proxies' sessions leave as recordings.
  \<^item> \<open>SshLink\<close>: \<open>ssh_proxy/server_transport.py\<close>, \<open>client_transport.py\<close> and \<open>userauth.py\<close>, the connections to the
    attacker and to the machine as one state; \<open>SshLinkProps\<close>: whatever the order of events, packets reach
    the parser once, in order, and only after both logins.

  \<^bold>\<open>Events.\<close>
  \<^item> \<open>EventLog\<close>: \<open>core/output.py\<close>, an event is decoded, completed, attributed to the connection with its
    number and handed to a plugin, which may change it; \<open>LogOutputs\<close>: the plugins \<open>textlog\<close>, \<open>jsonlog\<close> and
    \<open>localsyslog\<close> with \<open>core/cef.py\<close> and the dump of Python's \<open>json\<close>. \<open>EventLogProps\<close> refines the dispatcher
    to a map from numbers to connections in a locale for plugins, \<open>event_writer\<close>, which
    \<open>LogOutputsProps\<close> interprets for the text and the system log; the JSON log breaks its law.

  \<^bold>\<open>Machines.\<close>
  \<^item> \<open>VmPool\<close>: \<open>pool_service.py\<close> and the state of its libvirt back end; \<open>VmPoolProps\<close>, \<open>VmPoolSafety\<close> and
    \<open>VmPoolRace\<close>: guests' identifiers and states, the policy of a request, separation of attackers, and
    producer and consumers interleaved at the lock.
  \<^item> \<open>PoolProtocol\<close>: \<open>pool_server.py\<close>, \<open>nat.py\<close> and \<open>pool_interface/client.py\<close>; \<open>PoolProtocolProps\<close> that the two
    ends understand each other, and what becomes of the ports.

  \<^bold>\<open>Parameters.\<close> What is outside the repository is an argument: clocks, random numbers, UUIDs, Twisted's
  write and, for the SSH transport, its base class, dateutil's difference, libvirt, nmap, what floats print as, and
  whether a regular expression matches. \<open>deepcopy\<close>, \<open>getopt\<close>, \<open>optparse\<close>, \<open>os.path\<close>, \<open>struct\<close>, \<open>json.dump\<close>, \<open>crc32\<close>, \<open>hashlib.md5\<close> and \<open>sha256\<close> are modelled;
  the host's files are a parameter, or a map from names to contents where the program writes them.

  \<^bold>\<open>Bounds.\<close> A store's \<open>frames\<close> bound the links a lookup follows, as the interpreter's stack does: running
  out raises RecursionError. The shell's commands call one another (the end of one starts the next), so
  \<open>run_task\<close> has frames too; \<open>line_frames\<close> is enough for any line whose commands return, which the
  properties on lines show. The lexer and the parser of lines recurse on measures of the text left.
  A guest's address is sought 500 times, as in the code. Everything else terminates by its structure.

  \<^bold>\<open>Not modelled.\<close> The factories, channels and sessions of SSH and telnet wire classes of Twisted Conch to those
  modelled here, and the chaining of telnet's negotiations works on its option state. Libvirt's XML,
  snapshot files and the clients that probe machines call third-party code,
  as do the packet rewriting of OSfooler and the output plugins that feed databases and services. \<open>rtp_stream.py\<close> is an
  unused stub whose imports are missing. Of the shell, completion with the tab key and timeouts are left out, and the
  wildcards of paths, whose code nothing calls; of the commands those that download or print fixed text.
\<close>

end
